(* ===== verification/AP_Prelude.thy ===== *)
theory AP_Prelude
  imports Main "HOL-Library.Word" "HOL-Library.Sublist"
begin

text \<open>
  Shared vocabulary of the development: the machine integers of the C sources, byte buffers,
  the bounded loops of the BPF programs (\<^verbatim>\<open>bpf_loop\<close> and \<^verbatim>\<open>for\<close> loops
  with early exit), label masks read as sets of bits, and the generic lemmas the components use.
\<close>

unbundle bit_operations_syntax

named_theorems c_defs \<open>definitions of the model that symbolic execution unfolds\<close>
named_theorems mask_simps \<open>label masks read as sets of bit positions\<close>

section \<open>Machine integers and buffers\<close>

type_synonym u8 = "8 word"
type_synonym u32 = "32 word"
type_synonym u64 = "64 word"

text \<open>\<^verbatim>\<open>pid_t\<close>, \<^verbatim>\<open>int\<close> file descriptors and \<^verbatim>\<open>int\<close> return codes
  keep their 32 bits; a signed comparison reads them with \<^const>\<open>sint\<close>.\<close>

type_synonym pid_t = "32 word"
type_synonym s32 = "32 word"
type_synonym bytes = "u8 list"

text \<open>A byte of a buffer. Reading past the modelled end yields 0, which is what
  \<^verbatim>\<open>bpf_probe_read_kernel\<close> leaves in its zeroed destination when it faults.\<close>

definition rd :: "bytes \<Rightarrow> nat \<Rightarrow> u8" where
  "rd b i = (if i < length b then b ! i else 0)"

text \<open>The C string held in a buffer: the bytes before the first NUL.\<close>

definition cstr :: "bytes \<Rightarrow> bytes" where
  "cstr b = takeWhile (\<lambda>c. c \<noteq> 0) b"

text \<open>A buffer of \<open>n\<close> bytes holding a string: cut to fit, then NUL-padded.\<close>

definition padded :: "nat \<Rightarrow> bytes \<Rightarrow> bytes" where
  "padded n s = take n s @ replicate (n - length s) 0"

text \<open>NUL-padded: nothing but NULs after the first NUL.\<close>

definition nul_padded :: "bytes \<Rightarrow> bool" where
  "nul_padded b \<longleftrightarrow> (\<forall>c \<in> set (dropWhile (\<lambda>c. c \<noteq> 0) b). c = 0)"

definition str_bytes :: "string \<Rightarrow> bytes" where
  "str_bytes s = map of_char s"

section \<open>Bounded loops\<close>

text \<open>A loop over given indices whose body returns whether to stop, and the new state.\<close>

fun loop_on :: "nat list \<Rightarrow> (nat \<Rightarrow> 'c \<Rightarrow> bool \<times> 'c) \<Rightarrow> 'c \<Rightarrow> 'c" where
  "loop_on [] cb c = c"
| "loop_on (i # is) cb c =
     (case cb i c of (stop, c') \<Rightarrow> if stop then c' else loop_on is cb c')"

text \<open>The kernel's \<^verbatim>\<open>bpf_loop\<close>: it runs the callback on \<open>0, \<dots>, nr - 1\<close> until the
  callback returns 1, and refuses (\<^verbatim>\<open>-E2BIG\<close>, no iteration) more than
  \<^verbatim>\<open>BPF_MAX_LOOPS\<close> iterations.\<close>

abbreviation (input) BPF_MAX_LOOPS :: nat where
  "BPF_MAX_LOOPS \<equiv> 8388608"

definition bpf_loop :: "u32 \<Rightarrow> (nat \<Rightarrow> 'c \<Rightarrow> bool \<times> 'c) \<Rightarrow> 'c \<Rightarrow> 'c" where
  "bpf_loop nr cb c = (if BPF_MAX_LOOPS < unat nr then c else loop_on [0..<unat nr] cb c)"

text \<open>The mask of bit \<open>i\<close>, \<^verbatim>\<open>1ULL << i\<close>.\<close>

definition bit64 :: "nat \<Rightarrow> u64" where
  "bit64 i = push_bit i 1"

definition bit32 :: "nat \<Rightarrow> u32" where
  "bit32 i = push_bit i 1"

section \<open>Buffers\<close>

lemma rd_nth [simp]: "i < length b \<Longrightarrow> rd b i = b ! i"
  by (simp add: rd_def)

lemma rd_beyond [simp]: "length b \<le> i \<Longrightarrow> rd b i = 0"
  by (simp add: rd_def)

lemma rd_take: "i < n \<Longrightarrow> rd (take n b) i = rd b i"
  by (auto simp: rd_def)

lemma rd_eq_nth: "i < length b \<Longrightarrow> rd b i = b ! i"
  by simp

lemma length_padded [simp]: "length (padded n s) = n"
  by (simp add: padded_def)

lemma cstr_no_nul: "c \<in> set (cstr b) \<Longrightarrow> c \<noteq> 0"
  by (auto simp: cstr_def dest: set_takeWhileD)

lemma length_cstr_le: "length (cstr b) \<le> length b"
  by (simp add: cstr_def length_takeWhile_le)

lemma cstr_eq_take: "cstr b = take (length (cstr b)) b"
  by (simp add: cstr_def takeWhile_eq_take [symmetric])

lemma nth_cstr: "i < length (cstr b) \<Longrightarrow> cstr b ! i = b ! i"
  by (simp add: cstr_def takeWhile_nth)

lemma cstr_append_nul: "(\<forall>c \<in> set s. c \<noteq> 0) \<Longrightarrow> cstr (s @ replicate n 0) = s"
  unfolding cstr_def by (induction s) (auto intro: takeWhile_eq_Nil_iff [THEN iffD2] simp: takeWhile_replicate)

lemma cstr_padded:
  assumes "\<forall>c \<in> set s. c \<noteq> 0" and "length s \<le> n"
  shows "cstr (padded n s) = s"
  using assms by (simp add: padded_def cstr_append_nul)

lemma rd_end_of_cstr: "rd b (length (cstr b)) = 0"
proof (cases "length (cstr b) < length b")
  case True
  then show ?thesis
    using nth_length_takeWhile [of "\<lambda>c. c \<noteq> 0" b] by (simp add: cstr_def)
qed simp

lemma rd_cstr: "i < length (cstr b) \<Longrightarrow> rd b i = cstr b ! i"
  using length_cstr_le [of b] by (simp add: nth_cstr)

lemma nul_padded_split:
  assumes "nul_padded b"
  shows "b = cstr b @ replicate (length b - length (cstr b)) 0"
proof -
  let ?rest = "dropWhile (\<lambda>c. c \<noteq> 0) b"
  have b: "b = cstr b @ ?rest"
    by (simp add: cstr_def)
  have "replicate (length ?rest) 0 = ?rest"
    using assms unfolding nul_padded_def by (rule replicate_length_same)
  moreover have "length (cstr b) + length ?rest = length b"
    by (simp add: cstr_def flip: length_append)
  then have "length ?rest = length b - length (cstr b)"
    by linarith
  ultimately show ?thesis
    using b by metis
qed

lemma rd_nul_padded:
  assumes "nul_padded b"
  shows "rd b i = (if i < length (cstr b) then cstr b ! i else 0)"
proof -
  have b: "b = cstr b @ replicate (length b - length (cstr b)) 0"
    by (rule nul_padded_split [OF assms])
  show ?thesis
  proof (cases "i < length (cstr b)")
    case True
    then show ?thesis by (simp add: rd_cstr)
  next
    case False
    then have "rd (cstr b @ replicate (length b - length (cstr b)) 0) i = 0"
      by (auto simp: rd_def nth_append)
    with b False show ?thesis by simp
  qed
qed

lemma nul_padded_padded: "\<forall>c \<in> set s. c \<noteq> 0 \<Longrightarrow> nul_padded (padded n s)"
proof -
  assume "\<forall>c \<in> set s. c \<noteq> 0"
  then have "\<forall>c \<in> set (take n s). c \<noteq> 0"
    by (meson in_set_takeD)
  then have "dropWhile (\<lambda>c. c \<noteq> 0) (padded n s) = replicate (n - length s) 0"
    by (simp add: padded_def dropWhile_append2)
  then show ?thesis
    by (simp add: nul_padded_def)
qed

section \<open>Loops\<close>

lemma loop_on_append:
  "loop_on (is @ js) cb c =
     (let (stop, c') = loop_on is (\<lambda>i (b, c). case cb i c of (s, c') \<Rightarrow> (s, (s, c'))) (False, c)
      in if stop then c' else loop_on js cb c')"
  by (induction "is" arbitrary: c) (auto split: prod.splits)

lemma loop_on_fold:
  assumes "\<And>i c. i \<in> set is \<Longrightarrow> cb i c = (False, f i c)"
  shows "loop_on is cb c = fold f is c"
  using assms by (induction "is" arbitrary: c) auto

lemma loop_on_inv:
  assumes "P c" and "\<And>i c. i \<in> set is \<Longrightarrow> P c \<Longrightarrow> P (snd (cb i c))"
  shows "P (loop_on is cb c)"
  using assms
proof (induction "is" arbitrary: c)
  case (Cons i "is")
  have "P (snd (cb i c))" by (rule Cons.prems(2)) (use Cons.prems(1) in auto)
  then show ?case
    by (cases "cb i c") (auto intro!: Cons.IH Cons.prems(2))
qed simp

lemma loop_on_cong:
  assumes "\<And>i c. i \<in> set is \<Longrightarrow> cb i c = cb' i c"
  shows "loop_on is cb c = loop_on is cb' c"
  using assms by (induction "is" arbitrary: c) (auto split: prod.splits)

text \<open>A loop run through a change of state representation.\<close>

lemma loop_on_sim:
  assumes "\<And>i c. i \<in> set is \<Longrightarrow> cb' i (h c) = map_prod id h (cb i c)"
  shows "loop_on is cb' (h c) = h (loop_on is cb c)"
  using assms by (induction "is" arbitrary: c) (auto split: prod.splits)

text \<open>A \<^verbatim>\<open>for\<close> loop to a constant bound that breaks at \<open>i \<ge> n\<close> runs to \<open>n\<close>.\<close>

lemma loop_on_until:
  assumes "n \<le> b"
  shows "loop_on [a..<b] (\<lambda>i s. if n \<le> i then (True, s) else f i s) s = loop_on [a..<n] f s"
proof (induction "b - a" arbitrary: a s)
  case 0
  then show ?case using assms by simp
next
  case (Suc k)
  then have up: "[a..<b] = a # [Suc a..<b]" by (simp add: upt_conv_Cons)
  show ?case
  proof (cases "n \<le> a")
    case False
    then have "[a..<n] = a # [Suc a..<n]" by (simp add: upt_conv_Cons)
    then show ?thesis
      unfolding up using False Suc(1) [of "Suc a"] Suc(2) by (auto split: prod.splits)
  qed (simp add: up)
qed

lemma bpf_loop_inv:
  assumes "P c" and "\<And>i c. P c \<Longrightarrow> P (snd (cb i c))"
  shows "P (bpf_loop nr cb c)"
  using assms by (simp add: bpf_loop_def loop_on_inv)

lemma bpf_loop_fold:
  assumes "unat nr \<le> BPF_MAX_LOOPS"
    and "\<And>i c. i < unat nr \<Longrightarrow> cb i c = (False, f i c)"
  shows "bpf_loop nr cb c = fold f [0..<unat nr] c"
  using assms by (auto simp: bpf_loop_def intro!: loop_on_fold)

lemma fold_or_mask:
  fixes g :: "'b \<Rightarrow> 'a::len word"
  shows "fold (\<lambda>x m. m OR g x) xs m = m OR fold (\<lambda>x m. m OR g x) xs 0"
proof (induction xs arbitrary: m)
  case (Cons x xs)
  show ?case
    using Cons [of "m OR g x"] Cons [of "g x"] by (simp add: or.assoc)
qed simp

section \<open>Label masks as sets of bits\<close>

definition bits_of :: "'a::len word \<Rightarrow> nat set" where
  "bits_of w = {i. bit w i}"

lemma bits_of_inject [mask_simps]: "bits_of v = bits_of w \<longleftrightarrow> v = w"
  by (metis bits_of_def bit_eqI mem_Collect_eq)

lemma bits_of_0 [simp, mask_simps]: "bits_of 0 = {}"
  by (simp add: bits_of_def)

lemma bits_of_or [simp, mask_simps]: "bits_of (v OR w) = bits_of v \<union> bits_of w"
  by (auto simp: bits_of_def bit_or_iff)

lemma bits_of_and [simp, mask_simps]: "bits_of (v AND w) = bits_of v \<inter> bits_of w"
  by (auto simp: bits_of_def bit_and_iff)

lemma bits_of_and_not [simp, mask_simps]: "bits_of (v AND NOT w) = bits_of v - bits_of w"
  by (auto simp: bits_of_def bit_simps dest: bit_imp_le_length)

lemma and_not_eq_0_iff: "v AND NOT w = 0 \<longleftrightarrow> bits_of v \<subseteq> bits_of w"
  by (metis Diff_eq_empty_iff bits_of_0 bits_of_and_not bits_of_inject)

lemma and_eq_self_iff: "v AND w = w \<longleftrightarrow> bits_of w \<subseteq> bits_of v"
  by (metis Int_absorb1 bits_of_and bits_of_inject inf_le1)

lemma and_eq_0_iff: "v AND w = 0 \<longleftrightarrow> bits_of v \<inter> bits_of w = {}"
  by (metis bits_of_0 bits_of_and bits_of_inject)

lemma word_eq_0_iff_bits: "w = 0 \<longleftrightarrow> bits_of w = {}"
  by (metis bits_of_0 bits_of_inject)

lemma bits_of_bound: "i \<in> bits_of (w :: 'a::len word) \<Longrightarrow> i < LENGTH('a)"
  by (simp add: bits_of_def bit_imp_le_length)

lemma bits_of_bit64 [simp]: "i < 64 \<Longrightarrow> bits_of (bit64 i) = {i}"
  by (auto simp: bits_of_def bit64_def bit_simps)

lemma and_bit64: "i < 64 \<Longrightarrow> w AND bit64 i = 0 \<longleftrightarrow> i \<notin> bits_of w"
  by (simp add: and_eq_0_iff)

lemma bit64_inject [simp]: "i < 64 \<Longrightarrow> j < 64 \<Longrightarrow> bit64 i = bit64 j \<longleftrightarrow> i = j"
  by (metis bits_of_bit64 singleton_inject)

lemma bit64_nonzero [simp]: "i < 64 \<Longrightarrow> bit64 i \<noteq> 0"
  by (metis bits_of_0 bits_of_bit64 insert_not_empty)

lemma word_or_eq_0 [simp]: "(v :: 'a::len word) OR w = 0 \<longleftrightarrow> v = 0 \<and> w = 0"
  by (metis bits_of_0 bits_of_inject bits_of_or sup_eq_bot_iff)

lemma word_xor_eq_0 [simp]: "(v :: 'a::len word) XOR w = 0 \<longleftrightarrow> v = w"
proof
  assume x: "v XOR w = 0"
  show "v = w"
  proof (rule bit_word_eqI)
    fix n
    have "bit (v XOR w) n = bit (0 :: 'a word) n" by (simp only: x)
    then show "bit v n = bit w n" by (simp add: bit_xor_iff)
  qed
qed simp

lemma word_or_idem [simp]: "(w :: 'a::len word) OR w = w"
  by simp


section \<open>Small words\<close>

lemma unat_word_of_int_small: "0 \<le> n \<Longrightarrow> n < 2 ^ 32 \<Longrightarrow> unat (word_of_int n :: u32) = nat n"
  by (simp add: unat_eq_nat_uint uint_word_of_int)

lemma unat_of_nat_u32: "n < 2 ^ 32 \<Longrightarrow> unat (of_nat n :: u32) = n"
  by (simp add: unat_of_nat)


section \<open>Growth: an invariant and a preorder kept by every step\<close>

locale growth =
  fixes ok :: "'s \<Rightarrow> bool"
    and grows :: "'s \<Rightarrow> 's \<Rightarrow> bool"
  assumes grows_refl: "grows s s"
    and grows_trans: "grows s t \<Longrightarrow> grows t u \<Longrightarrow> grows s u"
begin

definition keeps :: "('s \<Rightarrow> 's) \<Rightarrow> bool" where
  "keeps f \<longleftrightarrow> (\<forall>s. ok s \<longrightarrow> ok (f s) \<and> grows s (f s))"

lemma keepsI: "(\<And>s. ok s \<Longrightarrow> ok (f s)) \<Longrightarrow> (\<And>s. ok s \<Longrightarrow> grows s (f s)) \<Longrightarrow> keeps f"
  by (simp add: keeps_def)

lemma keeps_ok: "keeps f \<Longrightarrow> ok s \<Longrightarrow> ok (f s)"
  by (simp add: keeps_def)

lemma keeps_grows: "keeps f \<Longrightarrow> ok s \<Longrightarrow> grows s (f s)"
  by (simp add: keeps_def)

lemma keeps_id: "keeps (\<lambda>s. s)"
  by (simp add: keeps_def grows_refl)

lemma keeps_comp: "keeps f \<Longrightarrow> keeps g \<Longrightarrow> keeps (\<lambda>s. g (f s))"
  unfolding keeps_def by (blast intro: grows_trans)

lemma keeps_if: "keeps f \<Longrightarrow> keeps g \<Longrightarrow> keeps (\<lambda>s. if P s then f s else g s)"
  by (simp add: keeps_def)

lemma keeps_fold: "(\<And>x. keeps (f x)) \<Longrightarrow> keeps (fold f xs)"
proof (induction xs)
  case Nil
  then show ?case by (simp add: keeps_id id_def)
next
  case (Cons x xs)
  from keeps_comp [OF Cons.prems Cons.IH [OF Cons.prems]] show ?case
    by (simp add: comp_def)
qed

lemma loop_grows:
  assumes "\<And>i s. ok s \<Longrightarrow> ok (snd (cb i s)) \<and> grows s (snd (cb i s))" and "ok s"
  shows "ok (loop_on is cb s) \<and> grows s (loop_on is cb s)"
  using assms(2)
proof (induction "is" arbitrary: s)
  case Nil
  then show ?case by (simp add: grows_refl)
next
  case (Cons i "is")
  then have o: "ok (snd (cb i s))" and g: "grows s (snd (cb i s))"
    using assms(1) by auto
  from Cons.IH [OF o] g o show ?case
    by (cases "cb i s") (auto intro: grows_trans)
qed

end

end
