(* ===== verification/Bpf_Map.thy ===== *)
theory Bpf_Map
  imports AP_Prelude
begin

text \<open>
  The BPF maps the programs keep their state in, as the kernel helpers expose them.
  A hash map (\<^verbatim>\<open>BPF_MAP_TYPE_HASH\<close>) has a capacity: an update of a new key fails with
  \<^verbatim>\<open>-E2BIG\<close> once \<^verbatim>\<open>max_entries\<close> keys are stored, and most callers in the sources ignore that
  return value, so the model keeps the failure. An array map always holds every index below
  \<^verbatim>\<open>max_entries\<close>. The locale \<open>kv_map\<close> is the contract the components rely on.
\<close>

section \<open>Hash maps\<close>

record ('k, 'v) bpf_hash =
  max_entries :: nat
  ents :: "'k \<rightharpoonup> 'v"
  used :: nat

datatype map_flag = BPF_ANY | BPF_NOEXIST | BPF_EXIST

abbreviation (input) EEXIST :: int where "EEXIST \<equiv> 17"
abbreviation (input) ENOENT :: int where "ENOENT \<equiv> 2"
abbreviation (input) E2BIG :: int where "E2BIG \<equiv> 7"

definition hash_new :: "nat \<Rightarrow> ('k, 'v) bpf_hash" where
  "hash_new n = \<lparr>max_entries = n, ents = Map.empty, used = 0\<rparr>"

definition map_lookup :: "('k, 'v) bpf_hash \<Rightarrow> 'k \<Rightarrow> 'v option" where
  "map_lookup m k = ents m k"

text \<open>Whether an update of \<open>k\<close> finds a slot: the key is there, or the map is not full.\<close>

definition room :: "('k, 'v) bpf_hash \<Rightarrow> 'k \<Rightarrow> bool" where
  "room m k \<longleftrightarrow> ents m k \<noteq> None \<or> used m < max_entries m"

text \<open>\<^verbatim>\<open>bpf_map_update_elem\<close> with its return code.\<close>

definition map_update_elem ::
  "map_flag \<Rightarrow> 'k \<Rightarrow> 'v \<Rightarrow> ('k, 'v) bpf_hash \<Rightarrow> int \<times> ('k, 'v) bpf_hash" where
  "map_update_elem fl k v m =
     (case ents m k of
        Some _ \<Rightarrow> if fl = BPF_NOEXIST then (- EEXIST, m)
                  else (0, m\<lparr>ents := (ents m)(k \<mapsto> v)\<rparr>)
      | None \<Rightarrow> if fl = BPF_EXIST then (- ENOENT, m)
                else if used m < max_entries m
                then (0, m\<lparr>ents := (ents m)(k \<mapsto> v), used := Suc (used m)\<rparr>)
                else (- E2BIG, m))"

text \<open>An update whose return value the caller drops.\<close>

definition map_put :: "'k \<Rightarrow> 'v \<Rightarrow> ('k, 'v) bpf_hash \<Rightarrow> ('k, 'v) bpf_hash" where
  "map_put k v m = snd (map_update_elem BPF_ANY k v m)"

text \<open>\<^verbatim>\<open>bpf_map_delete_elem\<close>.\<close>

definition map_delete :: "'k \<Rightarrow> ('k, 'v) bpf_hash \<Rightarrow> ('k, 'v) bpf_hash" where
  "map_delete k m =
     (case ents m k of
        None \<Rightarrow> m
      | Some _ \<Rightarrow> m\<lparr>ents := (ents m)(k := None), used := used m - 1\<rparr>)"

text \<open>Writing through the pointer a lookup returned (\<^verbatim>\<open>p->labels |= add\<close>).\<close>

definition map_modify :: "'k \<Rightarrow> ('v \<Rightarrow> 'v) \<Rightarrow> ('k, 'v) bpf_hash \<Rightarrow> ('k, 'v) bpf_hash" where
  "map_modify k f m =
     (case ents m k of None \<Rightarrow> m | Some v \<Rightarrow> m\<lparr>ents := (ents m)(k \<mapsto> f v)\<rparr>)"

text \<open>The invariant the kernel keeps: the element count is the number of keys, within capacity.\<close>

definition wf_hash :: "('k, 'v) bpf_hash \<Rightarrow> bool" where
  "wf_hash m \<longleftrightarrow> finite (dom (ents m)) \<and> used m = card (dom (ents m)) \<and> used m \<le> max_entries m"

text \<open>At least \<open>n\<close> more keys fit.\<close>

definition has_slots :: "nat \<Rightarrow> ('k, 'v) bpf_hash \<Rightarrow> bool" where
  "has_slots n m \<longleftrightarrow> used m + n \<le> max_entries m"

section \<open>Array maps\<close>

record 'v bpf_array =
  a_max :: nat
  a_cell :: "nat \<Rightarrow> 'v"

definition arr_lookup :: "'v bpf_array \<Rightarrow> nat \<Rightarrow> 'v option" where
  "arr_lookup a i = (if i < a_max a then Some (a_cell a i) else None)"

definition arr_update :: "nat \<Rightarrow> 'v \<Rightarrow> 'v bpf_array \<Rightarrow> int \<times> 'v bpf_array" where
  "arr_update i v a =
     (if i < a_max a then (0, a\<lparr>a_cell := (a_cell a)(i := v)\<rparr>) else (- E2BIG, a))"

section \<open>The contract of a key-value map\<close>

locale kv_map =
  fixes lookup :: "'m \<Rightarrow> 'k \<Rightarrow> 'v option"
    and put :: "'k \<Rightarrow> 'v \<Rightarrow> 'm \<Rightarrow> 'm"
    and delete :: "'k \<Rightarrow> 'm \<Rightarrow> 'm"
    and fits :: "'m \<Rightarrow> 'k \<Rightarrow> bool"
    and invar :: "'m \<Rightarrow> bool"
  assumes put_lookup: "lookup (put k v m) k' = (if k' = k \<and> fits m k then Some v else lookup m k')"
    and delete_lookup: "lookup (delete k m) k' = (if k' = k then None else lookup m k')"
    and fits_present: "lookup m k \<noteq> None \<Longrightarrow> fits m k"
    and put_invar: "invar m \<Longrightarrow> invar (put k v m)"
    and delete_invar: "invar m \<Longrightarrow> invar (delete k m)"
    and put_keeps_full: "fits (put k v m) k' \<Longrightarrow> fits m k'"
begin

lemma put_same: "fits m k \<Longrightarrow> lookup (put k v m) k = Some v"
  by (simp add: put_lookup)

lemma put_other: "k' \<noteq> k \<Longrightarrow> lookup (put k v m) k' = lookup m k'"
  by (simp add: put_lookup)

lemma put_origin: "lookup (put k v m) k' = Some w \<Longrightarrow> k' = k \<and> w = v \<or> lookup m k' = Some w"
  by (auto simp: put_lookup split: if_splits)

lemma put_delete: "lookup (delete k (put k v m)) k' = (if k' = k then None else lookup m k')"
  by (simp add: put_lookup delete_lookup)

lemma puts_invar: "invar m \<Longrightarrow> invar (fold (\<lambda>(k, v). put k v) kvs m)"
  by (induction kvs arbitrary: m) (auto intro: put_invar)

text \<open>A series of updates never drops a key that was there.\<close>

lemma puts_present: "lookup m k \<noteq> None \<Longrightarrow> lookup (fold (\<lambda>(k, v). put k v) kvs m) k \<noteq> None"
proof (induction kvs arbitrary: m)
  case (Cons kv kvs)
  have "lookup (put (fst kv) (snd kv) m) k \<noteq> None"
    using Cons.prems by (auto simp: put_lookup)
  from Cons.IH [OF this] show ?case
    by (simp add: case_prod_beta)
qed simp

lemma deletes_lookup:
  "lookup (fold delete ks m) k = (if k \<in> set ks then None else lookup m k)"
  by (induction ks arbitrary: m) (auto simp: delete_lookup)

lemma deletes_invar: "invar m \<Longrightarrow> invar (fold delete ks m)"
  by (induction ks arbitrary: m) (auto intro: delete_invar)

end

section \<open>The kernel's hash maps meet the contract\<close>

lemma map_put_def2:
  "map_put k v m =
     (if room m k
      then m\<lparr>ents := (ents m)(k \<mapsto> v), used := (if ents m k = None then Suc (used m) else used m)\<rparr>
      else m)"
  by (auto simp: map_put_def map_update_elem_def room_def split: option.splits)

lemma lookup_put: "map_lookup (map_put k v m) k' = (if k' = k \<and> room m k then Some v else map_lookup m k')"
  by (auto simp: map_put_def2 map_lookup_def)

lemma lookup_delete: "map_lookup (map_delete k m) k' = (if k' = k then None else map_lookup m k')"
  by (auto simp: map_delete_def map_lookup_def split: option.splits)

lemma lookup_modify:
  "map_lookup (map_modify k f m) k' = (if k' = k then map_option f (map_lookup m k) else map_lookup m k')"
  by (auto simp: map_modify_def map_lookup_def split: option.splits)

lemma lookup_new [simp]: "map_lookup (hash_new n) k = None"
  by (simp add: map_lookup_def hash_new_def)

lemma room_present: "map_lookup m k \<noteq> None \<Longrightarrow> room m k"
  by (simp add: room_def map_lookup_def)

lemma room_slots: "has_slots (Suc n) m \<Longrightarrow> room m k"
  by (simp add: has_slots_def room_def)

lemma room_put: "room (map_put k v m) k' \<Longrightarrow> room m k'"
  by (auto simp: map_put_def2 room_def split: if_splits)

lemma room_put_same [simp]: "room (map_put k v m) k \<longleftrightarrow> room m k"
  by (auto simp: map_put_def2 room_def)

lemma room_modify [simp]: "room (map_modify k f m) k' \<longleftrightarrow> room m k'"
  by (auto simp: map_modify_def room_def split: option.splits)

lemma has_slots_put: "has_slots (Suc n) m \<Longrightarrow> has_slots n (map_put k v m)"
  by (auto simp: map_put_def2 has_slots_def)

lemma has_slots_mono: "has_slots n m \<Longrightarrow> k \<le> n \<Longrightarrow> has_slots k m"
  by (simp add: has_slots_def)

lemma wf_hash_new [simp]: "wf_hash (hash_new n)"
  by (simp add: wf_hash_def hash_new_def)

lemma wf_hash_put: "wf_hash m \<Longrightarrow> wf_hash (map_put k v m)"
  by (auto simp: wf_hash_def map_put_def2 room_def insert_absorb card_insert_if domIff)

lemma wf_hash_delete: "wf_hash m \<Longrightarrow> wf_hash (map_delete k m)"
  by (auto simp: wf_hash_def map_delete_def card_Diff_singleton_if split: option.splits)

lemma wf_hash_modify: "wf_hash m \<Longrightarrow> wf_hash (map_modify k f m)"
  by (auto simp: wf_hash_def map_modify_def card_insert_if domIff split: option.splits)

interpretation hash: kv_map map_lookup map_put map_delete room wf_hash
  by unfold_locales (auto simp: lookup_put lookup_delete room_present wf_hash_put wf_hash_delete
      dest: room_put)

text \<open>The kernel frees the slot it deletes: a deleted key can be stored again.\<close>

lemma room_after_delete: "wf_hash m \<Longrightarrow> map_lookup m k \<noteq> None \<Longrightarrow> room (map_delete k m) k'"
  using card_gt_0_iff [of "dom (ents m)"]
  by (auto simp: wf_hash_def map_delete_def room_def map_lookup_def split: option.splits)

section \<open>Array maps: facts\<close>

lemma arr_lookup_update:
  "arr_lookup (snd (arr_update i v a)) j = (if j = i \<and> i < a_max a then Some v else arr_lookup a j)"
  by (auto simp: arr_update_def arr_lookup_def)

lemma a_max_update [simp]: "a_max (snd (arr_update i v a)) = a_max a"
  by (simp add: arr_update_def)

lemmas map_lookup_simps = lookup_put lookup_delete lookup_modify

end
