(* ===== verification/Taint_Match.thy ===== *)
theory Taint_Match
  imports AP_Prelude
begin

text \<open>
  The matching predicates of \<^verbatim>\<open>bpf/taint.h\<close> and their BPF bodies in
  \<^verbatim>\<open>bpf/taint_engine.bpf.h\<close>: branchless comparisons of NUL-padded buffers, the argv
  tokenizer and the label mask test. \<^verbatim>\<open>taint.h\<close> has a second, plain-C body for the unit
  tests; those carry the suffix \<open>_c\<close> here. The lemmas relate each predicate to strings
  (equality, prefix, suffix, substring, token list) and the two bodies to each other.
\<close>

section \<open>Constants of the matching layer\<close>

abbreviation (input) TAINT_PAT_LEN :: nat where "TAINT_PAT_LEN \<equiv> 64"
abbreviation (input) TAINT_SUF_MAX :: nat where "TAINT_SUF_MAX \<equiv> 16"
abbreviation (input) TAINT_TEXT_BUF :: nat where "TAINT_TEXT_BUF \<equiv> 80"
abbreviation (input) TAINT_ARG_LEN :: nat where "TAINT_ARG_LEN \<equiv> 24"
abbreviation (input) TAINT_ARGV_CAP :: nat where "TAINT_ARGV_CAP \<equiv> 128"
abbreviation (input) MAX_ARG_SLOTS :: nat where "MAX_ARG_SLOTS \<equiv> 16"
abbreviation (input) TAINT_ARG_SLOTS_BUF :: nat where "TAINT_ARG_SLOTS_BUF \<equiv> 384"

abbreviation (input) TAINT_MATCH_EXACT :: u8 where "TAINT_MATCH_EXACT \<equiv> 0"
abbreviation (input) TAINT_MATCH_PREFIX :: u8 where "TAINT_MATCH_PREFIX \<equiv> 1"
abbreviation (input) TAINT_MATCH_SUFFIX :: u8 where "TAINT_MATCH_SUFFIX \<equiv> 2"
abbreviation (input) TAINT_MATCH_ANY :: u8 where "TAINT_MATCH_ANY \<equiv> 3"
abbreviation (input) TAINT_MATCH_CONTAINS :: u8 where "TAINT_MATCH_CONTAINS \<equiv> 4"

abbreviation (input) TE_POLICY_PATH_CONTAINS :: u32 where "TE_POLICY_PATH_CONTAINS \<equiv> 1"
abbreviation (input) TE_POLICY_PATH_SUFFIX :: u32 where "TE_POLICY_PATH_SUFFIX \<equiv> 2"

section \<open>Branchless masks\<close>

definition te_nzmask :: "u8 \<Rightarrow> u64" where
  "te_nzmask c = - ucast (drop_bit 8 ((ucast c :: u32) + 0xFF))"

definition te_iszero64 :: "u64 \<Rightarrow> u64" where
  "te_iszero64 x = drop_bit 63 (x OR (0 - x)) - 1"

text \<open>The C cast \<^verbatim>\<open>-(long)(j < n)\<close>.\<close>

definition ltmask :: "int \<Rightarrow> int \<Rightarrow> u64" where
  "ltmask j n = - (if j < n then 1 else 0)"

text \<open>\<^verbatim>\<open>TE_COPY(dst, n, src + off)\<close>.\<close>

definition te_copy :: "nat \<Rightarrow> bytes \<Rightarrow> nat \<Rightarrow> bytes" where
  "te_copy n src off = map (\<lambda>j. rd src (off + j)) [0..<n]"

section \<open>Exact and prefix comparison\<close>

record taint_cmp_ctx =
  cc_diff :: u64
  cc_anynz :: u64

definition taint_streq_cb :: "bytes \<Rightarrow> bytes \<Rightarrow> nat \<Rightarrow> taint_cmp_ctx \<Rightarrow> bool \<times> taint_cmp_ctx" where
  "taint_streq_cb a b idx c =
     (False, c\<lparr>cc_diff := cc_diff c OR ucast (rd a idx XOR rd b idx)\<rparr>)"

definition taint_streq :: "bytes \<Rightarrow> bytes \<Rightarrow> bool" where
  "taint_streq a b =
     (cc_diff (bpf_loop 64 (taint_streq_cb a b) \<lparr>cc_diff = 0, cc_anynz = 0\<rparr>) = 0)"

definition taint_prefix_cb :: "bytes \<Rightarrow> bytes \<Rightarrow> nat \<Rightarrow> taint_cmp_ctx \<Rightarrow> bool \<times> taint_cmp_ctx" where
  "taint_prefix_cb a b idx c =
     (let tc = rd a idx; pc = rd b idx; m = te_nzmask pc
      in (False, c\<lparr>cc_anynz := cc_anynz c OR m,
                   cc_diff := cc_diff c OR (m AND ucast (tc XOR pc))\<rparr>))"

definition taint_prefix :: "bytes \<Rightarrow> bytes \<Rightarrow> bool" where
  "taint_prefix text pre =
     (let c = bpf_loop 64 (taint_prefix_cb text pre) \<lparr>cc_diff = 0, cc_anynz = 0\<rparr>
      in cc_anynz c \<noteq> 0 \<and> cc_diff c = 0)"

text \<open>The bodies the unit tests compile.\<close>

definition taint_streq_c :: "bytes \<Rightarrow> bytes \<Rightarrow> bool" where
  "taint_streq_c a b =
     (fold (\<lambda>i diff. diff OR ucast (rd a i XOR rd b i)) [0..<TAINT_PAT_LEN] (0 :: u64) = 0)"

definition taint_prefix_c :: "bytes \<Rightarrow> bytes \<Rightarrow> bool" where
  "taint_prefix_c text pre =
     (let (diff, anynz) =
        fold (\<lambda>i (diff, anynz).
                let m = te_nzmask (rd pre i)
                in (diff OR (m AND ucast (rd text i XOR rd pre i)), anynz OR m))
             [0..<TAINT_PAT_LEN] (0, 0)
      in anynz \<noteq> 0 \<and> diff = 0)"

section \<open>Suffix and substring\<close>

text \<open>The length scan of \<^verbatim>\<open>taint_suffix\<close> and \<^verbatim>\<open>taint_contains\<close>: two lengths
  counted without branching, \<open>live\<close> being 1 until the first NUL.\<close>

fun len_scan_body :: "bytes \<Rightarrow> bytes \<Rightarrow> nat \<Rightarrow> int \<times> u64 \<times> int \<times> u64 \<Rightarrow> int \<times> u64 \<times> int \<times> u64" where
  "len_scan_body text pat i (tn, tlive, pn, plive) =
     (let tlive' = tlive AND (te_nzmask (rd text i) AND 1);
          plive' = plive AND (te_nzmask (rd pat i) AND 1)
      in (tn + sint tlive', tlive', pn + sint plive', plive'))"

definition len_scan :: "bytes \<Rightarrow> bytes \<Rightarrow> int \<times> int" where
  "len_scan text pat =
     (case fold (len_scan_body text pat) [0..<TAINT_PAT_LEN] (0, 1, 0, 1) of
        (tn, _, pn, _) \<Rightarrow> (tn, pn))"

definition window_diff :: "bytes \<Rightarrow> bytes \<Rightarrow> int \<Rightarrow> u64" where
  "window_diff window pat n =
     fold (\<lambda>j diff. diff OR (ltmask (int j) n AND ucast (rd window j XOR rd pat j)))
       [0..<TAINT_SUF_MAX] 0"

definition taint_suffix :: "bytes \<Rightarrow> bytes \<Rightarrow> bool" where
  "taint_suffix text suf =
     (let (tn, sn) = len_scan text suf
      in if sn = 0 \<or> sn > tn \<or> sn > int TAINT_SUF_MAX then False
         else
           let off = tn - sn;
               off = (if off < 0 then 0 else off);
               off = (if off > int TAINT_PAT_LEN - 1 then int TAINT_PAT_LEN - 1 else off);
               tail = te_copy TAINT_SUF_MAX text (nat off)
           in window_diff tail suf sn = 0)"

record taint_contains_ctx =
  tc_pn :: int
  tc_max_pos :: int
  tc_found :: bool

definition taint_contains_cb ::
  "bytes \<Rightarrow> bytes \<Rightarrow> nat \<Rightarrow> taint_contains_ctx \<Rightarrow> bool \<times> taint_contains_ctx" where
  "taint_contains_cb text pat idx c =
     (if tc_found c then (True, c)
      else if int idx > tc_max_pos c then (True, c)
      else
        let window = te_copy TAINT_SUF_MAX text idx
        in if window_diff window pat (tc_pn c) = 0 then (False, c\<lparr>tc_found := True\<rparr>) else (False, c))"

definition taint_contains :: "bytes \<Rightarrow> bytes \<Rightarrow> bool" where
  "taint_contains text pat =
     (let (tn, pn) = len_scan text pat
      in if pn = 0 \<or> pn > tn \<or> pn > int TAINT_SUF_MAX then False
         else tc_found (bpf_loop 64 (taint_contains_cb text pat)
                \<lparr>tc_pn = pn, tc_max_pos = tn - pn, tc_found = False\<rparr>))"

text \<open>The unit tests' \<^verbatim>\<open>strstr\<close>: a scan of every position, no limit on the pattern.\<close>

definition c_strlen :: "bytes \<Rightarrow> nat" where
  "c_strlen b = loop_on [0..<TAINT_PAT_LEN] (\<lambda>i n. if rd b i = 0 then (True, n) else (False, Suc n)) 0"

definition taint_contains_c :: "bytes \<Rightarrow> bytes \<Rightarrow> bool" where
  "taint_contains_c text pat =
     (let pn = c_strlen pat
      in if pn = 0 then False
         else
           let tn = c_strlen text
           in loop_on [0..<Suc tn]
                (\<lambda>p found.
                   if int p > int tn - int pn then (True, found)
                   else if loop_on [0..<pn]
                             (\<lambda>j mat. if rd text (p + j) \<noteq> rd pat j then (True, False) else (False, mat)) True
                   then (True, True) else (False, found)) False)"

section \<open>Dispatch on the match kind\<close>

definition taint_match :: "u8 \<Rightarrow> bytes \<Rightarrow> bytes \<Rightarrow> bool" where
  "taint_match kind text pat =
     (if kind = TAINT_MATCH_PREFIX then taint_prefix text pat
      else if kind = TAINT_MATCH_SUFFIX then taint_suffix text pat
      else if kind = TAINT_MATCH_ANY then True
      else if kind = TAINT_MATCH_CONTAINS then taint_contains text pat
      else taint_streq text pat)"

definition taint_exec_match :: "u8 \<Rightarrow> bytes \<Rightarrow> bytes \<Rightarrow> bool" where
  "taint_exec_match kind text pat =
     (if kind = TAINT_MATCH_PREFIX then taint_prefix text pat
      else if kind = TAINT_MATCH_ANY then True
      else taint_streq text pat)"

definition te_path_match :: "u32 \<Rightarrow> u8 \<Rightarrow> bytes \<Rightarrow> bytes \<Rightarrow> bool" where
  "te_path_match features kind text pat =
     (if kind = TAINT_MATCH_PREFIX then taint_prefix text pat
      else if kind = TAINT_MATCH_SUFFIX then
        (if features AND TE_POLICY_PATH_SUFFIX = 0 then False else taint_suffix text pat)
      else if kind = TAINT_MATCH_ANY then True
      else if kind = TAINT_MATCH_CONTAINS then
        (if features AND TE_POLICY_PATH_CONTAINS = 0 then False else taint_contains text pat)
      else taint_streq text pat)"

definition te_exec_simple_match :: "u8 \<Rightarrow> bytes \<Rightarrow> bytes \<Rightarrow> bool" where
  "te_exec_simple_match kind text pat =
     (if kind = TAINT_MATCH_ANY then True
      else if kind \<noteq> TAINT_MATCH_EXACT then False
      else taint_streq text pat)"

definition taint_mask_ok :: "u64 \<Rightarrow> u64 \<Rightarrow> u64 \<Rightarrow> bool" where
  "taint_mask_ok labels req forbid \<longleftrightarrow> labels AND req = req \<and> labels AND forbid = 0"

section \<open>Strings in fixed buffers\<close>

text \<open>The string the matchers see: the first \<^verbatim>\<open>TAINT_PAT_LEN\<close> bytes up to a NUL.\<close>

definition pat_str :: "bytes \<Rightarrow> bytes" where
  "pat_str b = cstr (take TAINT_PAT_LEN b)"

text \<open>A pattern as the compiler emits it: 64 bytes, NUL-padded.\<close>

definition wf_pat :: "bytes \<Rightarrow> bool" where
  "wf_pat b \<longleftrightarrow> length b = TAINT_PAT_LEN \<and> nul_padded b"

section \<open>Masks\<close>

lemma unat_u8_less: "unat (c :: u8) < 256"
  using unsigned_less [of c, where ?'a = nat] by simp

lemma top_bit_clear:
  fixes y :: u64
  assumes "\<not> bit y 63"
  shows "unat y < 2 ^ 63"
proof -
  have "unat y < 2 ^ 64"
    using unsigned_less [of y, where ?'a = nat] by simp
  moreover have "even (unat y div 2 ^ 63)"
    using assms by (metis bit_iff_odd bit_unsigned_iff)
  ultimately show ?thesis
    by (simp add: even_iff_mod_2_eq_zero)
qed

lemma drop_top_bit: "bit (w :: u64) 63 \<Longrightarrow> drop_bit 63 w = 1"
proof (rule bit_word_eqI)
  fix n
  assume "bit w 63"
  then show "bit (drop_bit 63 w) n = bit (1 :: u64) n"
    using bit_imp_le_length [of w "63 + n"] by (cases n) (auto simp: bit_simps)
qed

lemma te_nzmask_eq: "te_nzmask c = (if c = 0 then 0 else - 1)"
proof (cases "c = 0")
  case False
  then have "0 < unat c" by (simp add: unat_gt_0)
  moreover have "unat c < 256" by (rule unat_u8_less)
  ultimately have "unat ((ucast c :: u32) + 0xFF) = unat c + 255"
    by (simp add: unat_word_ariths unsigned_ucast_eq take_bit_nat_eq_self)
  then have "unat (drop_bit 8 ((ucast c :: u32) + 0xFF)) = 1"
    using \<open>0 < unat c\<close> \<open>unat c < 256\<close> unfolding unat_drop_bit_eq by (simp add: drop_bit_eq_div)
  then have "drop_bit 8 ((ucast c :: u32) + 0xFF) = 1"
    by (metis unat_1 word_unat_eq_iff)
  then show ?thesis using False by (simp add: te_nzmask_def)
qed (simp add: te_nzmask_def)

lemma te_iszero64_eq: "te_iszero64 x = (if x = 0 then - 1 else 0)"
proof (cases "x = 0")
  case False
  have "bit (x OR - x) 63"
  proof (rule ccontr)
    assume n: "\<not> bit (x OR - x) 63"
    from n have "unat x < 2 ^ 63" and "unat (- x) < 2 ^ 63"
      using top_bit_clear [of x] top_bit_clear [of "- x"] by (simp_all add: bit_or_iff)
    then have "unat (x + - x) = unat x + unat (- x)"
      by (intro unat_add_lem [THEN iffD1]) simp
    then have "unat x = 0" by simp
    with False show False by (simp add: unat_eq_zero)
  qed
  then have "drop_bit 63 (x OR - x) = 1"
    by (rule drop_top_bit)
  then show ?thesis using False by (simp add: te_iszero64_def)
qed (simp add: te_iszero64_def)

lemma ltmask_eq: "ltmask j n = (if j < n then - 1 else 0)"
  by (simp add: ltmask_def)


lemma ucast_byte_eq_0: "(ucast (c :: u8) :: u64) = 0 \<longleftrightarrow> c = 0"
proof
  assume "(ucast c :: u64) = 0"
  then have "unat (ucast c :: u64) = 0" by simp
  then show "c = 0"
    using unat_u8_less [of c] by (simp add: unsigned_ucast_eq take_bit_nat_eq_self unat_eq_zero)
qed simp

lemma fold_or_eq_0:
  fixes g :: "'b \<Rightarrow> u64"
  shows "fold (\<lambda>i d. d OR g i) is m = 0 \<longleftrightarrow> m = 0 \<and> (\<forall>i \<in> set is. g i = 0)"
  by (induction "is" arbitrary: m) auto

lemmas byte_mask_simps = fold_or_eq_0 ucast_byte_eq_0 te_nzmask_eq ltmask_eq

section \<open>Exact and prefix comparison: correctness\<close>

lemma taint_streq_loop:
  "cc_diff (fold (\<lambda>i c. c\<lparr>cc_diff := cc_diff c OR g i\<rparr>) is c) = fold (\<lambda>i d. d OR g i) is (cc_diff c)"
  by (induction "is" arbitrary: c) auto

lemma taint_streq_iff: "taint_streq a b \<longleftrightarrow> (\<forall>i < TAINT_PAT_LEN. rd a i = rd b i)"
proof -
  have "bpf_loop 64 (taint_streq_cb a b) c =
      fold (\<lambda>i c. c\<lparr>cc_diff := cc_diff c OR ucast (rd a i XOR rd b i)\<rparr>) [0..<64] c" for c
    by (subst bpf_loop_fold [where f = "\<lambda>i c. c\<lparr>cc_diff := cc_diff c OR ucast (rd a i XOR rd b i)\<rparr>"])
      (auto simp: taint_streq_cb_def)
  then show ?thesis
    by (auto simp: taint_streq_def taint_streq_loop byte_mask_simps)
qed

lemma taint_streq_c_eq: "taint_streq_c a b = taint_streq a b"
  by (auto simp: taint_streq_c_def taint_streq_iff byte_mask_simps)

lemma taint_prefix_loop:
  "fold (\<lambda>i c. c\<lparr>cc_anynz := cc_anynz c OR g i, cc_diff := cc_diff c OR h i\<rparr>) is c =
     c\<lparr>cc_anynz := fold (\<lambda>i d. d OR g i) is (cc_anynz c), cc_diff := fold (\<lambda>i d. d OR h i) is (cc_diff c)\<rparr>"
  by (induction "is" arbitrary: c) auto

lemma taint_prefix_iff:
  "taint_prefix text pre \<longleftrightarrow>
     (\<exists>i < TAINT_PAT_LEN. rd pre i \<noteq> 0) \<and>
     (\<forall>i < TAINT_PAT_LEN. rd pre i \<noteq> 0 \<longrightarrow> rd text i = rd pre i)"
proof -
  define f where "f = (\<lambda>i (c :: taint_cmp_ctx). c\<lparr>cc_anynz := cc_anynz c OR te_nzmask (rd pre i),
      cc_diff := cc_diff c OR (te_nzmask (rd pre i) AND ucast (rd text i XOR rd pre i))\<rparr>)"
  have "bpf_loop 64 (taint_prefix_cb text pre) c = fold f [0..<64] c" for c
    by (subst bpf_loop_fold [where f = f]) (auto simp: taint_prefix_cb_def f_def Let_def)
  then show ?thesis
    by (auto simp: taint_prefix_def f_def taint_prefix_loop byte_mask_simps split: if_splits)
qed

lemma taint_prefix_c_loop:
  "fold (\<lambda>i (d, n). (d OR g i, n OR h i)) is (d, n) =
     (fold (\<lambda>i d. d OR g i) is d, fold (\<lambda>i d. d OR h i) is n)"
  by (induction "is" arbitrary: d n) auto

lemma taint_prefix_c_eq: "taint_prefix_c text pre = taint_prefix text pre"
  by (auto simp: taint_prefix_c_def taint_prefix_c_loop Let_def taint_prefix_iff byte_mask_simps
      split: if_splits)


section \<open>Strings seen by the matchers\<close>

lemma length_pat_str_le: "length (pat_str b) \<le> TAINT_PAT_LEN"
  using length_cstr_le [of "take 64 b"] by (simp add: pat_str_def)

lemma rd_pat_str: "i < length (pat_str b) \<Longrightarrow> rd b i = pat_str b ! i"
  using rd_cstr [of i "take 64 b"] length_pat_str_le [of b] by (simp add: pat_str_def rd_take)

lemma pat_str_nonzero: "i < length (pat_str b) \<Longrightarrow> rd b i \<noteq> 0"
  using cstr_no_nul [of "pat_str b ! i" "take 64 b"] by (simp add: rd_pat_str pat_str_def)

lemma pat_str_stops: "length (pat_str b) < TAINT_PAT_LEN \<Longrightarrow> rd b (length (pat_str b)) = 0"
  using rd_end_of_cstr [of "take 64 b"] by (simp add: pat_str_def rd_take)

lemma pat_str_covers:
  assumes "\<forall>i < n. rd b i \<noteq> 0" and "n \<le> TAINT_PAT_LEN"
  shows "n \<le> length (pat_str b)"
  using assms pat_str_stops [of b] by (meson leI order_less_le_trans)

lemma rd_wf_pat:
  assumes "wf_pat b" and "i < TAINT_PAT_LEN"
  shows "rd b i = (if i < length (pat_str b) then pat_str b ! i else 0)"
  using assms rd_nul_padded [of b i] by (simp add: wf_pat_def pat_str_def)

lemma wf_pat_padded:
  "\<forall>c \<in> set s. c \<noteq> 0 \<Longrightarrow> wf_pat (padded TAINT_PAT_LEN s)"
  by (simp add: wf_pat_def nul_padded_padded)

text \<open>An occurrence of a string at an offset, byte by byte.\<close>

definition occurs_at :: "bytes \<Rightarrow> nat \<Rightarrow> bytes \<Rightarrow> bool" where
  "occurs_at t p s \<longleftrightarrow> p + length s \<le> length t \<and> (\<forall>j < length s. t ! (p + j) = s ! j)"

lemma occurs_at_iff: "occurs_at t p s \<longleftrightarrow> p + length s \<le> length t \<and> take (length s) (drop p t) = s"
  by (auto simp: occurs_at_def list_eq_iff_nth_eq)

lemma prefix_occurs: "prefix s t \<longleftrightarrow> occurs_at t 0 s"
  by (auto simp: occurs_at_iff prefix_def) (metis append_take_drop_id)

lemma suffix_occurs: "suffix s t \<longleftrightarrow> length s \<le> length t \<and> occurs_at t (length t - length s) s"
  by (auto simp: occurs_at_iff suffix_def) (metis append_take_drop_id)

lemma sublist_occurs: "sublist s t \<longleftrightarrow> (\<exists>p. occurs_at t p s)"
proof
  assume "sublist s t"
  then obtain ps ss where "t = ps @ s @ ss" by (auto simp: sublist_def)
  then have "occurs_at t (length ps) s" by (simp add: occurs_at_iff)
  then show "\<exists>p. occurs_at t p s" ..
next
  assume "\<exists>p. occurs_at t p s"
  then obtain p where "take (length s) (drop p t) = s" by (auto simp: occurs_at_iff)
  then show "sublist s t" by (metis sublist_def append_take_drop_id)
qed

lemma occurs_at_rd:
  assumes "p + length (pat_str s) \<le> length (pat_str t)"
  shows "occurs_at (pat_str t) p (pat_str s) \<longleftrightarrow> (\<forall>j < length (pat_str s). rd t (p + j) = rd s j)"
  using assms by (auto simp: occurs_at_def rd_pat_str)

lemma taint_streq_strings:
  assumes "wf_pat a" and "wf_pat b"
  shows "taint_streq a b \<longleftrightarrow> pat_str a = pat_str b"
proof
  assume "pat_str a = pat_str b"
  then show "taint_streq a b" by (simp add: taint_streq_iff rd_wf_pat assms)
next
  assume "taint_streq a b"
  then have eq: "rd a i = rd b i" if "i < 64" for i using that by (simp add: taint_streq_iff)
  have "a = b"
    using assms eq by (auto simp: wf_pat_def list_eq_iff_nth_eq)
  then show "pat_str a = pat_str b" by simp
qed

lemma taint_prefix_strings:
  assumes "wf_pat pre"
  shows "taint_prefix text pre \<longleftrightarrow> pat_str pre \<noteq> [] \<and> prefix (pat_str pre) (pat_str text)"
proof -
  let ?n = "length (pat_str pre)"
  have n: "?n \<le> 64" by (rule length_pat_str_le)
  have nz: "rd pre i \<noteq> 0 \<longleftrightarrow> i < ?n" if "i < 64" for i
    using that rd_wf_pat [OF assms that] pat_str_nonzero [of i pre] by auto
  have ne: "(\<exists>i < 64. rd pre i \<noteq> 0) \<longleftrightarrow> pat_str pre \<noteq> []"
    using nz n by (metis length_greater_0_conv less_nat_zero_code neq0_conv order_less_le_trans)
  have eq: "(\<forall>i < 64. rd pre i \<noteq> 0 \<longrightarrow> rd text i = rd pre i) \<longleftrightarrow> (\<forall>j < ?n. rd text j = rd pre j)"
    using nz n by (meson order_less_le_trans)
  have "?n \<le> length (pat_str text)" if "\<forall>j < ?n. rd text j = rd pre j"
    using that pat_str_nonzero n by (intro pat_str_covers) auto
  then have "(\<forall>j < ?n. rd text j = rd pre j) \<longleftrightarrow> prefix (pat_str pre) (pat_str text)"
    using occurs_at_rd [of 0 pre "text"] by (auto simp: prefix_occurs occurs_at_def)
  then show ?thesis by (simp add: taint_prefix_iff ne eq)
qed

section \<open>Suffix and substring: correctness\<close>

lemma strlen_step:
  "length (cstr (take (Suc k) b)) = length (cstr (take k b)) + of_bool (\<forall>i \<le> k. rd b i \<noteq> 0)"
  (is "?l = ?r")
proof (cases "k < length b")
  case True
  then have t: "take (Suc k) b = take k b @ [b ! k]" by (rule take_Suc_conv_app_nth)
  show ?thesis
  proof (cases "\<forall>i < k. b ! i \<noteq> 0")
    case all: True
    then have nz: "\<forall>c \<in> set (take k b). c \<noteq> 0" using True by (auto simp: in_set_conv_nth)
    then have tw: "takeWhile (\<lambda>c. c \<noteq> 0) (take k b) = take k b" by (simp add: takeWhile_eq_all_conv)
    show ?thesis using all True nz by (auto simp: t cstr_def takeWhile_append le_less tw)
  next
    case False
    then obtain i where i: "i < k" "b ! i = 0" by auto
    then have "0 \<in> set (take k b)" using True by (auto simp: in_set_conv_nth intro!: exI [of _ i])
    then have "?l = length (cstr (take k b))" by (simp add: t cstr_def takeWhile_append1 [of 0])
    moreover have "rd b i = 0" using i True by simp
    ultimately show ?thesis using i by (auto intro!: exI [of _ i])
  qed
qed (auto intro!: exI [of _ k])

lemma len_scan_fold:
  "fold (len_scan_body t p) [0..<k] (0, 1, 0, 1) =
     (int (length (cstr (take k t))), of_bool (\<forall>i < k. rd t i \<noteq> 0),
      int (length (cstr (take k p))), of_bool (\<forall>i < k. rd p i \<noteq> 0))"
proof (induction k)
  case 0
  show ?case by (simp add: cstr_def)
next
  case (Suc k)
  have live: "of_bool (\<forall>i < k. rd b i \<noteq> 0) AND (te_nzmask (rd b k) AND 1) = (of_bool (\<forall>i \<le> k. rd b i \<noteq> 0) :: u64)" for b
    by (auto simp: te_nzmask_eq le_less)
  have s: "sint (of_bool b :: u64) = of_bool b" for b by simp
  show ?case
    by (simp add: Suc live s strlen_step less_Suc_eq_le Let_def del: of_bool_eq_0_iff of_bool_eq_1_iff)
qed

lemma len_scan_eq: "len_scan text pat = (int (length (pat_str text)), int (length (pat_str pat)))"
  by (simp add: len_scan_def len_scan_fold pat_str_def)

lemma window_diff_iff:
  "window_diff w pat n = 0 \<longleftrightarrow> (\<forall>j < TAINT_SUF_MAX. int j < n \<longrightarrow> rd w j = rd pat j)"
  by (auto simp: window_diff_def byte_mask_simps split: if_splits)

lemma rd_te_copy: "j < n \<Longrightarrow> rd (te_copy n src off) j = rd src (off + j)"
  by (simp add: te_copy_def)

lemma window_match:
  assumes "length (pat_str s) \<le> TAINT_SUF_MAX" and "p + length (pat_str s) \<le> length (pat_str t)"
  shows "window_diff (te_copy TAINT_SUF_MAX t p) s (int (length (pat_str s))) = 0 \<longleftrightarrow>
    occurs_at (pat_str t) p (pat_str s)"
  using assms by (auto simp: window_diff_iff occurs_at_rd rd_te_copy)

lemma taint_suffix_strings:
  "taint_suffix text suf \<longleftrightarrow>
     pat_str suf \<noteq> [] \<and> length (pat_str suf) \<le> TAINT_SUF_MAX \<and> suffix (pat_str suf) (pat_str text)"
proof -
  let ?s = "pat_str suf" and ?t = "pat_str text"
  show ?thesis
  proof (cases "?s \<noteq> [] \<and> length ?s \<le> 16 \<and> length ?s \<le> length ?t")
    case True
    then have off: "length ?t - length ?s \<le> 63"
      using length_pat_str_le [of "text"] by (cases ?s) auto
    have "taint_suffix text suf \<longleftrightarrow>
        window_diff (te_copy 16 text (length ?t - length ?s)) suf (int (length ?s)) = 0"
      using True off by (auto simp: taint_suffix_def len_scan_eq Let_def of_nat_diff nat_diff_distrib)
    also have "\<dots> \<longleftrightarrow> occurs_at ?t (length ?t - length ?s) ?s"
      using True by (intro window_match) auto
    finally show ?thesis using True by (simp add: suffix_occurs)
  next
    case False
    then show ?thesis
      by (auto simp: taint_suffix_def len_scan_eq Let_def dest: suffix_length_le)
  qed
qed

lemma taint_contains_loop:
  "tc_found (loop_on [a..<b] (taint_contains_cb t p) c) \<longleftrightarrow>
     tc_found c \<or> (\<exists>i \<in> {a..<b}. int i \<le> tc_max_pos c \<and>
        window_diff (te_copy TAINT_SUF_MAX t i) p (tc_pn c) = 0)"
proof (induction "b - a" arbitrary: a c)
  case (Suc n)
  then have up: "[a..<b] = a # [Suc a..<b]" by (simp add: upt_conv_Cons)
  have set: "{a..<b} = insert a {Suc a..<b}" using Suc(2) by auto
  have IH: "tc_found (loop_on [Suc a..<b] (taint_contains_cb t p) c) \<longleftrightarrow>
     tc_found c \<or> (\<exists>i \<in> {Suc a..<b}. int i \<le> tc_max_pos c \<and>
        window_diff (te_copy 16 t i) p (tc_pn c) = 0)" for c
    using Suc(1) [of "Suc a"] Suc(2) by simp
  show ?case unfolding up set
    by (auto simp: taint_contains_cb_def Let_def IH)
qed simp

lemma taint_contains_strings:
  "taint_contains text pat \<longleftrightarrow>
     pat_str pat \<noteq> [] \<and> length (pat_str pat) \<le> TAINT_SUF_MAX \<and> sublist (pat_str pat) (pat_str text)"
proof -
  let ?s = "pat_str pat" and ?t = "pat_str text"
  show ?thesis
  proof (cases "?s \<noteq> [] \<and> length ?s \<le> 16 \<and> length ?s \<le> length ?t")
    case True
    then have m: "length ?t - length ?s < 64"
      using length_pat_str_le [of "text"] by (cases ?s) auto
    have nn: "int i \<le> int (length ?t) - int (length ?s) \<longleftrightarrow> i \<le> length ?t - length ?s" for i
      using True by linarith
    have "taint_contains text pat \<longleftrightarrow>
        (\<exists>p < 64. p \<le> length ?t - length ?s \<and> window_diff (te_copy 16 text p) pat (int (length ?s)) = 0)"
      using True
      by (simp add: taint_contains_def len_scan_eq bpf_loop_def taint_contains_loop nn Bex_def)
    also have "\<dots> \<longleftrightarrow> (\<exists>p. p \<le> length ?t - length ?s \<and> occurs_at ?t p ?s)"
      using True m by (metis (no_types, lifting) window_match le_diff_conv2 order_le_less_trans)
    also have "\<dots> \<longleftrightarrow> sublist ?s ?t"
      unfolding sublist_occurs by (metis occurs_at_def le_diff_conv2 add_leD2)
    finally show ?thesis using True by simp
  next
    case False
    then show ?thesis
      by (auto simp: taint_contains_def len_scan_eq Let_def dest: sublist_length_le)
  qed
qed


section \<open>The unit tests' substring search\<close>

lemma c_strlen_loop:
  assumes "\<forall>i < a. rd b i \<noteq> 0" and "a \<le> TAINT_PAT_LEN"
  shows "loop_on [a..<TAINT_PAT_LEN] (\<lambda>i n. if rd b i = 0 then (True, n) else (False, Suc n)) a =
    length (pat_str b)"
  using assms
proof (induction "TAINT_PAT_LEN - a" arbitrary: a)
  case 0
  then have "a = 64" by simp
  then show ?case using pat_str_covers [of 64 b] 0 length_pat_str_le [of b] by simp
next
  case (Suc k)
  then have up: "[a..<64] = a # [Suc a..<64]" by (simp add: upt_conv_Cons)
  show ?case
  proof (cases "rd b a = 0")
    case True
    then have "length (pat_str b) = a"
      using pat_str_covers [OF Suc.prems] pat_str_nonzero [of a b] by (meson le_antisym not_le)
    then show ?thesis unfolding up using True by simp
  next
    case False
    then show ?thesis
      unfolding up using Suc by (simp add: less_Suc_eq)
  qed
qed

lemma c_strlen_eq: "c_strlen b = length (pat_str b)"
  unfolding c_strlen_def using c_strlen_loop [of 0 b] by simp

lemma loop_on_all:
  "loop_on is (\<lambda>j m. if bad j then (True, False) else (False, m)) m \<longleftrightarrow> m \<and> (\<forall>j \<in> set is. \<not> bad j)"
  if m for m
  using that by (induction "is") auto

lemma loop_on_search:
  "loop_on [a..<b] (\<lambda>p f. if int p > l then (True, f) else if hit p then (True, True) else (False, f)) f
   \<longleftrightarrow> f \<or> (\<exists>p \<in> {a..<b}. int p \<le> l \<and> hit p)"
proof (induction "b - a" arbitrary: a)
  case (Suc n)
  then have up: "[a..<b] = a # [Suc a..<b]" by (simp add: upt_conv_Cons)
  have set: "{a..<b} = insert a {Suc a..<b}" using Suc(2) by auto
  show ?case
    using Suc(1) [of "Suc a"] Suc(2) unfolding up set by auto
qed simp


lemma taint_contains_c_strings:
  "taint_contains_c text pat \<longleftrightarrow> pat_str pat \<noteq> [] \<and> sublist (pat_str pat) (pat_str text)"
proof (cases "pat_str pat = []")
  case False
  let ?s = "pat_str pat" and ?t = "pat_str text"
  have nn: "int i \<le> int (length ?t) - int (length ?s) \<longleftrightarrow> i + length ?s \<le> length ?t" for i
    by linarith
  have "taint_contains_c text pat \<longleftrightarrow>
      (\<exists>p \<le> length ?t. p + length ?s \<le> length ?t \<and> (\<forall>j < length ?s. rd text (p + j) = rd pat j))"
    using False
    by (simp add: taint_contains_c_def c_strlen_eq loop_on_all loop_on_search nn Bex_def Ball_def less_Suc_eq_le
        Let_def del: upt_Suc)
  also have "\<dots> \<longleftrightarrow> (\<exists>p. occurs_at ?t p ?s)"
    by (metis occurs_at_rd occurs_at_def add_leD1)
  finally show ?thesis using False by (simp add: sublist_occurs)
qed (simp add: taint_contains_c_def c_strlen_eq)

section \<open>What a rule's pattern means\<close>

text \<open>The meaning the rule language gives a compiled pattern, on strings. A suffix or substring
  literal is matched only up to \<^verbatim>\<open>TAINT_SUF_MAX\<close> bytes, and only when the loader
  turned the feature on.\<close>

definition path_match_spec :: "u32 \<Rightarrow> u8 \<Rightarrow> bytes \<Rightarrow> bytes \<Rightarrow> bool" where
  "path_match_spec features kind t s =
     (if kind = TAINT_MATCH_PREFIX then s \<noteq> [] \<and> prefix s t
      else if kind = TAINT_MATCH_SUFFIX then
        features AND TE_POLICY_PATH_SUFFIX \<noteq> 0 \<and> s \<noteq> [] \<and> length s \<le> TAINT_SUF_MAX \<and> suffix s t
      else if kind = TAINT_MATCH_ANY then True
      else if kind = TAINT_MATCH_CONTAINS then
        features AND TE_POLICY_PATH_CONTAINS \<noteq> 0 \<and> s \<noteq> [] \<and> length s \<le> TAINT_SUF_MAX \<and> sublist s t
      else t = s)"

lemma rd_take64: "i < TAINT_PAT_LEN \<Longrightarrow> rd (take TAINT_PAT_LEN b) i = rd b i"
  by (rule rd_take)

lemma pat_str_take64 [simp]: "pat_str (take TAINT_PAT_LEN b) = pat_str b"
  by (simp add: pat_str_def)

lemma taint_streq_take64: "taint_streq (take TAINT_PAT_LEN a) b = taint_streq a b"
  by (simp add: taint_streq_iff rd_take64)

lemma taint_prefix_take64: "taint_prefix (take TAINT_PAT_LEN a) b = taint_prefix a b"
  by (simp add: taint_prefix_iff rd_take64)

lemma te_exec_simple_match_sound: "te_exec_simple_match k t p \<Longrightarrow> taint_exec_match k t p"
  by (auto simp: te_exec_simple_match_def taint_exec_match_def split: if_splits)

lemma exec_match_partition:
  "taint_exec_match k t p \<longleftrightarrow>
     te_exec_simple_match k t p \<or>
     (k \<noteq> TAINT_MATCH_EXACT \<and> k \<noteq> TAINT_MATCH_ANY \<and> taint_exec_match k t p)"
  by (auto simp: te_exec_simple_match_def taint_exec_match_def)

text \<open>C19: For a NUL-padded target and a compiled pattern, the in-kernel path matcher decides
  exactly what the rule language says: equality, prefix, suffix or substring of the strings, with
  the 16-byte limit on suffix and substring literals and the loader's feature switches.\<close>

theorem te_path_match_correct:
  assumes "nul_padded (take TAINT_PAT_LEN text)" and "TAINT_PAT_LEN \<le> length text" and "wf_pat pat"
  shows "te_path_match features kind text pat = path_match_spec features kind (pat_str text) (pat_str pat)"
proof -
  have "wf_pat (take 64 text)" using assms by (simp add: wf_pat_def)
  then have "taint_streq text pat \<longleftrightarrow> pat_str text = pat_str pat"
    using taint_streq_strings [of "take 64 text" pat] assms(3) by (simp add: taint_streq_take64)
  then show ?thesis
    using assms(3)
    by (auto simp: te_path_match_def path_match_spec_def taint_prefix_strings taint_suffix_strings
        taint_contains_strings)
qed

theorem te_path_match_correct_witness:
  "te_path_match 3 TAINT_MATCH_SUFFIX (padded 80 (str_bytes ''/home/u/.env'')) (padded 64 (str_bytes ''.env''))
   \<and> \<not> te_path_match 1 TAINT_MATCH_SUFFIX (padded 80 (str_bytes ''/home/u/.env'')) (padded 64 (str_bytes ''.env''))"
proof -
  let ?t = "padded 80 (str_bytes ''/home/u/.env'')" and ?p = "padded 64 (str_bytes ''.env'')"
  have "nul_padded (take 64 ?t)" and "64 \<le> length ?t" and "wf_pat ?p"
    by code_simp+
  then have "te_path_match f TAINT_MATCH_SUFFIX ?t ?p =
      path_match_spec f TAINT_MATCH_SUFFIX (pat_str ?t) (pat_str ?p)" for f
    by (rule te_path_match_correct)
  moreover have "path_match_spec 3 TAINT_MATCH_SUFFIX (pat_str ?t) (pat_str ?p)"
    and "\<not> path_match_spec 1 TAINT_MATCH_SUFFIX (pat_str ?t) (pat_str ?p)"
    by code_simp+
  ultimately show ?thesis by simp
qed

text \<open>The bodies compiled into the unit tests and the bodies compiled for the kernel decide the
  same matches, except that the kernel refuses substring literals longer than 16 bytes.\<close>

theorem matcher_bodies_agree:
  "taint_streq_c a b = taint_streq a b
   \<and> taint_prefix_c a b = taint_prefix a b
   \<and> taint_contains a b = (taint_contains_c a b \<and> length (pat_str b) \<le> TAINT_SUF_MAX)"
  by (auto simp: taint_streq_c_eq taint_prefix_c_eq taint_contains_strings taint_contains_c_strings)

text \<open>No byte beyond the first 64 of a target or pattern can change a match, so stale bytes or a
  neighbouring field behind the buffer are harmless.\<close>

theorem taint_match_reads_64:
  assumes "take TAINT_PAT_LEN text = take TAINT_PAT_LEN text'"
    and "take TAINT_PAT_LEN pat = take TAINT_PAT_LEN pat'"
  shows "taint_match kind text pat = taint_match kind text' pat'"
proof -
  have t: "rd text i = rd text' i" and p: "rd pat i = rd pat' i" if "i < 64" for i
    using that assms by (metis rd_take)+
  have "pat_str text = pat_str text'" and "pat_str pat = pat_str pat'"
    using assms by (simp_all add: pat_str_def)
  moreover have "taint_prefix text pat = taint_prefix text' pat'"
    unfolding taint_prefix_iff by (metis t p)
  ultimately show ?thesis
    by (simp add: taint_match_def taint_streq_iff taint_suffix_strings taint_contains_strings t p)
qed

theorem taint_match_reads_64_witness:
  "taint_match TAINT_MATCH_EXACT (padded 64 (str_bytes ''git'') @ [7, 7]) (padded 64 (str_bytes ''git''))
   = taint_match TAINT_MATCH_EXACT (padded 64 (str_bytes ''git'') @ [0]) (padded 64 (str_bytes ''git''))"
  by (rule taint_match_reads_64) simp_all

text \<open>A rule's label condition holds exactly when every required label is present and no
  forbidden one is.\<close>

theorem taint_mask_ok_sets:
  "taint_mask_ok labels req forbid \<longleftrightarrow>
     bits_of req \<subseteq> bits_of labels \<and> bits_of forbid \<inter> bits_of labels = {}"
  by (auto simp: taint_mask_ok_def and_eq_self_iff and_eq_0_iff)

end
