(* ===== verification/Taint_Args.thy ===== *)
theory Taint_Args
  imports Taint_Match
begin

text \<open>
  Argv tokens: the exec hook splits the NUL-separated argv blob into 16 slots of 24 bytes once per
  exec, and a rule's argument token is compared with each slot. Modelled are the engine's tokenizer
  and matcher (\<^verbatim>\<open>te_tok_cb\<close>, \<^verbatim>\<open>te_tokenize_args_eng\<close>,
  \<^verbatim>\<open>__taint_arg_match_cb\<close>, \<^verbatim>\<open>taint_arg_match\<close> of
  \<^verbatim>\<open>bpf/taint_engine.bpf.h\<close>) and the plain-C ones of \<^verbatim>\<open>bpf/taint.h\<close> (suffix
  \<open>_c\<close>). The counters \<^verbatim>\<open>si\<close> and \<^verbatim>\<open>pj\<close> only count up from 0, so they are \<^typ>\<open>nat\<close>.
\<close>

section \<open>Definitions\<close>

record te_argslots =
  as_blob :: bytes
  as_slots :: bytes

record te_tok_ctx =
  tk_si :: nat
  tk_pj :: nat

definition te_tok_cb ::
  "bytes \<Rightarrow> nat \<Rightarrow> te_tok_ctx \<times> bytes \<Rightarrow> bool \<times> te_tok_ctx \<times> bytes" where
  "te_tok_cb blob i cs =
     (let (c, slots) = cs;
          bi = i AND (TAINT_ARGV_CAP - 1);
          ch = rd blob bi
      in if ch = 0 then
           (let c' = c\<lparr>tk_si := Suc (tk_si c), tk_pj := 0\<rparr>
            in (MAX_ARG_SLOTS \<le> tk_si c', c', slots))
         else if tk_si c < MAX_ARG_SLOTS \<and> tk_pj c < TAINT_ARG_LEN - 1 then
           (let sidx = tk_si c * TAINT_ARG_LEN + tk_pj c;
                slots' = (if sidx < TAINT_ARG_SLOTS_BUF then slots[sidx := ch] else slots)
            in (False, c\<lparr>tk_pj := Suc (tk_pj c)\<rparr>, slots'))
         else (False, c, slots))"

definition te_tokenize_args_eng :: "int \<Rightarrow> te_argslots \<Rightarrow> te_argslots" where
  "te_tokenize_args_eng len a =
     (let len = (if len < 0 then 0 else len);
          len = (if len > int TAINT_ARGV_CAP then int TAINT_ARGV_CAP else len);
          (c, slots) = bpf_loop (word_of_int len) (te_tok_cb (as_blob a))
                         (\<lparr>tk_si = 0, tk_pj = 0\<rparr>, as_slots a)
      in a\<lparr>as_slots := slots\<rparr>)"

text \<open>The plain-C tokenizer: a \<^verbatim>\<open>for\<close> loop over the capacity with an early exit.\<close>

definition te_tokenize_args :: "bytes \<Rightarrow> int \<Rightarrow> bytes \<Rightarrow> bytes" where
  "te_tokenize_args blob len slots =
     (let len = (if len > int TAINT_ARGV_CAP then int TAINT_ARGV_CAP else len);
          (si, pj, out) =
            loop_on [0..<TAINT_ARGV_CAP]
              (\<lambda>i (si, pj, out).
                 if int i \<ge> len then (True, si, pj, out)
                 else
                   let c = rd blob i
                   in if c = 0 then
                        (if MAX_ARG_SLOTS \<le> Suc si then (True, Suc si, 0, out)
                         else (False, Suc si, 0, out))
                      else if si < MAX_ARG_SLOTS \<and> pj < TAINT_ARG_LEN - 1 then
                        (let idx = si * TAINT_ARG_LEN + pj
                         in (False, si, Suc pj,
                             if idx < MAX_ARG_SLOTS * TAINT_ARG_LEN then out[idx := c] else out))
                      else (False, si, pj, out))
              (0, 0, slots)
      in out)"

record taint_arg_match_ctx =
  am_tok :: bytes
  am_found :: bool

definition taint_arg_match_cb ::
  "bytes \<Rightarrow> nat \<Rightarrow> taint_arg_match_ctx \<Rightarrow> bool \<times> taint_arg_match_ctx" where
  "taint_arg_match_cb slots idx c =
     (if am_found c then (True, c)
      else if MAX_ARG_SLOTS \<le> idx then (True, c)
      else
        let off = idx * TAINT_ARG_LEN
        in if TAINT_ARG_SLOTS_BUF \<le> off then (True, c)
           else
             let slot = te_copy TAINT_ARG_LEN slots off;
                 diff = fold (\<lambda>j d. d OR ucast (rd slot j XOR rd (am_tok c) j)) [0..<TAINT_ARG_LEN] (0 :: u64)
             in (False, if diff = 0 then c\<lparr>am_found := True\<rparr> else c))"

definition taint_arg_match :: "bytes \<Rightarrow> bytes \<Rightarrow> bool" where
  "taint_arg_match slots tok =
     (let c = \<lparr>am_tok = te_copy TAINT_ARG_LEN tok 0, am_found = False\<rparr>
      in if rd (am_tok c) 0 = 0 then True
         else am_found (bpf_loop 16 (taint_arg_match_cb slots) c))"

definition taint_arg_match_c :: "bytes \<Rightarrow> bytes \<Rightarrow> bool" where
  "taint_arg_match_c slots tok =
     (fold (\<lambda>s found.
              let diff = fold (\<lambda>j d. d OR ucast (rd slots (s * TAINT_ARG_LEN + j) XOR rd tok j))
                           [0..<TAINT_ARG_LEN] (0 :: u64)
              in found OR te_iszero64 diff)
        [0..<MAX_ARG_SLOTS] (te_iszero64 (ucast (rd tok 0))) \<noteq> 0)"

text \<open>What the slots stand for: the argv tokens, each cut to 23 bytes, the first 16 of them.\<close>

fun split_nul :: "bytes \<Rightarrow> bytes list" where
  "split_nul [] = [[]]"
| "split_nul (c # cs) =
     (if c = 0 then [] # split_nul cs
      else (case split_nul cs of [] \<Rightarrow> [[c]] | t # ts \<Rightarrow> (c # t) # ts))"

definition argv_tokens :: "bytes \<Rightarrow> int \<Rightarrow> bytes list" where
  "argv_tokens blob len =
     map (take (TAINT_ARG_LEN - 1))
       (take MAX_ARG_SLOTS (split_nul (map (rd blob) [0..<nat (min len (int TAINT_ARGV_CAP))])))"

section \<open>Tokens\<close>

lemma split_nul_ne: "split_nul cs \<noteq> []"
  by (induction cs) (auto split: list.splits)

lemma split_nul_no_nul: "t \<in> set (split_nul cs) \<Longrightarrow> 0 \<notin> set t"
  by (induction cs arbitrary: t) (auto split: list.splits if_splits)

lemma and_127: "i < 128 \<Longrightarrow> (i :: nat) AND 127 = i"
proof -
  assume "i < 128"
  then have "take_bit 7 i = i" by (simp add: take_bit_nat_eq_self)
  moreover have "mask 7 = (127 :: nat)" by (simp add: mask_eq_exp_minus_1)
  ultimately show ?thesis by (metis take_bit_eq_mask)
qed

text \<open>One byte position of one slot after tokenizing from a given point.\<close>

definition slot_byte :: "bytes list \<Rightarrow> nat \<Rightarrow> nat \<Rightarrow> nat \<Rightarrow> nat \<Rightarrow> u8 option" where
  "slot_byte ts si pj k j =
     (let base = (if k = si then pj else 0)
      in if si \<le> k \<and> k - si < length ts \<and> base \<le> j \<and> j < 23 \<and> j - base < length (ts ! (k - si))
         then Some (ts ! (k - si) ! (j - base)) else None)"

lemma slot_byte_nul:
  assumes "ts \<noteq> []"
  shows "slot_byte ([] # ts) si pj k j = slot_byte ts (Suc si) 0 k j"
proof (cases "k = si")
  case False
  then show ?thesis by (cases "si \<le> k") (auto simp: slot_byte_def Suc_diff_le Let_def nth_Cons' split: if_splits)
qed (simp add: slot_byte_def)

lemma slot_byte_char:
  assumes "pj < 23"
  shows "slot_byte ((c # t) # ts) si pj k j =
    (if k = si \<and> j = pj then Some c else slot_byte (t # ts) si (Suc pj) k j)"
  using assms by (auto simp: slot_byte_def Let_def nth_Cons' split: if_splits)

lemma slot_byte_full: "slot_byte ((c # t) # ts) si 23 k j = slot_byte (t # ts) si 23 k j"
  by (auto simp: slot_byte_def Let_def nth_Cons' split: if_splits)

lemma slot_index_inj:
  assumes "(k :: nat) * 24 + j = k' * 24 + j'" and "j < 24" and "j' < 24"
  shows "k = k' \<and> j = j'"
proof -
  have "(k * 24 + j) div 24 = k" and "(k * 24 + j) mod 24 = j" if "j < 24" for k j :: nat
    using that by simp_all
  then show ?thesis using assms by metis
qed

lemma rd_update: "rd (xs[i := v]) j = (if j = i \<and> i < length xs then v else rd xs j)"
  by (auto simp: rd_def)

lemma te_tok_loop:
  assumes "\<forall>i \<in> set is. i < 128" and "si < 16" and "pj \<le> 23" and "length slots = 384"
    and "k < 16" and "j < 24"
  shows "rd (snd (loop_on is (te_tok_cb blob) (\<lparr>tk_si = si, tk_pj = pj\<rparr>, slots))) (k * 24 + j) =
    (case slot_byte (split_nul (map (rd blob) is)) si pj k j of
       Some b \<Rightarrow> b | None \<Rightarrow> rd slots (k * 24 + j))"
  using assms
proof (induction "is" arbitrary: si pj slots)
  case Nil
  then show ?case by (simp add: slot_byte_def)
next
  case (Cons i "is")
  have i: "i AND 127 = i" using Cons.prems(1) by (simp add: and_127)
  obtain t ts where ts: "split_nul (map (rd blob) is) = t # ts"
    using split_nul_ne by (metis neq_Nil_conv)
  consider (stop) "rd blob i = 0" "15 \<le> si" | (nul) "rd blob i = 0" "si < 15"
    | (char) "rd blob i \<noteq> 0" "pj < 23" | (full) "rd blob i \<noteq> 0" "pj = 23"
    using Cons.prems(3) by linarith
  then show ?case
  proof cases
    case stop
    then have "slot_byte ([] # t # ts) si pj k j = None"
      using Cons.prems(2,5) by (auto simp: slot_byte_def Let_def nth_Cons')
    then show ?thesis using stop by (simp add: te_tok_cb_def i ts)
  next
    case nul
    then show ?thesis
      using Cons by (simp add: te_tok_cb_def i ts slot_byte_nul)
  next
    case char
    have "si * 24 + pj < 384" using Cons.prems(2) char by simp
    moreover have "k * 24 + j = si * 24 + pj \<longleftrightarrow> k = si \<and> j = pj"
      using slot_index_inj [of k j si pj] Cons.prems(6) char by auto
    moreover have "slot_byte (t # ts) si (Suc pj) si pj = None"
      by (simp add: slot_byte_def)
    ultimately show ?thesis
      using char Cons by (simp add: te_tok_cb_def i ts slot_byte_char rd_update split: option.split)
  next
    case full
    then show ?thesis
      using Cons by (simp add: te_tok_cb_def i ts slot_byte_full)
  qed
qed

section \<open>The token matcher\<close>

lemma arg_diff_iff:
  "fold (\<lambda>j d. d OR ucast (rd a j XOR rd b j)) [0..<n] (0 :: u64) = 0 \<longleftrightarrow> (\<forall>j < n. rd a j = rd b j)"
  by (auto simp: byte_mask_simps)

lemma taint_arg_match_loop:
  assumes "b \<le> 16"
  shows "am_found (loop_on [a..<b] (taint_arg_match_cb slots) c) \<longleftrightarrow>
    am_found c \<or> (\<exists>s \<in> {a..<b}. \<forall>j < 24. rd slots (s * 24 + j) = rd (am_tok c) j)"
proof (induction "b - a" arbitrary: a c)
  case (Suc n)
  then have up: "[a..<b] = a # [Suc a..<b]" by (simp add: upt_conv_Cons)
  have set: "{a..<b} = insert a {Suc a..<b}" using Suc(2) by auto
  have "a < 16" using Suc(2) assms by simp
  then have cb: "taint_arg_match_cb slots a c =
     (if am_found c then (True, c)
      else (False, if \<forall>j < 24. rd slots (a * 24 + j) = rd (am_tok c) j then c\<lparr>am_found := True\<rparr> else c))" for c
    by (simp add: taint_arg_match_cb_def Let_def arg_diff_iff rd_te_copy)
  show ?case
    unfolding up set using Suc(1) [of "Suc a"] Suc(2) by (auto simp: cb)
qed simp

lemma taint_arg_match_iff:
  "taint_arg_match slots tok \<longleftrightarrow>
     rd tok 0 = 0 \<or> (\<exists>s < 16. \<forall>j < 24. rd slots (s * 24 + j) = rd tok j)"
  by (auto simp: taint_arg_match_def bpf_loop_def taint_arg_match_loop rd_te_copy Let_def)

lemma fold_or_iszero:
  "fold (\<lambda>s found. found OR te_iszero64 (g s)) is m \<noteq> 0 \<longleftrightarrow> m \<noteq> 0 \<or> (\<exists>s \<in> set is. g s = 0)"
  by (induction "is" arbitrary: m) (auto simp: te_iszero64_eq)

lemma taint_arg_match_c_eq: "taint_arg_match_c slots tok = taint_arg_match slots tok"
proof -
  have "fold (\<lambda>j d. d OR ucast (rd slots (s * 24 + j) XOR rd tok j)) [0..<24] (0 :: u64) = 0
      \<longleftrightarrow> (\<forall>j < 24. rd slots (s * 24 + j) = rd tok j)" for s
    by (auto simp: byte_mask_simps)
  then show ?thesis
    unfolding taint_arg_match_c_def Let_def fold_or_iszero taint_arg_match_iff
    by (auto simp: te_iszero64_eq ucast_byte_eq_0)
qed


section \<open>Tokenizer and matcher together\<close>

lemma te_tokenize_args_eng_loop:
  "te_tokenize_args_eng len a =
     a\<lparr>as_slots := snd (loop_on [0..<nat (min len 128)] (te_tok_cb (as_blob a))
        (\<lparr>tk_si = 0, tk_pj = 0\<rparr>, as_slots a))\<rparr>"
proof -
  let ?n = "if (if len < 0 then 0 else len) > int 128 then int 128 else (if len < 0 then 0 else len)"
  have n: "unat (word_of_int ?n :: u32) = nat (min len 128)"
    by (subst unat_word_of_int_small) (auto simp: min_def)
  show ?thesis
    unfolding te_tokenize_args_eng_def Let_def bpf_loop_def n by (simp add: case_prod_beta)
qed

lemma te_tokenize_args_eng_slots:
  assumes "length (as_slots a) = 384" and "k < 16" and "j < 24"
  shows "rd (as_slots (te_tokenize_args_eng len a)) (k * 24 + j) =
    (case slot_byte (split_nul (map (rd (as_blob a)) [0..<nat (min len 128)])) 0 0 k j of
       Some b \<Rightarrow> b | None \<Rightarrow> rd (as_slots a) (k * 24 + j))"
proof -
  have "\<forall>i \<in> set [0..<nat (min len 128)]. i < 128" by auto
  from te_tok_loop [OF this, of 0 0 "as_slots a" k j "as_blob a"] show ?thesis
    using assms by (simp add: te_tokenize_args_eng_loop)
qed

lemma argv_tokens_nth:
  assumes "ts = split_nul (map (rd blob) [0..<nat (min len 128)])" and "k < 16"
  shows "k < length (argv_tokens blob len) \<longleftrightarrow> k < length ts"
    and "k < length ts \<Longrightarrow> argv_tokens blob len ! k = take 23 (ts ! k)"
  using assms by (simp_all add: argv_tokens_def)

lemma slot_holds_token:
  assumes "k < 16" and "length (as_slots a) = 384" and "\<forall>c \<in> set (as_slots a). c = 0" and "j < 24"
  shows "rd (as_slots (te_tokenize_args_eng len a)) (k * 24 + j) =
    rd (if k < length (argv_tokens (as_blob a) len) then argv_tokens (as_blob a) len ! k else []) j"
proof -
  let ?ts = "split_nul (map (rd (as_blob a)) [0..<nat (min len 128)])"
  have z: "rd (as_slots a) i = 0" for i using assms(3) by (auto simp: rd_def)
  have "(case slot_byte ?ts 0 0 k j of Some b \<Rightarrow> b | None \<Rightarrow> 0) =
      rd (if k < length ?ts then take 23 (?ts ! k) else []) j"
    by (auto simp: slot_byte_def rd_def)
  moreover have "(if k < length (argv_tokens (as_blob a) len) then argv_tokens (as_blob a) len ! k else []) =
      (if k < length ?ts then take 23 (?ts ! k) else [])"
    using argv_tokens_nth [OF refl assms(1)] by simp
  ultimately show ?thesis
    using te_tokenize_args_eng_slots [OF assms(2,1,4), of len] unfolding z by simp
qed

lemma argv_tokens_short: "t \<in> set (argv_tokens blob len) \<Longrightarrow> length t \<le> 23 \<and> 0 \<notin> set t"
  by (auto simp: argv_tokens_def dest!: in_set_takeD split_nul_no_nul)

lemma string_eq_rd:
  assumes "length s \<le> 23" and "length t \<le> 23" and "0 \<notin> set s" and "0 \<notin> set t"
  shows "(\<forall>j < 24. rd s j = rd t j) \<longleftrightarrow> s = t"
proof
  assume eq: "\<forall>j < 24. rd s j = rd t j"
  have "rd s (length t) = 0" and "rd t (length s) = 0"
    using eq assms(1,2) by (metis le_imp_less_Suc nle_le rd_beyond Suc_numeral semiring_norm(5) semiring_norm(8))+
  then have "length s = length t"
    using assms(3,4) by (metis nle_le nth_mem le_neq_implies_less rd_nth)
  then show "s = t"
  proof (rule nth_equalityI)
    fix i
    assume "i < length s"
    then show "s ! i = t ! i"
      using eq [rule_format, of i] assms(1) \<open>length s = length t\<close> by simp
  qed
qed simp


lemma te_tokenize_args_eq:
  "te_tokenize_args blob len slots =
     as_slots (te_tokenize_args_eng len \<lparr>as_blob = blob, as_slots = slots\<rparr>)"
proof -
  let ?n = "nat (min len 128)"
  let ?f = "\<lambda>i (si, pj, out). let c = rd blob i in
      if c = 0 then (if 16 \<le> Suc si then (True, Suc si, 0, out) else (False, Suc si, 0, out))
      else if si < 16 \<and> pj < 24 - 1 then
        (let idx = si * 24 + pj in (False, si, Suc pj, if idx < 16 * 24 then out[idx := c] else out))
      else (False, si, pj, out)"
  define h where "h = (\<lambda>(c, out). (tk_si (c :: te_tok_ctx), tk_pj c, out :: bytes))"
  have step: "?f i (h c) = map_prod id h (te_tok_cb blob i c)" if "i \<in> set [0..<?n]" for i c
    using that by (cases c) (auto simp: h_def te_tok_cb_def and_127 Let_def)
  have "te_tokenize_args blob len slots =
      (case loop_on [0..<128] (\<lambda>i s. if ?n \<le> i then (True, s) else ?f i s) (0, 0, slots) of (_, _, out) \<Rightarrow> out)"
    unfolding te_tokenize_args_def Let_def
    by (intro arg_cong [where f = "\<lambda>r. case r of (_, _, out) \<Rightarrow> out"] loop_on_cong) auto
  also have "loop_on [0..<128] (\<lambda>i s. if ?n \<le> i then (True, s) else ?f i s) (0, 0, slots) =
      loop_on [0..<?n] ?f (h (\<lparr>tk_si = 0, tk_pj = 0\<rparr>, slots))"
    by (subst loop_on_until) (auto simp: h_def)
  also have "\<dots> = h (loop_on [0..<?n] (te_tok_cb blob) (\<lparr>tk_si = 0, tk_pj = 0\<rparr>, slots))"
    by (rule loop_on_sim) (rule step)
  finally show ?thesis
    by (simp add: te_tokenize_args_eng_loop h_def case_prod_beta)
qed

lemma arg_match_in_tokens:
  assumes "length (as_slots a) = TAINT_ARG_SLOTS_BUF" and "\<forall>c \<in> set (as_slots a). c = 0"
    and "tok = padded TAINT_ARG_LEN t" and "t \<noteq> []" and "length t \<le> 23" and "0 \<notin> set t"
  shows "taint_arg_match (as_slots (te_tokenize_args_eng len a)) tok \<longleftrightarrow> t \<in> set (argv_tokens (as_blob a) len)"
proof -
  let ?ts = "argv_tokens (as_blob a) len"
  have tok: "rd tok j = rd t j" for j
    using assms(3,5) by (auto simp: rd_def padded_def nth_append)
  have len: "length ?ts \<le> 16" by (simp add: argv_tokens_def)
  have slot: "(\<forall>j < 24. rd (as_slots (te_tokenize_args_eng len a)) (s * 24 + j) = rd t j) \<longleftrightarrow>
      s < length ?ts \<and> ?ts ! s = t" if "s < 16" for s
  proof -
    have "(\<forall>j < 24. rd (as_slots (te_tokenize_args_eng len a)) (s * 24 + j) = rd t j) \<longleftrightarrow>
        (\<forall>j < 24. rd (if s < length ?ts then ?ts ! s else []) j = rd t j)"
      using slot_holds_token [OF that assms(1,2)] by simp
    also have "\<dots> \<longleftrightarrow> (if s < length ?ts then ?ts ! s else []) = t"
      using argv_tokens_short [of "?ts ! s" "as_blob a" len] assms(5,6) by (intro string_eq_rd) auto
    finally show ?thesis using assms(4) by auto
  qed
  have "rd tok 0 \<noteq> 0" using assms(4,6) tok [of 0] by (cases t) auto
  then have "taint_arg_match (as_slots (te_tokenize_args_eng len a)) tok \<longleftrightarrow>
      (\<exists>s < 16. \<forall>j < 24. rd (as_slots (te_tokenize_args_eng len a)) (s * 24 + j) = rd t j)"
    by (simp add: taint_arg_match_iff tok)
  also have "\<dots> \<longleftrightarrow> (\<exists>s < 16. s < length ?ts \<and> ?ts ! s = t)"
    by (rule ex_cong1, rule conj_cong [OF refl], rule slot)
  also have "\<dots> \<longleftrightarrow> t \<in> set ?ts"
    unfolding in_set_conv_nth by (rule ex_cong1) (use len in auto)
  finally show ?thesis .
qed

text \<open>C32: After the exec hook tokenizes an argv blob into zeroed slots, a rule's argument token
  matches exactly when it is one of the first 16 argv tokens, each read up to its 23rd byte.\<close>

theorem arg_match_tokens:
  assumes "length (as_slots a) = TAINT_ARG_SLOTS_BUF" and "\<forall>c \<in> set (as_slots a). c = 0"
    and "tok = padded TAINT_ARG_LEN t" and "t \<noteq> []" and "length t \<le> 23" and "0 \<notin> set t"
  shows "taint_arg_match (as_slots (te_tokenize_args_eng len a)) tok \<longleftrightarrow> t \<in> set (argv_tokens (as_blob a) len)"
  by (rule arg_match_in_tokens [OF assms])

theorem arg_match_tokens_witness:
  "let a = \<lparr>as_blob = str_bytes ''git'' @ [0] @ str_bytes ''push'', as_slots = replicate 384 0\<rparr>
   in taint_arg_match (as_slots (te_tokenize_args_eng 8 a)) (padded 24 (str_bytes ''push''))
      \<and> \<not> taint_arg_match (as_slots (te_tokenize_args_eng 8 a)) (padded 24 (str_bytes ''pus''))"
proof -
  define a where "a = \<lparr>as_blob = str_bytes ''git'' @ [0] @ str_bytes ''push'', as_slots = replicate 384 0\<rparr>"
  have a: "length (as_slots a) = 384" "\<forall>c \<in> set (as_slots a). c = 0"
    by (simp_all add: a_def)
  have "set (argv_tokens (as_blob a) 8) = {str_bytes ''git'', str_bytes ''push''}"
    unfolding a_def by code_simp
  moreover have "taint_arg_match (as_slots (te_tokenize_args_eng 8 a)) (padded 24 (str_bytes ''push''))
      \<longleftrightarrow> str_bytes ''push'' \<in> set (argv_tokens (as_blob a) 8)"
    by (rule arg_match_tokens [OF a refl]) (simp_all add: str_bytes_def)
  moreover have "taint_arg_match (as_slots (te_tokenize_args_eng 8 a)) (padded 24 (str_bytes ''pus''))
      \<longleftrightarrow> str_bytes ''pus'' \<in> set (argv_tokens (as_blob a) 8)"
    by (rule arg_match_tokens [OF a refl]) (simp_all add: str_bytes_def)
  ultimately show ?thesis
    unfolding a_def [symmetric] Let_def by (simp add: str_bytes_def)
qed

text \<open>The plain-C tokenizer and token matcher compiled into the unit tests agree with the ones
  the kernel runs.\<close>

theorem arg_bodies_agree:
  "te_tokenize_args blob len slots =
     as_slots (te_tokenize_args_eng len \<lparr>as_blob = blob, as_slots = slots\<rparr>)
   \<and> taint_arg_match_c slots tok = taint_arg_match slots tok"
  by (simp add: te_tokenize_args_eq taint_arg_match_c_eq)

end
