(* ===== verification/Policy_Tables.thy ===== *)
theory Policy_Tables
  imports Bpf_Map Taint_Args
begin

text \<open>
  The compiled policy as the kernel holds it: the entries of \<^verbatim>\<open>struct taint_update\<close> and
  \<^verbatim>\<open>struct taint_rule\<close> (\<^verbatim>\<open>bpf/taint.h\<close>) and the constants of the rule language. The
  one-byte enum fields keep their byte, since a policy blob can hold any value there; the ordered
  type of effects is what those bytes stand for.
\<close>

abbreviation (input) MAX_TAINT_LABELS :: nat where "MAX_TAINT_LABELS \<equiv> 64"
abbreviation (input) MAX_TAINT_UPDATES :: nat where "MAX_TAINT_UPDATES \<equiv> 320"
abbreviation (input) MAX_TAINT_RULES :: nat where "MAX_TAINT_RULES \<equiv> 128"
abbreviation (input) MAX_TAINT_GATES :: nat where "MAX_TAINT_GATES \<equiv> 64"
abbreviation (input) MAX_TAINT_INVALS :: nat where "MAX_TAINT_INVALS \<equiv> 64"
abbreviation (input) TAINT_GATE_IMMEDIATE :: s32 where "TAINT_GATE_IMMEDIATE \<equiv> - 1"

abbreviation (input) TOP_EXEC :: u8 where "TOP_EXEC \<equiv> 0"
abbreviation (input) TOP_OPEN :: u8 where "TOP_OPEN \<equiv> 1"
abbreviation (input) TOP_WRITE :: u8 where "TOP_WRITE \<equiv> 2"
abbreviation (input) TOP_CONNECT :: u8 where "TOP_CONNECT \<equiv> 3"
abbreviation (input) TOP_RECV :: u8 where "TOP_RECV \<equiv> 4"

abbreviation (input) TCOND_NONE :: u8 where "TCOND_NONE \<equiv> 0"
abbreviation (input) TCOND_LINEAGE :: u8 where "TCOND_LINEAGE \<equiv> 1"
abbreviation (input) TCOND_AFTER :: u8 where "TCOND_AFTER \<equiv> 2"
abbreviation (input) TCOND_TARGET :: u8 where "TCOND_TARGET \<equiv> 3"

abbreviation (input) TEFFECT_NOTIFY :: u8 where "TEFFECT_NOTIFY \<equiv> 0"
abbreviation (input) TEFFECT_BLOCK :: u8 where "TEFFECT_BLOCK \<equiv> 1"
abbreviation (input) TEFFECT_KILL :: u8 where "TEFFECT_KILL \<equiv> 2"

abbreviation (input) TE_POLICY_OPEN_RULES :: u32 where "TE_POLICY_OPEN_RULES \<equiv> 4"
abbreviation (input) TE_POLICY_WRITE_RULES :: u32 where "TE_POLICY_WRITE_RULES \<equiv> 8"
abbreviation (input) TE_POLICY_CONNECT :: u32 where "TE_POLICY_CONNECT \<equiv> 16"
abbreviation (input) TE_POLICY_RECV :: u32 where "TE_POLICY_RECV \<equiv> 32"
abbreviation (input) TE_POLICY_FILE_FLOW :: u32 where "TE_POLICY_FILE_FLOW \<equiv> 64"
abbreviation (input) TE_POLICY_BLOCK_EXEC :: u32 where "TE_POLICY_BLOCK_EXEC \<equiv> 128"
abbreviation (input) TE_POLICY_BLOCK_FILE :: u32 where "TE_POLICY_BLOCK_FILE \<equiv> 256"
abbreviation (input) TE_POLICY_BLOCK_CONNECT :: u32 where "TE_POLICY_BLOCK_CONNECT \<equiv> 512"

record taint_update =
  up_op :: u8
  up_match :: u8
  up_target :: bytes
  up_arg :: bytes
  up_add :: u64
  up_del :: u64
  up_gates :: u64
  up_invals :: u64
  up_ipv4 :: u32
  up_ipv4_mask :: u32
  up_gate_exit_code :: s32
  up_domain_id :: u32

record taint_rule =
  ru_op :: u8
  ru_match :: u8
  ru_cond_kind :: u8
  ru_cond_neg :: u8
  ru_cond_match :: u8
  ru_effect :: u8
  ru_target :: bytes
  ru_arg :: bytes
  ru_cond_pat :: bytes
  ru_req :: u64
  ru_forbid :: u64
  ru_gate :: u64
  ru_rule_id :: u32
  ru_ipv4 :: u32
  ru_ipv4_mask :: u32
  ru_cond_ipv4 :: u32
  ru_cond_ipv4_mask :: u32
  ru_gate_idx :: u32
  ru_domain_id :: u32
  ru_since_mask :: u64

text \<open>The effects of the rule language, ordered by strength: kill over block over notify.\<close>

datatype taint_effect = Notify | Block | Kill

definition effect_of :: "u8 \<Rightarrow> taint_effect option" where
  "effect_of e =
     (if e = TEFFECT_NOTIFY then Some Notify else if e = TEFFECT_BLOCK then Some Block
      else if e = TEFFECT_KILL then Some Kill else None)"

fun effect_rank :: "taint_effect \<Rightarrow> nat" where
  "effect_rank Notify = 0"
| "effect_rank Block = 1"
| "effect_rank Kill = 2"

lemma effect_rank_inject: "effect_rank a = effect_rank b \<longleftrightarrow> a = b"
  by (cases a; cases b) auto

instantiation taint_effect :: linorder
begin

definition less_eq_taint_effect :: "taint_effect \<Rightarrow> taint_effect \<Rightarrow> bool" where
  "less_eq_taint_effect a b \<longleftrightarrow> effect_rank a \<le> effect_rank b"

definition less_taint_effect :: "taint_effect \<Rightarrow> taint_effect \<Rightarrow> bool" where
  "less_taint_effect a b \<longleftrightarrow> effect_rank a < effect_rank b"

instance
  by standard (auto simp: less_eq_taint_effect_def less_taint_effect_def effect_rank_inject
      dest: antisym [THEN effect_rank_inject [THEN iffD1]])

end

text \<open>The byte order the kernel compares is the order of the effects.\<close>

lemma effect_of_mono:
  assumes "effect_of a = Some x" and "effect_of b = Some y"
  shows "a < b \<longleftrightarrow> x < y"
  using assms by (auto simp: effect_of_def less_taint_effect_def split: if_splits)

lemma effect_of_le_kill: "effect_of e \<noteq> None \<longleftrightarrow> e \<le> TEFFECT_KILL"
proof
  assume "e \<le> 2"
  then have "unat e \<le> 2" by (simp add: word_le_nat_alt)
  then have "unat e = unat (0 :: u8) \<or> unat e = unat (1 :: u8) \<or> unat e = unat (2 :: u8)" by auto
  then have "e = 0 \<or> e = 1 \<or> e = 2" by (simp only: word_unat_eq_iff)
  then show "effect_of e \<noteq> None" by (auto simp: effect_of_def)
qed (auto simp: effect_of_def split: if_splits)

end
