(* ===== verification/Capability.thy ===== *)
theory Capability
  imports Policy_Tables
begin

text \<open>
  Runtime domains and the admission of policy deltas (\<^verbatim>\<open>bpf/capability.bpf.h\<close>): the domain
  tree in \<^verbatim>\<open>cap_state\<close>, the binding of tasks to domains in \<^verbatim>\<open>cap_task\<close>, the per-domain
  rule masks in \<^verbatim>\<open>cap_policy\<close>, the checks on a delta, and the drain callback that applies
  accepted deltas to the policy tables. \<^verbatim>\<open>policy_features\<close> and \<^verbatim>\<open>enforce_mode\<close> are the
  program's read-only globals and are kept in the same record as the maps.
\<close>

section \<open>State\<close>

abbreviation (input) AUTH_TARGET_SELF :: u64 where "AUTH_TARGET_SELF \<equiv> 1"
abbreviation (input) AUTH_TARGET_CHILD :: u64 where "AUTH_TARGET_CHILD \<equiv> 2"
abbreviation (input) AUTH_ADD_RESTRICTION :: u64 where "AUTH_ADD_RESTRICTION \<equiv> 1"
abbreviation (input) AUTH_ADD_LABEL :: u64 where "AUTH_ADD_LABEL \<equiv> 2"
abbreviation (input) AUTH_REQUIRE_GATE :: u64 where "AUTH_REQUIRE_GATE \<equiv> 4"
abbreviation (input) AUTH_NARROW_SCOPE :: u64 where "AUTH_NARROW_SCOPE \<equiv> 8"
abbreviation (input) AUTH_BIND_RULE :: u64 where "AUTH_BIND_RULE \<equiv> 16"
abbreviation (input) AUTH_DECLASSIFY :: u64 where "AUTH_DECLASSIFY \<equiv> 32"
abbreviation (input) AUTH_DELEGATE :: u64 where "AUTH_DELEGATE \<equiv> 64"

abbreviation (input) CAP_STAT_ACCEPT :: nat where "CAP_STAT_ACCEPT \<equiv> 0"
abbreviation (input) CAP_STAT_REJECT :: nat where "CAP_STAT_REJECT \<equiv> 1"
abbreviation (input) CAP_STAT_DRAIN :: nat where "CAP_STAT_DRAIN \<equiv> 2"
abbreviation (input) CAP_STAT_DROP :: nat where "CAP_STAT_DROP \<equiv> 3"
abbreviation (input) CAP_DOMAIN_DEPTH :: nat where "CAP_DOMAIN_DEPTH \<equiv> 8"

record cap_state =
  cs_parent :: u32
  cs_scope_id :: u32
  cs_labels :: u64
  cs_authority_mask :: u64
  cs_target_mask :: u64
  cs_restrict_mask :: u64
  cs_gate_mask :: u64
  cs_label_mask :: u64

record cap_policy_mask =
  pm_lo :: u64
  pm_hi :: u64

record cap_delta_request =
  rq_caller_pid :: pid_t
  rq_target_id :: u32
  rq_new_scope_id :: u32
  rq_required_mask :: u64
  rq_add_restrict_mask :: u64
  rq_add_label_mask :: u64
  rq_add_gate_mask :: u64

record cap_append_update =
  au_caller_pid :: pid_t
  au_target_id :: u32
  au_new_scope_id :: u32
  au_required_mask :: u64
  au_entry :: taint_update

record cap_append_rule =
  ar_caller_pid :: pid_t
  ar_target_id :: u32
  ar_new_scope_id :: u32
  ar_required_mask :: u64
  ar_entry :: taint_rule

record cap_maps =
  enforce_mode :: u32
  policy_features :: u32
  ts_updates :: "taint_update bpf_array"
  ts_rules :: "taint_rule bpf_array"
  ts_counts :: "u32 bpf_array"
  cap_states :: "(u32, cap_state) bpf_hash"
  cap_task :: "(pid_t, u32) bpf_hash"
  cap_policy :: "(u32, cap_policy_mask) bpf_hash"
  cap_stats :: "u64 bpf_array"

section \<open>Checks on a delta\<close>

definition cap_count :: "nat \<Rightarrow> 'a cap_maps_scheme \<Rightarrow> 'a cap_maps_scheme" where
  "cap_count slot st =
     (case arr_lookup (cap_stats st) slot of
        None \<Rightarrow> st
      | Some v \<Rightarrow> st\<lparr>cap_stats := snd (arr_update slot (v + 1) (cap_stats st))\<rparr>)"

definition cap_required_mask_fields :: "u64 \<Rightarrow> u64 \<Rightarrow> u64 \<Rightarrow> u64 \<Rightarrow> u64 \<Rightarrow> u32 \<Rightarrow> u64" where
  "cap_required_mask_fields required_mask add_restrict_mask add_label_mask del_label_mask
     add_gate_mask new_scope_id =
     (let mask = required_mask;
          mask = (if add_restrict_mask \<noteq> 0 then mask OR AUTH_ADD_RESTRICTION else mask);
          mask = (if add_label_mask \<noteq> 0 then mask OR AUTH_ADD_LABEL else mask);
          mask = (if del_label_mask \<noteq> 0 then mask OR AUTH_DECLASSIFY else mask);
          mask = (if add_gate_mask \<noteq> 0 then mask OR AUTH_REQUIRE_GATE else mask);
          mask = (if new_scope_id \<noteq> 0 then mask OR AUTH_NARROW_SCOPE else mask)
      in mask)"

definition cap_required_mask :: "cap_delta_request \<Rightarrow> u64" where
  "cap_required_mask r =
     cap_required_mask_fields (rq_required_mask r) (rq_add_restrict_mask r) (rq_add_label_mask r) 0
       (rq_add_gate_mask r) (rq_new_scope_id r)"

definition cap_scope_subset :: "u32 \<Rightarrow> u32 \<Rightarrow> bool" where
  "cap_scope_subset new_scope old_scope =
     (if new_scope = 0 then True else if old_scope = 0 then True else new_scope \<ge> old_scope)"

definition cap_target_mask :: "u32 \<Rightarrow> u32 \<Rightarrow> cap_state \<Rightarrow> u64" where
  "cap_target_mask caller target dst =
     (let mask = 0;
          mask = (if caller = target then mask OR AUTH_TARGET_SELF else mask);
          mask = (if cs_parent dst = caller then mask OR AUTH_TARGET_CHILD else mask)
      in mask)"

definition cap_check_fields ::
  "'a cap_maps_scheme \<Rightarrow> pid_t \<Rightarrow> u32 \<Rightarrow> u32 \<Rightarrow> u64 \<Rightarrow> u64 \<Rightarrow> u64 \<Rightarrow> u64 \<Rightarrow> u64 \<Rightarrow> int" where
  "cap_check_fields st caller_pid target_id new_scope_id required_mask add_restrict_mask
     add_label_mask del_label_mask add_gate_mask =
     (case map_lookup (cap_task st) caller_pid of
        None \<Rightarrow> - 1
      | Some caller \<Rightarrow>
          (case (map_lookup (cap_states st) caller, map_lookup (cap_states st) target_id) of
             (Some src, Some dst) \<Rightarrow>
               (if cap_target_mask caller target_id dst AND cs_target_mask src = 0 then - 1
                else if cap_required_mask_fields required_mask add_restrict_mask add_label_mask
                          del_label_mask add_gate_mask new_scope_id AND NOT (cs_authority_mask src) \<noteq> 0
                then - 1
                else if (add_label_mask OR del_label_mask) AND NOT (cs_label_mask src) \<noteq> 0 then - 1
                else if \<not> cap_scope_subset new_scope_id (cs_scope_id dst) then - 1
                else 0)
           | _ \<Rightarrow> - 1))"

definition cap_check_request :: "'a cap_maps_scheme \<Rightarrow> cap_delta_request \<Rightarrow> int" where
  "cap_check_request st r =
     cap_check_fields st (rq_caller_pid r) (rq_target_id r) (rq_new_scope_id r) (rq_required_mask r)
       (rq_add_restrict_mask r) (rq_add_label_mask r) 0 (rq_add_gate_mask r)"

definition cap_can_submit_for :: "'a cap_maps_scheme \<Rightarrow> pid_t \<Rightarrow> pid_t \<Rightarrow> bool" where
  "cap_can_submit_for st submitter_pid caller_pid =
     (if submitter_pid = caller_pid then True
      else case map_lookup (cap_task st) submitter_pid of
             None \<Rightarrow> False
           | Some submitter \<Rightarrow>
               (case map_lookup (cap_states st) submitter of
                  None \<Rightarrow> False
                | Some src \<Rightarrow> cs_authority_mask src AND AUTH_DELEGATE \<noteq> 0))"

definition cap_path_match_supported :: "u32 \<Rightarrow> u8 \<Rightarrow> bool" where
  "cap_path_match_supported features mat =
     (if mat = TAINT_MATCH_CONTAINS \<and> features AND TE_POLICY_PATH_CONTAINS = 0 then False
      else if mat = TAINT_MATCH_SUFFIX \<and> features AND TE_POLICY_PATH_SUFFIX = 0 then False
      else True)"

section \<open>Rules bound to a domain\<close>

definition cap_policy_mask_has :: "cap_policy_mask option \<Rightarrow> nat \<Rightarrow> bool" where
  "cap_policy_mask_has m idx =
     (case m of
        None \<Rightarrow> False
      | Some m \<Rightarrow>
          if MAX_TAINT_RULES \<le> idx then False
          else if idx < 64 then pm_lo m AND bit64 idx \<noteq> 0
          else pm_hi m AND bit64 (idx - 64) \<noteq> 0)"

definition cap_policy_rule_bound :: "'a cap_maps_scheme \<Rightarrow> u32 \<Rightarrow> nat \<Rightarrow> bool" where
  "cap_policy_rule_bound st domain_id idx =
     cap_policy_mask_has (map_lookup (cap_policy st) domain_id) idx"

definition cap_policy_bind_rule ::
  "u32 \<Rightarrow> nat \<Rightarrow> 'a cap_maps_scheme \<Rightarrow> int \<times> 'a cap_maps_scheme" where
  "cap_policy_bind_rule domain_id idx st =
     (if MAX_TAINT_RULES \<le> idx then (- 1, st)
      else
        let cur = (case map_lookup (cap_policy st) domain_id of
                     None \<Rightarrow> \<lparr>pm_lo = 0, pm_hi = 0\<rparr> | Some m \<Rightarrow> m);
            nxt = (if idx < 64 then cur\<lparr>pm_lo := pm_lo cur OR bit64 idx\<rparr>
                   else cur\<lparr>pm_hi := pm_hi cur OR bit64 (idx - 64)\<rparr>);
            (rc, m) = map_update_elem BPF_ANY domain_id nxt (cap_policy st)
        in (rc, st\<lparr>cap_policy := m\<rparr>))"

definition cap_policy_clear_domain :: "u32 \<Rightarrow> 'a cap_maps_scheme \<Rightarrow> 'a cap_maps_scheme" where
  "cap_policy_clear_domain domain_id st = st\<lparr>cap_policy := map_delete domain_id (cap_policy st)\<rparr>"

definition cap_update_supported :: "u32 \<Rightarrow> taint_update \<Rightarrow> bool" where
  "cap_update_supported features u =
     (if up_op u = TOP_OPEN \<or> up_op u = TOP_WRITE then
        (if features AND TE_POLICY_FILE_FLOW = 0 then False
         else cap_path_match_supported features (up_match u))
      else if up_op u = TOP_CONNECT \<and> features AND TE_POLICY_CONNECT = 0 then False
      else if up_op u = TOP_RECV \<and> features AND TE_POLICY_RECV = 0 then False
      else True)"

definition cap_rule_supported :: "u32 \<Rightarrow> taint_rule \<Rightarrow> bool" where
  "cap_rule_supported features r =
     (if ru_effect r = TEFFECT_BLOCK \<and>
         ((ru_op r = TOP_EXEC \<and> rd (ru_arg r) 0 = 0 \<and> features AND TE_POLICY_BLOCK_EXEC = 0) \<or>
          ((ru_op r = TOP_OPEN \<or> ru_op r = TOP_WRITE) \<and> features AND TE_POLICY_BLOCK_FILE = 0) \<or>
          (ru_op r = TOP_CONNECT \<and> features AND TE_POLICY_BLOCK_CONNECT = 0)) then False
      else if ru_op r = TOP_OPEN \<and>
         (features AND TE_POLICY_OPEN_RULES = 0 \<or> \<not> cap_path_match_supported features (ru_match r) \<or>
          (ru_cond_kind r = TCOND_TARGET \<and> \<not> cap_path_match_supported features (ru_cond_match r))) then False
      else if ru_op r = TOP_WRITE \<and>
         (features AND TE_POLICY_WRITE_RULES = 0 \<or> \<not> cap_path_match_supported features (ru_match r) \<or>
          (ru_cond_kind r = TCOND_TARGET \<and> \<not> cap_path_match_supported features (ru_cond_match r))) then False
      else if ru_op r = TOP_CONNECT \<and> features AND TE_POLICY_CONNECT = 0 then False
      else if ru_op r = TOP_RECV \<and> features AND TE_POLICY_RECV = 0 then False
      else True)"

section \<open>Applying a delta\<close>

definition cap_apply_request ::
  "cap_delta_request \<Rightarrow> 'a cap_maps_scheme \<Rightarrow> int \<times> 'a cap_maps_scheme" where
  "cap_apply_request r st =
     (if cap_check_request st r \<noteq> 0 then (- 1, st)
      else case map_lookup (cap_states st) (rq_target_id r) of
             None \<Rightarrow> (- 1, st)
           | Some dst \<Rightarrow>
               let nxt = dst\<lparr>cs_restrict_mask := cs_restrict_mask dst OR rq_add_restrict_mask r,
                             cs_labels := cs_labels dst OR rq_add_label_mask r,
                             cs_gate_mask := cs_gate_mask dst OR rq_add_gate_mask r\<rparr>;
                   nxt = (if rq_new_scope_id r \<noteq> 0 then nxt\<lparr>cs_scope_id := rq_new_scope_id r\<rparr> else nxt)
               in (0, st\<lparr>cap_states :=
                     snd (map_update_elem BPF_EXIST (rq_target_id r) nxt (cap_states st))\<rparr>))"

definition cap_append_update_admit :: "'a cap_maps_scheme \<Rightarrow> cap_append_update \<Rightarrow> pid_t \<Rightarrow> int" where
  "cap_append_update_admit st r current_pid =
     (if \<not> cap_can_submit_for st current_pid (au_caller_pid r) then - 1
      else if \<not> cap_update_supported (policy_features st) (au_entry r) then - 1
      else cap_check_fields st (au_caller_pid r) (au_target_id r) (au_new_scope_id r)
             (au_required_mask r) 0 (up_add (au_entry r)) (up_del (au_entry r))
             (up_gates (au_entry r) OR up_invals (au_entry r)))"

definition cap_append_rule_admit :: "'a cap_maps_scheme \<Rightarrow> cap_append_rule \<Rightarrow> pid_t \<Rightarrow> int" where
  "cap_append_rule_admit st r current_pid =
     (if \<not> cap_can_submit_for st current_pid (ar_caller_pid r) then - 1
      else if \<not> cap_rule_supported (policy_features st) (ar_entry r) then - 1
      else cap_check_fields st (ar_caller_pid r) (ar_target_id r) (ar_new_scope_id r)
             (ar_required_mask r OR AUTH_BIND_RULE) 0 0 0 0)"

definition cap_append_update_entry ::
  "cap_append_update \<Rightarrow> 'a cap_maps_scheme \<Rightarrow> int \<times> 'a cap_maps_scheme" where
  "cap_append_update_entry r st =
     (case arr_lookup (ts_counts st) 1 of
        None \<Rightarrow> (- 1, st)
      | Some count \<Rightarrow>
          if MAX_TAINT_UPDATES \<le> unat count then (- 1, st)
          else
            let entry = (au_entry r)\<lparr>up_domain_id := au_target_id r\<rparr>;
                (rc, a) = arr_update (unat count) entry (ts_updates st);
                st = st\<lparr>ts_updates := a\<rparr>
            in if rc \<noteq> 0 then (- 1, st)
               else (0, st\<lparr>ts_counts := snd (arr_update 1 (count + 1) (ts_counts st))\<rparr>))"

definition cap_append_rule_entry ::
  "cap_append_rule \<Rightarrow> 'a cap_maps_scheme \<Rightarrow> int \<times> 'a cap_maps_scheme" where
  "cap_append_rule_entry r st =
     (case arr_lookup (ts_counts st) 0 of
        None \<Rightarrow> (- 1, st)
      | Some count \<Rightarrow>
          if MAX_TAINT_RULES \<le> unat count then (- 1, st)
          else
            let entry = (ar_entry r)\<lparr>ru_domain_id := ar_target_id r\<rparr>;
                (rc, a) = arr_update (unat count) entry (ts_rules st);
                st = st\<lparr>ts_rules := a\<rparr>
            in if rc \<noteq> 0 then (- 1, st)
               else
                 let (rc, st) = cap_policy_bind_rule (ar_target_id r) (unat count) st
                 in if rc \<noteq> 0 then (- 1, st)
                    else (0, st\<lparr>ts_counts := snd (arr_update 0 (count + 1) (ts_counts st))\<rparr>))"

section \<open>Draining the request ring\<close>

text \<open>One record of the user ring buffer: \<^verbatim>\<open>bpf_dynptr_data(dynptr, 0, n)\<close> gives the first
  \<open>n\<close> bytes, or NULL when the record is shorter. The fields are those views of one record.\<close>

record cap_dynptr =
  dp_tag :: "s32 option"
  dp_update :: "cap_append_update option"
  dp_rule :: "cap_append_rule option"
  dp_delta :: "cap_delta_request option"

abbreviation (input) CAP_REQ_APPEND_UPDATE :: s32 where "CAP_REQ_APPEND_UPDATE \<equiv> - 4"
abbreviation (input) CAP_REQ_APPEND_RULE :: s32 where "CAP_REQ_APPEND_RULE \<equiv> - 5"

definition cap_request_cb :: "pid_t \<Rightarrow> cap_dynptr \<Rightarrow> 'a cap_maps_scheme \<Rightarrow> 'a cap_maps_scheme" where
  "cap_request_cb current_pid dp st =
     (case dp_tag dp of
        None \<Rightarrow> cap_count CAP_STAT_DROP st
      | Some tag \<Rightarrow>
          if tag = CAP_REQ_APPEND_UPDATE then
            (case dp_update dp of
               None \<Rightarrow> cap_count CAP_STAT_REJECT st
             | Some r \<Rightarrow>
                 if cap_append_update_admit st r current_pid \<noteq> 0 then cap_count CAP_STAT_REJECT st
                 else let (rc, st) = cap_append_update_entry r st
                      in if rc \<noteq> 0 then cap_count CAP_STAT_REJECT st else cap_count CAP_STAT_ACCEPT st)
          else if tag = CAP_REQ_APPEND_RULE then
            (case dp_rule dp of
               None \<Rightarrow> cap_count CAP_STAT_REJECT st
             | Some r \<Rightarrow>
                 if cap_append_rule_admit st r current_pid \<noteq> 0 then cap_count CAP_STAT_REJECT st
                 else let (rc, st) = cap_append_rule_entry r st
                      in if rc \<noteq> 0 then cap_count CAP_STAT_REJECT st else cap_count CAP_STAT_ACCEPT st)
          else
            (case dp_delta dp of
               None \<Rightarrow> cap_count CAP_STAT_DROP st
             | Some r \<Rightarrow>
                 if rq_caller_pid r \<noteq> current_pid then cap_count CAP_STAT_DROP st
                 else let (rc, st) = cap_apply_request r st
                      in if rc = 0 then cap_count CAP_STAT_ACCEPT st else cap_count CAP_STAT_REJECT st))"

text \<open>\<^verbatim>\<open>bpf_user_ringbuf_drain\<close> hands the callback each queued record in order; the callback
  always returns 0, so none is left out. The current pid is the upper half of
  \<^verbatim>\<open>bpf_get_current_pid_tgid()\<close>.\<close>

definition cap_drain_current :: "u64 \<Rightarrow> cap_dynptr list \<Rightarrow> 'a cap_maps_scheme \<Rightarrow> 'a cap_maps_scheme" where
  "cap_drain_current pid_tgid ring st =
     cap_count CAP_STAT_DRAIN (fold (cap_request_cb (ucast (drop_bit 32 pid_tgid))) ring st)"

section \<open>Domains of a task\<close>

definition cap_labels_for_pid :: "'a cap_maps_scheme \<Rightarrow> pid_t \<Rightarrow> u64" where
  "cap_labels_for_pid st pid =
     (case map_lookup (cap_task st) pid of
        None \<Rightarrow> 0
      | Some target \<Rightarrow>
          (case map_lookup (cap_states st) target of
             None \<Rightarrow> 0
           | Some p \<Rightarrow> cs_labels p OR cs_restrict_mask p))"

definition cap_task_bound :: "'a cap_maps_scheme \<Rightarrow> pid_t \<Rightarrow> bool" where
  "cap_task_bound st pid =
     (case map_lookup (cap_task st) pid of None \<Rightarrow> False | Some target \<Rightarrow> target \<noteq> 0)"

definition cap_domain_for_pid :: "'a cap_maps_scheme \<Rightarrow> pid_t \<Rightarrow> u32" where
  "cap_domain_for_pid st pid =
     (case map_lookup (cap_task st) pid of None \<Rightarrow> 0 | Some target \<Rightarrow> target)"

definition cap_parent_domain :: "'a cap_maps_scheme \<Rightarrow> u32 \<Rightarrow> u32" where
  "cap_parent_domain st domain_id =
     (if domain_id = 0 then 0
      else case map_lookup (cap_states st) domain_id of None \<Rightarrow> 0 | Some state \<Rightarrow> cs_parent state)"

text \<open>The walk up the domain tree in \<^verbatim>\<open>cap_domain_matches_pid\<close>, \<open>n\<close> iterations left.\<close>

fun cap_match_loop :: "nat \<Rightarrow> 'a cap_maps_scheme \<Rightarrow> u32 \<Rightarrow> u32 \<Rightarrow> bool" where
  "cap_match_loop 0 st current domain_id = False"
| "cap_match_loop (Suc n) st current domain_id =
     (if current = domain_id then True
      else case map_lookup (cap_states st) current of
             None \<Rightarrow> False
           | Some state \<Rightarrow>
               if cs_parent state = 0 then False
               else cap_match_loop n st (cs_parent state) domain_id)"

definition cap_domain_matches_pid :: "'a cap_maps_scheme \<Rightarrow> pid_t \<Rightarrow> u32 \<Rightarrow> bool" where
  "cap_domain_matches_pid st pid domain_id =
     (if domain_id = 0 then True
      else case map_lookup (cap_task st) pid of
             None \<Rightarrow> False
           | Some target \<Rightarrow>
               if target = 0 then False
               else cap_match_loop CAP_DOMAIN_DEPTH st target domain_id)"

definition cap_labels_for_pid_domain :: "'a cap_maps_scheme \<Rightarrow> pid_t \<Rightarrow> u32 \<Rightarrow> u64" where
  "cap_labels_for_pid_domain st pid domain_id =
     (if domain_id = 0 then 0
      else if \<not> cap_domain_matches_pid st pid domain_id then 0
      else case map_lookup (cap_states st) domain_id of
             None \<Rightarrow> 0
           | Some p \<Rightarrow> cs_labels p OR cs_restrict_mask p)"

definition cap_fork :: "pid_t \<Rightarrow> pid_t \<Rightarrow> 'a cap_maps_scheme \<Rightarrow> 'a cap_maps_scheme" where
  "cap_fork ppid cpid st =
     (case map_lookup (cap_task st) ppid of
        None \<Rightarrow> st
      | Some target \<Rightarrow> st\<lparr>cap_task := map_put cpid target (cap_task st)\<rparr>)"

definition cap_exit :: "pid_t \<Rightarrow> 'a cap_maps_scheme \<Rightarrow> 'a cap_maps_scheme" where
  "cap_exit pid st = st\<lparr>cap_task := map_delete pid (cap_task st)\<rparr>"

text \<open>The ancestors of a domain, nearest first, at most \<open>n\<close> of them.\<close>

fun cap_chain :: "nat \<Rightarrow> 'a cap_maps_scheme \<Rightarrow> u32 \<Rightarrow> u32 list" where
  "cap_chain 0 st d = []"
| "cap_chain (Suc n) st d = (if d = 0 then [] else d # cap_chain n st (cap_parent_domain st d))"

text \<open>The tables have the sizes the maps declare, and the counts stay within them.\<close>

definition wf_tables :: "'a cap_maps_scheme \<Rightarrow> bool" where
  "wf_tables st \<longleftrightarrow>
     a_max (ts_updates st) = MAX_TAINT_UPDATES \<and> a_max (ts_rules st) = MAX_TAINT_RULES \<and>
     a_max (ts_counts st) = 6 \<and> a_max (cap_stats st) = 4 \<and>
     unat (a_cell (ts_counts st) 0) \<le> MAX_TAINT_RULES \<and>
     unat (a_cell (ts_counts st) 1) \<le> MAX_TAINT_UPDATES \<and>
     unat (a_cell (ts_counts st) 5) \<le> MAX_TAINT_LABELS"


text \<open>What a delta may do to a domain: labels, restrictions and required gates grow, the scope
  narrows, and the parent and every authority stay.\<close>

definition cap_state_grows :: "cap_state \<Rightarrow> cap_state \<Rightarrow> bool" where
  "cap_state_grows s t \<longleftrightarrow>
     cs_parent t = cs_parent s \<and> cs_authority_mask t = cs_authority_mask s \<and>
     cs_target_mask t = cs_target_mask s \<and> cs_label_mask t = cs_label_mask s \<and>
     bits_of (cs_labels s) \<subseteq> bits_of (cs_labels t) \<and>
     bits_of (cs_restrict_mask s) \<subseteq> bits_of (cs_restrict_mask t) \<and>
     bits_of (cs_gate_mask s) \<subseteq> bits_of (cs_gate_mask t) \<and>
     (cs_scope_id s = 0 \<or> cs_scope_id s \<le> cs_scope_id t)"

definition n_rules :: "'a cap_maps_scheme \<Rightarrow> nat" where
  "n_rules st = unat (a_cell (ts_counts st) 0)"

definition n_updates :: "'a cap_maps_scheme \<Rightarrow> nat" where
  "n_updates st = unat (a_cell (ts_counts st) 1)"

text \<open>What deltas may do to the policy: no task moves, no domain appears or disappears, and every
  active update and rule stays in its place, still bound.\<close>

definition policy_grows :: "'a cap_maps_scheme \<Rightarrow> 'a cap_maps_scheme \<Rightarrow> bool" where
  "policy_grows st st' \<longleftrightarrow>
     policy_features st' = policy_features st \<and> enforce_mode st' = enforce_mode st \<and>
     cap_task st' = cap_task st \<and>
     (\<forall>d. rel_option cap_state_grows (map_lookup (cap_states st) d) (map_lookup (cap_states st') d)) \<and>
     n_rules st \<le> n_rules st' \<and> (\<forall>i < n_rules st. a_cell (ts_rules st') i = a_cell (ts_rules st) i) \<and>
     n_updates st \<le> n_updates st' \<and>
     (\<forall>i < n_updates st. a_cell (ts_updates st') i = a_cell (ts_updates st) i) \<and>
     (\<forall>d i. cap_policy_rule_bound st d i \<longrightarrow> cap_policy_rule_bound st' d i)"

section \<open>The admission check\<close>

lemma cap_check_fields_ok_iff:
  "cap_check_fields st pid target scope req restr add del gate = 0 \<longleftrightarrow>
     (\<exists>caller src dst. map_lookup (cap_task st) pid = Some caller \<and>
        map_lookup (cap_states st) caller = Some src \<and> map_lookup (cap_states st) target = Some dst \<and>
        cap_target_mask caller target dst AND cs_target_mask src \<noteq> 0 \<and>
        bits_of (cap_required_mask_fields req restr add del gate scope) \<subseteq> bits_of (cs_authority_mask src) \<and>
        bits_of (add OR del) \<subseteq> bits_of (cs_label_mask src) \<and> cap_scope_subset scope (cs_scope_id dst))"
  unfolding cap_check_fields_def and_not_eq_0_iff
  by (simp del: bits_of_or split: option.split)

lemma bits_1 [simp]: "bits_of (1 :: u64) = {0}"
  using bits_of_bit64 [of 0] by (simp add: bit64_def)

lemma bits_2 [simp]: "bits_of (2 :: u64) = {1}"
  using bits_of_bit64 [of 1] by (simp add: bit64_def)

lemma bits_4 [simp]: "bits_of (4 :: u64) = {2}"
  using bits_of_bit64 [of 2] by (simp add: bit64_def)

lemma bits_8 [simp]: "bits_of (8 :: u64) = {3}"
  using bits_of_bit64 [of 3] by (simp add: bit64_def)

lemma bits_16 [simp]: "bits_of (16 :: u64) = {4}"
  using bits_of_bit64 [of 4] by (simp add: bit64_def)

lemma bits_32 [simp]: "bits_of (32 :: u64) = {5}"
  using bits_of_bit64 [of 5] by (simp add: bit64_def)

lemma cap_required_bits:
  "bits_of (cap_required_mask_fields req restr add del gate scope) =
     bits_of req \<union> (if restr \<noteq> 0 then {0} else {}) \<union> (if add \<noteq> 0 then {1} else {}) \<union>
     (if del \<noteq> 0 then {5} else {}) \<union> (if gate \<noteq> 0 then {2} else {}) \<union> (if scope \<noteq> 0 then {3} else {})"
  by (simp add: cap_required_mask_fields_def Let_def)

section \<open>Growth under deltas\<close>

lemma cap_state_grows_refl: "cap_state_grows s s"
  by (simp add: cap_state_grows_def)

lemma cap_state_grows_trans: "cap_state_grows s t \<Longrightarrow> cap_state_grows t u \<Longrightarrow> cap_state_grows s u"
  unfolding cap_state_grows_def by auto

lemma policy_grows_refl: "policy_grows st st"
  by (auto simp: policy_grows_def cap_state_grows_refl option.rel_refl)

lemma policy_grows_trans: "policy_grows st t \<Longrightarrow> policy_grows t u \<Longrightarrow> policy_grows st u"
  unfolding policy_grows_def
proof (intro conjI allI impI, goal_cases)
  case (4 d)
  then have "rel_option cap_state_grows (map_lookup (cap_states st) d) (map_lookup (cap_states t) d)"
    and "rel_option cap_state_grows (map_lookup (cap_states t) d) (map_lookup (cap_states u) d)"
    by auto
  then show ?case
    by (cases "map_lookup (cap_states t) d") (auto simp: option_rel_Some1 option_rel_Some2 intro: cap_state_grows_trans)
qed auto

interpretation delta: growth wf_tables policy_grows
  by unfold_locales (auto intro: policy_grows_refl policy_grows_trans)

lemma cap_count_fields [simp]:
  "policy_features (cap_count i st) = policy_features st"
  "enforce_mode (cap_count i st) = enforce_mode st"
  "cap_task (cap_count i st) = cap_task st"
  "cap_states (cap_count i st) = cap_states st"
  "cap_policy (cap_count i st) = cap_policy st"
  "ts_counts (cap_count i st) = ts_counts st"
  "ts_rules (cap_count i st) = ts_rules st"
  "ts_updates (cap_count i st) = ts_updates st"
  "a_max (cap_stats (cap_count i st)) = a_max (cap_stats st)"
  by (auto simp: cap_count_def split: option.splits)

lemma cap_count_keeps: "delta.keeps (cap_count i)"
  by (rule delta.keepsI)
    (auto simp: wf_tables_def policy_grows_def n_rules_def n_updates_def cap_policy_rule_bound_def
      cap_state_grows_refl option.rel_refl)

lemma map_update_exist:
  "map_lookup m k = Some w \<Longrightarrow> snd (map_update_elem BPF_EXIST k v m) = map_put k v m"
  by (simp add: map_update_elem_def map_put_def map_lookup_def)

lemma policy_mask_or:
  "cap_policy_mask_has (Some m) i \<Longrightarrow> cap_policy_mask_has (Some (m\<lparr>pm_lo := pm_lo m OR x\<rparr>)) i"
  "cap_policy_mask_has (Some m) i \<Longrightarrow> cap_policy_mask_has (Some (m\<lparr>pm_hi := pm_hi m OR x\<rparr>)) i"
  by (auto simp: cap_policy_mask_has_def and_eq_0_iff split: if_splits)

lemma policy_mask_bit:
  "i < 64 \<Longrightarrow> cap_policy_mask_has (Some m) i \<longleftrightarrow> i \<in> bits_of (pm_lo m)"
  "64 \<le> i \<Longrightarrow> i < 128 \<Longrightarrow> cap_policy_mask_has (Some m) i \<longleftrightarrow> i - 64 \<in> bits_of (pm_hi m)"
  by (auto simp: cap_policy_mask_has_def and_eq_0_iff)

lemma policy_mask_set:
  assumes "j < MAX_TAINT_RULES"
  shows "cap_policy_mask_has
           (Some (if j < 64 then m\<lparr>pm_lo := pm_lo m OR bit64 j\<rparr>
                  else m\<lparr>pm_hi := pm_hi m OR bit64 (j - 64)\<rparr>)) i
         \<longleftrightarrow> i = j \<or> cap_policy_mask_has (Some m) i"
  using assms by (auto simp: cap_policy_mask_has_def and_eq_0_iff)

lemma cap_policy_bind_rule_frame:
  "snd (cap_policy_bind_rule d i st) = st\<lparr>cap_policy := cap_policy (snd (cap_policy_bind_rule d i st))\<rparr>"
  by (simp add: cap_policy_bind_rule_def Let_def split: prod.split)

lemma cap_policy_bind_rule_bound:
  assumes "i < MAX_TAINT_RULES"
  shows "cap_policy_rule_bound (snd (cap_policy_bind_rule d i st)) d' j \<longleftrightarrow>
         (d' = d \<and> j = i \<and> room (cap_policy st) d) \<or> cap_policy_rule_bound st d' j"
proof -
  let ?m = "case map_lookup (cap_policy st) d of None \<Rightarrow> \<lparr>pm_lo = 0, pm_hi = 0\<rparr> | Some m \<Rightarrow> m"
  have "cap_policy (snd (cap_policy_bind_rule d i st)) =
          map_put d (if i < 64 then ?m\<lparr>pm_lo := pm_lo ?m OR bit64 i\<rparr>
                     else ?m\<lparr>pm_hi := pm_hi ?m OR bit64 (i - 64)\<rparr>) (cap_policy st)"
    using assms by (simp add: cap_policy_bind_rule_def Let_def map_put_def split: prod.split)
  moreover have "cap_policy_mask_has (Some ?m) j = cap_policy_mask_has (map_lookup (cap_policy st) d) j"
    by (auto simp: cap_policy_mask_has_def split: option.splits)
  ultimately show ?thesis
    using policy_mask_set [OF assms, of ?m j]
    by (auto simp: cap_policy_rule_bound_def lookup_put room_present)
qed

lemma cap_policy_bind_rule_rc:
  "fst (cap_policy_bind_rule d i st) = 0 \<longleftrightarrow> i < MAX_TAINT_RULES \<and> room (cap_policy st) d"
  by (auto simp: cap_policy_bind_rule_def Let_def map_update_elem_def room_def split: option.splits)

lemma cap_apply_request_keeps: "delta.keeps (\<lambda>st. snd (cap_apply_request r st))"
proof (rule delta.keepsI)
  fix st :: "'a cap_maps_scheme"
  show "wf_tables st \<Longrightarrow> wf_tables (snd (cap_apply_request r st))"
    by (auto simp: cap_apply_request_def Let_def wf_tables_def split: option.split)
  show "policy_grows st (snd (cap_apply_request r st))"
  proof (cases "cap_check_request st r = 0 \<and> map_lookup (cap_states st) (rq_target_id r) \<noteq> None")
    case True
    then obtain dst where d: "map_lookup (cap_states st) (rq_target_id r) = Some dst" by auto
    from True d have "cap_scope_subset (rq_new_scope_id r) (cs_scope_id dst)"
      by (auto simp: cap_check_request_def cap_check_fields_ok_iff)
    then show ?thesis
      using True d
      by (auto simp: cap_apply_request_def Let_def policy_grows_def n_rules_def n_updates_def
          cap_policy_rule_bound_def map_update_exist lookup_put cap_state_grows_def
          cap_scope_subset_def option.rel_refl split: if_splits)
  qed (auto simp: cap_apply_request_def policy_grows_refl split: option.split)
qed

lemma arr_cell_update [simp]:
  "a_cell (snd (arr_update i v a)) j = (if j = i \<and> i < a_max a then v else a_cell a j)"
  by (simp add: arr_update_def)

lemma cap_append_update_entry_cases:
  assumes "wf_tables st"
  shows "cap_append_update_entry r st =
    (if n_updates st < MAX_TAINT_UPDATES
     then (0, st\<lparr>ts_updates := snd (arr_update (n_updates st) ((au_entry r)\<lparr>up_domain_id := au_target_id r\<rparr>) (ts_updates st)),
                 ts_counts := snd (arr_update 1 (a_cell (ts_counts st) 1 + 1) (ts_counts st))\<rparr>)
     else (- 1, st))"
  using assms
  by (auto simp: cap_append_update_entry_def wf_tables_def arr_lookup_def n_updates_def arr_update_def)

lemma cap_append_rule_entry_cases:
  assumes "wf_tables st"
  shows "cap_append_rule_entry r st =
    (if n_rules st < MAX_TAINT_RULES
     then let st' = st\<lparr>ts_rules := snd (arr_update (n_rules st) ((ar_entry r)\<lparr>ru_domain_id := ar_target_id r\<rparr>) (ts_rules st))\<rparr>;
              st'' = snd (cap_policy_bind_rule (ar_target_id r) (n_rules st) st')
          in if room (cap_policy st) (ar_target_id r)
             then (0, st''\<lparr>ts_counts := snd (arr_update 0 (a_cell (ts_counts st) 0 + 1) (ts_counts st))\<rparr>)
             else (- 1, st'')
     else (- 1, st))"
proof -
  let ?st' = "st\<lparr>ts_rules := snd (arr_update (n_rules st) ((ar_entry r)\<lparr>ru_domain_id := ar_target_id r\<rparr>) (ts_rules st))\<rparr>"
  have rc: "fst (cap_policy_bind_rule (ar_target_id r) (n_rules st) ?st') = 0 \<longleftrightarrow>
        n_rules st < MAX_TAINT_RULES \<and> room (cap_policy st) (ar_target_id r)"
    by (simp add: cap_policy_bind_rule_rc)
  have fr: "ts_counts (snd (cap_policy_bind_rule (ar_target_id r) (n_rules st) ?st')) = ts_counts st"
    by (subst cap_policy_bind_rule_frame) simp
  from assms have "arr_lookup (ts_counts st) 0 = Some (a_cell (ts_counts st) 0)"
    and "fst (arr_update (n_rules st) e (ts_rules st)) = 0 \<longleftrightarrow> n_rules st < MAX_TAINT_RULES" for e
    by (auto simp: wf_tables_def arr_lookup_def arr_update_def n_rules_def)
  with rc fr show ?thesis
    by (simp add: cap_append_rule_entry_def Let_def n_rules_def case_prod_beta)
qed

lemma unat_succ: "unat (w :: u32) < 1000 \<Longrightarrow> unat (w + 1) = Suc (unat w)"
  by (simp add: unat_add_lem [THEN iffD1])

lemma cap_append_update_entry_keeps: "delta.keeps (\<lambda>st. snd (cap_append_update_entry r st))"
proof (rule delta.keepsI)
  fix st :: "'a cap_maps_scheme"
  assume wf: "wf_tables st"
  show "wf_tables (snd (cap_append_update_entry r st))"
    using wf unat_succ [of "a_cell (ts_counts st) 1"]
    by (auto simp: cap_append_update_entry_cases [OF wf] wf_tables_def n_updates_def)
  show "policy_grows st (snd (cap_append_update_entry r st))"
    using wf unat_succ [of "a_cell (ts_counts st) 1"]
    by (auto simp: cap_append_update_entry_cases [OF wf] policy_grows_def wf_tables_def n_rules_def
        n_updates_def cap_policy_rule_bound_def cap_state_grows_refl option.rel_refl)
qed

lemma cap_append_rule_entry_keeps: "delta.keeps (\<lambda>st. snd (cap_append_rule_entry r st))"
proof (rule delta.keepsI)
  fix st :: "'a cap_maps_scheme"
  assume wf: "wf_tables st"
  let ?st' = "st\<lparr>ts_rules := snd (arr_update (n_rules st) ((ar_entry r)\<lparr>ru_domain_id := ar_target_id r\<rparr>) (ts_rules st))\<rparr>"
  let ?st'' = "snd (cap_policy_bind_rule (ar_target_id r) (n_rules st) ?st')"
  obtain m where fr: "?st'' = ?st'\<lparr>cap_policy := m\<rparr>"
    using cap_policy_bind_rule_frame by blast
  have b: "n_rules st < MAX_TAINT_RULES \<Longrightarrow> cap_policy_rule_bound st d i \<Longrightarrow>
      cap_policy_rule_bound ?st'' d i" for d i
    by (subst cap_policy_bind_rule_bound) (auto simp: cap_policy_rule_bound_def)
  then have b': "n_rules st < MAX_TAINT_RULES \<Longrightarrow> cap_policy_rule_bound st d i \<Longrightarrow>
      cap_policy_mask_has (map_lookup m d) i" for d i
    unfolding fr by (auto simp: cap_policy_rule_bound_def)
  show "wf_tables (snd (cap_append_rule_entry r st))"
    unfolding cap_append_rule_entry_cases [OF wf] Let_def fr
    using wf unat_succ [of "a_cell (ts_counts st) 0"] by (auto simp: wf_tables_def n_rules_def)
  show "policy_grows st (snd (cap_append_rule_entry r st))"
    unfolding cap_append_rule_entry_cases [OF wf] Let_def fr
    using wf unat_succ [of "a_cell (ts_counts st) 0"] b'
    by (auto simp: policy_grows_def wf_tables_def n_rules_def n_updates_def
        cap_policy_rule_bound_def cap_state_grows_refl option.rel_refl)
qed

lemma cap_request_cb_keeps: "delta.keeps (cap_request_cb pid dp)"
proof -
  note [simp] = cap_count_keeps [unfolded delta.keeps_def, rule_format]
    cap_apply_request_keeps [unfolded delta.keeps_def, rule_format]
    cap_append_update_entry_keeps [unfolded delta.keeps_def, rule_format]
    cap_append_rule_entry_keeps [unfolded delta.keeps_def, rule_format]
  have "wf_tables (cap_count i (snd (f st))) \<and> policy_grows st (cap_count i (snd (f st)))"
    if "delta.keeps (\<lambda>st. snd (f st))" and "wf_tables st"
    for i and f :: "'a cap_maps_scheme \<Rightarrow> int \<times> 'a cap_maps_scheme" and st
    using delta.keeps_comp [OF that(1) cap_count_keeps] that(2) by (simp add: delta.keeps_def)
  note two = this [OF cap_apply_request_keeps] this [OF cap_append_update_entry_keeps]
    this [OF cap_append_rule_entry_keeps]
  show ?thesis
    unfolding delta.keeps_def cap_request_cb_def
    by (auto simp: two case_prod_beta Let_def split: option.split)
qed

lemma cap_drain_current_keeps: "delta.keeps (cap_drain_current pt ring)"
  unfolding cap_drain_current_def
  by (rule delta.keeps_comp [OF delta.keeps_fold cap_count_keeps]) (rule cap_request_cb_keeps)

section \<open>Accounting\<close>

definition stat :: "'a cap_maps_scheme \<Rightarrow> nat \<Rightarrow> u64" where
  "stat st i = a_cell (cap_stats st) i"

lemma stat_count: "a_max (cap_stats st) = 4 \<Longrightarrow> i < 4 \<Longrightarrow>
    stat (cap_count i st) j = (if j = i then stat st j + 1 else stat st j)"
  by (simp add: stat_def cap_count_def arr_lookup_def)

lemma entry_ops_stats [simp]:
  "cap_stats (snd (cap_apply_request r st)) = cap_stats st"
  "cap_stats (snd (cap_append_update_entry ru st)) = cap_stats st"
  "cap_stats (snd (cap_append_rule_entry rr st)) = cap_stats st"
  by (auto simp: cap_apply_request_def cap_append_update_entry_def cap_append_rule_entry_def
      cap_policy_bind_rule_def Let_def case_prod_beta split: option.split)

text \<open>The outcome of one ring record: one of the three counters moves.\<close>

definition settled :: "'a cap_maps_scheme \<Rightarrow> 'a cap_maps_scheme \<Rightarrow> bool" where
  "settled st st' \<longleftrightarrow>
     (\<exists>mid i. st' = cap_count i mid \<and> cap_stats mid = cap_stats st \<and>
       (i = CAP_STAT_ACCEPT \<or> i = CAP_STAT_REJECT \<or> i = CAP_STAT_DROP))"

lemma settled_count:
  "cap_stats mid = cap_stats st \<Longrightarrow> i = 0 \<or> i = 1 \<or> i = 3 \<Longrightarrow> settled st (cap_count i mid)"
  unfolding settled_def by blast

lemma cap_request_cb_settled: "settled st (cap_request_cb pid dp st)"
  unfolding cap_request_cb_def
  by (simp add: case_prod_beta Let_def settled_count split: option.split)

lemma cap_request_cb_stats:
  assumes "a_max (cap_stats st) = 4"
  shows "a_max (cap_stats (cap_request_cb pid dp st)) = 4 \<and>
    stat (cap_request_cb pid dp st) CAP_STAT_DRAIN = stat st CAP_STAT_DRAIN \<and>
    stat (cap_request_cb pid dp st) CAP_STAT_ACCEPT + stat (cap_request_cb pid dp st) CAP_STAT_REJECT +
      stat (cap_request_cb pid dp st) CAP_STAT_DROP =
    stat st CAP_STAT_ACCEPT + stat st CAP_STAT_REJECT + stat st CAP_STAT_DROP + 1"
proof -
  obtain st' i where o: "cap_request_cb pid dp st = cap_count i st'" "cap_stats st' = cap_stats st"
    "i = 0 \<or> i = 1 \<or> i = (3 :: nat)"
    using cap_request_cb_settled [of st pid dp] unfolding settled_def by blast
  from o(2) have s: "stat st' j = stat st j" for j by (simp add: stat_def)
  from o(3) show ?thesis
    using assms o(1,2) by (auto simp: stat_count s)
qed

lemma cap_ring_stats:
  assumes "a_max (cap_stats st) = 4"
  shows "a_max (cap_stats (fold (cap_request_cb pid) ring st)) = 4 \<and>
    stat (fold (cap_request_cb pid) ring st) CAP_STAT_DRAIN = stat st CAP_STAT_DRAIN \<and>
    stat (fold (cap_request_cb pid) ring st) CAP_STAT_ACCEPT +
      stat (fold (cap_request_cb pid) ring st) CAP_STAT_REJECT +
      stat (fold (cap_request_cb pid) ring st) CAP_STAT_DROP =
    stat st CAP_STAT_ACCEPT + stat st CAP_STAT_REJECT + stat st CAP_STAT_DROP + of_nat (length ring)"
  using assms
proof (induction ring arbitrary: st)
  case (Cons dp ring)
  from Cons.IH [of "cap_request_cb pid dp st"] cap_request_cb_stats [OF Cons.prems, of pid dp]
  show ?case by (simp add: algebra_simps)
qed simp

section \<open>Walking up the domain tree\<close>

lemma cap_match_loop_chain:
  "d \<noteq> 0 \<Longrightarrow> cur \<noteq> 0 \<Longrightarrow> cap_match_loop n st cur d \<longleftrightarrow> d \<in> set (cap_chain n st cur)"
proof (induction n arbitrary: cur)
  case (Suc n)
  have [simp]: "cap_chain n st 0 = []" by (cases n) simp_all
  from Suc show ?case
    by (auto simp: cap_parent_domain_def split: option.split)
qed simp

lemma cap_domain_matches_pid_chain:
  "cap_domain_matches_pid st pid d \<longleftrightarrow>
     d = 0 \<or> d \<in> set (cap_chain CAP_DOMAIN_DEPTH st (cap_domain_for_pid st pid))"
proof -
  have [simp]: "cap_chain n st 0 = []" for n by (cases n) simp_all
  show ?thesis
    by (auto simp: cap_domain_matches_pid_def cap_domain_for_pid_def cap_match_loop_chain
        simp del: cap_chain.simps cap_match_loop.simps split: option.split)
qed

lemma cap_chain_zero [simp]: "cap_chain n st 0 = []"
  by (cases n) simp_all

lemma cap_chain_parents:
  "cap_states st' = cap_states st \<Longrightarrow> cap_chain n st' d = cap_chain n st d"
  by (induction n arbitrary: d) (simp_all add: cap_parent_domain_def)

section \<open>What is active\<close>

text \<open>The policy the engine acts on: the updates and rules below the two counts, the rule bindings,
  the domains and the tasks bound to them.\<close>

definition active_policy ::
  "'a cap_maps_scheme \<Rightarrow> taint_update list \<times> taint_rule list \<times> (u32, cap_policy_mask) bpf_hash \<times>
     (u32, cap_state) bpf_hash \<times> (pid_t, u32) bpf_hash" where
  "active_policy st =
     (map (a_cell (ts_updates st)) [0..<n_updates st], map (a_cell (ts_rules st)) [0..<n_rules st],
      cap_policy st, cap_states st, cap_task st)"

lemma active_policy_count [simp]: "active_policy (cap_count i st) = active_policy st"
  by (simp add: active_policy_def n_rules_def n_updates_def)

lemma rejected_request:
  "fst (cap_apply_request r st) \<noteq> 0 \<Longrightarrow> snd (cap_apply_request r st) = st"
  by (auto simp: cap_apply_request_def Let_def split: option.splits if_splits)

lemma rejected_update:
  "wf_tables st \<Longrightarrow> fst (cap_append_update_entry r st) \<noteq> 0 \<Longrightarrow> snd (cap_append_update_entry r st) = st"
  by (simp add: cap_append_update_entry_cases split: if_splits)

lemma bind_rule_full:
  "\<not> room (cap_policy st) d \<Longrightarrow> snd (cap_policy_bind_rule d i st) = st"
  by (auto simp: cap_policy_bind_rule_def Let_def map_update_elem_def room_def split: option.splits)

lemma rejected_rule:
  assumes "wf_tables st" and "fst (cap_append_rule_entry r st) \<noteq> 0"
  shows "active_policy (snd (cap_append_rule_entry r st)) = active_policy st"
  using assms bind_rule_full [of "st\<lparr>ts_rules := x\<rparr>" for x]
  by (auto simp: cap_append_rule_entry_cases Let_def active_policy_def n_rules_def n_updates_def
      split: if_splits)

lemma cap_append_rule_entry_active:
  assumes wf: "wf_tables st" and ok: "fst (cap_append_rule_entry r st) = 0"
  shows "n_rules (snd (cap_append_rule_entry r st)) = Suc (n_rules st)"
    and "a_cell (ts_rules (snd (cap_append_rule_entry r st))) (n_rules st) =
           (ar_entry r)\<lparr>ru_domain_id := ar_target_id r\<rparr>"
    and "cap_policy_rule_bound (snd (cap_append_rule_entry r st)) d i \<longleftrightarrow>
           d = ar_target_id r \<and> i = n_rules st \<or> cap_policy_rule_bound st d i"
proof -
  let ?st' = "st\<lparr>ts_rules := snd (arr_update (n_rules st) ((ar_entry r)\<lparr>ru_domain_id := ar_target_id r\<rparr>) (ts_rules st))\<rparr>"
  let ?st'' = "snd (cap_policy_bind_rule (ar_target_id r) (n_rules st) ?st')"
  obtain m where fr: "?st'' = ?st'\<lparr>cap_policy := m\<rparr>"
    using cap_policy_bind_rule_frame by blast
  from ok have lim: "n_rules st < MAX_TAINT_RULES" and room: "room (cap_policy st) (ar_target_id r)"
    by (auto simp: cap_append_rule_entry_cases [OF wf] Let_def split: if_splits)
  have "cap_policy_rule_bound ?st'' d i \<longleftrightarrow>
      d = ar_target_id r \<and> i = n_rules st \<or> cap_policy_rule_bound st d i"
    using lim room by (subst cap_policy_bind_rule_bound) (auto simp: cap_policy_rule_bound_def)
  then have m: "cap_policy_mask_has (map_lookup m d) i \<longleftrightarrow>
      d = ar_target_id r \<and> i = n_rules st \<or> cap_policy_rule_bound st d i"
    unfolding fr by (simp add: cap_policy_rule_bound_def)
  have res: "snd (cap_append_rule_entry r st) =
      ?st'\<lparr>cap_policy := m, ts_counts := snd (arr_update 0 (a_cell (ts_counts st) 0 + 1) (ts_counts st))\<rparr>"
    unfolding cap_append_rule_entry_cases [OF wf] Let_def fr using lim room by simp
  show "n_rules (snd (cap_append_rule_entry r st)) = Suc (n_rules st)"
    using wf lim by (simp add: res n_rules_def wf_tables_def unat_succ)
  show "a_cell (ts_rules (snd (cap_append_rule_entry r st))) (n_rules st) =
           (ar_entry r)\<lparr>ru_domain_id := ar_target_id r\<rparr>"
    using wf lim by (simp add: res wf_tables_def)
  show "cap_policy_rule_bound (snd (cap_append_rule_entry r st)) d i \<longleftrightarrow>
           d = ar_target_id r \<and> i = n_rules st \<or> cap_policy_rule_bound st d i"
    using m by (simp add: res cap_policy_rule_bound_def)
qed

section \<open>A small concrete policy\<close>

definition no_update :: taint_update where
  "no_update = \<lparr>up_op = 0, up_match = 0, up_target = [], up_arg = [], up_add = 0, up_del = 0,
     up_gates = 0, up_invals = 0, up_ipv4 = 0, up_ipv4_mask = 0, up_gate_exit_code = 0, up_domain_id = 0\<rparr>"

definition no_rule :: taint_rule where
  "no_rule = \<lparr>ru_op = 0, ru_match = 0, ru_cond_kind = 0, ru_cond_neg = 0, ru_cond_match = 0, ru_effect = 0,
     ru_target = [], ru_arg = [], ru_cond_pat = [], ru_req = 0, ru_forbid = 0, ru_gate = 0, ru_rule_id = 0,
     ru_ipv4 = 0, ru_ipv4_mask = 0, ru_cond_ipv4 = 0, ru_cond_ipv4_mask = 0, ru_gate_idx = 0,
     ru_domain_id = 0, ru_since_mask = 0\<rparr>"

text \<open>Pid 100 runs in domain 1 with authority over itself and its children; pid 200 runs in the child
  domain 2.\<close>

definition example_maps :: cap_maps where
  "example_maps =
     \<lparr>enforce_mode = 1, policy_features = 0xFFFFFFFF,
      ts_updates = \<lparr>a_max = MAX_TAINT_UPDATES, a_cell = (\<lambda>_. no_update)\<rparr>,
      ts_rules = \<lparr>a_max = MAX_TAINT_RULES, a_cell = (\<lambda>_. no_rule)\<rparr>,
      ts_counts = \<lparr>a_max = 6, a_cell = (\<lambda>i. if i = 5 then 4 else 0)\<rparr>,
      cap_states = map_put 2 \<lparr>cs_parent = 1, cs_scope_id = 0, cs_labels = 0, cs_authority_mask = 0,
          cs_target_mask = 0, cs_restrict_mask = 0, cs_gate_mask = 0, cs_label_mask = 0\<rparr>
        (map_put 1 \<lparr>cs_parent = 0, cs_scope_id = 1, cs_labels = 8, cs_authority_mask = 0x7F,
          cs_target_mask = 3, cs_restrict_mask = 0, cs_gate_mask = 0, cs_label_mask = 15\<rparr> (hash_new 4096)),
      cap_task = map_put 200 2 (map_put 100 1 (hash_new 16384)),
      cap_policy = hash_new 4096,
      cap_stats = \<lparr>a_max = 4, a_cell = (\<lambda>_. 0)\<rparr>\<rparr>"

lemmas example_simps = example_maps_def no_update_def no_rule_def map_put_def2 room_def hash_new_def
  map_lookup_def

lemma wf_example: "wf_tables example_maps"
  by (simp add: wf_tables_def example_maps_def)

section \<open>Properties\<close>

text \<open>C8: admission of an update delta, as a specification. A request is admitted exactly when the
  submitter is the caller or holds the delegation authority, the loaded hooks support the entry, and
  the caller's domain may target the destination, holds the authority for every kind of change the
  entry makes (adding labels, declassifying, gates, narrowing), owns every label the entry adds or
  removes, and does not widen the destination's scope.\<close>

theorem cap_append_update_admit_iff:
  "cap_append_update_admit st r submitter = 0 \<longleftrightarrow>
     cap_can_submit_for st submitter (au_caller_pid r) \<and>
     cap_update_supported (policy_features st) (au_entry r) \<and>
     (\<exists>caller src dst.
        map_lookup (cap_task st) (au_caller_pid r) = Some caller \<and>
        map_lookup (cap_states st) caller = Some src \<and>
        map_lookup (cap_states st) (au_target_id r) = Some dst \<and>
        (caller = au_target_id r \<and> 0 \<in> bits_of (cs_target_mask src) \<or>
         cs_parent dst = caller \<and> 1 \<in> bits_of (cs_target_mask src)) \<and>
        bits_of (au_required_mask r) \<subseteq> bits_of (cs_authority_mask src) \<and>
        (up_add (au_entry r) \<noteq> 0 \<longrightarrow> 1 \<in> bits_of (cs_authority_mask src)) \<and>
        (up_del (au_entry r) \<noteq> 0 \<longrightarrow> 5 \<in> bits_of (cs_authority_mask src)) \<and>
        (up_gates (au_entry r) \<noteq> 0 \<or> up_invals (au_entry r) \<noteq> 0 \<longrightarrow> 2 \<in> bits_of (cs_authority_mask src)) \<and>
        (au_new_scope_id r \<noteq> 0 \<longrightarrow> 3 \<in> bits_of (cs_authority_mask src)) \<and>
        bits_of (up_add (au_entry r)) \<union> bits_of (up_del (au_entry r)) \<subseteq> bits_of (cs_label_mask src) \<and>
        (au_new_scope_id r = 0 \<or> cs_scope_id dst = 0 \<or> cs_scope_id dst \<le> au_new_scope_id r))"
proof -
  have t: "cap_target_mask caller target dst AND m \<noteq> 0 \<longleftrightarrow>
      caller = target \<and> 0 \<in> bits_of m \<or> cs_parent dst = caller \<and> 1 \<in> bits_of m"
    for caller target dst m
    by (auto simp: cap_target_mask_def and_eq_0_iff Let_def)
  have s: "cap_scope_subset a b \<longleftrightarrow> a = 0 \<or> b = 0 \<or> b \<le> a" for a b
    by (simp add: cap_scope_subset_def)
  have req: "bits_of (cap_required_mask_fields req 0 add del (g OR i) scope) \<subseteq> A \<longleftrightarrow>
      bits_of req \<subseteq> A \<and> (add \<noteq> 0 \<longrightarrow> 1 \<in> A) \<and> (del \<noteq> 0 \<longrightarrow> 5 \<in> A) \<and>
      (g \<noteq> 0 \<or> i \<noteq> 0 \<longrightarrow> 2 \<in> A) \<and> (scope \<noteq> 0 \<longrightarrow> 3 \<in> A)" for req add del g i scope A
    by (simp add: cap_required_bits)
  show ?thesis
    unfolding cap_append_update_admit_def
    by (simp add: cap_check_fields_ok_iff t s req)
qed

text \<open>The admission specification at work: pid 100 may append an update that adds label 0 to its
  child's domain.\<close>

theorem cap_append_update_admit_iff_witness:
  "cap_append_update_admit example_maps
     \<lparr>au_caller_pid = 100, au_target_id = 2, au_new_scope_id = 0, au_required_mask = 0,
      au_entry = no_update\<lparr>up_add := 1\<rparr>\<rparr> 100 = 0"
  unfolding cap_append_update_admit_iff
  by (simp add: example_simps cap_can_submit_for_def cap_update_supported_def bits_of_def bit_simps)

text \<open>C15: draining the request ring never widens authority and never takes policy away. Whatever the
  records say, the tables stay well formed, no task changes domain, no domain appears, disappears,
  moves in the tree or gains authority, targets or ownable labels, labels, restrictions and gates only
  grow, scopes only narrow, and every active update and rule stays where it was and bound.\<close>

theorem cap_drain_monotone:
  assumes "wf_tables st"
  shows "wf_tables (cap_drain_current pid_tgid ring st) \<and>
         policy_grows st (cap_drain_current pid_tgid ring st)"
  using delta.keeps_ok [OF cap_drain_current_keeps assms]
    delta.keeps_grows [OF cap_drain_current_keeps assms] by blast

theorem cap_drain_monotone_witness:
  "wf_tables (cap_drain_current 0x6400000064
     [\<lparr>dp_tag = Some (- 5), dp_update = None, dp_rule = None, dp_delta = None\<rparr>] example_maps) \<and>
   policy_grows example_maps (cap_drain_current 0x6400000064
     [\<lparr>dp_tag = Some (- 5), dp_update = None, dp_rule = None, dp_delta = None\<rparr>] example_maps)"
  using cap_drain_monotone [OF wf_example] by blast

text \<open>The ring is accounted for. A drain counts itself once, and each record it consumes moves
  exactly one of the accept, reject and drop counters by one (modulo the 64-bit counters).\<close>

theorem cap_drain_accounts:
  assumes "wf_tables st"
  shows "stat (cap_drain_current pid_tgid ring st) CAP_STAT_DRAIN = stat st CAP_STAT_DRAIN + 1 \<and>
    stat (cap_drain_current pid_tgid ring st) CAP_STAT_ACCEPT +
      stat (cap_drain_current pid_tgid ring st) CAP_STAT_REJECT +
      stat (cap_drain_current pid_tgid ring st) CAP_STAT_DROP =
    stat st CAP_STAT_ACCEPT + stat st CAP_STAT_REJECT + stat st CAP_STAT_DROP + of_nat (length ring)"
proof -
  from assms have "a_max (cap_stats st) = 4" by (simp add: wf_tables_def)
  from cap_ring_stats [OF this] show ?thesis
    by (simp add: cap_drain_current_def stat_count)
qed

theorem cap_drain_accounts_witness:
  "stat (cap_drain_current 0x6400000064
     [\<lparr>dp_tag = None, dp_update = None, dp_rule = None, dp_delta = None\<rparr>] example_maps) CAP_STAT_DRAIN = 1"
  using cap_drain_accounts [OF wf_example, of "0x6400000064"
    "[\<lparr>dp_tag = None, dp_update = None, dp_rule = None, dp_delta = None\<rparr>]"]
  by (simp add: stat_def example_maps_def)

text \<open>C33: a delta is all or nothing. A record that does not move the accept counter leaves the active
  policy as it was: the active updates and rules, the bindings, the domains and the tasks.\<close>

theorem cap_request_atomic:
  assumes "wf_tables st" and "stat (cap_request_cb pid dp st) CAP_STAT_ACCEPT = stat st CAP_STAT_ACCEPT"
  shows "active_policy (cap_request_cb pid dp st) = active_policy st"
proof -
  have acc: "stat (cap_count CAP_STAT_ACCEPT st') CAP_STAT_ACCEPT \<noteq> stat st CAP_STAT_ACCEPT"
    if "cap_stats st' = cap_stats st" for st' :: "'a cap_maps_scheme"
    using assms(1) that by (simp add: stat_count wf_tables_def) (simp add: stat_def)
  show ?thesis
    using assms rejected_rule [OF assms(1)] acc
    by (auto simp: cap_request_cb_def case_prod_beta Let_def rejected_request rejected_update
        split: option.splits if_splits)
qed

theorem cap_request_atomic_witness:
  "active_policy (cap_request_cb 200 \<lparr>dp_tag = Some 100, dp_update = None, dp_rule = None, dp_delta =
       Some \<lparr>rq_caller_pid = 100, rq_target_id = 2, rq_new_scope_id = 0, rq_required_mask = 0,
             rq_add_restrict_mask = 1, rq_add_label_mask = 0, rq_add_gate_mask = 0\<rparr>\<rparr> example_maps) =
   active_policy example_maps"
  by (rule cap_request_atomic [OF wf_example])
    (simp add: cap_request_cb_def cap_count_def stat_def arr_lookup_def example_maps_def)

text \<open>An accepted rule is active and bound to the target domain, and to that domain only. The
  appended entry is the next active rule, with the target as its domain; the bindings gain exactly
  that one pair.\<close>

theorem cap_append_rule_binds:
  assumes "wf_tables st" and "fst (cap_append_rule_entry r st) = 0"
  shows "map (a_cell (ts_rules (snd (cap_append_rule_entry r st))))
           [0..<n_rules (snd (cap_append_rule_entry r st))] =
         map (a_cell (ts_rules st)) [0..<n_rules st] @ [(ar_entry r)\<lparr>ru_domain_id := ar_target_id r\<rparr>] \<and>
         {(d, i). cap_policy_rule_bound (snd (cap_append_rule_entry r st)) d i} =
         insert (ar_target_id r, n_rules st) {(d, i). cap_policy_rule_bound st d i}"
proof -
  have "policy_grows st (snd (cap_append_rule_entry r st))"
    by (rule delta.keeps_grows [OF cap_append_rule_entry_keeps assms(1)])
  then have "\<forall>i < n_rules st. a_cell (ts_rules (snd (cap_append_rule_entry r st))) i = a_cell (ts_rules st) i"
    by (simp add: policy_grows_def)
  then show ?thesis
    using cap_append_rule_entry_active [OF assms] by auto
qed

theorem cap_append_rule_binds_witness:
  "map (a_cell (ts_rules (snd (cap_append_rule_entry
       \<lparr>ar_caller_pid = 100, ar_target_id = 2, ar_new_scope_id = 0, ar_required_mask = 0, ar_entry = no_rule\<rparr>
       example_maps))))
     [0..<n_rules (snd (cap_append_rule_entry
       \<lparr>ar_caller_pid = 100, ar_target_id = 2, ar_new_scope_id = 0, ar_required_mask = 0, ar_entry = no_rule\<rparr>
       example_maps))] = [no_rule\<lparr>ru_domain_id := 2\<rparr>]"
proof -
  have n: "n_rules example_maps = 0" by (simp add: n_rules_def example_maps_def)
  have "fst (cap_append_rule_entry
       \<lparr>ar_caller_pid = 100, ar_target_id = 2, ar_new_scope_id = 0, ar_required_mask = 0, ar_entry = no_rule\<rparr>
       example_maps) = 0"
    by (simp add: cap_append_rule_entry_cases [OF wf_example] n Let_def)
      (simp add: example_simps)
  from cap_append_rule_binds [OF wf_example this] show ?thesis by (simp add: n)
qed

text \<open>A domain applies to a task exactly when it is the global domain or one of the first eight
  domains on the path from the task's domain to the root; a fork passes that on to the child.\<close>

theorem cap_domain_membership:
  "(cap_domain_matches_pid st pid d \<longleftrightarrow>
      d = 0 \<or> d \<in> set (cap_chain CAP_DOMAIN_DEPTH st (cap_domain_for_pid st pid))) \<and>
   (room (cap_task st) cpid \<and> map_lookup (cap_task st) pid \<noteq> None \<longrightarrow>
      cap_domain_matches_pid (cap_fork pid cpid st) cpid d = cap_domain_matches_pid st pid d)"
proof -
  have "cap_domain_for_pid (cap_fork pid cpid st) cpid = cap_domain_for_pid st pid"
    if "room (cap_task st) cpid" and "map_lookup (cap_task st) pid \<noteq> None"
    using that by (auto simp: cap_fork_def cap_domain_for_pid_def lookup_put)
  moreover have "cap_chain n (cap_fork pid cpid st) t = cap_chain n st t" for n t
    by (rule cap_chain_parents) (simp add: cap_fork_def split: option.split)
  ultimately show ?thesis
    by (simp add: cap_domain_matches_pid_chain)
qed

theorem cap_domain_membership_witness:
  "cap_domain_matches_pid example_maps 200 1 \<and> cap_domain_matches_pid (cap_fork 200 300 example_maps) 300 1"
proof -
  have t: "map_lookup (cap_task example_maps) 200 = Some 2" and r: "room (cap_task example_maps) 300"
    by (simp_all add: example_simps)
  have "cap_parent_domain example_maps 2 = 1"
    by (simp add: cap_parent_domain_def example_simps)
  then have "1 \<in> set (cap_chain CAP_DOMAIN_DEPTH example_maps (cap_domain_for_pid example_maps 200))"
    by (simp add: cap_domain_for_pid_def t numeral_eq_Suc)
  with cap_domain_membership [of example_maps 200 1 300] t r show ?thesis by simp
qed

end
