(* ===== verification/Engine_State.thy ===== *)
theory Engine_State
  imports Capability
begin

text \<open>
  The label state of the engine (\<^verbatim>\<open>bpf/taint_engine.bpf.h\<close>): the maps from processes,
  files and endpoints to labels, one entry per domain, the provenance maps, the session gates, and the
  accessors of that state. The per-CPU scratch buffers (\<^verbatim>\<open>ts_prov_tmp\<close>,
  \<^verbatim>\<open>ts_fdom_tmp\<close>, \<^verbatim>\<open>ts_stamp_scratch\<close>, \<^verbatim>\<open>ts_eval_scratch\<close>) are one-element
  per-CPU arrays: a lookup of index 0 always succeeds, and each is written before it is read, so the
  model passes their contents as values. \<^verbatim>\<open>bpf_ktime_get_ns\<close> is a clock: the field
  \<open>ktime\<close> gives its successive readings and \<open>ktick\<close> counts those taken.
\<close>

section \<open>Objects and their states\<close>

abbreviation (input) MAX_FILENAME_LEN :: nat where "MAX_FILENAME_LEN \<equiv> 127"

record proc_state =
  ps_labels :: u64
  ps_lin_gates :: u64

record pid_domain_id =
  pd_pid :: pid_t
  pd_domain_id :: u32

record te_prov =
  pv_label :: u64
  pv_timestamp_ns :: u64
  pv_pid :: pid_t
  pv_op :: u32
  pv_ip :: u32
  pv_target :: bytes

record pid_label_id =
  pl_pid :: pid_t
  pl_domain_id :: u32
  pl_label :: u64

text \<open>The two epoch arrays of a session have 64 cells; every access bounds its index below 64.\<close>

record te_sess =
  se_gate_bits :: u64
  se_epoch :: u32
  se_gate_epoch :: "nat \<Rightarrow> u32"
  se_inval_epoch :: "nat \<Rightarrow> u32"

record sess_domain_id =
  sd_root :: pid_t
  sd_domain_id :: u32

record file_id =
  fi_ino :: u64
  fi_dev :: u32
  fi_pad :: u32

record file_domain_id =
  fd_fid :: file_id
  fd_domain_id :: u32
  fd_pad :: u32

record file_label_id =
  fl_fdom :: file_domain_id
  fl_label :: u64

record file_state =
  fs_labels :: u64
  fs_last_write_epoch :: u32

record endp_domain_id =
  ed_ip :: u32
  ed_domain_id :: u32

record endp_label_id =
  el_edom :: endp_domain_id
  el_label :: u64

record te_exit_gate_pending =
  eg_gates :: u64
  eg_epoch :: u32

record engine = cap_maps +
  ts_proc :: "(pid_t, proc_state) bpf_hash"
  ts_proc_domains :: "(pid_domain_id, proc_state) bpf_hash"
  ts_proc_prov :: "(pid_label_id, te_prov) bpf_hash"
  ts_root :: "(pid_t, pid_t) bpf_hash"
  ts_sess :: "(sess_domain_id, te_sess) bpf_hash"
  ts_file :: "(file_domain_id, file_state) bpf_hash"
  ts_file_prov :: "(file_label_id, te_prov) bpf_hash"
  ts_endp :: "(endp_domain_id, u64) bpf_hash"
  ts_endp_prov :: "(endp_label_id, te_prov) bpf_hash"
  ts_argslots :: te_argslots
  ts_exit_gates :: "(pid_domain_id, te_exit_gate_pending) bpf_hash"
  ktime :: "nat \<Rightarrow> u64"
  ktick :: nat

section \<open>Keys and accessors\<close>

definition te_file_domain_key_for :: "u32 \<Rightarrow> file_id \<Rightarrow> file_domain_id" where
  "te_file_domain_key_for domain_id fid = \<lparr>fd_fid = fid, fd_domain_id = domain_id, fd_pad = 0\<rparr>"

definition te_endp_domain_key :: "'a cap_maps_scheme \<Rightarrow> pid_t \<Rightarrow> u32 \<Rightarrow> endp_domain_id" where
  "te_endp_domain_key st pid ip = \<lparr>ed_ip = ip, ed_domain_id = cap_domain_for_pid st pid\<rparr>"

definition te_endp_domain_key_for :: "u32 \<Rightarrow> u32 \<Rightarrow> endp_domain_id" where
  "te_endp_domain_key_for domain_id ip = \<lparr>ed_ip = ip, ed_domain_id = domain_id\<rparr>"

definition te_pid_domain_key :: "pid_t \<Rightarrow> u32 \<Rightarrow> pid_domain_id" where
  "te_pid_domain_key pid domain_id = \<lparr>pd_pid = pid, pd_domain_id = domain_id\<rparr>"

definition te_sess_domain_key :: "pid_t \<Rightarrow> u32 \<Rightarrow> sess_domain_id" where
  "te_sess_domain_key root domain_id = \<lparr>sd_root = root, sd_domain_id = domain_id\<rparr>"

definition te_count :: "'a cap_maps_scheme \<Rightarrow> nat \<Rightarrow> u32" where
  "te_count st slot = (case arr_lookup (ts_counts st) slot of None \<Rightarrow> 0 | Some v \<Rightarrow> v)"

text \<open>The fallback identity of a file known by its path only.\<close>

definition te_fnv1a :: "bytes \<Rightarrow> u64" where
  "te_fnv1a s = fold (\<lambda>i h. (h XOR ucast (rd s i)) * 0x100000001b3) [0..<64] 0xcbf29ce484222325"

definition te_get :: "'a engine_scheme \<Rightarrow> pid_t \<Rightarrow> proc_state option" where
  "te_get st pid = map_lookup (ts_proc st) pid"

definition te_get_domain :: "'a engine_scheme \<Rightarrow> pid_t \<Rightarrow> u32 \<Rightarrow> proc_state option" where
  "te_get_domain st pid domain_id =
     (if domain_id = 0 then te_get st pid
      else map_lookup (ts_proc_domains st) (te_pid_domain_key pid domain_id))"

definition te_pid_active :: "'a cap_maps_scheme \<Rightarrow> pid_t \<Rightarrow> bool" where
  "te_pid_active st pid = cap_task_bound st pid"

text \<open>\<^verbatim>\<open>te_domain_for_depth\<close>: depth 0 is the global domain, depth 1 the task's own, and the loop
  climbs from there.\<close>

definition te_domain_for_depth :: "'a cap_maps_scheme \<Rightarrow> pid_t \<Rightarrow> nat \<Rightarrow> u32" where
  "te_domain_for_depth st pid depth =
     (if depth = 0 then 0
      else
        let current = cap_domain_for_pid st pid
        in if current = 0 then 0
           else if depth = 1 then current
           else snd (loop_on [2..<CAP_DOMAIN_DEPTH]
                  (\<lambda>i (cur, res).
                     let cur = cap_parent_domain st cur
                     in if cur = 0 then (True, (cur, 0))
                        else if i = depth then (True, (cur, cur))
                        else (False, (cur, res)))
                  (current, 0)))"

definition te_labels_for_domain :: "'a engine_scheme \<Rightarrow> pid_t \<Rightarrow> u32 \<Rightarrow> u64" where
  "te_labels_for_domain st pid domain_id =
     (if \<not> te_pid_active st pid then 0
      else if \<not> cap_domain_matches_pid st pid domain_id then 0
      else
        let labels = (case te_get_domain st pid domain_id of None \<Rightarrow> 0 | Some p \<Rightarrow> ps_labels p)
        in labels OR cap_labels_for_pid_domain st pid domain_id)"

definition te_labels :: "'a engine_scheme \<Rightarrow> pid_t \<Rightarrow> u64" where
  "te_labels st pid = te_labels_for_domain st pid (cap_domain_for_pid st pid)"

text \<open>A bounded copy of a target string; a NULL source only clears the first byte.\<close>

definition te_copy_target :: "bytes \<Rightarrow> bytes option \<Rightarrow> bytes" where
  "te_copy_target dst src =
     (case src of
        None \<Rightarrow> dst[0 := 0]
      | Some s \<Rightarrow> map (rd s) [0..<MAX_FILENAME_LEN - 1] @ [0])"

text \<open>The branch the two stores take: the global domain has its own map.\<close>

definition te_store_proc_domain ::
  "pid_t \<Rightarrow> u32 \<Rightarrow> proc_state \<Rightarrow> 'a engine_scheme \<Rightarrow> 'a engine_scheme" where
  "te_store_proc_domain pid domain_id ns st =
     (if domain_id = 0 then st\<lparr>ts_proc := map_put pid ns (ts_proc st)\<rparr>
      else st\<lparr>ts_proc_domains := map_put (te_pid_domain_key pid domain_id) ns (ts_proc_domains st)\<rparr>)"

definition te_add_labels_domain ::
  "pid_t \<Rightarrow> u32 \<Rightarrow> u64 \<Rightarrow> 'a engine_scheme \<Rightarrow> 'a engine_scheme" where
  "te_add_labels_domain pid domain_id add st =
     (if \<not> te_pid_active st pid \<or> add = 0 then st
      else if \<not> cap_domain_matches_pid st pid domain_id then st
      else case te_get_domain st pid domain_id of
             Some p \<Rightarrow>
               (if domain_id = 0
                then st\<lparr>ts_proc := map_modify pid (\<lambda>p. p\<lparr>ps_labels := ps_labels p OR add\<rparr>) (ts_proc st)\<rparr>
                else st\<lparr>ts_proc_domains :=
                       map_modify (te_pid_domain_key pid domain_id)
                         (\<lambda>p. p\<lparr>ps_labels := ps_labels p OR add\<rparr>) (ts_proc_domains st)\<rparr>)
           | None \<Rightarrow>
               let ns = \<lparr>ps_labels = add, ps_lin_gates = 0\<rparr>
               in if domain_id = 0 then st\<lparr>ts_proc := map_put pid ns (ts_proc st)\<rparr>
                  else st\<lparr>ts_proc_domains :=
                         map_put (te_pid_domain_key pid domain_id) ns (ts_proc_domains st)\<rparr>)"

definition te_add_labels :: "pid_t \<Rightarrow> u64 \<Rightarrow> 'a engine_scheme \<Rightarrow> 'a engine_scheme" where
  "te_add_labels pid add st = te_add_labels_domain pid (cap_domain_for_pid st pid) add st"

definition te_root :: "'a engine_scheme \<Rightarrow> pid_t \<Rightarrow> pid_t" where
  "te_root st pid = (case map_lookup (ts_root st) pid of None \<Rightarrow> pid | Some r \<Rightarrow> r)"

section \<open>The walk over the domains of a task\<close>

text \<open>The loop every flow runs: \<^verbatim>\<open>for (i = 0; i < CAP_DOMAIN_DEPTH; i++)\<close> with the domain
  of depth \<open>i\<close> looked up in the current state, and a break at the first missing one after depth 0.\<close>

definition domain_loop ::
  "pid_t \<Rightarrow> (u32 \<Rightarrow> 'a cap_maps_scheme \<Rightarrow> 'a cap_maps_scheme) \<Rightarrow> 'a cap_maps_scheme \<Rightarrow> 'a cap_maps_scheme" where
  "domain_loop pid body st =
     loop_on [0..<CAP_DOMAIN_DEPTH]
       (\<lambda>i st. let d = te_domain_for_depth st pid i
               in if 0 < i \<and> d = 0 then (True, st) else (False, body d st)) st"

definition te_domains :: "'a cap_maps_scheme \<Rightarrow> pid_t \<Rightarrow> u32 list" where
  "te_domains st pid = 0 # cap_chain (CAP_DOMAIN_DEPTH - 1) st (cap_domain_for_pid st pid)"

definition ancestor :: "'a cap_maps_scheme \<Rightarrow> nat \<Rightarrow> u32 \<Rightarrow> u32" where
  "ancestor st k d = (cap_parent_domain st ^^ k) d"

lemma cap_parent_zero [simp]: "cap_parent_domain st 0 = 0"
  by (simp add: cap_parent_domain_def)

lemma ancestor_0 [simp]: "ancestor st 0 d = d"
  by (simp add: ancestor_def)

lemma ancestor_Suc: "ancestor st (Suc k) d = ancestor st k (cap_parent_domain st d)"
  by (simp add: ancestor_def funpow_swap1)

lemma ancestor_Suc2: "ancestor st (Suc k) d = cap_parent_domain st (ancestor st k d)"
  by (simp add: ancestor_def)

lemma ancestor_zero [simp]: "ancestor st k 0 = 0"
  by (induction k) (simp_all add: ancestor_Suc)

lemma depth_loop:
  "snd (loop_on [a..<b] (\<lambda>i (cur, res).
          let cur = cap_parent_domain st cur
          in if cur = 0 then (True, (cur, 0)) else if i = depth then (True, (cur, cur)) else (False, (cur, res)))
        (cur, 0)) =
   (if a \<le> depth \<and> depth < b then ancestor st (Suc (depth - a)) cur else 0)"
proof (induction "b - a" arbitrary: a cur)
  case (Suc n)
  then have up: "[a..<b] = a # [Suc a..<b]" by (simp add: upt_conv_Cons)
  have "n = b - Suc a" using Suc(2) by simp
  from Suc(1) [OF this] show ?case
    unfolding up using Suc(2) by (auto simp: Let_def ancestor_Suc Suc_diff_Suc)
qed auto

lemma te_domain_for_depth_ancestor:
  "te_domain_for_depth st pid depth =
     (if 0 < depth \<and> depth < CAP_DOMAIN_DEPTH then ancestor st (depth - 1) (cap_domain_for_pid st pid) else 0)"
proof -
  have "2 \<le> depth \<Longrightarrow> Suc (depth - 2) = depth - 1" by simp
  then show ?thesis
    unfolding te_domain_for_depth_def depth_loop by (auto simp: Let_def)
qed

locale domain_walk =
  fixes body :: "u32 \<Rightarrow> 'a cap_maps_scheme \<Rightarrow> 'a cap_maps_scheme" and pid :: pid_t
  assumes body_domains: "cap_states (body d st) = cap_states st"
    and body_task: "map_lookup (cap_task (body d st)) pid = map_lookup (cap_task st) pid"
begin

lemma body_parent: "cap_parent_domain (body d st) = cap_parent_domain st"
  by (simp add: cap_parent_domain_def body_domains fun_eq_iff)

lemma body_ancestor: "ancestor (body d st) = ancestor st"
  by (simp add: ancestor_def body_parent fun_eq_iff)

lemma body_chain: "cap_chain n (body d st) = cap_chain n st"
  by (rule ext) (rule cap_chain_parents, rule body_domains)

lemma body_pid: "cap_domain_for_pid (body d st) pid = cap_domain_for_pid st pid"
  by (simp add: cap_domain_for_pid_def body_task)

lemma walk_from:
  "Suc k \<le> CAP_DOMAIN_DEPTH \<Longrightarrow>
   loop_on [Suc k..<CAP_DOMAIN_DEPTH]
     (\<lambda>i st. let d = te_domain_for_depth st pid i in if 0 < i \<and> d = 0 then (True, st) else (False, body d st)) st =
   fold body (cap_chain (CAP_DOMAIN_DEPTH - Suc k) st (ancestor st k (cap_domain_for_pid st pid))) st"
proof (induction "CAP_DOMAIN_DEPTH - Suc k" arbitrary: k st)
  case (Suc n)
  let ?d = "ancestor st k (cap_domain_for_pid st pid)"
  have up: "[Suc k..<CAP_DOMAIN_DEPTH] = Suc k # [Suc (Suc k)..<CAP_DOMAIN_DEPTH]"
    using Suc(2) by (simp add: upt_conv_Cons)
  have d: "te_domain_for_depth st pid (Suc k) = ?d"
    using Suc(2) by (auto simp: te_domain_for_depth_ancestor)
  have step: "CAP_DOMAIN_DEPTH - Suc k = Suc (CAP_DOMAIN_DEPTH - Suc (Suc k))"
    using Suc(2) by simp
  show ?case
  proof (cases "?d = 0")
    case True
    then show ?thesis unfolding up by (simp add: d)
  next
    case False
    have "n = CAP_DOMAIN_DEPTH - Suc (Suc k)" and "Suc (Suc k) \<le> CAP_DOMAIN_DEPTH"
      using Suc(2) by simp_all
    from Suc(1) [OF this, of "body ?d st"] False show ?thesis
      unfolding up step by (simp add: d body_ancestor body_chain body_pid ancestor_Suc2 Let_def)
  qed
qed simp

lemma domain_loop_fold: "domain_loop pid body st = fold body (te_domains st pid) st"
proof -
  have "[0..<CAP_DOMAIN_DEPTH] = 0 # [Suc 0..<CAP_DOMAIN_DEPTH]"
    by (simp add: upt_conv_Cons)
  then show ?thesis
    using walk_from [of 0 "body 0 st"]
    by (simp add: domain_loop_def te_domains_def te_domain_for_depth_ancestor body_chain body_pid
        del: upt_rec_numeral)
qed

end

section \<open>A small concrete engine state\<close>

text \<open>The tables of \<^const>\<open>example_maps\<close> and empty label maps of the declared sizes.\<close>

definition example_engine :: engine where
  "example_engine = cap_maps.extend example_maps (engine.fields
     (hash_new 16384) (hash_new 65536) (hash_new 65536) (hash_new 16384) (hash_new 16384)
     (hash_new 65536) (hash_new 65536) (hash_new 16384) (hash_new 65536)
     \<lparr>as_blob = [], as_slots = []\<rparr> (hash_new 16384) (\<lambda>n. of_nat n) 0)"

lemmas engine_example_defs = example_engine_def example_maps_def cap_maps.extend_def engine.fields_def

lemma wf_example_engine: "wf_tables example_engine"
  by (simp add: wf_tables_def engine_example_defs)

end
