(* ===== verification/Provenance.thy ===== *)
theory Provenance
  imports Engine_State
begin

text \<open>
  Provenance (\<^verbatim>\<open>bpf/taint_engine.bpf.h\<close>): one recorded origin per label bit of a process,
  file or endpoint. Recording stores a fresh origin for each bit of a mask; copying passes the stored
  origins on along a flow; deleting drops those of a replaced file. Each is a \<^verbatim>\<open>bpf_loop\<close> over
  the label count in slot 5 of \<^verbatim>\<open>ts_counts\<close>. The locale \<open>label_copy\<close> carries the
  reasoning for all five copying loops.
\<close>

section \<open>Recording\<close>

text \<open>The zeroed scratch entry, filled in.\<close>

definition prov_entry ::
  "(nat \<Rightarrow> u64) \<Rightarrow> nat \<Rightarrow> u64 \<Rightarrow> pid_t \<Rightarrow> u32 \<Rightarrow> u32 \<Rightarrow> bytes option \<Rightarrow> te_prov" where
  "prov_entry now t label pid op ip target =
     \<lparr>pv_label = label, pv_timestamp_ns = now t, pv_pid = pid, pv_op = op, pv_ip = ip,
      pv_target = te_copy_target (replicate MAX_FILENAME_LEN 0) target\<rparr>"

definition te_lookup_proc_prov ::
  "(pid_label_id, te_prov) bpf_hash \<Rightarrow> pid_t \<Rightarrow> u32 \<Rightarrow> u64 \<Rightarrow> te_prov option" where
  "te_lookup_proc_prov m pid domain_id label =
     map_lookup m \<lparr>pl_pid = pid, pl_domain_id = domain_id, pl_label = label\<rparr>"

definition te_record_proc_prov ::
  "(nat \<Rightarrow> u64) \<Rightarrow> pid_t \<Rightarrow> u32 \<Rightarrow> u64 \<Rightarrow> u32 \<Rightarrow> bytes option \<Rightarrow> u32 \<Rightarrow>
   nat \<times> (pid_label_id, te_prov) bpf_hash \<Rightarrow> nat \<times> (pid_label_id, te_prov) bpf_hash" where
  "te_record_proc_prov now pid domain_id label op target ip = (\<lambda>(t, m).
     if label = 0 then (t, m)
     else (Suc t, map_put \<lparr>pl_pid = pid, pl_domain_id = domain_id, pl_label = label\<rparr>
                    (prov_entry now t label pid op ip target) m))"

definition te_record_proc_prov_cb ::
  "(nat \<Rightarrow> u64) \<Rightarrow> pid_t \<Rightarrow> u32 \<Rightarrow> u64 \<Rightarrow> u32 \<Rightarrow> bytes option \<Rightarrow> u32 \<Rightarrow> nat \<Rightarrow>
   nat \<times> (pid_label_id, te_prov) bpf_hash \<Rightarrow> bool \<times> nat \<times> (pid_label_id, te_prov) bpf_hash" where
  "te_record_proc_prov_cb now pid domain_id labels op target ip i s =
     (if MAX_TAINT_LABELS \<le> i then (True, s)
      else if labels AND bit64 i \<noteq> 0
      then (False, te_record_proc_prov now pid domain_id (bit64 i) op target ip s)
      else (False, s))"

definition te_record_proc_prov_mask ::
  "pid_t \<Rightarrow> u32 \<Rightarrow> u64 \<Rightarrow> u32 \<Rightarrow> bytes option \<Rightarrow> u32 \<Rightarrow> 'a engine_scheme \<Rightarrow> 'a engine_scheme" where
  "te_record_proc_prov_mask pid domain_id labels op target ip st =
     (let (t, m) = bpf_loop (te_count st 5)
                     (te_record_proc_prov_cb (ktime st) pid domain_id labels op target ip)
                     (ktick st, ts_proc_prov st)
      in st\<lparr>ktick := t, ts_proc_prov := m\<rparr>)"

definition te_record_file_prov ::
  "(nat \<Rightarrow> u64) \<Rightarrow> file_domain_id \<Rightarrow> u64 \<Rightarrow> pid_t \<Rightarrow> u32 \<Rightarrow> bytes option \<Rightarrow>
   nat \<times> (file_label_id, te_prov) bpf_hash \<Rightarrow> nat \<times> (file_label_id, te_prov) bpf_hash" where
  "te_record_file_prov now fdom label pid op target = (\<lambda>(t, m).
     if label = 0 then (t, m)
     else (Suc t, map_put \<lparr>fl_fdom = fdom, fl_label = label\<rparr> (prov_entry now t label pid op 0 target) m))"

definition te_record_file_prov_cb ::
  "(nat \<Rightarrow> u64) \<Rightarrow> file_domain_id \<Rightarrow> u64 \<Rightarrow> pid_t \<Rightarrow> u32 \<Rightarrow> bytes option \<Rightarrow> nat \<Rightarrow>
   nat \<times> (file_label_id, te_prov) bpf_hash \<Rightarrow> bool \<times> nat \<times> (file_label_id, te_prov) bpf_hash" where
  "te_record_file_prov_cb now fdom labels pid op target i s =
     (if MAX_TAINT_LABELS \<le> i then (True, s)
      else if labels AND bit64 i \<noteq> 0
      then (False, te_record_file_prov now fdom (bit64 i) pid op target s)
      else (False, s))"

definition te_record_file_prov_mask ::
  "file_domain_id \<Rightarrow> u64 \<Rightarrow> pid_t \<Rightarrow> u32 \<Rightarrow> bytes option \<Rightarrow> 'a engine_scheme \<Rightarrow> 'a engine_scheme" where
  "te_record_file_prov_mask fdom labels pid op target st =
     (let (t, m) = bpf_loop (te_count st 5) (te_record_file_prov_cb (ktime st) fdom labels pid op target)
                     (ktick st, ts_file_prov st)
      in st\<lparr>ktick := t, ts_file_prov := m\<rparr>)"

section \<open>Copying and deleting\<close>

definition te_copy_proc_prov_cb ::
  "pid_t \<Rightarrow> pid_t \<Rightarrow> u32 \<Rightarrow> u64 \<Rightarrow> nat \<Rightarrow> (pid_label_id, te_prov) bpf_hash \<Rightarrow>
   bool \<times> (pid_label_id, te_prov) bpf_hash" where
  "te_copy_proc_prov_cb from to domain_id labels i m =
     (if MAX_TAINT_LABELS \<le> i then (True, m)
      else if labels AND bit64 i = 0 then (False, m)
      else case te_lookup_proc_prov m from domain_id (bit64 i) of
             None \<Rightarrow> (False, m)
           | Some p \<Rightarrow>
               (False, map_put \<lparr>pl_pid = to, pl_domain_id = domain_id, pl_label = bit64 i\<rparr> p m))"

definition te_copy_proc_prov :: "pid_t \<Rightarrow> pid_t \<Rightarrow> u32 \<Rightarrow> u64 \<Rightarrow> 'a engine_scheme \<Rightarrow> 'a engine_scheme" where
  "te_copy_proc_prov from to domain_id labels st =
     st\<lparr>ts_proc_prov := bpf_loop (te_count st 5) (te_copy_proc_prov_cb from to domain_id labels)
                          (ts_proc_prov st)\<rparr>"

definition te_copy_file_prov_to_file_cb ::
  "file_domain_id \<Rightarrow> file_domain_id \<Rightarrow> u64 \<Rightarrow> nat \<Rightarrow> (file_label_id, te_prov) bpf_hash \<Rightarrow>
   bool \<times> (file_label_id, te_prov) bpf_hash" where
  "te_copy_file_prov_to_file_cb from to labels i m =
     (if MAX_TAINT_LABELS \<le> i then (True, m)
      else if labels AND bit64 i = 0 then (False, m)
      else case map_lookup m \<lparr>fl_fdom = from, fl_label = bit64 i\<rparr> of
             None \<Rightarrow> (False, m)
           | Some p \<Rightarrow> (False, map_put \<lparr>fl_fdom = to, fl_label = bit64 i\<rparr> p m))"

definition te_copy_file_prov_to_file ::
  "file_domain_id \<Rightarrow> file_domain_id \<Rightarrow> u64 \<Rightarrow> 'a engine_scheme \<Rightarrow> 'a engine_scheme" where
  "te_copy_file_prov_to_file from to labels st =
     st\<lparr>ts_file_prov := bpf_loop (te_count st 5) (te_copy_file_prov_to_file_cb from to labels)
                          (ts_file_prov st)\<rparr>"

definition te_delete_file_prov_cb ::
  "file_domain_id \<Rightarrow> u64 \<Rightarrow> nat \<Rightarrow> (file_label_id, te_prov) bpf_hash \<Rightarrow>
   bool \<times> (file_label_id, te_prov) bpf_hash" where
  "te_delete_file_prov_cb fdom labels i m =
     (if MAX_TAINT_LABELS \<le> i then (True, m)
      else if labels AND bit64 i = 0 then (False, m)
      else (False, map_delete \<lparr>fl_fdom = fdom, fl_label = bit64 i\<rparr> m))"

definition te_delete_file_prov_mask :: "file_domain_id \<Rightarrow> u64 \<Rightarrow> 'a engine_scheme \<Rightarrow> 'a engine_scheme" where
  "te_delete_file_prov_mask fdom labels st =
     st\<lparr>ts_file_prov := bpf_loop (te_count st 5) (te_delete_file_prov_cb fdom labels) (ts_file_prov st)\<rparr>"

definition te_copy_file_prov_to_proc_cb ::
  "(file_label_id, te_prov) bpf_hash \<Rightarrow> pid_t \<Rightarrow> file_domain_id \<Rightarrow> u64 \<Rightarrow> nat \<Rightarrow>
   (pid_label_id, te_prov) bpf_hash \<Rightarrow> bool \<times> (pid_label_id, te_prov) bpf_hash" where
  "te_copy_file_prov_to_proc_cb src pid fdom labels i m =
     (if MAX_TAINT_LABELS \<le> i then (True, m)
      else if labels AND bit64 i = 0 then (False, m)
      else case map_lookup src \<lparr>fl_fdom = fdom, fl_label = bit64 i\<rparr> of
             None \<Rightarrow> (False, m)
           | Some p \<Rightarrow>
               (False, map_put \<lparr>pl_pid = pid, pl_domain_id = fd_domain_id fdom, pl_label = bit64 i\<rparr> p m))"

definition te_copy_file_prov_to_proc ::
  "pid_t \<Rightarrow> file_domain_id \<Rightarrow> u64 \<Rightarrow> 'a engine_scheme \<Rightarrow> 'a engine_scheme" where
  "te_copy_file_prov_to_proc pid fdom labels st =
     st\<lparr>ts_proc_prov := bpf_loop (te_count st 5)
          (te_copy_file_prov_to_proc_cb (ts_file_prov st) pid fdom labels) (ts_proc_prov st)\<rparr>"

definition te_copy_proc_prov_to_file_cb ::
  "(pid_label_id, te_prov) bpf_hash \<Rightarrow> pid_t \<Rightarrow> file_domain_id \<Rightarrow> u64 \<Rightarrow> nat \<Rightarrow>
   (file_label_id, te_prov) bpf_hash \<Rightarrow> bool \<times> (file_label_id, te_prov) bpf_hash" where
  "te_copy_proc_prov_to_file_cb src pid fdom labels i m =
     (if MAX_TAINT_LABELS \<le> i then (True, m)
      else if labels AND bit64 i = 0 then (False, m)
      else case te_lookup_proc_prov src pid (fd_domain_id fdom) (bit64 i) of
             None \<Rightarrow> (False, m)
           | Some p \<Rightarrow> (False, map_put \<lparr>fl_fdom = fdom, fl_label = bit64 i\<rparr> p m))"

definition te_copy_proc_prov_to_file ::
  "pid_t \<Rightarrow> file_domain_id \<Rightarrow> u64 \<Rightarrow> 'a engine_scheme \<Rightarrow> 'a engine_scheme" where
  "te_copy_proc_prov_to_file pid fdom labels st =
     st\<lparr>ts_file_prov := bpf_loop (te_count st 5)
          (te_copy_proc_prov_to_file_cb (ts_proc_prov st) pid fdom labels) (ts_file_prov st)\<rparr>"

definition te_copy_endp_prov_to_proc_cb ::
  "(endp_label_id, te_prov) bpf_hash \<Rightarrow> pid_t \<Rightarrow> endp_domain_id \<Rightarrow> u64 \<Rightarrow> nat \<Rightarrow>
   (pid_label_id, te_prov) bpf_hash \<Rightarrow> bool \<times> (pid_label_id, te_prov) bpf_hash" where
  "te_copy_endp_prov_to_proc_cb src pid edom labels i m =
     (if MAX_TAINT_LABELS \<le> i then (True, m)
      else if labels AND bit64 i = 0 then (False, m)
      else case map_lookup src \<lparr>el_edom = edom, el_label = bit64 i\<rparr> of
             None \<Rightarrow> (False, m)
           | Some p \<Rightarrow>
               (False, map_put \<lparr>pl_pid = pid, pl_domain_id = ed_domain_id edom, pl_label = bit64 i\<rparr> p m))"

definition te_copy_endp_prov_to_proc ::
  "pid_t \<Rightarrow> endp_domain_id \<Rightarrow> u64 \<Rightarrow> 'a engine_scheme \<Rightarrow> 'a engine_scheme" where
  "te_copy_endp_prov_to_proc pid edom labels st =
     st\<lparr>ts_proc_prov := bpf_loop (te_count st 5)
          (te_copy_endp_prov_to_proc_cb (ts_endp_prov st) pid edom labels) (ts_proc_prov st)\<rparr>"

definition te_copy_proc_prov_to_endp_cb ::
  "(pid_label_id, te_prov) bpf_hash \<Rightarrow> pid_t \<Rightarrow> endp_domain_id \<Rightarrow> u64 \<Rightarrow> nat \<Rightarrow>
   (endp_label_id, te_prov) bpf_hash \<Rightarrow> bool \<times> (endp_label_id, te_prov) bpf_hash" where
  "te_copy_proc_prov_to_endp_cb src pid edom labels i m =
     (if MAX_TAINT_LABELS \<le> i then (True, m)
      else if labels AND bit64 i = 0 then (False, m)
      else case te_lookup_proc_prov src pid (ed_domain_id edom) (bit64 i) of
             None \<Rightarrow> (False, m)
           | Some p \<Rightarrow> (False, map_put \<lparr>el_edom = edom, el_label = bit64 i\<rparr> p m))"

definition te_copy_proc_prov_to_endp ::
  "pid_t \<Rightarrow> endp_domain_id \<Rightarrow> u64 \<Rightarrow> 'a engine_scheme \<Rightarrow> 'a engine_scheme" where
  "te_copy_proc_prov_to_endp pid edom labels st =
     st\<lparr>ts_endp_prov := bpf_loop (te_count st 5)
          (te_copy_proc_prov_to_endp_cb (ts_proc_prov st) pid edom labels) (ts_endp_prov st)\<rparr>"

section \<open>Loops over the label bits\<close>

text \<open>The shape of the five copying loops: for each bit of a mask, store under the key of the bit the
  value found for it, if there is one. Storing a bit's value does not change what is found for another.\<close>

locale label_copy =
  fixes cb :: "nat \<Rightarrow> ('k, 'v) bpf_hash \<Rightarrow> bool \<times> ('k, 'v) bpf_hash"
    and labels :: u64
    and key :: "nat \<Rightarrow> 'k"
    and val :: "('k, 'v) bpf_hash \<Rightarrow> nat \<Rightarrow> 'v option"
  assumes cb_step: "cb i m =
      (if MAX_TAINT_LABELS \<le> i then (True, m)
       else if labels AND bit64 i = 0 then (False, m)
       else case val m i of None \<Rightarrow> (False, m) | Some p \<Rightarrow> (False, map_put (key i) p m))"
    and key_inj: "i < 64 \<Longrightarrow> j < 64 \<Longrightarrow> key i = key j \<Longrightarrow> i = j"
    and val_put: "i < 64 \<Longrightarrow> j < 64 \<Longrightarrow> i \<noteq> j \<Longrightarrow> val (map_put (key i) p m) j = val m j"
begin

lemma step_cases:
  "i < 64 \<Longrightarrow> cb i m =
     (False, case if i \<in> bits_of labels then val m i else None of None \<Rightarrow> m | Some p \<Rightarrow> map_put (key i) p m)"
  by (simp add: cb_step and_bit64 split: option.split)

lemma loop_fold:
  assumes "unat n \<le> 64"
  shows "bpf_loop n cb m = fold (\<lambda>i m. snd (cb i m)) [0..<unat n] m"
  using assms by (intro bpf_loop_fold) (auto simp: step_cases)

lemma step_other: "i < 64 \<Longrightarrow> k \<noteq> key i \<Longrightarrow> map_lookup (snd (cb i m)) k = map_lookup m k"
  by (simp add: step_cases lookup_put split: option.split)

lemma step_val: "i < 64 \<Longrightarrow> j < 64 \<Longrightarrow> i \<noteq> j \<Longrightarrow> val (snd (cb i m)) j = val m j"
  by (simp add: step_cases val_put split: option.split)

lemma fold_other:
  "set is \<subseteq> {..<64} \<Longrightarrow> k \<notin> key ` set is \<Longrightarrow>
   map_lookup (fold (\<lambda>i m. snd (cb i m)) is m) k = map_lookup m k"
  by (induction "is" arbitrary: m) (auto simp: step_other)

lemma fold_origin:
  assumes "set is \<subseteq> {..<64}" and "distinct is" and "i < 64"
    and "map_lookup (fold (\<lambda>i m. snd (cb i m)) is m) (key i) = Some p"
  shows "map_lookup m (key i) = Some p \<or> i \<in> set is \<and> i \<in> bits_of labels \<and> val m i = Some p"
  using assms
proof (induction "is" arbitrary: m)
  case (Cons j js)
  then have j: "j < 64" "j \<notin> set js" by auto
  show ?case
  proof (cases "i = j")
    case True
    then have "key i \<notin> key ` set js"
      using Cons.prems(1) j by (auto dest: key_inj [rotated 2])
    with Cons.prems True have "map_lookup (snd (cb j m)) (key j) = Some p"
      by (simp add: fold_other)
    then show ?thesis
      using True j by (auto simp: step_cases lookup_put split: option.splits if_splits)
  next
    case False
    with Cons.prems j have "map_lookup (snd (cb j m)) (key i) = map_lookup m (key i)"
      by (auto intro!: step_other dest: key_inj)
    moreover have "val (snd (cb j m)) i = val m i"
      using False j Cons.prems by (simp add: step_val)
    ultimately show ?thesis
      using Cons.IH [of "snd (cb j m)"] Cons.prems by auto
  qed
qed simp

lemma fold_stores:
  assumes "set is \<subseteq> {..<64}" and "distinct is" and "i \<in> set is" and "i \<in> bits_of labels"
    and "val m i = Some p" and "has_slots (length is) m"
  shows "map_lookup (fold (\<lambda>i m. snd (cb i m)) is m) (key i) = Some p"
  using assms
proof (induction "is" arbitrary: m)
  case (Cons j js)
  then have j: "j < 64" "j \<notin> set js" by auto
  have slots: "has_slots (length js) (snd (cb j m))"
    using Cons.prems j by (auto simp: step_cases has_slots_put intro: has_slots_mono split: option.split)
  show ?case
  proof (cases "i = j")
    case True
    have "key i \<notin> key ` set js"
      using True Cons.prems(1) j by (auto dest: key_inj [rotated 2])
    moreover have "map_lookup (snd (cb j m)) (key j) = Some p"
      using True Cons.prems j by (simp add: step_cases lookup_put room_slots)
    ultimately show ?thesis
      using True Cons.prems by (simp add: fold_other)
  next
    case False
    then have "val (snd (cb j m)) i = Some p"
      using j Cons.prems by (simp add: step_val subset_iff)
    then show ?thesis
      using False Cons.prems slots by (auto intro!: Cons.IH)
  qed
qed simp

lemma loop_other:
  assumes "unat n \<le> 64" and "k \<notin> key ` {..<64}"
  shows "map_lookup (bpf_loop n cb m) k = map_lookup m k"
  using assms by (auto simp: loop_fold intro!: fold_other elim: notE [OF _ image_eqI] less_le_trans)

lemma loop_origin:
  assumes "unat n \<le> 64" and "map_lookup (bpf_loop n cb m) k = Some p"
  shows "map_lookup m k = Some p \<or> (\<exists>i < unat n. i \<in> bits_of labels \<and> k = key i \<and> val m i = Some p)"
proof (cases "k \<in> key ` {..<64}")
  case True
  then obtain i where "k = key i" "i < 64" by auto
  with assms fold_origin [of "[0..<unat n]" i m p] show ?thesis
    by (auto simp: loop_fold subset_iff)
next
  case False
  then show ?thesis using assms loop_other [of n k m] by auto
qed

lemma loop_stores:
  assumes "unat n \<le> 64" and "i < unat n" and "i \<in> bits_of labels" and "val m i = Some p"
    and "has_slots 64 m"
  shows "map_lookup (bpf_loop n cb m) (key i) = Some p"
  using assms by (auto simp: loop_fold intro!: fold_stores elim: has_slots_mono)

lemma loop_all:
  assumes "unat n \<le> 64" and "\<And>k p. map_lookup m k = Some p \<Longrightarrow> P k p"
    and "\<And>i p. i < 64 \<Longrightarrow> val m i = Some p \<Longrightarrow> P (key i) p"
    and "map_lookup (bpf_loop n cb m) k = Some p"
  shows "P k p"
  using loop_origin [OF assms(1,4)] assms(1-3) by auto

end

text \<open>The shape of the two recording loops: a fresh entry for each bit of a mask.\<close>

locale label_record =
  fixes cb :: "nat \<Rightarrow> nat \<times> ('k, te_prov) bpf_hash \<Rightarrow> bool \<times> nat \<times> ('k, te_prov) bpf_hash"
    and labels :: u64
    and key :: "nat \<Rightarrow> 'k"
    and entry :: "nat \<Rightarrow> nat \<Rightarrow> te_prov"
  assumes cb_step: "cb i s =
      (if MAX_TAINT_LABELS \<le> i then (True, s)
       else if labels AND bit64 i = 0 then (False, s)
       else (False, Suc (fst s), map_put (key i) (entry (fst s) i) (snd s)))"
    and key_inj: "i < 64 \<Longrightarrow> j < 64 \<Longrightarrow> key i = key j \<Longrightarrow> i = j"
begin

lemma step_cases:
  "i < 64 \<Longrightarrow> cb i s =
     (False, if i \<in> bits_of labels then (Suc (fst s), map_put (key i) (entry (fst s) i) (snd s)) else s)"
  by (simp add: cb_step and_bit64)

lemma loop_fold:
  assumes "unat n \<le> 64"
  shows "bpf_loop n cb s = fold (\<lambda>i s. snd (cb i s)) [0..<unat n] s"
  using assms by (intro bpf_loop_fold) (auto simp: step_cases)

lemma fold_other:
  "set is \<subseteq> {..<64} \<Longrightarrow> k \<notin> key ` (set is \<inter> bits_of labels) \<Longrightarrow>
   map_lookup (snd (fold (\<lambda>i s. snd (cb i s)) is s)) k = map_lookup (snd s) k"
  by (induction "is" arbitrary: s) (auto simp: step_cases lookup_put)

lemma fold_origin:
  "set is \<subseteq> {..<64} \<Longrightarrow> map_lookup (snd (fold (\<lambda>i s. snd (cb i s)) is s)) k = Some p \<Longrightarrow>
   map_lookup (snd s) k = Some p \<or> (\<exists>i t. i \<in> set is \<and> i \<in> bits_of labels \<and> k = key i \<and> p = entry t i)"
proof (induction "is" arbitrary: s)
  case (Cons j js)
  then have "map_lookup (snd (snd (cb j s))) k = Some p \<or>
      (\<exists>i t. i \<in> set js \<and> i \<in> bits_of labels \<and> k = key i \<and> p = entry t i)" by auto
  then show ?case
    using Cons.prems(1) by (auto simp: step_cases lookup_put split: if_splits)
qed simp

lemma fold_stores:
  assumes "set is \<subseteq> {..<64}" and "distinct is" and "i \<in> set is" and "i \<in> bits_of labels"
    and "has_slots (length is) (snd s)"
  shows "\<exists>t. map_lookup (snd (fold (\<lambda>i s. snd (cb i s)) is s)) (key i) = Some (entry t i)"
  using assms
proof (induction "is" arbitrary: s)
  case (Cons j js)
  then have j: "j < 64" "j \<notin> set js" by auto
  have slots: "has_slots (length js) (snd (snd (cb j s)))"
    using Cons.prems j by (auto simp: step_cases has_slots_put intro: has_slots_mono)
  show ?case
  proof (cases "i = j")
    case True
    have "key i \<notin> key ` (set js \<inter> bits_of labels)"
      using True Cons.prems(1) j by (auto dest: key_inj [rotated 2])
    then show ?thesis
      using True Cons.prems j by (auto simp: fold_other step_cases lookup_put room_slots)
  next
    case False
    then show ?thesis
      using Cons.prems slots Cons.IH [of "snd (cb j s)"] by auto
  qed
qed simp

lemma loop_origin:
  assumes "unat n \<le> 64" and "map_lookup (snd (bpf_loop n cb s)) k = Some p"
  shows "map_lookup (snd s) k = Some p \<or> (\<exists>i t. i < unat n \<and> i \<in> bits_of labels \<and> k = key i \<and> p = entry t i)"
  using assms fold_origin [of "[0..<unat n]" s k p] by (auto simp: loop_fold subset_iff)

lemma loop_stores:
  assumes "unat n \<le> 64" and "i < unat n" and "i \<in> bits_of labels" and "has_slots 64 (snd s)"
  shows "\<exists>t. map_lookup (snd (bpf_loop n cb s)) (key i) = Some (entry t i)"
  using assms by (auto simp: loop_fold intro!: fold_stores elim: has_slots_mono)

end

section \<open>The engine's loops have these shapes\<close>

interpretation proc_to_proc: label_copy "te_copy_proc_prov_cb from to d labels" labels
    "\<lambda>i. \<lparr>pl_pid = to, pl_domain_id = d, pl_label = bit64 i\<rparr>"
    "\<lambda>m i. te_lookup_proc_prov m from d (bit64 i)"
  for "from" to d labels
  by unfold_locales
    (auto simp: te_copy_proc_prov_cb_def te_lookup_proc_prov_def lookup_put split: option.split)

interpretation file_to_file: label_copy "te_copy_file_prov_to_file_cb from to labels" labels
    "\<lambda>i. \<lparr>fl_fdom = to, fl_label = bit64 i\<rparr>" "\<lambda>m i. map_lookup m \<lparr>fl_fdom = from, fl_label = bit64 i\<rparr>"
  for "from" to labels
  by unfold_locales (auto simp: te_copy_file_prov_to_file_cb_def lookup_put split: option.split)

interpretation file_to_proc: label_copy "te_copy_file_prov_to_proc_cb src pid fdom labels" labels
    "\<lambda>i. \<lparr>pl_pid = pid, pl_domain_id = fd_domain_id fdom, pl_label = bit64 i\<rparr>"
    "\<lambda>m i. map_lookup src \<lparr>fl_fdom = fdom, fl_label = bit64 i\<rparr>"
  for src pid fdom labels
  by unfold_locales (auto simp: te_copy_file_prov_to_proc_cb_def split: option.split)

interpretation proc_to_file: label_copy "te_copy_proc_prov_to_file_cb src pid fdom labels" labels
    "\<lambda>i. \<lparr>fl_fdom = fdom, fl_label = bit64 i\<rparr>"
    "\<lambda>m i. te_lookup_proc_prov src pid (fd_domain_id fdom) (bit64 i)"
  for src pid fdom labels
  by unfold_locales (auto simp: te_copy_proc_prov_to_file_cb_def split: option.split)

interpretation endp_to_proc: label_copy "te_copy_endp_prov_to_proc_cb src pid edom labels" labels
    "\<lambda>i. \<lparr>pl_pid = pid, pl_domain_id = ed_domain_id edom, pl_label = bit64 i\<rparr>"
    "\<lambda>m i. map_lookup src \<lparr>el_edom = edom, el_label = bit64 i\<rparr>"
  for src pid edom labels
  by unfold_locales (auto simp: te_copy_endp_prov_to_proc_cb_def split: option.split)

interpretation proc_to_endp: label_copy "te_copy_proc_prov_to_endp_cb src pid edom labels" labels
    "\<lambda>i. \<lparr>el_edom = edom, el_label = bit64 i\<rparr>"
    "\<lambda>m i. te_lookup_proc_prov src pid (ed_domain_id edom) (bit64 i)"
  for src pid edom labels
  by unfold_locales (auto simp: te_copy_proc_prov_to_endp_cb_def split: option.split)

interpretation record_proc: label_record "te_record_proc_prov_cb now pid d labels op target ip" labels
    "\<lambda>i. \<lparr>pl_pid = pid, pl_domain_id = d, pl_label = bit64 i\<rparr>"
    "\<lambda>t i. prov_entry now t (bit64 i) pid op ip target"
  for now pid d labels op target ip
  by unfold_locales (auto simp: te_record_proc_prov_cb_def te_record_proc_prov_def)

interpretation record_file: label_record "te_record_file_prov_cb now fdom labels pid op target" labels
    "\<lambda>i. \<lparr>fl_fdom = fdom, fl_label = bit64 i\<rparr>"
    "\<lambda>t i. prov_entry now t (bit64 i) pid op 0 target"
  for now fdom labels pid op target
  by unfold_locales (auto simp: te_record_file_prov_cb_def te_record_file_prov_def)

section \<open>Every origin is filed under its label\<close>

definition prov_ok :: "'a engine_scheme \<Rightarrow> bool" where
  "prov_ok st \<longleftrightarrow>
     (\<forall>k p. map_lookup (ts_proc_prov st) k = Some p \<longrightarrow> pv_label p = pl_label k) \<and>
     (\<forall>k p. map_lookup (ts_file_prov st) k = Some p \<longrightarrow> pv_label p = fl_label k) \<and>
     (\<forall>k p. map_lookup (ts_endp_prov st) k = Some p \<longrightarrow> pv_label p = el_label k)"

lemma wf_te_count5: "wf_tables st \<Longrightarrow> unat (te_count st 5) \<le> 64"
  by (simp add: wf_tables_def te_count_def arr_lookup_def)

lemma prov_entry_label [simp]: "pv_label (prov_entry now t label pid op ip target) = label"
  by (simp add: prov_entry_def)

lemma prov_ok_cong:
  "ts_proc_prov st' = ts_proc_prov st \<Longrightarrow> ts_file_prov st' = ts_file_prov st \<Longrightarrow>
   ts_endp_prov st' = ts_endp_prov st \<Longrightarrow> prov_ok st \<Longrightarrow> prov_ok st'"
  by (simp add: prov_ok_def)

lemma prov_ok_record_proc:
  assumes "wf_tables st" and "prov_ok st"
  shows "prov_ok (te_record_proc_prov_mask pid d labels op target ip st)"
  using assms(2) by (auto simp: te_record_proc_prov_mask_def prov_ok_def case_prod_beta
      dest!: record_proc.loop_origin [OF wf_te_count5 [OF assms(1)]])

lemma prov_ok_record_file:
  assumes "wf_tables st" and "prov_ok st"
  shows "prov_ok (te_record_file_prov_mask fdom labels pid op target st)"
  using assms(2) by (auto simp: te_record_file_prov_mask_def prov_ok_def case_prod_beta
      dest!: record_file.loop_origin [OF wf_te_count5 [OF assms(1)]])

lemma prov_ok_copy_proc:
  assumes "wf_tables st" and "prov_ok st"
  shows "prov_ok (te_copy_proc_prov from to d labels st)"
  using assms(2) by (auto simp: te_copy_proc_prov_def te_lookup_proc_prov_def prov_ok_def
      dest!: proc_to_proc.loop_origin [OF wf_te_count5 [OF assms(1)]])

lemma prov_ok_copy_file:
  assumes "wf_tables st" and "prov_ok st"
  shows "prov_ok (te_copy_file_prov_to_file from to labels st)"
  using assms(2) by (auto simp: te_copy_file_prov_to_file_def prov_ok_def
      dest!: file_to_file.loop_origin [OF wf_te_count5 [OF assms(1)]])

lemma prov_ok_file_to_proc:
  assumes "wf_tables st" and "prov_ok st"
  shows "prov_ok (te_copy_file_prov_to_proc pid fdom labels st)"
  using assms(2) by (auto simp: te_copy_file_prov_to_proc_def prov_ok_def
      dest!: file_to_proc.loop_origin [OF wf_te_count5 [OF assms(1)]])

lemma prov_ok_proc_to_file:
  assumes "wf_tables st" and "prov_ok st"
  shows "prov_ok (te_copy_proc_prov_to_file pid fdom labels st)"
  using assms(2) by (auto simp: te_copy_proc_prov_to_file_def te_lookup_proc_prov_def prov_ok_def
      dest!: proc_to_file.loop_origin [OF wf_te_count5 [OF assms(1)]])

lemma prov_ok_endp_to_proc:
  assumes "wf_tables st" and "prov_ok st"
  shows "prov_ok (te_copy_endp_prov_to_proc pid edom labels st)"
  using assms(2) by (auto simp: te_copy_endp_prov_to_proc_def prov_ok_def
      dest!: endp_to_proc.loop_origin [OF wf_te_count5 [OF assms(1)]])

lemma prov_ok_proc_to_endp:
  assumes "wf_tables st" and "prov_ok st"
  shows "prov_ok (te_copy_proc_prov_to_endp pid edom labels st)"
  using assms(2) by (auto simp: te_copy_proc_prov_to_endp_def te_lookup_proc_prov_def prov_ok_def
      dest!: proc_to_endp.loop_origin [OF wf_te_count5 [OF assms(1)]])

lemma delete_file_prov_lookup:
  assumes "unat n \<le> 64"
  shows "map_lookup (bpf_loop n (te_delete_file_prov_cb fdom labels) m) k =
    (if \<exists>i < unat n. i \<in> bits_of labels \<and> k = \<lparr>fl_fdom = fdom, fl_label = bit64 i\<rparr>
     then None else map_lookup m k)"
proof -
  have "bpf_loop n (te_delete_file_prov_cb fdom labels) m =
      fold (\<lambda>i m. if i \<in> bits_of labels then map_delete \<lparr>fl_fdom = fdom, fl_label = bit64 i\<rparr> m else m)
        [0..<unat n] m"
    using assms by (intro bpf_loop_fold) (auto simp: te_delete_file_prov_cb_def and_bit64)
  moreover have "map_lookup (fold (\<lambda>i m. if i \<in> bits_of labels
        then map_delete \<lparr>fl_fdom = fdom, fl_label = bit64 i\<rparr> m else m) is m) k =
      (if \<exists>i \<in> set is. i \<in> bits_of labels \<and> k = \<lparr>fl_fdom = fdom, fl_label = bit64 i\<rparr>
       then None else map_lookup m k)" for "is"
    by (induction "is" arbitrary: m) (auto simp: lookup_delete)
  ultimately show ?thesis by (simp add: Bex_def)
qed

lemma prov_ok_delete_file:
  assumes "wf_tables st" and "prov_ok st"
  shows "prov_ok (te_delete_file_prov_mask fdom labels st)"
  using assms(2)
  by (auto simp: te_delete_file_prov_mask_def prov_ok_def delete_file_prov_lookup [OF wf_te_count5 [OF assms(1)]]
      split: if_splits)

lemmas prov_ok_ops = prov_ok_record_proc prov_ok_record_file prov_ok_copy_proc prov_ok_copy_file
  prov_ok_file_to_proc prov_ok_proc_to_file prov_ok_endp_to_proc prov_ok_proc_to_endp prov_ok_delete_file

end
