(* ===== verification/Sessions.thy ===== *)
theory Sessions
  imports Engine_State
begin

text \<open>
  Session gates and staleness (\<^verbatim>\<open>bpf/taint_engine.bpf.h\<close>): a session belongs to a root
  process and a domain, counts its events in a 32-bit epoch, and keeps for each gate and each
  invalidator the epoch at which it last fired. The conditions \<^verbatim>\<open>after X\<close> and
  \<^verbatim>\<open>after X since Y\<close> read that state.
\<close>

section \<open>Operations\<close>

definition te_sess_get :: "'a engine_scheme \<Rightarrow> pid_t \<Rightarrow> u32 \<Rightarrow> te_sess option" where
  "te_sess_get st root domain_id = map_lookup (ts_sess st) (te_sess_domain_key root domain_id)"

text \<open>The zeroed template a new session starts from.\<close>

definition sess_zero :: te_sess where
  "sess_zero = \<lparr>se_gate_bits = 0, se_epoch = 0, se_gate_epoch = (\<lambda>_. 0), se_inval_epoch = (\<lambda>_. 0)\<rparr>"

definition te_sess_init :: "pid_t \<Rightarrow> u32 \<Rightarrow> 'a engine_scheme \<Rightarrow> te_sess option \<times> 'a engine_scheme" where
  "te_sess_init root domain_id st =
     (let key = te_sess_domain_key root domain_id
      in case map_lookup (ts_sess st) key of
           Some s \<Rightarrow> (Some s, st)
         | None \<Rightarrow>
             let m = snd (map_update_elem BPF_NOEXIST key sess_zero (ts_sess st))
             in (map_lookup m key, st\<lparr>ts_sess := m\<rparr>))"

definition te_tick :: "pid_t \<Rightarrow> u32 \<Rightarrow> 'a engine_scheme \<Rightarrow> u32 \<times> 'a engine_scheme" where
  "te_tick root domain_id st =
     (case te_sess_init root domain_id st of
        (None, st) \<Rightarrow> (0, st)
      | (Some s, st) \<Rightarrow>
          (se_epoch s + 1,
           st\<lparr>ts_sess := map_modify (te_sess_domain_key root domain_id)
                 (\<lambda>s. s\<lparr>se_epoch := se_epoch s + 1\<rparr>) (ts_sess st)\<rparr>))"

definition te_stamp_gate_cb ::
  "pid_t \<Rightarrow> u32 \<Rightarrow> u32 \<Rightarrow> u64 \<Rightarrow> nat \<Rightarrow> (sess_domain_id, te_sess) bpf_hash \<Rightarrow>
   bool \<times> (sess_domain_id, te_sess) bpf_hash" where
  "te_stamp_gate_cb root domain_id ep hits i m =
     (let idx = i mod MAX_TAINT_GATES
      in if hits AND bit64 idx = 0 then (False, m)
         else case map_lookup m (te_sess_domain_key root domain_id) of
                None \<Rightarrow> (True, m)
              | Some _ \<Rightarrow>
                  (False, map_modify (te_sess_domain_key root domain_id)
                     (\<lambda>s. s\<lparr>se_gate_epoch := (se_gate_epoch s)(idx := ep)\<rparr>) m))"

definition te_stamp_inval_cb ::
  "pid_t \<Rightarrow> u32 \<Rightarrow> u32 \<Rightarrow> u64 \<Rightarrow> nat \<Rightarrow> (sess_domain_id, te_sess) bpf_hash \<Rightarrow>
   bool \<times> (sess_domain_id, te_sess) bpf_hash" where
  "te_stamp_inval_cb root domain_id ep hits i m =
     (let idx = i mod MAX_TAINT_INVALS
      in if hits AND bit64 idx = 0 then (False, m)
         else case map_lookup m (te_sess_domain_key root domain_id) of
                None \<Rightarrow> (True, m)
              | Some _ \<Rightarrow>
                  (False, map_modify (te_sess_domain_key root domain_id)
                     (\<lambda>s. s\<lparr>se_inval_epoch := (se_inval_epoch s)(idx := ep)\<rparr>) m))"

definition te_stamp :: "pid_t \<Rightarrow> u32 \<Rightarrow> u32 \<Rightarrow> u64 \<Rightarrow> u64 \<Rightarrow> 'a engine_scheme \<Rightarrow> 'a engine_scheme" where
  "te_stamp root domain_id ep gate_hits inval_hits st =
     (if ep = 0 \<or> (gate_hits = 0 \<and> inval_hits = 0) then st
      else case te_sess_get st root domain_id of
             None \<Rightarrow> st
           | Some _ \<Rightarrow>
               let m = map_modify (te_sess_domain_key root domain_id)
                         (\<lambda>s. s\<lparr>se_gate_bits := se_gate_bits s OR gate_hits\<rparr>) (ts_sess st);
                   m = (if gate_hits \<noteq> 0
                        then bpf_loop (of_nat MAX_TAINT_GATES) (te_stamp_gate_cb root domain_id ep gate_hits) m
                        else m);
                   m = (if inval_hits \<noteq> 0
                        then bpf_loop (of_nat MAX_TAINT_INVALS) (te_stamp_inval_cb root domain_id ep inval_hits) m
                        else m)
               in st\<lparr>ts_sess := m\<rparr>)"

text \<open>The scan for the latest invalidator of a rule.\<close>

definition last_inval :: "u64 \<Rightarrow> (nat \<Rightarrow> u32) \<Rightarrow> u32" where
  "last_inval since_mask inval_epoch =
     fold (\<lambda>i last. if since_mask AND bit64 i \<noteq> 0 then
                       (if inval_epoch i > last then inval_epoch i else last)
                     else last) [0..<MAX_TAINT_INVALS] 0"

definition te_after_satisfied :: "'a engine_scheme \<Rightarrow> taint_rule \<Rightarrow> pid_t \<Rightarrow> bool" where
  "te_after_satisfied st r pid =
     (case te_sess_get st (te_root st pid) (ru_domain_id r) of
        None \<Rightarrow> False
      | Some s \<Rightarrow>
          if ru_since_mask r = 0 then se_gate_bits s AND ru_gate r \<noteq> 0
          else if MAX_TAINT_GATES \<le> unat (ru_gate_idx r) then False
          else
            let ge = se_gate_epoch s (unat (ru_gate_idx r))
            in if ge = 0 then False
               else ge > last_inval (ru_since_mask r) (se_inval_epoch s))"

section \<open>What a stamp does\<close>

lemma unat_64 [simp]: "unat (64 :: u32) = 64"
  by simp

text \<open>A session after the stamp of one event.\<close>

definition stamped :: "u32 \<Rightarrow> u64 \<Rightarrow> u64 \<Rightarrow> te_sess \<Rightarrow> te_sess" where
  "stamped ep gates invals s =
     s\<lparr>se_gate_bits := se_gate_bits s OR gates,
       se_gate_epoch := (\<lambda>i. if i \<in> bits_of gates then ep else se_gate_epoch s i),
       se_inval_epoch := (\<lambda>i. if i \<in> bits_of invals then ep else se_inval_epoch s i)\<rparr>"

lemma map_modify_comp: "map_modify k g (map_modify k f m) = map_modify k (\<lambda>v. g (f v)) m"
  by (cases "ents m k") (simp_all add: map_modify_def)

lemma map_modify_cong: "(\<And>v. map_lookup m k = Some v \<Longrightarrow> f v = g v) \<Longrightarrow> map_modify k f m = map_modify k g m"
  by (auto simp: map_modify_def map_lookup_def split: option.split)

lemma map_modify_idem: "(\<And>v. map_lookup m k = Some v \<Longrightarrow> f v = v) \<Longrightarrow> map_modify k f m = m"
  by (cases m) (auto simp: map_modify_def map_lookup_def fun_upd_idem split: option.split)

text \<open>The contract the two stamping loops share: each marks, at one key, the cells of a mask.\<close>

locale cell_stamp =
  fixes cb :: "nat \<Rightarrow> ('k, 'v) bpf_hash \<Rightarrow> bool \<times> ('k, 'v) bpf_hash"
    and hits :: u64 and key :: 'k and mark :: "nat \<Rightarrow> 'v \<Rightarrow> 'v"
  assumes cb_step: "i < 64 \<Longrightarrow> cb i m =
      (if hits AND bit64 i = 0 then (False, m)
       else case map_lookup m key of None \<Rightarrow> (True, m) | Some _ \<Rightarrow> (False, map_modify key (mark i) m))"
begin

lemma fold_marks:
  assumes "set is \<subseteq> {..<64}" and "map_lookup m key \<noteq> None"
  shows "loop_on is cb m = map_modify key (fold (\<lambda>i v. if i \<in> bits_of hits then mark i v else v) is) m"
  using assms
proof (induction "is" arbitrary: m)
  case Nil
  then show ?case by (simp add: map_modify_idem)
next
  case (Cons i "is")
  then obtain v where v: "map_lookup m key = Some v" and i: "i < 64" by auto
  have "map_lookup (map_modify key (mark i) m) key \<noteq> None" by (simp add: lookup_modify v)
  with Cons v i show ?case
    by (auto simp: cb_step and_bit64 map_modify_comp)
qed

lemma loop_marks:
  "map_lookup m key \<noteq> None \<Longrightarrow>
   bpf_loop 64 cb m = map_modify key (fold (\<lambda>i v. if i \<in> bits_of hits then mark i v else v) [0..<64]) m"
  by (simp add: bpf_loop_def fold_marks subset_iff)

end

interpretation gate_stamp: cell_stamp "te_stamp_gate_cb root d ep hits" hits "te_sess_domain_key root d"
    "\<lambda>i s. s\<lparr>se_gate_epoch := (se_gate_epoch s)(i := ep)\<rparr>"
  for root d ep hits
  by unfold_locales (simp add: te_stamp_gate_cb_def Let_def split: option.split)

interpretation inval_stamp: cell_stamp "te_stamp_inval_cb root d ep hits" hits "te_sess_domain_key root d"
    "\<lambda>i s. s\<lparr>se_inval_epoch := (se_inval_epoch s)(i := ep)\<rparr>"
  for root d ep hits
  by unfold_locales (simp add: te_stamp_inval_cb_def Let_def split: option.split)

lemma bits_of_u64: "i \<in> bits_of (w :: u64) \<and> i < 64 \<longleftrightarrow> i \<in> bits_of w"
  using bits_of_bound [of i w] by auto

lemma fold_gate_marks:
  "fold (\<lambda>i s. if i \<in> H then s\<lparr>se_gate_epoch := (se_gate_epoch s)(i := ep)\<rparr> else s) is s =
   s\<lparr>se_gate_epoch := (\<lambda>i. if i \<in> H \<and> i \<in> set is then ep else se_gate_epoch s i)\<rparr>"
proof (induction "is" arbitrary: s)
  case (Cons i "is")
  then show ?case by (cases s) (auto simp: fun_eq_iff)
qed simp

lemma fold_inval_marks:
  "fold (\<lambda>i s. if i \<in> H then s\<lparr>se_inval_epoch := (se_inval_epoch s)(i := ep)\<rparr> else s) is s =
   s\<lparr>se_inval_epoch := (\<lambda>i. if i \<in> H \<and> i \<in> set is then ep else se_inval_epoch s i)\<rparr>"
proof (induction "is" arbitrary: s)
  case (Cons i "is")
  then show ?case by (cases s) (auto simp: fun_eq_iff)
qed simp

lemma stamp_gates:
  "map_lookup m (te_sess_domain_key root d) \<noteq> None \<Longrightarrow>
   bpf_loop 64 (te_stamp_gate_cb root d ep gates) m =
     map_modify (te_sess_domain_key root d)
       (\<lambda>s. s\<lparr>se_gate_epoch := (\<lambda>i. if i \<in> bits_of gates then ep else se_gate_epoch s i)\<rparr>) m"
  unfolding gate_stamp.loop_marks
  by (rule map_modify_cong) (simp add: fold_gate_marks bits_of_u64 del: upt_rec_numeral)

lemma stamp_invals:
  "map_lookup m (te_sess_domain_key root d) \<noteq> None \<Longrightarrow>
   bpf_loop 64 (te_stamp_inval_cb root d ep invals) m =
     map_modify (te_sess_domain_key root d)
       (\<lambda>s. s\<lparr>se_inval_epoch := (\<lambda>i. if i \<in> bits_of invals then ep else se_inval_epoch s i)\<rparr>) m"
  unfolding inval_stamp.loop_marks
  by (rule map_modify_cong) (simp add: fold_inval_marks bits_of_u64 del: upt_rec_numeral)

lemma te_stamp_stamped:
  assumes "ep \<noteq> 0"
  shows "te_stamp root d ep gates invals st =
    st\<lparr>ts_sess := map_modify (te_sess_domain_key root d) (stamped ep gates invals) (ts_sess st)\<rparr>"
proof (cases "map_lookup (ts_sess st) (te_sess_domain_key root d)")
  case None
  then show ?thesis
    by (simp add: te_stamp_def te_sess_get_def map_modify_def map_lookup_def)
next
  case (Some s)
  have none: "map_modify (te_sess_domain_key root d) (stamped ep 0 0) (ts_sess st) = ts_sess st"
    by (rule map_modify_idem) (simp add: stamped_def)
  let ?k = "te_sess_domain_key root d"
  let ?m0 = "map_modify ?k (\<lambda>s. s\<lparr>se_gate_bits := se_gate_bits s OR gates\<rparr>) (ts_sess st)"
  have m0: "map_lookup ?m0 ?k \<noteq> None" by (simp add: lookup_modify Some)
  let ?m1 = "if gates \<noteq> 0 then bpf_loop 64 (te_stamp_gate_cb root d ep gates) ?m0 else ?m0"
  have m1: "?m1 = map_modify ?k (\<lambda>s. s\<lparr>se_gate_bits := se_gate_bits s OR gates,
      se_gate_epoch := (\<lambda>i. if i \<in> bits_of gates then ep else se_gate_epoch s i)\<rparr>) (ts_sess st)"
    unfolding stamp_gates [OF m0] map_modify_comp by (auto intro!: map_modify_cong cong: if_cong)
  have p1: "map_lookup ?m1 ?k \<noteq> None" unfolding m1 by (simp add: lookup_modify Some)
  have m2: "(if invals \<noteq> 0 then bpf_loop 64 (te_stamp_inval_cb root d ep invals) ?m1 else ?m1) =
      map_modify ?k (stamped ep gates invals) (ts_sess st)"
    unfolding stamp_invals [OF p1] unfolding m1 map_modify_comp
    by (auto intro!: map_modify_cong simp: stamped_def cong: if_cong)
  show ?thesis
  proof (cases "gates = 0 \<and> invals = 0")
    case True
    then show ?thesis by (simp add: te_stamp_def none)
  next
    case False
    have [simp]: "(of_nat 64 :: u32) = 64" by simp
    from False show ?thesis
      using assms Some unfolding m2 [symmetric] by (simp add: te_stamp_def te_sess_get_def Let_def)
  qed
qed

lemma te_stamp_zero [simp]: "te_stamp root d 0 gates invals st = st"
  by (simp add: te_stamp_def)

section \<open>Sessions as histories of events\<close>

text \<open>
  The events of a session. Most of them tick the epoch and at once stamp the gates and the invalidators that
  fired: \<open>Fire gates invals\<close>. A gate with an exit status is stamped later, when the process that ran
  it exits, with the epoch the exec ticked: \<open>Late k gates\<close>, where \<open>k\<close> is that epoch, that is, the
  number of ticks up to the exec. Runs overlap, so late stamps come in any order.
\<close>

datatype sess_ev = Fire (ev_gates: u64) (ev_invals: u64) | Late (ev_tick: nat) (ev_gates: u64)
  where "ev_invals (Late k g) = 0"

definition sess_event :: "pid_t \<Rightarrow> u32 \<Rightarrow> sess_ev \<Rightarrow> 'a engine_scheme \<Rightarrow> 'a engine_scheme" where
  "sess_event root d ev st =
     (case ev of
        Fire gates invals \<Rightarrow> let (ep, st) = te_tick root d st in te_stamp root d ep gates invals st
      | Late k gates \<Rightarrow> te_stamp root d (of_nat k) gates 0 st)"

definition sess_next :: "sess_ev \<Rightarrow> te_sess \<Rightarrow> te_sess" where
  "sess_next ev s =
     (case ev of
        Fire gates invals \<Rightarrow> stamped (se_epoch s + 1) gates invals (s\<lparr>se_epoch := se_epoch s + 1\<rparr>)
      | Late k gates \<Rightarrow> stamped (of_nat k) gates 0 s)"

definition run_sess :: "sess_ev list \<Rightarrow> te_sess" where
  "run_sess evs = fold sess_next evs sess_zero"

text \<open>The number of ticks of a history, the epoch of its \<open>m\<close>-th event, and the side condition that
  a late stamp carries the epoch of a tick that has happened.\<close>

definition ticks :: "sess_ev list \<Rightarrow> nat" where
  "ticks evs = length (filter is_Fire evs)"

definition tick_of :: "sess_ev list \<Rightarrow> nat \<Rightarrow> nat" where
  "tick_of evs m = (case evs ! m of Fire _ _ \<Rightarrow> ticks (take (Suc m) evs) | Late k _ \<Rightarrow> k)"

definition late_ok :: "sess_ev list \<Rightarrow> bool" where
  "late_ok evs = list_all (\<lambda>m. case evs ! m of Fire _ _ \<Rightarrow> True | Late k _ \<Rightarrow> 0 < k \<and> k \<le> ticks (take m evs))
     [0..<length evs]"

lemma ticks_simps [simp]: "ticks [] = 0" "ticks (evs @ [ev]) = (if is_Fire ev then Suc (ticks evs) else ticks evs)"
  by (simp_all add: ticks_def)

lemma tick_of_snoc:
  "m < length evs \<Longrightarrow> tick_of (evs @ [ev]) m = tick_of evs m"
  "tick_of (evs @ [ev]) (length evs) = (case ev of Fire _ _ \<Rightarrow> Suc (ticks evs) | Late k _ \<Rightarrow> k)"
  by (auto simp: tick_of_def nth_append split: sess_ev.split)

lemma late_ok_simps [simp]:
  "late_ok []"
  "late_ok (evs @ [ev]) \<longleftrightarrow> late_ok evs \<and> (case ev of Fire _ _ \<Rightarrow> True | Late k _ \<Rightarrow> 0 < k \<and> k \<le> ticks evs)"
  by (auto simp: late_ok_def nth_append list_all_iff split: sess_ev.splits)

text \<open>The position, counted from 1, of the last element with a property; 0 if there is none.\<close>

definition last_fired :: "('e \<Rightarrow> bool) \<Rightarrow> 'e list \<Rightarrow> nat" where
  "last_fired P xs = length (dropWhile (\<lambda>x. \<not> P x) (rev xs))"

lemma last_fired_snoc [simp]:
  "last_fired P (xs @ [x]) = (if P x then Suc (length xs) else last_fired P xs)"
  by (simp add: last_fired_def)

lemma last_fired_Nil [simp]: "last_fired P [] = 0"
  by (simp add: last_fired_def)

lemma last_fired_le: "last_fired P xs \<le> length xs"
  by (induction xs rule: rev_induct) auto

lemma last_fired_0: "last_fired P xs = 0 \<longleftrightarrow> (\<forall>k < length xs. \<not> P (xs ! k))"
  by (induction xs rule: rev_induct) (auto simp: nth_append less_Suc_eq)

lemma last_fired_Suc:
  "last_fired P xs = Suc j \<longleftrightarrow> j < length xs \<and> P (xs ! j) \<and> (\<forall>k. j < k \<and> k < length xs \<longrightarrow> \<not> P (xs ! k))"
proof (induction xs rule: rev_induct)
  case (snoc x xs)
  show ?case
  proof (cases "P x")
    case True
    then have "\<not> (\<forall>k. j < k \<and> k < length (xs @ [x]) \<longrightarrow> \<not> P ((xs @ [x]) ! k))" if "j < length xs"
      using that by (auto intro!: exI [of _ "length xs"])
    with True show ?thesis by (cases "j < length xs") (auto simp: less_Suc_eq)
  next
    case False
    with snoc show ?thesis by (auto simp: nth_append less_Suc_eq)
  qed
qed simp

text \<open>The epoch of the last event with a property; 0 if there is none.\<close>

definition last_tick :: "(sess_ev \<Rightarrow> bool) \<Rightarrow> sess_ev list \<Rightarrow> nat" where
  "last_tick P evs = (case last_fired P evs of 0 \<Rightarrow> 0 | Suc m \<Rightarrow> tick_of evs m)"

lemma last_tick_Nil [simp]: "last_tick P [] = 0"
  by (simp add: last_tick_def)

lemma last_tick_snoc [simp]:
  "last_tick P (evs @ [ev]) =
     (if P ev then (case ev of Fire _ _ \<Rightarrow> Suc (ticks evs) | Late k _ \<Rightarrow> k) else last_tick P evs)"
  using last_fired_le [of P evs] by (auto simp: last_tick_def tick_of_snoc split: nat.split)

lemma run_sess_snoc: "run_sess (evs @ [ev]) = sess_next ev (run_sess evs)"
  by (simp add: run_sess_def)

lemma run_sess_Nil: "run_sess [] = sess_zero"
  by (simp add: run_sess_def)

lemma run_sess_epoch: "se_epoch (run_sess evs) = of_nat (ticks evs)"
  by (induction evs rule: rev_induct)
    (auto simp: run_sess_Nil run_sess_snoc sess_next_def stamped_def sess_zero_def split: sess_ev.split)

lemma run_sess_bits: "bits_of (se_gate_bits (run_sess evs)) = (\<Union>ev \<in> set evs. bits_of (ev_gates ev))"
  by (induction evs rule: rev_induct)
    (auto simp: run_sess_Nil run_sess_snoc sess_next_def stamped_def sess_zero_def split: sess_ev.splits)

lemma unat_Suc_of_nat: "Suc n < 2 ^ 32 \<Longrightarrow> unat (word_of_nat n + 1 :: u32) = Suc n"
  using unat_of_nat_u32 [of "Suc n"] by (simp add: add.commute [of 1])

text \<open>The epoch of an event, as the code stamps it: the ticks do not wrap.\<close>

lemma stamp_epochs:
  assumes "ticks (evs @ [ev]) < 2 ^ 32" and "late_ok (evs @ [ev])"
  shows "is_Fire ev \<Longrightarrow> unat (word_of_nat (ticks evs) + 1 :: u32) = Suc (ticks evs)"
    and "\<not> is_Fire ev \<Longrightarrow> unat (word_of_nat (ev_tick ev) :: u32) = ev_tick ev"
    and "\<not> is_Fire ev \<Longrightarrow> 0 < ev_tick ev"
  using assms by (auto split: sess_ev.splits intro!: unat_Suc_of_nat unat_of_nat_u32)

lemma run_sess_gate:
  "ticks evs < 2 ^ 32 \<Longrightarrow> late_ok evs \<Longrightarrow>
   unat (se_gate_epoch (run_sess evs) i) = last_tick (\<lambda>ev. i \<in> bits_of (ev_gates ev)) evs"
proof (induction evs rule: rev_induct)
  case (snoc ev evs)
  note ep = stamp_epochs [OF snoc.prems]
  have IH: "unat (se_gate_epoch (run_sess evs) i) = last_tick (\<lambda>ev. i \<in> bits_of (ev_gates ev)) evs"
    using snoc by (simp split: if_splits)
  show ?case
    using ep IH by (cases ev) (auto simp: run_sess_snoc sess_next_def stamped_def run_sess_epoch)
qed (simp add: run_sess_Nil sess_zero_def)

lemma run_sess_inval:
  "ticks evs < 2 ^ 32 \<Longrightarrow> late_ok evs \<Longrightarrow>
   unat (se_inval_epoch (run_sess evs) i) = last_tick (\<lambda>ev. i \<in> bits_of (ev_invals ev)) evs"
proof (induction evs rule: rev_induct)
  case (snoc ev evs)
  note ep = stamp_epochs [OF snoc.prems]
  have IH: "unat (se_inval_epoch (run_sess evs) i) = last_tick (\<lambda>ev. i \<in> bits_of (ev_invals ev)) evs"
    using snoc by (simp split: if_splits)
  show ?case
    using ep IH by (cases ev) (auto simp: run_sess_snoc sess_next_def stamped_def run_sess_epoch)
qed (simp add: run_sess_Nil sess_zero_def)

lemma less_last_inval_fold:
  "fold (\<lambda>i last. if since AND bit64 i \<noteq> 0 then (if f i > last then f i else last) else last) is a < (ge :: u32)
   \<longleftrightarrow> a < ge \<and> (\<forall>i \<in> set is. since AND bit64 i \<noteq> 0 \<longrightarrow> f i < ge)"
  by (induction "is" arbitrary: a) auto

lemma less_last_inval:
  "last_inval since f < ge \<longleftrightarrow> 0 < ge \<and> (\<forall>i \<in> bits_of since. f i < ge)"
proof -
  have "i \<in> bits_of since \<Longrightarrow> i < 64" for i using bits_of_bound [of i since] by simp
  then show ?thesis
    unfolding last_inval_def less_last_inval_fold by (auto simp: and_bit64)
qed

text \<open>Ticking and stamping follow the history.\<close>

lemma te_tick_new:
  assumes "map_lookup (ts_sess st) (te_sess_domain_key root d) = None"
    and "room (ts_sess st) (te_sess_domain_key root d)"
  shows "te_tick root d st =
    (1, st\<lparr>ts_sess := map_put (te_sess_domain_key root d) (sess_zero\<lparr>se_epoch := 1\<rparr>) (ts_sess st)\<rparr>)"
  using assms
  by (simp add: te_tick_def te_sess_init_def Let_def map_update_elem_def map_lookup_def room_def
      map_modify_def map_put_def sess_zero_def)

lemma te_tick_old:
  assumes "map_lookup (ts_sess st) (te_sess_domain_key root d) = Some s"
  shows "te_tick root d st =
    (se_epoch s + 1, st\<lparr>ts_sess := map_put (te_sess_domain_key root d) (s\<lparr>se_epoch := se_epoch s + 1\<rparr>) (ts_sess st)\<rparr>)"
  using assms
  by (simp add: te_tick_def te_sess_init_def Let_def map_lookup_def map_modify_def map_put_def2 room_def)

lemma late_ok_ticks: "late_ok evs \<Longrightarrow> ticks evs = 0 \<longleftrightarrow> evs = []"
  by (induction evs rule: rev_induct) (auto split: if_splits sess_ev.splits)

lemma sess_event_step:
  assumes "map_lookup (ts_sess st) (te_sess_domain_key root d) = (if ticks evs = 0 then None else Some (run_sess evs))"
    and "room (ts_sess st) (te_sess_domain_key root d)" and "ticks (evs @ [ev]) < 2 ^ 32" and "late_ok (evs @ [ev])"
  shows "map_lookup (ts_sess (sess_event root d ev st)) (te_sess_domain_key root d) = Some (run_sess (evs @ [ev]))"
    and "ts_root (sess_event root d ev st) = ts_root st"
proof -
  note epochs = stamp_epochs [OF assms(3,4)]
  let ?new = "map_lookup (ts_sess (sess_event root d ev st)) (te_sess_domain_key root d) = Some (run_sess (evs @ [ev])) \<and>
    ts_root (sess_event root d ev st) = ts_root st"
  have ?new
  proof (cases ev)
    case (Fire gates invals)
    let ?ep = "se_epoch (run_sess evs) + 1"
    have ep: "?ep \<noteq> 0" using epochs(1) Fire unfolding run_sess_epoch by auto
    have "te_tick root d st = (?ep, st\<lparr>ts_sess := map_put (te_sess_domain_key root d)
        ((run_sess evs)\<lparr>se_epoch := ?ep\<rparr>) (ts_sess st)\<rparr>)"
    proof (cases "ticks evs = 0")
      case True
      then have "evs = []" using assms(4) by (simp add: late_ok_ticks)
      with assms(1) te_tick_new [OF _ assms(2)] show ?thesis by (simp add: run_sess_Nil sess_zero_def)
    next
      case False
      then show ?thesis using assms(1) te_tick_old [of st root d] by simp
    qed
    with ep assms(2) Fire show ?thesis
      by (simp add: sess_event_def te_stamp_stamped lookup_modify lookup_put run_sess_snoc sess_next_def)
  next
    case (Late k gates)
    then have "0 < ticks evs" and k: "(of_nat k :: u32) \<noteq> 0" using assms(4) epochs(2,3) by auto
    with Late assms(1) show ?thesis
      by (simp add: sess_event_def te_stamp_stamped lookup_modify run_sess_snoc sess_next_def)
  qed
  then show "map_lookup (ts_sess (sess_event root d ev st)) (te_sess_domain_key root d) = Some (run_sess (evs @ [ev]))"
    and "ts_root (sess_event root d ev st) = ts_root st" by auto
qed

lemma sess_events_run:
  assumes "map_lookup (ts_sess st) (te_sess_domain_key root d) = None"
    and "room (ts_sess st) (te_sess_domain_key root d)"
  shows "ticks evs < 2 ^ 32 \<Longrightarrow> late_ok evs \<Longrightarrow>
    map_lookup (ts_sess (fold (sess_event root d) evs st)) (te_sess_domain_key root d) =
      (if evs = [] then None else Some (run_sess evs)) \<and>
    ts_root (fold (sess_event root d) evs st) = ts_root st"
proof (induction evs rule: rev_induct)
  case (snoc ev evs)
  then have ok: "late_ok evs" "ticks evs < 2 ^ 32" by (auto split: if_splits)
  with snoc have IH: "map_lookup (ts_sess (fold (sess_event root d) evs st)) (te_sess_domain_key root d) =
      (if ticks evs = 0 then None else Some (run_sess evs))"
    "ts_root (fold (sess_event root d) evs st) = ts_root st" by (auto simp: late_ok_ticks)
  have "room (ts_sess (fold (sess_event root d) evs st)) (te_sess_domain_key root d)"
  proof (cases "evs = []")
    case False
    then show ?thesis using IH(1) ok(1) by (intro room_present) (simp add: late_ok_ticks)
  qed (simp add: assms)
  from sess_event_step [OF IH(1) this snoc.prems] IH(2) show ?case by simp
qed (simp add: assms)

text \<open>Ticks only grow, so the last event of an invalidator is its latest one.\<close>

lemma ticks_take_mono: "m \<le> n \<Longrightarrow> ticks (take m evs) \<le> ticks (take n evs)"
proof -
  assume "m \<le> n"
  then have "take n evs = take m evs @ drop m (take n evs)"
    by (metis append_take_drop_id min.absorb1 take_take)
  then show ?thesis by (metis filter_append le_add1 length_append ticks_def)
qed

lemma tick_of_Fire_mono:
  assumes "is_Fire (evs ! m)" "is_Fire (evs ! n)" "m \<le> n"
  shows "tick_of evs m \<le> tick_of evs n"
  using assms ticks_take_mono [of "Suc m" "Suc n" evs] by (auto simp: tick_of_def is_Fire_def)

lemma invals_Fire: "i \<in> bits_of (ev_invals ev) \<Longrightarrow> is_Fire ev"
  by (cases ev) auto

lemma tick_of_pos:
  assumes "late_ok evs" "m < length evs"
  shows "0 < tick_of evs m"
  using assms by (induction evs rule: rev_induct) (auto simp: less_Suc_eq tick_of_snoc split: sess_ev.splits)

lemma last_inval_tick:
  assumes "late_ok evs" and "0 < e"
  shows "last_tick (\<lambda>ev. i \<in> bits_of (ev_invals ev)) evs < e \<longleftrightarrow>
    (\<forall>k < length evs. i \<in> bits_of (ev_invals (evs ! k)) \<longrightarrow> tick_of evs k < e)"
proof (cases "last_fired (\<lambda>ev. i \<in> bits_of (ev_invals ev)) evs")
  case 0
  with assms(2) show ?thesis by (simp add: last_tick_def) (simp add: last_fired_0)
next
  case (Suc m)
  then have m: "m < length evs" "i \<in> bits_of (ev_invals (evs ! m))"
    and last: "k < length evs \<Longrightarrow> i \<in> bits_of (ev_invals (evs ! k)) \<Longrightarrow> k \<le> m" for k
    unfolding last_fired_Suc by (auto simp: not_less [symmetric])
  have "tick_of evs k \<le> tick_of evs m" if "k < length evs" "i \<in> bits_of (ev_invals (evs ! k))" for k
    by (rule tick_of_Fire_mono [OF invals_Fire [OF that(2)] invals_Fire [OF m(2)] last [OF that]])
  with m show ?thesis by (force simp: last_tick_def Suc)
qed

text \<open>The comparison of epochs decides it, as long as they do not wrap.\<close>

lemma epochs_since:
  assumes "ticks evs < 2 ^ 32" and "late_ok evs"
  shows "se_gate_epoch (run_sess evs) g \<noteq> 0 \<and> last_inval since (se_inval_epoch (run_sess evs)) < se_gate_epoch (run_sess evs) g \<longleftrightarrow>
    (\<exists>j < length evs. g \<in> bits_of (ev_gates (evs ! j)) \<and>
       (\<forall>k. j < k \<and> k < length evs \<longrightarrow> g \<notin> bits_of (ev_gates (evs ! k))) \<and>
       (\<forall>k < length evs. bits_of (ev_invals (evs ! k)) \<inter> bits_of since \<noteq> {} \<longrightarrow> tick_of evs k < tick_of evs j))"
    (is "?l = ?r")
proof -
  let ?P = "\<lambda>ev. g \<in> bits_of (ev_gates ev)"
  let ?e = "se_gate_epoch (run_sess evs) g"
  have e: "unat ?e = last_tick ?P evs" by (rule run_sess_gate [OF assms])
  have later: "last_inval since (se_inval_epoch (run_sess evs)) < ?e \<longleftrightarrow> 0 < last_tick ?P evs \<and>
      (\<forall>i \<in> bits_of since. last_tick (\<lambda>ev. i \<in> bits_of (ev_invals ev)) evs < last_tick ?P evs)"
    unfolding less_last_inval by (simp add: word_less_nat_alt e run_sess_inval [OF assms])
  have e0: "?e = 0 \<longleftrightarrow> last_tick ?P evs = 0" unfolding e [symmetric] by (simp add: unat_eq_0)
  show ?thesis
  proof (cases "last_fired ?P evs")
    case 0
    then have "\<not> ?l" unfolding e0 by (simp add: last_tick_def)
    moreover have "\<not> ?r" using 0 unfolding last_fired_0 by blast
    ultimately show ?thesis by blast
  next
    case (Suc m)
    then have m: "m < length evs" "g \<in> bits_of (ev_gates (evs ! m))"
      and last: "\<forall>k. m < k \<and> k < length evs \<longrightarrow> g \<notin> bits_of (ev_gates (evs ! k))"
      unfolding last_fired_Suc by auto
    have only: "j = m" if "j < length evs" "g \<in> bits_of (ev_gates (evs ! j))"
        "\<forall>k. j < k \<and> k < length evs \<longrightarrow> g \<notin> bits_of (ev_gates (evs ! k))" for j
      using that m last by (metis linorder_neqE_nat)
    have t: "last_tick ?P evs = tick_of evs m" by (simp add: last_tick_def Suc)
    have pos: "0 < tick_of evs m" by (rule tick_of_pos [OF assms(2) m(1)])
    have "?l \<longleftrightarrow> (\<forall>i \<in> bits_of since. \<forall>k < length evs. i \<in> bits_of (ev_invals (evs ! k)) \<longrightarrow> tick_of evs k < tick_of evs m)"
      unfolding later e0 t by (simp add: pos last_inval_tick [OF assms(2) pos])
    also have "\<dots> \<longleftrightarrow> ?r" using m last only by blast
    finally show ?thesis .
  qed
qed

section \<open>Properties\<close>

text \<open>C7: what \<^verbatim>\<open>after X since Y\<close> means for a session, late exit gates included. A session starts
  empty and sees the events \<open>evs\<close>: each ticks the epoch and stamps what it fired, or is the stamp of an exit
  gate, which carries the epoch its exec ticked earlier and may come after those of later execs (fewer than
  \<open>2 ^ 32\<close> ticks, so that the epoch does not wrap). Without invalidators the condition holds exactly when
  some event fired a gate of the rule. With invalidators it holds exactly when some event fired the gate and every
  event that fired an invalidator of the rule has a smaller epoch than the \<^emph>\<open>last\<close> event that fired the
  gate. The last stamp counts even when its epoch is the older one: a run that started before an edit
  and ends after a newer successful run makes the gate stale again.\<close>

theorem te_after_satisfied_history:
  assumes "map_lookup (ts_sess st) (te_sess_domain_key root d) = None"
    and "room (ts_sess st) (te_sess_domain_key root d)"
    and "ticks evs < 2 ^ 32" and "late_ok evs"
    and "te_root st pid = root" and "ru_domain_id r = d" and "unat (ru_gate_idx r) < MAX_TAINT_GATES"
  shows "te_after_satisfied (fold (sess_event root d) evs st) r pid \<longleftrightarrow>
    (if ru_since_mask r = 0
     then \<exists>ev \<in> set evs. bits_of (ev_gates ev) \<inter> bits_of (ru_gate r) \<noteq> {}
     else \<exists>j < length evs. unat (ru_gate_idx r) \<in> bits_of (ev_gates (evs ! j)) \<and>
            (\<forall>k. j < k \<and> k < length evs \<longrightarrow> unat (ru_gate_idx r) \<notin> bits_of (ev_gates (evs ! k))) \<and>
            (\<forall>k < length evs. bits_of (ev_invals (evs ! k)) \<inter> bits_of (ru_since_mask r) \<noteq> {} \<longrightarrow>
               tick_of evs k < tick_of evs j))"
proof -
  let ?st = "fold (sess_event root d) evs st"
  have root: "te_root ?st pid = root" and look: "te_sess_get ?st root d = (if evs = [] then None else Some (run_sess evs))"
    using sess_events_run [OF assms(1-4)] assms(5) by (auto simp: te_root_def te_sess_get_def)
  show ?thesis
  proof (cases "ru_since_mask r = 0")
    case True
    then show ?thesis
      using assms(6) by (auto simp: te_after_satisfied_def root look and_eq_0_iff run_sess_bits)
  next
    case False
    let ?ge = "se_gate_epoch (run_sess evs) (unat (ru_gate_idx r))"
    have "te_after_satisfied ?st r pid \<longleftrightarrow>
        evs \<noteq> [] \<and> ?ge \<noteq> 0 \<and> last_inval (ru_since_mask r) (se_inval_epoch (run_sess evs)) < ?ge"
      using assms(6,7) False by (simp add: te_after_satisfied_def root look Let_def)
    with False show ?thesis unfolding epochs_since [OF assms(3,4)] by (cases "evs = []") auto
  qed
qed

text \<open>Two overlapping test runs around an edit. The second run, started after the edit, passes: the gate is
  fresh. Then the first run, started before the edit, passes too, and the gate is stale.\<close>

theorem te_after_satisfied_history_witness:
  "te_after_satisfied (fold (sess_event 7 0) [Fire 0 0, Fire 0 1, Fire 0 0, Late 3 1] example_engine)
     (no_rule\<lparr>ru_gate := 1, ru_since_mask := 1\<rparr>) 7 \<and>
   \<not> te_after_satisfied (fold (sess_event 7 0) [Fire 0 0, Fire 0 1, Fire 0 0, Late 3 1, Late 1 1] example_engine)
     (no_rule\<lparr>ru_gate := 1, ru_since_mask := 1\<rparr>) 7"
proof -
  have look: "map_lookup (ts_sess example_engine) (te_sess_domain_key 7 0) = None"
    and room: "room (ts_sess example_engine) (te_sess_domain_key 7 0)"
    and root: "te_root example_engine 7 = 7"
    by (simp_all add: engine_example_defs room_def hash_new_def map_lookup_def te_root_def)
  let ?a = "[Fire 0 0, Fire 0 1, Fire 0 0, Late 3 1]" and ?b = "[Fire 0 0, Fire 0 1, Fire 0 0, Late 3 1, Late 1 1]"
  let ?r = "no_rule\<lparr>ru_gate := 1, ru_since_mask := 1\<rparr>"
  have law: "te_after_satisfied (fold (sess_event 7 0) evs example_engine) ?r 7 \<longleftrightarrow>
      (\<exists>j < length evs. 0 \<in> bits_of (ev_gates (evs ! j)) \<and>
         (\<forall>k. j < k \<and> k < length evs \<longrightarrow> 0 \<notin> bits_of (ev_gates (evs ! k))) \<and>
         (\<forall>k < length evs. 0 \<in> bits_of (ev_invals (evs ! k)) \<longrightarrow> tick_of evs k < tick_of evs j))"
    if "ticks evs < 2 ^ 32" "late_ok evs" for evs
    using te_after_satisfied_history [OF look room that root, of ?r] by (simp add: no_rule_def)
  have few: "ticks ?a < 2 ^ 32" "ticks ?b < 2 ^ 32"
    by (simp_all add: ticks_def)
  have ok: "late_ok ?a" "late_ok ?b"
    by code_simp+
  have at: "tick_of ?a 3 = 3" "tick_of ?a 1 = 2" "tick_of ?b 1 = 2" "tick_of ?b 4 = 1"
    by code_simp+
  have only: "k = 1" if "k < length ?a" "0 \<in> bits_of (ev_invals (?a ! k))" for k
    using that by (auto simp: less_Suc_eq)
  have "te_after_satisfied (fold (sess_event 7 0) ?a example_engine) ?r 7"
    unfolding law [OF few(1) ok(1)]
    by (rule exI [of _ 3]) (use at(1,2) only in \<open>fastforce\<close>)
  moreover have "\<not> te_after_satisfied (fold (sess_event 7 0) ?b example_engine) ?r 7"
    unfolding law [OF few(2) ok(2)]
  proof
    assume "\<exists>j < length ?b. 0 \<in> bits_of (ev_gates (?b ! j)) \<and>
      (\<forall>k. j < k \<and> k < length ?b \<longrightarrow> 0 \<notin> bits_of (ev_gates (?b ! k))) \<and>
      (\<forall>k < length ?b. 0 \<in> bits_of (ev_invals (?b ! k)) \<longrightarrow> tick_of ?b k < tick_of ?b j)"
    then obtain j where j: "j < length ?b" "\<not> (j < 4 \<and> 4 < length ?b) \<or> 0 \<notin> bits_of (ev_gates (?b ! 4))"
      "0 \<in> bits_of (ev_invals (?b ! 1)) \<longrightarrow> tick_of ?b 1 < tick_of ?b j" by fastforce
    then have "j = 4" by (auto simp: less_Suc_eq)
    with j(3) at(3,4) show False by simp
  qed
  ultimately show ?thesis by blast
qed

end
