(* ===== verification/Updates.thy ===== *)
theory Updates
  imports Provenance Sessions
begin

text \<open>
  The update table (\<^verbatim>\<open>bpf/taint_engine.bpf.h\<close>): the scans that collect what the updates
  matching an event add, remove, gate and invalidate. There is one callback per kind of event and two
  more for the split exec scan; the locale \<open>update_scan\<close> is the shape they share. Operation codes
  are the bytes of \<^verbatim>\<open>enum taint_op\<close>.
\<close>

section \<open>Collecting updates\<close>

record te_update_ctx =
  uc_pid :: pid_t
  uc_domain_id :: u32
  uc_op :: u8
  uc_target :: bytes
  uc_ip :: u32
  uc_add :: u64
  uc_del :: u64
  uc_gates :: u64
  uc_exit_gates :: u64
  uc_invals :: u64

definition update_ctx :: "pid_t \<Rightarrow> u32 \<Rightarrow> u8 \<Rightarrow> bytes \<Rightarrow> u32 \<Rightarrow> te_update_ctx" where
  "update_ctx pid domain_id op target ip =
     \<lparr>uc_pid = pid, uc_domain_id = domain_id, uc_op = op, uc_target = target, uc_ip = ip, uc_add = 0,
      uc_del = 0, uc_gates = 0, uc_exit_gates = 0, uc_invals = 0\<rparr>"

definition te_update_accum :: "taint_update \<Rightarrow> te_update_ctx \<Rightarrow> te_update_ctx" where
  "te_update_accum u c =
     (let c = c\<lparr>uc_add := uc_add c OR up_add u, uc_del := uc_del c OR up_del u\<rparr>;
          c = (if up_gate_exit_code u = TAINT_GATE_IMMEDIATE then c\<lparr>uc_gates := uc_gates c OR up_gates u\<rparr>
               else c\<lparr>uc_exit_gates := uc_exit_gates c OR up_gates u\<rparr>)
      in c\<lparr>uc_invals := uc_invals c OR up_invals u\<rparr>)"

definition te_update_cb :: "'a engine_scheme \<Rightarrow> nat \<Rightarrow> te_update_ctx \<Rightarrow> bool \<times> te_update_ctx" where
  "te_update_cb st i c =
     (if MAX_TAINT_UPDATES \<le> i then (True, c)
      else case arr_lookup (ts_updates st) i of
             None \<Rightarrow> (True, c)
           | Some u \<Rightarrow>
               if up_op u \<noteq> uc_op c then (False, c)
               else if up_domain_id u \<noteq> uc_domain_id c then (False, c)
               else
                 let mat = (if up_op u = TOP_CONNECT then uc_ip c AND up_ipv4_mask u = up_ipv4 u
                            else if up_op u = TOP_EXEC then taint_exec_match (up_match u) (uc_target c) (up_target u)
                            else te_path_match (policy_features st) (up_match u) (uc_target c) (up_target u))
                 in if \<not> mat then (False, c)
                    else if up_op u = TOP_EXEC \<and> rd (up_arg u) 0 \<noteq> 0 \<and>
                            \<not> taint_arg_match (as_slots (ts_argslots st)) (up_arg u) then (False, c)
                    else (False, te_update_accum u c))"

definition te_exec_update_simple_cb ::
  "'a engine_scheme \<Rightarrow> nat \<Rightarrow> te_update_ctx \<Rightarrow> bool \<times> te_update_ctx" where
  "te_exec_update_simple_cb st i c =
     (if MAX_TAINT_UPDATES \<le> i then (True, c)
      else case arr_lookup (ts_updates st) i of
             None \<Rightarrow> (True, c)
           | Some u \<Rightarrow>
               if up_op u \<noteq> TOP_EXEC then (False, c)
               else if up_domain_id u \<noteq> uc_domain_id c then (False, c)
               else if \<not> te_exec_simple_match (up_match u) (uc_target c) (up_target u) then (False, c)
               else if rd (up_arg u) 0 \<noteq> 0 \<and> \<not> taint_arg_match (as_slots (ts_argslots st)) (up_arg u)
               then (False, c)
               else (False, te_update_accum u c))"

definition te_exec_update_prefix_cb ::
  "'a engine_scheme \<Rightarrow> nat \<Rightarrow> te_update_ctx \<Rightarrow> bool \<times> te_update_ctx" where
  "te_exec_update_prefix_cb st i c =
     (if MAX_TAINT_UPDATES \<le> i then (True, c)
      else case arr_lookup (ts_updates st) i of
             None \<Rightarrow> (True, c)
           | Some u \<Rightarrow>
               if up_op u \<noteq> TOP_EXEC then (False, c)
               else if up_domain_id u \<noteq> uc_domain_id c then (False, c)
               else if up_match u = TAINT_MATCH_EXACT \<or> up_match u = TAINT_MATCH_ANY then (False, c)
               else if \<not> taint_exec_match (up_match u) (uc_target c) (up_target u) then (False, c)
               else if rd (up_arg u) 0 \<noteq> 0 \<and> \<not> taint_arg_match (as_slots (ts_argslots st)) (up_arg u)
               then (False, c)
               else (False, te_update_accum u c))"

definition te_collect_updates :: "'a engine_scheme \<Rightarrow> te_update_ctx \<Rightarrow> te_update_ctx" where
  "te_collect_updates st c = bpf_loop (te_count st 1) (te_update_cb st) c"

definition te_exec_update_no_args_cb ::
  "'a engine_scheme \<Rightarrow> nat \<Rightarrow> te_update_ctx \<Rightarrow> bool \<times> te_update_ctx" where
  "te_exec_update_no_args_cb st i c =
     (if MAX_TAINT_UPDATES \<le> i then (True, c)
      else case arr_lookup (ts_updates st) i of
             None \<Rightarrow> (True, c)
           | Some u \<Rightarrow>
               if up_op u \<noteq> TOP_EXEC then (False, c)
               else if up_domain_id u \<noteq> uc_domain_id c then (False, c)
               else if rd (up_arg u) 0 \<noteq> 0 then (False, c)
               else if \<not> taint_exec_match (up_match u) (uc_target c) (up_target u) then (False, c)
               else (False, te_update_accum u c))"

definition te_collect_exec_updates_no_args :: "'a engine_scheme \<Rightarrow> te_update_ctx \<Rightarrow> te_update_ctx" where
  "te_collect_exec_updates_no_args st c = bpf_loop (te_count st 1) (te_exec_update_no_args_cb st) c"

definition te_file_update_cb :: "'a engine_scheme \<Rightarrow> nat \<Rightarrow> te_update_ctx \<Rightarrow> bool \<times> te_update_ctx" where
  "te_file_update_cb st i c =
     (if MAX_TAINT_UPDATES \<le> i then (True, c)
      else case arr_lookup (ts_updates st) i of
             None \<Rightarrow> (True, c)
           | Some u \<Rightarrow>
               if up_op u \<noteq> uc_op c then (False, c)
               else if up_domain_id u \<noteq> uc_domain_id c then (False, c)
               else if \<not> te_path_match (policy_features st) (up_match u) (uc_target c) (up_target u)
               then (False, c)
               else (False, te_update_accum u c))"

definition te_collect_file_updates :: "'a engine_scheme \<Rightarrow> te_update_ctx \<Rightarrow> te_update_ctx" where
  "te_collect_file_updates st c = bpf_loop (te_count st 1) (te_file_update_cb st) c"

definition te_endpoint_update_cb :: "'a engine_scheme \<Rightarrow> nat \<Rightarrow> te_update_ctx \<Rightarrow> bool \<times> te_update_ctx" where
  "te_endpoint_update_cb st i c =
     (if MAX_TAINT_UPDATES \<le> i then (True, c)
      else case arr_lookup (ts_updates st) i of
             None \<Rightarrow> (True, c)
           | Some u \<Rightarrow>
               if up_op u \<noteq> uc_op c then (False, c)
               else if up_domain_id u \<noteq> uc_domain_id c then (False, c)
               else if uc_ip c AND up_ipv4_mask u \<noteq> up_ipv4 u then (False, c)
               else (False, te_update_accum u c))"

definition te_collect_endpoint_updates :: "'a engine_scheme \<Rightarrow> te_update_ctx \<Rightarrow> te_update_ctx" where
  "te_collect_endpoint_updates st c = bpf_loop (te_count st 1) (te_endpoint_update_cb st) c"

section \<open>The shape of a scan\<close>

definition active_updates :: "'a cap_maps_scheme \<Rightarrow> taint_update list" where
  "active_updates st = map (a_cell (ts_updates st)) [0..<n_updates st]"

definition active_rules :: "'a cap_maps_scheme \<Rightarrow> taint_rule list" where
  "active_rules st = map (a_cell (ts_rules st)) [0..<n_rules st]"

lemma wf_te_count1: "wf_tables st \<Longrightarrow> unat (te_count st 1) = n_updates st \<and> n_updates st \<le> MAX_TAINT_UPDATES"
  by (simp add: wf_tables_def te_count_def arr_lookup_def n_updates_def)

lemma wf_te_count0: "wf_tables st \<Longrightarrow> unat (te_count st 0) = n_rules st \<and> n_rules st \<le> MAX_TAINT_RULES"
  by (simp add: wf_tables_def te_count_def arr_lookup_def n_rules_def)

lemma accum_fixed [simp]:
  "uc_pid (te_update_accum u c) = uc_pid c" "uc_domain_id (te_update_accum u c) = uc_domain_id c"
  "uc_op (te_update_accum u c) = uc_op c" "uc_target (te_update_accum u c) = uc_target c"
  "uc_ip (te_update_accum u c) = uc_ip c"
  by (simp_all add: te_update_accum_def Let_def)

locale update_scan =
  fixes cb :: "'a engine_scheme \<Rightarrow> nat \<Rightarrow> te_update_ctx \<Rightarrow> bool \<times> te_update_ctx"
    and applies :: "'a engine_scheme \<Rightarrow> te_update_ctx \<Rightarrow> taint_update \<Rightarrow> bool"
  assumes cb_step: "cb st i c =
      (if MAX_TAINT_UPDATES \<le> i then (True, c)
       else case arr_lookup (ts_updates st) i of
              None \<Rightarrow> (True, c)
            | Some u \<Rightarrow> (False, if applies st c u then te_update_accum u c else c))"
    and applies_accum: "applies st (te_update_accum u c) v = applies st c v"
begin

lemma fold_filter:
  "fold (\<lambda>u c. if applies st c u then te_update_accum u c else c) us c =
   fold te_update_accum (filter (applies st c) us) c"
proof (induction us arbitrary: c)
  case (Cons u us)
  have "applies st (te_update_accum u c) = applies st c" by (simp add: fun_eq_iff applies_accum)
  with Cons show ?case by simp
qed simp

lemma scan_fold:
  assumes "wf_tables st"
  shows "bpf_loop (te_count st 1) (cb st) c =
    fold te_update_accum (filter (applies st c) (active_updates st)) c"
proof -
  have "bpf_loop (te_count st 1) (cb st) c =
      fold (\<lambda>i c. if applies st c (a_cell (ts_updates st) i)
                  then te_update_accum (a_cell (ts_updates st) i) c else c) [0..<n_updates st] c"
    using assms wf_te_count1 [OF assms]
    by (subst bpf_loop_fold) (auto simp: cb_step arr_lookup_def wf_tables_def)
  also have "\<dots> = fold (\<lambda>u c. if applies st c u then te_update_accum u c else c) (active_updates st) c"
    by (simp add: active_updates_def fold_map comp_def)
  finally show ?thesis by (simp add: fold_filter)
qed

end

text \<open>Which updates each callback takes in.\<close>

definition arg_ok :: "'a engine_scheme \<Rightarrow> taint_update \<Rightarrow> bool" where
  "arg_ok st u \<longleftrightarrow> rd (up_arg u) 0 = 0 \<or> taint_arg_match (as_slots (ts_argslots st)) (up_arg u)"

definition exec_applies :: "'a engine_scheme \<Rightarrow> te_update_ctx \<Rightarrow> taint_update \<Rightarrow> bool" where
  "exec_applies st c u \<longleftrightarrow>
     up_op u = TOP_EXEC \<and> up_domain_id u = uc_domain_id c \<and>
     taint_exec_match (up_match u) (uc_target c) (up_target u) \<and> arg_ok st u"

definition file_applies :: "'a engine_scheme \<Rightarrow> te_update_ctx \<Rightarrow> taint_update \<Rightarrow> bool" where
  "file_applies st c u \<longleftrightarrow>
     up_op u = uc_op c \<and> up_domain_id u = uc_domain_id c \<and>
     te_path_match (policy_features st) (up_match u) (uc_target c) (up_target u)"

definition endp_applies :: "'a engine_scheme \<Rightarrow> te_update_ctx \<Rightarrow> taint_update \<Rightarrow> bool" where
  "endp_applies st c u \<longleftrightarrow>
     up_op u = uc_op c \<and> up_domain_id u = uc_domain_id c \<and> uc_ip c AND up_ipv4_mask u = up_ipv4 u"

interpretation scan_any: update_scan te_update_cb
    "\<lambda>st c u. up_op u = uc_op c \<and>
       (if up_op u = TOP_EXEC then exec_applies st c u
        else if up_op u = TOP_CONNECT then endp_applies st c u else file_applies st c u)"
  by unfold_locales
    (auto simp: te_update_cb_def exec_applies_def file_applies_def endp_applies_def arg_ok_def
      split: option.split)

interpretation scan_simple: update_scan te_exec_update_simple_cb
    "\<lambda>st c u. exec_applies st c u \<and> (up_match u = TAINT_MATCH_EXACT \<or> up_match u = TAINT_MATCH_ANY)"
  by unfold_locales
    (auto simp: te_exec_update_simple_cb_def exec_applies_def arg_ok_def te_exec_simple_match_def
      taint_exec_match_def split: option.split)

interpretation scan_prefix: update_scan te_exec_update_prefix_cb
    "\<lambda>st c u. exec_applies st c u \<and> \<not> (up_match u = TAINT_MATCH_EXACT \<or> up_match u = TAINT_MATCH_ANY)"
  by unfold_locales
    (auto simp: te_exec_update_prefix_cb_def exec_applies_def arg_ok_def split: option.split)

interpretation scan_no_args: update_scan te_exec_update_no_args_cb
    "\<lambda>st c u. exec_applies st c u \<and> rd (up_arg u) 0 = 0"
  by unfold_locales
    (auto simp: te_exec_update_no_args_cb_def exec_applies_def arg_ok_def split: option.split)

interpretation scan_file: update_scan te_file_update_cb file_applies
  by unfold_locales (auto simp: te_file_update_cb_def file_applies_def split: option.split)

interpretation scan_endp: update_scan te_endpoint_update_cb endp_applies
  by unfold_locales (auto simp: te_endpoint_update_cb_def endp_applies_def split: option.split)

section \<open>What a scan collects\<close>

definition immediate :: "taint_update \<Rightarrow> bool" where
  "immediate u \<longleftrightarrow> up_gate_exit_code u = TAINT_GATE_IMMEDIATE"

lemma accum_bits:
  "bits_of (uc_add (fold te_update_accum us c)) = bits_of (uc_add c) \<union> (\<Union>u \<in> set us. bits_of (up_add u))"
  "bits_of (uc_del (fold te_update_accum us c)) = bits_of (uc_del c) \<union> (\<Union>u \<in> set us. bits_of (up_del u))"
  "bits_of (uc_invals (fold te_update_accum us c)) = bits_of (uc_invals c) \<union> (\<Union>u \<in> set us. bits_of (up_invals u))"
  "bits_of (uc_gates (fold te_update_accum us c)) =
     bits_of (uc_gates c) \<union> (\<Union>u \<in> {u \<in> set us. immediate u}. bits_of (up_gates u))"
  "bits_of (uc_exit_gates (fold te_update_accum us c)) =
     bits_of (uc_exit_gates c) \<union> (\<Union>u \<in> {u \<in> set us. \<not> immediate u}. bits_of (up_gates u))"
  by (induction us arbitrary: c) (auto simp: te_update_accum_def Let_def immediate_def split: if_splits)

lemma accum_fold_fixed [simp]:
  "uc_pid (fold te_update_accum us c) = uc_pid c"
  "uc_domain_id (fold te_update_accum us c) = uc_domain_id c"
  "uc_op (fold te_update_accum us c) = uc_op c" "uc_target (fold te_update_accum us c) = uc_target c"
  "uc_ip (fold te_update_accum us c) = uc_ip c"
  by (induction us arbitrary: c) simp_all

text \<open>What is collected depends on the set of updates taken in, not on their order.\<close>

lemma accum_fold_set:
  assumes "set us = set vs"
  shows "fold te_update_accum us c = fold te_update_accum vs c"
proof (rule te_update_ctx.equality)
  note inj = bits_of_inject [symmetric]
  show "uc_add (fold te_update_accum us c) = uc_add (fold te_update_accum vs c)"
    and "uc_del (fold te_update_accum us c) = uc_del (fold te_update_accum vs c)"
    and "uc_gates (fold te_update_accum us c) = uc_gates (fold te_update_accum vs c)"
    and "uc_exit_gates (fold te_update_accum us c) = uc_exit_gates (fold te_update_accum vs c)"
    and "uc_invals (fold te_update_accum us c) = uc_invals (fold te_update_accum vs c)"
    unfolding inj accum_bits assms by (rule refl)+
qed simp_all

lemma applies_fold_accum:
  "exec_applies st (fold te_update_accum us c) = exec_applies st c"
  by (simp add: exec_applies_def fun_eq_iff)

section \<open>Properties\<close>

text \<open>Splitting the exec scan loses nothing and adds nothing. Scanning the table once for the exact
  and any-patterns and once for the rest collects exactly what the single scan of
  \<^verbatim>\<open>te_update_cb\<close> collects, in every field.\<close>

theorem exec_update_split:
  assumes "wf_tables st" and "uc_op c = TOP_EXEC"
  shows "bpf_loop (te_count st 1) (te_exec_update_prefix_cb st)
           (bpf_loop (te_count st 1) (te_exec_update_simple_cb st) c) = te_collect_updates st c"
proof -
  let ?us = "active_updates st"
  let ?simple = "\<lambda>u. up_match u = TAINT_MATCH_EXACT \<or> up_match u = TAINT_MATCH_ANY"
  have "te_collect_updates st c = fold te_update_accum (filter (exec_applies st c) ?us) c"
    unfolding te_collect_updates_def scan_any.scan_fold [OF assms(1)]
    using assms(2) by (intro accum_fold_set) (auto simp: exec_applies_def)
  also have "\<dots> = fold te_update_accum
      (filter (\<lambda>u. exec_applies st c u \<and> ?simple u) ?us @ filter (\<lambda>u. exec_applies st c u \<and> \<not> ?simple u) ?us) c"
    by (rule accum_fold_set) auto
  finally show ?thesis
    unfolding scan_simple.scan_fold [OF assms(1)] scan_prefix.scan_fold [OF assms(1)] applies_fold_accum
    by simp
qed

text \<open>A table with one exact and one prefix update.\<close>

definition demo_engine :: engine where
  "demo_engine = example_engine
     \<lparr>ts_updates := \<lparr>a_max = MAX_TAINT_UPDATES, a_cell = (\<lambda>i.
        if i = 0 then no_update\<lparr>up_match := TAINT_MATCH_EXACT, up_target := padded 64 (str_bytes ''git''), up_add := 1\<rparr>
        else no_update\<lparr>up_match := TAINT_MATCH_PREFIX, up_target := padded 64 (str_bytes ''gi''), up_add := 2\<rparr>)\<rparr>,
      ts_counts := \<lparr>a_max = 6, a_cell = (\<lambda>i. if i = 5 then 4 else if i = 1 then 2 else 0)\<rparr>\<rparr>"

lemma wf_demo_engine: "wf_tables demo_engine"
  using wf_example_engine by (simp add: wf_tables_def demo_engine_def)

theorem exec_update_split_witness:
  "bpf_loop (te_count demo_engine 1) (te_exec_update_prefix_cb demo_engine)
     (bpf_loop (te_count demo_engine 1) (te_exec_update_simple_cb demo_engine)
        (update_ctx 100 0 TOP_EXEC (padded 64 (str_bytes ''git'')) 0)) =
   te_collect_updates demo_engine (update_ctx 100 0 TOP_EXEC (padded 64 (str_bytes ''git'')) 0)"
  by (rule exec_update_split [OF wf_demo_engine]) (simp add: update_ctx_def)

end
