(* ===== verification/Flows.thy ===== *)
theory Flows
  imports Updates
begin

text \<open>
  The flows of the engine (\<^verbatim>\<open>bpf/taint_engine.bpf.h\<close>): what fork, exec, exit, reading and
  writing a file, renaming, connecting and receiving do to the labels, the provenance and the sessions,
  in the global domain and in every domain of the task. Each operation has a per-domain body and a loop
  over the domains of the acting process.
\<close>

section \<open>Fork\<close>

definition te_copy_proc_domain_state ::
  "pid_t \<Rightarrow> pid_t \<Rightarrow> u32 \<Rightarrow> 'a engine_scheme \<Rightarrow> 'a engine_scheme" where
  "te_copy_proc_domain_state from to domain_id st =
     (case te_get_domain st from domain_id of
        None \<Rightarrow> st
      | Some ns \<Rightarrow>
          let st = (if domain_id = 0 then st\<lparr>ts_proc := map_put to ns (ts_proc st)\<rparr>
                    else st\<lparr>ts_proc_domains := map_put (te_pid_domain_key to domain_id) ns (ts_proc_domains st)\<rparr>)
          in if ps_labels ns \<noteq> 0 then te_copy_proc_prov from to domain_id (ps_labels ns) st else st)"

definition te_fork :: "pid_t \<Rightarrow> pid_t \<Rightarrow> 'a engine_scheme \<Rightarrow> 'a engine_scheme" where
  "te_fork ppid cpid st =
     (if \<not> te_pid_active st ppid then st
      else
        let st = cap_fork ppid cpid st;
            st = domain_loop ppid (te_copy_proc_domain_state ppid cpid) st
        in st\<lparr>ts_root := map_put cpid (te_root st ppid) (ts_root st)\<rparr>)"

section \<open>Exec\<close>

text \<open>What \<^verbatim>\<open>te_exec_update_domain\<close> and its variant without arguments do with the collected
  updates \<open>c\<close>.\<close>

definition te_exec_apply ::
  "pid_t \<Rightarrow> bytes \<Rightarrow> u32 \<Rightarrow> te_update_ctx \<Rightarrow> 'a engine_scheme \<Rightarrow> 'a engine_scheme" where
  "te_exec_apply pid comm domain_id c st =
     (let ns = (case te_get_domain st pid domain_id of None \<Rightarrow> \<lparr>ps_labels = 0, ps_lin_gates = 0\<rparr> | Some p \<Rightarrow> p);
          ns = ns\<lparr>ps_labels := (ps_labels ns OR uc_add c) AND NOT (uc_del c),
                  ps_lin_gates := ps_lin_gates ns OR uc_gates c\<rparr>;
          st = te_store_proc_domain pid domain_id ns st;
          st = (if uc_add c \<noteq> 0
                then te_record_proc_prov_mask pid domain_id (uc_add c) (ucast TOP_EXEC) (Some comm) 0 st else st);
          key = te_pid_domain_key pid domain_id
      in if uc_gates c \<noteq> 0 \<or> uc_exit_gates c \<noteq> 0 \<or> uc_invals c \<noteq> 0 then
           let r = te_root st pid;
               (ep, st) = te_tick r domain_id st;
               st = (if uc_gates c \<noteq> 0 \<or> uc_invals c \<noteq> 0
                     then te_stamp r domain_id ep (uc_gates c) (uc_invals c) st else st)
           in if uc_exit_gates c \<noteq> 0
              then st\<lparr>ts_exit_gates := map_put key \<lparr>eg_gates = uc_exit_gates c, eg_epoch = ep\<rparr> (ts_exit_gates st)\<rparr>
              else st\<lparr>ts_exit_gates := map_delete key (ts_exit_gates st)\<rparr>
         else st\<lparr>ts_exit_gates := map_delete key (ts_exit_gates st)\<rparr>)"

definition te_exec_update_domain :: "pid_t \<Rightarrow> bytes \<Rightarrow> u32 \<Rightarrow> 'a engine_scheme \<Rightarrow> 'a engine_scheme" where
  "te_exec_update_domain pid comm domain_id st =
     (if \<not> te_pid_active st pid \<or> \<not> cap_domain_matches_pid st pid domain_id then st
      else te_exec_apply pid comm domain_id (te_collect_updates st (update_ctx pid domain_id TOP_EXEC comm 0)) st)"

definition te_exec_update_domain_no_args ::
  "pid_t \<Rightarrow> bytes \<Rightarrow> u32 \<Rightarrow> 'a engine_scheme \<Rightarrow> 'a engine_scheme" where
  "te_exec_update_domain_no_args pid comm domain_id st =
     (if \<not> te_pid_active st pid \<or> \<not> cap_domain_matches_pid st pid domain_id then st
      else te_exec_apply pid comm domain_id
             (te_collect_exec_updates_no_args st (update_ctx pid domain_id TOP_EXEC comm 0)) st)"

definition te_exec_update :: "pid_t \<Rightarrow> bytes \<Rightarrow> 'a engine_scheme \<Rightarrow> 'a engine_scheme" where
  "te_exec_update pid comm st =
     (if \<not> te_pid_active st pid then st else domain_loop pid (te_exec_update_domain pid comm) st)"

definition te_exec_update_no_args :: "pid_t \<Rightarrow> bytes \<Rightarrow> 'a engine_scheme \<Rightarrow> 'a engine_scheme" where
  "te_exec_update_no_args pid comm st =
     (if \<not> te_pid_active st pid then st else domain_loop pid (te_exec_update_domain_no_args pid comm) st)"

section \<open>Labels an event brings\<close>

definition te_update_add_file_domain :: "'a engine_scheme \<Rightarrow> u8 \<Rightarrow> bytes \<Rightarrow> pid_t \<Rightarrow> u32 \<Rightarrow> u64" where
  "te_update_add_file_domain st op target pid domain_id =
     (if \<not> te_pid_active st pid \<or> \<not> cap_domain_matches_pid st pid domain_id then 0
      else uc_add (te_collect_file_updates st (update_ctx pid domain_id op target 0)))"

text \<open>The endpoint context has a NULL target, which the endpoint scan never reads.\<close>

definition te_update_add_endpoint_domain :: "'a engine_scheme \<Rightarrow> u8 \<Rightarrow> u32 \<Rightarrow> pid_t \<Rightarrow> u32 \<Rightarrow> u64" where
  "te_update_add_endpoint_domain st op ip pid domain_id =
     (if \<not> te_pid_active st pid \<or> \<not> cap_domain_matches_pid st pid domain_id then 0
      else uc_add (te_collect_endpoint_updates st (update_ctx pid domain_id op [] ip)))"

definition te_update_add_connect_domain :: "'a engine_scheme \<Rightarrow> u32 \<Rightarrow> pid_t \<Rightarrow> u32 \<Rightarrow> u64" where
  "te_update_add_connect_domain st ip pid domain_id =
     te_update_add_endpoint_domain st TOP_CONNECT ip pid domain_id"

definition te_update_add_recv_domain :: "'a engine_scheme \<Rightarrow> u32 \<Rightarrow> pid_t \<Rightarrow> u32 \<Rightarrow> u64" where
  "te_update_add_recv_domain st ip pid domain_id =
     te_update_add_endpoint_domain st TOP_RECV ip pid domain_id"

definition te_endpoint_stored_labels_domain :: "'a engine_scheme \<Rightarrow> u32 \<Rightarrow> pid_t \<Rightarrow> u32 \<Rightarrow> u64" where
  "te_endpoint_stored_labels_domain st ip pid domain_id =
     (if \<not> te_pid_active st pid \<or> \<not> cap_domain_matches_pid st pid domain_id then 0
      else case map_lookup (ts_endp st) (te_endp_domain_key_for domain_id ip) of None \<Rightarrow> 0 | Some el \<Rightarrow> el)"

definition te_file_stored_labels_domain :: "'a engine_scheme \<Rightarrow> file_id \<Rightarrow> pid_t \<Rightarrow> u32 \<Rightarrow> u64" where
  "te_file_stored_labels_domain st fid pid domain_id =
     (if \<not> cap_domain_matches_pid st pid domain_id then 0
      else case map_lookup (ts_file st) (te_file_domain_key_for domain_id fid) of
             None \<Rightarrow> 0 | Some fs \<Rightarrow> fs_labels fs)"

definition te_file_labels_domain :: "'a engine_scheme \<Rightarrow> file_id \<Rightarrow> bytes \<Rightarrow> pid_t \<Rightarrow> u32 \<Rightarrow> u64" where
  "te_file_labels_domain st fid path pid domain_id =
     (if \<not> cap_domain_matches_pid st pid domain_id then 0
      else (case map_lookup (ts_file st) (te_file_domain_key_for domain_id fid) of
              None \<Rightarrow> 0 | Some fs \<Rightarrow> fs_labels fs) OR
           te_update_add_file_domain st TOP_OPEN path pid domain_id)"

section \<open>Files\<close>

definition te_read_domain :: "pid_t \<Rightarrow> file_id \<Rightarrow> bytes \<Rightarrow> u32 \<Rightarrow> 'a engine_scheme \<Rightarrow> 'a engine_scheme" where
  "te_read_domain pid fid path domain_id st =
     (if \<not> te_pid_active st pid \<or> \<not> cap_domain_matches_pid st pid domain_id then st
      else
        let fdom = te_file_domain_key_for domain_id fid;
            file_labels = (case map_lookup (ts_file st) fdom of None \<Rightarrow> 0 | Some fs \<Rightarrow> fs_labels fs);
            u = te_collect_file_updates st (update_ctx pid domain_id TOP_OPEN path 0);
            src_labels = uc_add u;
            st = te_add_labels_domain pid domain_id (file_labels OR src_labels) st;
            st = (if file_labels \<noteq> 0 then te_copy_file_prov_to_proc pid fdom file_labels st else st);
            st = (if src_labels \<noteq> 0
                  then te_record_proc_prov_mask pid domain_id src_labels (ucast TOP_OPEN) (Some path) 0 st else st)
        in if uc_gates u \<noteq> 0 \<or> uc_invals u \<noteq> 0 then
             let r = te_root st pid; (ep, st) = te_tick r domain_id st
             in te_stamp r domain_id ep (uc_gates u) (uc_invals u) st
           else st)"

definition te_read :: "pid_t \<Rightarrow> file_id \<Rightarrow> bytes \<Rightarrow> 'a engine_scheme \<Rightarrow> 'a engine_scheme" where
  "te_read pid fid path st = domain_loop pid (te_read_domain pid fid path) st"

definition te_write_flow_domain ::
  "pid_t \<Rightarrow> file_id \<Rightarrow> bytes \<Rightarrow> u32 \<Rightarrow> 'a engine_scheme \<Rightarrow> 'a engine_scheme" where
  "te_write_flow_domain pid fid path domain_id st =
     (if \<not> te_pid_active st pid \<or> \<not> cap_domain_matches_pid st pid domain_id then st
      else
        let u = te_collect_file_updates st (update_ctx pid domain_id TOP_WRITE path 0);
            pl = te_labels_for_domain st pid domain_id
        in if uc_gates u = 0 \<and> uc_invals u = 0 \<and> pl = 0 then st
           else
             let r = te_root st pid;
                 (ep, st) = te_tick r domain_id st;
                 st = (if uc_gates u \<noteq> 0 \<or> uc_invals u \<noteq> 0
                       then te_stamp r domain_id ep (uc_gates u) (uc_invals u) st else st)
             in if pl \<noteq> 0 then
                  let fdom = te_file_domain_key_for domain_id fid;
                      st = (case map_lookup (ts_file st) fdom of
                              Some _ \<Rightarrow>
                                st\<lparr>ts_file := map_modify fdom
                                     (\<lambda>fs. fs\<lparr>fs_labels := fs_labels fs OR pl, fs_last_write_epoch := ep\<rparr>) (ts_file st)\<rparr>
                            | None \<Rightarrow>
                                st\<lparr>ts_file := map_put fdom \<lparr>fs_labels = pl, fs_last_write_epoch = ep\<rparr> (ts_file st)\<rparr>)
                  in te_copy_proc_prov_to_file pid fdom pl st
                else st)"

definition te_write_flow :: "pid_t \<Rightarrow> file_id \<Rightarrow> bytes \<Rightarrow> 'a engine_scheme \<Rightarrow> 'a engine_scheme" where
  "te_write_flow pid fid path st = domain_loop pid (te_write_flow_domain pid fid path) st"

definition te_materialize_file_source_domain ::
  "pid_t \<Rightarrow> file_id \<Rightarrow> bytes \<Rightarrow> u32 \<Rightarrow> 'a engine_scheme \<Rightarrow> 'a engine_scheme" where
  "te_materialize_file_source_domain pid fid path domain_id st =
     (let src_labels = te_update_add_file_domain st TOP_OPEN path pid domain_id
      in if src_labels = 0 then st
         else
           let fdom = te_file_domain_key_for domain_id fid;
               st = (case map_lookup (ts_file st) fdom of
                       Some _ \<Rightarrow>
                         st\<lparr>ts_file := map_modify fdom (\<lambda>fs. fs\<lparr>fs_labels := fs_labels fs OR src_labels\<rparr>) (ts_file st)\<rparr>
                     | None \<Rightarrow>
                         st\<lparr>ts_file := map_put fdom \<lparr>fs_labels = src_labels, fs_last_write_epoch = 0\<rparr> (ts_file st)\<rparr>)
           in te_record_file_prov_mask fdom src_labels pid (ucast TOP_OPEN) (Some path) st)"

text \<open>A NULL \<^verbatim>\<open>fid\<close> is \<^const>\<open>None\<close>.\<close>

definition te_materialize_file_source ::
  "pid_t \<Rightarrow> file_id option \<Rightarrow> bytes \<Rightarrow> 'a engine_scheme \<Rightarrow> 'a engine_scheme" where
  "te_materialize_file_source pid fid path st =
     (case fid of
        None \<Rightarrow> st
      | Some fid \<Rightarrow> domain_loop pid (te_materialize_file_source_domain pid fid path) st)"

definition te_copy_file_state_domain ::
  "pid_t \<Rightarrow> file_id \<Rightarrow> file_id \<Rightarrow> bool \<Rightarrow> u32 \<Rightarrow> 'a engine_scheme \<Rightarrow> 'a engine_scheme" where
  "te_copy_file_state_domain pid from_fid to_fid delete_from domain_id st =
     (if \<not> te_pid_active st pid \<or> \<not> cap_domain_matches_pid st pid domain_id then st
      else
        let from = te_file_domain_key_for domain_id from_fid;
            to = te_file_domain_key_for domain_id to_fid;
            fs = map_lookup (ts_file st) from;
            have_src = (fs \<noteq> None);
            labels = (case fs of None \<Rightarrow> 0 | Some fs \<Rightarrow> fs_labels fs);
            last_write_epoch = (case fs of None \<Rightarrow> 0 | Some fs \<Rightarrow> fs_last_write_epoch fs);
            dst = map_lookup (ts_file st) to
        in if delete_from then
             let dst_labels = (case dst of None \<Rightarrow> 0 | Some d \<Rightarrow> fs_labels d);
                 st = (if dst_labels \<noteq> 0 then te_delete_file_prov_mask to dst_labels st else st);
                 st = (if labels \<noteq> 0 then
                         te_copy_file_prov_to_file from to labels
                           (st\<lparr>ts_file := map_put to \<lparr>fs_labels = labels, fs_last_write_epoch = last_write_epoch\<rparr>
                                 (ts_file st)\<rparr>)
                       else st\<lparr>ts_file := map_delete to (ts_file st)\<rparr>);
                 st = (if have_src then st\<lparr>ts_file := map_delete from (ts_file st)\<rparr> else st)
             in if labels \<noteq> 0 then te_delete_file_prov_mask from labels st else st
           else if labels = 0 then st
           else
             let st = (case dst of
                         Some _ \<Rightarrow>
                           st\<lparr>ts_file := map_modify to
                                (\<lambda>d. let d = d\<lparr>fs_labels := fs_labels d OR labels\<rparr>
                                     in if last_write_epoch > fs_last_write_epoch d
                                        then d\<lparr>fs_last_write_epoch := last_write_epoch\<rparr> else d) (ts_file st)\<rparr>
                       | None \<Rightarrow>
                           st\<lparr>ts_file := map_put to \<lparr>fs_labels = labels, fs_last_write_epoch = last_write_epoch\<rparr>
                                (ts_file st)\<rparr>)
             in te_copy_file_prov_to_file from to labels st)"

definition te_copy_file_state ::
  "pid_t \<Rightarrow> file_id \<Rightarrow> file_id \<Rightarrow> bool \<Rightarrow> 'a engine_scheme \<Rightarrow> 'a engine_scheme" where
  "te_copy_file_state pid from_fid to_fid delete_from st =
     domain_loop pid (te_copy_file_state_domain pid from_fid to_fid delete_from) st"

text \<open>The scratch identity a swap goes through.\<close>

definition swap_tmp_fid :: "u64 \<Rightarrow> file_id \<Rightarrow> file_id \<Rightarrow> file_id" where
  "swap_tmp_fid now a b =
     (let ino = now XOR fi_ino a XOR push_bit 1 (fi_ino b);
          ino = ino OR push_bit 63 1;
          dev = fi_dev a XOR fi_dev b XOR 0xffffffff;
          ino = (if ino = fi_ino a \<and> dev = fi_dev a then ino XOR 0x517cc1b727220a95 else ino);
          ino = (if ino = fi_ino b \<and> dev = fi_dev b then ino XOR 0x94d049bb133111eb else ino)
      in \<lparr>fi_ino = ino, fi_dev = dev, fi_pad = 0\<rparr>)"

definition te_swap_file_state :: "pid_t \<Rightarrow> file_id \<Rightarrow> file_id \<Rightarrow> 'a engine_scheme \<Rightarrow> 'a engine_scheme" where
  "te_swap_file_state pid a_fid b_fid st =
     (let tmp = swap_tmp_fid (ktime st (ktick st)) a_fid b_fid;
          st = st\<lparr>ktick := Suc (ktick st)\<rparr>;
          st = te_copy_file_state pid b_fid tmp True st;
          st = te_copy_file_state pid a_fid b_fid True st
      in te_copy_file_state pid tmp a_fid True st)"

section \<open>Endpoints\<close>

definition te_connect_flow_domain :: "u32 \<Rightarrow> pid_t \<Rightarrow> u32 \<Rightarrow> 'a engine_scheme \<Rightarrow> 'a engine_scheme" where
  "te_connect_flow_domain ip pid domain_id st =
     (if \<not> te_pid_active st pid \<or> \<not> cap_domain_matches_pid st pid domain_id then st
      else
        let src_labels = te_update_add_connect_domain st ip pid domain_id;
            st = te_add_labels_domain pid domain_id src_labels st;
            st = (if src_labels \<noteq> 0
                  then te_record_proc_prov_mask pid domain_id src_labels (ucast TOP_CONNECT) None ip st else st);
            pl = te_labels_for_domain st pid domain_id
        in if pl = 0 then st
           else
             let edom = te_endp_domain_key_for domain_id ip;
                 nv = (case map_lookup (ts_endp st) edom of None \<Rightarrow> 0 | Some el \<Rightarrow> el) OR pl
             in te_copy_proc_prov_to_endp pid edom pl (st\<lparr>ts_endp := map_put edom nv (ts_endp st)\<rparr>))"

definition te_connect_flow :: "u32 \<Rightarrow> pid_t \<Rightarrow> 'a engine_scheme \<Rightarrow> 'a engine_scheme" where
  "te_connect_flow ip pid st = domain_loop pid (te_connect_flow_domain ip pid) st"

definition te_recv_flow_domain :: "u32 \<Rightarrow> pid_t \<Rightarrow> u32 \<Rightarrow> 'a engine_scheme \<Rightarrow> 'a engine_scheme" where
  "te_recv_flow_domain ip pid domain_id st =
     (if \<not> te_pid_active st pid \<or> \<not> cap_domain_matches_pid st pid domain_id then st
      else
        let edom = te_endp_domain_key_for domain_id ip;
            endp_labels = (case map_lookup (ts_endp st) edom of None \<Rightarrow> 0 | Some el \<Rightarrow> el);
            src_labels = te_update_add_recv_domain st ip pid domain_id;
            add = endp_labels OR src_labels
        in if add = 0 then st
           else
             let st = te_add_labels_domain pid domain_id add st;
                 st = (if endp_labels \<noteq> 0 then te_copy_endp_prov_to_proc pid edom endp_labels st else st)
             in if src_labels \<noteq> 0
                then te_record_proc_prov_mask pid domain_id src_labels (ucast TOP_RECV) None ip st else st)"

definition te_recv_flow :: "u32 \<Rightarrow> pid_t \<Rightarrow> 'a engine_scheme \<Rightarrow> 'a engine_scheme" where
  "te_recv_flow ip pid st = domain_loop pid (te_recv_flow_domain ip pid) st"

section \<open>Exit\<close>

definition te_exit_status_matches :: "s32 \<Rightarrow> s32 \<Rightarrow> bool" where
  "te_exit_status_matches raw_status expected =
     (if sint expected < 0 \<or> sint expected > 255 then False
      else if raw_status AND 0x7f \<noteq> 0 then False
      else drop_bit 8 raw_status AND 0xff = expected)"

definition te_exit_gate_cb ::
  "'a engine_scheme \<Rightarrow> u32 \<Rightarrow> u64 \<Rightarrow> s32 \<Rightarrow> nat \<Rightarrow> u64 \<Rightarrow> bool \<times> u64" where
  "te_exit_gate_cb st domain_id pending raw_status i gates =
     (if MAX_TAINT_UPDATES \<le> i then (True, gates)
      else case arr_lookup (ts_updates st) i of
             None \<Rightarrow> (True, gates)
           | Some u \<Rightarrow>
               let matched = pending AND up_gates u
               in if matched = 0 \<or> up_gate_exit_code u = TAINT_GATE_IMMEDIATE then (False, gates)
                  else if up_domain_id u \<noteq> domain_id then (False, gates)
                  else if te_exit_status_matches raw_status (up_gate_exit_code u) then (False, gates OR matched)
                  else (False, gates))"

definition te_exit_gate_hits :: "'a engine_scheme \<Rightarrow> u32 \<Rightarrow> u64 \<Rightarrow> s32 \<Rightarrow> u64" where
  "te_exit_gate_hits st domain_id pending raw_status =
     bpf_loop (te_count st 1) (te_exit_gate_cb st domain_id pending raw_status) 0"

definition te_delete_proc_domain :: "pid_t \<Rightarrow> u32 \<Rightarrow> 'a engine_scheme \<Rightarrow> 'a engine_scheme" where
  "te_delete_proc_domain pid domain_id st =
     (let st = (if domain_id = 0 then st\<lparr>ts_proc := map_delete pid (ts_proc st)\<rparr>
                else st\<lparr>ts_proc_domains := map_delete (te_pid_domain_key pid domain_id) (ts_proc_domains st)\<rparr>)
      in st\<lparr>ts_proc_prov :=
           fold (\<lambda>i. map_delete \<lparr>pl_pid = pid, pl_domain_id = domain_id, pl_label = bit64 i\<rparr>)
             [0..<MAX_TAINT_LABELS] (ts_proc_prov st)\<rparr>)"

definition te_exit_domain :: "pid_t \<Rightarrow> s32 \<Rightarrow> u32 \<Rightarrow> 'a engine_scheme \<Rightarrow> 'a engine_scheme" where
  "te_exit_domain pid raw_status domain_id st =
     (let key = te_pid_domain_key pid domain_id;
          st = (case map_lookup (ts_exit_gates st) key of
                  None \<Rightarrow> st
                | Some pending \<Rightarrow>
                    if eg_gates pending \<noteq> 0 then
                      let gates = te_exit_gate_hits st domain_id (eg_gates pending) raw_status
                      in if gates \<noteq> 0 then te_stamp (te_root st pid) domain_id (eg_epoch pending) gates 0 st
                         else st
                    else st);
          st = st\<lparr>ts_exit_gates := map_delete key (ts_exit_gates st)\<rparr>
      in te_delete_proc_domain pid domain_id st)"

definition te_exit :: "pid_t \<Rightarrow> s32 \<Rightarrow> 'a engine_scheme \<Rightarrow> 'a engine_scheme" where
  "te_exit pid raw_status st =
     (let st = domain_loop pid (te_exit_domain pid raw_status) st;
          st = st\<lparr>ts_root := map_delete pid (ts_root st)\<rparr>
      in cap_exit pid st)"

end
