(* ===== verification/Label_Semantics.thy ===== *)
theory Label_Semantics
  imports Flows
begin

text \<open>
  What the flows do to labels, as an abstract information-flow semantics. An abstract state gives each
  process, file and endpoint a set of labels per domain; the abstract operations are those of the rule
  language: reading and receiving join the object's labels and the matching sources into the process,
  writing and connecting join the process's labels into the object, exec adds and then declassifies, a
  fork copies, an exit clears, a rename moves. The theorems are functional refinements: the abstraction
  of the state after an engine operation is the abstract operation on the abstraction of the state
  before it, for all processes, files, endpoints and domains at once.
\<close>

section \<open>Frames\<close>

lemma truncate_update [simp]:
  "cap_maps.truncate (st\<lparr>ts_proc := x_ts_proc\<rparr>) = cap_maps.truncate (st :: 'a engine_scheme)"
  "cap_maps.truncate (st\<lparr>ts_proc_domains := x_ts_proc_domains\<rparr>) = cap_maps.truncate (st :: 'a engine_scheme)"
  "cap_maps.truncate (st\<lparr>ts_proc_prov := x_ts_proc_prov\<rparr>) = cap_maps.truncate (st :: 'a engine_scheme)"
  "cap_maps.truncate (st\<lparr>ts_root := x_ts_root\<rparr>) = cap_maps.truncate (st :: 'a engine_scheme)"
  "cap_maps.truncate (st\<lparr>ts_sess := x_ts_sess\<rparr>) = cap_maps.truncate (st :: 'a engine_scheme)"
  "cap_maps.truncate (st\<lparr>ts_file := x_ts_file\<rparr>) = cap_maps.truncate (st :: 'a engine_scheme)"
  "cap_maps.truncate (st\<lparr>ts_file_prov := x_ts_file_prov\<rparr>) = cap_maps.truncate (st :: 'a engine_scheme)"
  "cap_maps.truncate (st\<lparr>ts_endp := x_ts_endp\<rparr>) = cap_maps.truncate (st :: 'a engine_scheme)"
  "cap_maps.truncate (st\<lparr>ts_endp_prov := x_ts_endp_prov\<rparr>) = cap_maps.truncate (st :: 'a engine_scheme)"
  "cap_maps.truncate (st\<lparr>ts_argslots := x_ts_argslots\<rparr>) = cap_maps.truncate (st :: 'a engine_scheme)"
  "cap_maps.truncate (st\<lparr>ts_exit_gates := x_ts_exit_gates\<rparr>) = cap_maps.truncate (st :: 'a engine_scheme)"
  "cap_maps.truncate (st\<lparr>ktime := x_ktime\<rparr>) = cap_maps.truncate (st :: 'a engine_scheme)"
  "cap_maps.truncate (st\<lparr>ktick := x_ktick\<rparr>) = cap_maps.truncate (st :: 'a engine_scheme)"
  by (simp_all add: cap_maps.truncate_def)

lemma frame_record_proc_prov_mask [simp]:
  "cap_maps.truncate (te_record_proc_prov_mask p d l op tg ip st) = cap_maps.truncate st"
  "ts_proc (te_record_proc_prov_mask p d l op tg ip st) = ts_proc st"
  "ts_proc_domains (te_record_proc_prov_mask p d l op tg ip st) = ts_proc_domains st"
  "ts_root (te_record_proc_prov_mask p d l op tg ip st) = ts_root st"
  "ts_sess (te_record_proc_prov_mask p d l op tg ip st) = ts_sess st"
  "ts_file (te_record_proc_prov_mask p d l op tg ip st) = ts_file st"
  "ts_endp (te_record_proc_prov_mask p d l op tg ip st) = ts_endp st"
  "ts_exit_gates (te_record_proc_prov_mask p d l op tg ip st) = ts_exit_gates st"
  "ts_argslots (te_record_proc_prov_mask p d l op tg ip st) = ts_argslots st"
  by (simp_all add: te_record_proc_prov_mask_def case_prod_beta cap_maps.truncate_def)

lemma frame_record_file_prov_mask [simp]:
  "cap_maps.truncate (te_record_file_prov_mask fd l p op tg st) = cap_maps.truncate st"
  "ts_proc (te_record_file_prov_mask fd l p op tg st) = ts_proc st"
  "ts_proc_domains (te_record_file_prov_mask fd l p op tg st) = ts_proc_domains st"
  "ts_root (te_record_file_prov_mask fd l p op tg st) = ts_root st"
  "ts_sess (te_record_file_prov_mask fd l p op tg st) = ts_sess st"
  "ts_file (te_record_file_prov_mask fd l p op tg st) = ts_file st"
  "ts_endp (te_record_file_prov_mask fd l p op tg st) = ts_endp st"
  "ts_exit_gates (te_record_file_prov_mask fd l p op tg st) = ts_exit_gates st"
  "ts_argslots (te_record_file_prov_mask fd l p op tg st) = ts_argslots st"
  by (simp_all add: te_record_file_prov_mask_def case_prod_beta cap_maps.truncate_def)

lemma frame_copy_proc_prov [simp]:
  "cap_maps.truncate (te_copy_proc_prov f t d l st) = cap_maps.truncate st"
  "ts_proc (te_copy_proc_prov f t d l st) = ts_proc st"
  "ts_proc_domains (te_copy_proc_prov f t d l st) = ts_proc_domains st"
  "ts_root (te_copy_proc_prov f t d l st) = ts_root st"
  "ts_sess (te_copy_proc_prov f t d l st) = ts_sess st"
  "ts_file (te_copy_proc_prov f t d l st) = ts_file st"
  "ts_endp (te_copy_proc_prov f t d l st) = ts_endp st"
  "ts_exit_gates (te_copy_proc_prov f t d l st) = ts_exit_gates st"
  "ts_argslots (te_copy_proc_prov f t d l st) = ts_argslots st"
  by (simp_all add: te_copy_proc_prov_def cap_maps.truncate_def)

lemma frame_copy_file_prov_to_file [simp]:
  "cap_maps.truncate (te_copy_file_prov_to_file f t l st) = cap_maps.truncate st"
  "ts_proc (te_copy_file_prov_to_file f t l st) = ts_proc st"
  "ts_proc_domains (te_copy_file_prov_to_file f t l st) = ts_proc_domains st"
  "ts_root (te_copy_file_prov_to_file f t l st) = ts_root st"
  "ts_sess (te_copy_file_prov_to_file f t l st) = ts_sess st"
  "ts_file (te_copy_file_prov_to_file f t l st) = ts_file st"
  "ts_endp (te_copy_file_prov_to_file f t l st) = ts_endp st"
  "ts_exit_gates (te_copy_file_prov_to_file f t l st) = ts_exit_gates st"
  "ts_argslots (te_copy_file_prov_to_file f t l st) = ts_argslots st"
  by (simp_all add: te_copy_file_prov_to_file_def cap_maps.truncate_def)

lemma frame_delete_file_prov_mask [simp]:
  "cap_maps.truncate (te_delete_file_prov_mask fd l st) = cap_maps.truncate st"
  "ts_proc (te_delete_file_prov_mask fd l st) = ts_proc st"
  "ts_proc_domains (te_delete_file_prov_mask fd l st) = ts_proc_domains st"
  "ts_root (te_delete_file_prov_mask fd l st) = ts_root st"
  "ts_sess (te_delete_file_prov_mask fd l st) = ts_sess st"
  "ts_file (te_delete_file_prov_mask fd l st) = ts_file st"
  "ts_endp (te_delete_file_prov_mask fd l st) = ts_endp st"
  "ts_exit_gates (te_delete_file_prov_mask fd l st) = ts_exit_gates st"
  "ts_argslots (te_delete_file_prov_mask fd l st) = ts_argslots st"
  by (simp_all add: te_delete_file_prov_mask_def cap_maps.truncate_def)

lemma frame_copy_file_prov_to_proc [simp]:
  "cap_maps.truncate (te_copy_file_prov_to_proc p fd l st) = cap_maps.truncate st"
  "ts_proc (te_copy_file_prov_to_proc p fd l st) = ts_proc st"
  "ts_proc_domains (te_copy_file_prov_to_proc p fd l st) = ts_proc_domains st"
  "ts_root (te_copy_file_prov_to_proc p fd l st) = ts_root st"
  "ts_sess (te_copy_file_prov_to_proc p fd l st) = ts_sess st"
  "ts_file (te_copy_file_prov_to_proc p fd l st) = ts_file st"
  "ts_endp (te_copy_file_prov_to_proc p fd l st) = ts_endp st"
  "ts_exit_gates (te_copy_file_prov_to_proc p fd l st) = ts_exit_gates st"
  "ts_argslots (te_copy_file_prov_to_proc p fd l st) = ts_argslots st"
  by (simp_all add: te_copy_file_prov_to_proc_def cap_maps.truncate_def)

lemma frame_copy_proc_prov_to_file [simp]:
  "cap_maps.truncate (te_copy_proc_prov_to_file p fd l st) = cap_maps.truncate st"
  "ts_proc (te_copy_proc_prov_to_file p fd l st) = ts_proc st"
  "ts_proc_domains (te_copy_proc_prov_to_file p fd l st) = ts_proc_domains st"
  "ts_root (te_copy_proc_prov_to_file p fd l st) = ts_root st"
  "ts_sess (te_copy_proc_prov_to_file p fd l st) = ts_sess st"
  "ts_file (te_copy_proc_prov_to_file p fd l st) = ts_file st"
  "ts_endp (te_copy_proc_prov_to_file p fd l st) = ts_endp st"
  "ts_exit_gates (te_copy_proc_prov_to_file p fd l st) = ts_exit_gates st"
  "ts_argslots (te_copy_proc_prov_to_file p fd l st) = ts_argslots st"
  by (simp_all add: te_copy_proc_prov_to_file_def cap_maps.truncate_def)

lemma frame_copy_endp_prov_to_proc [simp]:
  "cap_maps.truncate (te_copy_endp_prov_to_proc p ed l st) = cap_maps.truncate st"
  "ts_proc (te_copy_endp_prov_to_proc p ed l st) = ts_proc st"
  "ts_proc_domains (te_copy_endp_prov_to_proc p ed l st) = ts_proc_domains st"
  "ts_root (te_copy_endp_prov_to_proc p ed l st) = ts_root st"
  "ts_sess (te_copy_endp_prov_to_proc p ed l st) = ts_sess st"
  "ts_file (te_copy_endp_prov_to_proc p ed l st) = ts_file st"
  "ts_endp (te_copy_endp_prov_to_proc p ed l st) = ts_endp st"
  "ts_exit_gates (te_copy_endp_prov_to_proc p ed l st) = ts_exit_gates st"
  "ts_argslots (te_copy_endp_prov_to_proc p ed l st) = ts_argslots st"
  by (simp_all add: te_copy_endp_prov_to_proc_def cap_maps.truncate_def)

lemma frame_copy_proc_prov_to_endp [simp]:
  "cap_maps.truncate (te_copy_proc_prov_to_endp p ed l st) = cap_maps.truncate st"
  "ts_proc (te_copy_proc_prov_to_endp p ed l st) = ts_proc st"
  "ts_proc_domains (te_copy_proc_prov_to_endp p ed l st) = ts_proc_domains st"
  "ts_root (te_copy_proc_prov_to_endp p ed l st) = ts_root st"
  "ts_sess (te_copy_proc_prov_to_endp p ed l st) = ts_sess st"
  "ts_file (te_copy_proc_prov_to_endp p ed l st) = ts_file st"
  "ts_endp (te_copy_proc_prov_to_endp p ed l st) = ts_endp st"
  "ts_exit_gates (te_copy_proc_prov_to_endp p ed l st) = ts_exit_gates st"
  "ts_argslots (te_copy_proc_prov_to_endp p ed l st) = ts_argslots st"
  by (simp_all add: te_copy_proc_prov_to_endp_def cap_maps.truncate_def)

lemma frame_tick [simp]:
  "cap_maps.truncate (snd (te_tick r d st)) = cap_maps.truncate st"
  "ts_proc (snd (te_tick r d st)) = ts_proc st"
  "ts_proc_domains (snd (te_tick r d st)) = ts_proc_domains st"
  "ts_root (snd (te_tick r d st)) = ts_root st"
  "ts_file (snd (te_tick r d st)) = ts_file st"
  "ts_endp (snd (te_tick r d st)) = ts_endp st"
  "ts_exit_gates (snd (te_tick r d st)) = ts_exit_gates st"
  "ts_argslots (snd (te_tick r d st)) = ts_argslots st"
  "ts_proc_prov (snd (te_tick r d st)) = ts_proc_prov st"
  "ts_file_prov (snd (te_tick r d st)) = ts_file_prov st"
  "ts_endp_prov (snd (te_tick r d st)) = ts_endp_prov st"
  by (simp_all add: te_tick_def te_sess_init_def Let_def cap_maps.truncate_def split: option.split)

lemma frame_stamp [simp]:
  "cap_maps.truncate (te_stamp r d ep g i st) = cap_maps.truncate st"
  "ts_proc (te_stamp r d ep g i st) = ts_proc st"
  "ts_proc_domains (te_stamp r d ep g i st) = ts_proc_domains st"
  "ts_root (te_stamp r d ep g i st) = ts_root st"
  "ts_file (te_stamp r d ep g i st) = ts_file st"
  "ts_endp (te_stamp r d ep g i st) = ts_endp st"
  "ts_exit_gates (te_stamp r d ep g i st) = ts_exit_gates st"
  "ts_argslots (te_stamp r d ep g i st) = ts_argslots st"
  "ts_proc_prov (te_stamp r d ep g i st) = ts_proc_prov st"
  "ts_file_prov (te_stamp r d ep g i st) = ts_file_prov st"
  "ts_endp_prov (te_stamp r d ep g i st) = ts_endp_prov st"
  by (simp_all add: te_stamp_def Let_def cap_maps.truncate_def split: option.split)

text \<open>Everything the flows read of the policy and the domain tree lies in the part of the state that
  \<^verbatim>\<open>capability.bpf.h\<close> and the loader own, which no flow changes.\<close>

lemma policy_cong:
  assumes "cap_maps.truncate s = cap_maps.truncate t"
  shows "cap_task s = cap_task t" "cap_states s = cap_states t" "policy_features s = policy_features t"
    "ts_updates s = ts_updates t" "ts_rules s = ts_rules t" "ts_counts s = ts_counts t"
    "cap_policy s = cap_policy t" "cap_stats s = cap_stats t" "enforce_mode s = enforce_mode t"
  using assms by (simp_all add: cap_maps.truncate_def)

lemma domain_cong:
  assumes "cap_maps.truncate s = cap_maps.truncate t"
  shows "te_pid_active s = te_pid_active t" "cap_domain_matches_pid s = cap_domain_matches_pid t"
    "cap_labels_for_pid_domain s = cap_labels_for_pid_domain t" "te_domains s = te_domains t"
    "cap_domain_for_pid s = cap_domain_for_pid t" "wf_tables s = wf_tables t"
    "active_updates s = active_updates t" "active_rules s = active_rules t" "te_count s = te_count t"
proof -
  note p = policy_cong [OF assms]
  have par: "cap_chain n s d = cap_chain n t d" for n d
    by (induction n arbitrary: d) (simp_all add: cap_parent_domain_def p)
  have dom: "cap_domain_for_pid s q = cap_domain_for_pid t q" for q
    by (simp add: cap_domain_for_pid_def p)
  have mat: "cap_domain_matches_pid s q d = cap_domain_matches_pid t q d" for q d
    by (simp add: cap_domain_matches_pid_chain par dom)
  show "te_pid_active s = te_pid_active t" "cap_domain_matches_pid s = cap_domain_matches_pid t"
    "cap_labels_for_pid_domain s = cap_labels_for_pid_domain t" "te_domains s = te_domains t"
    "cap_domain_for_pid s = cap_domain_for_pid t" "wf_tables s = wf_tables t"
    "active_updates s = active_updates t" "active_rules s = active_rules t" "te_count s = te_count t"
    by (simp_all add: fun_eq_iff te_pid_active_def cap_task_bound_def mat cap_labels_for_pid_domain_def
        te_domains_def dom par wf_tables_def active_updates_def active_rules_def n_updates_def n_rules_def
        te_count_def p)
qed

lemma te_domains_match:
  assumes "d \<in> set (te_domains st pid)"
  shows "cap_domain_matches_pid st pid d"
proof -
  have "set (cap_chain n st c) \<subseteq> set (cap_chain (Suc n) st c)" for n c
  proof (induction n arbitrary: c)
    case (Suc n)
    from Suc [of "cap_parent_domain st c"] show ?case
      unfolding cap_chain.simps(2) [of n st c] cap_chain.simps(2) [of "Suc n" st c] by auto
  qed simp
  from this [of "CAP_DOMAIN_DEPTH - 1"] assms show ?thesis
    by (auto simp: te_domains_def cap_domain_matches_pid_chain)
qed

lemma te_domains_length: "length (te_domains st pid) \<le> CAP_DOMAIN_DEPTH"
proof -
  have "length (cap_chain n st d) \<le> n" for n d by (induction n arbitrary: d) auto
  from this [of 7 "cap_domain_for_pid st pid"] show ?thesis by (simp add: te_domains_def)
qed

section \<open>The abstract state\<close>

record ifc =
  i_proc :: "pid_t \<Rightarrow> u32 \<Rightarrow> nat set"
  i_file :: "file_id \<Rightarrow> u32 \<Rightarrow> nat set"
  i_endp :: "u32 \<Rightarrow> u32 \<Rightarrow> nat set"

definition proc_labels :: "'a engine_scheme \<Rightarrow> pid_t \<Rightarrow> u32 \<Rightarrow> nat set" where
  "proc_labels st q d = (case te_get_domain st q d of None \<Rightarrow> {} | Some p \<Rightarrow> bits_of (ps_labels p))"

definition file_labels :: "'a engine_scheme \<Rightarrow> file_id \<Rightarrow> u32 \<Rightarrow> nat set" where
  "file_labels st f d =
     (case map_lookup (ts_file st) (te_file_domain_key_for d f) of None \<Rightarrow> {} | Some fs \<Rightarrow> bits_of (fs_labels fs))"

definition endp_labels :: "'a engine_scheme \<Rightarrow> u32 \<Rightarrow> u32 \<Rightarrow> nat set" where
  "endp_labels st ip d =
     (case map_lookup (ts_endp st) (te_endp_domain_key_for d ip) of None \<Rightarrow> {} | Some l \<Rightarrow> bits_of l)"

definition ifc_of :: "'a engine_scheme \<Rightarrow> ifc" where
  "ifc_of st = \<lparr>i_proc = proc_labels st, i_file = file_labels st, i_endp = endp_labels st\<rparr>"

text \<open>The labels an event's matching sources add in a domain, and those the domain itself carries.\<close>

definition file_sources :: "'a cap_maps_scheme \<Rightarrow> u8 \<Rightarrow> bytes \<Rightarrow> u32 \<Rightarrow> nat set" where
  "file_sources st op path d =
     (\<Union>u \<in> {u \<in> set (active_updates st). up_op u = op \<and> up_domain_id u = d \<and>
          te_path_match (policy_features st) (up_match u) path (up_target u)}. bits_of (up_add u))"

definition endp_sources :: "'a cap_maps_scheme \<Rightarrow> u8 \<Rightarrow> u32 \<Rightarrow> u32 \<Rightarrow> nat set" where
  "endp_sources st op ip d =
     (\<Union>u \<in> {u \<in> set (active_updates st). up_op u = op \<and> up_domain_id u = d \<and>
          ip AND up_ipv4_mask u = up_ipv4 u}. bits_of (up_add u))"

definition exec_matches :: "'a engine_scheme \<Rightarrow> bytes \<Rightarrow> u32 \<Rightarrow> taint_update set" where
  "exec_matches st comm d =
     {u \<in> set (active_updates st). up_op u = TOP_EXEC \<and> up_domain_id u = d \<and>
        taint_exec_match (up_match u) comm (up_target u) \<and> arg_ok st u}"

definition domain_labels :: "'a cap_maps_scheme \<Rightarrow> pid_t \<Rightarrow> u32 \<Rightarrow> nat set" where
  "domain_labels st pid d = bits_of (cap_labels_for_pid_domain st pid d)"

text \<open>Room for \<open>n\<close> more entries in each label map.\<close>

definition label_room :: "nat \<Rightarrow> 'a engine_scheme \<Rightarrow> bool" where
  "label_room n st \<longleftrightarrow>
     has_slots n (ts_proc st) \<and> has_slots n (ts_proc_domains st) \<and> has_slots n (ts_file st) \<and>
     has_slots n (ts_endp st)"

section \<open>Abstract operations, on the domains \<open>D\<close>\<close>

definition ifc_proc_join :: "u32 set \<Rightarrow> pid_t \<Rightarrow> (u32 \<Rightarrow> nat set) \<Rightarrow> ifc \<Rightarrow> ifc" where
  "ifc_proc_join D pid src s =
     s\<lparr>i_proc := (\<lambda>q d. if q = pid \<and> d \<in> D then i_proc s q d \<union> src d else i_proc s q d)\<rparr>"

definition ifc_read :: "u32 set \<Rightarrow> pid_t \<Rightarrow> file_id \<Rightarrow> (u32 \<Rightarrow> nat set) \<Rightarrow> ifc \<Rightarrow> ifc" where
  "ifc_read D pid f src s = ifc_proc_join D pid (\<lambda>d. i_file s f d \<union> src d) s"

definition ifc_recv :: "u32 set \<Rightarrow> pid_t \<Rightarrow> u32 \<Rightarrow> (u32 \<Rightarrow> nat set) \<Rightarrow> ifc \<Rightarrow> ifc" where
  "ifc_recv D pid ip src s = ifc_proc_join D pid (\<lambda>d. i_endp s ip d \<union> src d) s"

definition ifc_write :: "u32 set \<Rightarrow> pid_t \<Rightarrow> file_id \<Rightarrow> (u32 \<Rightarrow> nat set) \<Rightarrow> ifc \<Rightarrow> ifc" where
  "ifc_write D pid f own s =
     s\<lparr>i_file := (\<lambda>g d. if g = f \<and> d \<in> D then i_file s g d \<union> i_proc s pid d \<union> own d else i_file s g d)\<rparr>"

definition ifc_connect :: "u32 set \<Rightarrow> pid_t \<Rightarrow> u32 \<Rightarrow> (u32 \<Rightarrow> nat set) \<Rightarrow> (u32 \<Rightarrow> nat set) \<Rightarrow> ifc \<Rightarrow> ifc" where
  "ifc_connect D pid ip src own s =
     (let s = ifc_proc_join D pid src s
      in s\<lparr>i_endp := (\<lambda>e d. if e = ip \<and> d \<in> D then i_endp s e d \<union> i_proc s pid d \<union> own d else i_endp s e d)\<rparr>)"

definition ifc_exec :: "u32 set \<Rightarrow> pid_t \<Rightarrow> (u32 \<Rightarrow> nat set) \<Rightarrow> (u32 \<Rightarrow> nat set) \<Rightarrow> ifc \<Rightarrow> ifc" where
  "ifc_exec D pid add del s =
     s\<lparr>i_proc := (\<lambda>q d. if q = pid \<and> d \<in> D then i_proc s q d \<union> add d - del d else i_proc s q d)\<rparr>"

definition ifc_fork :: "u32 set \<Rightarrow> pid_t \<Rightarrow> pid_t \<Rightarrow> ifc \<Rightarrow> ifc" where
  "ifc_fork D parent child s =
     s\<lparr>i_proc := (\<lambda>q d. if q = child \<and> d \<in> D then i_proc s parent d else i_proc s q d)\<rparr>"

definition ifc_exit :: "u32 set \<Rightarrow> pid_t \<Rightarrow> ifc \<Rightarrow> ifc" where
  "ifc_exit D pid s = s\<lparr>i_proc := (\<lambda>q d. if q = pid \<and> d \<in> D then {} else i_proc s q d)\<rparr>"

definition ifc_file_join :: "u32 set \<Rightarrow> file_id \<Rightarrow> (u32 \<Rightarrow> nat set) \<Rightarrow> ifc \<Rightarrow> ifc" where
  "ifc_file_join D f src s =
     s\<lparr>i_file := (\<lambda>g d. if g = f \<and> d \<in> D then i_file s g d \<union> src d else i_file s g d)\<rparr>"

definition ifc_link :: "u32 set \<Rightarrow> file_id \<Rightarrow> file_id \<Rightarrow> ifc \<Rightarrow> ifc" where
  "ifc_link D f g s = ifc_file_join D g (i_file s f) s"

definition ifc_rename :: "u32 set \<Rightarrow> file_id \<Rightarrow> file_id \<Rightarrow> ifc \<Rightarrow> ifc" where
  "ifc_rename D f g s =
     s\<lparr>i_file := (\<lambda>h d. if d \<notin> D then i_file s h d else if h = f then {} else if h = g then i_file s f d
                     else i_file s h d)\<rparr>"

definition ifc_swap :: "u32 set \<Rightarrow> file_id \<Rightarrow> file_id \<Rightarrow> ifc \<Rightarrow> ifc" where
  "ifc_swap D f g s =
     s\<lparr>i_file := (\<lambda>h d. if d \<notin> D then i_file s h d else if h = f then i_file s g d
                     else if h = g then i_file s f d else i_file s h d)\<rparr>"

section \<open>From one domain to the domains of a task\<close>

text \<open>A flow body that refines an abstract action on each single domain refines it on all the domains
  of the walk, provided the domain tree has no cycle and there is room for one entry per domain.\<close>

locale flow =
  fixes body :: "u32 \<Rightarrow> 'a engine_scheme \<Rightarrow> 'a engine_scheme"
    and pid :: pid_t
    and pol :: "'a engine_scheme \<Rightarrow> 'p"
    and act :: "'p \<Rightarrow> u32 set \<Rightarrow> ifc \<Rightarrow> ifc"
  assumes body_policy: "cap_maps.truncate (body d st) = cap_maps.truncate st"
    and body_pol: "pol (body d st) = pol st"
    and body_step: "te_pid_active st pid \<Longrightarrow> cap_domain_matches_pid st pid d \<Longrightarrow> wf_tables st \<Longrightarrow>
        label_room (Suc n) st \<Longrightarrow>
        ifc_of (body d st) = act (pol st) {d} (ifc_of st) \<and> label_room n (body d st)"
    and act_insert: "d \<notin> D \<Longrightarrow> act x D (act x {d} s) = act x (insert d D) s"
    and act_empty: "act x {} s = s"
begin

lemma walk: "domain_walk body pid"
  by unfold_locales (simp_all add: policy_cong [OF body_policy])

lemma fold_refines:
  assumes "te_pid_active st pid" and "wf_tables st" and "\<And>d. d \<in> set ds \<Longrightarrow> cap_domain_matches_pid st pid d"
    and "distinct ds" and "label_room (length ds) st"
  shows "ifc_of (fold body ds st) = act (pol st) (set ds) (ifc_of st)"
  using assms
proof (induction ds arbitrary: st)
  case (Cons d ds)
  note same = domain_cong [OF body_policy [of d st]]
  have step: "ifc_of (body d st) = act (pol st) {d} (ifc_of st)" "label_room (length ds) (body d st)"
    using body_step [of st d "length ds"] Cons.prems by auto
  have "ifc_of (fold body ds (body d st)) = act (pol (body d st)) (set ds) (ifc_of (body d st))"
    using Cons.prems step(2) by (intro Cons.IH) (auto simp: same)
  with step(1) Cons.prems(4) show ?case by (simp add: act_insert body_pol)
qed (simp add: act_empty)

lemma domain_loop_fold: "domain_loop pid body st = fold body (te_domains st pid) st"
  by (rule domain_walk.domain_loop_fold [OF walk])

lemma refines:
  assumes "te_pid_active st pid" and "wf_tables st"
    and "distinct (te_domains st pid)" and "label_room CAP_DOMAIN_DEPTH st"
  shows "ifc_of (domain_loop pid body st) = act (pol st) (set (te_domains st pid)) (ifc_of st)"
proof -
  have "label_room (length (te_domains st pid)) st"
    using assms(4) te_domains_length [of st pid] by (auto simp: label_room_def elim: has_slots_mono)
  then show ?thesis
    unfolding domain_loop_fold using assms by (intro fold_refines) (auto intro: te_domains_match)
qed

lemma fold_room:
  assumes "te_pid_active st pid" and "wf_tables st" and "\<And>d. d \<in> set ds \<Longrightarrow> cap_domain_matches_pid st pid d"
    and "label_room (n + length ds) st"
  shows "label_room n (fold body ds st)"
  using assms
proof (induction ds arbitrary: st)
  case (Cons d ds)
  note same = domain_cong [OF body_policy [of d st]]
  have "label_room (n + length ds) (body d st)"
    using body_step [of st d "n + length ds"] Cons.prems by auto
  then show ?case
    using Cons.prems by (auto intro!: Cons.IH simp: same)
qed simp

lemma loop_room:
  assumes "te_pid_active st pid" and "wf_tables st" and "label_room (n + CAP_DOMAIN_DEPTH) st"
  shows "label_room n (domain_loop pid body st)"
proof -
  have "label_room (n + length (te_domains st pid)) st"
    using assms(3) te_domains_length [of st pid] by (auto simp: label_room_def elim: has_slots_mono)
  then show ?thesis
    unfolding domain_loop_fold using assms(1,2) by (intro fold_room) (auto intro: te_domains_match)
qed

lemma policy: "cap_maps.truncate (domain_loop pid body st) = cap_maps.truncate st"
proof -
  have "cap_maps.truncate (fold body ds st) = cap_maps.truncate st" for ds
    by (induction ds arbitrary: st) (simp_all add: body_policy)
  then show ?thesis by (simp add: domain_loop_fold)
qed

end

section \<open>Building blocks\<close>

lemma key_inject [simp]:
  "te_pid_domain_key p d = te_pid_domain_key q e \<longleftrightarrow> p = q \<and> d = e"
  "te_file_domain_key_for d f = te_file_domain_key_for e g \<longleftrightarrow> d = e \<and> f = g"
  "te_endp_domain_key_for d i = te_endp_domain_key_for e j \<longleftrightarrow> d = e \<and> i = j"
  by (auto simp: te_pid_domain_key_def te_file_domain_key_for_def te_endp_domain_key_for_def)

lemma file_updates_add:
  assumes "wf_tables st"
  shows "bits_of (uc_add (te_collect_file_updates st (update_ctx pid d op path 0))) = file_sources st op path d"
  unfolding te_collect_file_updates_def scan_file.scan_fold [OF assms] accum_bits
  by (simp add: file_applies_def file_sources_def update_ctx_def)

lemma endp_updates_add:
  assumes "wf_tables st"
  shows "bits_of (uc_add (te_collect_endpoint_updates st (update_ctx pid d op t ip))) = endp_sources st op ip d"
  unfolding te_collect_endpoint_updates_def scan_endp.scan_fold [OF assms] accum_bits
  by (simp add: endp_applies_def endp_sources_def update_ctx_def)

lemma exec_updates_collect:
  assumes "wf_tables st"
  shows "bits_of (uc_add (te_collect_updates st (update_ctx pid d TOP_EXEC comm 0))) =
           (\<Union>u \<in> exec_matches st comm d. bits_of (up_add u))"
    and "bits_of (uc_del (te_collect_updates st (update_ctx pid d TOP_EXEC comm 0))) =
           (\<Union>u \<in> exec_matches st comm d. bits_of (up_del u))"
proof -
  have "filter (\<lambda>u. up_op u = uc_op c \<and> (if up_op u = TOP_EXEC then exec_applies st c u
       else if up_op u = TOP_CONNECT then endp_applies st c u else file_applies st c u)) (active_updates st) =
      filter (\<lambda>u. u \<in> exec_matches st comm d) (active_updates st)"
    if "c = update_ctx pid d TOP_EXEC comm 0" for c
    using that by (intro filter_cong) (auto simp: exec_matches_def exec_applies_def update_ctx_def)
  note m = this [OF refl]
  show "bits_of (uc_add (te_collect_updates st (update_ctx pid d TOP_EXEC comm 0))) =
           (\<Union>u \<in> exec_matches st comm d. bits_of (up_add u))"
    and "bits_of (uc_del (te_collect_updates st (update_ctx pid d TOP_EXEC comm 0))) =
           (\<Union>u \<in> exec_matches st comm d. bits_of (up_del u))"
    unfolding te_collect_updates_def scan_any.scan_fold [OF assms] m accum_bits
    by (auto simp: update_ctx_def exec_matches_def)
qed

lemma has_slots_modify [simp]: "has_slots n (map_modify k f m) = has_slots n m"
  by (auto simp: has_slots_def map_modify_def split: option.split)

lemma has_slots_delete: "has_slots n m \<Longrightarrow> has_slots n (map_delete k m)"
  by (auto simp: has_slots_def map_delete_def split: option.split)

lemma label_room_mono: "label_room (Suc n) st \<Longrightarrow> label_room n st"
  by (auto simp: label_room_def elim: has_slots_mono)

lemma label_room_le: "label_room m st \<Longrightarrow> n \<le> m \<Longrightarrow> label_room n st"
  by (auto simp: label_room_def elim: has_slots_mono)

lemma label_roomD:
  assumes "label_room (Suc n) st"
  shows "room (ts_proc st) q" "room (ts_proc_domains st) k" "room (ts_file st) f" "room (ts_endp st) e"
  using assms by (auto simp: label_room_def intro: room_slots)

text \<open>Storing a process entry, by an update or through the entry's pointer.\<close>

lemma store_proc_domain:
  assumes "label_room (Suc n) st"
  shows "cap_maps.truncate (te_store_proc_domain pid d ns st) = cap_maps.truncate st"
    and "te_get_domain (te_store_proc_domain pid d ns st) q e =
           (if q = pid \<and> e = d then Some ns else te_get_domain st q e)"
    and "ts_file (te_store_proc_domain pid d ns st) = ts_file st"
    and "ts_endp (te_store_proc_domain pid d ns st) = ts_endp st"
    and "ts_root (te_store_proc_domain pid d ns st) = ts_root st"
    and "label_room n (te_store_proc_domain pid d ns st)"
  using assms label_roomD [OF assms]
  by (auto simp: te_store_proc_domain_def te_get_domain_def te_get_def lookup_put cap_maps.truncate_def
      label_room_def has_slots_put elim: has_slots_mono)

lemma add_labels_domain_frame [simp]:
  "cap_maps.truncate (te_add_labels_domain pid d add st) = cap_maps.truncate st"
  "ts_file (te_add_labels_domain pid d add st) = ts_file st"
  "ts_endp (te_add_labels_domain pid d add st) = ts_endp st"
  "ts_root (te_add_labels_domain pid d add st) = ts_root st"
  "ts_sess (te_add_labels_domain pid d add st) = ts_sess st"
  by (auto simp: te_add_labels_domain_def Let_def cap_maps.truncate_def split: option.split)

lemma add_labels_domain:
  assumes "te_pid_active st pid" and "cap_domain_matches_pid st pid d" and "label_room (Suc n) st"
  shows "proc_labels (te_add_labels_domain pid d add st) q e =
           (if q = pid \<and> e = d then proc_labels st q e \<union> bits_of add else proc_labels st q e)"
    and "label_room n (te_add_labels_domain pid d add st)"
proof -
  note r = label_roomD [OF assms(3)]
  show "proc_labels (te_add_labels_domain pid d add st) q e =
           (if q = pid \<and> e = d then proc_labels st q e \<union> bits_of add else proc_labels st q e)"
    using assms(1,2) r
    by (auto simp: te_add_labels_domain_def proc_labels_def te_get_domain_def te_get_def map_lookup_simps
        Let_def split: option.split)
  show "label_room n (te_add_labels_domain pid d add st)"
    using assms(3) label_room_mono [OF assms(3)]
    by (auto simp: te_add_labels_domain_def label_room_def has_slots_put Let_def
        elim: has_slots_mono split: option.split)
qed

lemma labels_cong:
  "ts_proc s = ts_proc t \<Longrightarrow> ts_proc_domains s = ts_proc_domains t \<Longrightarrow> proc_labels s = proc_labels t"
  "ts_file s' = ts_file t' \<Longrightarrow> file_labels s' = file_labels t'"
  "ts_endp s'' = ts_endp t'' \<Longrightarrow> endp_labels s'' = endp_labels t''"
  by (simp_all add: proc_labels_def file_labels_def endp_labels_def te_get_domain_def te_get_def fun_eq_iff)

lemma ifc_of_sel [simp]:
  "i_proc (ifc_of st) = proc_labels st" "i_file (ifc_of st) = file_labels st" "i_endp (ifc_of st) = endp_labels st"
  by (simp_all add: ifc_of_def)

lemma ifc_eqI:
  fixes s t :: ifc
  assumes "\<And>q d. i_proc s q d = i_proc t q d" and "\<And>f d. i_file s f d = i_file t f d"
    and "\<And>e d. i_endp s e d = i_endp t e d"
  shows "s = t"
  using assms by (cases s; cases t) (simp add: fun_eq_iff)

lemma label_room_cong:
  "ts_proc s = ts_proc t \<Longrightarrow> ts_proc_domains s = ts_proc_domains t \<Longrightarrow> ts_file s = ts_file t \<Longrightarrow>
   ts_endp s = ts_endp t \<Longrightarrow> label_room n s = label_room n t"
  by (simp add: label_room_def)

section \<open>Reading and receiving\<close>

lemma read_domain_policy: "cap_maps.truncate (te_read_domain pid f path d st) = cap_maps.truncate st"
  by (simp add: te_read_domain_def Let_def case_prod_beta)

lemma read_domain_step:
  assumes "te_pid_active st pid" and "cap_domain_matches_pid st pid d" and "wf_tables st"
    and "label_room (Suc n) st"
  shows "ifc_of (te_read_domain pid f path d st) =
           ifc_read {d} pid f (file_sources st TOP_OPEN path) (ifc_of st) \<and>
         label_room n (te_read_domain pid f path d st)"
proof -
  let ?fl = "case map_lookup (ts_file st) (te_file_domain_key_for d f) of None \<Rightarrow> 0 | Some fs \<Rightarrow> fs_labels fs"
  let ?src = "uc_add (te_collect_file_updates st (update_ctx pid d TOP_OPEN path 0))"
  let ?mid = "te_add_labels_domain pid d (?fl OR ?src) st"
  let ?res = "te_read_domain pid f path d st"
  have core: "ts_proc ?res = ts_proc ?mid" "ts_proc_domains ?res = ts_proc_domains ?mid"
    "ts_file ?res = ts_file st" "ts_endp ?res = ts_endp st"
    using assms(1,2) by (simp_all add: te_read_domain_def Let_def case_prod_beta)
  have "bits_of ?fl = file_labels st f d" by (simp add: file_labels_def split: option.split)
  then have p: "proc_labels ?res q e =
      (if q = pid \<and> e = d then proc_labels st q e \<union> (file_labels st f d \<union> file_sources st TOP_OPEN path d)
       else proc_labels st q e)" for q e
    unfolding labels_cong(1) [OF core(1,2)] add_labels_domain(1) [OF assms(1,2,4)]
    by (simp add: file_updates_add [OF assms(3)])
  have "label_room n ?res"
    using add_labels_domain(2) [OF assms(1,2,4)] core by (simp add: label_room_def)
  then show ?thesis
    by (auto intro!: ifc_eqI simp: ifc_read_def ifc_proc_join_def p labels_cong(2) [OF core(3)]
        labels_cong(3) [OF core(4)])
qed

lemma recv_domain_policy: "cap_maps.truncate (te_recv_flow_domain ip pid d st) = cap_maps.truncate st"
  by (simp add: te_recv_flow_domain_def Let_def)

lemma recv_domain_step:
  assumes "te_pid_active st pid" and "cap_domain_matches_pid st pid d" and "wf_tables st"
    and "label_room (Suc n) st"
  shows "ifc_of (te_recv_flow_domain ip pid d st) =
           ifc_recv {d} pid ip (endp_sources st TOP_RECV ip) (ifc_of st) \<and>
         label_room n (te_recv_flow_domain ip pid d st)"
proof -
  let ?el = "case map_lookup (ts_endp st) (te_endp_domain_key_for d ip) of None \<Rightarrow> 0 | Some l \<Rightarrow> l"
  let ?src = "te_update_add_recv_domain st ip pid d"
  let ?mid = "te_add_labels_domain pid d (?el OR ?src) st"
  let ?res = "te_recv_flow_domain ip pid d st"
  have zero: "te_add_labels_domain pid d 0 st = st" by (simp add: te_add_labels_domain_def)
  have core: "ts_proc ?res = ts_proc ?mid" "ts_proc_domains ?res = ts_proc_domains ?mid"
    "ts_file ?res = ts_file st" "ts_endp ?res = ts_endp st"
    using assms(1,2) by (simp_all add: te_recv_flow_domain_def Let_def zero)
  have "bits_of ?el = endp_labels st ip d" by (simp add: endp_labels_def split: option.split)
  moreover have "bits_of ?src = endp_sources st TOP_RECV ip d"
    using assms by (simp add: te_update_add_recv_domain_def te_update_add_endpoint_domain_def endp_updates_add)
  ultimately have p: "proc_labels ?res q e =
      (if q = pid \<and> e = d then proc_labels st q e \<union> (endp_labels st ip d \<union> endp_sources st TOP_RECV ip d)
       else proc_labels st q e)" for q e
    unfolding labels_cong(1) [OF core(1,2)] add_labels_domain(1) [OF assms(1,2,4)] by simp
  have "label_room n ?res"
    using add_labels_domain(2) [OF assms(1,2,4)] core by (simp add: label_room_def)
  then show ?thesis
    by (auto intro!: ifc_eqI simp: ifc_recv_def ifc_proc_join_def p labels_cong(2) [OF core(3)]
        labels_cong(3) [OF core(4)])
qed

lemma sources_cong:
  assumes "cap_maps.truncate s = cap_maps.truncate t"
  shows "file_sources s = file_sources t" "endp_sources s = endp_sources t" "domain_labels s = domain_labels t"
  by (simp_all add: file_sources_def endp_sources_def domain_labels_def fun_eq_iff
      domain_cong [OF assms] policy_cong [OF assms])

lemmas ifc_defs = ifc_proc_join_def ifc_read_def ifc_recv_def ifc_write_def ifc_connect_def ifc_exec_def
  ifc_fork_def ifc_exit_def ifc_file_join_def ifc_link_def ifc_rename_def ifc_swap_def Let_def

interpretation read_flow: flow "te_read_domain pid f path" pid
    "\<lambda>st. file_sources st TOP_OPEN path"
    "\<lambda>src D. ifc_read D pid f src"
  for pid f path
  by unfold_locales
    (simp_all add: read_domain_policy read_domain_step sources_cong [OF read_domain_policy], auto intro!: ifc_eqI simp: ifc_defs split: if_splits)

interpretation recv_flow: flow "te_recv_flow_domain ip pid" pid
    "\<lambda>st. endp_sources st TOP_RECV ip"
    "\<lambda>src D. ifc_recv D pid ip src"
  for pid ip
  by unfold_locales
    (simp_all add: recv_domain_policy recv_domain_step sources_cong [OF recv_domain_policy], auto intro!: ifc_eqI simp: ifc_defs split: if_splits)

section \<open>Writing and connecting\<close>

lemma stored_labels:
  assumes "te_pid_active st pid" and "cap_domain_matches_pid st pid d"
  shows "bits_of (te_labels_for_domain st pid d) = proc_labels st pid d \<union> domain_labels st pid d"
  using assms by (simp add: te_labels_for_domain_def proc_labels_def domain_labels_def Let_def split: option.split)

lemma file_modify_labels:
  assumes "\<And>fs. fs_labels (g fs) = fs_labels fs OR l"
  shows "file_labels (st\<lparr>ts_file := map_modify (te_file_domain_key_for d f) g (ts_file st)\<rparr>) h e =
    (if h = f \<and> e = d \<and> map_lookup (ts_file st) (te_file_domain_key_for d f) \<noteq> None
     then file_labels st h e \<union> bits_of l else file_labels st h e)"
  using assms by (auto simp: file_labels_def lookup_modify split: option.split)

lemma file_put_labels:
  assumes "room (ts_file st) (te_file_domain_key_for d f)"
  shows "file_labels (st\<lparr>ts_file := map_put (te_file_domain_key_for d f) fs (ts_file st)\<rparr>) h e =
    (if h = f \<and> e = d then bits_of (fs_labels fs) else file_labels st h e)"
  using assms by (auto simp: file_labels_def lookup_put)

text \<open>Joining labels into a file entry, through its pointer or as a new entry.\<close>

definition file_absorb :: "file_domain_id \<Rightarrow> (file_state \<Rightarrow> file_state) \<Rightarrow> file_state \<Rightarrow> 'a engine_scheme \<Rightarrow> 'a engine_scheme" where
  "file_absorb k g ns st =
     (case map_lookup (ts_file st) k of
        Some _ \<Rightarrow> st\<lparr>ts_file := map_modify k g (ts_file st)\<rparr>
      | None \<Rightarrow> st\<lparr>ts_file := map_put k ns (ts_file st)\<rparr>)"

lemma file_absorb_frame [simp]:
  "cap_maps.truncate (file_absorb k g ns st) = cap_maps.truncate st"
  "ts_proc (file_absorb k g ns st) = ts_proc st" "ts_proc_domains (file_absorb k g ns st) = ts_proc_domains st"
  "ts_endp (file_absorb k g ns st) = ts_endp st" "ts_root (file_absorb k g ns st) = ts_root st"
  by (simp_all add: file_absorb_def cap_maps.truncate_def split: option.split)

lemma file_absorb_labels:
  assumes "\<And>fs. fs_labels (g fs) = fs_labels fs OR l" and "fs_labels ns = l" and "label_room (Suc n) st"
  shows "file_labels (file_absorb (te_file_domain_key_for d f) g ns st) h e =
      (if h = f \<and> e = d then file_labels st h e \<union> bits_of l else file_labels st h e)"
    and "label_room n (file_absorb (te_file_domain_key_for d f) g ns st)"
proof -
  note room = label_roomD(3) [OF assms(3)]
  show "file_labels (file_absorb (te_file_domain_key_for d f) g ns st) h e =
      (if h = f \<and> e = d then file_labels st h e \<union> bits_of l else file_labels st h e)"
    using room assms(1,2)
    by (auto simp: file_absorb_def file_modify_labels [where l = l] file_put_labels split: option.split)
      (auto simp: file_labels_def)
  show "label_room n (file_absorb (te_file_domain_key_for d f) g ns st)"
    using assms(3) label_room_mono [OF assms(3)]
    by (auto simp: file_absorb_def label_room_def has_slots_put split: option.split)
qed

lemma write_domain_absorb:
  assumes "te_pid_active st pid" and "cap_domain_matches_pid st pid d"
  defines "pl \<equiv> te_labels_for_domain st pid d"
  shows "\<exists>ep mid. te_write_flow_domain pid f path d st =
      (if pl = 0 then mid
       else te_copy_proc_prov_to_file pid (te_file_domain_key_for d f) pl
              (file_absorb (te_file_domain_key_for d f)
                (\<lambda>fs. fs\<lparr>fs_labels := fs_labels fs OR pl, fs_last_write_epoch := ep\<rparr>)
                \<lparr>fs_labels = pl, fs_last_write_epoch = ep\<rparr> mid)) \<and>
    cap_maps.truncate mid = cap_maps.truncate st \<and> ts_proc mid = ts_proc st \<and>
    ts_proc_domains mid = ts_proc_domains st \<and> ts_file mid = ts_file st \<and> ts_endp mid = ts_endp st"
proof -
  let ?u = "te_collect_file_updates st (update_ctx pid d TOP_WRITE path 0)"
  let ?r = "te_root st pid"
  let ?t = "te_tick ?r d st"
  let ?mid = "if uc_gates ?u = 0 \<and> uc_invals ?u = 0 \<and> pl = 0 then st
    else if uc_gates ?u \<noteq> 0 \<or> uc_invals ?u \<noteq> 0 then te_stamp ?r d (fst ?t) (uc_gates ?u) (uc_invals ?u) (snd ?t)
    else snd ?t"
  show ?thesis
    using assms(1,2)
    by (intro exI [of _ "fst ?t"] exI [of _ ?mid])
      (auto simp: te_write_flow_domain_def Let_def case_prod_beta file_absorb_def pl_def)
qed

lemma write_domain_step:
  assumes "te_pid_active st pid" and "cap_domain_matches_pid st pid d" and "wf_tables st"
    and "label_room (Suc n) st"
  shows "ifc_of (te_write_flow_domain pid f path d st) = ifc_write {d} pid f (domain_labels st pid) (ifc_of st) \<and>
         label_room n (te_write_flow_domain pid f path d st)"
proof -
  let ?pl = "te_labels_for_domain st pid d"
  let ?k = "te_file_domain_key_for d f"
  obtain ep mid where res: "te_write_flow_domain pid f path d st =
      (if ?pl = 0 then mid
       else te_copy_proc_prov_to_file pid ?k ?pl
              (file_absorb ?k (\<lambda>fs. fs\<lparr>fs_labels := fs_labels fs OR ?pl, fs_last_write_epoch := ep\<rparr>)
                \<lparr>fs_labels = ?pl, fs_last_write_epoch = ep\<rparr> mid))"
    and mid: "ts_proc mid = ts_proc st" "ts_proc_domains mid = ts_proc_domains st" "ts_file mid = ts_file st"
      "ts_endp mid = ts_endp st"
    using write_domain_absorb [OF assms(1,2), of f path] by blast
  have room: "label_room (Suc n) mid" using assms(4) mid by (simp add: label_room_def)
  have pl: "bits_of ?pl = proc_labels st pid d \<union> domain_labels st pid d"
    by (rule stored_labels [OF assms(1,2)])
  let ?ab = "file_absorb ?k (\<lambda>fs. fs\<lparr>fs_labels := fs_labels fs OR ?pl, fs_last_write_epoch := ep\<rparr>)
      \<lparr>fs_labels = ?pl, fs_last_write_epoch = ep\<rparr> mid"
  have ab: "file_labels ?ab h e = (if h = f \<and> e = d then file_labels st h e \<union> bits_of ?pl else file_labels st h e)"
    "label_room n ?ab" for h e
    using file_absorb_labels [OF _ _ room, of _ ?pl] mid labels_cong(2) [of mid st] by simp_all
  show ?thesis
  proof (cases "?pl = 0")
    case True
    then have "proc_labels st pid d \<union> domain_labels st pid d = {}" using pl by simp
    with True mid room show ?thesis
      by (auto intro!: ifc_eqI label_room_mono simp: res ifc_defs labels_cong [of mid st] split: if_splits)
  next
    case False
    let ?res = "te_copy_proc_prov_to_file pid ?k ?pl ?ab"
    have c: "proc_labels ?res = proc_labels st" "file_labels ?res = file_labels ?ab" "endp_labels ?res = endp_labels st"
      by (rule labels_cong, simp_all add: mid)+
    have "label_room n ?res" using ab(2) by (simp add: label_room_def)
    with False c ab(1) pl show ?thesis
      by (auto intro!: ifc_eqI simp: res ifc_defs)
  qed
qed

lemma write_domain_policy: "cap_maps.truncate (te_write_flow_domain pid f path d st) = cap_maps.truncate st"
  by (simp add: te_write_flow_domain_def Let_def case_prod_beta split: option.split)

interpretation write_flow: flow "te_write_flow_domain pid f path" pid
    "\<lambda>st. domain_labels st pid"
    "\<lambda>own D. ifc_write D pid f own"
  for pid f path
  by unfold_locales
    (simp_all add: write_domain_policy write_domain_step sources_cong [OF write_domain_policy], auto intro!: ifc_eqI simp: ifc_defs split: if_splits)

lemma connect_domain_policy: "cap_maps.truncate (te_connect_flow_domain ip pid d st) = cap_maps.truncate st"
  by (simp add: te_connect_flow_domain_def Let_def)

lemma connect_domain_step:
  assumes "te_pid_active st pid" and "cap_domain_matches_pid st pid d" and "wf_tables st"
    and "label_room (Suc n) st"
  shows "ifc_of (te_connect_flow_domain ip pid d st) =
           ifc_connect {d} pid ip (endp_sources st TOP_CONNECT ip) (domain_labels st pid) (ifc_of st) \<and>
         label_room n (te_connect_flow_domain ip pid d st)"
proof -
  let ?src = "te_update_add_connect_domain st ip pid d"
  let ?mid = "te_add_labels_domain pid d ?src st"
  let ?m2 = "if ?src \<noteq> 0 then te_record_proc_prov_mask pid d ?src (ucast TOP_CONNECT) None ip ?mid else ?mid"
  let ?k = "te_endp_domain_key_for d ip"
  let ?pl = "te_labels_for_domain ?m2 pid d"
  let ?nv = "(case map_lookup (ts_endp st) ?k of None \<Rightarrow> 0 | Some el \<Rightarrow> el) OR ?pl"
  let ?res = "te_connect_flow_domain ip pid d st"
  have tr: "cap_maps.truncate ?m2 = cap_maps.truncate st" by simp
  have m2: "ts_proc ?m2 = ts_proc ?mid" "ts_proc_domains ?m2 = ts_proc_domains ?mid"
    "ts_file ?m2 = ts_file st" "ts_endp ?m2 = ts_endp st" by simp_all
  have core: "ts_proc ?res = ts_proc ?mid" "ts_proc_domains ?res = ts_proc_domains ?mid" "ts_file ?res = ts_file st"
    "ts_endp ?res = (if ?pl = 0 then ts_endp st else map_put ?k ?nv (ts_endp st))"
    using assms(1,2) by (simp_all add: te_connect_flow_domain_def Let_def)
  have src: "bits_of ?src = endp_sources st TOP_CONNECT ip d"
    using assms by (simp add: te_update_add_connect_domain_def te_update_add_endpoint_domain_def endp_updates_add)
  note add = add_labels_domain [OF assms(1,2,4), of ?src]
  have p: "proc_labels ?m2 q e = (if q = pid \<and> e = d then proc_labels st q e \<union> endp_sources st TOP_CONNECT ip d
      else proc_labels st q e)" for q e
    unfolding labels_cong(1) [OF m2(1,2)] add(1) src by simp
  have "bits_of ?pl = proc_labels ?m2 pid d \<union> domain_labels ?m2 pid d"
    using assms(1,2) domain_cong [OF tr] by (intro stored_labels) auto
  then have pl: "bits_of ?pl = proc_labels st pid d \<union> endp_sources st TOP_CONNECT ip d \<union> domain_labels st pid d"
    unfolding sources_cong(3) [OF tr] p by simp
  have e: "endp_labels ?res i e =
      (if i = ip \<and> e = d then endp_labels st i e \<union> bits_of ?pl else endp_labels st i e)" for i e
    using label_roomD(4) [OF assms(4)]
    by (auto simp: endp_labels_def core lookup_put split: option.split)
  have "label_room n ?res"
    using add(2) assms(4) core
    by (auto simp: label_room_def has_slots_put)
  then show ?thesis
    using labels_cong(1) [OF core(1,2)] labels_cong(1) [OF m2(1,2)] labels_cong(2) [OF core(3)] p e pl
    by (auto intro!: ifc_eqI simp: ifc_defs split: if_splits)
qed

interpretation connect_flow: flow "te_connect_flow_domain ip pid" pid
    "\<lambda>st. (endp_sources st TOP_CONNECT ip, domain_labels st pid)"
    "\<lambda>(src, own) D. ifc_connect D pid ip src own"
  for pid ip
  by unfold_locales
    (simp_all add: connect_domain_policy connect_domain_step sources_cong [OF connect_domain_policy], auto intro!: ifc_eqI simp: ifc_defs split: if_splits)

section \<open>Exec, fork and exit\<close>

definition exec_adds :: "'a engine_scheme \<Rightarrow> bytes \<Rightarrow> u32 \<Rightarrow> nat set" where
  "exec_adds st comm d = (\<Union>u \<in> exec_matches st comm d. bits_of (up_add u))"

definition exec_dels :: "'a engine_scheme \<Rightarrow> bytes \<Rightarrow> u32 \<Rightarrow> nat set" where
  "exec_dels st comm d = (\<Union>u \<in> exec_matches st comm d. bits_of (up_del u))"

lemma exec_apply_core:
  fixes st :: "'a engine_scheme"
  defines "stored \<equiv> \<lambda>c pid d. te_store_proc_domain pid d
      ((case te_get_domain st pid d of None \<Rightarrow> \<lparr>ps_labels = 0, ps_lin_gates = 0\<rparr> | Some p \<Rightarrow> p)
         \<lparr>ps_labels := (ps_labels (case te_get_domain st pid d of None \<Rightarrow> \<lparr>ps_labels = 0, ps_lin_gates = 0\<rparr> | Some p \<Rightarrow> p)
            OR uc_add c) AND NOT (uc_del c),
          ps_lin_gates := ps_lin_gates (case te_get_domain st pid d of None \<Rightarrow> \<lparr>ps_labels = 0, ps_lin_gates = 0\<rparr> | Some p \<Rightarrow> p)
            OR uc_gates c\<rparr>) st"
  shows "cap_maps.truncate (te_exec_apply pid comm d c st) = cap_maps.truncate (stored c pid d)"
    and "ts_proc (te_exec_apply pid comm d c st) = ts_proc (stored c pid d)"
    and "ts_proc_domains (te_exec_apply pid comm d c st) = ts_proc_domains (stored c pid d)"
    and "ts_file (te_exec_apply pid comm d c st) = ts_file (stored c pid d)"
    and "ts_endp (te_exec_apply pid comm d c st) = ts_endp (stored c pid d)"
    and "ts_root (te_exec_apply pid comm d c st) = ts_root (stored c pid d)"
    and "ts_argslots (te_exec_apply pid comm d c st) = ts_argslots (stored c pid d)"
  unfolding stored_def by (simp_all add: te_exec_apply_def Let_def case_prod_beta)

lemma store_proc_domain_frame [simp]:
  "cap_maps.truncate (te_store_proc_domain pid d ns st) = cap_maps.truncate st"
  "ts_argslots (te_store_proc_domain pid d ns st) = ts_argslots st"
  by (simp_all add: te_store_proc_domain_def)

lemma exec_domain_policy:
  "cap_maps.truncate (te_exec_update_domain pid comm d st) = cap_maps.truncate st"
  "ts_argslots (te_exec_update_domain pid comm d st) = ts_argslots st"
  by (simp_all add: te_exec_update_domain_def exec_apply_core)

lemma exec_sets_cong:
  assumes "cap_maps.truncate s = cap_maps.truncate t" and "ts_argslots s = ts_argslots t"
  shows "exec_adds s = exec_adds t" "exec_dels s = exec_dels t"
  by (simp_all add: exec_adds_def exec_dels_def exec_matches_def arg_ok_def fun_eq_iff
      domain_cong [OF assms(1)] assms(2))

lemma exec_domain_step:
  assumes "te_pid_active st pid" and "cap_domain_matches_pid st pid d" and "wf_tables st"
    and "label_room (Suc n) st"
  shows "ifc_of (te_exec_update_domain pid comm d st) =
           ifc_exec {d} pid (exec_adds st comm) (exec_dels st comm) (ifc_of st) \<and>
         label_room n (te_exec_update_domain pid comm d st)"
proof -
  let ?c = "te_collect_updates st (update_ctx pid d TOP_EXEC comm 0)"
  let ?p = "case te_get_domain st pid d of None \<Rightarrow> \<lparr>ps_labels = 0, ps_lin_gates = 0\<rparr> | Some p \<Rightarrow> p"
  let ?ns = "?p\<lparr>ps_labels := (ps_labels ?p OR uc_add ?c) AND NOT (uc_del ?c),
      ps_lin_gates := ps_lin_gates ?p OR uc_gates ?c\<rparr>"
  let ?mid = "te_store_proc_domain pid d ?ns st"
  let ?res = "te_exec_update_domain pid comm d st"
  have core: "ts_proc ?res = ts_proc ?mid" "ts_proc_domains ?res = ts_proc_domains ?mid"
    "ts_file ?res = ts_file st" "ts_endp ?res = ts_endp st"
    using assms(1,2) store_proc_domain(3,4) [OF assms(4)]
    by (simp_all add: te_exec_update_domain_def exec_apply_core)
  have "bits_of (ps_labels ?p) = proc_labels st pid d"
    by (simp add: proc_labels_def split: option.split)
  then have p: "proc_labels ?res q e =
      (if q = pid \<and> e = d then proc_labels st q e \<union> exec_adds st comm d - exec_dels st comm d else proc_labels st q e)"
    for q e
    unfolding labels_cong(1) [OF core(1,2)]
    by (simp add: proc_labels_def store_proc_domain(2) [OF assms(4)] exec_updates_collect [OF assms(3)]
        exec_adds_def exec_dels_def del: bits_of_and)
  have "label_room n ?res"
    using store_proc_domain(6) [OF assms(4)] core store_proc_domain(3,4) [OF assms(4)] by (simp add: label_room_def)
  then show ?thesis
    by (auto intro!: ifc_eqI simp: ifc_defs p labels_cong(2) [OF core(3)] labels_cong(3) [OF core(4)] split: if_splits)
qed

interpretation exec_flow: flow "te_exec_update_domain pid comm" pid
    "\<lambda>st. (exec_adds st comm, exec_dels st comm)" "\<lambda>(add, del) D. ifc_exec D pid add del"
  for pid comm
  by unfold_locales
    (simp_all add: exec_domain_policy(1) exec_domain_step exec_sets_cong [OF exec_domain_policy],
     auto intro!: ifc_eqI simp: ifc_defs split: if_splits)

lemma copy_proc_domain_policy:
  "cap_maps.truncate (te_copy_proc_domain_state p c d st) = cap_maps.truncate st"
  by (simp add: te_copy_proc_domain_state_def Let_def split: option.split)

text \<open>The walk of a fork goes over the parent's domains, writing the child's entries.\<close>

lemma copy_proc_domain_step:
  assumes "label_room (Suc n) st"
  shows "proc_labels (te_copy_proc_domain_state p c d st) q e =
      (if q = c \<and> e = d \<and> te_get_domain st p d \<noteq> None then proc_labels st p d else proc_labels st q e)"
    and "te_get_domain (te_copy_proc_domain_state p c d st) q e =
      (if q = c \<and> e = d \<and> te_get_domain st p d \<noteq> None then te_get_domain st p d else te_get_domain st q e)"
    and "ts_file (te_copy_proc_domain_state p c d st) = ts_file st"
    and "ts_endp (te_copy_proc_domain_state p c d st) = ts_endp st"
    and "ts_root (te_copy_proc_domain_state p c d st) = ts_root st"
    and "label_room n (te_copy_proc_domain_state p c d st)"
proof -
  have g: "te_get_domain (te_copy_proc_domain_state p c d st) q e =
      (if q = c \<and> e = d \<and> te_get_domain st p d \<noteq> None then te_get_domain st p d else te_get_domain st q e)" for q e
    using label_roomD [OF assms]
    by (auto simp: te_copy_proc_domain_state_def te_get_domain_def te_get_def lookup_put Let_def split: option.split)
  then show "te_get_domain (te_copy_proc_domain_state p c d st) q e =
      (if q = c \<and> e = d \<and> te_get_domain st p d \<noteq> None then te_get_domain st p d else te_get_domain st q e)" .
  from g show "proc_labels (te_copy_proc_domain_state p c d st) q e =
      (if q = c \<and> e = d \<and> te_get_domain st p d \<noteq> None then proc_labels st p d else proc_labels st q e)"
    by (simp only: proc_labels_def if_distrib [of "\<lambda>x. case x of None \<Rightarrow> {} | Some p \<Rightarrow> bits_of (ps_labels p)"])
  show "ts_file (te_copy_proc_domain_state p c d st) = ts_file st"
    "ts_endp (te_copy_proc_domain_state p c d st) = ts_endp st"
    "ts_root (te_copy_proc_domain_state p c d st) = ts_root st"
    by (simp_all add: te_copy_proc_domain_state_def Let_def split: option.split)
  show "label_room n (te_copy_proc_domain_state p c d st)"
    using assms label_room_mono [OF assms]
    by (auto simp: te_copy_proc_domain_state_def label_room_def has_slots_put Let_def split: option.split)
qed

lemma copy_proc_domain_has:
  "te_get_domain (te_copy_proc_domain_state p c d st) p e \<noteq> None \<longleftrightarrow> te_get_domain st p e \<noteq> None"
  by (auto simp: te_copy_proc_domain_state_def te_get_domain_def te_get_def lookup_put Let_def split: option.splits)

interpretation fork_flow: flow "te_copy_proc_domain_state p c" p
    "\<lambda>st e. te_get_domain st p e \<noteq> None"
    "\<lambda>has D s. s\<lparr>i_proc := (\<lambda>q d. if q = c \<and> d \<in> D \<and> has d then i_proc s p d else i_proc s q d)\<rparr>"
  for p c
proof unfold_locales
  fix d n and st :: "'a engine_scheme"
  assume "label_room (Suc n) st"
  note step = copy_proc_domain_step [OF this, of p c d]
  show "ifc_of (te_copy_proc_domain_state p c d st) = (ifc_of st)\<lparr>i_proc := \<lambda>q e. if q = c \<and> e \<in> {d} \<and>
          te_get_domain st p e \<noteq> None then i_proc (ifc_of st) p e else i_proc (ifc_of st) q e\<rparr> \<and>
        label_room n (te_copy_proc_domain_state p c d st)"
    using step(6) by (auto intro!: ifc_eqI simp: step(1) labels_cong(2) [OF step(3)] labels_cong(3) [OF step(4)]
        split: if_splits)
qed (simp_all only: copy_proc_domain_policy copy_proc_domain_has, auto intro!: ifc_eqI split: if_splits)

lemma cap_fork_frame [simp]:
  "ts_proc (cap_fork p c st) = ts_proc st" "ts_proc_domains (cap_fork p c st) = ts_proc_domains st"
  "ts_file (cap_fork p c st) = ts_file st" "ts_endp (cap_fork p c st) = ts_endp st"
  "ts_root (cap_fork p c st) = ts_root st"
  by (simp_all add: cap_fork_def split: option.split)

lemma cap_fork_tables [simp]:
  "ts_updates (cap_fork p c st) = ts_updates st" "ts_rules (cap_fork p c st) = ts_rules st"
  "ts_counts (cap_fork p c st) = ts_counts st" "cap_states (cap_fork p c st) = cap_states st"
  "cap_stats (cap_fork p c st) = cap_stats st" "wf_tables (cap_fork p c st) = wf_tables st"
  "policy_features (cap_fork p c st) = policy_features st" "cap_policy (cap_fork p c st) = cap_policy st"
  "map_lookup (cap_task (cap_fork p c st)) p = map_lookup (cap_task st) p"
  by (simp_all add: cap_fork_def wf_tables_def lookup_put split: option.split)

lemma cap_fork_parent [simp]:
  "te_pid_active (cap_fork p c st) p = te_pid_active st p" "te_domains (cap_fork p c st) p = te_domains st p"
  by (simp_all add: te_pid_active_def cap_task_bound_def te_domains_def cap_domain_for_pid_def
      cap_chain_parents [of "cap_fork p c st" st])

lemma fork_refines:
  assumes "te_pid_active st p" and "wf_tables st" and "distinct (te_domains st p)"
    and "label_room CAP_DOMAIN_DEPTH st" and "\<And>d. d \<in> set (te_domains st p) \<Longrightarrow> te_get_domain st c d = None"
  shows "ifc_of (te_fork p c st) = ifc_fork (set (te_domains st p)) p c (ifc_of st)"
proof -
  let ?st1 = "cap_fork p c st"
  let ?st2 = "domain_loop p (te_copy_proc_domain_state p c) ?st1"
  have same: "te_get_domain ?st1 = te_get_domain st" "ifc_of ?st1 = ifc_of st"
    by (auto simp: te_get_domain_def te_get_def fun_eq_iff ifc_of_def proc_labels_def file_labels_def endp_labels_def)
  have "label_room CAP_DOMAIN_DEPTH ?st1" using assms(4) by (simp add: label_room_def)
  then have "ifc_of ?st2 = (ifc_of st)\<lparr>i_proc := \<lambda>q d. if q = c \<and> d \<in> set (te_domains st p) \<and> te_get_domain st p d \<noteq> None
      then proc_labels st p d else proc_labels st q d\<rparr>"
    using fork_flow.refines [of ?st1 p c] assms(1-3) by (simp add: same cong: if_cong)
  moreover have "ifc_of (te_fork p c st) = ifc_of ?st2"
    using assms(1)
    by (simp add: te_fork_def Let_def ifc_of_def proc_labels_def file_labels_def endp_labels_def
        te_get_domain_def te_get_def fun_eq_iff)
  ultimately show ?thesis
    using assms(5) by (auto intro!: ifc_eqI simp: ifc_defs proc_labels_def split: option.splits if_splits)
qed

lemma delete_proc_domain:
  shows "cap_maps.truncate (te_delete_proc_domain pid d st) = cap_maps.truncate st"
    and "te_get_domain (te_delete_proc_domain pid d st) q e =
           (if q = pid \<and> e = d then None else te_get_domain st q e)"
    and "ts_file (te_delete_proc_domain pid d st) = ts_file st"
    and "ts_endp (te_delete_proc_domain pid d st) = ts_endp st"
    and "ts_root (te_delete_proc_domain pid d st) = ts_root st"
    and "label_room n st \<Longrightarrow> label_room n (te_delete_proc_domain pid d st)"
  by (auto simp: te_delete_proc_domain_def Let_def te_get_domain_def te_get_def lookup_delete label_room_def
      has_slots_delete)

lemma exit_domain_frame:
  "\<exists>mid. te_exit_domain pid status d st = te_delete_proc_domain pid d mid \<and>
     cap_maps.truncate mid = cap_maps.truncate st \<and> ts_proc mid = ts_proc st \<and>
     ts_proc_domains mid = ts_proc_domains st \<and> ts_file mid = ts_file st \<and> ts_endp mid = ts_endp st \<and>
     ts_root mid = ts_root st"
  unfolding te_exit_domain_def Let_def by (rule exI, rule conjI, rule refl) (simp split: option.split)

lemma exit_domain_policy: "cap_maps.truncate (te_exit_domain pid status d st) = cap_maps.truncate st"
  using exit_domain_frame [of pid status d st] by (auto simp: delete_proc_domain)

lemma exit_domain_step:
  assumes "label_room (Suc n) st"
  shows "ifc_of (te_exit_domain pid status d st) = ifc_exit {d} pid (ifc_of st) \<and>
         label_room n (te_exit_domain pid status d st)"
proof -
  obtain mid where res: "te_exit_domain pid status d st = te_delete_proc_domain pid d mid"
    and mid: "ts_proc mid = ts_proc st" "ts_proc_domains mid = ts_proc_domains st" "ts_file mid = ts_file st"
      "ts_endp mid = ts_endp st"
    using exit_domain_frame by blast
  let ?res = "te_delete_proc_domain pid d mid"
  have p: "proc_labels ?res q e = (if q = pid \<and> e = d then {} else proc_labels st q e)" for q e
    using labels_cong(1) [OF mid(1,2)] by (auto simp: proc_labels_def delete_proc_domain(2) fun_eq_iff)
  have "label_room n mid" using label_room_mono [OF assms] mid by (simp add: label_room_def)
  moreover have "file_labels ?res = file_labels st" "endp_labels ?res = endp_labels st"
    by (rule labels_cong, simp add: delete_proc_domain mid)+
  ultimately show ?thesis
    unfolding res by (auto intro!: ifc_eqI delete_proc_domain(6) simp: ifc_defs p split: if_splits)
qed

interpretation exit_flow: flow "te_exit_domain pid status" pid "\<lambda>st. ()" "\<lambda>_ D. ifc_exit D pid"
  for pid status
  by unfold_locales
    (simp_all add: exit_domain_policy exit_domain_step, auto intro!: ifc_eqI simp: ifc_defs split: if_splits)

lemma exit_ifc: "ifc_of (te_exit pid status st) = ifc_of (domain_loop pid (te_exit_domain pid status) st)"
  by (simp add: te_exit_def Let_def cap_exit_def ifc_of_def proc_labels_def file_labels_def endp_labels_def
      te_get_domain_def te_get_def fun_eq_iff)

section \<open>File sources, links and renames\<close>

lemma update_add_file:
  assumes "te_pid_active st pid" and "cap_domain_matches_pid st pid d" and "wf_tables st"
  shows "bits_of (te_update_add_file_domain st op path pid d) = file_sources st op path d"
  using assms by (simp add: te_update_add_file_domain_def file_updates_add)

lemma materialize_domain_policy:
  "cap_maps.truncate (te_materialize_file_source_domain pid f path d st) = cap_maps.truncate st"
  by (simp add: te_materialize_file_source_domain_def Let_def split: option.split)

lemma materialize_domain_step:
  assumes "te_pid_active st pid" and "cap_domain_matches_pid st pid d" and "wf_tables st"
    and "label_room (Suc n) st"
  shows "ifc_of (te_materialize_file_source_domain pid f path d st) =
           ifc_file_join {d} f (file_sources st TOP_OPEN path) (ifc_of st) \<and>
         label_room n (te_materialize_file_source_domain pid f path d st)"
proof -
  let ?src = "te_update_add_file_domain st TOP_OPEN path pid d"
  let ?k = "te_file_domain_key_for d f"
  let ?ab = "file_absorb ?k (\<lambda>fs. fs\<lparr>fs_labels := fs_labels fs OR ?src\<rparr>)
      \<lparr>fs_labels = ?src, fs_last_write_epoch = 0\<rparr> st"
  let ?res = "te_materialize_file_source_domain pid f path d st"
  note src = update_add_file [OF assms(1,2,3), of TOP_OPEN path]
  have ab: "file_labels ?ab h e = (if h = f \<and> e = d then file_labels st h e \<union> bits_of ?src else file_labels st h e)"
    "label_room n ?ab" for h e
    using file_absorb_labels [OF _ _ assms(4), of _ ?src] by simp_all
  show ?thesis
  proof (cases "?src = 0")
    case True
    then have "file_sources st TOP_OPEN path d = {}" using src by simp
    with True label_room_mono [OF assms(4)] show ?thesis
      by (auto intro!: ifc_eqI simp: te_materialize_file_source_domain_def ifc_defs split: if_splits)
  next
    case False
    then have core: "ts_proc ?res = ts_proc st" "ts_proc_domains ?res = ts_proc_domains st"
      "ts_file ?res = ts_file ?ab" "ts_endp ?res = ts_endp st"
      by (simp_all add: te_materialize_file_source_domain_def Let_def file_absorb_def split: option.split)
    have "label_room n ?res" using ab(2) core by (simp add: label_room_def)
    then show ?thesis
      using labels_cong(1) [OF core(1,2)] labels_cong(2) [OF core(3)] labels_cong(3) [OF core(4)] ab(1) src
      by (auto intro!: ifc_eqI simp: ifc_defs split: if_splits)
  qed
qed

interpretation materialize_flow: flow "te_materialize_file_source_domain pid f path" pid
    "\<lambda>st. file_sources st TOP_OPEN path" "\<lambda>src D. ifc_file_join D f src"
  for pid f path
  by unfold_locales
    (simp_all add: materialize_domain_policy materialize_domain_step sources_cong [OF materialize_domain_policy],
     auto intro!: ifc_eqI simp: ifc_defs split: if_splits)

lemma copy_file_domain_policy:
  "cap_maps.truncate (te_copy_file_state_domain pid f g del d st) = cap_maps.truncate st"
  by (simp add: te_copy_file_state_domain_def Let_def split: option.split)

lemma copy_file_domain_frame:
  "ts_proc (te_copy_file_state_domain pid f g del d st) = ts_proc st"
  "ts_proc_domains (te_copy_file_state_domain pid f g del d st) = ts_proc_domains st"
  "ts_endp (te_copy_file_state_domain pid f g del d st) = ts_endp st"
  "ts_root (te_copy_file_state_domain pid f g del d st) = ts_root st"
  by (simp_all add: te_copy_file_state_domain_def Let_def split: option.split)

lemma copy_file_link_step:
  assumes "te_pid_active st pid" and "cap_domain_matches_pid st pid d" and "wf_tables st"
    and "label_room (Suc n) st"
  shows "ifc_of (te_copy_file_state_domain pid f g False d st) = ifc_link {d} f g (ifc_of st) \<and>
         label_room n (te_copy_file_state_domain pid f g False d st)"
proof -
  let ?from = "te_file_domain_key_for d f" and ?to = "te_file_domain_key_for d g"
  let ?l = "case map_lookup (ts_file st) ?from of None \<Rightarrow> 0 | Some fs \<Rightarrow> fs_labels fs"
  let ?w = "case map_lookup (ts_file st) ?from of None \<Rightarrow> 0 | Some fs \<Rightarrow> fs_last_write_epoch fs"
  let ?upd = "\<lambda>d. let d = d\<lparr>fs_labels := fs_labels d OR ?l\<rparr>
      in if ?w > fs_last_write_epoch d then d\<lparr>fs_last_write_epoch := ?w\<rparr> else d"
  let ?ab = "file_absorb ?to ?upd \<lparr>fs_labels = ?l, fs_last_write_epoch = ?w\<rparr> st"
  let ?res = "te_copy_file_state_domain pid f g False d st"
  note fr = copy_file_domain_frame [of pid f g False d st]
  have l: "bits_of ?l = file_labels st f d" by (simp add: file_labels_def split: option.split)
  have ab: "file_labels ?ab h e = (if h = g \<and> e = d then file_labels st h e \<union> bits_of ?l else file_labels st h e)"
    "label_room n ?ab" for h e
    using file_absorb_labels [OF _ _ assms(4), of ?upd ?l] by (simp_all add: Let_def)
  show ?thesis
  proof (cases "?l = 0")
    case True
    then have "file_labels st f d = {}" using l by simp
    moreover have "?res = st" using True assms(1,2) by (simp add: te_copy_file_state_domain_def Let_def)
    ultimately show ?thesis
      using label_room_mono [OF assms(4)] by (auto intro!: ifc_eqI simp: ifc_defs split: if_splits)
  next
    case False
    then have f: "ts_file ?res = ts_file ?ab"
      using assms(1,2) by (simp add: te_copy_file_state_domain_def Let_def file_absorb_def split: option.split)
    have "label_room n ?res" using ab(2) f fr by (simp add: label_room_def)
    then show ?thesis
      using labels_cong(1) [OF fr(1,2)] labels_cong(2) [OF f] labels_cong(3) [OF fr(3)] ab(1) l
      by (auto intro!: ifc_eqI simp: ifc_defs split: if_splits)
  qed
qed

lemma copy_file_rename_step:
  assumes "te_pid_active st pid" and "cap_domain_matches_pid st pid d" and "wf_tables st"
    and "label_room (Suc n) st"
  shows "ifc_of (te_copy_file_state_domain pid f g True d st) = ifc_rename {d} f g (ifc_of st) \<and>
         label_room n (te_copy_file_state_domain pid f g True d st)"
proof -
  let ?from = "te_file_domain_key_for d f" and ?to = "te_file_domain_key_for d g"
  let ?l = "case map_lookup (ts_file st) ?from of None \<Rightarrow> 0 | Some fs \<Rightarrow> fs_labels fs"
  let ?w = "case map_lookup (ts_file st) ?from of None \<Rightarrow> 0 | Some fs \<Rightarrow> fs_last_write_epoch fs"
  let ?m1 = "if ?l \<noteq> 0 then map_put ?to \<lparr>fs_labels = ?l, fs_last_write_epoch = ?w\<rparr> (ts_file st)
    else map_delete ?to (ts_file st)"
  let ?res = "te_copy_file_state_domain pid f g True d st"
  note fr = copy_file_domain_frame [of pid f g True d st]
  have l: "bits_of ?l = file_labels st f d" by (simp add: file_labels_def split: option.split)
  have fm: "ts_file ?res = (if map_lookup (ts_file st) ?from \<noteq> None then map_delete ?from ?m1 else ?m1)"
    using assms(1,2) by (simp add: te_copy_file_state_domain_def Let_def)
  have lab: "file_labels ?res h e =
      (if e \<noteq> d then file_labels st h e else if h = f then {} else if h = g then bits_of ?l else file_labels st h e)"
    for h e
    using label_roomD(3) [OF assms(4)]
    by (auto simp: file_labels_def fm map_lookup_simps split: option.split)
  have "has_slots n ?m1"
    using assms(4) label_room_mono [OF assms(4)] by (simp add: label_room_def has_slots_put has_slots_delete)
  then have "label_room n ?res"
    using label_room_mono [OF assms(4)] fr by (auto simp: label_room_def fm has_slots_delete)
  then show ?thesis
    using labels_cong(1) [OF fr(1,2)] labels_cong(3) [OF fr(3)] lab l
    by (auto intro!: ifc_eqI simp: ifc_defs split: if_splits)
qed

interpretation link_flow: flow "te_copy_file_state_domain pid f g False" pid "\<lambda>st. ()" "\<lambda>_ D. ifc_link D f g"
  for pid f g
  by unfold_locales
    (simp_all add: copy_file_domain_policy copy_file_link_step, auto intro!: ifc_eqI simp: ifc_defs split: if_splits)

interpretation rename_flow: flow "te_copy_file_state_domain pid f g True" pid "\<lambda>st. ()" "\<lambda>_ D. ifc_rename D f g"
  for pid f g
  by unfold_locales
    (simp_all add: copy_file_domain_policy copy_file_rename_step, auto intro!: ifc_eqI simp: ifc_defs split: if_splits)

lemma xor_ones:
  fixes v w :: u32
  assumes "v XOR w XOR - 1 = v"
  shows "w = - 1"
proof (rule bit_word_eqI)
  fix n assume n: "n < LENGTH(32)"
  have "bit (v XOR w XOR - 1) n = bit v n" by (simp only: assms)
  with n show "bit w n = bit (- 1 :: u32) n" by (auto simp: bit_simps)
qed

lemma swap_tmp_fresh:
  assumes "fi_dev f \<noteq> 0xffffffff" and "fi_dev g \<noteq> 0xffffffff"
  shows "swap_tmp_fid now f g \<noteq> f" and "swap_tmp_fid now f g \<noteq> g"
proof -
  have dev: "fi_dev (swap_tmp_fid now f g) = fi_dev f XOR fi_dev g XOR 0xffffffff"
    by (simp add: swap_tmp_fid_def Let_def)
  have dev': "fi_dev (swap_tmp_fid now f g) = fi_dev g XOR fi_dev f XOR 0xffffffff"
    unfolding dev by (rule xor.left_commute)
  have ones: "(0xffffffff :: u32) = - 1" by simp
  show "swap_tmp_fid now f g \<noteq> f"
    using assms(2) xor_ones [of "fi_dev f" "fi_dev g"] dev unfolding ones by metis
  show "swap_tmp_fid now f g \<noteq> g"
    using assms(1) xor_ones [of "fi_dev g" "fi_dev f"] dev' unfolding ones by metis
qed

lemma ifc_tick [simp]: "ifc_of (st\<lparr>ktick := t\<rparr>) = ifc_of st" "label_room n (st\<lparr>ktick := t\<rparr>) = label_room n st"
  by (simp_all add: ifc_of_def proc_labels_def file_labels_def endp_labels_def te_get_domain_def te_get_def
      fun_eq_iff label_room_def)

lemma swap_refines:
  assumes act: "te_pid_active st pid" "wf_tables st" "distinct (te_domains st pid)"
    and room: "label_room (3 * CAP_DOMAIN_DEPTH) st"
    and fresh: "t \<noteq> f" "t \<noteq> g" "f \<noteq> g" and empty: "\<And>d. file_labels st t d = {}"
    and t: "t = swap_tmp_fid (ktime st (ktick st)) f g"
  shows "ifc_of (te_swap_file_state pid f g st) = ifc_swap (set (te_domains st pid)) f g (ifc_of st)"
proof -
  let ?D = "set (te_domains st pid)"
  let ?s0 = "st\<lparr>ktick := Suc (ktick st)\<rparr>"
  let ?s1 = "te_copy_file_state pid g t True ?s0"
  let ?s2 = "te_copy_file_state pid f g True ?s1"
  have p0: "cap_maps.truncate ?s0 = cap_maps.truncate st" by simp
  have p1: "cap_maps.truncate ?s1 = cap_maps.truncate st"
    by (simp add: te_copy_file_state_def rename_flow.policy)
  have p2: "cap_maps.truncate ?s2 = cap_maps.truncate st"
    by (simp add: te_copy_file_state_def rename_flow.policy)
  note same0 = domain_cong [OF p0] and same1 = domain_cong [OF p1] and same2 = domain_cong [OF p2]
  have r1: "label_room (2 * CAP_DOMAIN_DEPTH) ?s1"
    unfolding te_copy_file_state_def by (rule rename_flow.loop_room) (use act room in \<open>simp_all add: same0\<close>)
  have r2: "label_room CAP_DOMAIN_DEPTH ?s2"
    unfolding te_copy_file_state_def [of pid f g]
    by (rule rename_flow.loop_room) (use act r1 in \<open>simp_all add: same1\<close>)
  have "ifc_of ?s1 = ifc_rename ?D g t (ifc_of ?s0)"
    unfolding te_copy_file_state_def
    using rename_flow.refines [of ?s0 pid g t] act label_room_le [OF room, of 8] by (simp add: same0)
  moreover have "ifc_of ?s2 = ifc_rename ?D f g (ifc_of ?s1)"
    unfolding te_copy_file_state_def [of pid f g]
    using rename_flow.refines [of ?s1 pid f g] act label_room_le [OF r1, of 8] by (simp add: same1)
  moreover have "ifc_of (te_copy_file_state pid t f True ?s2) = ifc_rename ?D t f (ifc_of ?s2)"
    unfolding te_copy_file_state_def [of pid t f]
    using rename_flow.refines [of ?s2 pid t f] act r2 by (simp add: same2)
  moreover have "te_swap_file_state pid f g st = te_copy_file_state pid t f True ?s2"
    by (simp add: te_swap_file_state_def Let_def t)
  ultimately show ?thesis
    using fresh empty by (auto intro!: ifc_eqI simp: ifc_defs split: if_splits)
qed

end
