(* ===== verification/Flow_Properties.thy ===== *)
theory Flow_Properties
  imports Label_Semantics
begin

text \<open>
  The refinement theorems of the flows, one per operation of the engine, for whole operations (the loop
  over the domains of the acting process included). \<open>te_domains st pid\<close> is the list of domains the
  operation acts on: the global domain and the path from the task's domain to the root.
\<close>

section \<open>A concrete state\<close>

lemma demo_lookups:
  "map_lookup (cap_task demo_engine) 100 = Some 1" "map_lookup (cap_task demo_engine) 200 = Some 2"
  "cap_parent_domain demo_engine 1 = 0" "cap_parent_domain demo_engine 2 = 1"
  by (simp_all add: demo_engine_def engine_example_defs example_simps cap_parent_domain_def)

lemma demo_active: "te_pid_active demo_engine 100" "te_pid_active demo_engine 200"
  by (simp_all add: te_pid_active_def cap_task_bound_def demo_lookups)

lemma demo_domains: "te_domains demo_engine 100 = [0, 1]" "te_domains demo_engine 200 = [0, 2, 1]"
  by (simp_all add: te_domains_def cap_domain_for_pid_def demo_lookups numeral_eq_Suc)

lemma demo_room: "n \<le> 16384 \<Longrightarrow> label_room n demo_engine"
  by (simp add: label_room_def has_slots_def demo_engine_def engine_example_defs hash_new_def)

lemma demo_empty:
  "te_get_domain demo_engine q d = None" "file_labels demo_engine f d = {}"
  by (simp_all add: te_get_domain_def te_get_def file_labels_def demo_engine_def engine_example_defs)

section \<open>Properties\<close>

text \<open>C6: a read joins the file's labels and the matching sources into the reading process, in each of
  its domains, and changes nothing else: no other process, no other domain, no file, no endpoint.\<close>

theorem te_read_refines:
  assumes "te_pid_active st pid" and "wf_tables st" and "distinct (te_domains st pid)"
    and "label_room CAP_DOMAIN_DEPTH st"
  shows "ifc_of (te_read pid f path st) =
    ifc_read (set (te_domains st pid)) pid f (file_sources st TOP_OPEN path) (ifc_of st)"
  unfolding te_read_def by (rule read_flow.refines [OF assms])

theorem te_read_refines_witness:
  "ifc_of (te_read 100 \<lparr>fi_ino = 5, fi_dev = 1, fi_pad = 0\<rparr> (str_bytes ''/etc/passwd'') demo_engine) =
    ifc_read {0, 1} 100 \<lparr>fi_ino = 5, fi_dev = 1, fi_pad = 0\<rparr>
      (file_sources demo_engine TOP_OPEN (str_bytes ''/etc/passwd'')) (ifc_of demo_engine)"
  using te_read_refines [OF demo_active(1) wf_demo_engine _ demo_room] by (simp add: demo_domains)

text \<open>C10: a write joins the process's labels, those of its domain included, into the file, in each of
  the process's domains, and changes nothing else.\<close>

theorem te_write_flow_refines:
  assumes "te_pid_active st pid" and "wf_tables st" and "distinct (te_domains st pid)"
    and "label_room CAP_DOMAIN_DEPTH st"
  shows "ifc_of (te_write_flow pid f path st) =
    ifc_write (set (te_domains st pid)) pid f (domain_labels st pid) (ifc_of st)"
  unfolding te_write_flow_def by (rule write_flow.refines [OF assms])

theorem te_write_flow_refines_witness:
  "ifc_of (te_write_flow 200 \<lparr>fi_ino = 5, fi_dev = 1, fi_pad = 0\<rparr> (str_bytes ''/tmp/out'') demo_engine) =
    ifc_write {0, 2, 1} 200 \<lparr>fi_ino = 5, fi_dev = 1, fi_pad = 0\<rparr> (domain_labels demo_engine 200) (ifc_of demo_engine)"
  using te_write_flow_refines [OF demo_active(2) wf_demo_engine _ demo_room] by (simp add: demo_domains)

text \<open>C34: the exec updates of a process add the labels of the matching exec updates and then remove what they
  declassify, in each domain of the process, and change nothing else. Declassification wins over addition. The
  labels of the executed file are not among them: the engine joins these to the process only where the file hook
  of the kernel sees the executable opened for reading.\<close>

theorem te_exec_update_refines:
  assumes "te_pid_active st pid" and "wf_tables st" and "distinct (te_domains st pid)"
    and "label_room CAP_DOMAIN_DEPTH st"
  shows "ifc_of (te_exec_update pid comm st) =
    ifc_exec (set (te_domains st pid)) pid (exec_adds st comm) (exec_dels st comm) (ifc_of st)"
  using exec_flow.refines [OF assms, of comm] assms(1) by (simp add: te_exec_update_def)

theorem te_exec_update_refines_witness:
  "ifc_of (te_exec_update 100 (padded 64 (str_bytes ''git'')) demo_engine) =
    ifc_exec {0, 1} 100 (exec_adds demo_engine (padded 64 (str_bytes ''git'')))
      (exec_dels demo_engine (padded 64 (str_bytes ''git''))) (ifc_of demo_engine)"
  using te_exec_update_refines [OF demo_active(1) wf_demo_engine _ demo_room] by (simp add: demo_domains)

text \<open>C35: a fork gives the child the parent's labels in every domain of the parent, and nothing else
  changes. The child is new: it has no label entries before the fork.\<close>

theorem te_fork_refines:
  assumes "te_pid_active st p" and "wf_tables st" and "distinct (te_domains st p)"
    and "label_room CAP_DOMAIN_DEPTH st" and "\<And>d. d \<in> set (te_domains st p) \<Longrightarrow> te_get_domain st c d = None"
  shows "ifc_of (te_fork p c st) = ifc_fork (set (te_domains st p)) p c (ifc_of st)"
  by (rule fork_refines [OF assms])

theorem te_fork_refines_witness:
  "ifc_of (te_fork 200 300 demo_engine) = ifc_fork {0, 2, 1} 200 300 (ifc_of demo_engine)"
  using te_fork_refines [OF demo_active(2) wf_demo_engine _ demo_room, of 300]
  by (simp add: demo_domains demo_empty)

text \<open>An exit clears the labels of the process in every domain it was in, and nothing else
  changes: what it wrote to files and endpoints stays labelled.\<close>

theorem te_exit_refines:
  assumes "te_pid_active st pid" and "wf_tables st" and "distinct (te_domains st pid)"
    and "label_room CAP_DOMAIN_DEPTH st"
  shows "ifc_of (te_exit pid status st) = ifc_exit (set (te_domains st pid)) pid (ifc_of st)"
  unfolding exit_ifc by (rule exit_flow.refines [OF assms])

theorem te_exit_refines_witness:
  "ifc_of (te_exit 100 0 demo_engine) = ifc_exit {0, 1} 100 (ifc_of demo_engine)"
  using te_exit_refines [OF demo_active(1) wf_demo_engine _ demo_room] by (simp add: demo_domains)

text \<open>C36: a connect first joins the connect sources into the process and then the process's labels, those
  of its domain included, into the endpoint, in each domain of the process.\<close>

theorem te_connect_flow_refines:
  assumes "te_pid_active st pid" and "wf_tables st" and "distinct (te_domains st pid)"
    and "label_room CAP_DOMAIN_DEPTH st"
  shows "ifc_of (te_connect_flow ip pid st) =
    ifc_connect (set (te_domains st pid)) pid ip (endp_sources st TOP_CONNECT ip) (domain_labels st pid) (ifc_of st)"
  using connect_flow.refines [OF assms, of ip] by (simp add: te_connect_flow_def)

theorem te_connect_flow_refines_witness:
  "ifc_of (te_connect_flow 0x08080808 100 demo_engine) =
    ifc_connect {0, 1} 100 0x08080808 (endp_sources demo_engine TOP_CONNECT 0x08080808)
      (domain_labels demo_engine 100) (ifc_of demo_engine)"
  using te_connect_flow_refines [OF demo_active(1) wf_demo_engine _ demo_room] by (simp add: demo_domains)

text \<open>C37: a receive joins the endpoint's labels and the matching receive sources into the process, in
  each of its domains.\<close>

theorem te_recv_flow_refines:
  assumes "te_pid_active st pid" and "wf_tables st" and "distinct (te_domains st pid)"
    and "label_room CAP_DOMAIN_DEPTH st"
  shows "ifc_of (te_recv_flow ip pid st) =
    ifc_recv (set (te_domains st pid)) pid ip (endp_sources st TOP_RECV ip) (ifc_of st)"
  unfolding te_recv_flow_def by (rule recv_flow.refines [OF assms])

theorem te_recv_flow_refines_witness:
  "ifc_of (te_recv_flow 0x08080808 100 demo_engine) =
    ifc_recv {0, 1} 100 0x08080808 (endp_sources demo_engine TOP_RECV 0x08080808) (ifc_of demo_engine)"
  using te_recv_flow_refines [OF demo_active(1) wf_demo_engine _ demo_room] by (simp add: demo_domains)

text \<open>Renaming onto a file moves the labels of the old object to the new one, which loses its own,
  and leaves the old object clean; promoting a path's labels to an inode (no deletion) joins them.\<close>

theorem te_copy_file_state_refines:
  assumes "te_pid_active st pid" and "wf_tables st" and "distinct (te_domains st pid)"
    and "label_room CAP_DOMAIN_DEPTH st"
  shows "ifc_of (te_copy_file_state pid f g True st) = ifc_rename (set (te_domains st pid)) f g (ifc_of st) \<and>
         ifc_of (te_copy_file_state pid f g False st) = ifc_link (set (te_domains st pid)) f g (ifc_of st)"
  unfolding te_copy_file_state_def
  by (intro conjI rename_flow.refines [OF assms] link_flow.refines [OF assms])

theorem te_copy_file_state_refines_witness:
  "ifc_of (te_copy_file_state 100 \<lparr>fi_ino = 5, fi_dev = 1, fi_pad = 0\<rparr> \<lparr>fi_ino = 6, fi_dev = 1, fi_pad = 0\<rparr> True demo_engine) =
   ifc_rename {0, 1} \<lparr>fi_ino = 5, fi_dev = 1, fi_pad = 0\<rparr> \<lparr>fi_ino = 6, fi_dev = 1, fi_pad = 0\<rparr> (ifc_of demo_engine)"
  using te_copy_file_state_refines [OF demo_active(1) wf_demo_engine _ demo_room] by (simp add: demo_domains)

text \<open>Exchanging two files swaps their labels and nothing else. The scratch identity the swap goes
  through differs from both files (no device number is all ones) and carries no labels.\<close>

theorem te_swap_file_state_refines:
  assumes "te_pid_active st pid" and "wf_tables st" and "distinct (te_domains st pid)"
    and "label_room (3 * CAP_DOMAIN_DEPTH) st"
    and "f \<noteq> g" and "fi_dev f \<noteq> 0xffffffff" and "fi_dev g \<noteq> 0xffffffff"
    and "\<And>d. file_labels st (swap_tmp_fid (ktime st (ktick st)) f g) d = {}"
  shows "ifc_of (te_swap_file_state pid f g st) = ifc_swap (set (te_domains st pid)) f g (ifc_of st)"
  by (rule swap_refines [OF assms(1-4) swap_tmp_fresh [OF assms(6,7)] assms(5) assms(8) refl])

theorem te_swap_file_state_refines_witness:
  "ifc_of (te_swap_file_state 100 \<lparr>fi_ino = 5, fi_dev = 1, fi_pad = 0\<rparr> \<lparr>fi_ino = 6, fi_dev = 1, fi_pad = 0\<rparr> demo_engine) =
   ifc_swap {0, 1} \<lparr>fi_ino = 5, fi_dev = 1, fi_pad = 0\<rparr> \<lparr>fi_ino = 6, fi_dev = 1, fi_pad = 0\<rparr> (ifc_of demo_engine)"
  using te_swap_file_state_refines [OF demo_active(1) wf_demo_engine _ demo_room,
      of "\<lparr>fi_ino = 5, fi_dev = 1, fi_pad = 0\<rparr>" "\<lparr>fi_ino = 6, fi_dev = 1, fi_pad = 0\<rparr>"]
  by (simp add: demo_domains demo_empty)

text \<open>Materialising a file's sources labels the file object and taints no process.\<close>

theorem te_materialize_refines:
  assumes "te_pid_active st pid" and "wf_tables st" and "distinct (te_domains st pid)"
    and "label_room CAP_DOMAIN_DEPTH st"
  shows "ifc_of (te_materialize_file_source pid (Some f) path st) =
    ifc_file_join (set (te_domains st pid)) f (file_sources st TOP_OPEN path) (ifc_of st)"
  unfolding te_materialize_file_source_def option.case by (rule materialize_flow.refines [OF assms])

theorem te_materialize_refines_witness:
  "ifc_of (te_materialize_file_source 100 (Some \<lparr>fi_ino = 5, fi_dev = 1, fi_pad = 0\<rparr>) (str_bytes ''/a'') demo_engine) =
    ifc_file_join {0, 1} \<lparr>fi_ino = 5, fi_dev = 1, fi_pad = 0\<rparr>
      (file_sources demo_engine TOP_OPEN (str_bytes ''/a'')) (ifc_of demo_engine)"
  using te_materialize_refines [OF demo_active(1) wf_demo_engine _ demo_room] by (simp add: demo_domains)

end
