(* ===== verification/Engine_Machine.thy ===== *)
theory Engine_Machine
  imports Flow_Properties
begin

text \<open>
  The engine as a state machine. The step relation has one rule per operation the hooks call: the flows,
  the drain of the delta ring, and the reset of the argument slots before an exec. Reachable states keep
  the engine's invariant: the tables are well formed and every provenance entry is filed under the label
  whose origin it records. The second half relates pending exit gates to the exit status.
\<close>

section \<open>The invariant\<close>

definition engine_ok :: "'a engine_scheme \<Rightarrow> bool" where
  "engine_ok st \<longleftrightarrow> wf_tables st \<and> prov_ok st"

lemma engine_ok_record [simp]:
  "engine_ok st \<Longrightarrow> engine_ok (te_record_proc_prov_mask p d l op tg ip st)"
  "engine_ok st \<Longrightarrow> engine_ok (te_record_file_prov_mask fd l p op tg st)"
  "engine_ok st \<Longrightarrow> engine_ok (te_copy_proc_prov f t d l st)"
  "engine_ok st \<Longrightarrow> engine_ok (te_copy_file_prov_to_file f' t' l st)"
  "engine_ok st \<Longrightarrow> engine_ok (te_delete_file_prov_mask fd l st)"
  "engine_ok st \<Longrightarrow> engine_ok (te_copy_file_prov_to_proc p fd l st)"
  "engine_ok st \<Longrightarrow> engine_ok (te_copy_proc_prov_to_file p fd l st)"
  "engine_ok st \<Longrightarrow> engine_ok (te_copy_endp_prov_to_proc p ed l st)"
  "engine_ok st \<Longrightarrow> engine_ok (te_copy_proc_prov_to_endp p ed l st)"
  by (simp_all add: engine_ok_def prov_ok_ops domain_cong(6) [OF frame_record_proc_prov_mask(1)]
      domain_cong(6) [OF frame_record_file_prov_mask(1)] domain_cong(6) [OF frame_copy_proc_prov(1)]
      domain_cong(6) [OF frame_copy_file_prov_to_file(1)] domain_cong(6) [OF frame_delete_file_prov_mask(1)]
      domain_cong(6) [OF frame_copy_file_prov_to_proc(1)] domain_cong(6) [OF frame_copy_proc_prov_to_file(1)]
      domain_cong(6) [OF frame_copy_endp_prov_to_proc(1)] domain_cong(6) [OF frame_copy_proc_prov_to_endp(1)])

lemma engine_ok_update [simp]:
  "engine_ok (st\<lparr>ts_proc := a\<rparr>) = engine_ok st" "engine_ok (st\<lparr>ts_proc_domains := b\<rparr>) = engine_ok st"
  "engine_ok (st\<lparr>ts_root := c\<rparr>) = engine_ok st" "engine_ok (st\<lparr>ts_file := e\<rparr>) = engine_ok st"
  "engine_ok (st\<lparr>ts_endp := g\<rparr>) = engine_ok st" "engine_ok (st\<lparr>ts_exit_gates := h\<rparr>) = engine_ok st"
  "engine_ok (st\<lparr>ts_sess := i\<rparr>) = engine_ok st" "engine_ok (st\<lparr>ktick := j\<rparr>) = engine_ok st"
  "engine_ok (st\<lparr>ts_argslots := k\<rparr>) = engine_ok st" "engine_ok (st\<lparr>cap_task := m\<rparr>) = engine_ok st"
  by (simp_all add: engine_ok_def prov_ok_def wf_tables_def)

lemma engine_ok_prims [simp]:
  "engine_ok st \<Longrightarrow> engine_ok (snd (te_tick r d st))"
  "engine_ok st \<Longrightarrow> engine_ok (te_stamp r d ep g i st)"
  "engine_ok st \<Longrightarrow> engine_ok (te_add_labels_domain p d l st)"
  "engine_ok st \<Longrightarrow> engine_ok (te_store_proc_domain p d ns st)"
  "engine_ok st \<Longrightarrow> engine_ok (cap_fork p c st)"
  "engine_ok st \<Longrightarrow> engine_ok (cap_exit p st)"
  by (simp_all add: te_tick_def te_sess_init_def te_stamp_def te_add_labels_domain_def te_store_proc_domain_def
      cap_fork_def cap_exit_def Let_def split: option.split)

lemma engine_ok_prov_sub:
  assumes "engine_ok st" and "\<And>k v. map_lookup m k = Some v \<Longrightarrow> map_lookup (ts_proc_prov st) k = Some v"
  shows "engine_ok (st\<lparr>ts_proc_prov := m\<rparr>)"
  using assms by (simp add: engine_ok_def prov_ok_def wf_tables_def)

lemma engine_ok_delete_proc [simp]: "engine_ok st \<Longrightarrow> engine_ok (te_delete_proc_domain p d st)"
proof -
  have "map_lookup m k = Some v"
    if "map_lookup (fold (\<lambda>i. map_delete \<lparr>pl_pid = p, pl_domain_id = d, pl_label = bit64 i\<rparr>) is m) k = Some v"
    for "is" m k and v :: te_prov
    using that
  proof (induction "is" arbitrary: m)
    case (Cons i "is")
    then have "map_lookup (map_delete \<lparr>pl_pid = p, pl_domain_id = d, pl_label = bit64 i\<rparr> m) k = Some v" by simp
    then show ?case by (simp add: lookup_delete split: if_splits)
  qed simp
  note sub = this
  show "engine_ok st \<Longrightarrow> engine_ok (te_delete_proc_domain p d st)"
    unfolding te_delete_proc_domain_def Let_def
    by (rule engine_ok_prov_sub) (simp, erule sub)
qed

text \<open>Every per-domain body keeps the invariant, and so does a walk over domains.\<close>

lemma engine_ok_bodies [simp]:
  "engine_ok st \<Longrightarrow> engine_ok (te_copy_proc_domain_state p c d st)"
  "engine_ok st \<Longrightarrow> engine_ok (te_exec_update_domain p comm d st)"
  "engine_ok st \<Longrightarrow> engine_ok (te_exec_update_domain_no_args p comm d st)"
  "engine_ok st \<Longrightarrow> engine_ok (te_read_domain p f path d st)"
  "engine_ok st \<Longrightarrow> engine_ok (te_write_flow_domain p f path d st)"
  "engine_ok st \<Longrightarrow> engine_ok (te_materialize_file_source_domain p f path d st)"
  "engine_ok st \<Longrightarrow> engine_ok (te_copy_file_state_domain p f g del d st)"
  "engine_ok st \<Longrightarrow> engine_ok (te_connect_flow_domain ip p d st)"
  "engine_ok st \<Longrightarrow> engine_ok (te_recv_flow_domain ip p d st)"
  "engine_ok st \<Longrightarrow> engine_ok (te_exit_domain p status d st)"
  by (simp_all add: te_copy_proc_domain_state_def te_exec_update_domain_def te_exec_update_domain_no_args_def
      te_exec_apply_def te_read_domain_def te_write_flow_domain_def te_materialize_file_source_domain_def
      te_copy_file_state_domain_def te_connect_flow_domain_def te_recv_flow_domain_def te_exit_domain_def
      Let_def case_prod_beta split: option.split)

lemma engine_ok_loop [simp]:
  "(\<And>d st. engine_ok st \<Longrightarrow> engine_ok (body d st)) \<Longrightarrow> engine_ok st \<Longrightarrow> engine_ok (domain_loop pid body st)"
  unfolding domain_loop_def by (rule loop_on_inv) (auto simp: Let_def)

section \<open>Steps\<close>

inductive engine_step :: "'a engine_scheme \<Rightarrow> 'a engine_scheme \<Rightarrow> bool" where
  do_fork: "engine_step st (te_fork p c st)"
| do_argv: "engine_step st (st\<lparr>ts_argslots := slots\<rparr>)"
| do_exec: "engine_step st (te_exec_update p comm st)"
| do_exec_no_args: "engine_step st (te_exec_update_no_args p comm st)"
| do_read: "engine_step st (te_read p f path st)"
| do_write: "engine_step st (te_write_flow p f path st)"
| do_materialize: "engine_step st (te_materialize_file_source p fo path st)"
| do_copy: "engine_step st (te_copy_file_state p f g del st)"
| do_swap: "engine_step st (te_swap_file_state p f g st)"
| do_connect: "engine_step st (te_connect_flow ip p st)"
| do_recv: "engine_step st (te_recv_flow ip p st)"
| do_exit: "engine_step st (te_exit p status st)"
| do_drain: "engine_step st (cap_drain_current tid ring st)"

inductive engine_reach :: "'a engine_scheme \<Rightarrow> 'a engine_scheme \<Rightarrow> bool" where
  start: "engine_reach st st"
| step: "engine_reach st t \<Longrightarrow> engine_step t u \<Longrightarrow> engine_reach st u"

lemma engine_ok_ops [simp]:
  "engine_ok st \<Longrightarrow> engine_ok (te_fork p c st)"
  "engine_ok st \<Longrightarrow> engine_ok (te_exec_update p comm st)"
  "engine_ok st \<Longrightarrow> engine_ok (te_exec_update_no_args p comm st)"
  "engine_ok st \<Longrightarrow> engine_ok (te_read p f path st)"
  "engine_ok st \<Longrightarrow> engine_ok (te_write_flow p f path st)"
  "engine_ok st \<Longrightarrow> engine_ok (te_materialize_file_source p fo path st)"
  "engine_ok st \<Longrightarrow> engine_ok (te_copy_file_state p f g del st)"
  "engine_ok st \<Longrightarrow> engine_ok (te_connect_flow ip p st)"
  "engine_ok st \<Longrightarrow> engine_ok (te_recv_flow ip p st)"
  "engine_ok st \<Longrightarrow> engine_ok (te_exit p status st)"
  by (simp_all add: te_fork_def te_exec_update_def te_exec_update_no_args_def te_read_def te_write_flow_def
      te_materialize_file_source_def te_copy_file_state_def te_connect_flow_def te_recv_flow_def te_exit_def
      Let_def split: option.split)

lemma engine_ok_swap [simp]: "engine_ok st \<Longrightarrow> engine_ok (te_swap_file_state p f g st)"
  by (simp add: te_swap_file_state_def Let_def)
lemma drain_frame:
  "ts_proc_prov (cap_drain_current tid ring st) = ts_proc_prov st"
  "ts_file_prov (cap_drain_current tid ring st) = ts_file_prov st"
  "ts_endp_prov (cap_drain_current tid ring st) = ts_endp_prov st"
proof -
  have count [simp]: "ts_proc_prov (cap_count i s) = ts_proc_prov s" "ts_file_prov (cap_count i s) = ts_file_prov s"
    "ts_endp_prov (cap_count i s) = ts_endp_prov s" for i and s :: "'a engine_scheme"
    by (simp_all add: cap_count_def split: option.split)
  have ops [simp]: "ts_proc_prov (snd (cap_append_update_entry ru s)) = ts_proc_prov s"
    "ts_file_prov (snd (cap_append_update_entry ru s)) = ts_file_prov s"
    "ts_endp_prov (snd (cap_append_update_entry ru s)) = ts_endp_prov s"
    "ts_proc_prov (snd (cap_append_rule_entry rr s)) = ts_proc_prov s"
    "ts_file_prov (snd (cap_append_rule_entry rr s)) = ts_file_prov s"
    "ts_endp_prov (snd (cap_append_rule_entry rr s)) = ts_endp_prov s"
    "ts_proc_prov (snd (cap_apply_request rq s)) = ts_proc_prov s"
    "ts_file_prov (snd (cap_apply_request rq s)) = ts_file_prov s"
    "ts_endp_prov (snd (cap_apply_request rq s)) = ts_endp_prov s" for ru rr rq and s :: "'a engine_scheme"
    by (simp_all add: cap_append_update_entry_def cap_append_rule_entry_def cap_apply_request_def
        cap_policy_bind_rule_def Let_def case_prod_beta split: option.split)
  have cb: "ts_proc_prov (cap_request_cb pid dp s) = ts_proc_prov s \<and> ts_file_prov (cap_request_cb pid dp s) = ts_file_prov s \<and>
      ts_endp_prov (cap_request_cb pid dp s) = ts_endp_prov s" for pid dp and s :: "'a engine_scheme"
    by (simp add: cap_request_cb_def Let_def case_prod_beta split: option.split)
  have "ts_proc_prov (fold (cap_request_cb pid) ring st) = ts_proc_prov st \<and>
      ts_file_prov (fold (cap_request_cb pid) ring st) = ts_file_prov st \<and>
      ts_endp_prov (fold (cap_request_cb pid) ring st) = ts_endp_prov st" for pid
    by (induction ring arbitrary: st) (simp_all add: cb)
  then show "ts_proc_prov (cap_drain_current tid ring st) = ts_proc_prov st"
    "ts_file_prov (cap_drain_current tid ring st) = ts_file_prov st"
    "ts_endp_prov (cap_drain_current tid ring st) = ts_endp_prov st"
    by (simp_all add: cap_drain_current_def)
qed

lemma engine_ok_drain [simp]: "engine_ok st \<Longrightarrow> engine_ok (cap_drain_current tid ring st)"
  using delta.keeps_ok [OF cap_drain_current_keeps, of st tid ring] by (simp add: engine_ok_def prov_ok_def drain_frame)

lemma engine_step_ok: "engine_step st t \<Longrightarrow> engine_ok st \<Longrightarrow> engine_ok t"
  by (induction rule: engine_step.induct) simp_all

inductive_cases engine_step_elim: "engine_step st t"

section \<open>Sessions along the operations\<close>

text \<open>What an operation does to the sessions is no, or one, event of a history: an exec, a read or a write
  ticks and stamps at once; an exit stamps late, with the epoch that the exec's tick returned and stored
  with the pending gates. No other operation touches a session.\<close>

lemma tick_cong:
  assumes "ts_sess s = ts_sess t"
  shows "fst (te_tick r d s) = fst (te_tick r d t)" and "ts_sess (snd (te_tick r d s)) = ts_sess (snd (te_tick r d t))"
  using assms by (auto simp: te_tick_def te_sess_init_def Let_def split: option.split)

lemma stamp_cong: "ts_sess s = ts_sess t \<Longrightarrow> ts_sess (te_stamp r d ep g i s) = ts_sess (te_stamp r d ep g i t)"
  by (auto simp: te_stamp_def te_sess_get_def Let_def split: option.split)

lemma stamp_none [simp]: "te_stamp r d ep 0 0 st = st"
  by (simp add: te_stamp_def)

lemma fire_sess:
  "ts_sess (sess_event r d (Fire g i) st) = ts_sess (te_stamp r d (fst (te_tick r d st)) g i (snd (te_tick r d st)))"
  by (simp add: sess_event_def case_prod_beta)

lemma fire_cong:
  assumes "ts_sess s = ts_sess t"
  shows "ts_sess (te_stamp r d (fst (te_tick r d s)) g i (snd (te_tick r d s))) = ts_sess (sess_event r d (Fire g i) t)"
  unfolding fire_sess tick_cong(1) [OF assms] by (rule stamp_cong [OF tick_cong(2) [OF assms]])

lemma store_proc_sess: "ts_sess (te_store_proc_domain p d ns st) = ts_sess st" "ts_root (te_store_proc_domain p d ns st) = ts_root st"
  "ts_exit_gates (te_store_proc_domain p d ns st) = ts_exit_gates st"
  "ts_sess (te_add_labels_domain p d l st) = ts_sess st" "ts_root (te_add_labels_domain p d l st) = ts_root st"
  by (auto simp: te_store_proc_domain_def te_add_labels_domain_def Let_def split: option.split)

lemma root_cong: "ts_root s = ts_root t \<Longrightarrow> te_root s p = te_root t p"
  by (simp add: te_root_def)

lemma exec_sessions:
  fixes c :: te_update_ctx
  assumes "uc_gates c \<noteq> 0 \<or> uc_exit_gates c \<noteq> 0 \<or> uc_invals c \<noteq> 0"
  shows "ts_sess (te_exec_apply pid comm d c st) = ts_sess (sess_event (te_root st pid) d (Fire (uc_gates c) (uc_invals c)) st)"
    and "uc_exit_gates c \<noteq> 0 \<Longrightarrow> ts_exit_gates (te_exec_apply pid comm d c st) =
      map_put (te_pid_domain_key pid d) \<lparr>eg_gates = uc_exit_gates c, eg_epoch = fst (te_tick (te_root st pid) d st)\<rparr> (ts_exit_gates st)"
proof -
  define ns where "ns = (case te_get_domain st pid d of None \<Rightarrow> \<lparr>ps_labels = 0, ps_lin_gates = 0\<rparr> | Some p \<Rightarrow> p)"
  define s1 where "s1 = te_store_proc_domain pid d (ns\<lparr>ps_labels := (ps_labels ns OR uc_add c) AND NOT (uc_del c),
    ps_lin_gates := ps_lin_gates ns OR uc_gates c\<rparr>) st"
  define s2 where "s2 = (if uc_add c \<noteq> 0
    then te_record_proc_prov_mask pid d (uc_add c) (ucast TOP_EXEC) (Some comm) 0 s1 else s1)"
  let ?r = "te_root s2 pid"
  let ?t = "te_tick ?r d s2"
  have eq: "te_exec_apply pid comm d c st =
      (let t = te_stamp ?r d (fst ?t) (uc_gates c) (uc_invals c) (snd ?t)
       in if uc_exit_gates c \<noteq> 0
          then t\<lparr>ts_exit_gates := map_put (te_pid_domain_key pid d) \<lparr>eg_gates = uc_exit_gates c, eg_epoch = fst ?t\<rparr> (ts_exit_gates t)\<rparr>
          else t\<lparr>ts_exit_gates := map_delete (te_pid_domain_key pid d) (ts_exit_gates t)\<rparr>)"
    unfolding te_exec_apply_def ns_def [symmetric] Let_def
    unfolding s1_def [symmetric] unfolding s2_def [symmetric] using assms by (auto simp: case_prod_beta)
  have s: "ts_sess s2 = ts_sess st" and e: "ts_exit_gates s2 = ts_exit_gates st" and r: "?r = te_root st pid"
    by (auto simp: s2_def s1_def store_proc_sess intro: root_cong)
  show "ts_sess (te_exec_apply pid comm d c st) = ts_sess (sess_event (te_root st pid) d (Fire (uc_gates c) (uc_invals c)) st)"
    unfolding eq Let_def using fire_cong [OF s] by (simp add: r)
  show "ts_exit_gates (te_exec_apply pid comm d c st) =
      map_put (te_pid_domain_key pid d) \<lparr>eg_gates = uc_exit_gates c, eg_epoch = fst (te_tick (te_root st pid) d st)\<rparr> (ts_exit_gates st)"
    if "uc_exit_gates c \<noteq> 0"
    unfolding eq Let_def using that by (simp add: r e tick_cong(1) [OF s])
qed

lemma exec_no_sessions:
  "uc_gates c = 0 \<Longrightarrow> uc_exit_gates c = 0 \<Longrightarrow> uc_invals c = 0 \<Longrightarrow> ts_sess (te_exec_apply pid comm d c st) = ts_sess st"
  by (simp add: te_exec_apply_def Let_def store_proc_sess)

text \<open>The operations as a whole, in one domain.\<close>

definition one_event :: "pid_t \<Rightarrow> u32 \<Rightarrow> 'a engine_scheme \<Rightarrow> 'a engine_scheme \<Rightarrow> bool" where
  "one_event root d st t \<longleftrightarrow> ts_sess t = ts_sess st \<or> (\<exists>ev. ts_sess t = ts_sess (sess_event root d ev st))"

lemma one_event_exec_apply: "one_event (te_root st pid) d st (te_exec_apply pid comm d c st)"
proof (cases "uc_gates c \<noteq> 0 \<or> uc_exit_gates c \<noteq> 0 \<or> uc_invals c \<noteq> 0")
  case True
  from exec_sessions(1) [OF True, of pid comm d st] show ?thesis unfolding one_event_def by blast
next
  case False
  then show ?thesis unfolding one_event_def by (simp add: exec_no_sessions)
qed

lemma one_event_exec:
  "one_event (te_root st pid) d st (te_exec_update_domain pid comm d st)"
  "one_event (te_root st pid) d st (te_exec_update_domain_no_args pid comm d st)"
  using one_event_exec_apply [of st pid d comm]
  by (simp_all add: te_exec_update_domain_def te_exec_update_domain_no_args_def) (simp_all add: one_event_def)

lemma one_event_read: "one_event (te_root st pid) d st (te_read_domain pid f path d st)"
proof -
  let ?u = "te_collect_file_updates st (update_ctx pid d TOP_OPEN path 0)"
  let ?fl = "case map_lookup (ts_file st) (te_file_domain_key_for d f) of None \<Rightarrow> 0 | Some fs \<Rightarrow> fs_labels fs"
  define s1 where "s1 = te_add_labels_domain pid d (?fl OR uc_add ?u) st"
  define s2 where "s2 = (if ?fl \<noteq> 0 then te_copy_file_prov_to_proc pid (te_file_domain_key_for d f) ?fl s1 else s1)"
  define s3 where "s3 = (if uc_add ?u \<noteq> 0
    then te_record_proc_prov_mask pid d (uc_add ?u) (ucast TOP_OPEN) (Some path) 0 s2 else s2)"
  have s: "ts_sess s3 = ts_sess st" "te_root s3 pid = te_root st pid"
    by (auto simp: s3_def s2_def s1_def store_proc_sess intro: root_cong)
  have "te_read_domain pid f path d st = st \<or> te_read_domain pid f path d st = s3 \<or>
      te_read_domain pid f path d st = te_stamp (te_root s3 pid) d (fst (te_tick (te_root s3 pid) d s3)) (uc_gates ?u) (uc_invals ?u)
        (snd (te_tick (te_root s3 pid) d s3))"
    unfolding te_read_domain_def Let_def s1_def [symmetric] s2_def [symmetric] s3_def [symmetric] by (simp add: case_prod_beta)
  then show ?thesis using fire_cong [OF s(1)] unfolding one_event_def s(2) by (metis s(1))
qed

lemma one_event_write: "one_event (te_root st pid) d st (te_write_flow_domain pid f path d st)"
proof -
  let ?u = "te_collect_file_updates st (update_ctx pid d TOP_WRITE path 0)"
  let ?t = "te_tick (te_root st pid) d st"
  have "ts_sess (te_write_flow_domain pid f path d st) = ts_sess st \<or>
    ts_sess (te_write_flow_domain pid f path d st) = ts_sess (te_stamp (te_root st pid) d (fst ?t) (uc_gates ?u) (uc_invals ?u) (snd ?t))"
    by (auto simp: te_write_flow_domain_def Let_def case_prod_beta split: option.split)
  then show ?thesis unfolding one_event_def fire_sess [symmetric] by blast
qed

lemma exit_sessions:
  "ts_sess (te_exit_domain pid status d st) = ts_sess st \<or>
   (\<exists>pend. map_lookup (ts_exit_gates st) (te_pid_domain_key pid d) = Some pend \<and>
      (\<exists>gates. ts_sess (te_exit_domain pid status d st) =
         ts_sess (sess_event (te_root st pid) d (Late (unat (eg_epoch pend)) gates) st)))"
  by (auto simp: te_exit_domain_def te_delete_proc_domain_def sess_event_def Let_def split: option.split)

lemma one_event_exit: "one_event (te_root st pid) d st (te_exit_domain pid status d st)"
  using exit_sessions [of pid status d st] unfolding one_event_def by blast

lemma no_session_ops:
  "ts_sess (te_materialize_file_source_domain p f path d st) = ts_sess st"
  "ts_sess (te_copy_file_state_domain p f g del d st) = ts_sess st"
  "ts_sess (te_connect_flow_domain ip p d st) = ts_sess st"
  "ts_sess (te_recv_flow_domain ip p d st) = ts_sess st"
  "ts_sess (te_copy_proc_domain_state p c d st) = ts_sess st"
  by (simp_all add: te_materialize_file_source_domain_def te_copy_file_state_domain_def te_connect_flow_domain_def
      te_recv_flow_domain_def te_copy_proc_domain_state_def te_add_labels_domain_def Let_def split: option.split)

section \<open>Exit gates\<close>

lemma exit_gate_hits_bits:
  assumes "wf_tables st"
  shows "bits_of (te_exit_gate_hits st d pending status) =
    (\<Union>u \<in> {u \<in> set (active_updates st). \<not> immediate u \<and> up_domain_id u = d \<and>
         te_exit_status_matches status (up_gate_exit_code u)}. bits_of (up_gates u)) \<inter> bits_of pending"
proof -
  let ?ok = "\<lambda>u. \<not> immediate u \<and> up_domain_id u = d \<and> te_exit_status_matches status (up_gate_exit_code u)"
  have "te_exit_gate_hits st d pending status =
      fold (\<lambda>i g. g OR (if ?ok (a_cell (ts_updates st) i) then pending AND up_gates (a_cell (ts_updates st) i) else 0))
        [0..<n_updates st] 0"
    unfolding te_exit_gate_hits_def using assms wf_te_count1 [OF assms]
    by (subst bpf_loop_fold) (auto simp: te_exit_gate_cb_def arr_lookup_def wf_tables_def immediate_def Let_def)
  also have "\<dots> = fold (\<lambda>u g. g OR (if ?ok u then pending AND up_gates u else 0)) (active_updates st) 0"
    by (simp add: active_updates_def fold_map comp_def)
  finally have hits: "te_exit_gate_hits st d pending status =
      fold (\<lambda>u g. g OR (if ?ok u then pending AND up_gates u else 0)) (active_updates st) 0" .
  have "bits_of (fold (\<lambda>u g. g OR (if ?ok u then pending AND up_gates u else 0)) us g) =
      bits_of g \<union> ((\<Union>u \<in> {u \<in> set us. ?ok u}. bits_of (up_gates u)) \<inter> bits_of pending)" for us g
    by (induction us arbitrary: g) auto
  then show ?thesis by (simp add: hits)
qed

lemma sint_small: "0 \<le> sint (e :: s32) \<and> sint e \<le> 255 \<longleftrightarrow> unat e \<le> 255"
proof
  assume a: "0 \<le> sint e \<and> sint e \<le> 255"
  have w: "(word_of_int (sint e) :: s32) = e" by simp
  have "uint e = sint e mod 2 ^ 32" using uint_word_of_int [of "sint e", where 'a = 32] unfolding w by simp
  then have "uint e = sint e" using a by simp
  with a show "unat e \<le> 255" by (simp add: unat_eq_nat_uint nat_le_iff)
next
  assume "unat e \<le> 255"
  then have u: "uint e \<le> 255" unfolding uint_nat by linarith
  have "- (2 ^ 31) \<le> uint e" using order_trans [of "- (2 ^ 31)" 0 "uint e"] by simp
  with u have "signed_take_bit 31 (uint e) = uint e" by (intro signed_take_bit_int_eq_self) simp_all
  then have "sint e = uint e" by (simp add: sint_uint)
  then show "0 \<le> sint e \<and> sint e \<le> 255" using u by simp
qed

text \<open>The raw status of \<^verbatim>\<open>wait\<close>: the exit code in bits 8 to 15, a terminating signal in the
  low seven bits.\<close>

lemma exit_status_matches_iff:
  "te_exit_status_matches raw expected \<longleftrightarrow>
     raw AND 0x7f = 0 \<and> drop_bit 8 raw AND 0xff = expected \<and> unat expected \<le> 255"
  using sint_small [of expected] by (auto simp: te_exit_status_matches_def)

section \<open>Properties\<close>

text \<open>The engine's invariant holds in every reachable state. Whatever sequence of forks, execs, reads,
  writes, renames, exchanges, connects, receives, exits and policy deltas runs, and however full the maps
  get, the table counts stay within the tables and each recorded origin is filed under the label it
  explains.\<close>

theorem engine_invariant:
  assumes "engine_reach st t" and "engine_ok st"
  shows "engine_ok t"
  using assms by (induction rule: engine_reach.induct) (auto dest: engine_step_ok)

lemma demo_ok: "engine_ok demo_engine"
  using wf_demo_engine by (simp add: engine_ok_def prov_ok_def demo_engine_def engine_example_defs)

theorem engine_invariant_witness:
  "engine_ok (te_exit 100 0 (te_read 100 \<lparr>fi_ino = 5, fi_dev = 1, fi_pad = 0\<rparr> (str_bytes ''/a'') (te_fork 100 101 demo_engine)))"
  by (rule engine_invariant [OF engine_reach.step [OF engine_reach.step [OF engine_reach.step
        [OF engine_reach.start do_fork] do_read] do_exit] demo_ok])

text \<open>C38: a gate that waits for an exit code fires exactly on that code. When a process with pending gates
  exits, the session of its root is stamped, at the epoch of the exec, with those pending gates for which
  the domain has an update whose expected exit code the process returned without being killed by a
  signal; the pending entry is gone.\<close>

theorem te_exit_domain_gates:
  assumes "wf_tables st" and "map_lookup (ts_exit_gates st) (te_pid_domain_key pid d) = Some pend"
    and "eg_epoch pend \<noteq> 0" and "te_sess_get st (te_root st pid) d = Some s"
  shows "\<exists>hits. te_sess_get (te_exit_domain pid status d st) (te_root st pid) d = Some (stamped (eg_epoch pend) hits 0 s) \<and>
    bits_of hits = bits_of (eg_gates pend) \<inter>
      (\<Union>u \<in> {u \<in> set (active_updates st). \<not> immediate u \<and> up_domain_id u = d \<and> status AND 0x7f = 0 \<and>
           drop_bit 8 status AND 0xff = up_gate_exit_code u \<and> unat (up_gate_exit_code u) \<le> 255}. bits_of (up_gates u)) \<and>
    map_lookup (ts_exit_gates (te_exit_domain pid status d st)) (te_pid_domain_key pid d) = None"
proof -
  let ?h = "te_exit_gate_hits st d (eg_gates pend) status"
  have "stamped ep 0 0 s = s" for ep by (simp add: stamped_def)
  moreover have "te_exit_gate_hits st d 0 status = 0"
    using exit_gate_hits_bits [OF assms(1), of d 0 status] by (simp add: word_eq_0_iff_bits)
  ultimately have "te_sess_get (te_exit_domain pid status d st) (te_root st pid) d = Some (stamped (eg_epoch pend) ?h 0 s)"
    using assms(2-4)
    by (auto simp: te_exit_domain_def te_delete_proc_domain_def te_sess_get_def Let_def te_stamp_stamped lookup_modify)
  moreover have "map_lookup (ts_exit_gates (te_exit_domain pid status d st)) (te_pid_domain_key pid d) = None"
    by (simp add: te_exit_domain_def te_delete_proc_domain_def Let_def lookup_delete)
  ultimately show ?thesis
    using exit_gate_hits_bits [OF assms(1), of d "eg_gates pend" status]
    by (intro exI [of _ ?h]) (auto simp: exit_status_matches_iff)
qed

text \<open>Pid 100 has run a command whose gate 0 waits for exit code 0, at epoch 3 of its session.\<close>

definition gate_engine :: engine where
  "gate_engine = demo_engine
     \<lparr>ts_updates := \<lparr>a_max = MAX_TAINT_UPDATES, a_cell = (\<lambda>i. no_update\<lparr>up_gates := 1\<rparr>)\<rparr>,
      ts_exit_gates := map_put (te_pid_domain_key 100 0) \<lparr>eg_gates = 1, eg_epoch = 3\<rparr> (hash_new 16384),
      ts_sess := map_put (te_sess_domain_key 100 0) (sess_zero\<lparr>se_epoch := 3\<rparr>) (hash_new 16384)\<rparr>"

theorem te_exit_domain_gates_witness:
  "\<exists>hits. te_sess_get (te_exit_domain 100 0 0 gate_engine) 100 0 = Some (stamped 3 hits 0 (sess_zero\<lparr>se_epoch := 3\<rparr>)) \<and>
     bits_of hits = {0}"
proof -
  have wf: "wf_tables gate_engine" using wf_demo_engine by (simp add: gate_engine_def wf_tables_def)
  have root: "te_root gate_engine 100 = 100"
    by (simp add: gate_engine_def demo_engine_def engine_example_defs te_root_def)
  have pend: "map_lookup (ts_exit_gates gate_engine) (te_pid_domain_key 100 0) = Some \<lparr>eg_gates = 1, eg_epoch = 3\<rparr>"
    and sess: "te_sess_get gate_engine 100 0 = Some (sess_zero\<lparr>se_epoch := 3\<rparr>)"
    by (simp_all add: gate_engine_def te_sess_get_def lookup_put room_def hash_new_def)
  have n: "n_updates gate_engine = 2" by (simp add: n_updates_def gate_engine_def demo_engine_def)
  have "set (active_updates gate_engine) = {no_update\<lparr>up_gates := 1\<rparr>}"
    unfolding active_updates_def n by (simp add: gate_engine_def image_constant_conv)
  then show ?thesis
    using te_exit_domain_gates [OF wf pend, of _ 0, unfolded root, OF _ sess]
    by (simp add: immediate_def no_update_def) blast
qed

end
