(* ===== verification/Rules.thy ===== *)
theory Rules
  imports Engine_Machine
begin

text \<open>
  Rule evaluation (\<^verbatim>\<open>bpf/taint_engine.bpf.h\<close>): matching one event against one rule, the scan
  of the rule table for the strongest matching rule, and the three variants for exec events (exact
  patterns without a condition, the rest, and rules without arguments). A scan keeps its best match in the
  per-CPU evaluation record and stops at the first kill rule. The locale \<open>rule_scan\<close> proves, once
  for all variants, that the scan picks a matching rule of maximal effect and the first such in the table.
\<close>

section \<open>The evaluation record\<close>

record te_rule_eval =
  ev_pid :: pid_t
  ev_global_labels :: u64
  ev_current_labels :: u64
  ev_op :: u8
  ev_target :: bytes
  ev_fid :: file_id
  ev_has_fid :: bool
  ev_ip :: u32
  ev_current_domain_id :: u32
  ev_include_file_labels :: bool
  ev_matched_domain_id :: u32
  ev_effect :: u32
  ev_effect_mask :: u32
  ev_matched_rule :: s32
  ev_matched_index :: s32
  ev_matched_req :: u64
  ev_matched_labels :: u64
  ev_best_effect :: u32
  ev_best_rule :: s32
  ev_best_idx :: s32
  ev_best_domain_id :: u32
  ev_best_req :: u64
  ev_best_labels :: u64
  ev_event_effect :: u32
  ev_event_action :: u32
  ev_event_rule :: s32
  ev_event_domain_id :: u32
  ev_event_labels :: u64
  ev_event_op :: u8

text \<open>The operation fields hold one of the five codes of \<^verbatim>\<open>enum taint_op\<close>; \<^verbatim>\<open>rule_start\<close> is
  left out, since every scan of this build starts at 0.\<close>

section \<open>One rule\<close>

text \<open>\<^verbatim>\<open>te_exec_rule_match\<close> is \<^verbatim>\<open>taint_exec_match\<close> in this build.\<close>

definition te_cond_satisfied :: "'a engine_scheme \<Rightarrow> taint_rule \<Rightarrow> te_rule_eval \<Rightarrow> bool" where
  "te_cond_satisfied st r e =
     (if ru_cond_kind r = TCOND_NONE then False
      else if ru_cond_kind r = TCOND_LINEAGE then
        (case te_get_domain st (ev_pid e) (ru_domain_id r) of
           None \<Rightarrow> False | Some p \<Rightarrow> ps_lin_gates p AND ru_gate r \<noteq> 0)
      else if ru_cond_kind r = TCOND_AFTER then te_after_satisfied st r (ev_pid e)
      else
        let m = (if ev_op e = TOP_CONNECT \<or> ev_op e = TOP_RECV then ev_ip e AND ru_cond_ipv4_mask r = ru_cond_ipv4 r
                 else if ev_op e = TOP_EXEC then taint_exec_match (ru_cond_match r) (ev_target e) (ru_cond_pat r)
                 else te_path_match (policy_features st) (ru_cond_match r) (ev_target e) (ru_cond_pat r))
        in if ru_cond_neg r \<noteq> 0 then \<not> m else m)"

text \<open>Whether the rule's domain is one the evaluation covers, whether its effect is asked for, and the
  labels it is checked against.\<close>

definition rule_in_domain :: "'a engine_scheme \<Rightarrow> te_rule_eval \<Rightarrow> taint_rule \<Rightarrow> bool" where
  "rule_in_domain st e r =
     (\<not> (ru_domain_id r \<noteq> 0 \<and> ru_domain_id r \<noteq> ev_current_domain_id e \<and>
         \<not> cap_domain_matches_pid st (ev_pid e) (ru_domain_id r)))"

definition effect_wanted :: "te_rule_eval \<Rightarrow> taint_rule \<Rightarrow> bool" where
  "effect_wanted e r =
     (if ev_effect_mask e \<noteq> 0 then
        (if ru_effect r > TEFFECT_KILL then False
         else ev_effect_mask e AND push_bit (unat (ru_effect r)) 1 \<noteq> 0)
      else True)"

definition rule_labels :: "'a engine_scheme \<Rightarrow> te_rule_eval \<Rightarrow> taint_rule \<Rightarrow> u64" where
  "rule_labels st e r =
     (if ru_domain_id r = 0 then ev_global_labels e
      else if ru_domain_id r = ev_current_domain_id e then ev_current_labels e
      else te_labels_for_domain st (ev_pid e) (ru_domain_id r))"

definition rule_object_labels :: "'a engine_scheme \<Rightarrow> te_rule_eval \<Rightarrow> taint_rule \<Rightarrow> u64" where
  "rule_object_labels st e r =
     (if ev_include_file_labels e \<and> ev_has_fid e
      then te_file_stored_labels_domain st (ev_fid e) (ev_pid e) (ru_domain_id r) else 0)"

definition rule_arg_ok :: "'a engine_scheme \<Rightarrow> taint_rule \<Rightarrow> bool" where
  "rule_arg_ok st r \<longleftrightarrow> rd (ru_arg r) 0 = 0 \<or> taint_arg_match (as_slots (ts_argslots st)) (ru_arg r)"

text \<open>A hit records the rule and returns its effect.\<close>

definition record_match :: "nat \<Rightarrow> taint_rule \<Rightarrow> u64 \<Rightarrow> te_rule_eval \<Rightarrow> te_rule_eval" where
  "record_match idx r labels e =
     e\<lparr>ev_matched_rule := ru_rule_id r, ev_matched_index := of_nat idx, ev_matched_domain_id := ru_domain_id r,
       ev_matched_req := ru_req r, ev_matched_labels := labels AND ru_req r\<rparr>"

definition te_rule_effect :: "'a engine_scheme \<Rightarrow> te_rule_eval \<Rightarrow> nat \<Rightarrow> u8 option \<times> te_rule_eval" where
  "te_rule_effect st e idx =
     (if MAX_TAINT_RULES \<le> idx then (None, e)
      else case arr_lookup (ts_rules st) idx of
             None \<Rightarrow> (None, e)
           | Some r \<Rightarrow>
               if \<not> cap_policy_rule_bound st (ru_domain_id r) idx then (None, e)
               else if ru_op r \<noteq> ev_op e then (None, e)
               else if \<not> rule_in_domain st e r then (None, e)
               else if \<not> effect_wanted e r then (None, e)
               else
                 let labels = rule_labels st e r OR rule_object_labels st e r
                 in if \<not> taint_mask_ok labels (ru_req r) (ru_forbid r) then (None, e)
                    else if (if ev_op e = TOP_CONNECT \<or> ev_op e = TOP_RECV then ev_ip e AND ru_ipv4_mask r \<noteq> ru_ipv4 r
                             else if ev_op e = TOP_EXEC then \<not> taint_exec_match (ru_match r) (ev_target e) (ru_target r)
                             else \<not> te_path_match (policy_features st) (ru_match r) (ev_target e) (ru_target r))
                    then (None, e)
                    else if ev_op e = TOP_EXEC \<and> \<not> rule_arg_ok st r then (None, e)
                    else if te_cond_satisfied st r e then (None, e)
                    else (Some (ru_effect r), record_match idx r labels e))"

definition te_rule_effect_exec_simple ::
  "'a engine_scheme \<Rightarrow> te_rule_eval \<Rightarrow> nat \<Rightarrow> u8 option \<times> te_rule_eval" where
  "te_rule_effect_exec_simple st e idx =
     (if MAX_TAINT_RULES \<le> idx then (None, e)
      else case arr_lookup (ts_rules st) idx of
             None \<Rightarrow> (None, e)
           | Some r \<Rightarrow>
               if \<not> cap_policy_rule_bound st (ru_domain_id r) idx then (None, e)
               else if ru_op r \<noteq> TOP_EXEC then (None, e)
               else if ru_cond_kind r \<noteq> TCOND_NONE then (None, e)
               else if \<not> rule_in_domain st e r then (None, e)
               else if \<not> effect_wanted e r then (None, e)
               else if \<not> taint_mask_ok (rule_labels st e r) (ru_req r) (ru_forbid r) then (None, e)
               else if \<not> te_exec_simple_match (ru_match r) (ev_target e) (ru_target r) then (None, e)
               else if \<not> rule_arg_ok st r then (None, e)
               else (Some (ru_effect r), record_match idx r (rule_labels st e r) e))"

definition te_rule_effect_exec_complex ::
  "'a engine_scheme \<Rightarrow> te_rule_eval \<Rightarrow> nat \<Rightarrow> u8 option \<times> te_rule_eval" where
  "te_rule_effect_exec_complex st e idx =
     (if MAX_TAINT_RULES \<le> idx then (None, e)
      else case arr_lookup (ts_rules st) idx of
             None \<Rightarrow> (None, e)
           | Some r \<Rightarrow>
               if \<not> cap_policy_rule_bound st (ru_domain_id r) idx then (None, e)
               else if ru_op r \<noteq> TOP_EXEC then (None, e)
               else if (ru_match r = TAINT_MATCH_EXACT \<or> ru_match r = TAINT_MATCH_ANY) \<and> ru_cond_kind r = TCOND_NONE
               then (None, e)
               else if \<not> rule_in_domain st e r then (None, e)
               else if \<not> effect_wanted e r then (None, e)
               else if \<not> taint_mask_ok (rule_labels st e r) (ru_req r) (ru_forbid r) then (None, e)
               else if \<not> taint_exec_match (ru_match r) (ev_target e) (ru_target r) then (None, e)
               else if \<not> rule_arg_ok st r then (None, e)
               else if te_cond_satisfied st r e then (None, e)
               else (Some (ru_effect r), record_match idx r (rule_labels st e r) e))"

definition te_rule_effect_no_args ::
  "'a engine_scheme \<Rightarrow> te_rule_eval \<Rightarrow> nat \<Rightarrow> u8 option \<times> te_rule_eval" where
  "te_rule_effect_no_args st e idx =
     (if MAX_TAINT_RULES \<le> idx then (None, e)
      else case arr_lookup (ts_rules st) idx of
             None \<Rightarrow> (None, e)
           | Some r \<Rightarrow>
               if \<not> cap_policy_rule_bound st (ru_domain_id r) idx then (None, e)
               else if ru_op r \<noteq> ev_op e then (None, e)
               else if \<not> rule_in_domain st e r then (None, e)
               else if \<not> effect_wanted e r then (None, e)
               else
                 let labels = rule_labels st e r OR rule_object_labels st e r
                 in if \<not> taint_mask_ok labels (ru_req r) (ru_forbid r) then (None, e)
                    else if ev_op e = TOP_EXEC then
                      (if rd (ru_arg r) 0 \<noteq> 0 then (None, e)
                       else if \<not> taint_exec_match (ru_match r) (ev_target e) (ru_target r) then (None, e)
                       else if te_cond_satisfied st r e then (None, e)
                       else (Some (ru_effect r), record_match idx r labels e))
                    else (None, e))"

section \<open>The scans\<close>

definition te_record_best :: "te_rule_eval \<Rightarrow> u8 option \<Rightarrow> bool \<times> te_rule_eval" where
  "te_record_best e eff =
     (case eff of
        None \<Rightarrow> (False, e)
      | Some eff \<Rightarrow>
          if sint (ev_best_rule e) < 0 \<or> ucast eff > ev_best_effect e then
            let e = e\<lparr>ev_best_rule := ev_matched_rule e, ev_best_idx := ev_matched_index e,
                      ev_best_effect := ucast eff, ev_best_domain_id := ev_matched_domain_id e,
                      ev_best_req := ev_matched_req e, ev_best_labels := ev_matched_labels e\<rparr>
            in (ev_best_effect e = ucast TEFFECT_KILL, e)
          else (False, e))"

text \<open>\<^verbatim>\<open>rule_start\<close> is 0 in this build.\<close>

definition te_rule_cb :: "'a engine_scheme \<Rightarrow> nat \<Rightarrow> te_rule_eval \<Rightarrow> bool \<times> te_rule_eval" where
  "te_rule_cb st i e = (let (eff, e) = te_rule_effect st e i in te_record_best e eff)"

definition te_rule_no_args_cb :: "'a engine_scheme \<Rightarrow> nat \<Rightarrow> te_rule_eval \<Rightarrow> bool \<times> te_rule_eval" where
  "te_rule_no_args_cb st i e = (let (eff, e) = te_rule_effect_no_args st e i in te_record_best e eff)"

definition te_rule_exec_simple_cb :: "'a engine_scheme \<Rightarrow> nat \<Rightarrow> te_rule_eval \<Rightarrow> bool \<times> te_rule_eval" where
  "te_rule_exec_simple_cb st i e = (let (eff, e) = te_rule_effect_exec_simple st e i in te_record_best e eff)"

definition te_rule_exec_complex_cb :: "'a engine_scheme \<Rightarrow> nat \<Rightarrow> te_rule_eval \<Rightarrow> bool \<times> te_rule_eval" where
  "te_rule_exec_complex_cb st i e = (let (eff, e) = te_rule_effect_exec_complex st e i in te_record_best e eff)"

text \<open>The reset before a scan and the commit of its best match after it.\<close>

definition best_reset :: "te_rule_eval \<Rightarrow> te_rule_eval" where
  "best_reset e = e\<lparr>ev_best_effect := ucast TEFFECT_NOTIFY, ev_best_rule := - 1, ev_best_idx := - 1\<rparr>"

definition best_commit :: "te_rule_eval \<Rightarrow> te_rule_eval" where
  "best_commit e =
     (if sint (ev_best_rule e) \<ge> 0
      then e\<lparr>ev_effect := ev_best_effect e, ev_matched_rule := ev_best_rule e, ev_matched_index := ev_best_idx e,
             ev_matched_domain_id := ev_best_domain_id e, ev_matched_req := ev_best_req e,
             ev_matched_labels := ev_best_labels e\<rparr>
      else e)"

definition te_check_labels_range :: "'a engine_scheme \<Rightarrow> te_rule_eval \<Rightarrow> u32 \<Rightarrow> s32 \<times> te_rule_eval" where
  "te_check_labels_range st e count =
     (let e = best_commit (bpf_loop count (te_rule_cb st) (best_reset e)) in (ev_best_rule e, e))"

definition te_check_labels :: "'a engine_scheme \<Rightarrow> te_rule_eval \<Rightarrow> s32 \<times> te_rule_eval" where
  "te_check_labels st e = te_check_labels_range st e (te_count st 0)"

definition te_check_exec_simple :: "'a engine_scheme \<Rightarrow> te_rule_eval \<Rightarrow> s32 \<times> te_rule_eval" where
  "te_check_exec_simple st e =
     (let e = best_commit (bpf_loop (te_count st 0) (te_rule_exec_simple_cb st) (best_reset e)) in (ev_best_rule e, e))"

definition te_check_exec_complex :: "'a engine_scheme \<Rightarrow> te_rule_eval \<Rightarrow> s32 \<times> te_rule_eval" where
  "te_check_exec_complex st e =
     (let e = best_commit (bpf_loop (te_count st 0) (te_rule_exec_complex_cb st) (best_reset e)) in (ev_best_rule e, e))"

definition te_check_labels_no_args :: "'a engine_scheme \<Rightarrow> te_rule_eval \<Rightarrow> s32 \<times> te_rule_eval" where
  "te_check_labels_no_args st e =
     (let e = best_commit (bpf_loop (te_count st 0) (te_rule_no_args_cb st) (best_reset e)) in (ev_best_rule e, e))"

section \<open>What a hit is\<close>

text \<open>The fields a scan leaves alone: its inputs and the verdict fields of the event handlers.\<close>

definition eval_inputs ::
  "te_rule_eval \<Rightarrow> (pid_t \<times> u64 \<times> u64 \<times> u8 \<times> bytes \<times> file_id \<times> bool \<times> u32 \<times> u32 \<times> bool \<times> u32) \<times>
     (u32 \<times> u32 \<times> s32 \<times> u32 \<times> u64 \<times> u8)" where
  "eval_inputs e =
     ((ev_pid e, ev_global_labels e, ev_current_labels e, ev_op e, ev_target e, ev_fid e, ev_has_fid e, ev_ip e,
       ev_current_domain_id e, ev_include_file_labels e, ev_effect_mask e),
      (ev_event_effect e, ev_event_action e, ev_event_rule e, ev_event_domain_id e, ev_event_labels e, ev_event_op e))"

definition target_matches :: "'a engine_scheme \<Rightarrow> te_rule_eval \<Rightarrow> taint_rule \<Rightarrow> bool" where
  "target_matches st e r =
     (if ev_op e = TOP_CONNECT \<or> ev_op e = TOP_RECV then ev_ip e AND ru_ipv4_mask r = ru_ipv4 r
      else if ev_op e = TOP_EXEC then taint_exec_match (ru_match r) (ev_target e) (ru_target r) \<and> rule_arg_ok st r
      else te_path_match (policy_features st) (ru_match r) (ev_target e) (ru_target r))"

definition seen_labels :: "'a engine_scheme \<Rightarrow> te_rule_eval \<Rightarrow> taint_rule \<Rightarrow> u64" where
  "seen_labels st e r = rule_labels st e r OR rule_object_labels st e r"

definition rule_hit :: "'a engine_scheme \<Rightarrow> te_rule_eval \<Rightarrow> nat \<Rightarrow> taint_rule \<Rightarrow> bool" where
  "rule_hit st e i r \<longleftrightarrow>
     cap_policy_rule_bound st (ru_domain_id r) i \<and> ru_op r = ev_op e \<and> rule_in_domain st e r \<and>
     effect_wanted e r \<and> taint_mask_ok (seen_labels st e r) (ru_req r) (ru_forbid r) \<and>
     target_matches st e r \<and> \<not> te_cond_satisfied st r e"

definition exec_hit :: "'a engine_scheme \<Rightarrow> te_rule_eval \<Rightarrow> nat \<Rightarrow> taint_rule \<Rightarrow> bool" where
  "exec_hit st e i r \<longleftrightarrow>
     cap_policy_rule_bound st (ru_domain_id r) i \<and> ru_op r = TOP_EXEC \<and> rule_in_domain st e r \<and>
     effect_wanted e r \<and> taint_mask_ok (rule_labels st e r) (ru_req r) (ru_forbid r) \<and>
     taint_exec_match (ru_match r) (ev_target e) (ru_target r) \<and> rule_arg_ok st r \<and> \<not> te_cond_satisfied st r e"

definition simple_rule :: "taint_rule \<Rightarrow> bool" where
  "simple_rule r \<longleftrightarrow> (ru_match r = TAINT_MATCH_EXACT \<or> ru_match r = TAINT_MATCH_ANY) \<and> ru_cond_kind r = TCOND_NONE"

section \<open>The scan picks the strongest, then the first\<close>

text \<open>Rule identifiers are not negative as \<^verbatim>\<open>int\<close>, and effects are those of the language.\<close>

definition rules_ok :: "'a cap_maps_scheme \<Rightarrow> bool" where
  "rules_ok st \<longleftrightarrow> (\<forall>r \<in> set (active_rules st). unat (ru_rule_id r) < 2 ^ 31 \<and> ru_effect r \<le> TEFFECT_KILL)"

definition better :: "(nat \<Rightarrow> u8) \<Rightarrow> nat \<Rightarrow> nat option \<Rightarrow> nat option" where
  "better ef i acc = (case acc of None \<Rightarrow> Some i | Some j \<Rightarrow> if ef i > ef j then Some i else Some j)"

definition best_among :: "(nat \<Rightarrow> u8) \<Rightarrow> (nat \<Rightarrow> bool) \<Rightarrow> nat list \<Rightarrow> nat option \<Rightarrow> nat option" where
  "best_among ef hit is acc = fold (\<lambda>i acc. if hit i then better ef i acc else acc) is acc"

text \<open>\<open>j\<close> is the choice among the hits: none is stronger, and none as strong comes before it.\<close>

definition strongest_first :: "(nat \<Rightarrow> u8) \<Rightarrow> (nat \<Rightarrow> bool) \<Rightarrow> nat \<Rightarrow> nat \<Rightarrow> bool" where
  "strongest_first ef hit n j \<longleftrightarrow>
     j < n \<and> hit j \<and> (\<forall>i < n. hit i \<longrightarrow> ef i < ef j \<or> ef i = ef j \<and> j \<le> i)"

lemma best_among_spec:
  "case best_among ef hit [0..<n] None of
     None \<Rightarrow> \<forall>i < n. \<not> hit i
   | Some j \<Rightarrow> strongest_first ef hit n j"
proof (induction n)
  case (Suc n)
  then show ?case
    by (auto simp: best_among_def better_def strongest_first_def less_Suc_eq split: option.splits)
qed (simp add: best_among_def)

lemma strongest_first_unique:
  "strongest_first ef hit n j \<Longrightarrow> strongest_first ef hit n k \<Longrightarrow> j = k"
  unfolding strongest_first_def by (metis antisym less_asym less_irrefl)

lemma sint_nonneg: "unat (w :: s32) < 2 ^ 31 \<Longrightarrow> 0 \<le> sint w"
proof -
  assume "unat w < 2 ^ 31"
  then have "unat w < 2147483648" by simp
  then have u: "uint w < 2147483648" unfolding uint_nat by linarith
  have "- (2 ^ 31) \<le> uint w" using order_trans [of "- (2 ^ 31)" 0 "uint w"] by simp
  with u have "signed_take_bit 31 (uint w) = uint w" by (intro signed_take_bit_int_eq_self) simp_all
  then show ?thesis by (simp add: sint_uint)
qed

lemma ucast_effect_less: "(ucast (a :: u8) :: u32) < ucast b \<longleftrightarrow> a < b"
  by (simp add: word_less_def uint_up_ucast is_up)

lemma ucast_effect_kill: "(ucast (a :: u8) :: u32) = 2 \<longleftrightarrow> a = 2"
  by (simp add: word_uint_eq_iff uint_up_ucast is_up)

locale rule_scan =
  fixes effect :: "'a engine_scheme \<Rightarrow> te_rule_eval \<Rightarrow> nat \<Rightarrow> u8 option \<times> te_rule_eval"
    and hit :: "'a engine_scheme \<Rightarrow> te_rule_eval \<Rightarrow> nat \<Rightarrow> taint_rule \<Rightarrow> bool"
    and labs :: "'a engine_scheme \<Rightarrow> te_rule_eval \<Rightarrow> taint_rule \<Rightarrow> u64"
  assumes effect_step: "effect st e i =
      (if MAX_TAINT_RULES \<le> i then (None, e)
       else case arr_lookup (ts_rules st) i of
              None \<Rightarrow> (None, e)
            | Some r \<Rightarrow> if hit st e i r then (Some (ru_effect r), record_match i r (labs st e r) e) else (None, e))"
    and hit_inputs: "eval_inputs e = eval_inputs e' \<Longrightarrow> hit st e = hit st e'"
    and labs_inputs: "eval_inputs e = eval_inputs e' \<Longrightarrow> labs st e = labs st e'"
begin

definition cb :: "'a engine_scheme \<Rightarrow> nat \<Rightarrow> te_rule_eval \<Rightarrow> bool \<times> te_rule_eval" where
  "cb st i e = (let (eff, e) = effect st e i in te_record_best e eff)"

definition holds :: "'a engine_scheme \<Rightarrow> te_rule_eval \<Rightarrow> te_rule_eval \<Rightarrow> nat option \<Rightarrow> bool" where
  "holds st e0 e acc \<longleftrightarrow>
     eval_inputs e = eval_inputs e0 \<and>
     (case acc of
        None \<Rightarrow> e = e0
      | Some j \<Rightarrow>
          let r = a_cell (ts_rules st) j
          in j < n_rules st \<and> ev_best_rule e = ru_rule_id r \<and> ev_best_idx e = of_nat j \<and>
             ev_best_effect e = ucast (ru_effect r) \<and> ev_best_domain_id e = ru_domain_id r \<and>
             ev_best_req e = ru_req r \<and> ev_best_labels e = labs st e0 r AND ru_req r)"

lemma rule_facts:
  assumes "rules_ok st" and "j < n_rules st"
  shows "0 \<le> sint (ru_rule_id (a_cell (ts_rules st) j))" and "ru_effect (a_cell (ts_rules st) j) \<le> TEFFECT_KILL"
  using assms by (auto simp: rules_ok_def active_rules_def intro!: sint_nonneg)

lemma cb_miss:
  assumes "wf_tables st" and "i < n_rules st" and "\<not> hit st e i (a_cell (ts_rules st) i)"
  shows "cb st i e = (False, e)"
  using assms wf_te_count0 [OF assms(1)]
  by (simp add: cb_def effect_step arr_lookup_def wf_tables_def te_record_best_def)

lemma cb_hit:
  assumes "wf_tables st" and "i < n_rules st" and "hit st e i (a_cell (ts_rules st) i)"
  shows "cb st i e = te_record_best (record_match i (a_cell (ts_rules st) i) (labs st e (a_cell (ts_rules st) i)) e)
      (Some (ru_effect (a_cell (ts_rules st) i)))"
  using assms wf_te_count0 [OF assms(1)] by (simp add: cb_def effect_step arr_lookup_def wf_tables_def)

lemma holds_step:
  fixes st i acc e0
  defines "ef \<equiv> \<lambda>i. ru_effect (a_cell (ts_rules st) i)"
  defines "acc' \<equiv> if hit st e0 i (a_cell (ts_rules st) i) then better ef i acc else acc"
  assumes wf: "wf_tables st" and ok: "rules_ok st" and i: "i < n_rules st"
    and h: "holds st e0 e acc" and fresh: "sint (ev_best_rule e0) < 0"
  shows "holds st e0 (snd (cb st i e)) acc'"
    and "fst (cb st i e) \<Longrightarrow> \<exists>j. acc' = Some j \<and> ef j = TEFFECT_KILL"
proof -
  let ?r = "a_cell (ts_rules st) i"
  have inp: "eval_inputs e = eval_inputs e0" using h by (simp add: holds_def)
  note same = hit_inputs [OF inp] labs_inputs [OF inp]
  note facts = rule_facts [OF ok]
  have "holds st e0 (snd (cb st i e)) acc' \<and> (fst (cb st i e) \<longrightarrow> (\<exists>j. acc' = Some j \<and> ef j = TEFFECT_KILL))"
  proof (cases "hit st e i ?r")
    case False
    then show ?thesis using h by (simp add: cb_miss [OF wf i False] acc'_def same)
  next
    case True
    show ?thesis
    proof (cases acc)
      case None
      then have "e = e0" using h by (simp add: holds_def)
      then show ?thesis
        unfolding cb_hit [OF wf i True]
        using True fresh i None
        by (auto simp: te_record_best_def record_match_def holds_def acc'_def better_def ef_def
            eval_inputs_def same Let_def ucast_effect_kill)
    next
      case (Some j)
      then have best: "ev_best_rule e = ru_rule_id (a_cell (ts_rules st) j)" "j < n_rules st"
        "ev_best_effect e = ucast (ef j)"
        using h by (auto simp: holds_def Let_def ef_def)
      have nn: "\<not> sint (ev_best_rule e) < 0" using facts(1) [OF best(2)] best(1) by simp
      show ?thesis
        using True h i Some nn inp
        by (auto simp: cb_hit [OF wf i True] te_record_best_def record_match_def holds_def acc'_def better_def
            best(3) ef_def ucast_effect_less ucast_effect_kill eval_inputs_def same Let_def)
    qed
  qed
  then show "holds st e0 (snd (cb st i e)) acc'"
    and "fst (cb st i e) \<Longrightarrow> \<exists>j. acc' = Some j \<and> ef j = TEFFECT_KILL" by auto
qed

end

context rule_scan
begin

lemma best_kill_stable:
  assumes "rules_ok st" and "set is \<subseteq> {..<n_rules st}"
    and "ru_effect (a_cell (ts_rules st) j) = TEFFECT_KILL"
  shows "best_among (\<lambda>i. ru_effect (a_cell (ts_rules st) i)) h is (Some j) = Some j"
  using assms(2)
proof (induction "is")
  case (Cons i "is")
  then have "ru_effect (a_cell (ts_rules st) i) \<le> TEFFECT_KILL" using rule_facts(2) [OF assms(1)] by simp
  with Cons assms(3) show ?case
    by (auto simp: best_among_def better_def)
qed (simp add: best_among_def)

lemma scan_holds:
  assumes "wf_tables st" and "rules_ok st" and "sint (ev_best_rule e0) < 0"
  shows "set is \<subseteq> {..<n_rules st} \<Longrightarrow> holds st e0 e acc \<Longrightarrow>
    holds st e0 (loop_on is (cb st) e)
      (best_among (\<lambda>i. ru_effect (a_cell (ts_rules st) i)) (\<lambda>i. hit st e0 i (a_cell (ts_rules st) i)) is acc)"
proof (induction "is" arbitrary: e acc)
  case (Cons i "is")
  let ?ef = "\<lambda>i. ru_effect (a_cell (ts_rules st) i)"
  let ?h = "\<lambda>i. hit st e0 i (a_cell (ts_rules st) i)"
  let ?acc = "if ?h i then better ?ef i acc else acc"
  have i: "i < n_rules st" using Cons.prems by simp
  note step = holds_step [OF assms(1,2) i Cons.prems(2) assms(3)]
  have fold: "best_among ?ef ?h (i # is) acc = best_among ?ef ?h is ?acc"
    by (simp add: best_among_def)
  show ?case
  proof (cases "fst (cb st i e)")
    case True
    then obtain j where "?acc = Some j" "?ef j = TEFFECT_KILL" using step(2) by blast
    then have "best_among ?ef ?h (i # is) acc = ?acc"
      using best_kill_stable [OF assms(2)] Cons.prems(1) fold by simp
    with True step(1) show ?thesis by (cases "cb st i e") simp
  next
    case False
    with Cons.IH [OF _ step(1)] Cons.prems(1) show ?thesis
      unfolding fold by (cases "cb st i e") simp
  qed
qed (simp add: best_among_def)

lemma scan_best:
  fixes st e
  defines "ef \<equiv> \<lambda>i. ru_effect (a_cell (ts_rules st) i)"
  defines "h \<equiv> \<lambda>i. hit st e i (a_cell (ts_rules st) i)"
  defines "e' \<equiv> best_commit (bpf_loop (te_count st 0) (cb st) (best_reset e))"
  assumes wf: "wf_tables st" and ok: "rules_ok st"
  shows "(\<forall>i < n_rules st. \<not> h i) \<and> ev_best_rule e' = - 1 \<and> e' = best_reset e \<or>
    (\<exists>j. strongest_first ef h (n_rules st) j \<and>
      (let r = a_cell (ts_rules st) j
       in ev_best_rule e' = ru_rule_id r \<and> ev_effect e' = ucast (ru_effect r) \<and> ev_matched_rule e' = ru_rule_id r \<and>
          ev_matched_index e' = of_nat j \<and> ev_matched_domain_id e' = ru_domain_id r \<and> ev_matched_req e' = ru_req r \<and>
          ev_matched_labels e' = labs st e r AND ru_req r \<and> eval_inputs e' = eval_inputs e))"
proof -
  let ?e0 = "best_reset e"
  let ?e1 = "bpf_loop (te_count st 0) (cb st) ?e0"
  have inp: "eval_inputs ?e0 = eval_inputs e" by (simp add: best_reset_def eval_inputs_def)
  note same = hit_inputs [OF inp] labs_inputs [OF inp]
  have fresh: "sint (ev_best_rule ?e0) < 0" by (simp add: best_reset_def)
  have "?e1 = loop_on [0..<n_rules st] (cb st) ?e0"
    using wf_te_count0 [OF wf] by (simp add: bpf_loop_def)
  moreover have "holds st ?e0 ?e0 None" by (simp add: holds_def)
  ultimately have hd: "holds st ?e0 ?e1 (best_among ef h [0..<n_rules st] None)"
    using scan_holds [OF wf ok fresh, of "[0..<n_rules st]" ?e0 None]
    by (simp add: ef_def h_def same subset_iff)
  show ?thesis
  proof (cases "best_among ef h [0..<n_rules st] None")
    case None
    then have "?e1 = ?e0" using hd by (simp add: holds_def)
    then have "e' = ?e0" using fresh by (simp add: e'_def best_commit_def)
    then show ?thesis
      using best_among_spec [where ef = ef and hit = h and n = "n_rules st"] None by (simp add: best_reset_def)
  next
    case (Some j)
    then have s: "strongest_first ef h (n_rules st) j"
      using best_among_spec [where ef = ef and hit = h and n = "n_rules st"] by simp
    have "0 \<le> sint (ev_best_rule ?e1)"
      using hd Some rule_facts(1) [OF ok, of j] by (simp add: holds_def Let_def)
    then have "let r = a_cell (ts_rules st) j
       in ev_best_rule e' = ru_rule_id r \<and> ev_effect e' = ucast (ru_effect r) \<and> ev_matched_rule e' = ru_rule_id r \<and>
          ev_matched_index e' = of_nat j \<and> ev_matched_domain_id e' = ru_domain_id r \<and> ev_matched_req e' = ru_req r \<and>
          ev_matched_labels e' = labs st e r AND ru_req r \<and> eval_inputs e' = eval_inputs e"
      using hd Some inp by (simp add: e'_def best_commit_def holds_def Let_def same eval_inputs_def)
    with s show ?thesis by blast
  qed
qed

end

section \<open>The engine's scans\<close>

text \<open>Whether a rule matches depends on the inputs alone, not on the verdict fields.\<close>

lemma args_hit:
  assumes "fst (eval_inputs e) = fst (eval_inputs e')"
  shows "rule_labels st e = rule_labels st e'" "rule_object_labels st e = rule_object_labels st e'"
    "seen_labels st e = seen_labels st e'" "rule_hit st e = rule_hit st e'" "exec_hit st e = exec_hit st e'"
    "ev_op e = ev_op e'"
proof -
  have in_eq: "ev_pid e = ev_pid e'" "ev_global_labels e = ev_global_labels e'" "ev_current_labels e = ev_current_labels e'"
    "ev_op e = ev_op e'" "ev_target e = ev_target e'" "ev_fid e = ev_fid e'" "ev_has_fid e = ev_has_fid e'"
    "ev_ip e = ev_ip e'" "ev_current_domain_id e = ev_current_domain_id e'"
    "ev_include_file_labels e = ev_include_file_labels e'" "ev_effect_mask e = ev_effect_mask e'"
    using assms by (simp_all add: eval_inputs_def)
  show l: "rule_labels st e = rule_labels st e'" "rule_object_labels st e = rule_object_labels st e'"
    by (auto simp: fun_eq_iff rule_labels_def rule_object_labels_def in_eq)
  then show s: "seen_labels st e = seen_labels st e'" by (simp add: fun_eq_iff seen_labels_def)
  have c: "te_cond_satisfied st r e = te_cond_satisfied st r e'" for r
    by (simp add: te_cond_satisfied_def in_eq)
  have d: "rule_in_domain st e r = rule_in_domain st e' r" "effect_wanted e r = effect_wanted e' r"
    "target_matches st e r = target_matches st e' r" for r
    by (simp_all add: rule_in_domain_def effect_wanted_def target_matches_def in_eq)
  show "rule_hit st e = rule_hit st e'" "exec_hit st e = exec_hit st e'" "ev_op e = ev_op e'"
    by (simp_all add: fun_eq_iff rule_hit_def exec_hit_def l s c d in_eq)
qed

lemma inputs_hit:
  assumes "eval_inputs e = eval_inputs e'"
  shows "rule_labels st e = rule_labels st e'" "rule_object_labels st e = rule_object_labels st e'"
    "seen_labels st e = seen_labels st e'" "rule_hit st e = rule_hit st e'" "exec_hit st e = exec_hit st e'"
    "ev_op e = ev_op e'"
  using assms by (simp_all add: args_hit [of e e'])

lemma exec_hit_inputs:
  "eval_inputs e = eval_inputs e' \<Longrightarrow> (\<lambda>i r. exec_hit st e i r \<and> P r) = (\<lambda>i r. exec_hit st e' i r \<and> P r)"
  using inputs_hit(5) [of e e' st] by simp

interpretation scan_rule: rule_scan te_rule_effect rule_hit seen_labels
proof
  fix st :: "'a engine_scheme" and e i
  show "te_rule_effect st e i =
      (if MAX_TAINT_RULES \<le> i then (None, e)
       else case arr_lookup (ts_rules st) i of
              None \<Rightarrow> (None, e)
            | Some r \<Rightarrow> if rule_hit st e i r then (Some (ru_effect r), record_match i r (seen_labels st e r) e) else (None, e))"
    by (simp add: te_rule_effect_def rule_hit_def target_matches_def seen_labels_def Let_def split: option.split)
qed (erule inputs_hit)+

interpretation scan_exec_simple: rule_scan te_rule_effect_exec_simple
    "\<lambda>st e i r. exec_hit st e i r \<and> simple_rule r" rule_labels
proof
  fix st :: "'a engine_scheme" and e i
  show "te_rule_effect_exec_simple st e i =
      (if MAX_TAINT_RULES \<le> i then (None, e)
       else case arr_lookup (ts_rules st) i of
              None \<Rightarrow> (None, e)
            | Some r \<Rightarrow> if exec_hit st e i r \<and> simple_rule r
                then (Some (ru_effect r), record_match i r (rule_labels st e r) e) else (None, e))"
    by (auto simp: te_rule_effect_exec_simple_def exec_hit_def simple_rule_def te_exec_simple_match_def
        taint_exec_match_def te_cond_satisfied_def split: option.split)
qed (erule exec_hit_inputs, erule inputs_hit(1))

interpretation scan_exec_complex: rule_scan te_rule_effect_exec_complex
    "\<lambda>st e i r. exec_hit st e i r \<and> \<not> simple_rule r" rule_labels
proof
  fix st :: "'a engine_scheme" and e i
  show "te_rule_effect_exec_complex st e i =
      (if MAX_TAINT_RULES \<le> i then (None, e)
       else case arr_lookup (ts_rules st) i of
              None \<Rightarrow> (None, e)
            | Some r \<Rightarrow> if exec_hit st e i r \<and> \<not> simple_rule r
                then (Some (ru_effect r), record_match i r (rule_labels st e r) e) else (None, e))"
    by (auto simp: te_rule_effect_exec_complex_def exec_hit_def simple_rule_def split: option.split)
qed (erule exec_hit_inputs, erule inputs_hit(1))

interpretation scan_rule_no_args: rule_scan te_rule_effect_no_args
    "\<lambda>st e i r. rule_hit st e i r \<and> ev_op e = TOP_EXEC \<and> rd (ru_arg r) 0 = 0" seen_labels
proof
  fix st :: "'a engine_scheme" and e i
  show "te_rule_effect_no_args st e i =
      (if MAX_TAINT_RULES \<le> i then (None, e)
       else case arr_lookup (ts_rules st) i of
              None \<Rightarrow> (None, e)
            | Some r \<Rightarrow> if rule_hit st e i r \<and> ev_op e = TOP_EXEC \<and> rd (ru_arg r) 0 = 0
                then (Some (ru_effect r), record_match i r (seen_labels st e r) e) else (None, e))"
    by (auto simp: te_rule_effect_no_args_def rule_hit_def target_matches_def seen_labels_def rule_arg_ok_def Let_def
        split: option.split)
next
  fix e e' and st :: "'a engine_scheme"
  assume "eval_inputs e = eval_inputs e'"
  then show "(\<lambda>i r. rule_hit st e i r \<and> ev_op e = TOP_EXEC \<and> rd (ru_arg r) 0 = 0) =
      (\<lambda>i r. rule_hit st e' i r \<and> ev_op e' = TOP_EXEC \<and> rd (ru_arg r) 0 = 0)"
    using inputs_hit(4) [of e e' st] inputs_hit(6) [of e e'] by simp
qed (erule inputs_hit(3))

lemma scan_cbs:
  "te_rule_cb st = scan_rule.cb st" "te_rule_exec_simple_cb st = scan_exec_simple.cb st"
  "te_rule_exec_complex_cb st = scan_exec_complex.cb st" "te_rule_no_args_cb st = scan_rule_no_args.cb st"
  by (simp_all add: fun_eq_iff te_rule_cb_def scan_rule.cb_def te_rule_exec_simple_cb_def scan_exec_simple.cb_def
      te_rule_exec_complex_cb_def scan_exec_complex.cb_def te_rule_no_args_cb_def scan_rule_no_args.cb_def)

section \<open>Properties\<close>

text \<open>C9: evaluation picks the strongest matching rule, and the first of the strongest. If no active rule
  matches the event the result is -1; otherwise the reported rule is one that matches, no matching rule has
  a stronger effect (kill over block over notify), none of the same effect comes before it, and the
  reported effect, index, domain and labels are that rule's, although the scan stops early at a kill.\<close>

theorem te_check_labels_strongest:
  assumes "wf_tables st" and "rules_ok st"
  shows "(\<forall>i < n_rules st. \<not> rule_hit st e i (a_cell (ts_rules st) i)) \<and> fst (te_check_labels st e) = - 1 \<or>
    (\<exists>j. strongest_first (\<lambda>i. ru_effect (a_cell (ts_rules st) i)) (\<lambda>i. rule_hit st e i (a_cell (ts_rules st) i)) (n_rules st) j \<and>
      fst (te_check_labels st e) = ru_rule_id (a_cell (ts_rules st) j) \<and>
      ev_effect (snd (te_check_labels st e)) = ucast (ru_effect (a_cell (ts_rules st) j)) \<and>
      ev_matched_rule (snd (te_check_labels st e)) = ru_rule_id (a_cell (ts_rules st) j) \<and>
      ev_matched_index (snd (te_check_labels st e)) = of_nat j \<and>
      ev_matched_domain_id (snd (te_check_labels st e)) = ru_domain_id (a_cell (ts_rules st) j) \<and>
      ev_matched_labels (snd (te_check_labels st e)) = seen_labels st e (a_cell (ts_rules st) j) AND ru_req (a_cell (ts_rules st) j))"
  using scan_rule.scan_best [OF assms, where e = e]
  unfolding te_check_labels_def te_check_labels_range_def scan_cbs Let_def by auto


text \<open>Two connect rules apply to every process and address: rule 7 notifies and, after it, rule 9 kills.\<close>

definition rule_engine :: engine where
  "rule_engine = demo_engine
     \<lparr>ts_rules := \<lparr>a_max = MAX_TAINT_RULES, a_cell = (\<lambda>i.
        if i = 0 then no_rule\<lparr>ru_op := TOP_CONNECT, ru_rule_id := 7\<rparr>
        else no_rule\<lparr>ru_op := TOP_CONNECT, ru_effect := TEFFECT_KILL, ru_rule_id := 9\<rparr>)\<rparr>,
      ts_counts := \<lparr>a_max = 6, a_cell = (\<lambda>i. if i = 5 then 4 else if i = 0 then 2 else 0)\<rparr>,
      cap_policy := map_put 0 \<lparr>pm_lo = 3, pm_hi = 0\<rparr> (hash_new 4096)\<rparr>"

definition rule_event :: te_rule_eval where
  "rule_event =
     \<lparr>ev_pid = 100, ev_global_labels = 0, ev_current_labels = 0, ev_op = TOP_CONNECT, ev_target = [],
      ev_fid = \<lparr>fi_ino = 0, fi_dev = 0, fi_pad = 0\<rparr>, ev_has_fid = False, ev_ip = 1, ev_current_domain_id = 1,
      ev_include_file_labels = False, ev_matched_domain_id = 0, ev_effect = 0, ev_effect_mask = 0,
      ev_matched_rule = - 1, ev_matched_index = - 1, ev_matched_req = 0, ev_matched_labels = 0,
      ev_best_effect = 0, ev_best_rule = - 1, ev_best_idx = - 1, ev_best_domain_id = 0, ev_best_req = 0,
      ev_best_labels = 0, ev_event_effect = 0, ev_event_action = 0, ev_event_rule = - 1, ev_event_domain_id = 0,
      ev_event_labels = 0, ev_event_op = 0\<rparr>"

lemma wf_rule_engine: "wf_tables rule_engine"
  using wf_demo_engine by (simp add: wf_tables_def rule_engine_def)

lemma rule_engine_facts:
  "n_rules rule_engine = 2" "rules_ok rule_engine" "rule_hit rule_engine rule_event 1 (a_cell (ts_rules rule_engine) 1)"
  "ru_effect (a_cell (ts_rules rule_engine) 1) = TEFFECT_KILL" "ru_rule_id (a_cell (ts_rules rule_engine) 1) = 9"
  "ru_effect (a_cell (ts_rules rule_engine) 0) = TEFFECT_NOTIFY"
  by (simp_all add: n_rules_def rule_engine_def rules_ok_def active_rules_def rule_hit_def rule_event_def no_rule_def
      cap_policy_rule_bound_def cap_policy_mask_has_def lookup_put room_def hash_new_def rule_in_domain_def
      effect_wanted_def taint_mask_ok_def target_matches_def te_cond_satisfied_def bit64_def)

theorem te_check_labels_strongest_witness:
  "fst (te_check_labels rule_engine rule_event) = 9 \<and>
   ev_effect (snd (te_check_labels rule_engine rule_event)) = ucast TEFFECT_KILL"
proof -
  note facts = rule_engine_facts
  have one: "i = 1" if "strongest_first (\<lambda>i. ru_effect (a_cell (ts_rules rule_engine) i))
      (\<lambda>i. rule_hit rule_engine rule_event i (a_cell (ts_rules rule_engine) i)) (n_rules rule_engine) i" for i
    using that facts by (cases "i = 0") (auto simp: strongest_first_def)
  from te_check_labels_strongest [OF wf_rule_engine facts(2), of rule_event] show ?thesis
  proof (elim disjE exE conjE)
    assume "\<forall>i < n_rules rule_engine. \<not> rule_hit rule_engine rule_event i (a_cell (ts_rules rule_engine) i)"
    then show ?thesis using facts(1,3) by simp
  next
    fix j
    assume "strongest_first (\<lambda>i. ru_effect (a_cell (ts_rules rule_engine) i))
      (\<lambda>i. rule_hit rule_engine rule_event i (a_cell (ts_rules rule_engine) i)) (n_rules rule_engine) j"
      and "fst (te_check_labels rule_engine rule_event) = ru_rule_id (a_cell (ts_rules rule_engine) j)"
      and "ev_effect (snd (te_check_labels rule_engine rule_event)) = ucast (ru_effect (a_cell (ts_rules rule_engine) j))"
    with one [of j] facts show ?thesis by simp
  qed
qed

end
