(* ===== verification/Sensor.thy ===== *)
theory Sensor
  imports Rules
begin

text \<open>
  Event handling (\<^verbatim>\<open>bpf/process.bpf.c\<close>): the normalised events, the two backends (LSM hooks,
  which may deny, and tracepoints, which may signal), the report written to the ring buffer, and the
  handlers that evaluate an event, act on the verdict and then let the labels flow.

  The state extends the engine by the ring buffer and what the handlers ask the kernel: the current
  task's identity, parent and name, whether the n-th ring-buffer reservation succeeds, and the signals
  sent to the current task. Per-CPU scratch records are local to a handler and their lookup succeeds.
\<close>

section \<open>Codes and reports\<close>

abbreviation (input) EPERM :: int where "EPERM \<equiv> 1"
abbreviation (input) SIGKILL :: nat where "SIGKILL \<equiv> 9"

abbreviation (input) TE_MODE_NOTIFY :: u32 where "TE_MODE_NOTIFY \<equiv> 0"
abbreviation (input) TE_MODE_BLOCK :: u32 where "TE_MODE_BLOCK \<equiv> 1"
abbreviation (input) TE_MODE_KILL :: u32 where "TE_MODE_KILL \<equiv> 2"
abbreviation (input) TE_MODE_UNSUPPORTED :: u32 where "TE_MODE_UNSUPPORTED \<equiv> 3"

abbreviation (input) TE_ACCESS_READ :: u32 where "TE_ACCESS_READ \<equiv> 1"
abbreviation (input) TE_ACCESS_WRITE :: u32 where "TE_ACCESS_WRITE \<equiv> 2"
abbreviation (input) TE_ACCESS_EXEC :: u32 where "TE_ACCESS_EXEC \<equiv> 4"
abbreviation (input) TE_ACCESS_CONNECT :: u32 where "TE_ACCESS_CONNECT \<equiv> 8"
abbreviation (input) TE_ACCESS_RECV :: u32 where "TE_ACCESS_RECV \<equiv> 16"

abbreviation (input) TE_OBJ_EXEC :: u32 where "TE_OBJ_EXEC \<equiv> 1"
abbreviation (input) TE_OBJ_FILE :: u32 where "TE_OBJ_FILE \<equiv> 2"
abbreviation (input) TE_OBJ_ENDPOINT :: u32 where "TE_OBJ_ENDPOINT \<equiv> 3"

text \<open>\<^verbatim>\<open>struct event\<close>; strings are given up to their NUL, since the rest of a reserved record is
  whatever the ring buffer held.\<close>

record event =
  vi_pid :: pid_t
  vi_ppid :: pid_t
  vi_blocked :: bool
  vi_killed :: bool
  vi_effect :: u32
  vi_op :: u8
  vi_domain_id :: u32
  vi_session_root :: pid_t
  vi_timestamp_ns :: u64
  vi_comm :: bytes
  vi_filename :: bytes
  vi_taint_rule_id :: s32
  vi_conn_ip :: u32
  vi_taint_label :: u64
  vi_matched_label :: u64
  vi_matched_labels :: u64
  vi_prov_label :: u64
  vi_prov_timestamp_ns :: u64
  vi_prov_pid :: pid_t
  vi_prov_op :: u32
  vi_prov_ip :: u32
  vi_prov_target :: bytes

record te_event =
  te_pid :: pid_t
  te_obj_kind :: u32
  te_access :: u32
  te_mode :: u32
  te_target :: bytes
  te_display :: "bytes option"
  te_ip :: u32

record sensor = engine +
  rb :: "event list"
  rb_reserve :: "nat \<Rightarrow> bool"
  rb_tries :: nat
  cur_pid_tgid :: u64
  cur_ppid :: pid_t
  cur_comm :: bytes
  signals :: "(pid_t \<times> nat) list"
  te_protected_pids :: "(pid_t, u32) bpf_hash"

text \<open>\<^verbatim>\<open>bpf_get_current_pid_tgid() >> 32\<close>.\<close>

definition cur_pid :: "'a sensor_scheme \<Rightarrow> pid_t" where
  "cur_pid st = ucast (drop_bit 32 (cur_pid_tgid st))"

definition bpf_send_signal :: "nat \<Rightarrow> 'a sensor_scheme \<Rightarrow> 'a sensor_scheme" where
  "bpf_send_signal sig st = st\<lparr>signals := signals st @ [(cur_pid st, sig)]\<rparr>"

section \<open>Access and modes\<close>

definition te_access_from_open_flags :: "u32 \<Rightarrow> u32" where
  "te_access_from_open_flags flags =
     (let acc = flags AND 3;
          access = (if acc \<noteq> 1 then TE_ACCESS_READ else 0)
      in if acc \<noteq> 0 \<or> flags AND (0x40 OR 0x200) \<noteq> 0 then access OR TE_ACCESS_WRITE else access)"

definition te_access_from_perm_mask :: "u32 \<Rightarrow> u32" where
  "te_access_from_perm_mask m =
     (let access = (if m AND 4 \<noteq> 0 then TE_ACCESS_READ else 0)
      in if m AND 2 \<noteq> 0 then access OR TE_ACCESS_WRITE else access)"

definition te_access_from_mmap :: "u64 \<Rightarrow> u64 \<Rightarrow> u32" where
  "te_access_from_mmap prot flags =
     (let map_type = flags AND 0x0f;
          access = (if prot AND (1 OR 4) \<noteq> 0 then TE_ACCESS_READ else 0)
      in if prot AND 2 \<noteq> 0 \<and> (map_type = 1 \<or> map_type = 3) then access OR TE_ACCESS_WRITE else access)"

definition te_tracepoint_mode :: u32 where
  "te_tracepoint_mode = TE_MODE_NOTIFY"

definition te_effect_mode :: "u32 \<Rightarrow> u32 \<Rightarrow> u32" where
  "te_effect_mode backend_mode effect =
     (if effect = ucast TEFFECT_NOTIFY then TE_MODE_NOTIFY
      else if effect = ucast TEFFECT_KILL then TE_MODE_KILL
      else if effect = ucast TEFFECT_BLOCK \<and> backend_mode = TE_MODE_BLOCK then TE_MODE_BLOCK
      else TE_MODE_UNSUPPORTED)"

definition te_supported_effects :: "u32 \<Rightarrow> u32" where
  "te_supported_effects backend_mode =
     (if backend_mode = TE_MODE_BLOCK then push_bit (unat TEFFECT_BLOCK) 1
      else push_bit (unat TEFFECT_NOTIFY) 1 OR push_bit (unat TEFFECT_KILL) 1)"

definition te_better_match :: "s32 \<Rightarrow> u32 \<Rightarrow> s32 \<Rightarrow> u32 \<Rightarrow> bool" where
  "te_better_match candidate_rule candidate_effect current_rule current_effect \<longleftrightarrow>
     0 \<le> sint candidate_rule \<and> (sint current_rule < 0 \<or> candidate_effect > current_effect)"

section \<open>Reports\<close>

definition copy_violation_provenance :: "te_prov option \<Rightarrow> event \<Rightarrow> event" where
  "copy_violation_provenance p v =
     (case p of
        None \<Rightarrow> v
      | Some p \<Rightarrow>
          v\<lparr>vi_prov_label := pv_label p, vi_prov_timestamp_ns := pv_timestamp_ns p, vi_prov_pid := pv_pid p,
            vi_prov_op := pv_op p, vi_prov_ip := pv_ip p,
            vi_prov_target := cstr (take (MAX_FILENAME_LEN - 1) (pv_target p))\<rparr>)"

definition provenance_cb ::
  "'a engine_scheme \<Rightarrow> pid_t \<Rightarrow> u32 \<Rightarrow> u64 \<Rightarrow> u32 \<Rightarrow> file_id option \<Rightarrow> u32 \<Rightarrow> nat \<Rightarrow> event \<Rightarrow> bool \<times> event" where
  "provenance_cb st pid domain_id matched_labels obj_kind fid ip i v =
     (let l = bit64 i
      in if matched_labels AND l = 0 then (False, v)
         else
           let v = (if vi_matched_label v = 0 then v\<lparr>vi_matched_label := l\<rparr> else v)
           in case te_lookup_proc_prov (ts_proc_prov st) pid domain_id l of
                Some p \<Rightarrow> (True, copy_violation_provenance (Some p) v)
              | None \<Rightarrow>
                  let pf = (case fid of
                              Some fid \<Rightarrow>
                                if obj_kind = TE_OBJ_FILE
                                then map_lookup (ts_file_prov st) \<lparr>fl_fdom = te_file_domain_key_for domain_id fid, fl_label = l\<rparr>
                                else None
                            | None \<Rightarrow> None)
                  in case pf of
                       Some p \<Rightarrow> (True, copy_violation_provenance (Some p) v)
                     | None \<Rightarrow>
                         if obj_kind = TE_OBJ_ENDPOINT \<and> ip \<noteq> 0 then
                           (case map_lookup (ts_endp_prov st) \<lparr>el_edom = te_endp_domain_key_for domain_id ip, el_label = l\<rparr> of
                              Some p \<Rightarrow> (True, copy_violation_provenance (Some p) v)
                            | None \<Rightarrow> (False, v))
                         else (False, v))"

definition fill_violation_provenance ::
  "'a engine_scheme \<Rightarrow> pid_t \<Rightarrow> u32 \<Rightarrow> u64 \<Rightarrow> u32 \<Rightarrow> file_id option \<Rightarrow> u32 \<Rightarrow> event \<Rightarrow> event" where
  "fill_violation_provenance st pid domain_id matched_labels obj_kind fid ip v =
     (let v = v\<lparr>vi_matched_label := 0, vi_prov_label := 0, vi_prov_timestamp_ns := 0, vi_prov_pid := 0,
                vi_prov_op := 0, vi_prov_ip := 0, vi_prov_target := []\<rparr>
      in loop_on [0..<MAX_TAINT_LABELS] (provenance_cb st pid domain_id matched_labels obj_kind fid ip) v)"

definition emit_violation ::
  "pid_t \<Rightarrow> s32 \<Rightarrow> bytes option \<Rightarrow> u32 \<Rightarrow> u32 \<Rightarrow> file_id option \<Rightarrow> u32 \<Rightarrow> u64 \<Rightarrow> u8 \<Rightarrow> bool \<Rightarrow> bool \<Rightarrow> u32 \<Rightarrow>
   'a sensor_scheme \<Rightarrow> 'a sensor_scheme" where
  "emit_violation pid rule_id target conn_ip obj_kind fid domain_id matched_labels op blocked killed effect st =
     (let reserved = rb_reserve st (rb_tries st);
          st = st\<lparr>rb_tries := Suc (rb_tries st)\<rparr>
      in if \<not> reserved then st
         else
           let v = \<lparr>vi_pid = pid, vi_ppid = cur_ppid st, vi_blocked = blocked, vi_killed = killed, vi_effect = effect,
                    vi_op = op, vi_domain_id = domain_id, vi_session_root = te_root st pid,
                    vi_timestamp_ns = ktime st (ktick st), vi_comm = cur_comm st,
                    vi_filename = (case target of None \<Rightarrow> [] | Some t \<Rightarrow> take (MAX_FILENAME_LEN - 1) (cstr t)),
                    vi_taint_rule_id = rule_id, vi_conn_ip = conn_ip,
                    vi_taint_label = te_labels_for_domain st pid domain_id,
                    vi_matched_label = 0, vi_matched_labels = matched_labels, vi_prov_label = 0,
                    vi_prov_timestamp_ns = 0, vi_prov_pid = 0, vi_prov_op = 0, vi_prov_ip = 0, vi_prov_target = []\<rparr>;
               st = st\<lparr>ktick := Suc (ktick st)\<rparr>
           in st\<lparr>rb := rb st @ [fill_violation_provenance st pid domain_id matched_labels obj_kind fid conn_ip v]\<rparr>)"

section \<open>Handlers\<close>

definition no_fid :: file_id where
  "no_fid = \<lparr>fi_ino = 0, fi_dev = 0, fi_pad = 0\<rparr>"

text \<open>\<^verbatim>\<open>__builtin_memset(scratch, 0, sizeof(*scratch))\<close>.\<close>

definition eval_zero :: te_rule_eval where
  "eval_zero =
     \<lparr>ev_pid = 0, ev_global_labels = 0, ev_current_labels = 0, ev_op = 0, ev_target = replicate MAX_FILENAME_LEN 0,
      ev_fid = no_fid, ev_has_fid = False, ev_ip = 0, ev_current_domain_id = 0, ev_include_file_labels = False,
      ev_matched_domain_id = 0, ev_effect = 0, ev_effect_mask = 0, ev_matched_rule = 0, ev_matched_index = 0,
      ev_matched_req = 0, ev_matched_labels = 0, ev_best_effect = 0, ev_best_rule = 0, ev_best_idx = 0,
      ev_best_domain_id = 0, ev_best_req = 0, ev_best_labels = 0, ev_event_effect = 0, ev_event_action = 0,
      ev_event_rule = 0, ev_event_domain_id = 0, ev_event_labels = 0, ev_event_op = 0\<rparr>"

text \<open>What every handler does with a verdict: report it, deny or signal. The first component is the
  return value if the handler returns at this point.\<close>

definition act_on ::
  "u32 \<Rightarrow> u32 \<Rightarrow> (bool \<Rightarrow> bool \<Rightarrow> 'a sensor_scheme \<Rightarrow> 'a sensor_scheme) \<Rightarrow> 'a sensor_scheme \<Rightarrow>
   int option \<times> 'a sensor_scheme" where
  "act_on mode effect report st =
     (let action = te_effect_mode mode effect;
          st = (if action \<noteq> TE_MODE_UNSUPPORTED
                then report (action = TE_MODE_BLOCK \<or> action = TE_MODE_KILL \<and> mode = TE_MODE_BLOCK)
                       (action = TE_MODE_KILL) st
                else st)
      in if action = TE_MODE_BLOCK then (Some (- EPERM), st)
         else if action = TE_MODE_KILL then
           let st = bpf_send_signal SIGKILL st
           in if mode = TE_MODE_BLOCK then (Some (- EPERM), st) else (None, st)
         else (None, st))"

text \<open>The choice between the open and the write rules of one file event.\<close>

definition file_candidate :: "u8 \<Rightarrow> 'a engine_scheme \<Rightarrow> te_rule_eval \<Rightarrow> te_rule_eval" where
  "file_candidate op st e =
     (let (candidate, e) = te_check_labels st (e\<lparr>ev_effect := ucast TEFFECT_BLOCK, ev_op := op\<rparr>)
      in if te_better_match candidate (ev_effect e) (ev_event_rule e) (ev_event_effect e)
         then e\<lparr>ev_event_rule := candidate, ev_event_effect := ev_effect e, ev_event_labels := ev_matched_labels e,
                ev_event_domain_id := ev_matched_domain_id e, ev_event_op := ev_op e\<rparr>
         else e)"

definition file_eval ::
  "'a engine_scheme \<Rightarrow> pid_t \<Rightarrow> bytes \<Rightarrow> file_id \<Rightarrow> u32 \<Rightarrow> u32 \<Rightarrow> te_rule_eval" where
  "file_eval st pid target fid access mode =
     (let current_domain_id = cap_domain_for_pid st pid;
          global_labels = te_labels_for_domain st pid 0;
          current_labels = te_labels_for_domain st pid current_domain_id;
          flow_read = policy_features st AND TE_POLICY_FILE_FLOW \<noteq> 0 \<and> access AND TE_ACCESS_READ \<noteq> 0;
          global_labels = (if flow_read then global_labels OR te_file_labels_domain st fid target pid 0 else global_labels);
          current_labels = (if flow_read then current_labels OR te_file_labels_domain st fid target pid current_domain_id
                            else current_labels)
      in eval_zero\<lparr>ev_pid := pid, ev_global_labels := global_labels, ev_current_labels := current_labels,
           ev_current_domain_id := current_domain_id, ev_effect := ucast TEFFECT_BLOCK,
           ev_effect_mask := te_supported_effects mode, ev_event_effect := ucast TEFFECT_NOTIFY,
           ev_event_rule := - 1, ev_target := te_copy_target (ev_target eval_zero) (Some target),
           ev_fid := fid, ev_has_fid := True, ev_include_file_labels := (access AND TE_ACCESS_READ \<noteq> 0)\<rparr>)"

definition te_handle_file_event ::
  "pid_t \<Rightarrow> bytes \<Rightarrow> file_id \<Rightarrow> u32 \<Rightarrow> u32 \<Rightarrow> 'a sensor_scheme \<Rightarrow> int \<times> 'a sensor_scheme" where
  "te_handle_file_event pid target fid access mode st =
     (if \<not> te_pid_active st pid then (0, st)
      else
        let e = file_eval st pid target fid access mode;
            e = (if access AND TE_ACCESS_READ \<noteq> 0 \<and> policy_features st AND TE_POLICY_OPEN_RULES \<noteq> 0
                 then file_candidate TOP_OPEN st e else e);
            e = (if access AND TE_ACCESS_WRITE \<noteq> 0 \<and> policy_features st AND TE_POLICY_WRITE_RULES \<noteq> 0
                 then file_candidate TOP_WRITE st e else e);
            (rc, st) = (if 0 \<le> sint (ev_event_rule e)
                        then act_on mode (ev_event_effect e)
                               (\<lambda>blocked killed. emit_violation pid (ev_event_rule e) (Some target) 0 TE_OBJ_FILE (Some fid)
                                  (ev_event_domain_id e) (ev_event_labels e) (ev_event_op e) blocked killed (ev_event_effect e)) st
                        else (None, st))
        in case rc of
             Some r \<Rightarrow> (r, st)
           | None \<Rightarrow>
               let st = (if policy_features st AND TE_POLICY_FILE_FLOW \<noteq> 0 \<and> access AND TE_ACCESS_READ \<noteq> 0
                         then te_read pid fid target st else st);
                   st = (if policy_features st AND TE_POLICY_FILE_FLOW \<noteq> 0 \<and> access AND TE_ACCESS_WRITE \<noteq> 0
                         then te_write_flow pid fid target st else st)
               in (0, st))"

text \<open>\<^verbatim>\<open>te_handle_event\<close> takes the verdict from a record with the same four fields the file handler
  keeps: the rule, its effect, the labels and the domain. A file event always carries an identity, so
  the default of the first \<open>case\<close> is never read.\<close>

definition event_eval :: "te_event \<Rightarrow> u64 \<Rightarrow> u64 \<Rightarrow> u32 \<Rightarrow> te_rule_eval" where
  "event_eval ev global_labels current_labels current_domain_id =
     eval_zero\<lparr>ev_pid := te_pid ev, ev_global_labels := global_labels, ev_current_labels := current_labels,
       ev_current_domain_id := current_domain_id, ev_effect := ucast TEFFECT_BLOCK,
       ev_effect_mask := te_supported_effects (te_mode ev)\<rparr>"

definition take_verdict :: "s32 \<times> te_rule_eval \<Rightarrow> te_rule_eval" where
  "take_verdict r =
     (let (rid, e) = r
      in e\<lparr>ev_event_rule := rid, ev_event_effect := ev_effect e, ev_event_labels := ev_matched_labels e,
           ev_event_domain_id := ev_matched_domain_id e, ev_event_op := ev_op e\<rparr>)"

definition te_handle_event :: "te_event \<Rightarrow> file_id option \<Rightarrow> 'a sensor_scheme \<Rightarrow> int \<times> 'a sensor_scheme" where
  "te_handle_event ev fid st =
     (if \<not> te_pid_active st (te_pid ev) then (0, st)
      else
        let pid = te_pid ev; ip = te_ip ev;
            f = (case fid of None \<Rightarrow> no_fid | Some f \<Rightarrow> f);
            is_file = te_obj_kind ev = TE_OBJ_FILE; is_endp = te_obj_kind ev = TE_OBJ_ENDPOINT;
            rd_acc = te_access ev AND TE_ACCESS_READ \<noteq> 0; wr_acc = te_access ev AND TE_ACCESS_WRITE \<noteq> 0;
            cn_acc = te_access ev AND TE_ACCESS_CONNECT \<noteq> 0; rv_acc = te_access ev AND TE_ACCESS_RECV \<noteq> 0;
            display = (case te_display ev of Some d \<Rightarrow> d | None \<Rightarrow> te_target ev);
            d = cap_domain_for_pid st pid;
            gl = te_labels_for_domain st pid 0;
            cl = te_labels_for_domain st pid d;
            file_read = is_file \<and> policy_features st AND TE_POLICY_FILE_FLOW \<noteq> 0 \<and> rd_acc;
            gl = (if file_read then gl OR te_file_stored_labels_domain st f pid 0 else gl);
            cl = (if file_read then cl OR te_file_stored_labels_domain st f pid d else cl);
            gl = (if is_endp \<and> cn_acc then gl OR te_update_add_connect_domain st ip pid 0 else gl);
            cl = (if is_endp \<and> cn_acc then cl OR te_update_add_connect_domain st ip pid d else cl);
            gl = (if is_endp \<and> rv_acc
                  then gl OR (te_endpoint_stored_labels_domain st ip pid 0 OR te_update_add_recv_domain st ip pid 0) else gl);
            cl = (if is_endp \<and> rv_acc
                  then cl OR (te_endpoint_stored_labels_domain st ip pid d OR te_update_add_recv_domain st ip pid d) else cl);
            e0 = event_eval ev gl cl d;
            e = (if te_obj_kind ev = TE_OBJ_EXEC then
                   take_verdict (te_check_labels st
                     (e0\<lparr>ev_op := TOP_EXEC, ev_target := te_copy_target (ev_target e0) (Some (te_target ev))\<rparr>))
                 else if is_file then
                   let e = e0\<lparr>ev_event_effect := ucast TEFFECT_NOTIFY, ev_event_rule := - 1,
                              ev_target := te_copy_target (ev_target e0) (Some (te_target ev)),
                              ev_include_file_labels := rd_acc\<rparr>;
                       e = (case fid of None \<Rightarrow> e | Some f \<Rightarrow> e\<lparr>ev_fid := f, ev_has_fid := True\<rparr>);
                       e = (if rd_acc \<and> policy_features st AND TE_POLICY_OPEN_RULES \<noteq> 0 then file_candidate TOP_OPEN st e else e)
                   in (if wr_acc \<and> policy_features st AND TE_POLICY_WRITE_RULES \<noteq> 0 then file_candidate TOP_WRITE st e else e)
                 else if is_endp then
                   take_verdict (te_check_labels st (e0\<lparr>ev_ip := ip, ev_op := (if rv_acc then TOP_RECV else TOP_CONNECT)\<rparr>))
                 else e0\<lparr>ev_event_rule := - 1\<rparr>);
            (rc, st) = (if 0 \<le> sint (ev_event_rule e)
                        then act_on (te_mode ev) (ev_event_effect e)
                               (\<lambda>blocked killed. emit_violation pid (ev_event_rule e) (Some display)
                                  (if is_endp then ip else 0) (te_obj_kind ev) fid
                                  (ev_event_domain_id e) (ev_event_labels e) (ev_event_op e) blocked killed (ev_event_effect e)) st
                        else (None, st))
        in case rc of
             Some r \<Rightarrow> (r, st)
           | None \<Rightarrow>
               if is_file \<and> policy_features st AND TE_POLICY_FILE_FLOW \<noteq> 0 then
                 let st = (if rd_acc then te_read pid f (te_target ev) st else st)
                 in (0, if wr_acc then te_write_flow pid f (te_target ev) st else st)
               else if is_endp then
                 let st = (if cn_acc then te_connect_flow ip pid st else st)
                 in (0, if rv_acc then te_recv_flow ip pid st else st)
               else (0, st))"

text \<open>Exec events; the second is the variant that also matches arguments.\<close>

definition exec_eval :: "'a engine_scheme \<Rightarrow> pid_t \<Rightarrow> bytes \<Rightarrow> u32 \<Rightarrow> te_rule_eval" where
  "exec_eval st pid target mode =
     eval_zero\<lparr>ev_pid := pid, ev_global_labels := te_labels_for_domain st pid 0,
       ev_current_labels := te_labels_for_domain st pid (cap_domain_for_pid st pid),
       ev_current_domain_id := cap_domain_for_pid st pid, ev_effect := ucast TEFFECT_BLOCK,
       ev_effect_mask := te_supported_effects mode, ev_op := TOP_EXEC,
       ev_target := te_copy_target (ev_target eval_zero) (Some target)\<rparr>"

definition exec_verdict ::
  "pid_t \<Rightarrow> bytes \<Rightarrow> bytes option \<Rightarrow> u32 \<Rightarrow> s32 \<times> te_rule_eval \<Rightarrow> 'a sensor_scheme \<Rightarrow> int \<times> 'a sensor_scheme" where
  "exec_verdict pid target display mode r st =
     (let (rid, e) = r
      in if sint rid < 0 then (0, st)
         else
           let (rc, st) = act_on mode (ev_effect e)
                 (\<lambda>blocked killed. emit_violation pid rid (Some (case display of Some d \<Rightarrow> d | None \<Rightarrow> target)) 0
                    TE_OBJ_EXEC None (ev_matched_domain_id e) (ev_matched_labels e) TOP_EXEC blocked killed (ev_effect e)) st
           in (case rc of Some r \<Rightarrow> r | None \<Rightarrow> 0, st))"

definition te_handle_exec_event ::
  "pid_t \<Rightarrow> bytes option \<Rightarrow> bytes option \<Rightarrow> u32 \<Rightarrow> 'a sensor_scheme \<Rightarrow> int \<times> 'a sensor_scheme" where
  "te_handle_exec_event pid target display mode st =
     (if mode = TE_MODE_BLOCK \<and> enforce_mode st = 0 then (0, st)
      else if \<not> te_pid_active st pid then (0, st)
      else case target of
             None \<Rightarrow> (0, st)
           | Some t \<Rightarrow> exec_verdict pid t display mode (te_check_labels_no_args st (exec_eval st pid t mode)) st)"

definition te_handle_exec_event_with_args ::
  "pid_t \<Rightarrow> bytes option \<Rightarrow> bytes option \<Rightarrow> u32 \<Rightarrow> 'a sensor_scheme \<Rightarrow> int \<times> 'a sensor_scheme" where
  "te_handle_exec_event_with_args pid target display mode st =
     (if mode = TE_MODE_BLOCK \<and> enforce_mode st = 0 then (0, st)
      else if \<not> te_pid_active st pid then (0, st)
      else case target of
             None \<Rightarrow> (0, st)
           | Some t \<Rightarrow> exec_verdict pid t display mode (te_check_labels st (exec_eval st pid t mode)) st)"

end
