(* ===== verification/Enforcement.thy ===== *)
theory Enforcement
  imports Sensor
begin

text \<open>
  What the event handlers decide and do. A verdict is the strongest of the rules that match the event,
  over the operations the event stands for; the LSM backend evaluates block rules only and denies, the
  tracepoint backend evaluates notify and kill rules and lets the operation happen. A denied event moves
  no label.
\<close>

section \<open>Frames\<close>

text \<open>The engine's operations leave the sensor's own state alone.\<close>

lemma more_prims [simp]:
  "engine.more (te_record_proc_prov_mask p d l op tg ip st) = engine.more st"
  "engine.more (te_record_file_prov_mask fd l p op tg st) = engine.more st"
  "engine.more (te_copy_file_prov_to_proc p fd l st) = engine.more st"
  "engine.more (te_copy_proc_prov_to_file p fd l st) = engine.more st"
  "engine.more (te_copy_endp_prov_to_proc p ed l st) = engine.more st"
  "engine.more (te_copy_proc_prov_to_endp p ed l st) = engine.more st"
  "engine.more (snd (te_tick r d st)) = engine.more st"
  "engine.more (te_stamp r d ep g i st) = engine.more st"
  "engine.more (te_add_labels_domain p d l st) = engine.more st"
  by (simp_all add: te_record_proc_prov_mask_def te_record_file_prov_mask_def te_copy_file_prov_to_proc_def
      te_copy_proc_prov_to_file_def te_copy_endp_prov_to_proc_def te_copy_proc_prov_to_endp_def te_tick_def
      te_sess_init_def te_stamp_def te_add_labels_domain_def Let_def case_prod_beta split: option.split)

lemma more_bodies [simp]:
  "engine.more (te_read_domain p f path d st) = engine.more st"
  "engine.more (te_write_flow_domain p f path d st) = engine.more st"
  "engine.more (te_connect_flow_domain ip p d st) = engine.more st"
  "engine.more (te_recv_flow_domain ip p d st) = engine.more st"
  by (simp_all add: te_read_domain_def te_write_flow_domain_def te_connect_flow_domain_def te_recv_flow_domain_def
      Let_def case_prod_beta split: option.split)

lemma more_loop:
  "(\<And>d st. engine.more (body d st) = engine.more st) \<Longrightarrow> engine.more (domain_loop pid body st) = engine.more st"
  unfolding domain_loop_def by (rule loop_on_inv [where P = "\<lambda>t. engine.more t = engine.more st"]) (auto simp: Let_def)

lemma more_flows [simp]:
  "engine.more (te_read p f path st) = engine.more st"
  "engine.more (te_write_flow p f path st) = engine.more st"
  "engine.more (te_connect_flow ip p st) = engine.more st"
  "engine.more (te_recv_flow ip p st) = engine.more st"
  by (simp_all add: te_read_def te_write_flow_def te_connect_flow_def te_recv_flow_def more_loop)

lemma sensor_fields:
  assumes "engine.more s = engine.more t"
  shows "rb s = rb t" "signals s = signals t" "rb_tries s = rb_tries t" "rb_reserve s = rb_reserve t"
    "cur_pid s = cur_pid t"
  using assms by (cases s; cases t; simp add: cur_pid_def)+


text \<open>A report changes the ring buffer and the clock, and nothing else.\<close>

definition reports_only :: "'a sensor_scheme \<Rightarrow> 'a sensor_scheme \<Rightarrow> bool" where
  "reports_only st st' \<longleftrightarrow> (\<exists>k n evs. st' = st\<lparr>ktick := k, rb_tries := n, rb := evs\<rparr>)"

lemma emit_reports_only: "reports_only st (emit_violation p r t c k f d m op b kl eff st)"
proof (cases "rb_reserve st (rb_tries st)")
  case True
  then obtain v where "emit_violation p r t c k f d m op b kl eff st =
      st\<lparr>rb_tries := Suc (rb_tries st), ktick := Suc (ktick st), rb := rb st @ [v]\<rparr>"
    by (simp add: emit_violation_def Let_def)
  then have "emit_violation p r t c k f d m op b kl eff st =
      st\<lparr>ktick := Suc (ktick st), rb_tries := Suc (rb_tries st), rb := rb st @ [v]\<rparr>" by simp
  then show ?thesis unfolding reports_only_def by blast
next
  case False
  then have "emit_violation p r t c k f d m op b kl eff st =
      st\<lparr>ktick := ktick st, rb_tries := Suc (rb_tries st), rb := rb st\<rparr>"
    by (simp add: emit_violation_def Let_def)
  then show ?thesis unfolding reports_only_def by blast
qed

lemma truncate_sensor [simp]:
  "cap_maps.truncate (st\<lparr>rb := a\<rparr>) = cap_maps.truncate (st :: 'a sensor_scheme)"
  "cap_maps.truncate (st\<lparr>rb_tries := b\<rparr>) = cap_maps.truncate (st :: 'a sensor_scheme)"
  "cap_maps.truncate (st\<lparr>signals := c\<rparr>) = cap_maps.truncate (st :: 'a sensor_scheme)"
  by (simp_all add: cap_maps.truncate_def)

lemma ifc_of_sensor [simp]:
  "ifc_of (st\<lparr>rb := a\<rparr>) = ifc_of (st :: 'a sensor_scheme)"
  "ifc_of (st\<lparr>rb_tries := b\<rparr>) = ifc_of (st :: 'a sensor_scheme)"
  "ifc_of (st\<lparr>signals := c\<rparr>) = ifc_of (st :: 'a sensor_scheme)"
  "label_room n (st\<lparr>rb := a\<rparr>) = label_room n (st :: 'a sensor_scheme)"
  "label_room n (st\<lparr>rb_tries := b\<rparr>) = label_room n (st :: 'a sensor_scheme)"
  "label_room n (st\<lparr>signals := c\<rparr>) = label_room n (st :: 'a sensor_scheme)"
  by (simp_all add: ifc_of_def proc_labels_def file_labels_def endp_labels_def te_get_domain_def te_get_def
      label_room_def fun_eq_iff)

lemma engine_ok_sensor [simp]:
  "engine_ok (st\<lparr>rb := a\<rparr>) = engine_ok (st :: 'a sensor_scheme)"
  "engine_ok (st\<lparr>rb_tries := b\<rparr>) = engine_ok (st :: 'a sensor_scheme)"
  "engine_ok (st\<lparr>signals := c\<rparr>) = engine_ok (st :: 'a sensor_scheme)"
  by (simp_all add: engine_ok_def wf_tables_def prov_ok_def)

lemma reports_only_keeps:
  assumes "reports_only st st'"
  shows "ifc_of st' = ifc_of st" "cap_maps.truncate st' = cap_maps.truncate st" "label_room n st' = label_room n st"
    "engine_ok st' = engine_ok st" "signals st' = signals st" "cur_pid st' = cur_pid st"
  using assms by (auto simp: reports_only_def cur_pid_def)

lemma signal_keeps [simp]:
  "ifc_of (bpf_send_signal s st) = ifc_of st" "cap_maps.truncate (bpf_send_signal s st) = cap_maps.truncate st"
  "label_room n (bpf_send_signal s st) = label_room n st" "engine_ok (bpf_send_signal s st) = engine_ok st"
  "rb (bpf_send_signal s st) = rb st"
  by (simp_all add: bpf_send_signal_def)

lemmas emit_keeps [simp] = reports_only_keeps [OF emit_reports_only]

section \<open>Verdicts\<close>

abbreviation rule_at :: "'a cap_maps_scheme \<Rightarrow> nat \<Rightarrow> taint_rule" where
  "rule_at st i \<equiv> a_cell (ts_rules st) i"

text \<open>The rules that match an event at the operation \<open>op\<close>.\<close>

definition op_hit :: "'a engine_scheme \<Rightarrow> te_rule_eval \<Rightarrow> u8 \<Rightarrow> nat \<Rightarrow> bool" where
  "op_hit st e op i \<longleftrightarrow> i < n_rules st \<and> rule_hit st (e\<lparr>ev_op := op\<rparr>) i (rule_at st i)"

lemma op_hit_args:
  "fst (eval_inputs (e\<lparr>ev_op := 0\<rparr>)) = fst (eval_inputs (e'\<lparr>ev_op := 0\<rparr>)) \<Longrightarrow> op_hit st e = op_hit st e'"
proof -
  assume "fst (eval_inputs (e\<lparr>ev_op := 0\<rparr>)) = fst (eval_inputs (e'\<lparr>ev_op := 0\<rparr>))"
  then have "fst (eval_inputs (e\<lparr>ev_op := op\<rparr>)) = fst (eval_inputs (e'\<lparr>ev_op := op\<rparr>))" for op
    by (simp add: eval_inputs_def)
  then have "rule_hit st (e\<lparr>ev_op := op\<rparr>) = rule_hit st (e'\<lparr>ev_op := op\<rparr>)" for op
    by (rule args_hit(4))
  then show ?thesis by (simp add: op_hit_def fun_eq_iff)
qed

text \<open>A verdict over a set of operations: the strongest match, and what the event fields then hold.\<close>

definition verdict :: "'a engine_scheme \<Rightarrow> te_rule_eval \<Rightarrow> u8 set \<Rightarrow> te_rule_eval \<Rightarrow> (u8 \<times> nat) option \<Rightarrow> bool" where
  "verdict st e0 ops e v \<longleftrightarrow>
     fst (eval_inputs (e\<lparr>ev_op := 0\<rparr>)) = fst (eval_inputs (e0\<lparr>ev_op := 0\<rparr>)) \<and>
     (case v of
        None \<Rightarrow> sint (ev_event_rule e) < 0 \<and> (\<forall>op \<in> ops. \<forall>i. \<not> op_hit st e0 op i)
      | Some (op, j) \<Rightarrow>
          op \<in> ops \<and> op_hit st e0 op j \<and>
          (\<forall>op' \<in> ops. \<forall>i. op_hit st e0 op' i \<longrightarrow> ru_effect (rule_at st i) \<le> ru_effect (rule_at st j)) \<and>
          0 \<le> sint (ev_event_rule e) \<and> ev_event_rule e = ru_rule_id (rule_at st j) \<and>
          ev_event_effect e = ucast (ru_effect (rule_at st j)) \<and> ev_event_op e = op \<and>
          ev_event_domain_id e = ru_domain_id (rule_at st j) \<and>
          ev_event_labels e = seen_labels st (e0\<lparr>ev_op := op\<rparr>) (rule_at st j) AND ru_req (rule_at st j))"

lemma check_verdict:
  assumes wf: "wf_tables st" and ok: "rules_ok st"
  obtains (none) "\<And>i. \<not> op_hit st e op i" "fst (te_check_labels st (e\<lparr>ev_op := op\<rparr>)) = - 1"
      "eval_inputs (snd (te_check_labels st (e\<lparr>ev_op := op\<rparr>))) = eval_inputs (e\<lparr>ev_op := op\<rparr>)"
  | (some) j where "op_hit st e op j"
      "\<And>i. op_hit st e op i \<Longrightarrow> ru_effect (rule_at st i) \<le> ru_effect (rule_at st j)"
      "fst (te_check_labels st (e\<lparr>ev_op := op\<rparr>)) = ru_rule_id (rule_at st j)"
      "0 \<le> sint (ru_rule_id (rule_at st j))"
      "ev_effect (snd (te_check_labels st (e\<lparr>ev_op := op\<rparr>))) = ucast (ru_effect (rule_at st j))"
      "ev_matched_domain_id (snd (te_check_labels st (e\<lparr>ev_op := op\<rparr>))) = ru_domain_id (rule_at st j)"
      "ev_matched_labels (snd (te_check_labels st (e\<lparr>ev_op := op\<rparr>))) =
         seen_labels st (e\<lparr>ev_op := op\<rparr>) (rule_at st j) AND ru_req (rule_at st j)"
      "eval_inputs (snd (te_check_labels st (e\<lparr>ev_op := op\<rparr>))) = eval_inputs (e\<lparr>ev_op := op\<rparr>)"
proof -
  let ?ef = "\<lambda>i. ru_effect (rule_at st i)" and ?h = "\<lambda>i. rule_hit st (e\<lparr>ev_op := op\<rparr>) i (rule_at st i)"
  let ?c = "te_check_labels st (e\<lparr>ev_op := op\<rparr>)"
  note best = scan_rule.scan_best [OF wf ok, where e = "e\<lparr>ev_op := op\<rparr>"]
  show thesis
  proof (cases "\<exists>i < n_rules st. ?h i")
    case False
    with best show thesis
      by (intro none) (auto simp: te_check_labels_def te_check_labels_range_def scan_cbs op_hit_def Let_def
          strongest_first_def eval_inputs_def best_reset_def)
  next
    case True
    with best obtain j where s: "strongest_first ?ef ?h (n_rules st) j"
      and r: "let r = rule_at st j; e' = snd ?c
         in fst ?c = ru_rule_id r \<and> ev_effect e' = ucast (ru_effect r) \<and> ev_matched_domain_id e' = ru_domain_id r \<and>
            ev_matched_labels e' = seen_labels st (e\<lparr>ev_op := op\<rparr>) r AND ru_req r \<and>
            eval_inputs e' = eval_inputs (e\<lparr>ev_op := op\<rparr>)"
      by (auto simp: te_check_labels_def te_check_labels_range_def scan_cbs Let_def)
    have "j < n_rules st" using s by (simp add: strongest_first_def)
    then have "rule_at st j \<in> set (active_rules st)" by (auto simp: active_rules_def)
    with ok have "0 \<le> sint (ru_rule_id (rule_at st j))" by (auto simp: rules_ok_def intro: sint_nonneg)
    with s r show thesis
      by (intro some [of j]) (auto simp: op_hit_def strongest_first_def Let_def)
  qed
qed


lemma ucast_effect_le: "(ucast (a :: u8) :: u32) \<le> ucast b \<longleftrightarrow> a \<le> b"
  by (simp add: linorder_not_less [symmetric] ucast_effect_less)

lemma verdict_start:
  "sint (ev_event_rule e) < 0 \<Longrightarrow> verdict st e {} e None"
  by (simp add: verdict_def)

lemma file_candidate_verdict:
  assumes wf: "wf_tables st" and ok: "rules_ok st" and v: "verdict st e0 ops e v"
  shows "\<exists>v'. verdict st e0 (insert op ops) (file_candidate op st e) v'"
proof -
  let ?e = "e\<lparr>ev_effect := 1\<rparr>" and ?c = "te_check_labels st (e\<lparr>ev_effect := 1, ev_op := op\<rparr>)"
  have args: "fst (eval_inputs (?e\<lparr>ev_op := 0\<rparr>)) = fst (eval_inputs (e0\<lparr>ev_op := 0\<rparr>))"
    using v by (simp add: verdict_def eval_inputs_def)
  note hit = op_hit_args [OF args]
  have seen: "seen_labels st (?e\<lparr>ev_op := op\<rparr>) = seen_labels st (e0\<lparr>ev_op := op\<rparr>)"
    using args by (intro args_hit(3)) (simp add: eval_inputs_def)
  have inputs: "eval_inputs (snd ?c) = eval_inputs (?e\<lparr>ev_op := op\<rparr>)"
    by (rule check_verdict [OF wf ok, of ?e op]) auto
  then have same: "fst (eval_inputs ((snd ?c)\<lparr>ev_op := 0\<rparr>)) = fst (eval_inputs (?e\<lparr>ev_op := 0\<rparr>))"
    "ev_event_rule (snd ?c) = ev_event_rule e" "ev_event_effect (snd ?c) = ev_event_effect e"
    "ev_event_labels (snd ?c) = ev_event_labels e" "ev_event_domain_id (snd ?c) = ev_event_domain_id e"
    "ev_event_op (snd ?c) = ev_event_op e" "ev_op (snd ?c) = op"
    by (simp_all add: eval_inputs_def)
  have set_fields: "fst (eval_inputs ((snd ?c)\<lparr>ev_event_rule := a, ev_event_effect := b, ev_event_labels := c,
        ev_event_domain_id := d, ev_event_op := f, ev_op := 0\<rparr>)) = fst (eval_inputs (e0\<lparr>ev_op := 0\<rparr>))" for a b c d f
    using same(1) args by (simp add: eval_inputs_def)
  let ?better = "te_better_match (fst ?c) (ev_effect (snd ?c)) (ev_event_rule e) (ev_event_effect e)"
  have keep: "file_candidate op st e = snd ?c" if "\<not> ?better"
    using that by (simp add: file_candidate_def case_prod_beta same)
  show ?thesis
  proof (rule check_verdict [OF wf ok, of ?e op], goal_cases)
    case none: 1
    then have "\<not> ?better" by (simp add: te_better_match_def)
    note fc = keep [OF this]
    from none(1) have no: "\<not> op_hit st e0 op i" for i by (simp add: hit)
    have "verdict st e0 (insert op ops) (file_candidate op st e) v"
      using v no unfolding verdict_def fc same args by (auto split: option.splits)
    then show ?thesis ..
  next
    case some: (2 j)
    from some(1,2) have top: "op_hit st e0 op j" "\<And>i. op_hit st e0 op i \<Longrightarrow> ru_effect (rule_at st i) \<le> ru_effect (rule_at st j)"
      by (simp_all add: hit)
    show ?thesis
    proof (cases ?better)
      case True
      then have fc: "file_candidate op st e = (snd ?c)\<lparr>ev_event_rule := ru_rule_id (rule_at st j),
          ev_event_effect := ucast (ru_effect (rule_at st j)),
          ev_event_labels := seen_labels st (e0\<lparr>ev_op := op\<rparr>) (rule_at st j) AND ru_req (rule_at st j),
          ev_event_domain_id := ru_domain_id (rule_at st j), ev_event_op := op\<rparr>"
        using some by (simp add: file_candidate_def case_prod_beta same seen)
      have less: "ru_effect (rule_at st k) < ru_effect (rule_at st j)" if "v = Some (op', k)" for op' k
        using True v that some(3,5) by (auto simp: verdict_def te_better_match_def ucast_effect_less)
      have dom: "ru_effect (rule_at st i) \<le> ru_effect (rule_at st j)" if "op' \<in> ops" "op_hit st e0 op' i" for op' i
      proof (cases v)
        case None
        with v that show ?thesis by (simp add: verdict_def)
      next
        case (Some w)
        with v that have "ru_effect (rule_at st i) \<le> ru_effect (rule_at st (snd w))"
          by (auto simp: verdict_def case_prod_beta)
        also have "\<dots> < ru_effect (rule_at st j)" using less [of "fst w" "snd w"] Some by simp
        finally show ?thesis by simp
      qed
      have "verdict st e0 (insert op ops) (file_candidate op st e) (Some (op, j))"
        using top dom some(4) by (auto simp: verdict_def fc set_fields)
      then show ?thesis ..
    next
      case False
      then obtain op' k where k: "v = Some (op', k)" "ru_effect (rule_at st j) \<le> ru_effect (rule_at st k)"
        using v some(3-5) by (auto simp: verdict_def te_better_match_def not_less ucast_effect_le split: option.splits)
      have "verdict st e0 (insert op ops) (file_candidate op st e) v"
        using v top(2) k(2) unfolding k(1) verdict_def keep [OF False] same args by (auto intro: order_trans)
      then show ?thesis ..
    qed
  qed
qed

lemma take_verdict_verdict:
  assumes wf: "wf_tables st" and ok: "rules_ok st"
  shows "\<exists>v. verdict st e {op} (take_verdict (te_check_labels st (e\<lparr>ev_op := op\<rparr>))) v"
proof (rule check_verdict [OF wf ok, of e op], goal_cases)
  case none: 1
  then have "verdict st e {op} (take_verdict (te_check_labels st (e\<lparr>ev_op := op\<rparr>))) None"
    by (simp add: verdict_def take_verdict_def case_prod_beta eval_inputs_def)
  then show ?thesis ..
next
  case some: (2 j)
  then have "verdict st e {op} (take_verdict (te_check_labels st (e\<lparr>ev_op := op\<rparr>))) (Some (op, j))"
    by (simp add: verdict_def take_verdict_def case_prod_beta eval_inputs_def)
  then show ?thesis ..
qed


section \<open>Backends\<close>

text \<open>The LSM backend asks for block rules only; the tracepoint backend for notify and kill rules.\<close>

lemma effect_le_kill: "(e :: u8) \<le> 2 \<longleftrightarrow> e = 0 \<or> e = 1 \<or> e = 2"
  using effect_of_le_kill [of e] by (auto simp: effect_of_def split: if_splits)

lemma wanted_block:
  "ev_effect_mask e = te_supported_effects TE_MODE_BLOCK \<Longrightarrow> effect_wanted e r \<longleftrightarrow> ru_effect r = TEFFECT_BLOCK"
  by (cases "ru_effect r \<le> 2")
    (auto simp: effect_wanted_def te_supported_effects_def effect_le_kill not_le [symmetric])

lemma wanted_tracepoint:
  "ev_effect_mask e = te_supported_effects te_tracepoint_mode \<Longrightarrow>
     effect_wanted e r \<longleftrightarrow> ru_effect r = TEFFECT_NOTIFY \<or> ru_effect r = TEFFECT_KILL"
  by (cases "ru_effect r \<le> 2")
    (auto simp: effect_wanted_def te_supported_effects_def te_tracepoint_mode_def effect_le_kill not_le [symmetric])

lemma hit_block: "ev_effect_mask e = te_supported_effects TE_MODE_BLOCK \<Longrightarrow> op_hit st e op i \<Longrightarrow>
    ru_effect (rule_at st i) = TEFFECT_BLOCK"
  by (simp add: op_hit_def rule_hit_def wanted_block)

lemma hit_tracepoint: "ev_effect_mask e = te_supported_effects te_tracepoint_mode \<Longrightarrow> op_hit st e op i \<Longrightarrow>
    ru_effect (rule_at st i) = TEFFECT_NOTIFY \<or> ru_effect (rule_at st i) = TEFFECT_KILL"
  by (simp add: op_hit_def rule_hit_def wanted_tracepoint)

lemma act_on_cong:
  "(\<And>b k. report b k st = report' b k st) \<Longrightarrow> act_on mode effect report st = act_on mode effect report' st"
  by (simp add: act_on_def Let_def)

lemma act_on_block: "act_on TE_MODE_BLOCK (ucast TEFFECT_BLOCK) report st = (Some (- EPERM), report True False st)"
  by (simp add: act_on_def te_effect_mode_def)

lemma act_on_tracepoint:
  "eff = TEFFECT_NOTIFY \<or> eff = TEFFECT_KILL \<Longrightarrow>
   act_on te_tracepoint_mode (ucast eff) report st =
     (None, if eff = TEFFECT_KILL then bpf_send_signal SIGKILL (report False (eff = TEFFECT_KILL) st)
            else report False (eff = TEFFECT_KILL) st)"
  by (auto simp: act_on_def te_effect_mode_def te_tracepoint_mode_def)

section \<open>File events\<close>

text \<open>The operations a file event stands for, under the policy's feature bits.\<close>

definition file_ops :: "'a cap_maps_scheme \<Rightarrow> u32 \<Rightarrow> u8 set" where
  "file_ops st access =
     (if access AND TE_ACCESS_READ \<noteq> 0 \<and> policy_features st AND TE_POLICY_OPEN_RULES \<noteq> 0 then {TOP_OPEN} else {}) \<union>
     (if access AND TE_ACCESS_WRITE \<noteq> 0 \<and> policy_features st AND TE_POLICY_WRITE_RULES \<noteq> 0 then {TOP_WRITE} else {})"

definition file_hits :: "'a engine_scheme \<Rightarrow> pid_t \<Rightarrow> bytes \<Rightarrow> file_id \<Rightarrow> u32 \<Rightarrow> u32 \<Rightarrow> (u8 \<times> nat) set" where
  "file_hits st pid target fid access mode =
     {(op, i). op \<in> file_ops st access \<and> op_hit st (file_eval st pid target fid access mode) op i}"

definition file_flow :: "pid_t \<Rightarrow> file_id \<Rightarrow> bytes \<Rightarrow> u32 \<Rightarrow> 'a engine_scheme \<Rightarrow> 'a engine_scheme" where
  "file_flow pid fid target access st =
     (let st = (if policy_features st AND TE_POLICY_FILE_FLOW \<noteq> 0 \<and> access AND TE_ACCESS_READ \<noteq> 0
                then te_read pid fid target st else st)
      in if policy_features st AND TE_POLICY_FILE_FLOW \<noteq> 0 \<and> access AND TE_ACCESS_WRITE \<noteq> 0
         then te_write_flow pid fid target st else st)"

text \<open>The report of a file event whose verdict is rule \<open>i\<close> at operation \<open>op\<close>.\<close>

definition file_report ::
  "pid_t \<Rightarrow> bytes \<Rightarrow> file_id \<Rightarrow> te_rule_eval \<Rightarrow> u8 \<times> nat \<Rightarrow> bool \<Rightarrow> bool \<Rightarrow> 'a sensor_scheme \<Rightarrow> 'a sensor_scheme" where
  "file_report pid target fid e v blocked killed st =
     (case v of (op, i) \<Rightarrow>
        let r = rule_at st i
        in emit_violation pid (ru_rule_id r) (Some target) 0 TE_OBJ_FILE (Some fid) (ru_domain_id r)
             (seen_labels st (e\<lparr>ev_op := op\<rparr>) r AND ru_req r) op blocked killed (ucast (ru_effect r)) st)"

lemma file_handler:
  fixes st :: "'a sensor_scheme" and pid target fid access mode
  assumes act: "te_pid_active st pid" and wf: "wf_tables st" and ok: "rules_ok st"
  defines "e \<equiv> file_eval st pid target fid access mode"
  defines "H \<equiv> file_hits st pid target fid access mode"
  shows "H = {} \<and> te_handle_file_event pid target fid access mode st = (0, file_flow pid fid target access st) \<or>
    (\<exists>op i. (op, i) \<in> H \<and> (\<forall>(op', k) \<in> H. ru_effect (rule_at st k) \<le> ru_effect (rule_at st i)) \<and>
      te_handle_file_event pid target fid access mode st =
        (case act_on mode (ucast (ru_effect (rule_at st i))) (file_report pid target fid e (op, i)) st of
           (Some r, st) \<Rightarrow> (r, st)
         | (None, st) \<Rightarrow> (0, file_flow pid fid target access st)))"
proof -
  let ?r = "access AND TE_ACCESS_READ \<noteq> 0 \<and> policy_features st AND TE_POLICY_OPEN_RULES \<noteq> 0"
  let ?w = "access AND TE_ACCESS_WRITE \<noteq> 0 \<and> policy_features st AND TE_POLICY_WRITE_RULES \<noteq> 0"
  let ?e1 = "if ?r then file_candidate TOP_OPEN st e else e"
  let ?e2 = "if ?w then file_candidate TOP_WRITE st ?e1 else ?e1"
  have e0: "sint (ev_event_rule e) < 0" by (simp add: e_def file_eval_def Let_def)
  obtain v1 where v1: "verdict st e (if ?r then {TOP_OPEN} else {}) ?e1 v1"
    using file_candidate_verdict [OF wf ok verdict_start [OF e0, of st], of TOP_OPEN] verdict_start [OF e0, of st]
    by (cases ?r) auto
  have ops: "file_ops st access = (if ?w then insert TOP_WRITE (if ?r then {TOP_OPEN} else {}) else if ?r then {TOP_OPEN} else {})"
    by (auto simp: file_ops_def)
  obtain v where v: "verdict st e (file_ops st access) ?e2 v"
    using file_candidate_verdict [OF wf ok v1, of TOP_WRITE] v1 unfolding ops by (cases ?w) auto
  have H: "(op, i) \<in> H \<longleftrightarrow> op \<in> file_ops st access \<and> op_hit st e op i" for op i
    by (simp add: H_def file_hits_def e_def)
  note step = te_handle_file_event_def [of pid target fid access mode st, folded e_def]
  show ?thesis
  proof (cases v)
    case None
    with v have "H = {}" and neg: "\<not> 0 \<le> sint (ev_event_rule ?e2)" by (auto simp: verdict_def H)
    moreover have "te_handle_file_event pid target fid access mode st = (0, file_flow pid fid target access st)"
      using act neg by (simp add: step Let_def file_flow_def)
    ultimately show ?thesis by blast
  next
    case (Some w)
    obtain op i where w: "w = (op, i)" by (cases w)
    have pos: "0 \<le> sint (ev_event_rule ?e2)" and vals: "ev_event_rule ?e2 = ru_rule_id (rule_at st i)"
      "ev_event_effect ?e2 = ucast (ru_effect (rule_at st i))" "ev_event_op ?e2 = op"
      "ev_event_domain_id ?e2 = ru_domain_id (rule_at st i)"
      "ev_event_labels ?e2 = seen_labels st (e\<lparr>ev_op := op\<rparr>) (rule_at st i) AND ru_req (rule_at st i)"
      using v by (auto simp: verdict_def Some w)
    let ?emit = "\<lambda>blocked killed. emit_violation pid (ev_event_rule ?e2) (Some target) 0 TE_OBJ_FILE (Some fid)
        (ev_event_domain_id ?e2) (ev_event_labels ?e2) (ev_event_op ?e2) blocked killed (ev_event_effect ?e2)"
    have "act_on mode (ev_event_effect ?e2) ?emit st =
        act_on mode (ucast (ru_effect (rule_at st i))) (file_report pid target fid e (op, i)) st"
      unfolding vals by (rule act_on_cong) (simp add: file_report_def Let_def)
    then have "te_handle_file_event pid target fid access mode st =
        (case act_on mode (ucast (ru_effect (rule_at st i))) (file_report pid target fid e (op, i)) st of
           (Some r, st) \<Rightarrow> (r, st) | (None, st) \<Rightarrow> (0, file_flow pid fid target access st))"
      using act pos by (simp only: step Let_def if_False if_True not_not) (simp add: case_prod_beta file_flow_def split: option.split)
    moreover have "(op, i) \<in> H" "\<forall>(op', k) \<in> H. ru_effect (rule_at st k) \<le> ru_effect (rule_at st i)"
      using v by (auto simp: verdict_def Some w H)
    ultimately show ?thesis by blast
  qed
qed


section \<open>Reports\<close>

text \<open>Filling in the provenance leaves the verdict of a report alone.\<close>

definition report_verdict :: "event \<Rightarrow> pid_t \<times> bool \<times> bool \<times> u32 \<times> u8 \<times> u32 \<times> s32 \<times> u32 \<times> u64 \<times> bytes" where
  "report_verdict v =
     (vi_pid v, vi_blocked v, vi_killed v, vi_effect v, vi_op v, vi_domain_id v, vi_taint_rule_id v, vi_conn_ip v,
      vi_matched_labels v, vi_filename v)"

lemma provenance_cb_verdict:
  "report_verdict (snd (provenance_cb st pid d m k fid ip i v)) = report_verdict v"
  by (simp add: provenance_cb_def report_verdict_def copy_violation_provenance_def Let_def split: option.split)

lemma fill_verdict: "report_verdict (fill_violation_provenance st pid d m k fid ip v) = report_verdict v"
  unfolding fill_violation_provenance_def Let_def
  by (rule loop_on_inv [where P = "\<lambda>w. report_verdict w = report_verdict v"])
    (simp_all add: provenance_cb_verdict, simp add: report_verdict_def)

lemma emit_report:
  assumes "rb_reserve st (rb_tries st)"
  shows "\<exists>v. rb (emit_violation p r (Some t) c k f d m op b kl eff st) = rb st @ [v] \<and>
    report_verdict v = (p, b, kl, eff, op, d, r, c, m, take (MAX_FILENAME_LEN - 1) (cstr t))"
proof -
  let ?s = "st\<lparr>rb_tries := Suc (rb_tries st), ktick := Suc (ktick st)\<rparr>"
  have "\<exists>v. rb (emit_violation p r (Some t) c k f d m op b kl eff st) = rb st @ [fill_violation_provenance ?s p d m k f c v] \<and>
      report_verdict v = (p, b, kl, eff, op, d, r, c, m, take (MAX_FILENAME_LEN - 1) (cstr t))"
    using assms by (auto simp: emit_violation_def Let_def report_verdict_def intro!: exI)
  then show ?thesis by (metis fill_verdict)
qed

lemma file_report_facts:
  "reports_only st (file_report pid target fid e v b k st)"
  "rb_reserve st (rb_tries st) \<Longrightarrow> \<exists>w. rb (file_report pid target fid e v b k st) = rb st @ [w]"
proof -
  obtain op i where v: "v = (op, i)" by (cases v)
  show "reports_only st (file_report pid target fid e v b k st)"
    by (simp add: v file_report_def Let_def emit_reports_only)
  assume "rb_reserve st (rb_tries st)"
  from emit_report [OF this] show "\<exists>w. rb (file_report pid target fid e v b k st) = rb st @ [w]"
    unfolding v file_report_def Let_def prod.case by blast
qed

lemma file_flow_frame [simp]: "engine.more (file_flow pid fid target access st) = engine.more st"
  by (simp add: file_flow_def Let_def)

lemma file_lsm_cases:
  assumes "te_pid_active st pid" and "wf_tables st" and "rules_ok st"
  shows "if file_hits st pid target fid access TE_MODE_BLOCK = {}
    then te_handle_file_event pid target fid access TE_MODE_BLOCK st = (0, file_flow pid fid target access st)
    else fst (te_handle_file_event pid target fid access TE_MODE_BLOCK st) = - EPERM \<and>
      reports_only st (snd (te_handle_file_event pid target fid access TE_MODE_BLOCK st)) \<and>
      (rb_reserve st (rb_tries st) \<longrightarrow>
        (\<exists>v op i. rb (snd (te_handle_file_event pid target fid access TE_MODE_BLOCK st)) = rb st @ [v] \<and>
          (op, i) \<in> file_hits st pid target fid access TE_MODE_BLOCK \<and> vi_taint_rule_id v = ru_rule_id (rule_at st i) \<and>
          vi_op v = op \<and> vi_pid v = pid \<and> vi_blocked v \<and> \<not> vi_killed v \<and> vi_effect v = ucast TEFFECT_BLOCK))"
proof -
  let ?e = "file_eval st pid target fid access TE_MODE_BLOCK"
  have m: "ev_effect_mask ?e = te_supported_effects TE_MODE_BLOCK" by (simp add: file_eval_def Let_def)
  from file_handler [OF assms, of target fid access TE_MODE_BLOCK] show ?thesis
  proof (elim disjE exE conjE)
    fix op i
    assume hit: "(op, i) \<in> file_hits st pid target fid access TE_MODE_BLOCK"
      and step: "te_handle_file_event pid target fid access TE_MODE_BLOCK st =
        (case act_on TE_MODE_BLOCK (ucast (ru_effect (rule_at st i))) (file_report pid target fid ?e (op, i)) st of
           (Some r, st) \<Rightarrow> (r, st) | (None, st) \<Rightarrow> (0, file_flow pid fid target access st))"
    have eff: "ru_effect (rule_at st i) = TEFFECT_BLOCK"
      using hit by (auto simp: file_hits_def intro: hit_block [OF m])
    have res: "te_handle_file_event pid target fid access TE_MODE_BLOCK st = (- EPERM, file_report pid target fid ?e (op, i) True False st)"
      unfolding step eff act_on_block by simp
    have "\<exists>v. rb (file_report pid target fid ?e (op, i) True False st) = rb st @ [v] \<and>
        vi_taint_rule_id v = ru_rule_id (rule_at st i) \<and> vi_op v = op \<and> vi_pid v = pid \<and> vi_blocked v \<and> \<not> vi_killed v \<and>
        vi_effect v = ucast TEFFECT_BLOCK" if "rb_reserve st (rb_tries st)"
      using emit_report [OF that, of pid "ru_rule_id (rule_at st i)" target 0 TE_OBJ_FILE "Some fid" "ru_domain_id (rule_at st i)"
          "seen_labels st (?e\<lparr>ev_op := op\<rparr>) (rule_at st i) AND ru_req (rule_at st i)" op True False "ucast TEFFECT_BLOCK"]
      by (auto simp: file_report_def eff report_verdict_def Let_def)
    moreover have "reports_only st (file_report pid target fid ?e (op, i) True False st)"
      by (simp add: file_report_def Let_def emit_reports_only)
    ultimately show ?thesis using hit by (auto simp: res)
  qed simp
qed

lemma file_tracepoint_cases:
  assumes "te_pid_active st pid" and "wf_tables st" and "rules_ok st"
  shows "\<exists>st1. te_handle_file_event pid target fid access te_tracepoint_mode st = (0, file_flow pid fid target access st1) \<and>
    (if file_hits st pid target fid access te_tracepoint_mode = {} then st1 = st
     else \<exists>st2. reports_only st st2 \<and> (rb_reserve st (rb_tries st) \<longrightarrow> (\<exists>v. rb st2 = rb st @ [v])) \<and>
       st1 = (if \<exists>(op, i) \<in> file_hits st pid target fid access te_tracepoint_mode. ru_effect (rule_at st i) = TEFFECT_KILL
              then bpf_send_signal SIGKILL st2 else st2))"
proof -
  let ?e = "file_eval st pid target fid access te_tracepoint_mode"
  let ?H = "file_hits st pid target fid access te_tracepoint_mode"
  have m: "ev_effect_mask ?e = te_supported_effects te_tracepoint_mode" by (simp add: file_eval_def Let_def)
  from file_handler [OF assms, of target fid access te_tracepoint_mode] show ?thesis
  proof (elim disjE exE conjE)
    fix op i
    assume hit: "(op, i) \<in> ?H" and top: "\<forall>(op', k) \<in> ?H. ru_effect (rule_at st k) \<le> ru_effect (rule_at st i)"
      and step: "te_handle_file_event pid target fid access te_tracepoint_mode st =
        (case act_on te_tracepoint_mode (ucast (ru_effect (rule_at st i))) (file_report pid target fid ?e (op, i)) st of
           (Some r, st) \<Rightarrow> (r, st) | (None, st) \<Rightarrow> (0, file_flow pid fid target access st))"
    note rep = file_report_facts [of st pid target fid ?e "(op, i)" False]
    have eff: "ru_effect (rule_at st i) = TEFFECT_NOTIFY \<or> ru_effect (rule_at st i) = TEFFECT_KILL"
      using hit by (auto simp: file_hits_def dest: hit_tracepoint [OF m])
    let ?K = "\<exists>(op, i) \<in> ?H. ru_effect (rule_at st i) = TEFFECT_KILL"
    have K: "?K \<longleftrightarrow> ru_effect (rule_at st i) = TEFFECT_KILL"
      using eff hit top by fastforce
    let ?s2 = "file_report pid target fid ?e (op, i) False ?K st"
    have "te_handle_file_event pid target fid access te_tracepoint_mode st =
        (0, file_flow pid fid target access (if ?K then bpf_send_signal SIGKILL ?s2 else ?s2))"
      unfolding step K act_on_tracepoint [OF eff] by simp
    moreover have ne: "?H \<noteq> {}" using hit by blast
    ultimately show ?thesis using rep [of ?K] unfolding if_not_P [OF ne] by blast
  qed simp
qed

text \<open>Two rules for every process and file: rule 3 blocks opens, rule 4 kills on writes.\<close>

definition guard_sensor :: sensor where
  "guard_sensor = engine.extend
     (demo_engine\<lparr>ts_rules := \<lparr>a_max = MAX_TAINT_RULES, a_cell = (\<lambda>i.
          if i = 0 then no_rule\<lparr>ru_op := TOP_OPEN, ru_match := TAINT_MATCH_ANY, ru_effect := TEFFECT_BLOCK, ru_rule_id := 3\<rparr>
          else no_rule\<lparr>ru_op := TOP_WRITE, ru_match := TAINT_MATCH_ANY, ru_effect := TEFFECT_KILL, ru_rule_id := 4\<rparr>)\<rparr>,
        ts_counts := \<lparr>a_max = 6, a_cell = (\<lambda>i. if i = 5 then 4 else if i = 0 then 2 else 0)\<rparr>,
        cap_policy := map_put 0 \<lparr>pm_lo = 3, pm_hi = 0\<rparr> (hash_new 4096)\<rparr>)
     (sensor.fields [] (\<lambda>_. True) 0 0x6400000064 1 [] [] (map_put 77 1 (hash_new 64)))"

lemmas guard_defs = guard_sensor_def engine.extend_def sensor.fields_def demo_engine_def engine_example_defs

lemma guard_lookups:
  "map_lookup (cap_task guard_sensor) 100 = Some 1" "cap_parent_domain guard_sensor 1 = 0"
  by (simp_all add: guard_defs example_simps cap_parent_domain_def)

lemma guard_active: "te_pid_active guard_sensor 100"
  by (simp add: te_pid_active_def cap_task_bound_def guard_lookups)

lemma guard_domains: "te_domains guard_sensor 100 = [0, 1]"
  by (simp add: te_domains_def cap_domain_for_pid_def guard_lookups numeral_eq_Suc)

lemma guard_wf: "wf_tables guard_sensor"
  by (simp add: wf_tables_def guard_defs)

lemma guard_room: "n \<le> 16384 \<Longrightarrow> label_room n guard_sensor"
  by (simp add: label_room_def has_slots_def guard_defs hash_new_def)

lemma guard_rules: "n_rules guard_sensor = 2" "rules_ok guard_sensor"
  by (simp_all add: n_rules_def rules_ok_def active_rules_def guard_defs no_rule_def)

lemma guard_cells:
  "rule_at guard_sensor 0 = no_rule\<lparr>ru_op := TOP_OPEN, ru_match := TAINT_MATCH_ANY, ru_effect := TEFFECT_BLOCK, ru_rule_id := 3\<rparr>"
  "rule_at guard_sensor 1 = no_rule\<lparr>ru_op := TOP_WRITE, ru_match := TAINT_MATCH_ANY, ru_effect := TEFFECT_KILL, ru_rule_id := 4\<rparr>"
  "cap_policy_rule_bound guard_sensor 0 0" "cap_policy_rule_bound guard_sensor 0 1"
  "policy_features guard_sensor = 0xFFFFFFFF"
  by (simp_all add: guard_defs cap_policy_rule_bound_def cap_policy_mask_has_def lookup_put room_def hash_new_def bit64_def)

lemma guard_hit:
  "ev_effect_mask e = te_supported_effects TE_MODE_BLOCK \<Longrightarrow> op_hit guard_sensor e TOP_OPEN 0"
  "ev_effect_mask e = te_supported_effects te_tracepoint_mode \<Longrightarrow> op_hit guard_sensor e TOP_WRITE 1"
  by (simp_all add: op_hit_def guard_rules rule_hit_def guard_cells rule_in_domain_def wanted_block wanted_tracepoint
      taint_mask_ok_def target_matches_def te_path_match_def te_cond_satisfied_def no_rule_def del: One_nat_def)

section \<open>Properties\<close>

text \<open>C5: the LSM backend denies a file access exactly when a block rule matches it, and a denied access
  moves nothing. If some active block rule matches the event at one of the operations it stands for
  (open for a read, write for a write), the handler returns -EPERM, no label, session, gate or map of the
  engine changes and no signal is sent: only a report is written, and if the ring buffer has room it names a matching rule
  and says the access was blocked. If none matches, the handler returns 0, reports nothing, and the labels flow.\<close>

theorem te_handle_file_event_lsm:
  assumes "te_pid_active st pid" and "wf_tables st" and "rules_ok st"
  shows "if file_hits st pid target fid access TE_MODE_BLOCK = {}
    then te_handle_file_event pid target fid access TE_MODE_BLOCK st = (0, file_flow pid fid target access st)
    else fst (te_handle_file_event pid target fid access TE_MODE_BLOCK st) = - EPERM \<and>
      reports_only st (snd (te_handle_file_event pid target fid access TE_MODE_BLOCK st)) \<and>
      (rb_reserve st (rb_tries st) \<longrightarrow>
        (\<exists>v op i. rb (snd (te_handle_file_event pid target fid access TE_MODE_BLOCK st)) = rb st @ [v] \<and>
          (op, i) \<in> file_hits st pid target fid access TE_MODE_BLOCK \<and> vi_taint_rule_id v = ru_rule_id (rule_at st i) \<and>
          vi_op v = op \<and> vi_pid v = pid \<and> vi_blocked v \<and> \<not> vi_killed v \<and> vi_effect v = ucast TEFFECT_BLOCK))"
  by (rule file_lsm_cases [OF assms])

theorem te_handle_file_event_lsm_witness:
  "fst (te_handle_file_event 100 (str_bytes ''/etc/shadow'') no_fid TE_ACCESS_READ TE_MODE_BLOCK guard_sensor) = - EPERM"
proof -
  have "(TOP_OPEN, 0) \<in> file_hits guard_sensor 100 (str_bytes ''/etc/shadow'') no_fid TE_ACCESS_READ TE_MODE_BLOCK"
    by (simp add: file_hits_def file_ops_def guard_cells guard_hit file_eval_def Let_def)
  then have some: "file_hits guard_sensor 100 (str_bytes ''/etc/shadow'') no_fid TE_ACCESS_READ TE_MODE_BLOCK \<noteq> {}" by blast
  show ?thesis
    using te_handle_file_event_lsm [OF guard_active guard_wf guard_rules(2), of "str_bytes ''/etc/shadow''" no_fid TE_ACCESS_READ]
    unfolding if_not_P [OF some] by (rule conjunct1)
qed

text \<open>C21: the tracepoint backend lets every access happen and acts after the fact. The handler returns 0 and
  the labels flow as for an access no rule matches; one SIGKILL is sent to the current process exactly
  when some kill rule matches, and something is reported exactly when some notify or kill rule matches.\<close>

theorem te_handle_file_event_tracepoint:
  assumes "te_pid_active st pid" and "wf_tables st" and "rules_ok st"
  shows "\<exists>st1. te_handle_file_event pid target fid access te_tracepoint_mode st = (0, file_flow pid fid target access st1) \<and>
    (if file_hits st pid target fid access te_tracepoint_mode = {} then st1 = st
     else \<exists>st2. reports_only st st2 \<and> (rb_reserve st (rb_tries st) \<longrightarrow> (\<exists>v. rb st2 = rb st @ [v])) \<and>
       st1 = (if \<exists>(op, i) \<in> file_hits st pid target fid access te_tracepoint_mode. ru_effect (rule_at st i) = TEFFECT_KILL
              then bpf_send_signal SIGKILL st2 else st2))"
  by (rule file_tracepoint_cases [OF assms])


theorem te_handle_file_event_tracepoint_witness:
  "signals (snd (te_handle_file_event 100 (str_bytes ''/tmp/x'') no_fid TE_ACCESS_WRITE te_tracepoint_mode guard_sensor)) =
    [(100, SIGKILL)]"
proof -
  let ?H = "file_hits guard_sensor 100 (str_bytes ''/tmp/x'') no_fid TE_ACCESS_WRITE te_tracepoint_mode"
  have hit: "(TOP_WRITE, 1) \<in> ?H"
    by (simp add: file_hits_def file_ops_def guard_cells guard_hit file_eval_def Let_def del: One_nat_def)
  then have some: "?H \<noteq> {}" by blast
  have kill: "\<exists>(op, i) \<in> ?H. ru_effect (rule_at guard_sensor i) = TEFFECT_KILL"
    using hit by (rule bexI [rotated]) (simp add: guard_cells del: One_nat_def)
  from te_handle_file_event_tracepoint [OF guard_active guard_wf guard_rules(2), of "str_bytes ''/tmp/x''" no_fid TE_ACCESS_WRITE]
  obtain st2 where "reports_only guard_sensor st2"
    "te_handle_file_event 100 (str_bytes ''/tmp/x'') no_fid TE_ACCESS_WRITE te_tracepoint_mode guard_sensor =
      (0, file_flow 100 no_fid (str_bytes ''/tmp/x'') TE_ACCESS_WRITE (bpf_send_signal SIGKILL st2))"
    unfolding if_not_P [OF some] if_P [OF kill] by blast
  then show ?thesis
    by (simp add: sensor_fields [OF file_flow_frame] bpf_send_signal_def reports_only_keeps)
      (simp add: guard_defs cur_pid_def)
qed

definition ifc_file_event ::
  "bool \<Rightarrow> bool \<Rightarrow> u32 set \<Rightarrow> pid_t \<Rightarrow> file_id \<Rightarrow> (u32 \<Rightarrow> nat set) \<Rightarrow> (u32 \<Rightarrow> nat set) \<Rightarrow> ifc \<Rightarrow> ifc" where
  "ifc_file_event r w D pid f src own s =
     (let s = (if r then ifc_read D pid f src s else s) in if w then ifc_write D pid f own s else s)"


lemma file_flow_refines:
  assumes "te_pid_active st pid" and "wf_tables st" and "distinct (te_domains st pid)"
    and "label_room (2 * CAP_DOMAIN_DEPTH) st"
  shows "ifc_of (file_flow pid fid target access st) =
    ifc_file_event (policy_features st AND TE_POLICY_FILE_FLOW \<noteq> 0 \<and> access AND TE_ACCESS_READ \<noteq> 0)
      (policy_features st AND TE_POLICY_FILE_FLOW \<noteq> 0 \<and> access AND TE_ACCESS_WRITE \<noteq> 0)
      (set (te_domains st pid)) pid fid (file_sources st TOP_OPEN target) (domain_labels st pid) (ifc_of st)"
proof -
  have room: "label_room CAP_DOMAIN_DEPTH s" if "label_room (2 * CAP_DOMAIN_DEPTH) s" for s :: "'a engine_scheme"
    using that by (auto simp: label_room_def elim: has_slots_mono)
  let ?s = "te_read pid fid target st"
  have p: "cap_maps.truncate ?s = cap_maps.truncate st" unfolding te_read_def by (rule read_flow.policy)
  have rd: "ifc_of ?s = ifc_read (set (te_domains st pid)) pid fid (file_sources st TOP_OPEN target) (ifc_of st)"
    unfolding te_read_def using assms room by (intro read_flow.refines) auto
  have room2: "label_room CAP_DOMAIN_DEPTH ?s"
    unfolding te_read_def using assms by (intro read_flow.loop_room) auto
  have wr: "ifc_of (te_write_flow pid fid target s) = ifc_write (set (te_domains st pid)) pid fid (domain_labels st pid) (ifc_of s)"
    if "cap_maps.truncate s = cap_maps.truncate st" "label_room CAP_DOMAIN_DEPTH s" for s :: "'a engine_scheme"
    unfolding te_write_flow_def using write_flow.refines [of s pid fid target] assms(1-3) that
    by (simp add: domain_cong [OF that(1)] sources_cong [OF that(1)])
  show ?thesis
    using rd wr [OF refl room [OF assms(4)]] wr [OF p room2] policy_cong(3) [OF p]
    by (auto simp: file_flow_def ifc_file_event_def Let_def)
qed

text \<open>C20: an access that is not denied moves labels as the rule language says. The abstraction of the
  state after a file event is that before it with the read's join and then the write's join applied, in every domain
  of the process; for a denied access it is the state before.\<close>

theorem te_handle_file_event_refines:
  assumes "te_pid_active st pid" and "wf_tables st" and "rules_ok st"
    and "distinct (te_domains st pid)" and "label_room (2 * CAP_DOMAIN_DEPTH) st"
    and "mode = TE_MODE_BLOCK \<or> mode = te_tracepoint_mode"
  shows "ifc_of (snd (te_handle_file_event pid target fid access mode st)) =
    (if fst (te_handle_file_event pid target fid access mode st) = - EPERM then ifc_of st
     else ifc_file_event (policy_features st AND TE_POLICY_FILE_FLOW \<noteq> 0 \<and> access AND TE_ACCESS_READ \<noteq> 0)
            (policy_features st AND TE_POLICY_FILE_FLOW \<noteq> 0 \<and> access AND TE_ACCESS_WRITE \<noteq> 0)
            (set (te_domains st pid)) pid fid (file_sources st TOP_OPEN target) (domain_labels st pid) (ifc_of st))"
proof -
  let ?step = "te_handle_file_event pid target fid access mode st"
  have flow: "ifc_of (file_flow pid fid target access s) =
      ifc_file_event (policy_features st AND TE_POLICY_FILE_FLOW \<noteq> 0 \<and> access AND TE_ACCESS_READ \<noteq> 0)
        (policy_features st AND TE_POLICY_FILE_FLOW \<noteq> 0 \<and> access AND TE_ACCESS_WRITE \<noteq> 0)
        (set (te_domains st pid)) pid fid (file_sources st TOP_OPEN target) (domain_labels st pid) (ifc_of st)"
    if "cap_maps.truncate s = cap_maps.truncate st" "ifc_of s = ifc_of st" "label_room (2 * CAP_DOMAIN_DEPTH) s"
    for s :: "'a sensor_scheme"
    using file_flow_refines [of s pid fid target access] assms(1,2,4) that(2,3)
    by (simp add: domain_cong [OF that(1)] sources_cong [OF that(1)] policy_cong [OF that(1)])
  from assms(6) show ?thesis
  proof
    assume m: "mode = TE_MODE_BLOCK"
    show ?thesis
    proof (cases "file_hits st pid target fid access mode = {}")
      case True
      then show ?thesis using file_lsm_cases [OF assms(1-3)] flow [OF refl refl assms(5)] by (simp add: m)
    next
      case False
      from file_lsm_cases [OF assms(1-3), of target fid access] have "fst ?step = - EPERM" "reports_only st (snd ?step)"
        unfolding m if_not_P [OF False [unfolded m]] by blast+
      then show ?thesis by (simp add: reports_only_keeps(1))
    qed
  next
    assume m: "mode = te_tracepoint_mode"
    from file_tracepoint_cases [OF assms(1-3), of target fid access] obtain st1
      where s1: "?step = (0, file_flow pid fid target access st1)"
        and "st1 = st \<or> (\<exists>st2. reports_only st st2 \<and> (st1 = st2 \<or> st1 = bpf_send_signal SIGKILL st2))"
      unfolding m by (metis (no_types, lifting))
    then have "ifc_of st1 = ifc_of st" "cap_maps.truncate st1 = cap_maps.truncate st" "label_room (2 * CAP_DOMAIN_DEPTH) st1"
      using assms(5) by (auto simp: reports_only_keeps)
    with s1 show ?thesis using flow [of st1] by simp
  qed
qed


theorem te_handle_file_event_refines_witness:
  "ifc_of (snd (te_handle_file_event 100 (str_bytes ''/etc/shadow'') no_fid TE_ACCESS_READ TE_MODE_BLOCK guard_sensor)) =
    (if fst (te_handle_file_event 100 (str_bytes ''/etc/shadow'') no_fid TE_ACCESS_READ TE_MODE_BLOCK guard_sensor) = - EPERM
     then ifc_of guard_sensor
     else ifc_file_event True False {0, 1} 100 no_fid (file_sources guard_sensor TOP_OPEN (str_bytes ''/etc/shadow''))
            (domain_labels guard_sensor 100) (ifc_of guard_sensor))"
  using te_handle_file_event_refines [OF guard_active guard_wf guard_rules(2) _ guard_room, of TE_MODE_BLOCK
      "str_bytes ''/etc/shadow''" no_fid TE_ACCESS_READ]
  by (simp add: guard_domains guard_cells)


section \<open>Endpoint events\<close>

text \<open>The event \<^verbatim>\<open>te_handle_net\<close> builds, the labels and the operation it is checked with, and the flow
  of an access that is allowed.\<close>

definition endp_event :: "pid_t \<Rightarrow> u32 \<Rightarrow> u32 \<Rightarrow> u32 \<Rightarrow> te_event" where
  "endp_event pid access mode ip =
     \<lparr>te_pid = pid, te_obj_kind = TE_OBJ_ENDPOINT, te_access = access, te_mode = mode,
      te_target = replicate TAINT_PAT_LEN 0, te_display = None, te_ip = ip\<rparr>"

definition endp_seen :: "'a engine_scheme \<Rightarrow> pid_t \<Rightarrow> u32 \<Rightarrow> u32 \<Rightarrow> u32 \<Rightarrow> u64" where
  "endp_seen st pid access ip d =
     te_labels_for_domain st pid d OR
     (if access AND TE_ACCESS_CONNECT \<noteq> 0 then te_update_add_connect_domain st ip pid d else 0) OR
     (if access AND TE_ACCESS_RECV \<noteq> 0
      then te_endpoint_stored_labels_domain st ip pid d OR te_update_add_recv_domain st ip pid d else 0)"

definition endp_eval :: "'a engine_scheme \<Rightarrow> pid_t \<Rightarrow> u32 \<Rightarrow> u32 \<Rightarrow> u32 \<Rightarrow> te_rule_eval" where
  "endp_eval st pid access mode ip =
     (event_eval (endp_event pid access mode ip) (endp_seen st pid access ip 0)
        (endp_seen st pid access ip (cap_domain_for_pid st pid)) (cap_domain_for_pid st pid))\<lparr>ev_ip := ip\<rparr>"

definition endp_op :: "u32 \<Rightarrow> u8" where
  "endp_op access = (if access AND TE_ACCESS_RECV \<noteq> 0 then TOP_RECV else TOP_CONNECT)"

definition endp_hits :: "'a engine_scheme \<Rightarrow> pid_t \<Rightarrow> u32 \<Rightarrow> u32 \<Rightarrow> u32 \<Rightarrow> nat set" where
  "endp_hits st pid access mode ip = {i. op_hit st (endp_eval st pid access mode ip) (endp_op access) i}"

definition endp_flow :: "pid_t \<Rightarrow> u32 \<Rightarrow> u32 \<Rightarrow> 'a engine_scheme \<Rightarrow> 'a engine_scheme" where
  "endp_flow pid access ip st =
     (let st = (if access AND TE_ACCESS_CONNECT \<noteq> 0 then te_connect_flow ip pid st else st)
      in if access AND TE_ACCESS_RECV \<noteq> 0 then te_recv_flow ip pid st else st)"

definition endp_report ::
  "pid_t \<Rightarrow> u32 \<Rightarrow> u32 \<Rightarrow> te_rule_eval \<Rightarrow> nat \<Rightarrow> bool \<Rightarrow> bool \<Rightarrow> 'a sensor_scheme \<Rightarrow> 'a sensor_scheme" where
  "endp_report pid access ip e i blocked killed st =
     (let r = rule_at st i
      in emit_violation pid (ru_rule_id r) (Some (replicate TAINT_PAT_LEN 0)) ip TE_OBJ_ENDPOINT None (ru_domain_id r)
           (seen_labels st (e\<lparr>ev_op := endp_op access\<rparr>) r AND ru_req r) (endp_op access) blocked killed (ucast (ru_effect r)) st)"

lemma endp_step:
  fixes st :: "'a sensor_scheme" and pid access mode ip
  assumes "te_pid_active st pid"
  defines "e \<equiv> take_verdict (te_check_labels st (endp_eval st pid access mode ip\<lparr>ev_op := endp_op access\<rparr>))"
  shows "te_handle_event (endp_event pid access mode ip) None st =
      (case (if 0 \<le> sint (ev_event_rule e)
             then act_on mode (ev_event_effect e)
               (\<lambda>blocked killed. emit_violation pid (ev_event_rule e) (Some (replicate TAINT_PAT_LEN 0)) ip TE_OBJ_ENDPOINT None
                  (ev_event_domain_id e) (ev_event_labels e) (ev_event_op e) blocked killed (ev_event_effect e)) st
             else (None, st)) of
         (Some r, st) \<Rightarrow> (r, st) | (None, st) \<Rightarrow> (0, endp_flow pid access ip st))"
  using assms(1) by (cases "access AND 8 = 0"; cases "access AND 16 = 0")
    (simp_all add: te_handle_event_def endp_event_def Let_def e_def endp_eval_def endp_seen_def endp_op_def event_eval_def
      endp_flow_def or.assoc case_prod_beta cong: option.case_cong)

lemma endp_handler:
  fixes st :: "'a sensor_scheme" and pid access mode ip
  assumes act: "te_pid_active st pid" and wf: "wf_tables st" and ok: "rules_ok st"
  defines "e \<equiv> endp_eval st pid access mode ip"
  defines "H \<equiv> endp_hits st pid access mode ip"
  shows "H = {} \<and> te_handle_event (endp_event pid access mode ip) None st = (0, endp_flow pid access ip st) \<or>
    (\<exists>i \<in> H. (\<forall>k \<in> H. ru_effect (rule_at st k) \<le> ru_effect (rule_at st i)) \<and>
      te_handle_event (endp_event pid access mode ip) None st =
        (case act_on mode (ucast (ru_effect (rule_at st i))) (endp_report pid access ip e i) st of
           (Some r, st) \<Rightarrow> (r, st)
         | (None, st) \<Rightarrow> (0, endp_flow pid access ip st)))"
proof -
  let ?e = "take_verdict (te_check_labels st (e\<lparr>ev_op := endp_op access\<rparr>))"
  note step = endp_step [OF act, of access mode ip, folded e_def]
  obtain v where v: "verdict st e {endp_op access} ?e v"
    using take_verdict_verdict [OF wf ok, of e "endp_op access"] by blast
  have H: "i \<in> H \<longleftrightarrow> op_hit st e (endp_op access) i" for i by (simp add: H_def endp_hits_def e_def)
  show ?thesis
  proof (cases v)
    case None
    with v have "H = {}" and "\<not> 0 \<le> sint (ev_event_rule ?e)" by (auto simp: verdict_def H)
    then show ?thesis by (simp add: step)
  next
    case (Some w)
    obtain op i where w: "w = (op, i)" by (cases w)
    have op: "op = endp_op access" and pos: "0 \<le> sint (ev_event_rule ?e)"
      and vals: "ev_event_rule ?e = ru_rule_id (rule_at st i)"
      "ev_event_effect ?e = ucast (ru_effect (rule_at st i))" "ev_event_op ?e = endp_op access"
      "ev_event_domain_id ?e = ru_domain_id (rule_at st i)"
      "ev_event_labels ?e = seen_labels st (e\<lparr>ev_op := endp_op access\<rparr>) (rule_at st i) AND ru_req (rule_at st i)"
      using v by (auto simp: verdict_def Some w)
    have "act_on mode (ucast (ru_effect (rule_at st i)))
        (\<lambda>blocked killed. emit_violation pid (ru_rule_id (rule_at st i)) (Some (replicate TAINT_PAT_LEN 0)) ip TE_OBJ_ENDPOINT None
           (ru_domain_id (rule_at st i)) (seen_labels st (e\<lparr>ev_op := endp_op access\<rparr>) (rule_at st i) AND ru_req (rule_at st i))
           (endp_op access) blocked killed (ucast (ru_effect (rule_at st i)))) st =
        act_on mode (ucast (ru_effect (rule_at st i))) (endp_report pid access ip e i) st"
      by (rule act_on_cong) (simp add: endp_report_def Let_def)
    then have "te_handle_event (endp_event pid access mode ip) None st =
        (case act_on mode (ucast (ru_effect (rule_at st i))) (endp_report pid access ip e i) st of
           (Some r, st) \<Rightarrow> (r, st) | (None, st) \<Rightarrow> (0, endp_flow pid access ip st))"
      unfolding step using pos by (simp add: vals)
    moreover have "i \<in> H" "\<forall>k \<in> H. ru_effect (rule_at st k) \<le> ru_effect (rule_at st i)"
      using v by (auto simp: verdict_def Some w H)
    ultimately show ?thesis by blast
  qed
qed


text \<open>The rules that deny an endpoint access, written out. In the global domain and in the domain the process is bound to,
  a rule is checked against the labels the process has and those the access would bring: the sources of a
  connection, the stored labels and the sources of a receive. In a domain in between, that of an ancestor, it is
  checked against the labels the process already has there, and those the access would bring are not seen.\<close>

definition endp_rule_labels :: "'a engine_scheme \<Rightarrow> pid_t \<Rightarrow> u32 \<Rightarrow> u32 \<Rightarrow> u32 \<Rightarrow> nat set" where
  "endp_rule_labels st pid access ip d =
     bits_of (te_labels_for_domain st pid d) \<union>
     (if d = 0 \<or> d = cap_domain_for_pid st pid
      then (if access AND TE_ACCESS_CONNECT \<noteq> 0 then endp_sources st TOP_CONNECT ip d else {}) \<union>
           (if access AND TE_ACCESS_RECV \<noteq> 0 then endp_labels st ip d \<union> endp_sources st TOP_RECV ip d else {})
      else {})"

definition endp_denied_by :: "'a engine_scheme \<Rightarrow> pid_t \<Rightarrow> u32 \<Rightarrow> u32 \<Rightarrow> nat set" where
  "endp_denied_by st pid access ip =
     {i. i < n_rules st \<and>
         (let r = rule_at st i; labels = endp_rule_labels st pid access ip (ru_domain_id r)
          in cap_policy_rule_bound st (ru_domain_id r) i \<and> ru_op r = endp_op access \<and> ru_effect r = TEFFECT_BLOCK \<and>
             cap_domain_matches_pid st pid (ru_domain_id r) \<and> ip AND ru_ipv4_mask r = ru_ipv4 r \<and>
             bits_of (ru_req r) \<subseteq> labels \<and> bits_of (ru_forbid r) \<inter> labels = {} \<and>
             \<not> te_cond_satisfied st r ((endp_eval st pid access TE_MODE_BLOCK ip)\<lparr>ev_op := endp_op access\<rparr>))}"

lemma own_domain_matches: "te_pid_active st pid \<Longrightarrow> cap_domain_matches_pid st pid (cap_domain_for_pid st pid)"
  by (auto simp: cap_domain_matches_pid_chain numeral_eq_Suc)

lemma global_matches: "cap_domain_matches_pid st pid 0"
  by (simp add: cap_domain_matches_pid_def)

lemma endp_seen_bits:
  assumes "te_pid_active st pid" "wf_tables st" "d = 0 \<or> d = cap_domain_for_pid st pid"
  shows "bits_of (endp_seen st pid access ip d) = endp_rule_labels st pid access ip d"
proof -
  have m: "cap_domain_matches_pid st pid d"
    using assms(3) own_domain_matches [OF assms(1)] global_matches by auto
  have "bits_of (te_update_add_endpoint_domain st op ip pid d) = endp_sources st op ip d" for op
    using assms(1,2) m by (simp add: te_update_add_endpoint_domain_def endp_updates_add)
  moreover have "bits_of (te_endpoint_stored_labels_domain st ip pid d) = endp_labels st ip d"
    using assms(1) m by (simp add: te_endpoint_stored_labels_domain_def endp_labels_def split: option.split)
  ultimately show ?thesis
    using assms(3) by (auto simp: endp_seen_def endp_rule_labels_def te_update_add_connect_domain_def te_update_add_recv_domain_def)
qed

lemma endp_hits_denied:
  assumes "te_pid_active st pid" "wf_tables st"
  shows "endp_hits st pid access TE_MODE_BLOCK ip = endp_denied_by st pid access ip"
proof -
  let ?e = "(endp_eval st pid access TE_MODE_BLOCK ip)\<lparr>ev_op := endp_op access\<rparr>"
  have e: "ev_pid ?e = pid" "ev_effect_mask ?e = te_supported_effects TE_MODE_BLOCK" "ev_ip ?e = ip"
    "ev_global_labels ?e = endp_seen st pid access ip 0" "ev_current_domain_id ?e = cap_domain_for_pid st pid"
    "ev_current_labels ?e = endp_seen st pid access ip (cap_domain_for_pid st pid)" "\<not> ev_include_file_labels ?e"
    "ev_op ?e = TOP_CONNECT \<or> ev_op ?e = TOP_RECV"
    by (simp_all add: endp_eval_def event_eval_def endp_event_def eval_zero_def endp_op_def)
  have labels: "bits_of (seen_labels st ?e r) = endp_rule_labels st pid access ip (ru_domain_id r)" for r
    unfolding seen_labels_def rule_labels_def rule_object_labels_def e
    using endp_seen_bits [OF assms, of 0 access ip] endp_seen_bits [OF assms, of "cap_domain_for_pid st pid" access ip] e(7)
    by (auto simp: endp_rule_labels_def)
  have ok: "taint_mask_ok l q f \<longleftrightarrow> bits_of q \<subseteq> bits_of l \<and> bits_of f \<inter> bits_of l = {}" for l q f
    by (auto simp: taint_mask_ok_def and_eq_self_iff and_eq_0_iff)
  have dom: "rule_in_domain st ?e r \<longleftrightarrow> cap_domain_matches_pid st pid (ru_domain_id r)" for r
    using own_domain_matches [OF assms(1)] unfolding rule_in_domain_def e
    by (auto simp: global_matches)
  have target: "target_matches st ?e r \<longleftrightarrow> ip AND ru_ipv4_mask r = ru_ipv4 r" for r
    using e(8) unfolding target_matches_def e(3) by simp
  show ?thesis
    unfolding endp_hits_def endp_denied_by_def op_hit_def rule_hit_def ok labels dom target wanted_block [OF e(2)] Let_def
    by auto
qed

text \<open>C16: the LSM backend denies a connection or a receive exactly when some active block rule denies it, as
  \<open>endp_denied_by\<close> spells out: the rule is bound, its domain is the process's or an ancestor's, the address matches,
  its condition does not exempt the access, and its labels hold of those it is checked against. For a rule of the global
  or of the process's own domain these are the labels the process would have after the access; for a rule of an ancestor
  domain in between they are only the labels it has already, so such a rule misses a label that this very access
  brings. A denied access changes no label, session or gate and the report carries the address; an allowed one
  connects or receives.\<close>

theorem te_handle_event_lsm:
  assumes "te_pid_active st pid" and "wf_tables st" and "rules_ok st"
  shows "if endp_denied_by st pid access ip = {}
    then te_handle_event (endp_event pid access TE_MODE_BLOCK ip) None st = (0, endp_flow pid access ip st)
    else fst (te_handle_event (endp_event pid access TE_MODE_BLOCK ip) None st) = - EPERM \<and>
      reports_only st (snd (te_handle_event (endp_event pid access TE_MODE_BLOCK ip) None st)) \<and>
      (rb_reserve st (rb_tries st) \<longrightarrow>
        (\<exists>v. \<exists>i \<in> endp_denied_by st pid access ip.
          rb (snd (te_handle_event (endp_event pid access TE_MODE_BLOCK ip) None st)) = rb st @ [v] \<and>
          vi_taint_rule_id v = ru_rule_id (rule_at st i) \<and> vi_conn_ip v = ip \<and> vi_pid v = pid \<and> vi_blocked v \<and>
          \<not> vi_killed v))"
proof -
  let ?e = "endp_eval st pid access TE_MODE_BLOCK ip" and ?H = "endp_denied_by st pid access ip"
  let ?step = "te_handle_event (endp_event pid access TE_MODE_BLOCK ip) None st"
  from endp_handler [OF assms, of access TE_MODE_BLOCK ip, unfolded endp_hits_denied [OF assms(1,2)]] show ?thesis
  proof (elim disjE bexE conjE)
    fix i
    assume hit: "i \<in> ?H"
      and step: "?step = (case act_on TE_MODE_BLOCK (ucast (ru_effect (rule_at st i))) (endp_report pid access ip ?e i) st of
           (Some r, st) \<Rightarrow> (r, st) | (None, st) \<Rightarrow> (0, endp_flow pid access ip st))"
    have eff: "ru_effect (rule_at st i) = TEFFECT_BLOCK"
      using hit by (simp add: endp_denied_by_def Let_def)
    have res: "?step = (- EPERM, endp_report pid access ip ?e i True False st)"
      unfolding step eff act_on_block by simp
    have "\<exists>v. rb (endp_report pid access ip ?e i True False st) = rb st @ [v] \<and>
        vi_taint_rule_id v = ru_rule_id (rule_at st i) \<and> vi_conn_ip v = ip \<and> vi_pid v = pid \<and> vi_blocked v \<and> \<not> vi_killed v"
      if "rb_reserve st (rb_tries st)"
      using emit_report [OF that, of pid "ru_rule_id (rule_at st i)" "replicate 64 0" ip TE_OBJ_ENDPOINT None "ru_domain_id (rule_at st i)"
          "seen_labels st (?e\<lparr>ev_op := endp_op access\<rparr>) (rule_at st i) AND ru_req (rule_at st i)" "endp_op access" True False
          "ucast TEFFECT_BLOCK"]
      by (auto simp: endp_report_def eff report_verdict_def Let_def)
    moreover have "reports_only st (endp_report pid access ip ?e i True False st)"
      by (simp add: endp_report_def Let_def emit_reports_only)
    moreover have ne: "?H \<noteq> {}" using hit by blast
    ultimately show ?thesis using hit unfolding if_not_P [OF ne] res by auto
  qed simp
qed

text \<open>A rule that blocks connections of label 2 to any address. In the process's own domain it denies the connection that
  would bring the label itself; bound to a domain in between, it lets it pass.\<close>

definition connect_sensor :: "u32 \<Rightarrow> sensor" where
  "connect_sensor d = guard_sensor
     \<lparr>ts_rules := \<lparr>a_max = MAX_TAINT_RULES, a_cell = (\<lambda>i. no_rule\<lparr>ru_op := TOP_CONNECT, ru_effect := TEFFECT_BLOCK,
        ru_req := 2, ru_domain_id := d, ru_rule_id := 5\<rparr>)\<rparr>,
      ts_updates := \<lparr>a_max = MAX_TAINT_UPDATES, a_cell = (\<lambda>i. no_update\<lparr>up_op := TOP_CONNECT, up_add := 2, up_domain_id := d\<rparr>)\<rparr>,
      ts_counts := \<lparr>a_max = 6, a_cell = (\<lambda>i. if i = 5 then 4 else 1)\<rparr>,
      cap_policy := map_put d \<lparr>pm_lo = 1, pm_hi = 0\<rparr> (hash_new 4096)\<rparr>"

lemma connect_lookups:
  "map_lookup (cap_task (connect_sensor d)) 200 = Some 2" "cap_parent_domain (connect_sensor d) 2 = 1"
  "cap_parent_domain (connect_sensor d) 1 = 0" "n_rules (connect_sensor d) = 1" "n_updates (connect_sensor d) = 1"
  "rule_at (connect_sensor d) i = no_rule\<lparr>ru_op := TOP_CONNECT, ru_effect := TEFFECT_BLOCK, ru_req := 2, ru_domain_id := d,
     ru_rule_id := 5\<rparr>"
  by (simp_all add: connect_sensor_def guard_defs example_simps cap_parent_domain_def n_rules_def n_updates_def)

lemma connect_ok: "te_pid_active (connect_sensor d) 200" "wf_tables (connect_sensor d)" "rules_ok (connect_sensor d)"
  "cap_domain_for_pid (connect_sensor d) 200 = 2"
  by (simp_all add: te_pid_active_def cap_task_bound_def cap_domain_for_pid_def connect_lookups rules_ok_def active_rules_def)
    (simp_all add: wf_tables_def connect_sensor_def guard_defs example_maps_def no_rule_def)

lemma connect_bound: "cap_policy_rule_bound (connect_sensor d) d 0"
  by (simp add: connect_sensor_def cap_policy_rule_bound_def cap_policy_mask_has_def lookup_put room_def hash_new_def bit64_def)

lemma connect_sources: "endp_sources (connect_sensor d) TOP_CONNECT ip d = {1}"
proof -
  have "active_updates (connect_sensor d) = [no_update\<lparr>up_op := TOP_CONNECT, up_add := 2, up_domain_id := d\<rparr>]"
    by (simp add: active_updates_def connect_lookups) (simp add: connect_sensor_def)
  then show ?thesis by (auto simp: endp_sources_def no_update_def bits_of_def bit_simps)
qed

lemma connect_matches: "cap_domain_matches_pid (connect_sensor d) 200 1" "cap_domain_matches_pid (connect_sensor d) 200 2"
  by (simp_all add: cap_domain_matches_pid_chain connect_ok connect_lookups numeral_eq_Suc)

lemma connect_labels: "bits_of (te_labels_for_domain (connect_sensor d) 200 1) = {3}"
proof -
  have "te_get_domain (connect_sensor d) 200 1 = None"
    and "map_option (\<lambda>c. (cs_labels c, cs_restrict_mask c)) (map_lookup (cap_states (connect_sensor d)) 1) = Some (bit64 3, 0)"
    by (simp_all add: connect_sensor_def te_get_domain_def guard_defs example_simps bit64_def)
  then show ?thesis
    by (auto simp: te_labels_for_domain_def connect_ok connect_matches cap_labels_for_pid_domain_def)
qed

theorem te_handle_event_lsm_witness:
  "fst (te_handle_event (endp_event 200 TE_ACCESS_CONNECT TE_MODE_BLOCK 9) None (connect_sensor 2)) = - EPERM \<and>
   te_handle_event (endp_event 200 TE_ACCESS_CONNECT TE_MODE_BLOCK 9) None (connect_sensor 1) =
     (0, endp_flow 200 TE_ACCESS_CONNECT 9 (connect_sensor 1))"
proof -
  have two: "bits_of (2 :: u64) = {1}" using bits_of_bit64 [of 1] by (simp add: bit64_def)
  have "0 \<in> endp_denied_by (connect_sensor 2) 200 TE_ACCESS_CONNECT 9"
    by (simp add: endp_denied_by_def connect_lookups connect_bound connect_matches endp_op_def no_rule_def endp_rule_labels_def
        connect_ok connect_sources te_cond_satisfied_def two)
  then have some: "endp_denied_by (connect_sensor 2) 200 TE_ACCESS_CONNECT 9 \<noteq> {}" by blast
  have none: "endp_denied_by (connect_sensor 1) 200 TE_ACCESS_CONNECT 9 = {}"
    by (simp add: endp_denied_by_def connect_lookups no_rule_def endp_rule_labels_def connect_ok connect_labels two)
  show ?thesis
    using te_handle_event_lsm [OF connect_ok(1-3), of 2 TE_ACCESS_CONNECT 9, unfolded if_not_P [OF some]]
      te_handle_event_lsm [OF connect_ok(1-3), of 1 TE_ACCESS_CONNECT 9, unfolded if_P [OF none]] by blast
qed

end
