(* ===== verification/Exec_Pipe.thy ===== *)
theory Exec_Pipe
  imports Enforcement
begin

text \<open>
  The exec pipeline (\<^verbatim>\<open>bpf/process.bpf.c\<close>): \<^verbatim>\<open>handle_exec_args\<close> and the four programs it
  tail-calls. The pipeline scans the update table twice and the rule table twice, each time for one half
  of the patterns, keeping what it has found in a per-CPU record between the programs. The theorem is
  that this does what one scan of each table does.
\<close>

section \<open>State\<close>

abbreviation (input) TASK_COMM_LEN :: nat where "TASK_COMM_LEN \<equiv> 16"
abbreviation (input) TAINT_TEXT_BUF :: nat where "TAINT_TEXT_BUF \<equiv> 80"
abbreviation (input) EXEC_TAIL_UPDATE_SIMPLE :: nat where "EXEC_TAIL_UPDATE_SIMPLE \<equiv> 0"
abbreviation (input) EXEC_TAIL_UPDATE_PREFIX :: nat where "EXEC_TAIL_UPDATE_PREFIX \<equiv> 1"
abbreviation (input) EXEC_TAIL_RULE_SIMPLE :: nat where "EXEC_TAIL_RULE_SIMPLE \<equiv> 2"
abbreviation (input) EXEC_TAIL_RULE_COMPLEX :: nat where "EXEC_TAIL_RULE_COMPLEX \<equiv> 3"

record exec_scratch =
  xs_match :: bytes
  xs_display :: bytes

text \<open>What a read through \<^verbatim>\<open>scratch->match\<close> sees: the buffer and, past its 80 bytes, the next field.\<close>

definition xs_mem :: "exec_scratch \<Rightarrow> bytes" where
  "xs_mem x = xs_match x @ xs_display x"

text \<open>The per-domain arrays have \<^verbatim>\<open>CAP_DOMAIN_DEPTH\<close> cells, indexed below that bound.\<close>

record exec_pipe_state =
  xp_pid :: pid_t
  xp_mode :: u32
  xp_n_domains :: nat
  xp_domain_ids :: "nat \<Rightarrow> u32"
  xp_add :: "nat \<Rightarrow> u64"
  xp_del :: "nat \<Rightarrow> u64"
  xp_gates :: "nat \<Rightarrow> u64"
  xp_exit_gates :: "nat \<Rightarrow> u64"
  xp_invals :: "nat \<Rightarrow> u64"
  xp_best_rule :: s32
  xp_best_index :: s32
  xp_best_effect :: u32
  xp_best_domain_id :: u32
  xp_best_req :: u64
  xp_best_labels :: u64

section \<open>Stages\<close>

definition exec_pipe_init :: "'a engine_scheme \<Rightarrow> pid_t \<Rightarrow> u32 \<Rightarrow> exec_pipe_state" where
  "exec_pipe_init st pid mode =
     loop_on [0..<CAP_DOMAIN_DEPTH]
       (\<lambda>i s. let d = te_domain_for_depth st pid i
              in if 0 < i \<and> d = 0 then (True, s)
                 else (False, s\<lparr>xp_domain_ids := (xp_domain_ids s)(i := d), xp_n_domains := Suc i\<rparr>))
       \<lparr>xp_pid = pid, xp_mode = mode, xp_n_domains = 0, xp_domain_ids = (\<lambda>_. 0), xp_add = (\<lambda>_. 0), xp_del = (\<lambda>_. 0),
        xp_gates = (\<lambda>_. 0), xp_exit_gates = (\<lambda>_. 0), xp_invals = (\<lambda>_. 0), xp_best_rule = - 1, xp_best_index = - 1,
        xp_best_effect = ucast TEFFECT_NOTIFY, xp_best_domain_id = 0, xp_best_req = 0, xp_best_labels = 0\<rparr>"

definition exec_pipe_collect_updates ::
  "bool \<Rightarrow> 'a engine_scheme \<Rightarrow> exec_scratch \<Rightarrow> exec_pipe_state \<Rightarrow> exec_pipe_state" where
  "exec_pipe_collect_updates pfx st x s =
     loop_on [0..<CAP_DOMAIN_DEPTH]
       (\<lambda>i s. if xp_n_domains s \<le> i then (True, s)
              else
                let d = xp_domain_ids s i
                in if \<not> cap_domain_matches_pid st (xp_pid s) d then (False, s)
                   else
                     let c = update_ctx (xp_pid s) d TOP_EXEC (xs_mem x) 0;
                         c = (if pfx then bpf_loop (te_count st 1) (te_exec_update_prefix_cb st) c
                              else bpf_loop (te_count st 1) (te_exec_update_simple_cb st) c)
                     in (False, s\<lparr>xp_add := (xp_add s)(i := xp_add s i OR uc_add c),
                                  xp_del := (xp_del s)(i := xp_del s i OR uc_del c),
                                  xp_gates := (xp_gates s)(i := xp_gates s i OR uc_gates c),
                                  xp_exit_gates := (xp_exit_gates s)(i := xp_exit_gates s i OR uc_exit_gates c),
                                  xp_invals := (xp_invals s)(i := xp_invals s i OR uc_invals c)\<rparr>)) s"

text \<open>What a stage has collected for one domain, in the form \<^const>\<open>te_exec_apply\<close> takes: the statements that
  apply it are those of \<^verbatim>\<open>te_exec_update_domain\<close>.\<close>

definition pipe_ctx :: "exec_scratch \<Rightarrow> exec_pipe_state \<Rightarrow> nat \<Rightarrow> te_update_ctx" where
  "pipe_ctx x s i =
     (update_ctx (xp_pid s) (xp_domain_ids s i) TOP_EXEC (xs_mem x) 0)
       \<lparr>uc_add := xp_add s i, uc_del := xp_del s i, uc_gates := xp_gates s i, uc_exit_gates := xp_exit_gates s i,
        uc_invals := xp_invals s i\<rparr>"

definition exec_pipe_apply_updates ::
  "exec_scratch \<Rightarrow> exec_pipe_state \<Rightarrow> 'a engine_scheme \<Rightarrow> 'a engine_scheme" where
  "exec_pipe_apply_updates x s st =
     loop_on [0..<CAP_DOMAIN_DEPTH]
       (\<lambda>i st. if xp_n_domains s \<le> i then (True, st)
               else
                 let d = xp_domain_ids s i
                 in if \<not> te_pid_active st (xp_pid s) \<or> \<not> cap_domain_matches_pid st (xp_pid s) d then (False, st)
                    else (False, te_exec_apply (xp_pid s) (xs_mem x) d (pipe_ctx x s i) st)) st"

definition exec_pipe_merge_rule :: "te_rule_eval \<Rightarrow> s32 \<Rightarrow> exec_pipe_state \<Rightarrow> exec_pipe_state" where
  "exec_pipe_merge_rule e rid s =
     (if sint rid < 0 then s
      else if sint (xp_best_rule s) < 0 \<or> ev_effect e > xp_best_effect s \<or>
              ev_effect e = xp_best_effect s \<and> 0 \<le> sint (ev_matched_index e) \<and>
              (sint (xp_best_index s) < 0 \<or> sint (ev_matched_index e) < sint (xp_best_index s))
      then s\<lparr>xp_best_rule := rid, xp_best_index := ev_matched_index e, xp_best_effect := ev_effect e,
             xp_best_domain_id := ev_matched_domain_id e, xp_best_req := ev_matched_req e,
             xp_best_labels := ev_matched_labels e\<rparr>
      else s)"

definition exec_pipe_scan_rules ::
  "bool \<Rightarrow> 'a engine_scheme \<Rightarrow> exec_scratch \<Rightarrow> exec_pipe_state \<Rightarrow> exec_pipe_state" where
  "exec_pipe_scan_rules complex st x s =
     (if xp_best_effect s = ucast TEFFECT_KILL then s
      else
        let e = exec_eval st (xp_pid s) (xs_mem x) (xp_mode s);
            (rid, e) = (if complex then te_check_exec_complex st e else te_check_exec_simple st e)
        in exec_pipe_merge_rule e rid s)"

definition exec_pipe_finish :: "exec_scratch \<Rightarrow> exec_pipe_state \<Rightarrow> 'a sensor_scheme \<Rightarrow> 'a sensor_scheme" where
  "exec_pipe_finish x s st =
     (if sint (xp_best_rule s) < 0 then st
      else
        let action = te_effect_mode (xp_mode s) (xp_best_effect s);
            st = (if action \<noteq> TE_MODE_UNSUPPORTED
                  then emit_violation (xp_pid s) (xp_best_rule s) (Some (xs_display x)) 0 TE_OBJ_EXEC None
                         (xp_best_domain_id s) (xp_best_labels s) TOP_EXEC
                         (action = TE_MODE_BLOCK \<or> action = TE_MODE_KILL \<and> xp_mode s = TE_MODE_BLOCK)
                         (action = TE_MODE_KILL) (xp_best_effect s) st
                  else st)
        in if action = TE_MODE_KILL then bpf_send_signal SIGKILL st else st)"

section \<open>Programs\<close>

text \<open>\<open>tail\<close> says which slots of \<^verbatim>\<open>exec_tail\<close> hold a program: a tail call into an empty slot returns, and
  the caller then returns 0.\<close>

definition exec_tp_rule_complex :: "exec_scratch \<Rightarrow> exec_pipe_state \<Rightarrow> 'a sensor_scheme \<Rightarrow> 'a sensor_scheme" where
  "exec_tp_rule_complex x s st = exec_pipe_finish x (exec_pipe_scan_rules True st x s) st"

definition exec_tp_rule_simple ::
  "(nat \<Rightarrow> bool) \<Rightarrow> exec_scratch \<Rightarrow> exec_pipe_state \<Rightarrow> 'a sensor_scheme \<Rightarrow> 'a sensor_scheme" where
  "exec_tp_rule_simple tail x s st =
     (let s = exec_pipe_scan_rules False st x s
      in if tail EXEC_TAIL_RULE_COMPLEX then exec_tp_rule_complex x s st else st)"

definition exec_tp_update_prefix ::
  "(nat \<Rightarrow> bool) \<Rightarrow> exec_scratch \<Rightarrow> exec_pipe_state \<Rightarrow> 'a sensor_scheme \<Rightarrow> 'a sensor_scheme" where
  "exec_tp_update_prefix tail x s st =
     (let s = exec_pipe_collect_updates True st x s;
          st = exec_pipe_apply_updates x s st
      in if tail EXEC_TAIL_RULE_SIMPLE then exec_tp_rule_simple tail x s st else st)"

definition exec_tp_update_simple ::
  "(nat \<Rightarrow> bool) \<Rightarrow> exec_scratch \<Rightarrow> exec_pipe_state \<Rightarrow> 'a sensor_scheme \<Rightarrow> 'a sensor_scheme" where
  "exec_tp_update_simple tail x s st =
     (let s = exec_pipe_collect_updates False st x s
      in if tail EXEC_TAIL_UPDATE_PREFIX then exec_tp_update_prefix tail x s st else st)"

text \<open>The exec event as the kernel presents it: the file name, the argument area of the new image if it has
  one, and what a read of user memory gives.\<close>

record exec_env =
  xe_filename :: bytes
  xe_args :: "(u64 \<times> u64) option"
  xe_user :: "u64 \<Rightarrow> nat \<Rightarrow> bytes option"

text \<open>\<^verbatim>\<open>bpf_probe_read_str\<close> into a buffer: the string, cut to fit, and its NUL; the rest of the buffer stays.\<close>

definition read_str :: "bytes \<Rightarrow> bytes \<Rightarrow> bytes" where
  "read_str dst src = (let t = take (length dst - 1) (cstr src) @ [0] in t @ drop (length t) dst)"

definition exec_argv :: "exec_env \<Rightarrow> te_argslots" where
  "exec_argv env =
     (let zero = \<lparr>as_blob = replicate TAINT_ARGV_CAP 0, as_slots = replicate (MAX_ARG_SLOTS * TAINT_ARG_LEN) 0\<rparr>;
          (alen, as) = (case xe_args env of
                   None \<Rightarrow> (0, zero)
                 | Some (a0, a1) \<Rightarrow>
                     let len = a1 - a0;
                         len = (if len > of_nat (TAINT_ARGV_CAP - 1) then of_nat (TAINT_ARGV_CAP - 1) else len)
                     in if len = 0 then (0, zero)
                        else case xe_user env a0 (unat len) of
                               None \<Rightarrow> (0, zero)
                             | Some b \<Rightarrow> (uint len, zero\<lparr>as_blob := take (unat len) b @ drop (unat len) (as_blob zero)\<rparr>))
      in te_tokenize_args_eng alen as)"

definition exec_scratch_of :: "exec_env \<Rightarrow> bytes \<Rightarrow> exec_scratch" where
  "exec_scratch_of env comm =
     (let m = padded TASK_COMM_LEN (take (TASK_COMM_LEN - 1) comm)
      in \<lparr>xs_match = m @ replicate (TAINT_TEXT_BUF - TASK_COMM_LEN) 0,
          xs_display = read_str (m @ replicate (MAX_FILENAME_LEN - TASK_COMM_LEN) 0) (xe_filename env)\<rparr>)"

definition handle_exec_args :: "(nat \<Rightarrow> bool) \<Rightarrow> exec_env \<Rightarrow> 'a sensor_scheme \<Rightarrow> 'a sensor_scheme" where
  "handle_exec_args tail env st =
     (let pid = cur_pid st
      in if \<not> te_pid_active st pid then st
         else
           let st = st\<lparr>ts_argslots := exec_argv env\<rparr>;
               x = exec_scratch_of env (cur_comm st)
           in if tail EXEC_TAIL_UPDATE_SIMPLE
              then exec_tp_update_simple tail x (exec_pipe_init st pid te_tracepoint_mode) st else st)"


section \<open>Loops with a bound\<close>

lemma loop_on_bounded:
  assumes "n \<le> b" and "P s" and "\<And>i s. i < n \<Longrightarrow> P s \<Longrightarrow> P (f i s)"
    and "\<And>i s. i < b \<Longrightarrow> P s \<Longrightarrow> cb i s = (if n \<le> i then (True, s) else (False, f i s))"
  shows "loop_on [0..<b] cb s = fold f [0..<n] s"
proof -
  have "loop_on [a..<b] cb s = fold f [a..<n] s" if "P s" for a s
    using that
  proof (induction "b - a" arbitrary: a s)
    case (Suc k)
    then have up: "[a..<b] = a # [Suc a..<b]" by (simp add: upt_conv_Cons)
    show ?case
    proof (cases "n \<le> a")
      case False
      then have n: "[a..<n] = a # [Suc a..<n]" by (simp add: upt_conv_Cons)
      from Suc(2) have "k = b - Suc a" "a < b" by simp_all
      with Suc(1) [of "Suc a" "f a s"] Suc(3) False show ?thesis
        unfolding up n by (simp add: assms)
    qed (use Suc in \<open>simp add: up assms(4)\<close>)
  qed (use assms(1) in simp)
  then show ?thesis using assms(2) .
qed

section \<open>The domains of the pipeline\<close>

lemma cap_chain_nth:
  "k < length (cap_chain n st d) \<Longrightarrow> cap_chain n st d ! k = ancestor st k d \<and> ancestor st k d \<noteq> 0"
proof (induction n arbitrary: d k)
  case (Suc n)
  then show ?case by (cases k) (auto simp: ancestor_Suc split: if_splits)
qed simp

lemma cap_chain_end: "length (cap_chain n st d) < n \<Longrightarrow> ancestor st (length (cap_chain n st d)) d = 0"
  by (induction n arbitrary: d) (auto simp: ancestor_Suc split: if_splits)

lemma ancestor_beyond: "ancestor st k d = 0 \<Longrightarrow> k \<le> m \<Longrightarrow> ancestor st m d = 0"
proof (induction m)
  case (Suc m)
  then show ?case by (cases "k = Suc m") (auto simp: ancestor_Suc2)
qed simp

lemma te_domains_depth:
  "i < CAP_DOMAIN_DEPTH \<Longrightarrow> (0 < i \<and> te_domain_for_depth st pid i = 0) \<longleftrightarrow> length (te_domains st pid) \<le> i"
  "i < length (te_domains st pid) \<Longrightarrow> te_domain_for_depth st pid i = te_domains st pid ! i"
proof -
  let ?d = "cap_domain_for_pid st pid" and ?c = "cap_chain (CAP_DOMAIN_DEPTH - 1) st (cap_domain_for_pid st pid)"
  have len: "length ?c \<le> CAP_DOMAIN_DEPTH - 1" using te_domains_length [of st pid] by (simp add: te_domains_def)
  { assume "i < length (te_domains st pid)"
    then show "te_domain_for_depth st pid i = te_domains st pid ! i"
      using len cap_chain_nth [of "i - 1" "CAP_DOMAIN_DEPTH - 1" st ?d]
      by (cases i) (auto simp: te_domain_for_depth_ancestor te_domains_def) }
  { assume i: "i < CAP_DOMAIN_DEPTH"
    show "(0 < i \<and> te_domain_for_depth st pid i = 0) \<longleftrightarrow> length (te_domains st pid) \<le> i"
    proof (cases "i - 1 < length ?c")
      case True
      then show ?thesis
        using i len cap_chain_nth [OF True] by (cases i) (auto simp: te_domain_for_depth_ancestor te_domains_def)
    next
      case False
      then have "0 < i \<Longrightarrow> ancestor st (i - 1) ?d = 0"
        using i by (intro ancestor_beyond [OF cap_chain_end [of 7]]) auto
      with False i show ?thesis
        by (cases i) (auto simp: te_domain_for_depth_ancestor te_domains_def)
    qed }
qed

lemma pipe_init:
  "xp_n_domains (exec_pipe_init st pid mode) = length (te_domains st pid)"
  "i < length (te_domains st pid) \<Longrightarrow> xp_domain_ids (exec_pipe_init st pid mode) i = te_domains st pid ! i"
  "xp_pid (exec_pipe_init st pid mode) = pid" "xp_mode (exec_pipe_init st pid mode) = mode"
  "xp_add (exec_pipe_init st pid mode) = (\<lambda>_. 0)" "xp_del (exec_pipe_init st pid mode) = (\<lambda>_. 0)"
  "xp_gates (exec_pipe_init st pid mode) = (\<lambda>_. 0)" "xp_exit_gates (exec_pipe_init st pid mode) = (\<lambda>_. 0)"
  "xp_invals (exec_pipe_init st pid mode) = (\<lambda>_. 0)" "xp_best_rule (exec_pipe_init st pid mode) = - 1"
  "xp_best_index (exec_pipe_init st pid mode) = - 1" "xp_best_effect (exec_pipe_init st pid mode) = 0"
proof -
  let ?f = "\<lambda>i s. s\<lparr>xp_domain_ids := (xp_domain_ids s)(i := te_domain_for_depth st pid i), xp_n_domains := Suc i\<rparr>"
  let ?z = "\<lparr>xp_pid = pid, xp_mode = mode, xp_n_domains = 0, xp_domain_ids = (\<lambda>_. 0), xp_add = (\<lambda>_. 0), xp_del = (\<lambda>_. 0),
        xp_gates = (\<lambda>_. 0), xp_exit_gates = (\<lambda>_. 0), xp_invals = (\<lambda>_. 0), xp_best_rule = - 1, xp_best_index = - 1,
        xp_best_effect = 0, xp_best_domain_id = 0, xp_best_req = 0, xp_best_labels = 0\<rparr>"
  have run: "exec_pipe_init st pid mode = fold ?f [0..<length (te_domains st pid)] ?z"
    unfolding exec_pipe_init_def
    by (subst loop_on_bounded [where n = "length (te_domains st pid)" and P = "\<lambda>_. True" and f = ?f])
      (simp_all add: te_domains_length [simplified] te_domains_depth(1) [symmetric] Let_def)
  have "fold ?f [0..<n] ?z = ?z\<lparr>xp_domain_ids := (\<lambda>i. if i < n then te_domain_for_depth st pid i else 0), xp_n_domains := n\<rparr>" for n
    by (induction n) (auto simp: fun_eq_iff)
  note this [of "length (te_domains st pid)"]
  with run show
    "xp_n_domains (exec_pipe_init st pid mode) = length (te_domains st pid)"
    "i < length (te_domains st pid) \<Longrightarrow> xp_domain_ids (exec_pipe_init st pid mode) i = te_domains st pid ! i"
    "xp_pid (exec_pipe_init st pid mode) = pid" "xp_mode (exec_pipe_init st pid mode) = mode"
    "xp_add (exec_pipe_init st pid mode) = (\<lambda>_. 0)" "xp_del (exec_pipe_init st pid mode) = (\<lambda>_. 0)"
    "xp_gates (exec_pipe_init st pid mode) = (\<lambda>_. 0)" "xp_exit_gates (exec_pipe_init st pid mode) = (\<lambda>_. 0)"
    "xp_invals (exec_pipe_init st pid mode) = (\<lambda>_. 0)" "xp_best_rule (exec_pipe_init st pid mode) = - 1"
    "xp_best_index (exec_pipe_init st pid mode) = - 1" "xp_best_effect (exec_pipe_init st pid mode) = 0"
    by (simp_all add: te_domains_depth(2))
qed


section \<open>The updates of the pipeline\<close>

lemma collect_cong:
  assumes "cap_maps.truncate s = cap_maps.truncate t" and "ts_argslots s = ts_argslots t"
  shows "te_collect_updates s = te_collect_updates t"
proof -
  have "te_update_cb s = te_update_cb t"
    by (rule ext)+ (simp only: te_update_cb_def policy_cong [OF assms(1)] assms(2))
  then show ?thesis by (intro ext) (simp add: te_collect_updates_def domain_cong [OF assms(1)])
qed

definition ctx_or :: "te_update_ctx \<Rightarrow> te_update_ctx \<Rightarrow> te_update_ctx \<Rightarrow> te_update_ctx" where
  "ctx_or c a b =
     c\<lparr>uc_add := uc_add a OR uc_add b, uc_del := uc_del a OR uc_del b, uc_gates := uc_gates a OR uc_gates b,
       uc_exit_gates := uc_exit_gates a OR uc_exit_gates b, uc_invals := uc_invals a OR uc_invals b\<rparr>"

text \<open>The two half scans, each from empty accumulators, together collect what the full scan collects.\<close>

lemma collect_halves:
  assumes wf: "wf_tables st" and c: "c = update_ctx pid d TOP_EXEC t 0"
  shows "te_collect_updates st c =
    ctx_or c (bpf_loop (te_count st 1) (te_exec_update_simple_cb st) c) (bpf_loop (te_count st 1) (te_exec_update_prefix_cb st) c)"
proof -
  let ?us = "active_updates st" and ?simple = "\<lambda>u. up_match u = TAINT_MATCH_EXACT \<or> up_match u = TAINT_MATCH_ANY"
  have all: "te_collect_updates st c = fold te_update_accum (filter (exec_applies st c) ?us) c"
    unfolding te_collect_updates_def scan_any.scan_fold [OF wf]
    by (intro accum_fold_set) (auto simp: exec_applies_def c update_ctx_def)
  have zero: "uc_add c = 0" "uc_del c = 0" "uc_gates c = 0" "uc_exit_gates c = 0" "uc_invals c = 0"
    by (simp_all add: c update_ctx_def)
  note inj = bits_of_inject [symmetric]
  show ?thesis (is "?x = ?y")
    unfolding all scan_simple.scan_fold [OF wf] scan_prefix.scan_fold [OF wf]
  proof (rule te_update_ctx.equality, goal_cases)
    case 6 show ?case unfolding inj by (auto simp: ctx_or_def accum_bits zero)
  next
    case 7 show ?case unfolding inj by (auto simp: ctx_or_def accum_bits zero)
  next
    case 8 show ?case unfolding inj by (auto simp: ctx_or_def accum_bits zero)
  next
    case 9 show ?case unfolding inj by (auto simp: ctx_or_def accum_bits zero)
  next
    case 10 show ?case unfolding inj by (auto simp: ctx_or_def accum_bits zero)
  qed (simp_all add: ctx_or_def)
qed

text \<open>One collecting stage, cell by cell.\<close>

definition stage_ctx :: "bool \<Rightarrow> 'a engine_scheme \<Rightarrow> exec_scratch \<Rightarrow> exec_pipe_state \<Rightarrow> nat \<Rightarrow> te_update_ctx" where
  "stage_ctx pfx st x s i =
     (let c = update_ctx (xp_pid s) (xp_domain_ids s i) TOP_EXEC (xs_mem x) 0
      in if pfx then bpf_loop (te_count st 1) (te_exec_update_prefix_cb st) c
         else bpf_loop (te_count st 1) (te_exec_update_simple_cb st) c)"

lemma collect_stage:
  assumes "xp_n_domains s \<le> CAP_DOMAIN_DEPTH"
    and match: "\<forall>i < xp_n_domains s. cap_domain_matches_pid st (xp_pid s) (xp_domain_ids s i)"
  shows "exec_pipe_collect_updates pfx st x s =
    s\<lparr>xp_add := (\<lambda>i. if i < xp_n_domains s then xp_add s i OR uc_add (stage_ctx pfx st x s i) else xp_add s i),
      xp_del := (\<lambda>i. if i < xp_n_domains s then xp_del s i OR uc_del (stage_ctx pfx st x s i) else xp_del s i),
      xp_gates := (\<lambda>i. if i < xp_n_domains s then xp_gates s i OR uc_gates (stage_ctx pfx st x s i) else xp_gates s i),
      xp_exit_gates := (\<lambda>i. if i < xp_n_domains s then xp_exit_gates s i OR uc_exit_gates (stage_ctx pfx st x s i) else xp_exit_gates s i),
      xp_invals := (\<lambda>i. if i < xp_n_domains s then xp_invals s i OR uc_invals (stage_ctx pfx st x s i) else xp_invals s i)\<rparr>"
proof -
  let ?c = "stage_ctx pfx st x s"
  let ?f = "\<lambda>i t. t\<lparr>xp_add := (xp_add t)(i := xp_add t i OR uc_add (?c i)), xp_del := (xp_del t)(i := xp_del t i OR uc_del (?c i)),
     xp_gates := (xp_gates t)(i := xp_gates t i OR uc_gates (?c i)),
     xp_exit_gates := (xp_exit_gates t)(i := xp_exit_gates t i OR uc_exit_gates (?c i)),
     xp_invals := (xp_invals t)(i := xp_invals t i OR uc_invals (?c i))\<rparr>"
  have "exec_pipe_collect_updates pfx st x s = fold ?f [0..<xp_n_domains s] s"
    unfolding exec_pipe_collect_updates_def
    by (rule loop_on_bounded [where P = "\<lambda>t. xp_pid t = xp_pid s \<and> xp_n_domains t = xp_n_domains s \<and>
          xp_domain_ids t = xp_domain_ids s"])
      (auto simp: assms(1) match stage_ctx_def Let_def)
  also have "fold ?f [0..<n] s =
    s\<lparr>xp_add := (\<lambda>i. if i < n then xp_add s i OR uc_add (?c i) else xp_add s i),
      xp_del := (\<lambda>i. if i < n then xp_del s i OR uc_del (?c i) else xp_del s i),
      xp_gates := (\<lambda>i. if i < n then xp_gates s i OR uc_gates (?c i) else xp_gates s i),
      xp_exit_gates := (\<lambda>i. if i < n then xp_exit_gates s i OR uc_exit_gates (?c i) else xp_exit_gates s i),
      xp_invals := (\<lambda>i. if i < n then xp_invals s i OR uc_invals (?c i) else xp_invals s i)\<rparr>" for n
    by (induction n) (auto simp: fun_eq_iff intro!: exec_pipe_state.equality)
  finally show ?thesis .
qed


lemma exec_apply_policy: "cap_maps.truncate (te_exec_apply p comm d u st) = cap_maps.truncate st"
  by (simp add: te_exec_apply_def te_store_proc_domain_def Let_def case_prod_beta)

lemma exec_domain_argslots: "ts_argslots (te_exec_update_domain pid comm d st) = ts_argslots st"
  by (simp add: te_exec_update_domain_def te_exec_apply_def te_store_proc_domain_def Let_def case_prod_beta)

lemma exec_fold_frame:
  "cap_maps.truncate (fold (te_exec_update_domain pid comm) ds st) = cap_maps.truncate st"
  "ts_argslots (fold (te_exec_update_domain pid comm) ds st) = ts_argslots st"
  by (induction ds arbitrary: st) (simp_all add: exec_flow.body_policy exec_domain_argslots)

lemma pipe_updates:
  fixes st :: "'a engine_scheme" and pid mode x
  assumes wf: "wf_tables st" and act: "te_pid_active st pid"
  defines "s0 \<equiv> exec_pipe_init st pid mode"
  defines "s1 \<equiv> exec_pipe_collect_updates False st x s0"
  defines "s2 \<equiv> exec_pipe_collect_updates True st x s1"
  shows "exec_pipe_apply_updates x s2 st = te_exec_update pid (xs_mem x) st"
    and "xp_pid s2 = pid" and "xp_mode s2 = mode" and "xp_best_rule s2 = - 1" and "xp_best_index s2 = - 1"
    and "xp_best_effect s2 = 0"
proof -
  let ?ds = "te_domains st pid" and ?body = "te_exec_update_domain pid (xs_mem x)"
  let ?n = "length (te_domains st pid)"
  have n8: "?n \<le> CAP_DOMAIN_DEPTH" by (rule te_domains_length)
  have match: "cap_domain_matches_pid st pid (?ds ! i)" if "i < ?n" for i
    using that by (simp add: te_domains_match)
  have m0: "\<forall>i < xp_n_domains s0. cap_domain_matches_pid st (xp_pid s0) (xp_domain_ids s0 i)"
    using match by (simp add: s0_def pipe_init)
  have n0: "xp_n_domains s0 \<le> CAP_DOMAIN_DEPTH" using n8 by (simp add: s0_def pipe_init)
  note e1 = collect_stage [OF n0 m0, of False x, folded s1_def]
  have m1: "\<forall>i < xp_n_domains s1. cap_domain_matches_pid st (xp_pid s1) (xp_domain_ids s1 i)"
    using m0 by (simp add: e1)
  have n1: "xp_n_domains s1 \<le> CAP_DOMAIN_DEPTH" using n0 by (simp add: e1)
  note e2 = collect_stage [OF n1 m1, of True x, folded s2_def]
  show fields: "xp_pid s2 = pid" "xp_mode s2 = mode" "xp_best_rule s2 = - 1" "xp_best_index s2 = - 1" "xp_best_effect s2 = 0"
    by (simp_all add: e2 e1 s0_def pipe_init)
  have n2: "xp_n_domains s2 = ?n" by (simp add: e2 e1 s0_def pipe_init)
  have ids: "xp_domain_ids s2 i = ?ds ! i" if "i < ?n" for i
    using that by (simp add: e2 e1 s0_def pipe_init)
  have ctx: "pipe_ctx x s2 i = te_collect_updates st (update_ctx pid (?ds ! i) TOP_EXEC (xs_mem x) 0)" if i: "i < ?n" for i
    unfolding collect_halves [OF wf refl] using i
    by (simp add: pipe_ctx_def ids fields ctx_or_def)
      (simp add: e2 e1 stage_ctx_def s0_def pipe_init i)
  have run: "exec_pipe_apply_updates x s2 st =
      fold (\<lambda>i t. if \<not> te_pid_active t pid \<or> \<not> cap_domain_matches_pid t pid (?ds ! i) then t
                  else te_exec_apply pid (xs_mem x) (?ds ! i) (pipe_ctx x s2 i) t) [0..<?n] st" (is "_ = fold ?f _ _")
    unfolding exec_pipe_apply_updates_def
    by (rule loop_on_bounded [where P = "\<lambda>_. True"]) (auto simp: n8 n2 ids fields Let_def not_le)
  have "fold ?f [0..<k] st = fold ?body (take k ?ds) st" if "k \<le> ?n" for k
    using that
  proof (induction k)
    case (Suc k)
    let ?t = "fold ?body (take k ?ds) st"
    from Suc have "fold ?f [0..<Suc k] st = ?f k ?t" by simp
    also have "\<dots> = ?body (?ds ! k) ?t"
      using Suc.prems by (simp add: te_exec_update_domain_def ctx collect_cong [OF exec_fold_frame])
    finally show ?case using Suc.prems by (simp add: take_Suc_conv_app_nth)
  qed simp
  from this [of ?n] show "exec_pipe_apply_updates x s2 st = te_exec_update pid (xs_mem x) st"
    using act by (simp add: run te_exec_update_def exec_flow.domain_loop_fold)
qed


section \<open>The verdict of the pipeline\<close>

lemma sint_index: "j < MAX_TAINT_RULES \<Longrightarrow> sint (of_nat j :: s32) = int j"
proof -
  assume "j < MAX_TAINT_RULES"
  then have "unat (of_nat j :: s32) = j" by (intro unat_of_nat_u32) simp
  with \<open>j < MAX_TAINT_RULES\<close> have "uint (of_nat j :: s32) = int j" by (metis uint_nat)
  with \<open>j < MAX_TAINT_RULES\<close> show ?thesis by (simp add: sint_uint signed_take_bit_int_eq_self)
qed

text \<open>The pipeline's best match is rule \<open>j\<close>.\<close>

definition pipe_holds :: "'a engine_scheme \<Rightarrow> te_rule_eval \<Rightarrow> exec_pipe_state \<Rightarrow> nat \<Rightarrow> bool" where
  "pipe_holds st e s j \<longleftrightarrow>
     (let r = rule_at st j
      in xp_best_rule s = ru_rule_id r \<and> 0 \<le> sint (ru_rule_id r) \<and> xp_best_index s = of_nat j \<and>
         xp_best_effect s = ucast (ru_effect r) \<and> xp_best_domain_id s = ru_domain_id r \<and>
         xp_best_labels s = rule_labels st e r AND ru_req r)"

text \<open>What one rule scan returns: nothing, or the first of the strongest hits.\<close>

definition scan_result ::
  "'a engine_scheme \<Rightarrow> te_rule_eval \<Rightarrow> (nat \<Rightarrow> bool) \<Rightarrow> s32 \<times> te_rule_eval \<Rightarrow> nat option \<Rightarrow> bool" where
  "scan_result st e hit r v \<longleftrightarrow>
     (case v of
        None \<Rightarrow> fst r = - 1 \<and> (\<forall>i < n_rules st. \<not> hit i)
      | Some j \<Rightarrow>
          strongest_first (\<lambda>i. ru_effect (rule_at st i)) hit (n_rules st) j \<and> j < MAX_TAINT_RULES \<and>
          fst r = ru_rule_id (rule_at st j) \<and> 0 \<le> sint (ru_rule_id (rule_at st j)) \<and>
          ev_effect (snd r) = ucast (ru_effect (rule_at st j)) \<and> ev_matched_index (snd r) = of_nat j \<and>
          ev_matched_domain_id (snd r) = ru_domain_id (rule_at st j) \<and>
          ev_matched_labels (snd r) = rule_labels st e (rule_at st j) AND ru_req (rule_at st j))"

lemma rule_id_nonneg:
  assumes "rules_ok st" and "j < n_rules st"
  shows "0 \<le> sint (ru_rule_id (rule_at st j))"
proof -
  have "rule_at st j \<in> set (active_rules st)" using assms(2) by (auto simp: active_rules_def)
  with assms(1) show ?thesis by (auto simp: rules_ok_def intro: sint_nonneg)
qed

lemma exec_scans:
  assumes wf: "wf_tables st" and ok: "rules_ok st"
  shows "\<exists>v. scan_result st e (\<lambda>i. exec_hit st e i (rule_at st i) \<and> simple_rule (rule_at st i)) (te_check_exec_simple st e) v"
    and "\<exists>v. scan_result st e (\<lambda>i. exec_hit st e i (rule_at st i) \<and> \<not> simple_rule (rule_at st i)) (te_check_exec_complex st e) v"
    and "ev_op e = TOP_EXEC \<Longrightarrow> \<not> ev_include_file_labels e \<Longrightarrow>
      \<exists>v. scan_result st e (\<lambda>i. exec_hit st e i (rule_at st i)) (te_check_labels st e) v"
proof -
  have bound: "j < MAX_TAINT_RULES" if "j < n_rules st" for j
    using wf_te_count0 [OF wf] that by simp
  have res: "\<exists>v. scan_result st e h (ev_best_rule e', e') v"
    if "(\<forall>i < n_rules st. \<not> h i) \<and> ev_best_rule e' = - 1 \<and> e' = best_reset e \<or>
      (\<exists>j. strongest_first (\<lambda>i. ru_effect (rule_at st i)) h (n_rules st) j \<and>
        (let r = rule_at st j
         in ev_best_rule e' = ru_rule_id r \<and> ev_effect e' = ucast (ru_effect r) \<and> ev_matched_rule e' = ru_rule_id r \<and>
            ev_matched_index e' = of_nat j \<and> ev_matched_domain_id e' = ru_domain_id r \<and> ev_matched_req e' = ru_req r \<and>
            ev_matched_labels e' = rule_labels st e r AND ru_req r \<and> eval_inputs e' = eval_inputs e))" for h e'
    using that
  proof
    assume "(\<forall>i < n_rules st. \<not> h i) \<and> ev_best_rule e' = - 1 \<and> e' = best_reset e"
    then have "scan_result st e h (ev_best_rule e', e') None" by (simp add: scan_result_def best_reset_def)
    then show ?thesis ..
  next
    assume "\<exists>j. strongest_first (\<lambda>i. ru_effect (rule_at st i)) h (n_rules st) j \<and>
        (let r = rule_at st j
         in ev_best_rule e' = ru_rule_id r \<and> ev_effect e' = ucast (ru_effect r) \<and> ev_matched_rule e' = ru_rule_id r \<and>
            ev_matched_index e' = of_nat j \<and> ev_matched_domain_id e' = ru_domain_id r \<and> ev_matched_req e' = ru_req r \<and>
            ev_matched_labels e' = rule_labels st e r AND ru_req r \<and> eval_inputs e' = eval_inputs e)"
    then obtain j where sf: "strongest_first (\<lambda>i. ru_effect (rule_at st i)) h (n_rules st) j"
      and r: "let r = rule_at st j
         in ev_best_rule e' = ru_rule_id r \<and> ev_effect e' = ucast (ru_effect r) \<and> ev_matched_rule e' = ru_rule_id r \<and>
            ev_matched_index e' = of_nat j \<and> ev_matched_domain_id e' = ru_domain_id r \<and> ev_matched_req e' = ru_req r \<and>
            ev_matched_labels e' = rule_labels st e r AND ru_req r \<and> eval_inputs e' = eval_inputs e"
      by blast
    have "j < n_rules st" using sf by (simp add: strongest_first_def)
    with sf r have "scan_result st e h (ev_best_rule e', e') (Some j)"
      by (simp add: scan_result_def Let_def bound rule_id_nonneg [OF ok])
    then show ?thesis ..
  qed
  show "\<exists>v. scan_result st e (\<lambda>i. exec_hit st e i (rule_at st i) \<and> simple_rule (rule_at st i)) (te_check_exec_simple st e) v"
    unfolding te_check_exec_simple_def scan_cbs Let_def by (rule res) (rule scan_exec_simple.scan_best [OF wf ok])
  show "\<exists>v. scan_result st e (\<lambda>i. exec_hit st e i (rule_at st i) \<and> \<not> simple_rule (rule_at st i)) (te_check_exec_complex st e) v"
    unfolding te_check_exec_complex_def scan_cbs Let_def by (rule res) (rule scan_exec_complex.scan_best [OF wf ok])
  assume e: "ev_op e = TOP_EXEC" "\<not> ev_include_file_labels e"
  have seen: "seen_labels st e r = rule_labels st e r" for r
    using e(2) by (simp add: seen_labels_def rule_object_labels_def)
  have hit: "rule_hit st e i r = exec_hit st e i r" for i r
    using e(1) by (auto simp: rule_hit_def exec_hit_def seen target_matches_def)
  show "\<exists>v. scan_result st e (\<lambda>i. exec_hit st e i (rule_at st i)) (te_check_labels st e) v"
    unfolding te_check_labels_def te_check_labels_range_def scan_cbs Let_def
    by (rule res) (rule scan_rule.scan_best [OF wf ok, of e, unfolded hit seen])
qed


lemma merge_first:
  "scan_result st e h r (Some j) \<Longrightarrow> xp_best_rule s = - 1 \<Longrightarrow>
     pipe_holds st e (exec_pipe_merge_rule (snd r) (fst r) s) j"
  by (simp add: scan_result_def pipe_holds_def exec_pipe_merge_rule_def Let_def)

lemma merge_second:
  assumes "scan_result st e h r (Some k)" and "pipe_holds st e s j" and "j < MAX_TAINT_RULES"
  shows "pipe_holds st e (exec_pipe_merge_rule (snd r) (fst r) s)
    (if ru_effect (rule_at st j) < ru_effect (rule_at st k) \<or> ru_effect (rule_at st j) = ru_effect (rule_at st k) \<and> k < j
     then k else j)"
proof -
  have "k < MAX_TAINT_RULES" using assms(1) by (simp add: scan_result_def)
  moreover have "(ucast (a :: u8) :: u32) = ucast b \<longleftrightarrow> a = b" for a b
    by (metis antisym_conv ucast_effect_le order_refl)
  ultimately show ?thesis
    using assms by (auto simp: scan_result_def pipe_holds_def exec_pipe_merge_rule_def Let_def sint_index ucast_effect_less)
qed

lemma merge_none: "scan_result st e h r None \<Longrightarrow> exec_pipe_merge_rule (snd r) (fst r) s = s"
  by (simp add: scan_result_def exec_pipe_merge_rule_def)

lemma merge_frame [simp]:
  "xp_pid (exec_pipe_merge_rule e rid s) = xp_pid s" "xp_mode (exec_pipe_merge_rule e rid s) = xp_mode s"
  by (simp_all add: exec_pipe_merge_rule_def)

text \<open>The two rule scans together pick a strongest hit; only when a simple kill rule has hit may a kill
  rule of the other half come before the one picked.\<close>

lemma pipe_rules:
  fixes st :: "'a engine_scheme" and x s
  assumes wf: "wf_tables st" and ok: "rules_ok st" and init: "xp_best_rule s = - 1" "xp_best_effect s = 0"
  defines "s' \<equiv> exec_pipe_scan_rules True st x (exec_pipe_scan_rules False st x s)"
    and "e \<equiv> exec_eval st (xp_pid s) (xs_mem x) (xp_mode s)"
  defines "hit \<equiv> \<lambda>i. exec_hit st e i (rule_at st i)" and "ef \<equiv> \<lambda>i. ru_effect (rule_at st i)"
  shows "(\<forall>i < n_rules st. \<not> hit i) \<and> s' = s \<or>
    (\<exists>j. j < n_rules st \<and> hit j \<and> (\<forall>i < n_rules st. hit i \<longrightarrow> ef i \<le> ef j) \<and> pipe_holds st e s' j \<and>
       xp_pid s' = xp_pid s \<and> xp_mode s' = xp_mode s \<and>
       (strongest_first ef hit (n_rules st) j \<or>
        ef j = TEFFECT_KILL \<and> simple_rule (rule_at st j) \<and> (\<exists>k < n_rules st. hit k \<and> \<not> simple_rule (rule_at st k) \<and> ef k = TEFFECT_KILL)))"
proof -
  let ?n = "n_rules st" and ?sim = "\<lambda>i. simple_rule (rule_at st i)"
  have le2: "ef i \<le> 2" if "i < ?n" for i
    using ok that by (force simp: rules_ok_def active_rules_def ef_def)
  let ?r1 = "te_check_exec_simple st e" and ?r2 = "te_check_exec_complex st e"
  let ?s1 = "exec_pipe_merge_rule (snd ?r1) (fst ?r1) s"
  have s': "s' = (if xp_best_effect ?s1 = 2 then ?s1 else exec_pipe_merge_rule (snd ?r2) (fst ?r2) ?s1)"
    using init by (simp add: s'_def exec_pipe_scan_rules_def case_prod_beta Let_def e_def)
  from exec_scans(1) [OF wf ok] obtain v1 where v1: "scan_result st e (\<lambda>i. hit i \<and> ?sim i) ?r1 v1" unfolding hit_def by blast
  from exec_scans(2) [OF wf ok] obtain v2 where v2: "scan_result st e (\<lambda>i. hit i \<and> \<not> ?sim i) ?r2 v2" unfolding hit_def by blast
  have sf1: "strongest_first ef (\<lambda>i. hit i \<and> ?sim i) ?n j" "j < MAX_TAINT_RULES" if "v1 = Some j" for j
    using v1 that by (simp_all add: scan_result_def ef_def)
  have sf2: "strongest_first ef (\<lambda>i. hit i \<and> \<not> ?sim i) ?n j" if "v2 = Some j" for j
    using v2 that by (simp add: scan_result_def ef_def)
  have no1: "\<not> (hit i \<and> ?sim i)" if "v1 = None" "i < ?n" for i using v1 that by (simp add: scan_result_def)
  have no2: "\<not> (hit i \<and> \<not> ?sim i)" if "v2 = None" "i < ?n" for i using v2 that by (simp add: scan_result_def)
  have frame: "xp_pid s' = xp_pid s" "xp_mode s' = xp_mode s" by (simp_all add: s')
  note sf = strongest_first_def
  show ?thesis
  proof (cases v1)
    case n1: None
    have m1: "?s1 = s" using merge_none v1 n1 by blast
    show ?thesis
    proof (cases v2)
      case None
      then have "s' = s" using merge_none v2 m1 init by (simp add: s')
      with no1 [OF n1] no2 [OF None] show ?thesis by blast
    next
      case (Some j)
      then have p: "pipe_holds st e s' j" using merge_first [of st e _ ?r2 j s] v2 m1 init by (simp add: s')
      have f: "strongest_first ef hit ?n j" using sf2 [OF Some] no1 [OF n1] unfolding sf by blast
      then have "j < ?n \<and> hit j \<and> (\<forall>i < ?n. hit i \<longrightarrow> ef i \<le> ef j)" unfolding sf by fastforce
      with p f frame show ?thesis by blast
    qed
  next
    case (Some j)
    have p1: "pipe_holds st e ?s1 j" using merge_first v1 Some init(1) by blast
    then have eff: "xp_best_effect ?s1 = 2 \<longleftrightarrow> ef j = TEFFECT_KILL"
      by (simp add: pipe_holds_def Let_def ucast_effect_kill ef_def)
    have j: "j < ?n" "hit j" "?sim j" using sf1(1) [OF Some] by (simp_all add: sf)
    show ?thesis
    proof (cases "ef j = TEFFECT_KILL")
      case True
      then have p: "pipe_holds st e s' j" using p1 eff by (simp add: s')
      have top: "\<forall>i < ?n. hit i \<longrightarrow> ef i \<le> ef j" using le2 True by simp
      have "strongest_first ef hit ?n j \<or> (\<exists>k < ?n. hit k \<and> \<not> ?sim k \<and> ef k = TEFFECT_KILL)"
        using sf1(1) [OF Some] True le2 unfolding sf by (metis order_le_less)
      with p top j frame True show ?thesis by blast
    next
      case False
      then have s2: "s' = exec_pipe_merge_rule (snd ?r2) (fst ?r2) ?s1" using eff by (simp add: s')
      show ?thesis
      proof (cases v2)
        case None
        then have p: "pipe_holds st e s' j" using merge_none v2 p1 s2 by metis
        have f: "strongest_first ef hit ?n j" using sf1(1) [OF Some] no2 [OF None] unfolding sf by blast
        then have "j < ?n \<and> hit j \<and> (\<forall>i < ?n. hit i \<longrightarrow> ef i \<le> ef j)" unfolding sf by fastforce
        with p f frame show ?thesis by blast
      next
        case k: (Some k)
        let ?w = "if ef j < ef k \<or> ef j = ef k \<and> k < j then k else j"
        have p: "pipe_holds st e s' ?w"
          using merge_second [OF v2 [unfolded k] p1 sf1(2) [OF Some]] by (simp add: s2 ef_def)
        have f: "strongest_first ef hit ?n ?w"
          using sf1(1) [OF Some] sf2 [OF k] unfolding sf by (auto simp: not_less)
        then have "?w < ?n \<and> hit ?w \<and> (\<forall>i < ?n. hit i \<longrightarrow> ef i \<le> ef ?w)" unfolding sf by fastforce
        with p f frame show ?thesis by blast
      qed
    qed
  qed
qed


section \<open>Properties\<close>

lemma pipe_finish:
  assumes "pipe_holds st e s j"
  shows "exec_pipe_finish x s st =
    snd (act_on (xp_mode s) (ucast (ru_effect (rule_at st j)))
      (\<lambda>blocked killed. emit_violation (xp_pid s) (ru_rule_id (rule_at st j)) (Some (xs_display x)) 0 TE_OBJ_EXEC None
         (ru_domain_id (rule_at st j)) (rule_labels st e (rule_at st j) AND ru_req (rule_at st j)) TOP_EXEC blocked killed
         (ucast (ru_effect (rule_at st j)))) st)"
  using assms by (simp add: exec_pipe_finish_def pipe_holds_def act_on_def Let_def te_effect_mode_def)

lemma args_verdict:
  assumes "scan_result st e h r (Some j)"
  shows "exec_verdict pid t (Some d) mode r st =
    (case act_on mode (ucast (ru_effect (rule_at st j)))
      (\<lambda>blocked killed. emit_violation pid (ru_rule_id (rule_at st j)) (Some d) 0 TE_OBJ_EXEC None
         (ru_domain_id (rule_at st j)) (rule_labels st e (rule_at st j) AND ru_req (rule_at st j)) TOP_EXEC blocked killed
         (ucast (ru_effect (rule_at st j)))) st of (rc, st) \<Rightarrow> (case rc of Some r \<Rightarrow> r | None \<Rightarrow> 0, st))"
  using assms by (cases r) (simp add: exec_verdict_def scan_result_def)

lemma exec_verdict_none: "scan_result st e h r None \<Longrightarrow> exec_verdict pid t d mode r st = (0, st)"
  by (cases r) (simp add: exec_verdict_def scan_result_def)

lemma rules_ok_cong:
  assumes "cap_maps.truncate s = cap_maps.truncate t"
  shows "rules_ok s = rules_ok t" "n_rules s = n_rules t" "rule_at s = rule_at t"
  by (simp_all add: rules_ok_def n_rules_def domain_cong [OF assms] policy_cong [OF assms])

lemma exec_hit_effect:
  "exec_hit st (exec_eval st pid t te_tracepoint_mode) i r \<Longrightarrow> ru_effect r = TEFFECT_NOTIFY \<or> ru_effect r = TEFFECT_KILL"
  using wanted_tracepoint [of "exec_eval st pid t te_tracepoint_mode" r] by (simp add: exec_hit_def exec_eval_def)

text \<open>The report and the signal for rule \<open>j\<close>, on which the pipeline and the single scan agree.\<close>

definition exec_report :: "pid_t \<Rightarrow> exec_scratch \<Rightarrow> te_rule_eval \<Rightarrow> 'a sensor_scheme \<Rightarrow> nat \<Rightarrow> 'a sensor_scheme" where
  "exec_report pid x e st j =
     snd (act_on te_tracepoint_mode (ucast (ru_effect (rule_at st j)))
       (\<lambda>blocked killed. emit_violation pid (ru_rule_id (rule_at st j)) (Some (xs_display x)) 0 TE_OBJ_EXEC None
          (ru_domain_id (rule_at st j)) (rule_labels st e (rule_at st j) AND ru_req (rule_at st j)) TOP_EXEC blocked killed
          (ucast (ru_effect (rule_at st j)))) st)"

lemma exec_report_signals:
  assumes "exec_hit st (exec_eval st pid t te_tracepoint_mode) j (rule_at st j)"
  shows "signals (exec_report pid x e st j) =
    signals st @ (if ru_effect (rule_at st j) = TEFFECT_KILL then [(cur_pid st, SIGKILL)] else [])"
  unfolding exec_report_def act_on_tracepoint [OF exec_hit_effect [OF assms]] by (simp add: bpf_send_signal_def)

lemma verdict_report:
  assumes "scan_result st e h r (Some j)" and "exec_hit st (exec_eval st pid t te_tracepoint_mode) j (rule_at st j)"
  shows "exec_verdict pid t (Some (xs_display x)) te_tracepoint_mode r st = (0, exec_report pid x e st j)"
  unfolding args_verdict [OF assms(1)] exec_report_def act_on_tracepoint [OF exec_hit_effect [OF assms(2)]] by simp

text \<open>Where the pipeline ends: in the state the updates leave, if no rule matches, and otherwise in the report of a strongest
  one.\<close>

lemma pipe_outcome:
  fixes st :: "'a sensor_scheme"
  assumes act: "te_pid_active st pid" and wf: "wf_tables st" and ok: "wf_tables st1" "rules_ok st1"
    and st1: "st1 = te_exec_update pid (xs_mem x) st" and e: "e = exec_eval st1 pid (xs_mem x) te_tracepoint_mode"
  defines "hit \<equiv> \<lambda>i. exec_hit st1 e i (rule_at st1 i)" and "ef \<equiv> \<lambda>i. ru_effect (rule_at st1 i)"
    and "st' \<equiv> exec_tp_update_simple (\<lambda>_. True) x (exec_pipe_init st pid te_tracepoint_mode) st"
  shows "(\<forall>i < n_rules st1. \<not> hit i) \<and> st' = st1 \<or>
    (\<exists>j. j < n_rules st1 \<and> hit j \<and> (\<forall>i < n_rules st1. hit i \<longrightarrow> ef i \<le> ef j) \<and> st' = exec_report pid x e st1 j \<and>
       (strongest_first ef hit (n_rules st1) j \<or>
        ef j = TEFFECT_KILL \<and> simple_rule (rule_at st1 j) \<and>
        (\<exists>k < n_rules st1. hit k \<and> \<not> simple_rule (rule_at st1 k) \<and> ef k = TEFFECT_KILL)))"
proof -
  let ?m = te_tracepoint_mode
  let ?s = "exec_pipe_collect_updates True st x (exec_pipe_collect_updates False st x (exec_pipe_init st pid ?m))"
  let ?s' = "exec_pipe_scan_rules True st1 x (exec_pipe_scan_rules False st1 x ?s)"
  note pu = pipe_updates [OF wf act, of x ?m]
  note pr = pipe_rules [OF ok pu(4,6), of x, unfolded pu(2,3), folded e]
  have run: "st' = exec_pipe_finish x ?s' st1"
    by (simp add: st'_def exec_tp_update_simple_def exec_tp_update_prefix_def exec_tp_rule_simple_def
        exec_tp_rule_complex_def pu Let_def st1)
  have idle: "exec_pipe_finish x ?s st1 = st1" using pu by (simp add: exec_pipe_finish_def)
  have report: "exec_pipe_finish x ?s' st1 = exec_report pid x e st1 j"
    if "pipe_holds st1 e ?s' j" "xp_pid ?s' = pid" "xp_mode ?s' = ?m" for j
    unfolding pipe_finish [OF that(1)] exec_report_def that(2,3) ..
  from pr show ?thesis
    unfolding hit_def ef_def run
  proof (rule disj_forward)
    assume "(\<forall>i < n_rules st1. \<not> exec_hit st1 e i (rule_at st1 i)) \<and> ?s' = ?s"
    then show "(\<forall>i < n_rules st1. \<not> exec_hit st1 e i (rule_at st1 i)) \<and> exec_pipe_finish x ?s' st1 = st1"
      using idle by simp
  qed (elim ex_forward, use report in blast)
qed

text \<open>C11: the exec pipeline does what one scan of each table does. With its four programs loaded, the pipeline
  changes the engine exactly as \<^verbatim>\<open>te_exec_update\<close> does, and then reports and signals exactly as
  \<^verbatim>\<open>te_handle_exec_event_with_args\<close> does on the resulting state, unless the split evaluation finds kill rules
  in both halves: then the rule reported may be another kill rule, and the signal is the same.\<close>

theorem exec_pipeline_equiv:
  assumes "te_pid_active st pid" and "wf_tables st" and "rules_ok st"
  shows "let st1 = te_exec_update pid (xs_mem x) st;
      ref = te_handle_exec_event_with_args pid (Some (xs_mem x)) (Some (xs_display x)) te_tracepoint_mode st1;
      st' = exec_tp_update_simple (\<lambda>_. True) x (exec_pipe_init st pid te_tracepoint_mode) st;
      both = (\<exists>j k. exec_hit st1 (exec_eval st1 pid (xs_mem x) te_tracepoint_mode) j (rule_at st1 j) \<and> j < n_rules st \<and>
        simple_rule (rule_at st1 j) \<and> ru_effect (rule_at st1 j) = TEFFECT_KILL \<and>
        exec_hit st1 (exec_eval st1 pid (xs_mem x) te_tracepoint_mode) k (rule_at st1 k) \<and> k < n_rules st \<and>
        \<not> simple_rule (rule_at st1 k) \<and> ru_effect (rule_at st1 k) = TEFFECT_KILL)
    in (\<not> both \<longrightarrow> st' = snd ref) \<and> signals st' = signals (snd ref) \<and> fst ref = 0"
proof -
  let ?m = te_tracepoint_mode and ?mem = "xs_mem x"
  define st1 where "st1 = te_exec_update pid ?mem st"
  define e where "e = exec_eval st1 pid ?mem ?m"
  let ?hit = "\<lambda>i. exec_hit st1 e i (rule_at st1 i)" and ?ef = "\<lambda>i. ru_effect (rule_at st1 i)"
  have pol: "cap_maps.truncate st1 = cap_maps.truncate st"
    using exec_flow.policy [of pid ?mem st] by (simp add: st1_def te_exec_update_def)
  have ok: "te_pid_active st1 pid" "wf_tables st1" "rules_ok st1" "n_rules st1 = n_rules st"
    using assms by (simp_all add: domain_cong [OF pol] rules_ok_cong [OF pol])
  have ref: "te_handle_exec_event_with_args pid (Some ?mem) (Some (xs_display x)) ?m st1 =
      exec_verdict pid ?mem (Some (xs_display x)) ?m (te_check_labels st1 e) st1"
    using ok(1) by (simp add: te_handle_exec_event_with_args_def e_def te_tracepoint_mode_def)
  obtain v where v: "scan_result st1 e ?hit (te_check_labels st1 e) v"
    using exec_scans(3) [OF ok(2,3), of e] by (auto simp: e_def exec_eval_def eval_zero_def)
  note out = pipe_outcome [OF assms(1,2) ok(2,3) st1_def e_def]
  show ?thesis
  proof (cases v)
    case None
    then show ?thesis
      using out v exec_verdict_none [OF v [unfolded None]]
      by (auto simp: Let_def st1_def [symmetric] ref scan_result_def)
  next
    case (Some k)
    then have k: "strongest_first ?ef ?hit (n_rules st1) k" using v by (simp add: scan_result_def)
    then have hk: "?hit k" "k < n_rules st1" by (simp_all add: strongest_first_def)
    note r = ref [unfolded verdict_report [OF v [unfolded Some] hk(1) [unfolded e_def]]]
    from out hk obtain j where j: "j < n_rules st1" "?hit j" "\<forall>i < n_rules st1. ?hit i \<longrightarrow> ?ef i \<le> ?ef j"
      "exec_tp_update_simple (\<lambda>_. True) x (exec_pipe_init st pid ?m) st = exec_report pid x e st1 j"
      "strongest_first ?ef ?hit (n_rules st1) j \<or> ?ef j = TEFFECT_KILL \<and> simple_rule (rule_at st1 j) \<and>
         (\<exists>k < n_rules st1. ?hit k \<and> \<not> simple_rule (rule_at st1 k) \<and> ?ef k = TEFFECT_KILL)"
      by blast
    have "?ef j = ?ef k"
      using j(1-3) k hk by (intro order_antisym) (auto simp: strongest_first_def intro: less_imp_le)
    then have "signals (exec_report pid x e st1 j) = signals (exec_report pid x e st1 k)"
      using exec_report_signals [OF j(2) [unfolded e_def]] exec_report_signals [OF hk(1) [unfolded e_def]] by simp
    moreover have "j = k" if "strongest_first ?ef ?hit (n_rules st1) j" using strongest_first_unique [OF that k] .
    ultimately show ?thesis
      using j(1,2,5) ok(4) unfolding Let_def st1_def [symmetric] r j(4) e_def [symmetric] by auto
  qed
qed

theorem exec_pipeline_equiv_witness:
  "let x = exec_scratch_of \<lparr>xe_filename = str_bytes ''/usr/bin/git'', xe_args = None, xe_user = (\<lambda>_ _. None)\<rparr> (str_bytes ''git'');
       st1 = te_exec_update 100 (xs_mem x) guard_sensor
   in signals (exec_tp_update_simple (\<lambda>_. True) x (exec_pipe_init guard_sensor 100 te_tracepoint_mode) guard_sensor) =
      signals (snd (te_handle_exec_event_with_args 100 (Some (xs_mem x)) (Some (xs_display x)) te_tracepoint_mode st1))"
  using exec_pipeline_equiv [OF guard_active guard_wf guard_rules(2)] by (simp add: Let_def)

end
