(* ===== verification/Resolve.thy ===== *)
theory Resolve
  imports Exec_Pipe
begin

text \<open>
  From kernel objects to names and identities (\<^verbatim>\<open>bpf/process.bpf.c\<close>): the path and the
  \<^verbatim>\<open>file_id\<close> of a file a hook is given, the path of a directory entry, and the address in a
  socket address. The kernel objects are what the program may read of them through
  \<^verbatim>\<open>BPF_CORE_READ\<close>; user memory is a function from addresses to bytes, undefined where a read
  faults. Numbers in user memory are little-endian, as on every architecture the program is built for.
\<close>

section \<open>Kernel objects\<close>

type_synonym u16 = "16 word"

record inode =
  in_ino :: u64
  in_dev :: u32
  in_mode :: u16

text \<open>The name of a dentry is \<open>None\<close> when its pointer is NULL or the read of it faults.\<close>

record dentry =
  de_name :: "bytes option"
  de_inode :: "inode option"

text \<open>\<^verbatim>\<open>bpf_d_path\<close> writes the path from the front of the 127-byte buffer; what it leaves behind the NUL
  is its own affair, so the helper's outcome is the returned length and the whole buffer.\<close>

record kpath =
  pa_d_path :: "int \<times> bytes"
  pa_dentry :: dentry

record kfile =
  ff_path :: kpath
  ff_inode :: "inode option"
  ff_flags :: u32

record linux_binprm =
  bp_file :: kfile
  bp_filename :: "bytes option"

datatype file_ref =
    TE_REF_FILE kfile
  | TE_REF_PATH kpath
  | TE_REF_PATH_DENTRY kpath dentry
  | TE_REF_USER_PATH u64

datatype net_ref =
    TE_REF_SOCKADDR_KERN "bytes option"
  | TE_REF_SOCKADDR_USER u64
  | TE_REF_SOCKET "(u16 \<times> u32) option"

section \<open>User memory\<close>

type_synonym umem = "u64 \<Rightarrow> u8 option"

text \<open>\<^verbatim>\<open>bpf_probe_read_user\<close>: all the bytes, or a fault.\<close>

fun user_read :: "umem \<Rightarrow> u64 \<Rightarrow> nat \<Rightarrow> bytes option" where
  "user_read um a 0 = Some []"
| "user_read um a (Suc n) =
     (case um a of None \<Rightarrow> None
      | Some b \<Rightarrow> map_option (\<lambda>bs. b # bs) (user_read um (a + 1) n))"

text \<open>\<^verbatim>\<open>bpf_probe_read_user_str\<close> of at most \<open>n\<close> bytes and a NUL: the bytes before the NUL or the cut.\<close>

fun user_str :: "umem \<Rightarrow> u64 \<Rightarrow> nat \<Rightarrow> bytes option" where
  "user_str um a 0 = Some []"
| "user_str um a (Suc n) =
     (case um a of None \<Rightarrow> None
      | Some b \<Rightarrow> if b = 0 then Some [] else map_option (\<lambda>bs. b # bs) (user_str um (a + 1) n))"

definition le :: "bytes \<Rightarrow> 'a::len word" where
  "le bs = foldr (\<lambda>b w. push_bit 8 w OR ucast b) bs 0"

definition user_word :: "umem \<Rightarrow> u64 \<Rightarrow> nat \<Rightarrow> 'a::len word option" where
  "user_word um a n = map_option le (user_read um a n)"

text \<open>A string written at the front of a zeroed path buffer.\<close>

abbreviation (input) PATH_BUF :: bytes where "PATH_BUF \<equiv> replicate MAX_FILENAME_LEN 0"

section \<open>Paths\<close>

definition file_basename :: "kfile \<Rightarrow> bytes option" where
  "file_basename file = map_option (read_str PATH_BUF) (de_name (pa_dentry (ff_path file)))"

definition file_path :: "kfile \<Rightarrow> bytes option" where
  "file_path file =
     (let (n, buf) = pa_d_path (ff_path file)
      in if n > 0 then Some buf
         else map_option (read_str buf) (de_name (pa_dentry (ff_path file))))"

definition path_to_str :: "kpath \<Rightarrow> int \<times> bytes" where
  "path_to_str src = (let (n, buf) = pa_d_path src in (if n > 0 then n else - 1, buf))"

text \<open>A name copied into the buffer at an offset, at most \<open>w\<close> bytes with its NUL.\<close>

definition put_str :: "bytes \<Rightarrow> nat \<Rightarrow> nat \<Rightarrow> bytes \<Rightarrow> bytes" where
  "put_str path dst_off w name =
     (let t = take (w - 1) (cstr name) @ [0] in take dst_off path @ t @ drop (dst_off + length t) path)"

definition copy_dentry_name_at :: "bytes \<Rightarrow> u32 \<Rightarrow> bytes \<Rightarrow> bytes option" where
  "copy_dentry_name_at path dst_off name =
     (if dst_off \<le> 63 then Some (put_str path (unat dst_off) 64 name)
      else if dst_off \<le> 95 then Some (put_str path (unat dst_off) 32 name)
      else if dst_off \<le> 111 then Some (put_str path (unat dst_off) 16 name)
      else if dst_off \<le> 119 then Some (put_str path (unat dst_off) 8 name)
      else if dst_off \<le> 123 then Some (put_str path (unat dst_off) 4 name)
      else if dst_off \<le> 125 then Some (put_str path (unat dst_off) 2 name)
      else None)"

definition append_dentry_name :: "bytes \<Rightarrow> dentry \<Rightarrow> int \<Rightarrow> bytes option" where
  "append_dentry_name path dentry path_len =
     (case de_name dentry of
        None \<Rightarrow> None
      | Some name \<Rightarrow>
          if path_len \<le> 1 \<or> path_len > int MAX_FILENAME_LEN then None
          else
            let off = (of_int path_len :: u32) - 1
            in if off \<ge> of_nat (MAX_FILENAME_LEN - 1) then None
               else
                 let prev = off - 1
                 in if prev \<ge> of_nat MAX_FILENAME_LEN then None
                    else
                      let dst_off = off AND 0x7f;
                          no_slash = rd path (unat prev) \<noteq> 0x2f
                      in if no_slash \<and> dst_off \<ge> of_nat (MAX_FILENAME_LEN - 1) then None
                         else
                           let path = (if no_slash then path[unat dst_off := 0x2f] else path);
                               off = (if no_slash then dst_off + 1 else off);
                               dst_off = off AND 0x7f
                           in if dst_off \<ge> of_nat MAX_FILENAME_LEN then None
                              else map_option (\<lambda>path. path[MAX_FILENAME_LEN - 1 := 0])
                                     (copy_dentry_name_at path dst_off name))"

definition path_dentry_to_str :: "kpath \<Rightarrow> dentry \<Rightarrow> bytes option" where
  "path_dentry_to_str dir dentry =
     (let (n, path) = path_to_str dir in if n < 0 then None else append_dentry_name path dentry n)"

definition bprm_basename :: "linux_binprm \<Rightarrow> bytes \<Rightarrow> bytes option" where
  "bprm_basename bprm base =
     map_option (read_str base) (de_name (pa_dentry (ff_path (bp_file bprm))))"

definition bprm_filename :: "linux_binprm \<Rightarrow> bytes \<Rightarrow> bytes option" where
  "bprm_filename bprm path = map_option (read_str path) (bp_filename bprm)"

definition user_path :: "umem \<Rightarrow> u64 \<Rightarrow> bytes option" where
  "user_path um a = map_option (padded MAX_FILENAME_LEN) (user_str um a (MAX_FILENAME_LEN - 1))"

definition te_resolve_file_ref :: "umem \<Rightarrow> file_ref \<Rightarrow> bytes option" where
  "te_resolve_file_ref um ref =
     (case ref of
        TE_REF_FILE file \<Rightarrow> file_path file
      | TE_REF_PATH path \<Rightarrow> (let (n, buf) = path_to_str path in if n < 0 then None else Some buf)
      | TE_REF_PATH_DENTRY dir dentry \<Rightarrow> path_dentry_to_str dir dentry
      | TE_REF_USER_PATH a \<Rightarrow> user_path um a)"

section \<open>Identities\<close>

definition ref_inode :: "file_ref \<Rightarrow> inode option" where
  "ref_inode ref =
     (case ref of
        TE_REF_FILE file \<Rightarrow> ff_inode file
      | TE_REF_PATH path \<Rightarrow> de_inode (pa_dentry path)
      | TE_REF_PATH_DENTRY dir dentry \<Rightarrow> de_inode dentry
      | TE_REF_USER_PATH a \<Rightarrow> None)"

definition te_resolve_file_id :: "file_ref \<Rightarrow> bytes \<Rightarrow> file_id" where
  "te_resolve_file_id ref path =
     (let fid = (case ref_inode ref of
                   None \<Rightarrow> \<lparr>fi_ino = 0, fi_dev = 0, fi_pad = 0\<rparr>
                 | Some i \<Rightarrow> \<lparr>fi_ino = in_ino i, fi_dev = in_dev i, fi_pad = 0\<rparr>)
      in if fi_ino fid = 0 then fid\<lparr>fi_ino := te_fnv1a path\<rparr> else fid)"

definition te_is_regular_or_dir :: "file_ref \<Rightarrow> bool" where
  "te_is_regular_or_dir ref =
     (case ref_inode ref of
        None \<Rightarrow> True
      | Some i \<Rightarrow> in_mode i AND 0xF000 = 0x8000 \<or> in_mode i AND 0xF000 = 0x4000)"

section \<open>Socket addresses\<close>

definition te_resolve_sockaddr :: "umem \<Rightarrow> net_ref \<Rightarrow> u32 option" where
  "te_resolve_sockaddr um ref =
     (let sa = (case ref of
                  TE_REF_SOCKADDR_USER a \<Rightarrow>
                    (case user_word um a 2 of
                       None \<Rightarrow> None
                     | Some family \<Rightarrow> if (family :: u16) \<noteq> 2 then None else user_read um a 16)
                | TE_REF_SOCKADDR_KERN k \<Rightarrow>
                    (case k of None \<Rightarrow> None | Some b \<Rightarrow> if (le (take 2 b) :: u16) \<noteq> 2 then None else Some b)
                | TE_REF_SOCKET s \<Rightarrow> None)
      in map_option (\<lambda>sa. le (take 4 (drop 4 sa))) sa)"

definition te_resolve_socket_peer_ipv4 :: "(u16 \<times> u32) option \<Rightarrow> u32 option" where
  "te_resolve_socket_peer_ipv4 sk =
     (case sk of None \<Rightarrow> None
      | Some (family, daddr) \<Rightarrow> if family \<noteq> 2 then None else if daddr = 0 then None else Some daddr)"

definition te_fnv1a_user_bytes :: "umem \<Rightarrow> u64 \<Rightarrow> nat \<Rightarrow> u64" where
  "te_fnv1a_user_bytes um ptr len =
     loop_on [0..<108]
       (\<lambda>i h. if len \<le> i then (True, h)
              else case um (ptr + of_nat i) of
                     None \<Rightarrow> (True, h)
                   | Some c \<Rightarrow> (False, (h XOR ucast c) * 0x100000001b3))
       ((0xcbf29ce484222325 XOR of_nat len) * 0x100000001b3)"

definition te_resolve_unix_sockaddr_path :: "umem \<Rightarrow> u64 \<Rightarrow> s32 \<Rightarrow> (bytes \<times> file_id) option" where
  "te_resolve_unix_sockaddr_path um addr addrlen =
     (let name_len = addrlen - 2
      in case user_word um addr 2 of
           None \<Rightarrow> None
         | Some family \<Rightarrow>
             if (family :: u16) \<noteq> 1 then None
             else if sint name_len \<le> 0 then None
             else
               let name_len = (if sint name_len > 108 then 108 else unat name_len)
               in case um (addr + 2) of
                    None \<Rightarrow> None
                  | Some first \<Rightarrow>
                      if first = 0 then
                        let h = te_fnv1a_user_bytes um (addr + 2) name_len
                        in Some (padded MAX_FILENAME_LEN (str_bytes ''unix:@abstract''),
                                 \<lparr>fi_ino = (if h = 0 then 1 else h), fi_dev = 0, fi_pad = 0\<rparr>)
                      else case user_str um (addr + 2) (MAX_FILENAME_LEN - 6) of
                             None \<Rightarrow> None
                           | Some s \<Rightarrow>
                               if s = [] then None
                               else let path = padded MAX_FILENAME_LEN (str_bytes ''unix:'' @ s)
                                    in Some (path, \<lparr>fi_ino = te_fnv1a path, fi_dev = 0, fi_pad = 0\<rparr>))"

section \<open>The path of a directory entry\<close>

text \<open>How many bytes of the entry's name fit behind a directory path of a given length.\<close>

definition name_window :: "nat \<Rightarrow> nat" where
  "name_window off =
     (if off \<le> 63 then 63 else if off \<le> 95 then 31 else if off \<le> 111 then 15
      else if off \<le> 119 then 7 else if off \<le> 123 then 3 else 1)"

text \<open>A directory path with its slash.\<close>

definition dir_prefix :: "bytes \<Rightarrow> bytes" where
  "dir_prefix d = (if last d = 0x2f then d else d @ [0x2f])"

lemma cstr_cut: "i < length b \<Longrightarrow> cstr (b[i := 0]) = take i (cstr b)"
  by (induction b arbitrary: i) (auto simp: cstr_def split: nat.splits)

lemma cstr_join: "\<forall>c \<in> set a. c \<noteq> 0 \<Longrightarrow> cstr (a @ 0 # r) = a"
  unfolding cstr_def by (subst takeWhile_append2) auto

lemma put_str_shape:
  assumes "off + w \<le> length path" "0 < w" "\<forall>c \<in> set (take off path). c \<noteq> 0"
  shows "length (put_str path off w name) = length path"
    "cstr (put_str path off w name) = take off path @ take (w - 1) (cstr name)"
proof -
  let ?t = "take (w - 1) (cstr name)"
  have len: "length ?t \<le> w - 1" by simp
  show "length (put_str path off w name) = length path"
    using assms(1,2) len by (simp add: put_str_def Let_def min_def)
  have "\<forall>c \<in> set (take off path @ ?t). c \<noteq> 0"
    using assms(3) cstr_no_nul [of _ name] by (auto dest: in_set_takeD)
  from cstr_join [OF this] show "cstr (put_str path off w name) = take off path @ ?t"
    by (simp add: put_str_def Let_def)
qed

lemma copy_dentry_name_at_eq:
  "dst_off \<le> 125 \<Longrightarrow>
    copy_dentry_name_at path dst_off name =
      Some (put_str path (unat dst_off) (Suc (name_window (unat dst_off))) name)"
  "\<not> dst_off \<le> 125 \<Longrightarrow> copy_dentry_name_at path dst_off name = None"
  by (simp_all add: copy_dentry_name_at_def name_window_def word_le_nat_alt flip: numeral_2_eq_2)

lemma name_window_bound: "off \<le> 125 \<Longrightarrow> off + Suc (name_window off) \<le> MAX_FILENAME_LEN"
  by (simp add: name_window_def)

text \<open>A name copied behind a directory path that is in the buffer.\<close>

lemma copy_behind:
  assumes "length path = MAX_FILENAME_LEN" "take (length d) path = d" "\<forall>c \<in> set d. c \<noteq> 0" "length d < 128"
  shows "map_option (\<lambda>p. p[MAX_FILENAME_LEN - 1 := 0]) (copy_dentry_name_at path (of_nat (length d)) name) =
           (if length d \<le> 125
            then Some ((put_str path (length d) (Suc (name_window (length d))) name)[MAX_FILENAME_LEN - 1 := 0])
            else None)"
    and "length d \<le> 125 \<Longrightarrow>
      length (put_str path (length d) (Suc (name_window (length d))) name) = MAX_FILENAME_LEN \<and>
      cstr ((put_str path (length d) (Suc (name_window (length d))) name)[MAX_FILENAME_LEN - 1 := 0]) =
        d @ take (name_window (length d)) (cstr name)"
proof -
  have u: "unat (of_nat (length d) :: u32) = length d"
    using assms(4) by (simp add: unat_of_nat take_bit_nat_eq_self)
  then show "map_option (\<lambda>p. p[MAX_FILENAME_LEN - 1 := 0]) (copy_dentry_name_at path (of_nat (length d)) name) =
           (if length d \<le> 125
            then Some ((put_str path (length d) (Suc (name_window (length d))) name)[MAX_FILENAME_LEN - 1 := 0])
            else None)"
    by (auto simp: copy_dentry_name_at_eq word_le_nat_alt)
  assume le: "length d \<le> 125"
  note b = name_window_bound [OF le]
  note shape = put_str_shape [of "length d" "Suc (name_window (length d))" path name]
  have l: "length (put_str path (length d) (Suc (name_window (length d))) name) = MAX_FILENAME_LEN"
    using shape(1) assms(1-3) b by simp
  have c: "cstr (put_str path (length d) (Suc (name_window (length d))) name) =
      d @ take (name_window (length d)) (cstr name)"
    using shape(2) assms(1-3) b by simp
  show "length (put_str path (length d) (Suc (name_window (length d))) name) = MAX_FILENAME_LEN \<and>
      cstr ((put_str path (length d) (Suc (name_window (length d))) name)[MAX_FILENAME_LEN - 1 := 0]) =
        d @ take (name_window (length d)) (cstr name)"
    using b l by (subst cstr_cut) (auto simp: c)
qed


lemma small_word:
  assumes "k < 128"
  shows "unat (of_nat k :: u32) = k" "(of_nat k :: u32) AND 0x7f = of_nat k"
proof -
  show "unat (of_nat k :: u32) = k"
    using assms by (simp add: unat_of_nat take_bit_nat_eq_self)
  have "(0x7f :: u32) = mask 7"
    by (simp add: mask_eq_exp_minus_1)
  then show "(of_nat k :: u32) AND 0x7f = of_nat k"
    using assms by (simp only: flip: take_bit_eq_mask) (simp add: take_bit_of_nat take_bit_nat_eq_self)
qed

text \<open>What the appending does on the buffer \<^verbatim>\<open>bpf_d_path\<close> leaves.\<close>

lemma append_dentry_name_eq:
  assumes len: "length buf = MAX_FILENAME_LEN" and n: "n = int (length (cstr buf)) + 1"
    and d: "cstr buf \<noteq> []" "length (cstr buf) \<le> MAX_FILENAME_LEN - 1" and name: "de_name dentry = Some name"
  defines "path \<equiv> (if last (cstr buf) = 0x2f then buf else buf[length (cstr buf) := 0x2f])"
  shows "append_dentry_name buf dentry n =
    (if length (dir_prefix (cstr buf)) \<le> 125
     then Some ((put_str path (length (dir_prefix (cstr buf))) (Suc (name_window (length (dir_prefix (cstr buf))))) name)
                 [MAX_FILENAME_LEN - 1 := 0])
     else None)"
    and "length path = MAX_FILENAME_LEN"
    and "take (length (dir_prefix (cstr buf))) path = dir_prefix (cstr buf) \<or> 126 \<le> length (cstr buf)"
proof -
  let ?k = "length (cstr buf)"
  have k: "0 < ?k" "?k < 127" using d by simp_all
  have off: "of_int n - 1 = (of_nat ?k :: u32)" by (simp add: n)
  have prev: "(of_nat ?k :: u32) - 1 = of_nat (?k - 1)" using k by (cases ?k) simp_all
  note u = small_word [of ?k] small_word [of "?k - 1"] small_word [of "Suc ?k"]
  have small: "\<not> 127 \<le> ?k - 1" using k by simp
  have u': "((of_nat ?k + 1) AND 0x7f :: u32) = 1 + of_nat ?k" "unat (1 + of_nat ?k :: u32) = Suc ?k"
    using u(5,6) k by (simp_all add: add.commute)
  have last: "rd buf (?k - 1) = last (cstr buf)"
    using k rd_cstr [of "?k - 1" buf] d by (simp add: last_conv_nth)
  show p: "length path = MAX_FILENAME_LEN" by (simp add: path_def len)
  show t: "take (length (dir_prefix (cstr buf))) path = dir_prefix (cstr buf) \<or> 126 \<le> length (cstr buf)"
    using k cstr_eq_take [of buf]
    by (auto simp: path_def dir_prefix_def len take_Suc_conv_app_nth simp flip: cstr_eq_take)
  have nz: "\<forall>c \<in> set (dir_prefix (cstr buf)). c \<noteq> 0"
    by (auto simp: dir_prefix_def dest: cstr_no_nul)
  have "append_dentry_name buf dentry n =
      (if 126 \<le> ?k then None
       else map_option (\<lambda>p. p[MAX_FILENAME_LEN - 1 := 0])
              (copy_dentry_name_at path (of_nat (length (dir_prefix (cstr buf)))) name))"
    using k u(1-4) unfolding append_dentry_name_def name option.case Let_def off prev
    by (simp add: n word_le_nat_alt last u' small path_def dir_prefix_def del: One_nat_def)
  then show "append_dentry_name buf dentry n =
    (if length (dir_prefix (cstr buf)) \<le> 125
     then Some ((put_str path (length (dir_prefix (cstr buf))) (Suc (name_window (length (dir_prefix (cstr buf))))) name)
                 [MAX_FILENAME_LEN - 1 := 0])
     else None)"
    using copy_behind(1) [OF p _ nz, of name] t k
    by (auto simp: dir_prefix_def)
qed


text \<open>C39: the path of a directory entry (unlink, rename). When \<^verbatim>\<open>bpf_d_path\<close> has put a non-empty
  directory path in the 127-byte buffer, the program joins it with the entry's name exactly when the
  directory path with its slash has at most 125 bytes, and gives up otherwise. The result fills the same
  buffer, is NUL-terminated inside it, and is the directory path, the slash, and as much of the name as
  the window for that offset holds: the whole name when it fits the window, which is 63 bytes for a
  directory path of up to 63.\<close>

theorem path_dentry_to_str_joins:
  assumes "pa_d_path dir = (int (length (cstr buf)) + 1, buf)" "length buf = MAX_FILENAME_LEN"
    and "cstr buf \<noteq> []" "length (cstr buf) < length buf" "de_name dentry = Some name"
  shows "case path_dentry_to_str dir dentry of
           None \<Rightarrow> 125 < length (dir_prefix (cstr buf))
         | Some path \<Rightarrow>
             length (dir_prefix (cstr buf)) \<le> 125 \<and> length path = MAX_FILENAME_LEN \<and>
             length (cstr path) < MAX_FILENAME_LEN \<and>
             cstr path = dir_prefix (cstr buf) @ take (name_window (length (dir_prefix (cstr buf)))) (cstr name)"
proof -
  let ?d = "dir_prefix (cstr buf)"
  note eq = append_dentry_name_eq [OF assms(2) refl assms(3) _ assms(5)]
  have k: "length (cstr buf) \<le> MAX_FILENAME_LEN - 1" using assms(2,4) by simp
  have nz: "\<forall>c \<in> set ?d. c \<noteq> 0"
    by (auto simp: dir_prefix_def dest: cstr_no_nul)
  have res: "path_dentry_to_str dir dentry = append_dentry_name buf dentry (int (length (cstr buf)) + 1)"
    using assms(1) by (simp add: path_dentry_to_str_def path_to_str_def)
  show ?thesis
  proof (cases "length ?d \<le> 125")
    case True
    then have "length (cstr buf) < 126" by (auto simp: dir_prefix_def split: if_splits)
    with eq(3) [OF k] have t: "take (length ?d) (if last (cstr buf) = 0x2f then buf else buf[length (cstr buf) := 0x2f]) = ?d"
      by simp
    from copy_behind(2) [OF eq(2) [OF k] t nz _ True, of name] name_window_bound [OF True] True
    show ?thesis by (simp add: res eq(1) [OF k])
  next
    case False
    then show ?thesis by (simp add: res eq(1) [OF k])
  qed
qed

definition tmp_dir :: kpath where
  "tmp_dir = \<lparr>pa_d_path = (5, padded MAX_FILENAME_LEN (str_bytes ''/tmp'')),
              pa_dentry = \<lparr>de_name = None, de_inode = None\<rparr>\<rparr>"

theorem path_dentry_to_str_joins_witness:
  "map_option cstr (path_dentry_to_str tmp_dir \<lparr>de_name = Some (str_bytes ''a.txt''), de_inode = None\<rparr>) =
     Some (str_bytes ''/tmp/a.txt'')"
proof -
  let ?b = "padded MAX_FILENAME_LEN (str_bytes ''/tmp'')"
  let ?e = "\<lparr>de_name = Some (str_bytes ''a.txt''), de_inode = None\<rparr>"
  have c: "cstr ?b = str_bytes ''/tmp''"
    by code_simp
  have len: "length (str_bytes ''/tmp'') = 4" "str_bytes ''/tmp'' \<noteq> []"
    by (simp_all add: str_bytes_def)
  have d: "dir_prefix (str_bytes ''/tmp'') @ take (name_window (length (dir_prefix (str_bytes ''/tmp''))))
      (cstr (str_bytes ''a.txt'')) = str_bytes ''/tmp/a.txt''" "length (dir_prefix (str_bytes ''/tmp'')) \<le> 125"
    by code_simp+
  have "pa_d_path tmp_dir = (int (length (cstr ?b)) + 1, ?b)"
    by (simp add: tmp_dir_def c len)
  from path_dentry_to_str_joins [OF this, of ?e "str_bytes ''a.txt''"] show ?thesis
    using d len unfolding c by (auto split: option.splits)
qed

text \<open>A file known by a user path only is identified by the first 64 bytes of that path: two longer paths
  that agree there are one object.\<close>

lemma user_path_identity:
  assumes "take 64 p = take 64 q"
  shows "te_resolve_file_id (TE_REF_USER_PATH a) p = te_resolve_file_id (TE_REF_USER_PATH b) q"
proof -
  have "rd p i = rd q i" if "i < 64" for i
    using that assms by (metis rd_take)
  then have "te_fnv1a p = te_fnv1a q"
    unfolding te_fnv1a_def by (intro fold_cong) auto
  then show ?thesis by (simp add: te_resolve_file_id_def ref_inode_def)
qed


end
