(* ===== verification/Lru_Map.thy ===== *)
theory Lru_Map
  imports Bpf_Map
begin

text \<open>
  LRU hash maps (\<^verbatim>\<open>BPF_MAP_TYPE_LRU_HASH\<close>). An update takes a node from the map's free lists
  first, and the kernel may reclaim nodes of other keys for it; it fails with \<^verbatim>\<open>-ENOMEM\<close> when no node
  can be had. Which keys go is the kernel's choice: the n-th update of a map drops the keys
  \<open>lru_evict n\<close> names and fails when \<open>lru_fail n\<close> holds. The locale \<open>cache_map\<close> is what a client may rely
  on: an entry found is the last one stored, and an entry may be gone.
\<close>

record ('k, 'v) lru_hash =
  lru_ents :: "'k \<rightharpoonup> 'v"
  lru_evict :: "nat \<Rightarrow> 'k \<Rightarrow> bool"
  lru_fail :: "nat \<Rightarrow> bool"
  lru_ops :: nat

definition lru_new :: "(nat \<Rightarrow> 'k \<Rightarrow> bool) \<Rightarrow> (nat \<Rightarrow> bool) \<Rightarrow> ('k, 'v) lru_hash" where
  "lru_new ev fl = \<lparr>lru_ents = Map.empty, lru_evict = ev, lru_fail = fl, lru_ops = 0\<rparr>"

definition lru_lookup :: "('k, 'v) lru_hash \<Rightarrow> 'k \<Rightarrow> 'v option" where
  "lru_lookup m k = lru_ents m k"

text \<open>Whether the next update stores its entry.\<close>

definition lru_fits :: "('k, 'v) lru_hash \<Rightarrow> bool" where
  "lru_fits m \<longleftrightarrow> \<not> lru_fail m (lru_ops m)"

definition lru_put :: "'k \<Rightarrow> 'v \<Rightarrow> ('k, 'v) lru_hash \<Rightarrow> ('k, 'v) lru_hash" where
  "lru_put k v m =
     (if lru_fits m
      then m\<lparr>lru_ents := (\<lambda>k'. if k' = k then Some v
                               else if lru_evict m (lru_ops m) k' then None else lru_ents m k'),
             lru_ops := Suc (lru_ops m)\<rparr>
      else m\<lparr>lru_ops := Suc (lru_ops m)\<rparr>)"

definition lru_delete :: "'k \<Rightarrow> ('k, 'v) lru_hash \<Rightarrow> ('k, 'v) lru_hash" where
  "lru_delete k m = m\<lparr>lru_ents := (lru_ents m)(k := None)\<rparr>"

text \<open>Writing through the pointer a lookup returned.\<close>

definition lru_modify :: "'k \<Rightarrow> ('v \<Rightarrow> 'v) \<Rightarrow> ('k, 'v) lru_hash \<Rightarrow> ('k, 'v) lru_hash" where
  "lru_modify k f m =
     (case lru_ents m k of None \<Rightarrow> m | Some v \<Rightarrow> m\<lparr>lru_ents := (lru_ents m)(k \<mapsto> f v)\<rparr>)"

text \<open>A map the kernel never has to reclaim from.\<close>

definition lru_roomy :: "('k, 'v) lru_hash \<Rightarrow> bool" where
  "lru_roomy m \<longleftrightarrow> (\<forall>n. \<not> lru_fail m n \<and> (\<forall>k. \<not> lru_evict m n k))"

section \<open>The contract of a cache\<close>

locale cache_map =
  fixes lookup :: "'m \<Rightarrow> 'k \<Rightarrow> 'v option"
    and put :: "'k \<Rightarrow> 'v \<Rightarrow> 'm \<Rightarrow> 'm"
    and delete :: "'k \<Rightarrow> 'm \<Rightarrow> 'm"
    and fits :: "'m \<Rightarrow> 'k \<Rightarrow> bool"
  assumes put_found: "fits m k \<Longrightarrow> lookup (put k v m) k = Some v"
    and put_kept: "lookup (put k v m) k' = Some w \<Longrightarrow> k' = k \<and> w = v \<or> lookup m k' = Some w"
    and delete_lookup: "lookup (delete k m) k' = (if k' = k then None else lookup m k')"
begin

lemma put_dom: "dom (lookup (put k v m)) \<subseteq> insert k (dom (lookup m))"
  using put_kept by (fastforce simp: dom_def)

lemma delete_dom: "dom (lookup (delete k m)) = dom (lookup m) - {k}"
  by (auto simp: dom_def delete_lookup)

text \<open>What a series of updates leaves under a key was stored under it, by one of them or before.\<close>

lemma puts_origin:
  "lookup (fold (\<lambda>(k, v). put k v) kvs m) k = Some w \<Longrightarrow> (k, w) \<in> set kvs \<or> lookup m k = Some w"
proof (induction kvs arbitrary: m)
  case (Cons kv kvs)
  obtain a b where kv: "kv = (a, b)" by (cases kv)
  have "(k, w) \<in> set kvs \<or> lookup (put a b m) k = Some w"
    using Cons.IH [of "put a b m"] Cons.prems by (simp add: kv)
  then show ?case using put_kept [of a b m k w] by (auto simp: kv)
qed simp

lemma puts_dom: "dom (lookup (fold (\<lambda>(k, v). put k v) kvs m)) \<subseteq> fst ` set kvs \<union> dom (lookup m)"
  by (auto dest!: puts_origin intro: rev_image_eqI)

lemma deletes_dom: "dom (lookup (fold delete ks m)) = dom (lookup m) - set ks"
  by (induction ks arbitrary: m) (auto simp: delete_dom)

end

lemma lru_put_lookup:
  "lru_lookup (lru_put k v m) k' =
     (if \<not> lru_fits m then lru_lookup m k'
      else if k' = k then Some v
      else if lru_evict m (lru_ops m) k' then None else lru_lookup m k')"
  by (simp add: lru_put_def lru_lookup_def)

lemma lru_delete_lookup [simp]: "lru_lookup (lru_delete k m) k' = (if k' = k then None else lru_lookup m k')"
  by (simp add: lru_delete_def lru_lookup_def)

lemma lru_modify_lookup [simp]:
  "lru_lookup (lru_modify k f m) k' = (if k' = k then map_option f (lru_lookup m k) else lru_lookup m k')"
  by (simp add: lru_modify_def lru_lookup_def split: option.splits)

interpretation lru: cache_map lru_lookup lru_put lru_delete "\<lambda>m _. lru_fits m"
  by unfold_locales (auto simp: lru_put_lookup split: if_splits)

text \<open>A plain hash map is a cache that forgets nothing.\<close>

sublocale kv_map \<subseteq> cache: cache_map lookup put delete fits
  by unfold_locales (auto simp: put_lookup delete_lookup split: if_splits)

lemma lru_fits_ops [simp]:
  "lru_roomy (lru_put k v m) \<longleftrightarrow> lru_roomy m" "lru_roomy (lru_delete k m) \<longleftrightarrow> lru_roomy m"
  "lru_roomy (lru_modify k f m) \<longleftrightarrow> lru_roomy m"
  by (simp_all add: lru_roomy_def lru_put_def lru_delete_def lru_modify_def split: option.splits)

lemma lru_roomy_fits: "lru_roomy m \<Longrightarrow> lru_fits m"
  by (simp add: lru_roomy_def lru_fits_def)

lemma lru_roomy_put [simp]: "lru_roomy m \<Longrightarrow> lru_lookup (lru_put k v m) = (lru_lookup m)(k \<mapsto> v)"
  by (rule ext) (simp add: lru_put_lookup lru_roomy_fits, simp add: lru_roomy_def)

lemma lru_new_roomy [simp]: "lru_roomy (lru_new (\<lambda>_ _. False) (\<lambda>_. False))" "lru_lookup (lru_new ev fl) = Map.empty"
  by (simp_all add: lru_roomy_def lru_new_def lru_lookup_def fun_eq_iff)

end
