(* ===== verification/Fd_Tables.thy ===== *)
theory Fd_Tables
  imports Resolve Lru_Map
begin

text \<open>
  The tables that connect system calls with objects (\<^verbatim>\<open>bpf/process.bpf.c\<close>): which file or
  socket a descriptor of a process stands for, what a kernel file object was opened as, the file-backed
  mappings of a process with their per-process index of eight starts, and the arguments a
  \<^verbatim>\<open>sys_enter\<close> program leaves for its \<^verbatim>\<open>sys_exit\<close> program. All are LRU maps.

  The state extends the sensor by these maps and by what the programs read of the current task: its
  descriptor table, the kernel file object at an address, and its user memory.
\<close>

section \<open>Tables\<close>

record open_pend = op_path_ptr :: u64 op_flags :: u32 op_remember_fd :: u32

record rename_pend =
  rn_old_path_ptr :: u64
  rn_new_path_ptr :: u64
  rn_flags :: u32
  rn_old :: "(bytes \<times> file_id) option"
  rn_new :: "(bytes \<times> file_id) option"

record fd_key = fk_pid :: pid_t fk_fd :: s32
record fd_ref = fr_path :: bytes fr_fid :: file_id
record fileptr_ref = fp_ref :: fd_ref fp_backing :: file_id
record connect_pend = cp_fd :: s32 cp_ip :: u32
record unixsock_pend = us_fd :: s32 us_path :: bytes us_fid :: file_id
record accept_pend = ac_fd :: s32
record io_pend = ip_fd :: s32 ip_access :: u32 ip_addr_ptr :: u64 ip_addr_kind :: u32 ip_addr_len :: s32
record mmap_pend = mp_fd :: s32 mp_len :: u64 mp_prot :: u64 mp_flags :: u64
record mprotect_pend = pr_start :: u64 pr_len :: u64 pr_prot :: u64
record mremap_pend = rm_old_addr :: u64 rm_old_size :: u64 rm_new_size :: u64
record mmap_key = mk_pid :: pid_t mk_start :: u64

record mmap_ref =
  mr_path :: bytes
  mr_start :: u64
  mr_end :: u64
  mr_prot :: u64
  mr_flags :: u64
  mr_fid :: file_id

record mmap_index = mi_starts :: "u64 list" mi_next :: u32
record dup_pend = du_oldfd :: s32
record fd_copy_pend = fc_out_fd :: s32 fc_in_fd :: s32
record pipe_pend = pp_fds_ptr :: u64
record socketpair_pend = sp_fds_ptr :: u64

text \<open>A rename's two \<^verbatim>\<open>have\<close> flags guard the path and identity next to them, which are read only under
  the flag: the model joins them in an option.

  The descriptor table of the current task: its size and the file pointers in it, \<open>None\<close> where the read
  faults; the whole is \<open>None\<close> when a pointer on the way to it is NULL.\<close>

record fdtable =
  ft_max_fds :: u32
  ft_fd :: "nat \<Rightarrow> u64 option"

record tables = sensor +
  ts_openpend :: "(u64, open_pend) lru_hash"
  ts_renamepend :: "(u64, rename_pend) lru_hash"
  ts_fd :: "(fd_key, fd_ref) lru_hash"
  ts_fileptr :: "(u64, fileptr_ref) lru_hash"
  ts_sockfd :: "(fd_key, u32) lru_hash"
  ts_connectpend :: "(u64, connect_pend) lru_hash"
  ts_unixsockpend :: "(u64, unixsock_pend) lru_hash"
  ts_acceptpend :: "(u64, accept_pend) lru_hash"
  ts_iopend :: "(u64, io_pend) lru_hash"
  ts_mmappend :: "(u64, mmap_pend) lru_hash"
  ts_mprotectpend :: "(u64, mprotect_pend) lru_hash"
  ts_mremappend :: "(u64, mremap_pend) lru_hash"
  ts_mmap :: "(mmap_key, mmap_ref) lru_hash"
  ts_mmap_index :: "(pid_t, mmap_index) lru_hash"
  ts_duppend :: "(u64, dup_pend) lru_hash"
  ts_fdcopypend :: "(u64, fd_copy_pend) lru_hash"
  ts_pipepend :: "(u64, pipe_pend) lru_hash"
  ts_socketpairpend :: "(u64, socketpair_pend) lru_hash"
  cur_fdt :: "fdtable option"
  kernel_file :: "u64 \<Rightarrow> kfile"
  user_mem :: umem

abbreviation (input) TE_FD_TABLE_LOOKUP_MAX :: int where "TE_FD_TABLE_LOOKUP_MAX \<equiv> 4096"
abbreviation (input) TE_MMAP_INDEX_SLOTS :: nat where "TE_MMAP_INDEX_SLOTS \<equiv> 8"
abbreviation (input) TE_FORK_FD_SCAN :: nat where "TE_FORK_FD_SCAN \<equiv> 64"

section \<open>Descriptors\<close>

definition te_fd_key :: "pid_t \<Rightarrow> s32 \<Rightarrow> fd_key" where
  "te_fd_key pid fd = \<lparr>fk_pid = pid, fk_fd = fd\<rparr>"

definition te_file_id_equal :: "file_id \<Rightarrow> file_id \<Rightarrow> bool" where
  "te_file_id_equal a b \<longleftrightarrow> fi_ino a = fi_ino b \<and> fi_dev a = fi_dev b"

text \<open>A file pointer is an address, 0 for NULL.\<close>

definition te_current_file_from_fd :: "'a tables_scheme \<Rightarrow> s32 \<Rightarrow> u64" where
  "te_current_file_from_fd st fd =
     (if sint fd < 0 \<or> sint fd \<ge> TE_FD_TABLE_LOOKUP_MAX then 0
      else case cur_fdt st of
             None \<Rightarrow> 0
           | Some t \<Rightarrow>
               if fd \<ge> ft_max_fds t then 0
               else case ft_fd t (unat fd) of None \<Rightarrow> 0 | Some file \<Rightarrow> file)"

text \<open>The identity of an open file: the return code, and the \<^verbatim>\<open>file_id\<close> the call leaves behind, which is
  zeroed when the file or its inode is missing.\<close>

definition te_resolve_file_id_from_file :: "'a tables_scheme \<Rightarrow> u64 \<Rightarrow> int \<times> file_id" where
  "te_resolve_file_id_from_file st f =
     (let zero = \<lparr>fi_ino = 0, fi_dev = 0, fi_pad = 0\<rparr>
      in if f = 0 then (- 1, zero)
         else case ff_inode (kernel_file st f) of
                None \<Rightarrow> (- 1, zero)
              | Some i \<Rightarrow> (if in_ino i = 0 then - 1 else 0, \<lparr>fi_ino = in_ino i, fi_dev = in_dev i, fi_pad = 0\<rparr>))"

text \<open>The identity a caller uses only after a successful call.\<close>

definition backing_id :: "'a tables_scheme \<Rightarrow> u64 \<Rightarrow> file_id option" where
  "backing_id st f = (let (rc, fid) = te_resolve_file_id_from_file st f in if rc < 0 then None else Some fid)"

definition te_store_fileptr_ref :: "u64 \<Rightarrow> fd_ref \<Rightarrow> 'a tables_scheme \<Rightarrow> 'a tables_scheme" where
  "te_store_fileptr_ref file ref st =
     (case backing_id st file of
        None \<Rightarrow> st
      | Some backing \<Rightarrow>
          st\<lparr>ts_fileptr := lru_put file \<lparr>fp_ref = ref, fp_backing = backing\<rparr> (ts_fileptr st)\<rparr>)"

definition te_lookup_fileptr_ref :: "'a tables_scheme \<Rightarrow> u64 \<Rightarrow> fileptr_ref option" where
  "te_lookup_fileptr_ref st file =
     (case backing_id st file of
        None \<Rightarrow> None
      | Some backing \<Rightarrow>
          (case lru_lookup (ts_fileptr st) file of
             None \<Rightarrow> None
           | Some fpref \<Rightarrow> if te_file_id_equal (fp_backing fpref) backing then Some fpref else None))"

definition te_store_fd :: "pid_t \<Rightarrow> s32 \<Rightarrow> bytes \<Rightarrow> file_id \<Rightarrow> 'a tables_scheme \<Rightarrow> 'a tables_scheme" where
  "te_store_fd pid fd path fid st =
     (if sint fd < 0 then st
      else
        let key = te_fd_key pid fd;
            ref = \<lparr>fr_path = map (rd path) [0..<MAX_FILENAME_LEN - 1] @ [0], fr_fid = fid\<rparr>
        in st\<lparr>ts_sockfd := lru_delete key (ts_sockfd st), ts_fd := lru_put key ref (ts_fd st)\<rparr>)"

definition te_store_fd_with_current_file ::
  "pid_t \<Rightarrow> s32 \<Rightarrow> bytes \<Rightarrow> file_id \<Rightarrow> 'a tables_scheme \<Rightarrow> 'a tables_scheme" where
  "te_store_fd_with_current_file pid fd path fid st =
     (let st = te_store_fd pid fd path fid st
      in if sint fd < 0 then st
         else case lru_lookup (ts_fd st) (te_fd_key pid fd) of
                None \<Rightarrow> st
              | Some ref \<Rightarrow> te_store_fileptr_ref (te_current_file_from_fd st fd) ref st)"

definition te_delete_fd :: "pid_t \<Rightarrow> s32 \<Rightarrow> 'a tables_scheme \<Rightarrow> 'a tables_scheme" where
  "te_delete_fd pid fd st =
     (if sint fd < 0 then st
      else let key = te_fd_key pid fd
           in st\<lparr>ts_fd := lru_delete key (ts_fd st), ts_sockfd := lru_delete key (ts_sockfd st)\<rparr>)"

definition te_lookup_fd :: "'a tables_scheme \<Rightarrow> pid_t \<Rightarrow> s32 \<Rightarrow> fd_ref option" where
  "te_lookup_fd st pid fd = (if sint fd < 0 then None else lru_lookup (ts_fd st) (te_fd_key pid fd))"

definition te_store_sockfd :: "pid_t \<Rightarrow> s32 \<Rightarrow> u32 \<Rightarrow> 'a tables_scheme \<Rightarrow> 'a tables_scheme" where
  "te_store_sockfd pid fd ip st =
     (if sint fd < 0 \<or> ip = 0 then st
      else st\<lparr>ts_sockfd := lru_put (te_fd_key pid fd) ip (ts_sockfd st)\<rparr>)"

definition te_lookup_sockfd :: "'a tables_scheme \<Rightarrow> pid_t \<Rightarrow> s32 \<Rightarrow> u32 option" where
  "te_lookup_sockfd st pid fd = (if sint fd < 0 then None else lru_lookup (ts_sockfd st) (te_fd_key pid fd))"

text \<open>A socket of the Unix domain is recorded under the hash of its path; no program calls this.\<close>

definition te_store_unix_fd :: "pid_t \<Rightarrow> s32 \<Rightarrow> bytes \<Rightarrow> 'a tables_scheme \<Rightarrow> 'a tables_scheme" where
  "te_store_unix_fd pid fd path st = te_store_fd pid fd path \<lparr>fi_ino = te_fnv1a path, fi_dev = 0, fi_pad = 0\<rparr> st"

definition te_store_current_fd_file :: "pid_t \<Rightarrow> s32 \<Rightarrow> 'a tables_scheme \<Rightarrow> 'a tables_scheme" where
  "te_store_current_fd_file pid fd st =
     (let f = te_current_file_from_fd st fd
      in if f = 0 then st
         else case te_lookup_fileptr_ref st f of
                Some fpref \<Rightarrow>
                  te_store_fd_with_current_file pid fd (fr_path (fp_ref fpref)) (fr_fid (fp_ref fpref)) st
              | None \<Rightarrow>
                  (case backing_id st f of
                     None \<Rightarrow> st
                   | Some fid \<Rightarrow>
                       te_store_fd_with_current_file pid fd
                         (padded MAX_FILENAME_LEN (str_bytes ''fd:scm_rights'')) fid st))"

definition te_store_current_fd_file_path :: "pid_t \<Rightarrow> s32 \<Rightarrow> 'a tables_scheme \<Rightarrow> 'a tables_scheme" where
  "te_store_current_fd_file_path pid fd st =
     (let f = te_current_file_from_fd st fd
      in if f = 0 then st
         else case file_basename (kernel_file st f) of
                None \<Rightarrow> st
              | Some path \<Rightarrow>
                  (case backing_id st f of
                     None \<Rightarrow> st
                   | Some fid \<Rightarrow> te_store_fd_with_current_file pid fd path fid st))"

definition te_copy_sockfd :: "pid_t \<Rightarrow> s32 \<Rightarrow> s32 \<Rightarrow> 'a tables_scheme \<Rightarrow> 'a tables_scheme" where
  "te_copy_sockfd pid oldfd newfd st =
     (case te_lookup_sockfd st pid oldfd of None \<Rightarrow> st | Some ip \<Rightarrow> te_store_sockfd pid newfd ip st)"

definition te_copy_fd :: "pid_t \<Rightarrow> s32 \<Rightarrow> s32 \<Rightarrow> 'a tables_scheme \<Rightarrow> 'a tables_scheme" where
  "te_copy_fd pid oldfd newfd st =
     (case te_lookup_fd st pid oldfd of
        None \<Rightarrow> st
      | Some ref \<Rightarrow> te_store_fd_with_current_file pid newfd (fr_path ref) (fr_fid ref) st)"

definition te_copy_sockfd_to_pid :: "pid_t \<Rightarrow> pid_t \<Rightarrow> s32 \<Rightarrow> 'a tables_scheme \<Rightarrow> 'a tables_scheme" where
  "te_copy_sockfd_to_pid src dst fd st =
     (case te_lookup_sockfd st src fd of None \<Rightarrow> st | Some ip \<Rightarrow> te_store_sockfd dst fd ip st)"

definition te_copy_fd_to_pid :: "pid_t \<Rightarrow> pid_t \<Rightarrow> s32 \<Rightarrow> 'a tables_scheme \<Rightarrow> 'a tables_scheme" where
  "te_copy_fd_to_pid src dst fd st =
     (case te_lookup_fd st src fd of
        None \<Rightarrow> st | Some ref \<Rightarrow> te_store_fd dst fd (fr_path ref) (fr_fid ref) st)"

definition te_copy_fork_fds :: "pid_t \<Rightarrow> pid_t \<Rightarrow> 'a tables_scheme \<Rightarrow> 'a tables_scheme" where
  "te_copy_fork_fds src dst st =
     (if \<not> te_pid_active st src \<or> \<not> te_pid_active st dst then st
      else fold (\<lambda>fd st. te_copy_sockfd_to_pid src dst (of_nat fd) (te_copy_fd_to_pid src dst (of_nat fd) st))
             [0..<TE_FORK_FD_SCAN] st)"

section \<open>Mappings\<close>

definition te_mmap_key :: "pid_t \<Rightarrow> u64 \<Rightarrow> mmap_key" where
  "te_mmap_key pid start = \<lparr>mk_pid = pid, mk_start = start\<rparr>"

definition te_range_end :: "u64 \<Rightarrow> u64 \<Rightarrow> u64" where
  "te_range_end start len = (let e = start + len in if e < start then NOT 0 else e)"

definition te_ranges_overlap :: "u64 \<Rightarrow> u64 \<Rightarrow> u64 \<Rightarrow> u64 \<Rightarrow> bool" where
  "te_ranges_overlap a_start a_end b_start b_end \<longleftrightarrow> a_start < b_end \<and> b_start < a_end"

definition clear_start :: "u64 \<Rightarrow> u64 list \<Rightarrow> u64 list" where
  "clear_start start starts =
     fold (\<lambda>i s. if s ! i = start then s[i := 0] else s) [0..<TE_MMAP_INDEX_SLOTS] starts"

definition te_mmap_index_remember :: "pid_t \<Rightarrow> u64 \<Rightarrow> 'a tables_scheme \<Rightarrow> u64 \<times> 'a tables_scheme" where
  "te_mmap_index_remember pid start st =
     (if start = 0 then (0, st)
      else case lru_lookup (ts_mmap_index st) pid of
             None \<Rightarrow>
               (0, st\<lparr>ts_mmap_index :=
                       lru_put pid \<lparr>mi_starts = start # replicate (TE_MMAP_INDEX_SLOTS - 1) 0, mi_next = 1\<rparr>
                         (ts_mmap_index st)\<rparr>)
           | Some idx \<Rightarrow>
               let starts = clear_start start (mi_starts idx);
                   slot = (if mi_next idx \<ge> of_nat TE_MMAP_INDEX_SLOTS then 0 else mi_next idx);
                   overwritten = starts ! unat slot;
                   next_slot = (if slot + 1 \<ge> of_nat TE_MMAP_INDEX_SLOTS then 0 else slot + 1)
               in (if overwritten = start then 0 else overwritten,
                   st\<lparr>ts_mmap_index :=
                       lru_modify pid (\<lambda>_. \<lparr>mi_starts = starts[unat slot := start], mi_next = next_slot\<rparr>)
                         (ts_mmap_index st)\<rparr>))"

definition te_mmap_index_forget :: "pid_t \<Rightarrow> u64 \<Rightarrow> 'a tables_scheme \<Rightarrow> 'a tables_scheme" where
  "te_mmap_index_forget pid start st =
     (if start = 0 then st
      else st\<lparr>ts_mmap_index :=
               lru_modify pid (\<lambda>idx. idx\<lparr>mi_starts := clear_start start (mi_starts idx)\<rparr>) (ts_mmap_index st)\<rparr>)"

definition drop_mmap :: "pid_t \<Rightarrow> u64 \<Rightarrow> 'a tables_scheme \<Rightarrow> 'a tables_scheme" where
  "drop_mmap pid start st = st\<lparr>ts_mmap := lru_delete (te_mmap_key pid start) (ts_mmap st)\<rparr>"

definition te_store_mmap_ref :: "pid_t \<Rightarrow> u64 \<Rightarrow> mmap_pend \<Rightarrow> fd_ref \<Rightarrow> 'a tables_scheme \<Rightarrow> 'a tables_scheme" where
  "te_store_mmap_ref pid start p fdref st =
     (if mp_len p = 0 \<or> start = 0 then st
      else
        let (overwritten, st) = te_mmap_index_remember pid start st;
            st = (if overwritten \<noteq> 0 then drop_mmap pid overwritten st else st);
            mref = \<lparr>mr_path = fr_path fdref, mr_start = start, mr_end = te_range_end start (mp_len p),
                    mr_prot = mp_prot p, mr_flags = mp_flags p, mr_fid = fr_fid fdref\<rparr>
        in st\<lparr>ts_mmap := lru_put (te_mmap_key pid start) mref (ts_mmap st)\<rparr>)"

definition te_apply_mmap_access :: "pid_t \<Rightarrow> mmap_ref \<Rightarrow> u64 \<Rightarrow> 'a tables_scheme \<Rightarrow> 'a tables_scheme" where
  "te_apply_mmap_access pid mref prot st =
     (let access = te_access_from_mmap prot (mr_flags mref);
          st = (if access AND TE_ACCESS_READ \<noteq> 0 then te_read pid (mr_fid mref) (mr_path mref) st else st)
      in if access AND TE_ACCESS_WRITE \<noteq> 0 then te_write_flow pid (mr_fid mref) (mr_path mref) st else st)"

definition te_handle_mprotect_range ::
  "pid_t \<Rightarrow> u64 \<Rightarrow> u64 \<Rightarrow> u64 \<Rightarrow> 'a tables_scheme \<Rightarrow> 'a tables_scheme" where
  "te_handle_mprotect_range pid start len prot st =
     (if len = 0 then st
      else case lru_lookup (ts_mmap st) (te_mmap_key pid start) of
             None \<Rightarrow> st
           | Some mref \<Rightarrow>
               if \<not> te_ranges_overlap start (te_range_end start len) (mr_start mref) (mr_end mref) then st
               else
                 let st = te_apply_mmap_access pid mref prot st
                 in st\<lparr>ts_mmap := lru_modify (te_mmap_key pid start) (\<lambda>m. m\<lparr>mr_prot := prot\<rparr>) (ts_mmap st)\<rparr>)"

definition te_handle_mremap_range ::
  "pid_t \<Rightarrow> u64 \<Rightarrow> u64 \<Rightarrow> u64 \<Rightarrow> u64 \<Rightarrow> 'a tables_scheme \<Rightarrow> 'a tables_scheme" where
  "te_handle_mremap_range pid old_addr old_size new_addr new_size st =
     (if old_size = 0 \<or> new_size = 0 \<or> new_addr = 0 then st
      else case lru_lookup (ts_mmap st) (te_mmap_key pid old_addr) of
             None \<Rightarrow> st
           | Some mref \<Rightarrow>
               if \<not> te_ranges_overlap old_addr (te_range_end old_addr old_size) (mr_start mref) (mr_end mref) then st
               else
                 let st = te_apply_mmap_access pid mref (mr_prot mref) st;
                     scratch = mref\<lparr>mr_start := new_addr, mr_end := te_range_end new_addr new_size\<rparr>;
                     st = drop_mmap pid old_addr st;
                     st = te_mmap_index_forget pid old_addr st;
                     (overwritten, st) = te_mmap_index_remember pid new_addr st;
                     st = (if overwritten \<noteq> 0 \<and> overwritten \<noteq> old_addr then drop_mmap pid overwritten st else st)
                 in st\<lparr>ts_mmap := lru_put (te_mmap_key pid new_addr) scratch (ts_mmap st)\<rparr>)"

definition te_delete_mmap_range :: "pid_t \<Rightarrow> u64 \<Rightarrow> u64 \<Rightarrow> 'a tables_scheme \<Rightarrow> 'a tables_scheme" where
  "te_delete_mmap_range pid start len st =
     (if len = 0 then st
      else case lru_lookup (ts_mmap st) (te_mmap_key pid start) of
             None \<Rightarrow> st
           | Some mref \<Rightarrow>
               if \<not> te_ranges_overlap start (te_range_end start len) (mr_start mref) (mr_end mref) then st
               else te_mmap_index_forget pid start (drop_mmap pid start st))"

definition te_delete_mmaps :: "pid_t \<Rightarrow> 'a tables_scheme \<Rightarrow> 'a tables_scheme" where
  "te_delete_mmaps pid st =
     (case lru_lookup (ts_mmap_index st) pid of
        None \<Rightarrow> st
      | Some idx \<Rightarrow>
          let st = fold (\<lambda>i st. let start = mi_starts idx ! i
                               in if start = 0 then st else drop_mmap pid start st)
                     [0..<TE_MMAP_INDEX_SLOTS] st
          in st\<lparr>ts_mmap_index := lru_delete pid (ts_mmap_index st)\<rparr>)"

end
