(* ===== verification/Fd_Properties.thy ===== *)
theory Fd_Properties
  imports Fd_Tables
begin

text \<open>
  What the descriptor and mapping tables guarantee: a fork gives the child the parent's first 64
  descriptors; every mapping on record is listed in its process's index, which bounds their number and
  is what lets the exit of a process remove them all.
\<close>

section \<open>Frames\<close>

text \<open>A program that changes tables leaves the engine alone, and the other way round.\<close>

lemma engine_ok_truncate: "engine_ok (engine.truncate st) = engine_ok st"
  by (simp add: engine_ok_def wf_tables_def prov_ok_def engine.truncate_def)

lemma ifc_of_truncate: "ifc_of (engine.truncate st) = ifc_of st"
  by (simp add: ifc_of_def proc_labels_def file_labels_def endp_labels_def te_get_domain_def te_get_def
      fun_eq_iff engine.truncate_def)

lemma te_pid_active_truncate: "te_pid_active (engine.truncate st) pid = te_pid_active st pid"
  by (simp add: te_pid_active_def cap_task_bound_def engine.truncate_def)

text \<open>Two states with the same engine.\<close>

definition same_engine :: "'a engine_scheme \<Rightarrow> 'a engine_scheme \<Rightarrow> bool" where
  "same_engine s t \<longleftrightarrow> engine.truncate s = engine.truncate t"

lemma same_engine_refl [simp]: "same_engine s s"
  by (simp add: same_engine_def)

lemma same_engine_trans: "same_engine r s \<Longrightarrow> same_engine s t \<Longrightarrow> same_engine r t"
  by (simp add: same_engine_def)

lemma same_engine_keeps:
  assumes "same_engine s t"
  shows "engine_ok s = engine_ok t" "ifc_of s = ifc_of t" "te_pid_active s = te_pid_active t"
    "te_pid_active s pid = te_pid_active t pid"
  using assms unfolding same_engine_def fun_eq_iff
  by (metis engine_ok_truncate, metis ifc_of_truncate, metis te_pid_active_truncate, metis te_pid_active_truncate)

lemma same_engine_tables [simp]:
  fixes st :: "'a tables_scheme"
  shows "same_engine (st\<lparr>ts_openpend := a1\<rparr>) t = same_engine st t"
    "same_engine (st\<lparr>ts_renamepend := a2\<rparr>) t = same_engine st t"
    "same_engine (st\<lparr>ts_fd := a3\<rparr>) t = same_engine st t"
    "same_engine (st\<lparr>ts_fileptr := a4\<rparr>) t = same_engine st t"
    "same_engine (st\<lparr>ts_sockfd := a5\<rparr>) t = same_engine st t"
    "same_engine (st\<lparr>ts_connectpend := a6\<rparr>) t = same_engine st t"
    "same_engine (st\<lparr>ts_unixsockpend := a7\<rparr>) t = same_engine st t"
    "same_engine (st\<lparr>ts_acceptpend := a8\<rparr>) t = same_engine st t"
    "same_engine (st\<lparr>ts_iopend := a9\<rparr>) t = same_engine st t"
    "same_engine (st\<lparr>ts_mmappend := a10\<rparr>) t = same_engine st t"
    "same_engine (st\<lparr>ts_mprotectpend := a11\<rparr>) t = same_engine st t"
    "same_engine (st\<lparr>ts_mremappend := a12\<rparr>) t = same_engine st t"
    "same_engine (st\<lparr>ts_mmap := a13\<rparr>) t = same_engine st t"
    "same_engine (st\<lparr>ts_mmap_index := a14\<rparr>) t = same_engine st t"
    "same_engine (st\<lparr>ts_duppend := a15\<rparr>) t = same_engine st t"
    "same_engine (st\<lparr>ts_fdcopypend := a16\<rparr>) t = same_engine st t"
    "same_engine (st\<lparr>ts_pipepend := a17\<rparr>) t = same_engine st t"
    "same_engine (st\<lparr>ts_socketpairpend := a18\<rparr>) t = same_engine st t"
  by (simp_all add: same_engine_def engine.truncate_def)

text \<open>Two states with the same tables.\<close>

definition same_tables :: "'a sensor_scheme \<Rightarrow> 'a sensor_scheme \<Rightarrow> bool" where
  "same_tables s t \<longleftrightarrow> sensor.more s = sensor.more t"

lemma same_tables_refl [simp]: "same_tables s s"
  by (simp add: same_tables_def)

lemma same_tables_more: "engine.more s = engine.more t \<Longrightarrow> same_tables s t"
  by (cases s; cases t; simp add: same_tables_def)

lemma same_tables_flows [simp]:
  "same_tables (te_read p f path st) t = same_tables st t"
  "same_tables (te_write_flow p f path st) t = same_tables st t"
  "same_tables (te_connect_flow ip p st) t = same_tables st t"
  "same_tables (te_recv_flow ip p st) t = same_tables st t"
  using same_tables_more [OF more_flows(1), of p f path st] same_tables_more [OF more_flows(2), of p f path st]
    same_tables_more [OF more_flows(3), of ip p st] same_tables_more [OF more_flows(4), of ip p st]
  by (simp_all add: same_tables_def)

lemma same_tables_fields:
  fixes s t :: "'a tables_scheme"
  assumes "same_tables s t"
  shows "ts_mmap s = ts_mmap t" "ts_mmap_index s = ts_mmap_index t" "ts_fd s = ts_fd t" "ts_sockfd s = ts_sockfd t"
    "ts_fileptr s = ts_fileptr t"
  using assms unfolding same_tables_def by (cases s; cases t; simp)+

lemma same_tables_access [simp]: "same_tables (te_apply_mmap_access p m prot st) t = same_tables st t"
  by (simp add: te_apply_mmap_access_def Let_def)

section \<open>Descriptors\<close>

text \<open>Every path on record ends in a NUL at its last byte, every address is non-zero.\<close>

definition fds_ok :: "'a tables_scheme \<Rightarrow> bool" where
  "fds_ok st \<longleftrightarrow>
     (\<forall>k r. lru_lookup (ts_fd st) k = Some r \<longrightarrow> length (fr_path r) = MAX_FILENAME_LEN \<and> last (fr_path r) = 0) \<and>
     (\<forall>k ip. lru_lookup (ts_sockfd st) k = Some ip \<longrightarrow> ip \<noteq> 0)"

lemma stored_path:
  "length p = MAX_FILENAME_LEN \<Longrightarrow> last p = 0 \<Longrightarrow> map (rd p) [0..<MAX_FILENAME_LEN - 1] @ [0] = p"
proof -
  assume p: "length p = MAX_FILENAME_LEN" "last p = 0"
  then have "p = take (MAX_FILENAME_LEN - 1) p @ [last p]"
    using append_butlast_last_id [of p] by (fastforce simp: butlast_conv_take)
  moreover have "map (rd p) [0..<MAX_FILENAME_LEN - 1] = take (MAX_FILENAME_LEN - 1) p"
    using p by (intro nth_equalityI) auto
  ultimately show ?thesis using p(2) by simp
qed

text \<open>Copying one descriptor to another process.\<close>

definition copy_one :: "pid_t \<Rightarrow> pid_t \<Rightarrow> s32 \<Rightarrow> 'a tables_scheme \<Rightarrow> 'a tables_scheme" where
  "copy_one src dst fd st = te_copy_sockfd_to_pid src dst fd (te_copy_fd_to_pid src dst fd st)"

definition copied_fd :: "pid_t \<Rightarrow> pid_t \<Rightarrow> s32 set \<Rightarrow> 'a tables_scheme \<Rightarrow> fd_key \<Rightarrow> fd_ref option" where
  "copied_fd src dst fds st k =
     (case lru_lookup (ts_fd st) (te_fd_key src (fk_fd k)) of
        Some r \<Rightarrow> if fk_pid k = dst \<and> fk_fd k \<in> fds then Some r else lru_lookup (ts_fd st) k
      | None \<Rightarrow> lru_lookup (ts_fd st) k)"

definition copied_sockfd :: "pid_t \<Rightarrow> pid_t \<Rightarrow> s32 set \<Rightarrow> 'a tables_scheme \<Rightarrow> fd_key \<Rightarrow> u32 option" where
  "copied_sockfd src dst fds st k =
     (if fk_pid k = dst \<and> fk_fd k \<in> fds then
        case lru_lookup (ts_sockfd st) (te_fd_key src (fk_fd k)) of
          Some ip \<Rightarrow> Some ip
        | None \<Rightarrow> if lru_lookup (ts_fd st) (te_fd_key src (fk_fd k)) = None then lru_lookup (ts_sockfd st) k else None
      else lru_lookup (ts_sockfd st) k)"

lemma te_fd_key_fields [simp]: "fk_pid (te_fd_key p fd) = p" "fk_fd (te_fd_key p fd) = fd"
  "te_fd_key (fk_pid k) (fk_fd k) = k" "te_fd_key p fd = te_fd_key p' fd' \<longleftrightarrow> p = p' \<and> fd = fd'"
  by (auto simp: te_fd_key_def)

lemma fd_key_eq: "k = te_fd_key p fd \<longleftrightarrow> fk_pid k = p \<and> fk_fd k = fd"
  by (metis te_fd_key_fields)

lemma copy_one_step:
  fixes st :: "'a tables_scheme"
  assumes "lru_roomy (ts_fd st)" "lru_roomy (ts_sockfd st)" "fds_ok st" "src \<noteq> dst" "0 \<le> sint fd"
  shows "lru_lookup (ts_fd (copy_one src dst fd st)) = copied_fd src dst {fd} st"
    "lru_lookup (ts_sockfd (copy_one src dst fd st)) = copied_sockfd src dst {fd} st"
    "lru_roomy (ts_fd (copy_one src dst fd st))" "lru_roomy (ts_sockfd (copy_one src dst fd st))"
proof -
  have ip: "ip \<noteq> 0" if "lru_lookup (ts_sockfd st) k = Some ip" for k ip
    using assms(3) that by (auto simp: fds_ok_def)
  have path: "\<lparr>fr_path = map (rd (fr_path r)) [0..<MAX_FILENAME_LEN - 1] @ [0], fr_fid = fr_fid r\<rparr> = r"
    if "lru_lookup (ts_fd st) k = Some r" for k and r :: fd_ref
    using assms(3) that stored_path [of "fr_path r"] by (auto simp: fds_ok_def)
  note defs = copy_one_def te_copy_sockfd_to_pid_def te_copy_fd_to_pid_def te_lookup_fd_def te_lookup_sockfd_def
      te_store_fd_def te_store_sockfd_def copied_fd_def copied_sockfd_def fd_key_eq Let_def
  have *: "lru_lookup (ts_fd (copy_one src dst fd st)) k = copied_fd src dst {fd} st k \<and>
    lru_lookup (ts_sockfd (copy_one src dst fd st)) k = copied_sockfd src dst {fd} st k \<and>
    lru_roomy (ts_fd (copy_one src dst fd st)) \<and> lru_roomy (ts_sockfd (copy_one src dst fd st))" for k
  proof (cases "lru_lookup (ts_fd st) (te_fd_key src fd)")
    case None
    with assms show ?thesis
      by (cases "lru_lookup (ts_sockfd st) (te_fd_key src fd)")
         (auto simp: defs ip dest: sym split: option.splits)
  next
    case (Some r)
    with assms show ?thesis
      by (cases "lru_lookup (ts_sockfd st) (te_fd_key src fd)")
         (auto simp: defs ip path [OF Some, simplified] dest: sym split: option.splits)
  qed
  then show "lru_lookup (ts_fd (copy_one src dst fd st)) = copied_fd src dst {fd} st"
    "lru_lookup (ts_sockfd (copy_one src dst fd st)) = copied_sockfd src dst {fd} st"
    "lru_roomy (ts_fd (copy_one src dst fd st))" "lru_roomy (ts_sockfd (copy_one src dst fd st))"
    by (simp_all add: fun_eq_iff)
qed

lemma copied_compose:
  assumes "src \<noteq> dst" "lru_lookup (ts_fd t) = copied_fd src dst F st" "lru_lookup (ts_sockfd t) = copied_sockfd src dst F st"
  shows "copied_fd src dst {fd} t = copied_fd src dst (insert fd F) st"
    "copied_sockfd src dst {fd} t = copied_sockfd src dst (insert fd F) st"
  using assms(1)
  by (auto simp: copied_fd_def copied_sockfd_def assms(2,3) fun_eq_iff split: option.splits)

lemma fds_ok_copied:
  assumes "fds_ok st" "lru_lookup (ts_fd t) = copied_fd src dst F st" "lru_lookup (ts_sockfd t) = copied_sockfd src dst F st"
  shows "fds_ok t"
  using assms(1) unfolding fds_ok_def assms(2,3) copied_fd_def copied_sockfd_def
  by (fastforce split: option.splits if_splits)

lemma copy_all:
  fixes st :: "'a tables_scheme"
  assumes "lru_roomy (ts_fd st)" "lru_roomy (ts_sockfd st)" "fds_ok st" "src \<noteq> dst" "n \<le> TE_FORK_FD_SCAN"
  shows "lru_lookup (ts_fd (fold (\<lambda>fd. copy_one src dst (of_nat fd)) [0..<n] st)) = copied_fd src dst (of_nat ` {..<n}) st \<and>
    lru_lookup (ts_sockfd (fold (\<lambda>fd. copy_one src dst (of_nat fd)) [0..<n] st)) =
      copied_sockfd src dst (of_nat ` {..<n}) st \<and>
    lru_roomy (ts_fd (fold (\<lambda>fd. copy_one src dst (of_nat fd)) [0..<n] st)) \<and>
    lru_roomy (ts_sockfd (fold (\<lambda>fd. copy_one src dst (of_nat fd)) [0..<n] st))"
  using assms(5)
proof (induction n)
  case 0
  show ?case using assms by (simp add: copied_fd_def copied_sockfd_def fun_eq_iff split: option.splits)
next
  case (Suc n)
  define t where "t = fold (\<lambda>fd. copy_one src dst (of_nat fd)) [0..<n] st"
  have t: "lru_lookup (ts_fd t) = copied_fd src dst (of_nat ` {..<n}) st"
    "lru_lookup (ts_sockfd t) = copied_sockfd src dst (of_nat ` {..<n}) st"
    "lru_roomy (ts_fd t)" "lru_roomy (ts_sockfd t)"
    using Suc by (simp_all add: t_def)
  have nn: "0 \<le> sint (of_nat n :: s32)"
    using Suc.prems sint_small [of "of_nat n"] small_word(1) [of n] by simp
  have "fold (\<lambda>fd. copy_one src dst (of_nat fd)) [0..<Suc n] st = copy_one src dst (of_nat n) t"
    by (simp add: t_def)
  with copy_one_step [OF t(3,4) fds_ok_copied [OF assms(3) t(1,2)] assms(4) nn]
    copied_compose [OF assms(4) t(1,2), of "of_nat n"]
  show ?case by (simp only: lessThan_Suc image_insert simp_thms)
qed


section \<open>Mappings\<close>

text \<open>Each mapping on record is listed in the index of its process; an index has eight starts and a valid cursor.\<close>

definition mmaps_ok :: "'a tables_scheme \<Rightarrow> bool" where
  "mmaps_ok st \<longleftrightarrow>
     (\<forall>pid start m. lru_lookup (ts_mmap st) (te_mmap_key pid start) = Some m \<longrightarrow>
        start \<noteq> 0 \<and> (\<exists>idx. lru_lookup (ts_mmap_index st) pid = Some idx \<and> start \<in> set (mi_starts idx))) \<and>
     (\<forall>pid idx. lru_lookup (ts_mmap_index st) pid = Some idx \<longrightarrow>
        length (mi_starts idx) = TE_MMAP_INDEX_SLOTS \<and> unat (mi_next idx) < TE_MMAP_INDEX_SLOTS)"

lemma te_mmap_key_eq [simp]: "te_mmap_key p s = te_mmap_key p' s' \<longleftrightarrow> p = p' \<and> s = s'"
  by (auto simp: te_mmap_key_def)

lemma clear_loop:
  "n \<le> length xs \<Longrightarrow>
    fold (\<lambda>i s. if s ! i = v then s[i := 0] else s) [0..<n] xs =
      map (\<lambda>x. if x = v then 0 else x) (take n xs) @ drop n xs"
proof (induction n)
  case (Suc n)
  let ?f = "\<lambda>x. if x = v then 0 else x :: 'a"
  have d: "drop n xs = xs ! n # drop (Suc n) xs" using Suc.prems by (simp add: Cons_nth_drop_Suc)
  have t: "take (Suc n) xs = take n xs @ [xs ! n]" using Suc.prems by (simp add: take_Suc_conv_app_nth)
  have l: "length (map ?f (take n xs)) = n" using Suc.prems by simp
  have "(map ?f (take n xs) @ drop n xs) ! n = xs ! n"
    "(map ?f (take n xs) @ drop n xs)[n := 0] = map ?f (take n xs) @ 0 # drop (Suc n) xs"
    unfolding d using l by (simp_all add: nth_append list_update_append)
  then show ?case using Suc d t by (cases "xs ! n = v") (simp_all del: list_update_append)
qed simp

lemma clear_start_eq:
  "length xs = TE_MMAP_INDEX_SLOTS \<Longrightarrow> clear_start v xs = map (\<lambda>x. if x = v then 0 else x) xs"
  by (simp add: clear_start_def clear_loop)

text \<open>Remembering a start: every start stays listed but the one it reports as overwritten.\<close>

lemma remember:
  fixes st :: "'a tables_scheme"
  assumes ok: "mmaps_ok st" and roomy: "lru_roomy (ts_mmap_index st)" and s: "start \<noteq> 0"
    and eq: "te_mmap_index_remember pid start st = (ov, st')"
  obtains idx where "lru_lookup (ts_mmap_index st') = (lru_lookup (ts_mmap_index st))(pid \<mapsto> idx)"
    and "length (mi_starts idx) = TE_MMAP_INDEX_SLOTS" "unat (mi_next idx) < TE_MMAP_INDEX_SLOTS"
    and "start \<in> set (mi_starts idx)"
    and "\<forall>x old. lru_lookup (ts_mmap_index st) pid = Some old \<and> x \<in> set (mi_starts old) \<and> x \<noteq> ov \<longrightarrow>
        x \<in> set (mi_starts idx) \<or> x = 0"
    and "ts_mmap st' = ts_mmap st" "lru_roomy (ts_mmap_index st')"
proof (cases "lru_lookup (ts_mmap_index st) pid")
  case None
  let ?i = "\<lparr>mi_starts = start # replicate (TE_MMAP_INDEX_SLOTS - 1) 0, mi_next = 1\<rparr>"
  have "st' = st\<lparr>ts_mmap_index := lru_put pid ?i (ts_mmap_index st)\<rparr>"
    using eq None s by (simp add: te_mmap_index_remember_def)
  then show ?thesis using that [of ?i] roomy None by simp
next
  case (Some old)
  have old: "length (mi_starts old) = TE_MMAP_INDEX_SLOTS" "unat (mi_next old) < TE_MMAP_INDEX_SLOTS"
    using ok Some by (auto simp: mmaps_ok_def)
  let ?k = "unat (mi_next old)" and ?c = "map (\<lambda>x. if x = start then 0 else x) (mi_starts old)"
  have k: "\<not> 8 \<le> mi_next old" using old(2) by (simp add: word_le_nat_alt)
  let ?i = "\<lparr>mi_starts = ?c[?k := start],
      mi_next = (if mi_next old + 1 \<ge> of_nat TE_MMAP_INDEX_SLOTS then 0 else mi_next old + 1)\<rparr>"
  have eq': "ov = (if ?c ! ?k = start then 0 else ?c ! ?k)"
    "st' = st\<lparr>ts_mmap_index := lru_modify pid (\<lambda>_. ?i) (ts_mmap_index st)\<rparr>"
    using eq Some s k by (auto simp: te_mmap_index_remember_def Let_def clear_start_eq old(1))
  have nz: "?c ! ?k \<noteq> start" using old s by simp
  have keep: "x \<in> set (?c[?k := start])" if "x \<in> set (mi_starts old)" "x \<noteq> ov" "x \<noteq> 0" for x
  proof (cases "x = start")
    case True
    then show ?thesis using old by (simp add: set_update_memI)
  next
    case False
    then have "x \<in> set ?c" using that(1) by (simp add: image_iff)
    then obtain j where j: "j < length ?c" "?c ! j = x" by (auto simp: in_set_conv_nth)
    then have "j \<noteq> ?k" using that(2) nz eq'(1) by auto
    then have at: "?c[?k := start] ! j = x" using j by simp
    have "j < length (?c[?k := start])" using j by simp
    from nth_mem [OF this] show ?thesis by (simp only: at)
  qed
  have nxt: "unat (mi_next ?i) < TE_MMAP_INDEX_SLOTS"
    by (simp add: word_le_nat_alt)
  show ?thesis
  proof (rule that [of ?i])
    show "lru_lookup (ts_mmap_index st') = (lru_lookup (ts_mmap_index st))(pid \<mapsto> ?i)"
      using Some by (simp add: eq'(2) fun_eq_iff)
    show "\<forall>x o'. lru_lookup (ts_mmap_index st) pid = Some o' \<and> x \<in> set (mi_starts o') \<and> x \<noteq> ov \<longrightarrow>
        x \<in> set (mi_starts ?i) \<or> x = 0"
      using keep Some by auto
    show "start \<in> set (mi_starts ?i)" using old by (simp add: set_update_memI)
  qed (use nxt old roomy eq' in simp_all)
qed


lemma mmaps_ok_same: "same_tables s t \<Longrightarrow> mmaps_ok s = mmaps_ok t"
  using same_tables_fields [of s t] by (simp add: mmaps_ok_def)

text \<open>Replacing the index of a process, once the mappings it no longer lists are gone.\<close>

lemma mmaps_ok_reindex:
  fixes st st' :: "'a tables_scheme"
  assumes "mmaps_ok st" "lru_lookup (ts_mmap_index st') = (lru_lookup (ts_mmap_index st))(pid \<mapsto> idx)"
    and "length (mi_starts idx) = TE_MMAP_INDEX_SLOTS" "unat (mi_next idx) < TE_MMAP_INDEX_SLOTS"
    and "\<forall>k m. lru_lookup (ts_mmap st') k = Some m \<longrightarrow>
           lru_lookup (ts_mmap st) k \<noteq> None \<or> k \<in> te_mmap_key pid ` (set (mi_starts idx) - {0})"
    and "\<forall>start m. lru_lookup (ts_mmap st') (te_mmap_key pid start) = Some m \<longrightarrow> start \<in> set (mi_starts idx)"
  shows "mmaps_ok st'"
  unfolding mmaps_ok_def
proof (intro conjI allI impI)
  fix p start m
  assume m: "lru_lookup (ts_mmap st') (te_mmap_key p start) = Some m"
  then have c: "lru_lookup (ts_mmap st) (te_mmap_key p start) \<noteq> None \<or>
      p = pid \<and> start \<in> set (mi_starts idx) - {0}"
    using assms(5) by fastforce
  then show "start \<noteq> 0" using assms(1) by (auto simp: mmaps_ok_def)
  show "\<exists>idx. lru_lookup (ts_mmap_index st') p = Some idx \<and> start \<in> set (mi_starts idx)"
  proof (cases "p = pid")
    case True
    then show ?thesis using assms(2,6) m by auto
  next
    case False
    then show ?thesis using assms(1,2) c by (auto simp: mmaps_ok_def)
  qed
qed (use assms in \<open>auto simp: mmaps_ok_def split: if_splits\<close>)

lemma mmaps_ok_sub:
  "mmaps_ok st \<Longrightarrow> dom (lru_lookup (ts_mmap st')) \<subseteq> dom (lru_lookup (ts_mmap st)) \<Longrightarrow>
    ts_mmap_index st' = ts_mmap_index st \<Longrightarrow> mmaps_ok st'"
  unfolding mmaps_ok_def by (simp add: dom_def subset_iff) blast

lemma mmaps_ok_drop: "mmaps_ok st \<Longrightarrow> mmaps_ok (drop_mmap pid start st)"
  by (erule mmaps_ok_sub) (auto simp: drop_mmap_def dom_def split: if_splits)

lemma drop_mmap_fields [simp]:
  "ts_mmap_index (drop_mmap pid start st) = ts_mmap_index st"
  "lru_lookup (ts_mmap (drop_mmap pid start st)) k =
     (if k = te_mmap_key pid start then None else lru_lookup (ts_mmap st) k)"
  by (simp_all add: drop_mmap_def)

text \<open>Recording a mapping: what the two callers do after they have dropped the mapping it displaces.\<close>

lemma mmaps_ok_record:
  fixes st :: "'a tables_scheme"
  assumes ok: "mmaps_ok st" and roomy: "lru_roomy (ts_mmap_index st)" and s: "start \<noteq> 0"
    and eq: "te_mmap_index_remember pid start st = (ov, st1)"
    and st2: "st2 = (if ov \<noteq> 0 then drop_mmap pid ov st1 else st1)"
  shows "mmaps_ok (st2\<lparr>ts_mmap := lru_put (te_mmap_key pid start) m (ts_mmap st2)\<rparr>)"
    "lru_roomy (ts_mmap_index (st2\<lparr>ts_mmap := lru_put (te_mmap_key pid start) m (ts_mmap st2)\<rparr>))"
proof -
  from remember [OF ok roomy s eq] obtain idx where
    i: "lru_lookup (ts_mmap_index st1) = (lru_lookup (ts_mmap_index st))(pid \<mapsto> idx)"
      "length (mi_starts idx) = TE_MMAP_INDEX_SLOTS" "unat (mi_next idx) < TE_MMAP_INDEX_SLOTS" "start \<in> set (mi_starts idx)"
    and keep: "\<forall>x old. lru_lookup (ts_mmap_index st) pid = Some old \<and> x \<in> set (mi_starts old) \<and> x \<noteq> ov \<longrightarrow>
        x \<in> set (mi_starts idx) \<or> x = 0"
    and m1: "ts_mmap st1 = ts_mmap st" "lru_roomy (ts_mmap_index st1)" by metis
  let ?t = "st2\<lparr>ts_mmap := lru_put (te_mmap_key pid start) m (ts_mmap st2)\<rparr>"
  have idx2: "ts_mmap_index ?t = ts_mmap_index st1" by (simp add: st2)
  then show "lru_roomy (ts_mmap_index ?t)" using m1 by simp
  have from2: "k = te_mmap_key pid start \<or> lru_lookup (ts_mmap st2) k = Some w"
    if "lru_lookup (ts_mmap ?t) k = Some w" for k w
    using lru.put_kept [of "te_mmap_key pid start" m "ts_mmap st2" k w] that by auto
  have from1: "lru_lookup (ts_mmap st) k = Some w \<and> (ov \<noteq> 0 \<longrightarrow> k \<noteq> te_mmap_key pid ov)"
    if "lru_lookup (ts_mmap st2) k = Some w" for k w
    using that m1 by (auto simp: st2 split: if_splits)
  show "mmaps_ok ?t"
  proof (rule mmaps_ok_reindex [OF ok, of ?t pid idx])
    show "\<forall>k w. lru_lookup (ts_mmap ?t) k = Some w \<longrightarrow>
        lru_lookup (ts_mmap st) k \<noteq> None \<or> k \<in> te_mmap_key pid ` (set (mi_starts idx) - {0})"
      using from1 from2 i(4) s by blast
    show "\<forall>x w. lru_lookup (ts_mmap ?t) (te_mmap_key pid x) = Some w \<longrightarrow> x \<in> set (mi_starts idx)"
    proof (intro allI impI)
      fix x w
      assume "lru_lookup (ts_mmap ?t) (te_mmap_key pid x) = Some w"
      then consider "x = start" | "lru_lookup (ts_mmap st) (te_mmap_key pid x) = Some w" "ov \<noteq> 0 \<longrightarrow> x \<noteq> ov"
        using from1 from2 by fastforce
      then show "x \<in> set (mi_starts idx)"
      proof cases
        case 2
        then obtain old where "lru_lookup (ts_mmap_index st) pid = Some old" "x \<in> set (mi_starts old)" "x \<noteq> 0"
          using ok unfolding mmaps_ok_def by meson
        with 2 keep show ?thesis by blast
      qed (simp add: i(4))
    qed
  qed (use i idx2 in simp_all)
qed


text \<open>The invariant with the index map never reclaimed from.\<close>

definition tracked :: "'a tables_scheme \<Rightarrow> bool" where
  "tracked st \<longleftrightarrow> mmaps_ok st \<and> lru_roomy (ts_mmap_index st)"

lemma tracked_same: "same_tables s t \<Longrightarrow> tracked s = tracked t"
  using same_tables_fields [of s t] mmaps_ok_same [of s t] by (simp add: tracked_def)

lemma tracked_store: "tracked st \<Longrightarrow> tracked (te_store_mmap_ref pid start p r st)"
proof (cases "mp_len p = 0 \<or> start = 0")
  case False
  assume t: "tracked st"
  obtain ov st1 where eq: "te_mmap_index_remember pid start st = (ov, st1)" by fastforce
  from mmaps_ok_record [OF _ _ _ eq refl] t False show ?thesis
    by (simp add: te_store_mmap_ref_def eq tracked_def Let_def)
qed (simp add: te_store_mmap_ref_def)

lemma tracked_forget: "tracked st \<Longrightarrow> tracked (te_mmap_index_forget pid start (drop_mmap pid start st))"
proof (cases "start \<noteq> 0 \<and> lru_lookup (ts_mmap_index st) pid \<noteq> None")
  case True
  assume t: "tracked st"
  from True obtain old where old: "lru_lookup (ts_mmap_index st) pid = Some old" by auto
  have o: "length (mi_starts old) = TE_MMAP_INDEX_SLOTS" "unat (mi_next old) < TE_MMAP_INDEX_SLOTS"
    using t old by (auto simp: tracked_def mmaps_ok_def)
  let ?i = "old\<lparr>mi_starts := clear_start start (mi_starts old)\<rparr>"
  let ?t = "te_mmap_index_forget pid start (drop_mmap pid start st)"
  have i: "lru_lookup (ts_mmap_index ?t) = (lru_lookup (ts_mmap_index st))(pid \<mapsto> ?i)"
    using True old by (simp add: te_mmap_index_forget_def fun_eq_iff)
  have m: "lru_lookup (ts_mmap ?t) k = (if k = te_mmap_key pid start then None else lru_lookup (ts_mmap st) k)" for k
    using True by (simp add: te_mmap_index_forget_def)
  have ok: "mmaps_ok st" using t by (simp add: tracked_def)
  have "mmaps_ok ?t"
  proof (rule mmaps_ok_reindex [OF ok i])
    show "\<forall>x w. lru_lookup (ts_mmap ?t) (te_mmap_key pid x) = Some w \<longrightarrow> x \<in> set (mi_starts ?i)"
    proof (intro allI impI)
      fix x w
      assume "lru_lookup (ts_mmap ?t) (te_mmap_key pid x) = Some w"
      then have x: "x \<noteq> start" "lru_lookup (ts_mmap st) (te_mmap_key pid x) = Some w"
        by (auto simp: m split: if_splits)
      then have "x \<in> set (mi_starts old)" using ok old unfolding mmaps_ok_def by fastforce
      then show "x \<in> set (mi_starts ?i)" using x(1) by (simp add: clear_start_eq [OF o(1)] image_iff)
    qed
  qed (use o in \<open>simp_all add: clear_start_eq m\<close>)
  then show ?thesis using t True by (simp add: tracked_def te_mmap_index_forget_def)
next
  case False
  assume t: "tracked st"
  have "lru_modify pid f (ts_mmap_index st) = ts_mmap_index st" if "lru_lookup (ts_mmap_index st) pid = None" for f
    using that by (simp add: lru_modify_def lru_lookup_def)
  then show ?thesis using False t mmaps_ok_drop [of st pid start]
    by (cases "start = 0") (auto simp: tracked_def te_mmap_index_forget_def drop_mmap_def)
qed

lemma tracked_access: "tracked (te_apply_mmap_access pid m prot st) = tracked st"
  by (rule tracked_same) simp

lemma tracked_mprotect: "tracked st \<Longrightarrow> tracked (te_handle_mprotect_range pid start len prot st)"
proof (cases "len \<noteq> 0 \<and> lru_lookup (ts_mmap st) (te_mmap_key pid start) \<noteq> None")
  case True
  assume t: "tracked st"
  from True obtain m where m: "lru_lookup (ts_mmap st) (te_mmap_key pid start) = Some m" by auto
  let ?s = "te_apply_mmap_access pid m prot st"
  have "tracked ?s" using t by (simp add: tracked_access)
  then have "tracked (?s\<lparr>ts_mmap := lru_modify (te_mmap_key pid start) (\<lambda>m. m\<lparr>mr_prot := prot\<rparr>) (ts_mmap ?s)\<rparr>)"
    unfolding tracked_def by (auto elim!: mmaps_ok_sub split: if_splits)
  then show ?thesis using t True m by (simp add: te_handle_mprotect_range_def Let_def)
qed (auto simp: te_handle_mprotect_range_def)

lemma tracked_delete_range: "tracked st \<Longrightarrow> tracked (te_delete_mmap_range pid start len st)"
  by (simp add: te_delete_mmap_range_def tracked_forget split: option.splits)

lemma tracked_mremap: "tracked st \<Longrightarrow> tracked (te_handle_mremap_range pid old_addr old_size new_addr new_size st)"
proof (cases "old_size = 0 \<or> new_size = 0 \<or> new_addr = 0")
  case False
  assume t: "tracked st"
  show ?thesis
  proof (cases "lru_lookup (ts_mmap st) (te_mmap_key pid old_addr)")
    case None
    then show ?thesis using t by (simp add: te_handle_mremap_range_def)
  next
    case (Some m)
    let ?s = "te_apply_mmap_access pid m (mr_prot m) st"
    let ?f = "te_mmap_index_forget pid old_addr (drop_mmap pid old_addr ?s)"
    have f: "tracked ?f" using t by (intro tracked_forget) (simp add: tracked_access)
    obtain ov st1 where eq: "te_mmap_index_remember pid new_addr ?f = (ov, st1)" by fastforce
    have gone: "lru_lookup (ts_mmap ?f) (te_mmap_key pid old_addr) = None"
      by (simp add: te_mmap_index_forget_def)
    from f False have ok: "mmaps_ok ?f" "lru_roomy (ts_mmap_index ?f)" "new_addr \<noteq> 0" by (simp_all add: tracked_def)
    from remember [OF this eq] have same: "ts_mmap st1 = ts_mmap ?f" by metis
    have drop: "drop_mmap pid ov st1 = st1" if "ov = old_addr"
      using gone that unfolding same [symmetric]
      by (cases st1) (simp add: drop_mmap_def lru_delete_def lru_lookup_def fun_upd_idem)
    have "(if ov \<noteq> 0 \<and> ov \<noteq> old_addr then drop_mmap pid ov st1 else st1) =
        (if ov \<noteq> 0 then drop_mmap pid ov st1 else st1)" using drop by auto
    then show ?thesis
      using t False Some mmaps_ok_record [OF ok eq refl, of "m\<lparr>mr_start := new_addr, mr_end := te_range_end new_addr new_size\<rparr>"]
      by (simp add: te_handle_mremap_range_def Let_def eq tracked_def)
  qed
qed (simp add: te_handle_mremap_range_def)


lemma drop_all:
  "ts_mmap_index (fold (\<lambda>i st. let s = xs ! i in if s = 0 then st else drop_mmap pid s st) is st) = ts_mmap_index st"
  "lru_lookup (ts_mmap (fold (\<lambda>i st. let s = xs ! i in if s = 0 then st else drop_mmap pid s st) is st)) k =
     (if k \<in> te_mmap_key pid ` ((\<lambda>i. xs ! i) ` set is - {0}) then None else lru_lookup (ts_mmap st) k)"
  by (induction "is" arbitrary: st) (auto simp: Let_def)

text \<open>After the exit of a process no mapping of it is left, and the mappings of others are untouched.\<close>

lemma delete_mmaps:
  fixes st :: "'a tables_scheme"
  assumes "tracked st"
  shows "lru_lookup (ts_mmap (te_delete_mmaps pid st)) k =
      (if mk_pid k = pid then None else lru_lookup (ts_mmap st) k)"
    "tracked (te_delete_mmaps pid st)"
proof -
  have ok: "mmaps_ok st" using assms by (simp add: tracked_def)
  have k: "k = te_mmap_key (mk_pid k) (mk_start k)" for k by (simp add: te_mmap_key_def)
  have *: "lru_lookup (ts_mmap (te_delete_mmaps pid st)) k = (if mk_pid k = pid then None else lru_lookup (ts_mmap st) k)" for k
  proof (cases "lru_lookup (ts_mmap_index st) pid")
    case None
    have "lru_lookup (ts_mmap st) k = None" if "mk_pid k = pid"
      using ok None that k [of k] unfolding mmaps_ok_def by (metis not_None_eq)
    then show ?thesis using None by (simp add: te_delete_mmaps_def)
  next
    case (Some idx)
    have len: "length (mi_starts idx) = TE_MMAP_INDEX_SLOTS" using ok Some by (auto simp: mmaps_ok_def)
    have set: "(\<lambda>i. mi_starts idx ! i) ` set [0..<TE_MMAP_INDEX_SLOTS] = set (mi_starts idx)"
      using map_nth [of "mi_starts idx"] by (metis len set_map)
    have "lru_lookup (ts_mmap (te_delete_mmaps pid st)) k =
        (if k \<in> te_mmap_key pid ` (set (mi_starts idx) - {0}) then None else lru_lookup (ts_mmap st) k)"
      using drop_all(2) [of "mi_starts idx" pid "[0..<TE_MMAP_INDEX_SLOTS]" st k] unfolding set
      by (simp add: te_delete_mmaps_def Some Let_def)
    moreover have "k \<in> te_mmap_key pid ` (set (mi_starts idx) - {0})" if "mk_pid k = pid" "lru_lookup (ts_mmap st) k = Some m" for m
    proof -
      have "mk_start k \<noteq> 0 \<and> mk_start k \<in> set (mi_starts idx)"
        using ok Some that(2) k [of k] unfolding mmaps_ok_def that(1) by (metis option.inject)
      then have s: "mk_start k \<in> set (mi_starts idx) - {0}" by simp
      have e: "k = te_mmap_key pid (mk_start k)" using k [of k] unfolding that(1) .
      show ?thesis using s by (rule image_eqI [where f = "te_mmap_key pid", OF e])
    qed
    moreover have "mk_pid k = pid" if "k \<in> te_mmap_key pid ` (set (mi_starts idx) - {0})"
      using that by (auto simp: te_mmap_key_def)
    ultimately show ?thesis by (metis not_None_eq)
  qed
  then show "lru_lookup (ts_mmap (te_delete_mmaps pid st)) k =
      (if mk_pid k = pid then None else lru_lookup (ts_mmap st) k)" .
  have i: "lru_lookup (ts_mmap_index (te_delete_mmaps pid st)) = (lru_lookup (ts_mmap_index st))(pid := None)"
    "lru_roomy (ts_mmap_index (te_delete_mmaps pid st))"
    using assms drop_all(1) [of _ pid _ st]
    by (auto simp: te_delete_mmaps_def Let_def fun_eq_iff tracked_def split: option.splits)
  show "tracked (te_delete_mmaps pid st)"
    using ok unfolding tracked_def mmaps_ok_def i(1) * by (auto simp: i(2) te_mmap_key_def)
qed

text \<open>The invariant bounds what is kept of a process: eight mappings.\<close>

lemma tracked_bound:
  assumes "tracked st"
  shows "finite {start. lru_lookup (ts_mmap st) (te_mmap_key pid start) \<noteq> None}"
    "card {start. lru_lookup (ts_mmap st) (te_mmap_key pid start) \<noteq> None} \<le> TE_MMAP_INDEX_SLOTS"
proof -
  let ?S = "{start. lru_lookup (ts_mmap st) (te_mmap_key pid start) \<noteq> None}"
  have ok: "mmaps_ok st" using assms by (simp add: tracked_def)
  have "finite ?S \<and> card ?S \<le> TE_MMAP_INDEX_SLOTS"
  proof (cases "lru_lookup (ts_mmap_index st) pid")
    case None
    then have "?S = {}" using ok unfolding mmaps_ok_def by fastforce
    then show ?thesis by simp
  next
    case (Some idx)
    then have sub: "?S \<subseteq> set (mi_starts idx)" and len: "length (mi_starts idx) = TE_MMAP_INDEX_SLOTS"
      using ok unfolding mmaps_ok_def by fastforce+
    then show ?thesis
      using card_mono [OF _ sub] card_length [of "mi_starts idx"] finite_subset [OF sub] by simp
  qed
  then show "finite ?S" "card ?S \<le> TE_MMAP_INDEX_SLOTS" by simp_all
qed


section \<open>Properties\<close>

lemma in_scan: "(fd :: s32) \<in> of_nat ` {..<n} \<longleftrightarrow> unat fd < n" if "n \<le> 64"
proof
  assume "unat fd < n"
  then show "fd \<in> of_nat ` {..<n}" by (intro image_eqI [of _ _ "unat fd"]) simp_all
next
  assume "fd \<in> of_nat ` {..<n}"
  then show "unat fd < n" using that small_word(1) by auto
qed

text \<open>A task with a file on descriptor 3, a connection on 4 and one mapping.\<close>

definition lru_empty :: "('k, 'v) lru_hash" where
  "lru_empty = lru_new (\<lambda>_ _. False) (\<lambda>_. False)"

definition shadow_ref :: fd_ref where
  "shadow_ref = \<lparr>fr_path = padded MAX_FILENAME_LEN (str_bytes ''/etc/shadow''), fr_fid = \<lparr>fi_ino = 5, fi_dev = 1, fi_pad = 0\<rparr>\<rparr>"

definition guard_tables :: tables where
  "guard_tables = sensor.extend guard_sensor
     (tables.fields lru_empty lru_empty (lru_put (te_fd_key 100 3) shadow_ref lru_empty) lru_empty
        (lru_put (te_fd_key 100 4) 0x0100007F lru_empty) lru_empty lru_empty lru_empty lru_empty lru_empty lru_empty lru_empty
        (lru_put (te_mmap_key 100 4096)
           \<lparr>mr_path = fr_path shadow_ref, mr_start = 4096, mr_end = 8192, mr_prot = 1, mr_flags = 1, mr_fid = fr_fid shadow_ref\<rparr> lru_empty)
        (lru_put 100 \<lparr>mi_starts = 4096 # replicate 7 0, mi_next = 1\<rparr> lru_empty)
        lru_empty lru_empty lru_empty lru_empty None
        (\<lambda>_. \<lparr>ff_path = \<lparr>pa_d_path = (0, []), pa_dentry = \<lparr>de_name = None, de_inode = None\<rparr>\<rparr>, ff_inode = None, ff_flags = 0\<rparr>)
        (\<lambda>_. None))"

lemmas guard_tables_defs = guard_tables_def sensor.extend_def tables.fields_def

lemma lru_empty [simp]: "lru_roomy lru_empty" "lru_lookup lru_empty = Map.empty"
  by (simp_all add: lru_empty_def)

lemma guard_tables_engine:
  "engine.truncate guard_tables = engine.truncate guard_sensor" "cur_pid guard_tables = 100" "cur_pid_tgid guard_tables = 0x6400000064"
  by (simp_all add: guard_tables_defs engine.truncate_def guard_sensor_def engine.extend_def sensor.fields_def cur_pid_def)

lemma guard_tables_fields:
  "lru_lookup (ts_fd guard_tables) = [te_fd_key 100 3 \<mapsto> shadow_ref]"
  "lru_lookup (ts_sockfd guard_tables) = [te_fd_key 100 4 \<mapsto> 0x0100007F]"
  "lru_roomy (ts_fd guard_tables)" "lru_roomy (ts_sockfd guard_tables)"
  by (simp_all add: guard_tables_defs)

lemma guard_tables_active: "te_pid_active guard_tables 100" "te_pid_active guard_tables 200"
proof -
  have "te_pid_active guard_tables p = te_pid_active guard_sensor p" for p
    using te_pid_active_truncate [of guard_tables p] te_pid_active_truncate [of guard_sensor p] guard_tables_engine(1) by simp
  then show "te_pid_active guard_tables 100" "te_pid_active guard_tables 200"
    by (simp_all add: guard_active) (simp add: te_pid_active_def cap_task_bound_def guard_defs example_simps)
qed

lemma guard_fds_ok: "fds_ok guard_tables"
proof -
  have "length (fr_path shadow_ref) = MAX_FILENAME_LEN \<and> last (fr_path shadow_ref) = 0"
    by (simp add: shadow_ref_def padded_def str_bytes_def)
  then show ?thesis by (simp add: fds_ok_def guard_tables_fields)
qed

lemma guard_tracked: "tracked guard_tables"
  by (auto simp: tracked_def mmaps_ok_def guard_tables_defs split: if_splits)

text \<open>C40: a fork gives the child what the parent's first 64 descriptors stand for. The file or pipe a parent
  descriptor below 64 names is what the child's names afterwards; its connected peer is copied with it, and a
  peer the child had under that number before is forgotten when the parent's descriptor is a file. Where the
  parent has nothing on record the child keeps what was recorded for that number and process id before.
  Descriptors from 64 on and those of every other process are as they were.\<close>

theorem te_copy_fork_fds_copies:
  assumes "te_pid_active st src" "te_pid_active st dst" "src \<noteq> dst"
    and "lru_roomy (ts_fd st)" "lru_roomy (ts_sockfd st)" "fds_ok st"
  shows "te_lookup_fd (te_copy_fork_fds src dst st) p fd =
      (if p = dst \<and> unat fd < TE_FORK_FD_SCAN \<and> te_lookup_fd st src fd \<noteq> None
       then te_lookup_fd st src fd else te_lookup_fd st p fd) \<and>
    te_lookup_sockfd (te_copy_fork_fds src dst st) p fd =
      (if p = dst \<and> unat fd < TE_FORK_FD_SCAN
       then (case te_lookup_sockfd st src fd of
               Some ip \<Rightarrow> Some ip
             | None \<Rightarrow> if te_lookup_fd st src fd = None then te_lookup_sockfd st dst fd else None)
       else te_lookup_sockfd st p fd)"
proof -
  note copied = copy_all [OF assms(4,5,6,3) order_refl]
  have eq: "te_copy_fork_fds src dst st = fold (\<lambda>fd. copy_one src dst (of_nat fd)) [0..<TE_FORK_FD_SCAN] st"
    using assms(1,2) by (simp add: te_copy_fork_fds_def copy_one_def [abs_def])
  show ?thesis
    using copied unfolding eq [symmetric]
    by (auto simp: te_lookup_fd_def te_lookup_sockfd_def copied_fd_def copied_sockfd_def in_scan split: option.split)
qed

theorem te_copy_fork_fds_copies_witness:
  "te_lookup_fd (te_copy_fork_fds 100 200 guard_tables) 200 3 = Some shadow_ref \<and>
   te_lookup_sockfd (te_copy_fork_fds 100 200 guard_tables) 200 4 = Some 0x0100007F"
  using te_copy_fork_fds_copies [OF guard_tables_active _ guard_tables_fields(3,4) guard_fds_ok, of 200 3]
    te_copy_fork_fds_copies [OF guard_tables_active _ guard_tables_fields(3,4) guard_fds_ok, of 200 4]
  by (simp add: te_lookup_fd_def te_lookup_sockfd_def guard_tables_fields)


end
