(* ===== verification/Hooks.thy ===== *)
theory Hooks
  imports Fd_Properties
begin

text \<open>
  The LSM hooks and the scheduler tracepoints (\<^verbatim>\<open>bpf/process.bpf.c\<close>). Each hook names the
  object it was given, resolves it, and hands the event to the handlers of \<open>Sensor\<close>; the LSM hooks
  deny by returning \<^verbatim>\<open>-EPERM\<close>. Three further hooks protect the control plane: signals and ptrace
  aimed at a protected process, and the \<^verbatim>\<open>bpf\<close> system call.
\<close>

section \<open>Resolving and handling\<close>

definition te_handle_file :: "file_ref \<Rightarrow> u32 \<Rightarrow> u32 \<Rightarrow> 'a tables_scheme \<Rightarrow> int \<times> 'a tables_scheme" where
  "te_handle_file ref access mode st =
     (if mode = TE_MODE_BLOCK \<and> enforce_mode st = 0 then (0, st)
      else if access = 0 then (0, st)
      else if \<not> te_pid_active st (cur_pid st) then (0, st)
      else case te_resolve_file_ref (user_mem st) ref of
             None \<Rightarrow> (0, st)
           | Some path \<Rightarrow>
               let fid = te_resolve_file_id ref path
               in if \<not> te_is_regular_or_dir ref then (0, st)
                  else te_handle_file_event (cur_pid st) path fid access mode st)"

definition te_handle_file_permission :: "kfile \<Rightarrow> u32 \<Rightarrow> u32 \<Rightarrow> 'a tables_scheme \<Rightarrow> int \<times> 'a tables_scheme" where
  "te_handle_file_permission f access mode st =
     (if mode = TE_MODE_BLOCK \<and> enforce_mode st = 0 then (0, st)
      else if access = 0 then (0, st)
      else if \<not> te_pid_active st (cur_pid st) then (0, st)
      else case file_basename f of
             None \<Rightarrow> (0, st)
           | Some path \<Rightarrow>
               te_handle_file_event (cur_pid st) path (te_resolve_file_id (TE_REF_FILE f) path) access mode st)"

abbreviation (input) TAINT_PAT_BUF :: bytes where "TAINT_PAT_BUF \<equiv> replicate 64 0"

definition net_event :: "pid_t \<Rightarrow> u32 \<Rightarrow> u32 \<Rightarrow> u32 \<Rightarrow> te_event" where
  "net_event pid access mode ip =
     \<lparr>te_pid = pid, te_obj_kind = TE_OBJ_ENDPOINT, te_access = access, te_mode = mode,
      te_target = TAINT_PAT_BUF, te_display = None, te_ip = ip\<rparr>"

definition te_handle_net :: "net_ref \<Rightarrow> u32 \<Rightarrow> u32 \<Rightarrow> 'a tables_scheme \<Rightarrow> int \<times> 'a tables_scheme" where
  "te_handle_net ref access mode st =
     (if mode = TE_MODE_BLOCK \<and> enforce_mode st = 0 then (0, st)
      else if access AND (TE_ACCESS_CONNECT OR TE_ACCESS_RECV) = 0 then (0, st)
      else if \<not> te_pid_active st (cur_pid st) then (0, st)
      else case (case ref of
                   TE_REF_SOCKET sk \<Rightarrow> te_resolve_socket_peer_ipv4 sk
                 | _ \<Rightarrow> te_resolve_sockaddr (user_mem st) ref) of
             None \<Rightarrow> (0, st)
           | Some ip \<Rightarrow> te_handle_event (net_event (cur_pid st) access mode ip) None st)"

definition te_handle_net_ip :: "u32 \<Rightarrow> u32 \<Rightarrow> u32 \<Rightarrow> 'a tables_scheme \<Rightarrow> int \<times> 'a tables_scheme" where
  "te_handle_net_ip ip access mode st =
     (if mode = TE_MODE_BLOCK \<and> enforce_mode st = 0 then (0, st)
      else if ip = 0 \<or> access AND (TE_ACCESS_CONNECT OR TE_ACCESS_RECV) = 0 then (0, st)
      else if \<not> te_pid_active st (cur_pid st) then (0, st)
      else te_handle_event (net_event (cur_pid st) access mode ip) None st)"

definition te_handle_fd_event :: "s32 \<Rightarrow> u32 \<Rightarrow> u32 \<Rightarrow> 'a tables_scheme \<Rightarrow> int \<times> 'a tables_scheme" where
  "te_handle_fd_event fd access mode st =
     (if mode = TE_MODE_BLOCK \<and> enforce_mode st = 0 then (0, st)
      else if access = 0 then (0, st)
      else if \<not> te_pid_active st (cur_pid st) then (0, st)
      else case te_lookup_fd st (cur_pid st) fd of
             None \<Rightarrow> (0, st)
           | Some ref \<Rightarrow> te_handle_file_event (cur_pid st) (fr_path ref) (fr_fid ref) access mode st)"

text \<open>The standard channels (\<^verbatim>\<open>channel.bpf.h\<close>).\<close>

definition chan_set :: "nat \<Rightarrow> bytes \<Rightarrow> bytes option" where
  "chan_set dst_sz src = (if dst_sz < Suc (length src) then None else Some (padded dst_sz src))"

definition chan_fd_target :: "s32 \<Rightarrow> u32 \<Rightarrow> nat \<Rightarrow> bytes option" where
  "chan_fd_target fd access target_sz =
     (if access AND TE_ACCESS_READ \<noteq> 0 \<and> fd = 0 then chan_set target_sz (str_bytes ''stdio:stdin'')
      else if access AND TE_ACCESS_WRITE \<noteq> 0 \<and> fd = 1 then chan_set target_sz (str_bytes ''stdio:stdout'')
      else if access AND TE_ACCESS_WRITE \<noteq> 0 \<and> fd = 2 then chan_set target_sz (str_bytes ''stdio:stderr'')
      else None)"

definition te_handle_channel :: "s32 \<Rightarrow> u32 \<Rightarrow> u32 \<Rightarrow> 'a tables_scheme \<Rightarrow> int \<times> 'a tables_scheme" where
  "te_handle_channel fd access mode st =
     (if mode = TE_MODE_BLOCK \<and> enforce_mode st = 0 then (0, st)
      else if \<not> te_pid_active st (cur_pid st) then (0, st)
      else case chan_fd_target fd access MAX_FILENAME_LEN of
             None \<Rightarrow> (0, st)
           | Some path \<Rightarrow>
               te_handle_file_event (cur_pid st) path \<lparr>fi_ino = te_fnv1a path, fi_dev = 0, fi_pad = 0\<rparr> access mode st)"

datatype exec_ref =
    TE_REF_BPRM linux_binprm
  | TE_REF_STRINGS "bytes option" "bytes option"

definition te_handle_exec :: "exec_ref \<Rightarrow> u32 \<Rightarrow> 'a tables_scheme \<Rightarrow> int \<times> 'a tables_scheme" where
  "te_handle_exec ref mode st =
     (if mode = TE_MODE_BLOCK \<and> enforce_mode st = 0 then (0, st)
      else if \<not> te_pid_active st (cur_pid st) then (0, st)
      else case ref of
             TE_REF_BPRM bprm \<Rightarrow>
               (case bprm_basename bprm (replicate TAINT_TEXT_BUF 0) of
                  None \<Rightarrow> (0, st)
                | Some m \<Rightarrow>
                    let x = \<lparr>xs_match = m,
                             xs_display = (case bprm_filename bprm PATH_BUF of
                                             Some d \<Rightarrow> d
                                           | None \<Rightarrow> m @ drop TAINT_TEXT_BUF PATH_BUF)\<rparr>;
                        st = (if mode = TE_MODE_BLOCK
                              then st\<lparr>ts_argslots := \<lparr>as_blob = replicate TAINT_ARGV_CAP 0,
                                                      as_slots = replicate (MAX_ARG_SLOTS * TAINT_ARG_LEN) 0\<rparr>\<rparr>
                              else st)
                    in te_handle_exec_event (cur_pid st) (Some (xs_mem x)) (Some (xs_display x)) mode st)
           | TE_REF_STRINGS a b \<Rightarrow>
               (case a of
                  None \<Rightarrow> (0, st)
                | Some t \<Rightarrow> te_handle_exec_event (cur_pid st) (Some t) (Some (case b of Some s \<Rightarrow> s | None \<Rightarrow> t)) mode st))"

section \<open>LSM hooks\<close>

definition enforce_bprm_check_security :: "linux_binprm \<Rightarrow> 'a tables_scheme \<Rightarrow> int \<times> 'a tables_scheme" where
  "enforce_bprm_check_security bprm st = te_handle_exec (TE_REF_BPRM bprm) TE_MODE_BLOCK st"

definition enforce_file_open :: "kfile \<Rightarrow> 'a tables_scheme \<Rightarrow> int \<times> 'a tables_scheme" where
  "enforce_file_open f st =
     te_handle_file (TE_REF_FILE f) (te_access_from_open_flags (ff_flags f)) TE_MODE_BLOCK st"

definition enforce_file_permission :: "kfile \<Rightarrow> u32 \<Rightarrow> 'a tables_scheme \<Rightarrow> int \<times> 'a tables_scheme" where
  "enforce_file_permission f perm st = te_handle_file_permission f (te_access_from_perm_mask perm) TE_MODE_BLOCK st"

definition enforce_file_truncate :: "kfile \<Rightarrow> 'a tables_scheme \<Rightarrow> int \<times> 'a tables_scheme" where
  "enforce_file_truncate f st = te_handle_file_permission f TE_ACCESS_WRITE TE_MODE_BLOCK st"

definition enforce_mmap_file :: "kfile option \<Rightarrow> u64 \<Rightarrow> u64 \<Rightarrow> 'a tables_scheme \<Rightarrow> int \<times> 'a tables_scheme" where
  "enforce_mmap_file f prot flags st =
     (case f of
        None \<Rightarrow> (0, st)
      | Some f \<Rightarrow> te_handle_file_permission f (te_access_from_mmap prot flags) TE_MODE_BLOCK st)"

text \<open>The mapping of \<^verbatim>\<open>file_mprotect\<close>: its file, if it has one, and its flags.\<close>

definition enforce_file_mprotect ::
  "(kfile option \<times> u64) option \<Rightarrow> u64 \<Rightarrow> 'a tables_scheme \<Rightarrow> int \<times> 'a tables_scheme" where
  "enforce_file_mprotect vma prot st =
     (case vma of
        Some (Some f, vm_flags) \<Rightarrow>
          let map_flags = (if vm_flags AND 8 \<noteq> 0 then 1 else 2)
          in te_handle_file_permission f (te_access_from_mmap prot map_flags) TE_MODE_BLOCK st
      | _ \<Rightarrow> (0, st))"

definition enforce_path_truncate :: "kpath \<Rightarrow> 'a tables_scheme \<Rightarrow> int \<times> 'a tables_scheme" where
  "enforce_path_truncate path st = te_handle_file (TE_REF_PATH path) TE_ACCESS_WRITE TE_MODE_BLOCK st"

definition enforce_path_unlink :: "kpath \<Rightarrow> dentry \<Rightarrow> 'a tables_scheme \<Rightarrow> int \<times> 'a tables_scheme" where
  "enforce_path_unlink dir dentry st = te_handle_file (TE_REF_PATH_DENTRY dir dentry) TE_ACCESS_WRITE TE_MODE_BLOCK st"

definition enforce_path_rename ::
  "kpath \<Rightarrow> dentry \<Rightarrow> kpath \<Rightarrow> dentry \<Rightarrow> 'a tables_scheme \<Rightarrow> int \<times> 'a tables_scheme" where
  "enforce_path_rename old_dir old_dentry new_dir new_dentry st =
     (let (rc, st) = te_handle_file (TE_REF_PATH_DENTRY old_dir old_dentry) TE_ACCESS_WRITE TE_MODE_BLOCK st
      in if rc \<noteq> 0 then (rc, st)
         else te_handle_file (TE_REF_PATH_DENTRY new_dir new_dentry) TE_ACCESS_WRITE TE_MODE_BLOCK st)"

definition enforce_socket_connect :: "bytes option \<Rightarrow> 'a tables_scheme \<Rightarrow> int \<times> 'a tables_scheme" where
  "enforce_socket_connect address st = te_handle_net (TE_REF_SOCKADDR_KERN address) TE_ACCESS_CONNECT TE_MODE_BLOCK st"

definition enforce_socket_recvmsg :: "(u16 \<times> u32) option \<Rightarrow> 'a tables_scheme \<Rightarrow> int \<times> 'a tables_scheme" where
  "enforce_socket_recvmsg sock st = te_handle_net (TE_REF_SOCKET sock) TE_ACCESS_RECV TE_MODE_BLOCK st"

section \<open>The control plane\<close>

definition te_pid_protected :: "'a sensor_scheme \<Rightarrow> pid_t \<Rightarrow> bool" where
  "te_pid_protected st pid = (case map_lookup (te_protected_pids st) pid of None \<Rightarrow> False | Some v \<Rightarrow> v \<noteq> 0)"

definition te_pid_can_control_bpf :: "'a sensor_scheme \<Rightarrow> pid_t \<Rightarrow> bool" where
  "te_pid_can_control_bpf st pid =
     (if te_pid_protected st pid then True
      else
        let domain_id = cap_domain_for_pid st pid
        in if domain_id = 0 then False
           else case map_lookup (cap_states st) domain_id of
                  None \<Rightarrow> False
                | Some state \<Rightarrow> cs_authority_mask state \<noteq> 0)"

text \<open>The target of a signal or of ptrace, by its thread group.\<close>

definition te_protect_control_pid :: "'a sensor_scheme \<Rightarrow> pid_t option \<Rightarrow> int" where
  "te_protect_control_pid st target =
     (let caller = cur_pid st
      in if \<not> te_pid_active st caller then 0
         else case target of
                None \<Rightarrow> 0
              | Some target_tgid \<Rightarrow>
                  if sint target_tgid \<le> 0 \<or> target_tgid = caller then 0
                  else if \<not> te_pid_protected st target_tgid then 0
                  else - EPERM)"

definition enforce_task_kill :: "'a sensor_scheme \<Rightarrow> pid_t option \<Rightarrow> s32 \<Rightarrow> int" where
  "enforce_task_kill st target sig = (if sig = 0 then 0 else te_protect_control_pid st target)"

definition enforce_ptrace_access_check :: "'a sensor_scheme \<Rightarrow> pid_t option \<Rightarrow> int" where
  "enforce_ptrace_access_check st child = te_protect_control_pid st child"

abbreviation (input) BPF_MAP_LOOKUP_ELEM :: s32 where "BPF_MAP_LOOKUP_ELEM \<equiv> 1"
abbreviation (input) BPF_MAP_UPDATE_ELEM :: s32 where "BPF_MAP_UPDATE_ELEM \<equiv> 2"
abbreviation (input) BPF_MAP_DELETE_ELEM :: s32 where "BPF_MAP_DELETE_ELEM \<equiv> 3"
abbreviation (input) BPF_MAP_GET_NEXT_KEY :: s32 where "BPF_MAP_GET_NEXT_KEY \<equiv> 4"
abbreviation (input) BPF_OBJ_GET :: s32 where "BPF_OBJ_GET \<equiv> 7"
abbreviation (input) BPF_OBJ_GET_INFO_BY_FD :: s32 where "BPF_OBJ_GET_INFO_BY_FD \<equiv> 15"

definition enforce_bpf_syscall :: "'a sensor_scheme \<Rightarrow> s32 \<Rightarrow> int" where
  "enforce_bpf_syscall st cmd =
     (let caller = cur_pid st
      in if \<not> te_pid_active st caller then 0
         else if cmd = BPF_MAP_LOOKUP_ELEM \<or> cmd = BPF_MAP_GET_NEXT_KEY \<or> cmd = BPF_OBJ_GET \<or> cmd = BPF_OBJ_GET_INFO_BY_FD
         then 0
         else if cmd = BPF_MAP_UPDATE_ELEM \<or> cmd = BPF_MAP_DELETE_ELEM
         then (if te_pid_can_control_bpf st caller then 0 else - EPERM)
         else - EPERM)"

section \<open>Scheduler tracepoints\<close>

definition handle_fork :: "pid_t \<Rightarrow> 'a tables_scheme \<Rightarrow> 'a tables_scheme" where
  "handle_fork child_pid st =
     (let parent_tgid = cur_pid st
      in te_copy_fork_fds parent_tgid child_pid (te_fork parent_tgid child_pid st))"

definition handle_exec :: "exec_env \<Rightarrow> 'a tables_scheme \<Rightarrow> 'a tables_scheme" where
  "handle_exec env st =
     (let pid = cur_pid st
      in if \<not> te_pid_active st pid then st
         else
           let m = padded TASK_COMM_LEN (take (TASK_COMM_LEN - 1) (cur_comm st)) @ replicate (TAINT_TEXT_BUF - TASK_COMM_LEN) 0;
               x = \<lparr>xs_match = m, xs_display = read_str PATH_BUF (xe_filename env)\<rparr>;
               a0 = (case xe_args env of None \<Rightarrow> 0 | Some (a0, _) \<Rightarrow> a0);
               arg0 = (if a0 = 0 then None else user_str (user_mem st) a0 63);
               blob = padded TAINT_ARGV_CAP (case arg0 of None \<Rightarrow> [] | Some s \<Rightarrow> s);
               target = (case arg0 of None \<Rightarrow> xs_mem x | Some _ \<Rightarrow> blob);
               st = st\<lparr>ts_argslots := (ts_argslots st)\<lparr>as_blob := blob\<rparr>\<rparr>;
               st = te_exec_update_no_args pid target st
           in snd (te_handle_exec (TE_REF_STRINGS (Some target) (Some (xs_display x))) te_tracepoint_mode st))"

definition handle_exit :: "s32 \<Rightarrow> 'a tables_scheme \<Rightarrow> 'a tables_scheme" where
  "handle_exit exit_code st =
     (let pid = cur_pid st
      in if pid \<noteq> ucast (cur_pid_tgid st) then st
         else
           let st = te_exit pid exit_code st;
               st = te_delete_mmaps pid st
           in st\<lparr>te_protected_pids := map_delete pid (te_protected_pids st)\<rparr>)"

end
