(* ===== verification/Syscalls.thy ===== *)
theory Syscalls
  imports Hooks
begin

text \<open>
  The system call tracepoints (\<^verbatim>\<open>bpf/process.bpf.c\<close>). An enter program stashes the arguments it
  will need under the thread's id; the exit program consumes them once the call's result is known, and
  only then lets labels flow or records what a descriptor stands for. Programs that can report return
  the handler's result with the new state; a tracepoint's result is ignored by the kernel.

  The arguments of a call are \<open>args 0\<close> to \<open>args 5\<close>, its result \<open>ret\<close> a signed 64-bit word.
\<close>

type_synonym s64 = "64 word"
type_synonym sys_args = "nat \<Rightarrow> u64"

abbreviation (input) AF_UNIX :: s32 where "AF_UNIX \<equiv> 1"
abbreviation (input) RENAME_EXCHANGE :: u32 where "RENAME_EXCHANGE \<equiv> 2"
abbreviation (input) TE_IO_ADDR_NONE :: u32 where "TE_IO_ADDR_NONE \<equiv> 0"
abbreviation (input) TE_IO_ADDR_SOCKADDR :: u32 where "TE_IO_ADDR_SOCKADDR \<equiv> 1"
abbreviation (input) TE_IO_ADDR_USER_MSGHDR :: u32 where "TE_IO_ADDR_USER_MSGHDR \<equiv> 2"
abbreviation (input) TE_CMSG_HDR_LEN :: u64 where "TE_CMSG_HDR_LEN \<equiv> 16"

section \<open>Rename\<close>

definition rename_side :: "umem \<Rightarrow> u64 \<Rightarrow> (bytes \<times> file_id) option" where
  "rename_side um ptr =
     (let ref = TE_REF_USER_PATH ptr
      in map_option (\<lambda>path. (te_copy_target PATH_BUF (Some path), te_resolve_file_id ref path)) (te_resolve_file_ref um ref))"

definition te_stash_rename_user_paths :: "u64 \<Rightarrow> u64 \<Rightarrow> u32 \<Rightarrow> u32 \<Rightarrow> 'a tables_scheme \<Rightarrow> 'a tables_scheme" where
  "te_stash_rename_user_paths old_path new_path flags mode st =
     (if mode = TE_MODE_BLOCK \<and> enforce_mode st = 0 then st
      else if \<not> te_pid_active st (cur_pid st) then st
      else
        let p = \<lparr>rn_old_path_ptr = old_path, rn_new_path_ptr = new_path, rn_flags = flags,
                 rn_old = rename_side (user_mem st) old_path, rn_new = rename_side (user_mem st) new_path\<rparr>
        in st\<lparr>ts_renamepend := lru_put (cur_pid_tgid st) p (ts_renamepend st)\<rparr>)"

definition rename_again :: "umem \<Rightarrow> (bytes \<times> file_id) option \<Rightarrow> u64 \<Rightarrow> (bytes \<times> file_id) option" where
  "rename_again um have ptr =
     (case have of Some x \<Rightarrow> Some x | None \<Rightarrow> if ptr \<noteq> 0 then rename_side um ptr else None)"

text \<open>The last step of both exit programs: the object's labels follow the name.\<close>

definition rename_move ::
  "pid_t \<Rightarrow> bool \<Rightarrow> (bytes \<times> file_id) option \<Rightarrow> (bytes \<times> file_id) option \<Rightarrow> 'a tables_scheme \<Rightarrow> 'a tables_scheme" where
  "rename_move pid exchange old new st =
     (case (old, new) of
        (Some (_, old_fid), Some (_, new_fid)) \<Rightarrow>
          if te_file_id_equal old_fid new_fid then st
          else if exchange then te_swap_file_state pid old_fid new_fid st
          else te_copy_file_state pid old_fid new_fid True st
      | _ \<Rightarrow> st)"

text \<open>The write events of a rename, on the old name and then on the new one.\<close>

definition rename_event ::
  "pid_t \<Rightarrow> bool \<Rightarrow> u32 \<Rightarrow> (bytes \<times> file_id) option \<Rightarrow> 'a tables_scheme \<Rightarrow> int \<times> 'a tables_scheme" where
  "rename_event pid source mode side st =
     (case side of
        None \<Rightarrow> (0, st)
      | Some (path, fid) \<Rightarrow>
          te_handle_file_event pid path fid TE_ACCESS_WRITE mode
            (if source then te_materialize_file_source pid (Some fid) path st else st))"

definition te_handle_rename_exit :: "s64 \<Rightarrow> u32 \<Rightarrow> 'a tables_scheme \<Rightarrow> int \<times> 'a tables_scheme" where
  "te_handle_rename_exit ret mode st =
     (let tid = cur_pid_tgid st; pid = cur_pid st
      in case lru_lookup (ts_renamepend st) tid of
           None \<Rightarrow> (0, st)
         | Some p \<Rightarrow>
             let (rc, st) =
               (if ret = 0 \<and> te_pid_active st pid then
                  let old = rename_again (user_mem st) (rn_old p) (rn_old_path_ptr p);
                      new = rename_again (user_mem st) (rn_new p) (rn_new_path_ptr p);
                      exchange = rn_flags p AND RENAME_EXCHANGE \<noteq> 0;
                      flow = policy_features st AND TE_POLICY_FILE_FLOW \<noteq> 0;
                      (rc, st) = rename_event pid flow mode old st;
                      (rc2, st) = rename_event pid (exchange \<and> flow) mode new st
                  in (if rc = 0 then rc2 else rc, rename_move pid exchange old new st)
                else (0, st))
             in (rc, st\<lparr>ts_renamepend := lru_delete tid (ts_renamepend st)\<rparr>))"

definition te_handle_rename_flow_exit :: "s64 \<Rightarrow> 'a tables_scheme \<Rightarrow> 'a tables_scheme" where
  "te_handle_rename_flow_exit ret st =
     (let tid = cur_pid_tgid st; pid = cur_pid st
      in case lru_lookup (ts_renamepend st) tid of
           None \<Rightarrow> st
         | Some p \<Rightarrow>
             let st =
               (if ret = 0 \<and> te_pid_active st pid then
                  let old = rename_again (user_mem st) (rn_old p) (rn_old_path_ptr p);
                      new = rename_again (user_mem st) (rn_new p) (rn_new_path_ptr p);
                      exchange = rn_flags p AND RENAME_EXCHANGE \<noteq> 0;
                      st = (case old of
                              None \<Rightarrow> st
                            | Some (path, fid) \<Rightarrow>
                                te_write_flow pid fid path (te_materialize_file_source pid (Some fid) path st));
                      st = (case new of
                              None \<Rightarrow> st
                            | Some (path, fid) \<Rightarrow>
                                te_write_flow pid fid path
                                  (if exchange then te_materialize_file_source pid (Some fid) path st else st))
                  in rename_move pid exchange old new st
                else st)
             in st\<lparr>ts_renamepend := lru_delete tid (ts_renamepend st)\<rparr>)"

section \<open>Open\<close>

definition stash_open :: "u64 \<Rightarrow> u32 \<Rightarrow> u32 \<Rightarrow> 'a tables_scheme \<Rightarrow> 'a tables_scheme" where
  "stash_open path_ptr flags remember_fd st =
     (if \<not> te_pid_active st (cur_pid st) then st
      else st\<lparr>ts_openpend :=
        lru_put (cur_pid_tgid st) \<lparr>op_path_ptr = path_ptr, op_flags = flags, op_remember_fd = remember_fd\<rparr> (ts_openpend st)\<rparr>)"

text \<open>The second half of the exit program: rules when the policy has any for the access, flows otherwise.\<close>

definition open_event :: "pid_t \<Rightarrow> bytes \<Rightarrow> file_id \<Rightarrow> u32 \<Rightarrow> 'a tables_scheme \<Rightarrow> int \<times> 'a tables_scheme" where
  "open_event pid path fid access st =
     (if \<not> (access AND TE_ACCESS_READ \<noteq> 0 \<and> policy_features st AND TE_POLICY_OPEN_RULES \<noteq> 0) \<and>
         \<not> (access AND TE_ACCESS_WRITE \<noteq> 0 \<and> policy_features st AND TE_POLICY_WRITE_RULES \<noteq> 0)
      then
        if policy_features st AND TE_POLICY_FILE_FLOW \<noteq> 0 then
          let st = (if access AND TE_ACCESS_READ \<noteq> 0 then te_read pid fid path st else st)
          in (0, if access AND TE_ACCESS_WRITE \<noteq> 0 then te_write_flow pid fid path st else st)
        else (0, st)
      else te_handle_file_event pid path fid access te_tracepoint_mode st)"

text \<open>The identity of the opened object: the path's, unless the call returned a descriptor, in which case it is
  whatever the lookup of that descriptor leaves.\<close>

definition open_id :: "'a tables_scheme \<Rightarrow> open_pend \<Rightarrow> s32 \<Rightarrow> file_id \<Rightarrow> int \<times> file_id" where
  "open_id st p fd path_fid =
     (if op_remember_fd p \<noteq> 0
      then te_resolve_file_id_from_file st (te_current_file_from_fd st fd) else (- 1, path_fid))"

definition handle_open_exit :: "s64 \<Rightarrow> 'a tables_scheme \<Rightarrow> int \<times> 'a tables_scheme" where
  "handle_open_exit ret st =
     (let tid = cur_pid_tgid st; pid = cur_pid st; fd = (ucast ret :: s32)
      in case lru_lookup (ts_openpend st) tid of
           None \<Rightarrow> (0, st)
         | Some p \<Rightarrow>
             let st = st\<lparr>ts_openpend := lru_delete tid (ts_openpend st)\<rparr>;
                 ref = TE_REF_USER_PATH (op_path_ptr p)
             in if sint ret \<ge> 0 \<and> te_pid_active st pid then
                  case te_resolve_file_ref (user_mem st) ref of
                    None \<Rightarrow> (0, st)
                  | Some path \<Rightarrow>
                      let path_fid = te_resolve_file_id ref path;
                          access = te_access_from_open_flags (op_flags p);
                          flow = policy_features st AND TE_POLICY_FILE_FLOW \<noteq> 0;
                          (rc, fid) = open_id st p fd path_fid;
                          st = (if rc = 0 \<and> flow \<and> \<not> te_file_id_equal path_fid fid
                                then te_copy_file_state pid path_fid fid False st else st);
                          st = (if flow then te_materialize_file_source pid (Some fid) path st else st);
                          st = (if op_remember_fd p \<noteq> 0 then te_store_fd_with_current_file pid fd path fid st else st)
                      in open_event pid path fid access st
                else (0, st))"

section \<open>Descriptors that are not files\<close>

definition stash_pipe :: "u64 \<Rightarrow> 'a tables_scheme \<Rightarrow> 'a tables_scheme" where
  "stash_pipe fds_ptr st =
     (if \<not> te_pid_active st (cur_pid st) then st
      else st\<lparr>ts_pipepend := lru_put (cur_pid_tgid st) \<lparr>pp_fds_ptr = fds_ptr\<rparr> (ts_pipepend st)\<rparr>)"

text \<open>Both ends of a pipe or a socket pair become one object with a fresh identity.\<close>

definition pair_fds :: "u64 \<Rightarrow> string \<Rightarrow> 'a tables_scheme \<Rightarrow> 'a tables_scheme" where
  "pair_fds fds_ptr name st =
     (let pid = cur_pid st
      in case user_read (user_mem st) fds_ptr 8 of
           None \<Rightarrow> st
         | Some b \<Rightarrow>
             let fd0 = (le (take 4 b) :: s32); fd1 = (le (drop 4 b) :: s32);
                 ino = ktime st (ktick st) XOR push_bit 32 (scast pid) XOR push_bit 16 (ucast fd0) XOR ucast fd1;
                 fid = \<lparr>fi_ino = (if ino = 0 then 1 else ino), fi_dev = 0, fi_pad = 0\<rparr>;
                 path = padded MAX_FILENAME_LEN (str_bytes name);
                 st = st\<lparr>ktick := Suc (ktick st)\<rparr>
             in te_store_fd_with_current_file pid fd1 path fid (te_store_fd_with_current_file pid fd0 path fid st))"

definition handle_pipe_exit :: "s64 \<Rightarrow> 'a tables_scheme \<Rightarrow> 'a tables_scheme" where
  "handle_pipe_exit ret st =
     (let tid = cur_pid_tgid st
      in case lru_lookup (ts_pipepend st) tid of
           None \<Rightarrow> st
         | Some p \<Rightarrow>
             let st = (if ret = 0 \<and> te_pid_active st (cur_pid st) then pair_fds (pp_fds_ptr p) ''pipe'' st else st)
             in st\<lparr>ts_pipepend := lru_delete tid (ts_pipepend st)\<rparr>)"

definition stash_socketpair :: "u64 \<Rightarrow> s32 \<Rightarrow> 'a tables_scheme \<Rightarrow> 'a tables_scheme" where
  "stash_socketpair fds_ptr family st =
     (if family \<noteq> AF_UNIX then st
      else if \<not> te_pid_active st (cur_pid st) then st
      else st\<lparr>ts_socketpairpend := lru_put (cur_pid_tgid st) \<lparr>sp_fds_ptr = fds_ptr\<rparr> (ts_socketpairpend st)\<rparr>)"

definition handle_socketpair_exit :: "s64 \<Rightarrow> 'a tables_scheme \<Rightarrow> 'a tables_scheme" where
  "handle_socketpair_exit ret st =
     (let tid = cur_pid_tgid st
      in case lru_lookup (ts_socketpairpend st) tid of
           None \<Rightarrow> st
         | Some p \<Rightarrow>
             let st = (if ret = 0 \<and> te_pid_active st (cur_pid st) then pair_fds (sp_fds_ptr p) ''socketpair'' st else st)
             in st\<lparr>ts_socketpairpend := lru_delete tid (ts_socketpairpend st)\<rparr>)"

definition stash_unixsock :: "s32 \<Rightarrow> u64 \<Rightarrow> s32 \<Rightarrow> 'a tables_scheme \<Rightarrow> 'a tables_scheme" where
  "stash_unixsock fd sockaddr addrlen st =
     (if \<not> te_pid_active st (cur_pid st) then st
      else case te_resolve_unix_sockaddr_path (user_mem st) sockaddr addrlen of
             None \<Rightarrow> st
           | Some (path, fid) \<Rightarrow>
               st\<lparr>ts_unixsockpend :=
                   lru_put (cur_pid_tgid st) \<lparr>us_fd = fd, us_path = path, us_fid = fid\<rparr> (ts_unixsockpend st)\<rparr>)"

definition handle_unixsock_exit :: "s64 \<Rightarrow> 'a tables_scheme \<Rightarrow> 'a tables_scheme" where
  "handle_unixsock_exit ret st =
     (let tid = cur_pid_tgid st; pid = cur_pid st
      in case lru_lookup (ts_unixsockpend st) tid of
           None \<Rightarrow> st
         | Some p \<Rightarrow>
             let st = (if ret = 0 \<and> te_pid_active st pid
                       then te_store_fd_with_current_file pid (us_fd p) (us_path p) (us_fid p) st else st)
             in st\<lparr>ts_unixsockpend := lru_delete tid (ts_unixsockpend st)\<rparr>)"

definition stash_accept :: "s32 \<Rightarrow> 'a tables_scheme \<Rightarrow> 'a tables_scheme" where
  "stash_accept fd st =
     (if \<not> te_pid_active st (cur_pid st) then st
      else st\<lparr>ts_acceptpend := lru_put (cur_pid_tgid st) \<lparr>ac_fd = fd\<rparr> (ts_acceptpend st)\<rparr>)"

definition handle_accept_exit :: "s64 \<Rightarrow> 'a tables_scheme \<Rightarrow> 'a tables_scheme" where
  "handle_accept_exit ret st =
     (let tid = cur_pid_tgid st; pid = cur_pid st;
          st = (case lru_lookup (ts_acceptpend st) tid of
                  None \<Rightarrow> st
                | Some p \<Rightarrow>
                    if sint ret \<ge> 0 \<and> te_pid_active st pid
                    then te_copy_sockfd pid (ac_fd p) (ucast ret) (te_copy_fd pid (ac_fd p) (ucast ret) st) else st)
      in st\<lparr>ts_acceptpend := lru_delete tid (ts_acceptpend st)\<rparr>)"

definition stash_connect :: "s32 \<Rightarrow> u64 \<Rightarrow> 'a tables_scheme \<Rightarrow> 'a tables_scheme" where
  "stash_connect fd sockaddr st =
     (if \<not> te_pid_active st (cur_pid st) then st
      else case te_resolve_sockaddr (user_mem st) (TE_REF_SOCKADDR_USER sockaddr) of
             None \<Rightarrow> st
           | Some ip \<Rightarrow>
               st\<lparr>ts_connectpend := lru_put (cur_pid_tgid st) \<lparr>cp_fd = fd, cp_ip = ip\<rparr> (ts_connectpend st)\<rparr>)"

definition handle_connect_exit :: "s64 \<Rightarrow> 'a tables_scheme \<Rightarrow> 'a tables_scheme" where
  "handle_connect_exit ret st =
     (let tid = cur_pid_tgid st; pid = cur_pid st;
          st = (case lru_lookup (ts_connectpend st) tid of
                  None \<Rightarrow> st
                | Some p \<Rightarrow> if ret = 0 \<and> te_pid_active st pid then te_store_sockfd pid (cp_fd p) (cp_ip p) st else st)
      in st\<lparr>ts_connectpend := lru_delete tid (ts_connectpend st)\<rparr>)"

definition stash_dup :: "s32 \<Rightarrow> 'a tables_scheme \<Rightarrow> 'a tables_scheme" where
  "stash_dup oldfd st =
     (if \<not> te_pid_active st (cur_pid st) then st
      else st\<lparr>ts_duppend := lru_put (cur_pid_tgid st) \<lparr>du_oldfd = oldfd\<rparr> (ts_duppend st)\<rparr>)"

definition handle_dup_exit :: "s64 \<Rightarrow> 'a tables_scheme \<Rightarrow> 'a tables_scheme" where
  "handle_dup_exit ret st =
     (let tid = cur_pid_tgid st; pid = cur_pid st; newfd = (ucast ret :: s32);
          st = (case lru_lookup (ts_duppend st) tid of
                  None \<Rightarrow> st
                | Some p \<Rightarrow>
                    if sint ret \<ge> 0 \<and> te_pid_active st pid then
                      let st = (if newfd \<noteq> du_oldfd p then te_delete_fd pid newfd st else st)
                      in te_copy_sockfd pid (du_oldfd p) newfd (te_copy_fd pid (du_oldfd p) newfd st)
                    else st)
      in st\<lparr>ts_duppend := lru_delete tid (ts_duppend st)\<rparr>)"

definition stash_fd_copy :: "s32 \<Rightarrow> s32 \<Rightarrow> 'a tables_scheme \<Rightarrow> 'a tables_scheme" where
  "stash_fd_copy out_fd in_fd st =
     (if \<not> te_pid_active st (cur_pid st) then st
      else st\<lparr>ts_fdcopypend := lru_put (cur_pid_tgid st) \<lparr>fc_out_fd = out_fd, fc_in_fd = in_fd\<rparr> (ts_fdcopypend st)\<rparr>)"

definition handle_fd_copy_exit :: "s64 \<Rightarrow> 'a tables_scheme \<Rightarrow> 'a tables_scheme" where
  "handle_fd_copy_exit ret st =
     (let tid = cur_pid_tgid st; pid = cur_pid st
      in case lru_lookup (ts_fdcopypend st) tid of
           None \<Rightarrow> st
         | Some p \<Rightarrow>
             let st =
               (if enforce_mode st = 0 \<and> sint ret > 0 \<and> te_pid_active st pid then
                  case te_lookup_fd st pid (fc_in_fd p) of
                    None \<Rightarrow> st
                  | Some in_ref \<Rightarrow>
                      let st = te_read pid (fr_fid in_ref) (fr_path in_ref) st
                      in (case te_lookup_fd st pid (fc_out_fd p) of
                            None \<Rightarrow> st
                          | Some out_ref \<Rightarrow> te_write_flow pid (fr_fid out_ref) (fr_path out_ref) st)
                else st)
             in st\<lparr>ts_fdcopypend := lru_delete tid (ts_fdcopypend st)\<rparr>)"

section \<open>Reads and writes on descriptors\<close>

definition stash_io :: "s32 \<Rightarrow> u32 \<Rightarrow> u64 \<Rightarrow> u32 \<Rightarrow> s32 \<Rightarrow> 'a tables_scheme \<Rightarrow> 'a tables_scheme" where
  "stash_io fd access addr_ptr addr_kind addr_len st =
     (if \<not> te_pid_active st (cur_pid st) then st
      else st\<lparr>ts_iopend :=
        lru_put (cur_pid_tgid st)
          \<lparr>ip_fd = fd, ip_access = access, ip_addr_ptr = addr_ptr, ip_addr_kind = addr_kind, ip_addr_len = addr_len\<rparr>
          (ts_iopend st)\<rparr>)"

definition te_resolve_io_sockaddr :: "umem \<Rightarrow> u32 \<Rightarrow> u64 \<Rightarrow> u32 option" where
  "te_resolve_io_sockaddr um addr_kind addr_ptr =
     (if addr_ptr = 0 then None
      else
        case (if addr_kind = TE_IO_ADDR_USER_MSGHDR then user_word um addr_ptr 8 else Some addr_ptr) of
          None \<Rightarrow> None
        | Some addr_ptr \<Rightarrow>
            if addr_kind \<noteq> TE_IO_ADDR_SOCKADDR \<and> addr_kind \<noteq> TE_IO_ADDR_USER_MSGHDR then None
            else if addr_ptr = 0 then None
            else te_resolve_sockaddr um (TE_REF_SOCKADDR_USER addr_ptr))"

definition te_resolve_io_unix_sockaddr :: "umem \<Rightarrow> u32 \<Rightarrow> u64 \<Rightarrow> s32 \<Rightarrow> (bytes \<times> file_id) option" where
  "te_resolve_io_unix_sockaddr um addr_kind addr_ptr addr_len =
     (if addr_ptr = 0 then None
      else
        case (if addr_kind = TE_IO_ADDR_USER_MSGHDR
              then (case (user_word um addr_ptr 8, user_word um (addr_ptr + 8) 4) of
                      (Some name_ptr, Some name_len) \<Rightarrow> Some (name_ptr, name_len)
                    | _ \<Rightarrow> None)
              else Some (addr_ptr, addr_len)) of
          None \<Rightarrow> None
        | Some (addr_ptr, addr_len) \<Rightarrow>
            if addr_kind \<noteq> TE_IO_ADDR_SOCKADDR \<and> addr_kind \<noteq> TE_IO_ADDR_USER_MSGHDR then None
            else if addr_ptr = 0 then None
            else te_resolve_unix_sockaddr_path um addr_ptr addr_len)"

definition te_cmsg_align :: "u64 \<Rightarrow> u64" where
  "te_cmsg_align len = (len + 7) AND NOT 7"

text \<open>One control message; the result is the offset of the next one, 0 at the end.\<close>

definition te_handle_scm_rights_cmsg ::
  "pid_t \<Rightarrow> u64 \<Rightarrow> u64 \<Rightarrow> u64 \<Rightarrow> 'a tables_scheme \<Rightarrow> u64 \<times> 'a tables_scheme" where
  "te_handle_scm_rights_cmsg pid control_ptr controllen off st =
     (if off + TE_CMSG_HDR_LEN > controllen then (0, st)
      else
        let base = control_ptr + off; um = user_mem st
        in case (user_word um base 8, user_word um (base + 8) 4, user_word um (base + 12) 4) of
             (Some cmsg_len, Some level, Some type) \<Rightarrow>
               if cmsg_len < TE_CMSG_HDR_LEN \<or> cmsg_len > controllen - off then (0, st)
               else
                 let st = (if (level :: s32) = 1 \<and> (type :: s32) = 1 then
                             loop_on [0..<8]
                               (\<lambda>i st.
                                  let data_off = TE_CMSG_HDR_LEN + of_nat i * 4
                                  in if data_off + 4 > (cmsg_len - TE_CMSG_HDR_LEN) + TE_CMSG_HDR_LEN then (True, st)
                                     else case user_word um (base + data_off) 4 of
                                            None \<Rightarrow> (True, st)
                                          | Some fd \<Rightarrow> (False, te_store_current_fd_file pid fd st)) st
                           else st);
                     nxt = off + te_cmsg_align cmsg_len
                 in (if nxt \<le> off \<or> nxt > controllen then 0 else nxt, st)
           | _ \<Rightarrow> (0, st))"

definition te_handle_scm_rights :: "pid_t \<Rightarrow> u64 \<Rightarrow> 'a tables_scheme \<Rightarrow> 'a tables_scheme" where
  "te_handle_scm_rights pid msg_ptr st =
     (if msg_ptr = 0 then st
      else
        case (user_word (user_mem st) (msg_ptr + 32) 8, user_word (user_mem st) (msg_ptr + 40) 8) of
          (Some control_ptr, Some controllen) \<Rightarrow>
            if control_ptr = 0 \<or> controllen < TE_CMSG_HDR_LEN + 4 then st
            else
              let controllen = (if controllen > 4096 then 4096 else controllen)
              in snd (loop_on [0..<2]
                   (\<lambda>_ (off, st).
                      let (off, st) = te_handle_scm_rights_cmsg pid control_ptr controllen off st
                      in (off = 0, (off, st))) (0, st))
        | _ \<Rightarrow> st)"

definition handle_io_exit_read :: "s64 \<Rightarrow> 'a tables_scheme \<Rightarrow> 'a tables_scheme" where
  "handle_io_exit_read ret st =
     (let tid = cur_pid_tgid st; pid = cur_pid st
      in case lru_lookup (ts_iopend st) tid of
           None \<Rightarrow> st
         | Some p \<Rightarrow>
             let st =
               (if enforce_mode st = 0 \<and> sint ret > 0 \<and> te_pid_active st pid then
                  let st = (case te_lookup_fd st pid (ip_fd p) of
                              Some ref \<Rightarrow> if policy_features st AND TE_POLICY_FILE_FLOW \<noteq> 0
                                          then te_read pid (fr_fid ref) (fr_path ref) st else st
                            | None \<Rightarrow> st)
                  in (case (if policy_features st AND TE_POLICY_RECV \<noteq> 0 then te_lookup_sockfd st pid (ip_fd p) else None) of
                        Some ip \<Rightarrow> snd (te_handle_net_ip ip TE_ACCESS_RECV te_tracepoint_mode st)
                      | None \<Rightarrow> st)
                else st)
             in st\<lparr>ts_iopend := lru_delete tid (ts_iopend st)\<rparr>)"

definition handle_io_exit_write :: "s64 \<Rightarrow> 'a tables_scheme \<Rightarrow> 'a tables_scheme" where
  "handle_io_exit_write ret st =
     (let tid = cur_pid_tgid st; pid = cur_pid st
      in case lru_lookup (ts_iopend st) tid of
           None \<Rightarrow> st
         | Some p \<Rightarrow>
             let st =
               (if enforce_mode st = 0 \<and> sint ret > 0 \<and> te_pid_active st pid then
                  let st = (case te_lookup_fd st pid (ip_fd p) of
                              Some ref \<Rightarrow> if policy_features st AND TE_POLICY_FILE_FLOW \<noteq> 0
                                          then te_write_flow pid (fr_fid ref) (fr_path ref) st else st
                            | None \<Rightarrow> st)
                  in (case (if policy_features st AND TE_POLICY_FILE_FLOW \<noteq> 0 then te_lookup_sockfd st pid (ip_fd p) else None) of
                        Some ip \<Rightarrow> te_connect_flow ip pid st
                      | None \<Rightarrow> st)
                else st)
             in st\<lparr>ts_iopend := lru_delete tid (ts_iopend st)\<rparr>)"

text \<open>The three parts of a transfer on a socket: the object the descriptor stands for, the peer it is connected
  to, and the address given with the call.\<close>

definition io_fd_flow :: "pid_t \<Rightarrow> s32 \<Rightarrow> u32 \<Rightarrow> 'a tables_scheme \<Rightarrow> 'a tables_scheme" where
  "io_fd_flow pid fd access st =
     (case te_lookup_fd st pid fd of
        Some ref \<Rightarrow>
          if policy_features st AND TE_POLICY_FILE_FLOW \<noteq> 0 then
            let st = (if access AND TE_ACCESS_READ \<noteq> 0 then te_read pid (fr_fid ref) (fr_path ref) st else st)
            in if access AND TE_ACCESS_WRITE \<noteq> 0 then te_write_flow pid (fr_fid ref) (fr_path ref) st else st
          else st
      | None \<Rightarrow> st)"

definition io_peer_flow :: "pid_t \<Rightarrow> u32 \<Rightarrow> u32 \<Rightarrow> 'a tables_scheme \<Rightarrow> 'a tables_scheme" where
  "io_peer_flow pid ip access st =
     (let st = (if access AND TE_ACCESS_READ \<noteq> 0
                then snd (te_handle_net_ip ip TE_ACCESS_RECV te_tracepoint_mode st) else st)
      in if access AND TE_ACCESS_WRITE \<noteq> 0 then te_connect_flow ip pid st else st)"

definition io_addr_flow :: "pid_t \<Rightarrow> io_pend \<Rightarrow> u32 \<Rightarrow> 'a tables_scheme \<Rightarrow> 'a tables_scheme" where
  "io_addr_flow pid p access st =
     (case te_resolve_io_sockaddr (user_mem st) (ip_addr_kind p) (ip_addr_ptr p) of
        Some ip \<Rightarrow>
          let st = (if access AND TE_ACCESS_READ \<noteq> 0 \<and> policy_features st AND TE_POLICY_RECV \<noteq> 0
                    then snd (te_handle_net_ip ip TE_ACCESS_RECV te_tracepoint_mode st) else st)
          in if access AND TE_ACCESS_WRITE \<noteq> 0 \<and> policy_features st AND TE_POLICY_CONNECT \<noteq> 0
             then snd (te_handle_net_ip ip TE_ACCESS_CONNECT te_tracepoint_mode st) else st
      | None \<Rightarrow>
          if access AND TE_ACCESS_WRITE \<noteq> 0 \<and> policy_features st AND TE_POLICY_FILE_FLOW \<noteq> 0 then
            case te_resolve_io_unix_sockaddr (user_mem st) (ip_addr_kind p) (ip_addr_ptr p) (ip_addr_len p) of
              Some (path, fid) \<Rightarrow> te_write_flow pid fid path st
            | None \<Rightarrow> st
          else st)"

definition handle_io_exit_addr :: "s64 \<Rightarrow> u32 \<Rightarrow> 'a tables_scheme \<Rightarrow> 'a tables_scheme" where
  "handle_io_exit_addr ret access st =
     (let tid = cur_pid_tgid st; pid = cur_pid st;
          reads = access AND TE_ACCESS_READ \<noteq> 0; writes = access AND TE_ACCESS_WRITE \<noteq> 0;
          flow = policy_features st AND TE_POLICY_FILE_FLOW \<noteq> 0; recv = policy_features st AND TE_POLICY_RECV \<noteq> 0
      in case lru_lookup (ts_iopend st) tid of
           None \<Rightarrow> st
         | Some p \<Rightarrow>
             let st =
               (if enforce_mode st = 0 \<and> sint ret > 0 \<and> te_pid_active st pid then
                  let st = io_fd_flow pid (ip_fd p) access st;
                      st = (if reads \<and> flow \<and> ip_addr_kind p = TE_IO_ADDR_USER_MSGHDR
                            then te_handle_scm_rights pid (ip_addr_ptr p) st else st)
                  in (case (if reads \<and> recv \<or> writes \<and> flow then te_lookup_sockfd st pid (ip_fd p) else None) of
                        Some ip \<Rightarrow> io_peer_flow pid ip access st
                      | None \<Rightarrow> if ip_addr_ptr p = 0 then st else io_addr_flow pid p access st)
                else st)
             in st\<lparr>ts_iopend := lru_delete tid (ts_iopend st)\<rparr>)"

definition handle_io_enter_addr :: "s32 \<Rightarrow> u32 \<Rightarrow> u64 \<Rightarrow> u32 \<Rightarrow> s32 \<Rightarrow> 'a tables_scheme \<Rightarrow> int \<times> 'a tables_scheme" where
  "handle_io_enter_addr fd access addr_ptr addr_kind addr_len st =
     (let pid = cur_pid st;
          (rc, st) = (if te_pid_active st pid \<and> te_lookup_fd st pid fd = None
                      then te_handle_channel fd access te_tracepoint_mode st else (0, st))
      in (rc, stash_io fd access addr_ptr addr_kind addr_len st))"

definition handle_io_enter :: "s32 \<Rightarrow> u32 \<Rightarrow> 'a tables_scheme \<Rightarrow> int \<times> 'a tables_scheme" where
  "handle_io_enter fd access st = handle_io_enter_addr fd access 0 TE_IO_ADDR_NONE 0 st"

section \<open>Mappings\<close>

definition handle_mmap_enter :: "s32 \<Rightarrow> u64 \<Rightarrow> u64 \<Rightarrow> u64 \<Rightarrow> 'a tables_scheme \<Rightarrow> 'a tables_scheme" where
  "handle_mmap_enter fd prot flags len st =
     (if sint fd < 0 \<or> \<not> te_pid_active st (cur_pid st) then st
      else st\<lparr>ts_mmappend :=
        lru_put (cur_pid_tgid st) \<lparr>mp_fd = fd, mp_len = len, mp_prot = prot, mp_flags = flags\<rparr> (ts_mmappend st)\<rparr>)"

definition handle_mmap_exit :: "s64 \<Rightarrow> 'a tables_scheme \<Rightarrow> 'a tables_scheme" where
  "handle_mmap_exit ret st =
     (let tid = cur_pid_tgid st; pid = cur_pid st
      in case lru_lookup (ts_mmappend st) tid of
           None \<Rightarrow> st
         | Some p \<Rightarrow>
             let st =
               (if sint ret \<ge> 0 \<and> te_pid_active st pid then
                  let access = te_access_from_mmap (mp_prot p) (mp_flags p);
                      st = (if te_lookup_fd st pid (mp_fd p) = None then te_store_current_fd_file_path pid (mp_fd p) st else st)
                  in (case te_lookup_fd st pid (mp_fd p) of
                        None \<Rightarrow> st
                      | Some ref \<Rightarrow>
                          let st = te_store_mmap_ref pid ret p ref st
                          in if enforce_mode st = 0 then
                               let st = (if access AND TE_ACCESS_READ \<noteq> 0 then te_read pid (fr_fid ref) (fr_path ref) st else st)
                               in if access AND TE_ACCESS_WRITE \<noteq> 0 then te_write_flow pid (fr_fid ref) (fr_path ref) st else st
                             else st)
                else st)
             in st\<lparr>ts_mmappend := lru_delete tid (ts_mmappend st)\<rparr>)"

definition handle_mprotect_enter :: "u64 \<Rightarrow> u64 \<Rightarrow> u64 \<Rightarrow> 'a tables_scheme \<Rightarrow> 'a tables_scheme" where
  "handle_mprotect_enter start len prot st =
     (if \<not> te_pid_active st (cur_pid st) then st
      else st\<lparr>ts_mprotectpend :=
        lru_put (cur_pid_tgid st) \<lparr>pr_start = start, pr_len = len, pr_prot = prot\<rparr> (ts_mprotectpend st)\<rparr>)"

definition handle_mprotect_exit :: "s64 \<Rightarrow> 'a tables_scheme \<Rightarrow> 'a tables_scheme" where
  "handle_mprotect_exit ret st =
     (let tid = cur_pid_tgid st; pid = cur_pid st
      in case lru_lookup (ts_mprotectpend st) tid of
           None \<Rightarrow> st
         | Some p \<Rightarrow>
             let st = (if ret = 0 \<and> te_pid_active st pid
                       then te_handle_mprotect_range pid (pr_start p) (pr_len p) (pr_prot p) st else st)
             in st\<lparr>ts_mprotectpend := lru_delete tid (ts_mprotectpend st)\<rparr>)"

definition handle_mremap_enter :: "u64 \<Rightarrow> u64 \<Rightarrow> u64 \<Rightarrow> 'a tables_scheme \<Rightarrow> 'a tables_scheme" where
  "handle_mremap_enter old_addr old_size new_size st =
     (if \<not> te_pid_active st (cur_pid st) then st
      else st\<lparr>ts_mremappend :=
        lru_put (cur_pid_tgid st) \<lparr>rm_old_addr = old_addr, rm_old_size = old_size, rm_new_size = new_size\<rparr> (ts_mremappend st)\<rparr>)"

definition handle_mremap_exit :: "s64 \<Rightarrow> 'a tables_scheme \<Rightarrow> 'a tables_scheme" where
  "handle_mremap_exit ret st =
     (let tid = cur_pid_tgid st; pid = cur_pid st
      in case lru_lookup (ts_mremappend st) tid of
           None \<Rightarrow> st
         | Some p \<Rightarrow>
             let st = (if sint ret \<ge> 0 \<and> te_pid_active st pid
                       then te_handle_mremap_range pid (rm_old_addr p) (rm_old_size p) ret (rm_new_size p) st else st)
             in st\<lparr>ts_mremappend := lru_delete tid (ts_mremappend st)\<rparr>)"

definition handle_munmap_enter :: "u64 \<Rightarrow> u64 \<Rightarrow> 'a tables_scheme \<Rightarrow> 'a tables_scheme" where
  "handle_munmap_enter start len st =
     (if \<not> te_pid_active st (cur_pid st) then st
      else st\<lparr>ts_mprotectpend :=
        lru_put (cur_pid_tgid st) \<lparr>pr_start = start, pr_len = len, pr_prot = 0\<rparr> (ts_mprotectpend st)\<rparr>)"

definition handle_munmap_exit :: "s64 \<Rightarrow> 'a tables_scheme \<Rightarrow> 'a tables_scheme" where
  "handle_munmap_exit ret st =
     (let tid = cur_pid_tgid st; pid = cur_pid st
      in case lru_lookup (ts_mprotectpend st) tid of
           None \<Rightarrow> st
         | Some p \<Rightarrow>
             let st = (if ret = 0 \<and> te_pid_active st pid
                       then te_delete_mmap_range pid (pr_start p) (pr_len p) st else st)
             in st\<lparr>ts_mprotectpend := lru_delete tid (ts_mprotectpend st)\<rparr>)"

section \<open>Programs\<close>

text \<open>One definition per tracepoint program, in the order of the source; the kernel ignores their results.\<close>

definition trace_openat :: "sys_args \<Rightarrow> 'a tables_scheme \<Rightarrow> 'a tables_scheme" where
  "trace_openat args st = stash_open (args 1) (ucast (args 2)) 1 st"

definition trace_openat_exit :: "s64 \<Rightarrow> 'a tables_scheme \<Rightarrow> 'a tables_scheme" where
  "trace_openat_exit ret st = snd (handle_open_exit ret st)"

definition trace_open :: "sys_args \<Rightarrow> 'a tables_scheme \<Rightarrow> 'a tables_scheme" where
  "trace_open args st = stash_open (args 0) (ucast (args 1)) 1 st"

definition trace_open_exit :: "s64 \<Rightarrow> 'a tables_scheme \<Rightarrow> 'a tables_scheme" where
  "trace_open_exit ret st = snd (handle_open_exit ret st)"

text \<open>The structure \<^verbatim>\<open>open_how\<close> has three 64-bit fields; a failed read leaves it zeroed.\<close>

definition trace_openat2 :: "sys_args \<Rightarrow> 'a tables_scheme \<Rightarrow> 'a tables_scheme" where
  "trace_openat2 args st = 
     stash_open (args 1) (case user_read (user_mem st) (args 2) 24 of None \<Rightarrow> 0 | Some b \<Rightarrow> ucast (le (take 8 b) :: u64)) 1 st"

definition trace_openat2_exit :: "s64 \<Rightarrow> 'a tables_scheme \<Rightarrow> 'a tables_scheme" where
  "trace_openat2_exit ret st = snd (handle_open_exit ret st)"

definition trace_creat :: "sys_args \<Rightarrow> 'a tables_scheme \<Rightarrow> 'a tables_scheme" where
  "trace_creat args st = stash_open (args 0) (1 OR 0x40 OR 0x200) 1 st"

definition trace_creat_exit :: "s64 \<Rightarrow> 'a tables_scheme \<Rightarrow> 'a tables_scheme" where
  "trace_creat_exit ret st = snd (handle_open_exit ret st)"

definition trace_truncate :: "sys_args \<Rightarrow> 'a tables_scheme \<Rightarrow> 'a tables_scheme" where
  "trace_truncate args st = stash_open (args 0) 1 0 st"

definition trace_truncate_exit :: "s64 \<Rightarrow> 'a tables_scheme \<Rightarrow> 'a tables_scheme" where
  "trace_truncate_exit ret st = snd (handle_open_exit ret st)"

definition trace_pipe :: "sys_args \<Rightarrow> 'a tables_scheme \<Rightarrow> 'a tables_scheme" where
  "trace_pipe args st = stash_pipe (args 0) st"

definition trace_pipe_exit :: "s64 \<Rightarrow> 'a tables_scheme \<Rightarrow> 'a tables_scheme" where
  "trace_pipe_exit ret st = handle_pipe_exit ret st"

definition trace_pipe2 :: "sys_args \<Rightarrow> 'a tables_scheme \<Rightarrow> 'a tables_scheme" where
  "trace_pipe2 args st = stash_pipe (args 0) st"

definition trace_pipe2_exit :: "s64 \<Rightarrow> 'a tables_scheme \<Rightarrow> 'a tables_scheme" where
  "trace_pipe2_exit ret st = handle_pipe_exit ret st"

definition trace_socketpair :: "sys_args \<Rightarrow> 'a tables_scheme \<Rightarrow> 'a tables_scheme" where
  "trace_socketpair args st = stash_socketpair (args 3) (ucast (args 0)) st"

definition trace_socketpair_exit :: "s64 \<Rightarrow> 'a tables_scheme \<Rightarrow> 'a tables_scheme" where
  "trace_socketpair_exit ret st = handle_socketpair_exit ret st"

definition trace_bind :: "sys_args \<Rightarrow> 'a tables_scheme \<Rightarrow> 'a tables_scheme" where
  "trace_bind args st = stash_unixsock (ucast (args 0)) (args 1) (ucast (args 2)) st"

definition trace_bind_exit :: "s64 \<Rightarrow> 'a tables_scheme \<Rightarrow> 'a tables_scheme" where
  "trace_bind_exit ret st = handle_unixsock_exit ret st"

definition trace_accept :: "sys_args \<Rightarrow> 'a tables_scheme \<Rightarrow> 'a tables_scheme" where
  "trace_accept args st = stash_accept (ucast (args 0)) st"

definition trace_accept_exit :: "s64 \<Rightarrow> 'a tables_scheme \<Rightarrow> 'a tables_scheme" where
  "trace_accept_exit ret st = handle_accept_exit ret st"

definition trace_accept4 :: "sys_args \<Rightarrow> 'a tables_scheme \<Rightarrow> 'a tables_scheme" where
  "trace_accept4 args st = stash_accept (ucast (args 0)) st"

definition trace_accept4_exit :: "s64 \<Rightarrow> 'a tables_scheme \<Rightarrow> 'a tables_scheme" where
  "trace_accept4_exit ret st = handle_accept_exit ret st"

definition trace_unlink :: "sys_args \<Rightarrow> 'a tables_scheme \<Rightarrow> 'a tables_scheme" where
  "trace_unlink args st = snd (te_handle_file (TE_REF_USER_PATH (args 0)) TE_ACCESS_WRITE te_tracepoint_mode st)"

definition trace_unlinkat :: "sys_args \<Rightarrow> 'a tables_scheme \<Rightarrow> 'a tables_scheme" where
  "trace_unlinkat args st = snd (te_handle_file (TE_REF_USER_PATH (args 1)) TE_ACCESS_WRITE te_tracepoint_mode st)"

definition trace_rename :: "sys_args \<Rightarrow> 'a tables_scheme \<Rightarrow> 'a tables_scheme" where
  "trace_rename args st = te_stash_rename_user_paths (args 0) (args 1) 0 te_tracepoint_mode st"

definition trace_rename_exit :: "s64 \<Rightarrow> 'a tables_scheme \<Rightarrow> 'a tables_scheme" where
  "trace_rename_exit ret st = snd (te_handle_rename_exit ret te_tracepoint_mode st)"

definition trace_rename_exit_flow :: "s64 \<Rightarrow> 'a tables_scheme \<Rightarrow> 'a tables_scheme" where
  "trace_rename_exit_flow ret st = te_handle_rename_flow_exit ret st"

definition trace_renameat :: "sys_args \<Rightarrow> 'a tables_scheme \<Rightarrow> 'a tables_scheme" where
  "trace_renameat args st = te_stash_rename_user_paths (args 1) (args 3) 0 te_tracepoint_mode st"

definition trace_renameat_exit :: "s64 \<Rightarrow> 'a tables_scheme \<Rightarrow> 'a tables_scheme" where
  "trace_renameat_exit ret st = snd (te_handle_rename_exit ret te_tracepoint_mode st)"

definition trace_renameat_exit_flow :: "s64 \<Rightarrow> 'a tables_scheme \<Rightarrow> 'a tables_scheme" where
  "trace_renameat_exit_flow ret st = te_handle_rename_flow_exit ret st"

definition trace_renameat2 :: "sys_args \<Rightarrow> 'a tables_scheme \<Rightarrow> 'a tables_scheme" where
  "trace_renameat2 args st = te_stash_rename_user_paths (args 1) (args 3) (ucast (args 4)) te_tracepoint_mode st"

definition trace_renameat2_exit :: "s64 \<Rightarrow> 'a tables_scheme \<Rightarrow> 'a tables_scheme" where
  "trace_renameat2_exit ret st = snd (te_handle_rename_exit ret te_tracepoint_mode st)"

definition trace_renameat2_exit_flow :: "s64 \<Rightarrow> 'a tables_scheme \<Rightarrow> 'a tables_scheme" where
  "trace_renameat2_exit_flow ret st = te_handle_rename_flow_exit ret st"

definition trace_connect :: "sys_args \<Rightarrow> 'a tables_scheme \<Rightarrow> 'a tables_scheme" where
  "trace_connect args st = 
     (let st = stash_connect (ucast (args 0)) (args 1) st;
          st = stash_unixsock (ucast (args 0)) (args 1) (ucast (args 2)) st
      in snd (te_handle_net (TE_REF_SOCKADDR_USER (args 1)) TE_ACCESS_CONNECT te_tracepoint_mode st))"

definition trace_connect_exit :: "s64 \<Rightarrow> 'a tables_scheme \<Rightarrow> 'a tables_scheme" where
  "trace_connect_exit ret st = handle_unixsock_exit ret (handle_connect_exit ret st)"

definition trace_read :: "sys_args \<Rightarrow> 'a tables_scheme \<Rightarrow> 'a tables_scheme" where
  "trace_read args st = snd (handle_io_enter (ucast (args 0)) TE_ACCESS_READ st)"

definition trace_read_exit :: "s64 \<Rightarrow> 'a tables_scheme \<Rightarrow> 'a tables_scheme" where
  "trace_read_exit ret st = handle_io_exit_read ret st"

definition trace_write :: "sys_args \<Rightarrow> 'a tables_scheme \<Rightarrow> 'a tables_scheme" where
  "trace_write args st = snd (handle_io_enter (ucast (args 0)) TE_ACCESS_WRITE st)"

definition trace_write_exit :: "s64 \<Rightarrow> 'a tables_scheme \<Rightarrow> 'a tables_scheme" where
  "trace_write_exit ret st = handle_io_exit_write ret st"

definition trace_mmap :: "sys_args \<Rightarrow> 'a tables_scheme \<Rightarrow> 'a tables_scheme" where
  "trace_mmap args st = handle_mmap_enter (ucast (args 4)) (args 2) (args 3) (args 1) st"

definition trace_mmap_exit :: "s64 \<Rightarrow> 'a tables_scheme \<Rightarrow> 'a tables_scheme" where
  "trace_mmap_exit ret st = handle_mmap_exit ret st"

definition trace_mprotect :: "sys_args \<Rightarrow> 'a tables_scheme \<Rightarrow> 'a tables_scheme" where
  "trace_mprotect args st = handle_mprotect_enter (args 0) (args 1) (args 2) st"

definition trace_mprotect_exit :: "s64 \<Rightarrow> 'a tables_scheme \<Rightarrow> 'a tables_scheme" where
  "trace_mprotect_exit ret st = handle_mprotect_exit ret st"

definition trace_mremap :: "sys_args \<Rightarrow> 'a tables_scheme \<Rightarrow> 'a tables_scheme" where
  "trace_mremap args st = handle_mremap_enter (args 0) (args 1) (args 2) st"

definition trace_mremap_exit :: "s64 \<Rightarrow> 'a tables_scheme \<Rightarrow> 'a tables_scheme" where
  "trace_mremap_exit ret st = handle_mremap_exit ret st"

definition trace_munmap :: "sys_args \<Rightarrow> 'a tables_scheme \<Rightarrow> 'a tables_scheme" where
  "trace_munmap args st = handle_munmap_enter (args 0) (args 1) st"

definition trace_munmap_exit :: "s64 \<Rightarrow> 'a tables_scheme \<Rightarrow> 'a tables_scheme" where
  "trace_munmap_exit ret st = handle_munmap_exit ret st"

definition trace_sendto :: "sys_args \<Rightarrow> 'a tables_scheme \<Rightarrow> 'a tables_scheme" where
  "trace_sendto args st = snd (handle_io_enter_addr (ucast (args 0)) TE_ACCESS_WRITE (args 4) TE_IO_ADDR_SOCKADDR (ucast (args 5)) st)"

definition trace_sendto_exit :: "s64 \<Rightarrow> 'a tables_scheme \<Rightarrow> 'a tables_scheme" where
  "trace_sendto_exit ret st = handle_io_exit_addr ret TE_ACCESS_WRITE st"

definition trace_recvfrom :: "sys_args \<Rightarrow> 'a tables_scheme \<Rightarrow> 'a tables_scheme" where
  "trace_recvfrom args st = snd (handle_io_enter_addr (ucast (args 0)) TE_ACCESS_READ (args 4) TE_IO_ADDR_SOCKADDR 0 st)"

definition trace_recvfrom_exit :: "s64 \<Rightarrow> 'a tables_scheme \<Rightarrow> 'a tables_scheme" where
  "trace_recvfrom_exit ret st = handle_io_exit_addr ret TE_ACCESS_READ st"

definition trace_sendmsg :: "sys_args \<Rightarrow> 'a tables_scheme \<Rightarrow> 'a tables_scheme" where
  "trace_sendmsg args st = snd (handle_io_enter_addr (ucast (args 0)) TE_ACCESS_WRITE (args 1) TE_IO_ADDR_USER_MSGHDR 0 st)"

definition trace_sendmsg_exit :: "s64 \<Rightarrow> 'a tables_scheme \<Rightarrow> 'a tables_scheme" where
  "trace_sendmsg_exit ret st = handle_io_exit_addr ret TE_ACCESS_WRITE st"

definition trace_recvmsg :: "sys_args \<Rightarrow> 'a tables_scheme \<Rightarrow> 'a tables_scheme" where
  "trace_recvmsg args st = snd (handle_io_enter_addr (ucast (args 0)) TE_ACCESS_READ (args 1) TE_IO_ADDR_USER_MSGHDR 0 st)"

definition trace_recvmsg_exit :: "s64 \<Rightarrow> 'a tables_scheme \<Rightarrow> 'a tables_scheme" where
  "trace_recvmsg_exit ret st = handle_io_exit_addr ret TE_ACCESS_READ st"

definition trace_close :: "sys_args \<Rightarrow> 'a tables_scheme \<Rightarrow> 'a tables_scheme" where
  "trace_close args st = 
     (if te_pid_active st (cur_pid st) then te_delete_fd (cur_pid st) (ucast (args 0)) st else st)"

definition trace_dup :: "sys_args \<Rightarrow> 'a tables_scheme \<Rightarrow> 'a tables_scheme" where
  "trace_dup args st = stash_dup (ucast (args 0)) st"

definition trace_dup_exit :: "s64 \<Rightarrow> 'a tables_scheme \<Rightarrow> 'a tables_scheme" where
  "trace_dup_exit ret st = handle_dup_exit ret st"

definition trace_dup2 :: "sys_args \<Rightarrow> 'a tables_scheme \<Rightarrow> 'a tables_scheme" where
  "trace_dup2 args st = stash_dup (ucast (args 0)) st"

definition trace_dup2_exit :: "s64 \<Rightarrow> 'a tables_scheme \<Rightarrow> 'a tables_scheme" where
  "trace_dup2_exit ret st = handle_dup_exit ret st"

definition trace_dup3 :: "sys_args \<Rightarrow> 'a tables_scheme \<Rightarrow> 'a tables_scheme" where
  "trace_dup3 args st = stash_dup (ucast (args 0)) st"

definition trace_dup3_exit :: "s64 \<Rightarrow> 'a tables_scheme \<Rightarrow> 'a tables_scheme" where
  "trace_dup3_exit ret st = handle_dup_exit ret st"

definition trace_fcntl :: "sys_args \<Rightarrow> 'a tables_scheme \<Rightarrow> 'a tables_scheme" where
  "trace_fcntl args st = 
     (let cmd = (ucast (args 1) :: s32) in if cmd = 0 \<or> cmd = 1030 then stash_dup (ucast (args 0)) st else st)"

definition trace_fcntl_exit :: "s64 \<Rightarrow> 'a tables_scheme \<Rightarrow> 'a tables_scheme" where
  "trace_fcntl_exit ret st = handle_dup_exit ret st"

definition trace_sendfile64 :: "sys_args \<Rightarrow> 'a tables_scheme \<Rightarrow> 'a tables_scheme" where
  "trace_sendfile64 args st = stash_fd_copy (ucast (args 0)) (ucast (args 1)) st"

definition trace_sendfile64_exit :: "s64 \<Rightarrow> 'a tables_scheme \<Rightarrow> 'a tables_scheme" where
  "trace_sendfile64_exit ret st = handle_fd_copy_exit ret st"

definition trace_copy_file_range :: "sys_args \<Rightarrow> 'a tables_scheme \<Rightarrow> 'a tables_scheme" where
  "trace_copy_file_range args st = stash_fd_copy (ucast (args 2)) (ucast (args 0)) st"

definition trace_copy_file_range_exit :: "s64 \<Rightarrow> 'a tables_scheme \<Rightarrow> 'a tables_scheme" where
  "trace_copy_file_range_exit ret st = handle_fd_copy_exit ret st"

definition trace_splice :: "sys_args \<Rightarrow> 'a tables_scheme \<Rightarrow> 'a tables_scheme" where
  "trace_splice args st = stash_fd_copy (ucast (args 2)) (ucast (args 0)) st"

definition trace_splice_exit :: "s64 \<Rightarrow> 'a tables_scheme \<Rightarrow> 'a tables_scheme" where
  "trace_splice_exit ret st = handle_fd_copy_exit ret st"

text \<open>The tick that drains the capability ring.\<close>

definition cap_drain_tick :: "cap_dynptr list \<Rightarrow> 'a tables_scheme \<Rightarrow> 'a tables_scheme" where
  "cap_drain_tick ring st = cap_drain_current (cur_pid_tgid st) ring st"

end
