(* ===== verification/Sensor_Machine.thy ===== *)
theory Sensor_Machine
  imports Syscalls
begin

text \<open>
  The programs as one machine. The locale \<open>program_contract\<close> lists what every program is built from:
  the flows of the engine, reports and signals, updates of the descriptor and stash tables, and the
  operations on mappings. A property kept by each of these is kept by every program of the sensor; the
  locale is interpreted for the engine's invariant and for the invariant of the mapping tables.
\<close>

section \<open>The programs\<close>

text \<open>The programs on system call entries, on their exits, and the LSM hooks that evaluate a policy, each
  hook closed over what the kernel passes it.\<close>

definition sys_enter_programs :: "(sys_args \<Rightarrow> 'a tables_scheme \<Rightarrow> 'a tables_scheme) list" where
  "sys_enter_programs =
   [trace_openat, trace_open, trace_openat2, trace_creat, trace_truncate, trace_pipe, trace_pipe2,
    trace_socketpair, trace_bind, trace_accept, trace_accept4, trace_unlink, trace_unlinkat, trace_rename,
    trace_renameat, trace_renameat2, trace_connect, trace_read, trace_write, trace_mmap, trace_mprotect,
    trace_mremap, trace_munmap, trace_sendto, trace_recvfrom, trace_sendmsg, trace_recvmsg, trace_close,
    trace_dup, trace_dup2, trace_dup3, trace_fcntl, trace_sendfile64, trace_copy_file_range, trace_splice]"

definition sys_exit_programs :: "(s64 \<Rightarrow> 'a tables_scheme \<Rightarrow> 'a tables_scheme) list" where
  "sys_exit_programs =
   [trace_openat_exit, trace_open_exit, trace_openat2_exit, trace_creat_exit, trace_truncate_exit,
    trace_pipe_exit, trace_pipe2_exit, trace_socketpair_exit, trace_bind_exit, trace_accept_exit,
    trace_accept4_exit, trace_rename_exit, trace_rename_exit_flow, trace_renameat_exit,
    trace_renameat_exit_flow, trace_renameat2_exit, trace_renameat2_exit_flow, trace_connect_exit,
    trace_read_exit, trace_write_exit, trace_mmap_exit, trace_mprotect_exit, trace_mremap_exit,
    trace_munmap_exit, trace_sendto_exit, trace_recvfrom_exit, trace_sendmsg_exit, trace_recvmsg_exit,
    trace_dup_exit, trace_dup2_exit, trace_dup3_exit, trace_fcntl_exit, trace_sendfile64_exit,
    trace_copy_file_range_exit, trace_splice_exit]"

inductive lsm_hook :: "('a tables_scheme \<Rightarrow> int \<times> 'a tables_scheme) \<Rightarrow> bool" where
  "lsm_hook (enforce_bprm_check_security bprm)"
| "lsm_hook (enforce_file_open f)"
| "lsm_hook (enforce_file_permission f perm)"
| "lsm_hook (enforce_file_truncate f)"
| "lsm_hook (enforce_mmap_file fo prot flags)"
| "lsm_hook (enforce_file_mprotect vma prot)"
| "lsm_hook (enforce_path_truncate path)"
| "lsm_hook (enforce_path_unlink path dentry)"
| "lsm_hook (enforce_path_rename path dentry path' dentry')"
| "lsm_hook (enforce_socket_connect addr)"
| "lsm_hook (enforce_socket_recvmsg sk)"

text \<open>A step: the kernel switches to another task, or one program runs in the current one. The parameter says which
  processes may begin or end: a step relation that leaves one process out describes what happens during its life.\<close>

inductive sensor_step_in :: "(pid_t \<Rightarrow> bool) \<Rightarrow> 'a tables_scheme \<Rightarrow> 'a tables_scheme \<Rightarrow> bool" for mortal where
  on_switch: "sensor_step_in mortal st
    (st\<lparr>cur_pid_tgid := t, cur_ppid := pp, cur_comm := cm, cur_fdt := ft, kernel_file := kf, user_mem := um\<rparr>)"
| on_enter: "prog \<in> set sys_enter_programs \<Longrightarrow> sensor_step_in mortal st (prog args st)"
| on_exit: "prog \<in> set sys_exit_programs \<Longrightarrow> sensor_step_in mortal st (prog ret st)"
| on_hook: "lsm_hook hook \<Longrightarrow> sensor_step_in mortal st (snd (hook st))"
| on_fork: "mortal child \<Longrightarrow> sensor_step_in mortal st (handle_fork child st)"
| on_exec: "sensor_step_in mortal st (handle_exec env st)"
| on_exec_args: "sensor_step_in mortal st (handle_exec_args tail env st)"
| on_process_exit: "(cur_pid st = ucast (cur_pid_tgid st) \<longrightarrow> mortal (cur_pid st)) \<Longrightarrow>
    sensor_step_in mortal st (handle_exit code st)"
| on_tick: "sensor_step_in mortal st (cap_drain_tick ring st)"

inductive sensor_reach_in :: "(pid_t \<Rightarrow> bool) \<Rightarrow> 'a tables_scheme \<Rightarrow> 'a tables_scheme \<Rightarrow> bool" for mortal st where
  start: "sensor_reach_in mortal st st"
| step: "sensor_reach_in mortal st t \<Longrightarrow> sensor_step_in mortal t u \<Longrightarrow> sensor_reach_in mortal st u"

abbreviation sensor_step :: "'a tables_scheme \<Rightarrow> 'a tables_scheme \<Rightarrow> bool" where
  "sensor_step \<equiv> sensor_step_in (\<lambda>_. True)"

abbreviation sensor_reach :: "'a tables_scheme \<Rightarrow> 'a tables_scheme \<Rightarrow> bool" where
  "sensor_reach \<equiv> sensor_reach_in (\<lambda>_. True)"

section \<open>Labels an exec may remove\<close>

text \<open>The labels that some exec update of a domain removes: what the pipeline collects for that domain stays within
  them.\<close>

definition exec_removes :: "'a cap_maps_scheme \<Rightarrow> u32 \<Rightarrow> nat set" where
  "exec_removes st d =
     (\<Union>u \<in> {u. \<exists>i < unat (te_count st 1). arr_lookup (ts_updates st) i = Some u \<and> up_op u = TOP_EXEC \<and> up_domain_id u = d}.
        bits_of (up_del u))"

lemma exec_removes_cong: "ts_updates s = ts_updates t \<Longrightarrow> ts_counts s = ts_counts t \<Longrightarrow> exec_removes s = exec_removes t"
  by (simp add: exec_removes_def te_count_def fun_eq_iff)

lemma exec_removes_truncate: "cap_maps.truncate s = cap_maps.truncate t \<Longrightarrow> exec_removes s = exec_removes t"
  by (intro exec_removes_cong; rule policy_cong)

lemma scan_dels:
  assumes "\<And>i c. snd (cb i c) = c \<or> (\<exists>u. arr_lookup (ts_updates st) i = Some u \<and> up_op u = TOP_EXEC \<and>
      up_domain_id u = uc_domain_id c \<and> snd (cb i c) = te_update_accum u c)"
    and "uc_domain_id c = d" "uc_del c = 0"
  shows "bits_of (uc_del (bpf_loop (te_count st 1) cb c)) \<subseteq> exec_removes st d"
proof -
  let ?l = "loop_on [0..<unat (te_count st 1)] cb c"
  have "uc_domain_id ?l = d \<and> bits_of (uc_del ?l) \<subseteq> exec_removes st d"
  proof (rule loop_on_inv)
    fix i and c' :: te_update_ctx
    assume i: "i \<in> set [0..<unat (te_count st 1)]"
      and c: "uc_domain_id c' = d \<and> bits_of (uc_del c') \<subseteq> exec_removes st d"
    from assms(1) [of i c'] show "uc_domain_id (snd (cb i c')) = d \<and> bits_of (uc_del (snd (cb i c'))) \<subseteq> exec_removes st d"
    proof (elim disjE exE conjE)
      fix u
      assume u: "arr_lookup (ts_updates st) i = Some u" "up_op u = TOP_EXEC" "up_domain_id u = uc_domain_id c'"
        "snd (cb i c') = te_update_accum u c'"
      with i c have "bits_of (up_del u) \<subseteq> exec_removes st d" by (auto simp: exec_removes_def)
      then show ?thesis using c u(4) by (simp add: te_update_accum_def Let_def)
    qed (use c in simp)
  qed (use assms(2,3) in simp)
  then show ?thesis by (simp add: bpf_loop_def assms(3))
qed

lemma exec_scan_dels:
  "bits_of (uc_del (te_collect_exec_updates_no_args st (update_ctx pid d TOP_EXEC t 0))) \<subseteq> exec_removes st d"
  "bits_of (uc_del (bpf_loop (te_count st 1) (te_exec_update_simple_cb st) (update_ctx pid d TOP_EXEC t 0))) \<subseteq> exec_removes st d"
  "bits_of (uc_del (bpf_loop (te_count st 1) (te_exec_update_prefix_cb st) (update_ctx pid d TOP_EXEC t 0))) \<subseteq> exec_removes st d"
  unfolding te_collect_exec_updates_no_args_def
  by (rule scan_dels; auto simp: te_exec_update_no_args_cb_def te_exec_update_simple_cb_def te_exec_update_prefix_cb_def
      update_ctx_def split: option.split)+

text \<open>What the pipeline has collected.\<close>

definition pipe_dels_ok :: "'a cap_maps_scheme \<Rightarrow> exec_pipe_state \<Rightarrow> bool" where
  "pipe_dels_ok st s \<longleftrightarrow> (\<forall>i. bits_of (xp_del s i) \<subseteq> exec_removes st (xp_domain_ids s i))"

lemma pipe_init_dels: "pipe_dels_ok st (exec_pipe_init st' pid mode)"
proof -
  have "\<forall>i. xp_del (exec_pipe_init st' pid mode) i = 0"
    unfolding exec_pipe_init_def by (rule loop_on_inv) (auto simp: Let_def)
  then show ?thesis by (simp add: pipe_dels_ok_def)
qed

lemma pipe_collect_dels: "pipe_dels_ok st s \<Longrightarrow> pipe_dels_ok st (exec_pipe_collect_updates pfx st x s)"
  unfolding exec_pipe_collect_updates_def
  by (rule loop_on_inv) (use exec_scan_dels [of st] in \<open>auto simp: pipe_dels_ok_def Let_def\<close>)

section \<open>What programs are built from\<close>

locale program_contract =
  fixes P :: "'a tables_scheme \<Rightarrow> bool"
    and mortal :: "pid_t \<Rightarrow> bool"
  assumes flow_read: "P st \<Longrightarrow> P (te_read p f path st)"
    and flow_write: "P st \<Longrightarrow> P (te_write_flow p f path st)"
    and flow_connect: "P st \<Longrightarrow> P (te_connect_flow ip p st)"
    and flow_recv: "P st \<Longrightarrow> P (te_recv_flow ip p st)"
    and flow_materialize: "P st \<Longrightarrow> P (te_materialize_file_source p fo path st)"
    and flow_copy: "P st \<Longrightarrow> P (te_copy_file_state p f g del st)"
    and flow_swap: "P st \<Longrightarrow> P (te_swap_file_state p f g st)"
    and do_fork: "P st \<Longrightarrow> mortal c \<Longrightarrow> P (te_fork p c st)"
    and do_exit: "P st \<Longrightarrow> mortal p \<Longrightarrow> P (te_exit p status st)"
    and do_exec: "P st \<Longrightarrow> P (te_exec_update_no_args p comm st)"
    and do_exec_apply: "P st \<Longrightarrow> bits_of (uc_del u) \<subseteq> exec_removes st d \<Longrightarrow> P (te_exec_apply p comm d u st)"
    and do_drain: "P st \<Longrightarrow> P (cap_drain_current t ring st)"
    and report: "P st \<Longrightarrow> P (emit_violation p r tg c k fo d m opc b kl eff st)"
    and signal: "P st \<Longrightarrow> P (bpf_send_signal sg st)"
    and argslots: "P st \<Longrightarrow> P (st\<lparr>ts_argslots := slots\<rparr>)"
    and clock: "P st \<Longrightarrow> P (st\<lparr>ktick := n\<rparr>)"
    and protected: "P st \<Longrightarrow> mortal p \<Longrightarrow> P (st\<lparr>te_protected_pids := map_delete p (te_protected_pids st)\<rparr>)"
    and switch: "P st \<Longrightarrow>
      P (st\<lparr>cur_pid_tgid := t, cur_ppid := pp, cur_comm := cm, cur_fdt := ft, kernel_file := kf, user_mem := um\<rparr>)"
    and openpend: "P st \<Longrightarrow> P (st\<lparr>ts_openpend := a1\<rparr>)"
    and renamepend: "P st \<Longrightarrow> P (st\<lparr>ts_renamepend := a2\<rparr>)"
    and fds: "P st \<Longrightarrow> P (st\<lparr>ts_fd := a3\<rparr>)"
    and fileptr: "P st \<Longrightarrow> P (st\<lparr>ts_fileptr := a4\<rparr>)"
    and sockfd: "P st \<Longrightarrow> P (st\<lparr>ts_sockfd := a5\<rparr>)"
    and connectpend: "P st \<Longrightarrow> P (st\<lparr>ts_connectpend := a6\<rparr>)"
    and unixsockpend: "P st \<Longrightarrow> P (st\<lparr>ts_unixsockpend := a7\<rparr>)"
    and acceptpend: "P st \<Longrightarrow> P (st\<lparr>ts_acceptpend := a8\<rparr>)"
    and iopend: "P st \<Longrightarrow> P (st\<lparr>ts_iopend := a9\<rparr>)"
    and mmappend: "P st \<Longrightarrow> P (st\<lparr>ts_mmappend := a10\<rparr>)"
    and mprotectpend: "P st \<Longrightarrow> P (st\<lparr>ts_mprotectpend := a11\<rparr>)"
    and mremappend: "P st \<Longrightarrow> P (st\<lparr>ts_mremappend := a12\<rparr>)"
    and duppend: "P st \<Longrightarrow> P (st\<lparr>ts_duppend := a15\<rparr>)"
    and fdcopypend: "P st \<Longrightarrow> P (st\<lparr>ts_fdcopypend := a16\<rparr>)"
    and pipepend: "P st \<Longrightarrow> P (st\<lparr>ts_pipepend := a17\<rparr>)"
    and socketpairpend: "P st \<Longrightarrow> P (st\<lparr>ts_socketpairpend := a18\<rparr>)"
    and mmap_store: "P st \<Longrightarrow> P (te_store_mmap_ref p s mp fr st)"
    and mmap_protect: "P st \<Longrightarrow> P (te_handle_mprotect_range p s l pr st)"
    and mmap_remap: "P st \<Longrightarrow> P (te_handle_mremap_range p s l s' l' st)"
    and mmap_delete: "P st \<Longrightarrow> P (te_delete_mmap_range p s l st)"
    and mmap_exit: "P st \<Longrightarrow> P (te_delete_mmaps p st)"
begin

lemmas prims [simp] = flow_read flow_write flow_connect flow_recv flow_materialize flow_copy flow_swap do_fork do_exit
  do_exec do_exec_apply do_drain report signal argslots clock protected
lemmas tables [simp] = openpend renamepend fds fileptr sockfd connectpend unixsockpend acceptpend iopend mmappend
  mprotectpend mremappend duppend fdcopypend pipepend socketpairpend mmap_store mmap_protect mmap_remap mmap_delete
  mmap_exit

text \<open>Handlers of events.\<close>

lemma act_on_keeps:
  "P st \<Longrightarrow> (\<And>b k. P (rep b k st)) \<Longrightarrow> P (snd (act_on mode eff rep st))"
  by (simp add: act_on_def Let_def)

text \<open>The verdict of an event is irrelevant here: only what happens to the state after it matters.\<close>

lemma let_any: "(\<And>x. P (snd (f x))) \<Longrightarrow> P (snd (Let a f))"
  by (simp add: Let_def)

lemma let_pair: "P (snd a) \<Longrightarrow> (\<And>rc t. P t \<Longrightarrow> P (snd (f rc t))) \<Longrightarrow> P (snd (let (rc, t) = a in f rc t))"
  by (simp add: case_prod_beta)

lemma file_event_keeps [simp]: "P st \<Longrightarrow> P (snd (te_handle_file_event p tg fid access mode st))"
proof (cases "te_pid_active st p")
  case True
  assume "P st"
  with True show ?thesis
    unfolding te_handle_file_event_def
    by (simp only: not_True_eq_False if_False) ((rule let_pair let_any)+, simp_all add: act_on_keeps Let_def split: option.split)
qed (simp add: te_handle_file_event_def)

lemma event_keeps [simp]: "P st \<Longrightarrow> P (snd (te_handle_event ev fid st))"
proof (cases "te_pid_active st (te_pid ev)")
  case True
  assume "P st"
  with True show ?thesis
    unfolding te_handle_event_def
    by (simp only: not_True_eq_False if_False) ((rule let_pair let_any)+, simp_all add: act_on_keeps Let_def split: option.split)
qed (simp add: te_handle_event_def)

lemma exec_event_keeps [simp]: "P st \<Longrightarrow> P (snd (te_handle_exec_event p tg d mode st))"
  by (simp add: te_handle_exec_event_def exec_verdict_def Let_def case_prod_beta act_on_keeps split: option.split)

lemma handlers_keep [simp]:
  "P st \<Longrightarrow> P (snd (te_handle_file ref access mode st))"
  "P st \<Longrightarrow> P (snd (te_handle_file_permission f access mode st))"
  "P st \<Longrightarrow> P (snd (te_handle_net nref access mode st))"
  "P st \<Longrightarrow> P (snd (te_handle_net_ip ip access mode st))"
  "P st \<Longrightarrow> P (snd (te_handle_fd_event fd access mode st))"
  "P st \<Longrightarrow> P (snd (te_handle_channel fd access mode st))"
  "P st \<Longrightarrow> P (snd (te_handle_exec xref mode st))"
  by (simp_all add: te_handle_file_def te_handle_file_permission_def te_handle_net_def te_handle_net_ip_def
      te_handle_fd_event_def te_handle_channel_def te_handle_exec_def Let_def
      split: option.split exec_ref.split net_ref.split)

text \<open>Tables of descriptors.\<close>

lemma fd_ops_keep [simp]:
  "P st \<Longrightarrow> P (te_store_fileptr_ref fl r st)"
  "P st \<Longrightarrow> P (te_store_fd p fd path fid st)"
  "P st \<Longrightarrow> P (te_delete_fd p fd st)"
  "P st \<Longrightarrow> P (te_store_sockfd p fd ip st)"
  by (simp_all add: te_store_fileptr_ref_def te_store_fd_def te_delete_fd_def te_store_sockfd_def Let_def split: option.split)

lemma fd_copies_keep [simp]:
  "P st \<Longrightarrow> P (te_store_fd_with_current_file p fd path fid st)"
  "P st \<Longrightarrow> P (te_copy_fd_to_pid p q fd st)"
  "P st \<Longrightarrow> P (te_copy_sockfd_to_pid p q fd st)"
  "P st \<Longrightarrow> P (te_copy_sockfd p fd fd' st)"
  by (simp_all add: te_store_fd_with_current_file_def te_copy_fd_to_pid_def te_copy_sockfd_to_pid_def te_copy_sockfd_def
      Let_def split: option.split)

lemma fd_stores_keep [simp]:
  "P st \<Longrightarrow> P (te_copy_fd p fd fd' st)"
  "P st \<Longrightarrow> P (te_store_current_fd_file p fd st)"
  "P st \<Longrightarrow> P (te_store_current_fd_file_path p fd st)"
  by (simp_all add: te_copy_fd_def te_store_current_fd_file_def te_store_current_fd_file_path_def Let_def split: option.split)

lemma fold_keeps: "P st \<Longrightarrow> (\<And>x st. P st \<Longrightarrow> P (f x st)) \<Longrightarrow> P (fold f xs st)"
  by (induction xs arbitrary: st) simp_all

lemma fork_fds_keep [simp]: "P st \<Longrightarrow> P (te_copy_fork_fds p q st)"
  by (simp add: te_copy_fork_fds_def fold_keeps)

lemma scm_cmsg_keeps [simp]: "P st \<Longrightarrow> P (snd (te_handle_scm_rights_cmsg p cp cl off st))"
  by (auto simp: te_handle_scm_rights_cmsg_def Let_def split: option.split
      intro!: loop_on_inv [where P = P] split: if_splits)

lemma scm_rights_keep [simp]: "P st \<Longrightarrow> P (te_handle_scm_rights p m st)"
  by (auto simp: te_handle_scm_rights_def Let_def case_prod_beta split: option.split
      intro!: loop_on_inv [where P = "\<lambda>x. P (snd x)"])

lemma pair_fds_keep [simp]: "P st \<Longrightarrow> P (pair_fds a name st)"
  by (simp add: pair_fds_def Let_def split: option.split)

text \<open>System calls.\<close>

lemma stashes_keep [simp]:
  "P st \<Longrightarrow> P (te_stash_rename_user_paths a b fl mode st)"
  "P st \<Longrightarrow> P (stash_open a fl r st)"
  "P st \<Longrightarrow> P (stash_pipe a st)"
  "P st \<Longrightarrow> P (stash_socketpair a fam st)"
  "P st \<Longrightarrow> P (stash_unixsock fd a len st)"
  "P st \<Longrightarrow> P (stash_accept fd st)"
  "P st \<Longrightarrow> P (stash_connect fd a st)"
  "P st \<Longrightarrow> P (stash_dup fd st)"
  "P st \<Longrightarrow> P (stash_fd_copy fd fd' st)"
  "P st \<Longrightarrow> P (stash_io fd acc a k len st)"
  "P st \<Longrightarrow> P (handle_mmap_enter fd a b c st)"
  "P st \<Longrightarrow> P (handle_mprotect_enter a b c st)"
  "P st \<Longrightarrow> P (handle_mremap_enter a b c st)"
  "P st \<Longrightarrow> P (handle_munmap_enter a b st)"
  by (simp_all add: te_stash_rename_user_paths_def stash_open_def stash_pipe_def stash_socketpair_def stash_unixsock_def
      stash_accept_def stash_connect_def stash_dup_def stash_fd_copy_def stash_io_def handle_mmap_enter_def
      handle_mprotect_enter_def handle_mremap_enter_def handle_munmap_enter_def Let_def split: option.split)

lemma io_enter_keeps [simp]:
  "P st \<Longrightarrow> P (snd (handle_io_enter_addr fd acc a k len st))" "P st \<Longrightarrow> P (snd (handle_io_enter fd acc st))"
  by (simp_all add: handle_io_enter_addr_def handle_io_enter_def Let_def case_prod_beta)

lemma rename_move_keeps [simp]: "P st \<Longrightarrow> P (rename_move p ex old new st)"
  by (simp add: rename_move_def split: option.split)

lemma exits_keep [simp]:
  "P st \<Longrightarrow> P (handle_pipe_exit ret st)"
  "P st \<Longrightarrow> P (handle_socketpair_exit ret st)"
  "P st \<Longrightarrow> P (handle_unixsock_exit ret st)"
  "P st \<Longrightarrow> P (handle_accept_exit ret st)"
  "P st \<Longrightarrow> P (handle_connect_exit ret st)"
  "P st \<Longrightarrow> P (handle_dup_exit ret st)"
  "P st \<Longrightarrow> P (handle_fd_copy_exit ret st)"
  "P st \<Longrightarrow> P (handle_mmap_exit ret st)"
  "P st \<Longrightarrow> P (handle_mprotect_exit ret st)"
  "P st \<Longrightarrow> P (handle_mremap_exit ret st)"
  "P st \<Longrightarrow> P (handle_munmap_exit ret st)"
  by (simp_all add: handle_pipe_exit_def handle_socketpair_exit_def handle_unixsock_exit_def handle_accept_exit_def
      handle_connect_exit_def handle_dup_exit_def handle_fd_copy_exit_def handle_mmap_exit_def handle_mprotect_exit_def
      handle_mremap_exit_def handle_munmap_exit_def Let_def split: option.split)

lemma io_flows_keep [simp]:
  "P st \<Longrightarrow> P (io_fd_flow p fd acc st)" "P st \<Longrightarrow> P (io_peer_flow p ip acc st)" "P st \<Longrightarrow> P (io_addr_flow p pend acc st)"
  by (simp_all add: io_fd_flow_def io_peer_flow_def io_addr_flow_def Let_def split: option.split)

lemma io_exits_keep [simp]:
  "P st \<Longrightarrow> P (handle_io_exit_read ret st)"
  "P st \<Longrightarrow> P (handle_io_exit_write ret st)"
  "P st \<Longrightarrow> P (handle_io_exit_addr ret acc st)"
  by (simp_all add: handle_io_exit_read_def handle_io_exit_write_def handle_io_exit_addr_def Let_def split: option.split)

lemma open_event_keeps [simp]: "P st \<Longrightarrow> P (snd (open_event p path fid acc st))"
  by (simp add: open_event_def Let_def)

lemma rename_event_keeps [simp]: "P st \<Longrightarrow> P (snd (rename_event p src mode side st))"
  by (simp add: rename_event_def split: option.split)

lemma path_exits_keep [simp]:
  "P st \<Longrightarrow> P (te_handle_rename_flow_exit ret st)"
  "P st \<Longrightarrow> P (snd (te_handle_rename_exit ret mode st))"
  "P st \<Longrightarrow> P (snd (handle_open_exit ret st))"
  by (simp_all add: te_handle_rename_flow_exit_def te_handle_rename_exit_def handle_open_exit_def Let_def case_prod_beta
      split: option.split)

text \<open>Programs and hooks.\<close>

lemma programs_keep:
  "\<forall>prog \<in> set sys_enter_programs. \<forall>args st. P st \<longrightarrow> P (prog args st)"
  "\<forall>prog \<in> set sys_exit_programs. \<forall>ret st. P st \<longrightarrow> P (prog ret st)"
  by (simp_all add: sys_enter_programs_def sys_exit_programs_def Let_def
      trace_openat_def trace_open_def trace_openat2_def trace_creat_def trace_truncate_def trace_pipe_def
      trace_pipe2_def trace_socketpair_def trace_bind_def trace_accept_def trace_accept4_def trace_unlink_def
      trace_unlinkat_def trace_rename_def trace_renameat_def trace_renameat2_def trace_connect_def trace_read_def
      trace_write_def trace_mmap_def trace_mprotect_def trace_mremap_def trace_munmap_def trace_sendto_def
      trace_recvfrom_def trace_sendmsg_def trace_recvmsg_def trace_close_def trace_dup_def trace_dup2_def
      trace_dup3_def trace_fcntl_def trace_sendfile64_def trace_copy_file_range_def trace_splice_def
      trace_openat_exit_def trace_open_exit_def trace_openat2_exit_def trace_creat_exit_def
      trace_truncate_exit_def trace_pipe_exit_def trace_pipe2_exit_def trace_socketpair_exit_def
      trace_bind_exit_def trace_accept_exit_def trace_accept4_exit_def trace_rename_exit_def
      trace_rename_exit_flow_def trace_renameat_exit_def trace_renameat_exit_flow_def trace_renameat2_exit_def
      trace_renameat2_exit_flow_def trace_connect_exit_def trace_read_exit_def trace_write_exit_def
      trace_mmap_exit_def trace_mprotect_exit_def trace_mremap_exit_def trace_munmap_exit_def
      trace_sendto_exit_def trace_recvfrom_exit_def trace_sendmsg_exit_def trace_recvmsg_exit_def
      trace_dup_exit_def trace_dup2_exit_def trace_dup3_exit_def trace_fcntl_exit_def trace_sendfile64_exit_def
      trace_copy_file_range_exit_def trace_splice_exit_def)

lemma hook_keeps: "lsm_hook hook \<Longrightarrow> P st \<Longrightarrow> P (snd (hook st))"
  by (induction rule: lsm_hook.induct)
     (simp_all add: enforce_bprm_check_security_def enforce_file_open_def enforce_file_permission_def enforce_file_truncate_def
      enforce_mmap_file_def enforce_file_mprotect_def enforce_path_truncate_def enforce_path_unlink_def
      enforce_path_rename_def enforce_socket_connect_def enforce_socket_recvmsg_def Let_def case_prod_beta
      split: option.split)

text \<open>The exec pipeline.\<close>

lemma pipe_apply_keeps:
  assumes "P st" "pipe_dels_ok st s"
  shows "P (exec_pipe_apply_updates x s st)"
proof -
  have dels: "bits_of (uc_del (pipe_ctx x s i)) \<subseteq> exec_removes st (xp_domain_ids s i)" for i
    using assms(2) by (simp add: pipe_dels_ok_def pipe_ctx_def)
  have same: "exec_removes (te_exec_apply p comm d u t) = exec_removes t" for p comm d u and t :: "'a tables_scheme"
    by (rule exec_removes_truncate) (simp add: exec_apply_policy)
  have "P (exec_pipe_apply_updates x s st) \<and> exec_removes (exec_pipe_apply_updates x s st) = exec_removes st"
    unfolding exec_pipe_apply_updates_def
    by (rule loop_on_inv) (use assms(1) dels in \<open>auto simp: Let_def same do_exec_apply\<close>)
  then show ?thesis by blast
qed

lemma pipe_finish_keeps [simp]: "P st \<Longrightarrow> P (exec_pipe_finish x s st)"
  by (simp add: exec_pipe_finish_def Let_def)

lemma exec_programs_keep [simp]:
  "P st \<Longrightarrow> P (handle_exec_args tail env st)" "P st \<Longrightarrow> P (handle_exec env st)"
  by (simp_all add: handle_exec_args_def exec_tp_update_simple_def exec_tp_update_prefix_def exec_tp_rule_simple_def
      exec_tp_rule_complex_def pipe_apply_keeps pipe_collect_dels pipe_init_dels handle_exec_def Let_def)

lemma step_keeps: "sensor_step_in mortal st t \<Longrightarrow> P st \<Longrightarrow> P t"
  by (induction rule: sensor_step_in.induct)
     (simp_all add: switch programs_keep hook_keeps handle_fork_def handle_exit_def cap_drain_tick_def Let_def)

lemma reach_keeps: "sensor_reach_in mortal st t \<Longrightarrow> P st \<Longrightarrow> P t"
  by (induction rule: sensor_reach_in.induct) (auto intro: step_keeps)

end

section \<open>The engine's invariant\<close>

lemma engine_ok_keys [simp]:
  fixes st :: "'a tables_scheme"
  shows "engine_ok (st\<lparr>te_protected_pids := pp\<rparr>) = engine_ok st"
    "engine_ok (st\<lparr>cur_pid_tgid := t, cur_ppid := q, cur_comm := cm, cur_fdt := ft, kernel_file := kf, user_mem := um\<rparr>) =
       engine_ok st"
    "engine_ok (st\<lparr>ktick := n\<rparr>) = engine_ok st"
    "engine_ok (st\<lparr>ts_argslots := slots\<rparr>) = engine_ok st"
  by (simp_all add: engine_ok_def wf_tables_def prov_ok_def)

lemma engine_ok_tables [simp]:
  fixes st :: "'a tables_scheme"
  shows "engine_ok (st\<lparr>ts_openpend := x1\<rparr>) = engine_ok st"
    "engine_ok (st\<lparr>ts_renamepend := x2\<rparr>) = engine_ok st"
    "engine_ok (st\<lparr>ts_fd := x3\<rparr>) = engine_ok st"
    "engine_ok (st\<lparr>ts_fileptr := x4\<rparr>) = engine_ok st"
    "engine_ok (st\<lparr>ts_sockfd := x5\<rparr>) = engine_ok st"
    "engine_ok (st\<lparr>ts_connectpend := x6\<rparr>) = engine_ok st"
    "engine_ok (st\<lparr>ts_unixsockpend := x7\<rparr>) = engine_ok st"
    "engine_ok (st\<lparr>ts_acceptpend := x8\<rparr>) = engine_ok st"
    "engine_ok (st\<lparr>ts_iopend := x9\<rparr>) = engine_ok st"
    "engine_ok (st\<lparr>ts_mmappend := x10\<rparr>) = engine_ok st"
    "engine_ok (st\<lparr>ts_mprotectpend := x11\<rparr>) = engine_ok st"
    "engine_ok (st\<lparr>ts_mremappend := x12\<rparr>) = engine_ok st"
    "engine_ok (st\<lparr>ts_mmap := x13\<rparr>) = engine_ok st"
    "engine_ok (st\<lparr>ts_mmap_index := x14\<rparr>) = engine_ok st"
    "engine_ok (st\<lparr>ts_duppend := x15\<rparr>) = engine_ok st"
    "engine_ok (st\<lparr>ts_fdcopypend := x16\<rparr>) = engine_ok st"
    "engine_ok (st\<lparr>ts_pipepend := x17\<rparr>) = engine_ok st"
    "engine_ok (st\<lparr>ts_socketpairpend := x18\<rparr>) = engine_ok st"
  by (simp_all add: engine_ok_def wf_tables_def prov_ok_def)

lemma engine_ok_mmap_index [simp]:
  "engine_ok (drop_mmap p s st) = engine_ok st"
  "engine_ok (te_mmap_index_forget p s st) = engine_ok st"
  "engine_ok (snd (te_mmap_index_remember p s st)) = engine_ok st"
  by (simp_all add: drop_mmap_def te_mmap_index_forget_def te_mmap_index_remember_def Let_def split: option.split)

lemma engine_ok_mmap_ops [simp]:
  "engine_ok st \<Longrightarrow> engine_ok (te_apply_mmap_access p m prot st)"
  "engine_ok st \<Longrightarrow> engine_ok (te_store_mmap_ref p s mp fr st)"
  "engine_ok st \<Longrightarrow> engine_ok (te_delete_mmap_range p s l st)"
  by (simp_all add: te_apply_mmap_access_def te_store_mmap_ref_def te_delete_mmap_range_def Let_def case_prod_beta
      split: option.split)

lemma engine_ok_mmap_ranges [simp]:
  "engine_ok st \<Longrightarrow> engine_ok (te_handle_mprotect_range p s l pr st)"
  "engine_ok st \<Longrightarrow> engine_ok (te_handle_mremap_range p s l s' l' st)"
  by (simp_all add: te_handle_mprotect_range_def te_handle_mremap_range_def Let_def case_prod_beta split: option.split)

lemma engine_ok_delete_mmaps [simp]: "engine_ok (te_delete_mmaps p st) = engine_ok st"
proof -
  have "engine_ok (fold (\<lambda>i st. let s = xs ! i in if s = 0 then st else drop_mmap p s st) is st) = engine_ok st"
    for xs "is"
    by (induction "is" arbitrary: st) (simp_all add: Let_def)
  then show ?thesis by (simp add: te_delete_mmaps_def Let_def split: option.split)
qed

lemma engine_ok_exec_apply [simp]: "engine_ok st \<Longrightarrow> engine_ok (te_exec_apply p comm d u st)"
  by (simp add: te_exec_apply_def Let_def case_prod_beta split: option.split)

interpretation engine_programs: program_contract engine_ok "\<lambda>_. True"
  by unfold_locales simp_all

section \<open>The mapping tables\<close>

lemma more_engine_ops [simp]:
  "engine.more (te_copy_proc_domain_state p c d st) = engine.more st"
  "engine.more (te_exec_apply p comm d u st) = engine.more st"
  "engine.more (te_exec_update_domain_no_args p comm d st) = engine.more st"
  "engine.more (te_materialize_file_source_domain p f path d st) = engine.more st"
  "engine.more (te_copy_file_state_domain p f g del d st) = engine.more st"
  "engine.more (te_exit_domain p status d st) = engine.more st"
  by (simp_all add: te_copy_proc_domain_state_def te_exec_update_domain_no_args_def te_exec_apply_def te_store_proc_domain_def
      te_materialize_file_source_domain_def te_copy_file_state_domain_def te_exit_domain_def te_copy_proc_prov_def
      te_delete_proc_domain_def te_delete_file_prov_mask_def te_copy_file_prov_to_file_def
      Let_def case_prod_beta split: option.split)

lemma more_cap_ops [simp]:
  "cap_maps.more (cap_fork p c st) = cap_maps.more st"
  "cap_maps.more (cap_exit p st) = cap_maps.more st"
  "cap_maps.more (cap_count i st) = cap_maps.more st"
  by (simp_all add: cap_fork_def cap_exit_def cap_count_def split: option.split)

lemma more_drain [simp]: "cap_maps.more (cap_drain_current t ring st) = cap_maps.more st"
proof -
  have ops [simp]: "cap_maps.more (snd (cap_append_update_entry ru s)) = cap_maps.more s"
    "cap_maps.more (snd (cap_append_rule_entry rr s)) = cap_maps.more s"
    "cap_maps.more (snd (cap_apply_request rq s)) = cap_maps.more s" for ru rr rq and s :: "'a cap_maps_scheme"
    by (simp_all add: cap_append_update_entry_def cap_append_rule_entry_def cap_apply_request_def
        cap_policy_bind_rule_def Let_def case_prod_beta split: option.split)
  have cb [simp]: "cap_maps.more (cap_request_cb pid dp s) = cap_maps.more s" for pid dp and s :: "'a cap_maps_scheme"
    by (simp add: cap_request_cb_def Let_def case_prod_beta split: option.split)
  have "cap_maps.more (fold (cap_request_cb pid) ring st) = cap_maps.more st" for pid
    by (induction ring arbitrary: st) simp_all
  then show ?thesis by (simp add: cap_drain_current_def)
qed

lemma engine_more_cap: "cap_maps.more s = cap_maps.more t \<Longrightarrow> engine.more s = engine.more t"
  by (cases s; cases t; simp)

lemma engine_more_cap_ops [simp]:
  "engine.more (cap_fork p c st) = engine.more st"
  "engine.more (cap_exit p st) = engine.more st"
  "engine.more (cap_drain_current t ring st) = engine.more st"
  by (rule engine_more_cap, simp)+

lemma more_engine_flows [simp]:
  "engine.more (te_fork p c st) = engine.more st"
  "engine.more (te_exit p status st) = engine.more st"
  "engine.more (te_exec_update_no_args p comm st) = engine.more st"
  "engine.more (te_materialize_file_source p fo path st) = engine.more st"
  "engine.more (te_copy_file_state p f g del st) = engine.more st"
  "engine.more (te_swap_file_state p f g st) = engine.more st"
  by (simp_all add: te_fork_def te_exit_def te_exec_update_no_args_def te_materialize_file_source_def te_copy_file_state_def
      te_swap_file_state_def more_loop Let_def split: option.split)

lemma tracked_more: "engine.more s = engine.more t \<Longrightarrow> tracked s = tracked t"
  by (intro tracked_same same_tables_more)

lemma tracked_reports:
  fixes st :: "'a tables_scheme"
  shows "tracked (emit_violation p r tg c k fo d m opc b kl eff st) = tracked st"
    "tracked (bpf_send_signal sg st) = tracked st"
proof -
  have "same_tables (st\<lparr>ktick := a, rb_tries := x, rb := y\<rparr>) st" for a x y
    by (cases st) (simp add: same_tables_def)
  then show "tracked (emit_violation p r tg c k fo d m opc b kl eff st) = tracked st"
    using emit_reports_only [of st p r tg c k fo d m opc b kl eff] tracked_same
    unfolding reports_only_def by metis
  show "tracked (bpf_send_signal sg st) = tracked st"
    by (rule tracked_same) (cases st, simp add: same_tables_def bpf_send_signal_def)
qed

interpretation mmap_programs: program_contract tracked "\<lambda>_. True"
  by unfold_locales
    (simp_all add: tracked_more [OF more_flows(1)] tracked_more [OF more_flows(2)] tracked_more [OF more_flows(3)]
      tracked_more [OF more_flows(4)] tracked_more [OF more_engine_flows(1)] tracked_more [OF more_engine_flows(2)]
      tracked_more [OF more_engine_flows(3)] tracked_more [OF more_engine_flows(4)] tracked_more [OF more_engine_flows(5)]
      tracked_more [OF more_engine_flows(6)] tracked_more [OF engine_more_cap_ops(3)] tracked_more [OF more_engine_ops(2)]
      tracked_reports tracked_store tracked_mprotect tracked_mremap tracked_delete_range delete_mmaps(2),
     simp_all add: tracked_def mmaps_ok_def)


section \<open>Properties\<close>

text \<open>C2: the sensor's invariant. Whatever sequence of programs runs, in whatever task contexts (every system call
  entry and exit, every LSM hook, fork, exec, exit and the draining of deltas), the engine stays well formed, and
  every mapping on record is listed in the index of its process, as long as that index map is never reclaimed
  from. So at most eight mappings of a process are on record at any time.\<close>

theorem sensor_invariant:
  assumes "sensor_reach st t" "engine_ok st" "tracked st"
  shows "engine_ok t \<and> mmaps_ok t \<and>
    finite {start. lru_lookup (ts_mmap t) (te_mmap_key pid start) \<noteq> None} \<and>
    card {start. lru_lookup (ts_mmap t) (te_mmap_key pid start) \<noteq> None} \<le> TE_MMAP_INDEX_SLOTS"
proof -
  have t: "tracked t" by (rule mmap_programs.reach_keeps [OF assms(1,3)])
  then show ?thesis
    using engine_programs.reach_keeps [OF assms(1,2)] tracked_bound [OF t, of pid] by (simp add: tracked_def)
qed

lemma guard_tables_ok: "engine_ok guard_tables"
proof -
  have "engine_ok guard_sensor"
    by (simp add: engine_ok_def guard_wf prov_ok_def) (simp add: guard_defs example_simps)
  then show ?thesis
    using engine_ok_truncate [of guard_tables] engine_ok_truncate [of guard_sensor] guard_tables_engine(1) by simp
qed

lemma guard_reach: "sensor_reach guard_tables (trace_munmap_exit 0 (handle_fork 200 guard_tables))"
proof -
  have "sensor_reach guard_tables (handle_fork 200 guard_tables)"
    by (intro sensor_reach_in.step [OF sensor_reach_in.start] on_fork TrueI)
  moreover have "trace_munmap_exit \<in> set sys_exit_programs" by (simp add: sys_exit_programs_def)
  ultimately show ?thesis by (blast intro: sensor_reach_in.step on_exit)
qed

theorem sensor_invariant_witness:
  "engine_ok (trace_munmap_exit 0 (handle_fork 200 guard_tables)) \<and> mmaps_ok (trace_munmap_exit 0 (handle_fork 200 guard_tables))"
  using sensor_invariant [OF guard_reach guard_tables_ok guard_tracked] by blast

lemma exit_active: "te_pid_active (te_exit pid code st) q \<longleftrightarrow> q \<noteq> pid \<and> te_pid_active st q"
proof -
  have "cap_task (domain_loop pid (te_exit_domain pid code) st) = cap_task st"
    using exit_flow.policy [of pid code st] by (metis cap_maps.select_convs(7) cap_maps.truncate_def)
  then show ?thesis
    by (simp add: te_exit_def Let_def cap_exit_def te_pid_active_def cap_task_bound_def lookup_delete)
qed


lemma same_tables_exit: "same_tables (te_exit pid code st) st"
  by (rule same_tables_more) simp

lemma delete_mmaps_frame:
  fixes st :: "'a tables_scheme"
  shows "same_engine (te_delete_mmaps pid st) st" "te_protected_pids (te_delete_mmaps pid st) = te_protected_pids st"
    "ts_fd (te_delete_mmaps pid st) = ts_fd st" "ts_sockfd (te_delete_mmaps pid st) = ts_sockfd st"
proof -
  let ?f = "\<lambda>xs is. fold (\<lambda>i st. let s = xs ! i in if s = 0 then st else drop_mmap pid s st) is"
  have *: "same_engine (?f xs is st) t = same_engine st t \<and> te_protected_pids (?f xs is st) = te_protected_pids st \<and>
      ts_fd (?f xs is st) = ts_fd st \<and> ts_sockfd (?f xs is st) = ts_sockfd st" for xs "is" t and st :: "'a tables_scheme"
    by (induction "is" arbitrary: st) (simp_all add: Let_def drop_mmap_def)
  then show "same_engine (te_delete_mmaps pid st) st" "te_protected_pids (te_delete_mmaps pid st) = te_protected_pids st"
    "ts_fd (te_delete_mmaps pid st) = ts_fd st" "ts_sockfd (te_delete_mmaps pid st) = ts_sockfd st"
    by (simp_all add: te_delete_mmaps_def Let_def split: option.split)
qed

text \<open>What the exit of a process does to labels and sessions, domain by domain.\<close>

lemma exit_domain_labels:
  "proc_labels (te_exit_domain p status d st) q e = (if q = p \<and> e = d then {} else proc_labels st q e)"
  by (auto simp: te_exit_domain_def te_delete_proc_domain_def proc_labels_def te_get_domain_def te_get_def
      lookup_delete Let_def split: option.split)

lemma exit_domain_sessions:
  shows "ts_root (te_exit_domain p status d st) = ts_root st"
    and "te_sess_get (te_exit_domain p status d st) r e = None \<longleftrightarrow> te_sess_get st r e = None"
    and "r \<noteq> te_root st p \<or> e \<noteq> d \<Longrightarrow> te_sess_get (te_exit_domain p status d st) r e = te_sess_get st r e"
proof -
  show "ts_root (te_exit_domain p status d st) = ts_root st"
    using exit_domain_frame [of p status d st] by (auto simp: delete_proc_domain)
  have key: "te_sess_domain_key r e = te_sess_domain_key r' d \<longleftrightarrow> r = r' \<and> e = d" for r'
    by (simp add: te_sess_domain_key_def)
  have stamp: "te_sess_get (te_stamp r' d ep g 0 st) r e =
      (if ep \<noteq> 0 \<and> r = r' \<and> e = d then map_option (stamped ep g 0) (te_sess_get st r e) else te_sess_get st r e)" for r' ep g
    by (cases "ep = 0") (auto simp: te_stamp_stamped te_sess_get_def lookup_modify key)
  have "te_sess_get (te_exit_domain p status d st) r e = te_sess_get st r e \<or>
      (\<exists>ep g. te_sess_get (te_exit_domain p status d st) r e = te_sess_get (te_stamp (te_root st p) d ep g 0 st) r e)"
    by (auto simp: te_exit_domain_def te_delete_proc_domain_def te_sess_get_def Let_def split: option.split)
  then show "te_sess_get (te_exit_domain p status d st) r e = None \<longleftrightarrow> te_sess_get st r e = None"
    and "r \<noteq> te_root st p \<or> e \<noteq> d \<Longrightarrow> te_sess_get (te_exit_domain p status d st) r e = te_sess_get st r e"
    by (auto simp: stamp split: if_splits)
qed

lemma exit_domains_effect:
  shows "proc_labels (fold (te_exit_domain p status) ds st) q e = (if q = p \<and> e \<in> set ds then {} else proc_labels st q e)"
    and "ts_root (fold (te_exit_domain p status) ds st) = ts_root st"
    and "te_sess_get (fold (te_exit_domain p status) ds st) r e = None \<longleftrightarrow> te_sess_get st r e = None"
    and "r \<noteq> te_root st p \<or> e \<notin> set ds \<Longrightarrow> te_sess_get (fold (te_exit_domain p status) ds st) r e = te_sess_get st r e"
proof (induction ds rule: rev_induct)
  case (snoc d ds)
  note IH = snoc
  have root: "te_root (fold (te_exit_domain p status) ds st) p = te_root st p" by (simp add: te_root_def IH(2))
  { case 1 show ?case using IH(1) by (auto simp: exit_domain_labels) }
  { case 2 show ?case using IH(2) by (simp add: exit_domain_sessions(1)) }
  { case 3 show ?case using IH(3) by (simp add: exit_domain_sessions(2)) }
  { case 4 then show ?case using IH(4) by (auto simp: exit_domain_sessions(3) root) }
qed simp_all

lemma te_exit_effect:
  "proc_labels (te_exit p status st) q e = (if q = p \<and> e \<in> set (te_domains st p) then {} else proc_labels st q e)"
  "map_lookup (ts_root (te_exit p status st)) q = (if q = p then None else map_lookup (ts_root st) q)"
  "te_sess_get (te_exit p status st) r e = None \<longleftrightarrow> te_sess_get st r e = None"
  "r \<noteq> te_root st p \<or> e \<notin> set (te_domains st p) \<Longrightarrow> te_sess_get (te_exit p status st) r e = te_sess_get st r e"
proof -
  note eff = exit_domains_effect [where p = p and status = status and ds = "te_domains st p" and st = st]
  have u: "te_exit p status st = cap_exit p ((fold (te_exit_domain p status) (te_domains st p) st)
      \<lparr>ts_root := map_delete p (ts_root st)\<rparr>)"
    by (simp add: te_exit_def exit_flow.domain_loop_fold eff(2) Let_def)
  show "proc_labels (te_exit p status st) q e = (if q = p \<and> e \<in> set (te_domains st p) then {} else proc_labels st q e)"
    unfolding u eff(1) [symmetric] by (simp add: cap_exit_def proc_labels_def te_get_domain_def te_get_def)
  show "map_lookup (ts_root (te_exit p status st)) q = (if q = p then None else map_lookup (ts_root st) q)"
    unfolding u by (simp add: cap_exit_def lookup_delete)
  show "te_sess_get (te_exit p status st) r e = None \<longleftrightarrow> te_sess_get st r e = None"
    unfolding u eff(3) [symmetric] by (simp add: cap_exit_def te_sess_get_def)
  show "te_sess_get (te_exit p status st) r e = te_sess_get st r e" if "r \<noteq> te_root st p \<or> e \<notin> set (te_domains st p)"
    unfolding u eff(4) [OF that, symmetric] by (simp add: cap_exit_def te_sess_get_def)
qed

text \<open>C24: what the exit of a process removes, in any reachable state, and what it leaves. When its last thread's
  group leader exits, the process is bound to no domain and to no session root, the labels recorded for it in its
  domains are gone, it is no longer protected, and none of its mappings is on record. The binding, the session root,
  the recorded labels, the protection and the mappings of every other process are as before. Sessions are never
  deleted: at most those of the process's own root in its domains change (by the gates its exit fires). What its
  descriptors stood for is not removed either.\<close>

theorem handle_exit_clears:
  assumes "sensor_reach st t" "tracked st" "cur_pid t = ucast (cur_pid_tgid t)"
  shows "\<not> te_pid_active (handle_exit code t) (cur_pid t) \<and>
    map_lookup (ts_root (handle_exit code t)) (cur_pid t) = None \<and>
    (\<forall>d. te_labels_for_domain (handle_exit code t) (cur_pid t) d = 0) \<and>
    (\<forall>d \<in> set (te_domains t (cur_pid t)). proc_labels (handle_exit code t) (cur_pid t) d = {}) \<and>
    \<not> te_pid_protected (handle_exit code t) (cur_pid t) \<and>
    (\<forall>start. lru_lookup (ts_mmap (handle_exit code t)) (te_mmap_key (cur_pid t) start) = None) \<and>
    (\<forall>q start d. q \<noteq> cur_pid t \<longrightarrow>
       te_pid_active (handle_exit code t) q = te_pid_active t q \<and>
       map_lookup (ts_root (handle_exit code t)) q = map_lookup (ts_root t) q \<and>
       proc_labels (handle_exit code t) q d = proc_labels t q d \<and>
       te_pid_protected (handle_exit code t) q = te_pid_protected t q \<and>
       lru_lookup (ts_mmap (handle_exit code t)) (te_mmap_key q start) = lru_lookup (ts_mmap t) (te_mmap_key q start)) \<and>
    (\<forall>root d. (te_sess_get (handle_exit code t) root d = None \<longleftrightarrow> te_sess_get t root d = None) \<and>
       (root \<noteq> te_root t (cur_pid t) \<or> d \<notin> set (te_domains t (cur_pid t)) \<longrightarrow>
          te_sess_get (handle_exit code t) root d = te_sess_get t root d)) \<and>
    ts_fd (handle_exit code t) = ts_fd t \<and> ts_sockfd (handle_exit code t) = ts_sockfd t"
proof -
  let ?e = "te_exit (cur_pid t) code t"
  let ?m = "te_delete_mmaps (cur_pid t) ?e"
  have u: "handle_exit code t = ?m\<lparr>te_protected_pids := map_delete (cur_pid t) (te_protected_pids ?m)\<rparr>"
    using assms(3) by (simp add: handle_exit_def Let_def)
  have tt: "tracked t" by (rule mmap_programs.reach_keeps [OF assms(1,2)])
  then have te: "tracked ?e" by (simp add: mmap_programs.do_exit)
  have "same_engine (handle_exit code t) ?e"
    unfolding u using delete_mmaps_frame(1) [of "cur_pid t" ?e] by (simp add: same_engine_def engine.truncate_def)
  then have eng: "cap_task (handle_exit code t) = cap_task ?e" "ts_root (handle_exit code t) = ts_root ?e"
    "ts_proc (handle_exit code t) = ts_proc ?e" "ts_proc_domains (handle_exit code t) = ts_proc_domains ?e"
    "ts_sess (handle_exit code t) = ts_sess ?e"
    by (simp_all add: same_engine_def engine.truncate_def)
  have act: "te_pid_active (handle_exit code t) q \<longleftrightarrow> q \<noteq> cur_pid t \<and> te_pid_active t q" for q
    using exit_active [of "cur_pid t" code t q] by (simp add: te_pid_active_def cap_task_bound_def eng(1))
  have root: "map_lookup (ts_root (handle_exit code t)) q = (if q = cur_pid t then None else map_lookup (ts_root t) q)" for q
    unfolding eng(2) by (rule te_exit_effect)
  have labels: "proc_labels (handle_exit code t) q d =
      (if q = cur_pid t \<and> d \<in> set (te_domains t (cur_pid t)) then {} else proc_labels t q d)" for q d
    unfolding labels_cong(1) [OF eng(3,4)] by (rule te_exit_effect)
  have sess: "te_sess_get (handle_exit code t) r d = te_sess_get ?e r d" for r d
    by (simp add: te_sess_get_def eng(5))
  have prot: "te_protected_pids ?e = te_protected_pids t"
    using more_engine_flows(2) [of "cur_pid t" code t] by (cases ?e; cases t; simp)
  have same: "ts_mmap ?e = ts_mmap t" "ts_fd ?e = ts_fd t" "ts_sockfd ?e = ts_sockfd t"
    by (rule same_tables_fields [OF same_tables_exit])+
  have maps: "lru_lookup (ts_mmap (handle_exit code t)) (te_mmap_key q start) =
      (if q = cur_pid t then None else lru_lookup (ts_mmap t) (te_mmap_key q start))" for q start
    by (simp add: u delete_mmaps(1) [OF te] same te_mmap_key_def)
  have guard: "te_pid_protected (handle_exit code t) q \<longleftrightarrow> q \<noteq> cur_pid t \<and> te_pid_protected t q" for q
    by (simp add: u te_pid_protected_def lookup_delete delete_mmaps_frame prot)
  have fds: "ts_fd (handle_exit code t) = ts_fd t" "ts_sockfd (handle_exit code t) = ts_sockfd t"
    by (simp_all add: u delete_mmaps_frame same)
  show ?thesis
    by (simp add: act root labels maps guard fds sess te_labels_for_domain_def te_exit_effect(3))
      (auto intro: te_exit_effect(4))
qed

theorem handle_exit_clears_witness:
  "\<not> te_pid_active (handle_exit 0 guard_tables) 100 \<and>
   lru_lookup (ts_mmap (handle_exit 0 guard_tables)) (te_mmap_key 100 4096) = None"
proof -
  have leader: "cur_pid guard_tables = ucast (cur_pid_tgid guard_tables)"
    by (simp add: guard_tables_engine)
  from handle_exit_clears [OF sensor_reach_in.start guard_tracked leader, of 0] show ?thesis
    unfolding guard_tables_engine(2) by blast
qed


end
