(* ===== verification/Hook_Properties.thy ===== *)
theory Hook_Properties
  imports Sensor_Machine
begin

text \<open>
  What the hooks guarantee to their users: the LSM hooks on files deny exactly what the policy blocks, a
  rename moves the labels with the object, and processes inside a domain can neither signal nor trace a
  protected process nor change the kernel's maps without authority.
\<close>

section \<open>LSM hooks on files\<close>

text \<open>The object a file hook evaluates: none when enforcement is off, the process is outside every domain, the
  object cannot be named, or it is neither a regular file nor a directory.\<close>

definition lsm_object :: "'a tables_scheme \<Rightarrow> file_ref \<Rightarrow> (bytes \<times> file_id) option" where
  "lsm_object st ref =
     (if enforce_mode st = 0 \<or> \<not> te_pid_active st (cur_pid st) \<or> \<not> te_is_regular_or_dir ref then None
      else map_option (\<lambda>path. (path, te_resolve_file_id ref path)) (te_resolve_file_ref (user_mem st) ref))"

lemma handle_file_object:
  "access \<noteq> 0 \<Longrightarrow>
    te_handle_file ref access TE_MODE_BLOCK st =
      (case lsm_object st ref of
         None \<Rightarrow> (0, st)
       | Some (path, fid) \<Rightarrow> te_handle_file_event (cur_pid st) path fid access TE_MODE_BLOCK st)"
  by (simp add: te_handle_file_def lsm_object_def Let_def split: option.split)

lemma lsm_object_active: "lsm_object st ref = Some x \<Longrightarrow> te_pid_active st (cur_pid st)"
  by (simp add: lsm_object_def split: if_splits)

lemma open_access_nonzero: "te_access_from_open_flags flags \<noteq> 0"
  by (simp add: te_access_from_open_flags_def Let_def)

text \<open>One file hook: its verdict, and what an access leaves behind.\<close>

lemma handle_file_lsm:
  assumes "wf_tables st" "rules_ok st" "access \<noteq> 0" "lsm_object st ref = Some (path, fid)"
  shows "if file_hits st (cur_pid st) path fid access TE_MODE_BLOCK = {}
    then te_handle_file ref access TE_MODE_BLOCK st = (0, file_flow (cur_pid st) fid path access st)
    else fst (te_handle_file ref access TE_MODE_BLOCK st) = - EPERM \<and>
      reports_only st (snd (te_handle_file ref access TE_MODE_BLOCK st))"
  using file_lsm_cases [OF lsm_object_active [OF assms(4)] assms(1,2), of path fid access]
  by (auto simp: handle_file_object assms(3,4) split: if_splits)

section \<open>Properties\<close>

text \<open>C12: the open hook. An open by a process in a domain, with enforcement on, of a regular file or directory whose
  path the kernel can give, is denied exactly when a block rule matches that path with the access the open flags ask
  for; a denied open writes a report and changes nothing else, an allowed one lets the labels flow. Every other open is
  let through and leaves the state as it was.\<close>

theorem enforce_file_open_lsm:
  assumes "wf_tables st" "rules_ok st"
  shows "case lsm_object st (TE_REF_FILE f) of
      None \<Rightarrow> enforce_file_open f st = (0, st)
    | Some (path, fid) \<Rightarrow>
        if file_hits st (cur_pid st) path fid (te_access_from_open_flags (ff_flags f)) TE_MODE_BLOCK = {}
        then enforce_file_open f st = (0, file_flow (cur_pid st) fid path (te_access_from_open_flags (ff_flags f)) st)
        else fst (enforce_file_open f st) = - EPERM \<and> reports_only st (snd (enforce_file_open f st))"
proof (cases "lsm_object st (TE_REF_FILE f)")
  case None
  then show ?thesis by (simp add: enforce_file_open_def handle_file_object [OF open_access_nonzero])
next
  case (Some x)
  obtain path fid where x: "x = (path, fid)" by (cases x)
  show ?thesis
    using handle_file_lsm [OF assms open_access_nonzero Some [unfolded x]]
    by (simp only: Some x option.case prod.case enforce_file_open_def)
qed

definition shadow_file :: kfile where
  "shadow_file = \<lparr>ff_path = \<lparr>pa_d_path = (12, fr_path shadow_ref), pa_dentry = \<lparr>de_name = None, de_inode = None\<rparr>\<rparr>,
     ff_inode = Some \<lparr>in_ino = 5, in_dev = 1, in_mode = 0x8180\<rparr>, ff_flags = 0\<rparr>"

lemma guard_tables_rules: "wf_tables guard_tables" "rules_ok guard_tables"
  using guard_tables_ok
  by (auto simp: engine_ok_def) (simp add: rules_ok_def active_rules_def n_rules_def guard_tables_defs guard_defs no_rule_def)

lemma shadow_object: "lsm_object guard_tables (TE_REF_FILE shadow_file) = Some (fr_path shadow_ref, fr_fid shadow_ref)"
proof -
  have "enforce_mode guard_tables = 1"
    by (simp add: guard_tables_defs guard_defs example_maps_def)
  then show ?thesis
    by (simp add: lsm_object_def guard_tables_engine guard_tables_active shadow_file_def shadow_ref_def te_is_regular_or_dir_def
        ref_inode_def te_resolve_file_ref_def file_path_def te_resolve_file_id_def)
qed

theorem enforce_file_open_lsm_witness: "fst (enforce_file_open shadow_file guard_tables) = - EPERM"
proof -
  let ?H = "file_hits guard_tables 100 (fr_path shadow_ref) (fr_fid shadow_ref) TE_ACCESS_READ TE_MODE_BLOCK"
  have acc: "te_access_from_open_flags (ff_flags shadow_file) = TE_ACCESS_READ"
    by (simp add: shadow_file_def te_access_from_open_flags_def)
  have "(TOP_OPEN, 0) \<in> ?H"
    by (simp add: file_hits_def file_ops_def op_hit_def file_eval_def rule_hit_def rule_in_domain_def wanted_block taint_mask_ok_def
        target_matches_def te_path_match_def te_cond_satisfied_def no_rule_def n_rules_def active_rules_def
        cap_policy_rule_bound_def cap_policy_mask_has_def lookup_put room_def hash_new_def bit64_def
        guard_tables_defs guard_defs example_maps_def Let_def)
  then have some: "?H \<noteq> {}" by blast
  from enforce_file_open_lsm [OF guard_tables_rules, of shadow_file] some show ?thesis
    unfolding shadow_object option.case prod.case guard_tables_engine(2) acc if_not_P [OF some] by blast
qed

section \<open>The control plane\<close>

text \<open>Who may act on the sensor itself: processes outside every domain, protected processes, and processes of a
  domain that holds some authority.\<close>

definition may_change_maps :: "'a tables_scheme \<Rightarrow> bool" where
  "may_change_maps st \<longleftrightarrow>
     te_pid_protected st (cur_pid st) \<or>
     (\<exists>d state. map_lookup (cap_task st) (cur_pid st) = Some d \<and> d \<noteq> 0 \<and> map_lookup (cap_states st) d = Some state \<and>
        cs_authority_mask state \<noteq> 0)"

text \<open>The three hooks by their conditions. \<open>Control_Plane\<close> says what they come to in a running sensor.\<close>

lemma control_plane_guards:
  "(enforce_task_kill st target sig = - EPERM \<longleftrightarrow>
      te_pid_active st (cur_pid st) \<and> sig \<noteq> 0 \<and>
      (\<exists>q. target = Some q \<and> 0 < sint q \<and> q \<noteq> cur_pid st \<and> te_pid_protected st q)) \<and>
   (enforce_ptrace_access_check st target = - EPERM \<longleftrightarrow>
      te_pid_active st (cur_pid st) \<and>
      (\<exists>q. target = Some q \<and> 0 < sint q \<and> q \<noteq> cur_pid st \<and> te_pid_protected st q)) \<and>
   (enforce_bpf_syscall st cmd = 0 \<longleftrightarrow>
      \<not> te_pid_active st (cur_pid st) \<or>
      cmd \<in> {BPF_MAP_LOOKUP_ELEM, BPF_MAP_GET_NEXT_KEY, BPF_OBJ_GET, BPF_OBJ_GET_INFO_BY_FD} \<or>
      cmd \<in> {BPF_MAP_UPDATE_ELEM, BPF_MAP_DELETE_ELEM} \<and> may_change_maps st) \<and>
   {enforce_task_kill st target sig, enforce_ptrace_access_check st target, enforce_bpf_syscall st cmd} \<subseteq> {0, - EPERM}"
  by (auto simp: enforce_task_kill_def enforce_ptrace_access_check_def te_protect_control_pid_def enforce_bpf_syscall_def
      te_pid_can_control_bpf_def may_change_maps_def cap_domain_for_pid_def Let_def split: option.splits if_splits)

section \<open>Rename\<close>

text \<open>The steps of a rename, each from a state with the policy of \<open>st\<close>.\<close>

lemma flow_at:
  assumes "te_pid_active st pid" "wf_tables st" "distinct (te_domains st pid)"
    and "cap_maps.truncate s = cap_maps.truncate st" "label_room (n + CAP_DOMAIN_DEPTH) s"
  shows write_at: "ifc_of (te_write_flow pid f path s) =
      ifc_write (set (te_domains st pid)) pid f (domain_labels st pid) (ifc_of s) \<and>
    cap_maps.truncate (te_write_flow pid f path s) = cap_maps.truncate st \<and> label_room n (te_write_flow pid f path s)"
    and materialize_at: "ifc_of (te_materialize_file_source pid (Some f) path s) =
      ifc_file_join (set (te_domains st pid)) f (file_sources st TOP_OPEN path) (ifc_of s) \<and>
    cap_maps.truncate (te_materialize_file_source pid (Some f) path s) = cap_maps.truncate st \<and>
    label_room n (te_materialize_file_source pid (Some f) path s)"
    and rename_at: "ifc_of (te_copy_file_state pid f g True s) = ifc_rename (set (te_domains st pid)) f g (ifc_of s)"
proof -
  note same = domain_cong [OF assms(4)] sources_cong [OF assms(4)]
  have room: "label_room CAP_DOMAIN_DEPTH s"
    using assms(5) by (auto simp: label_room_def elim: has_slots_mono)
  have h: "te_pid_active s pid" "wf_tables s" "distinct (te_domains s pid)" using assms(1-3) by (simp_all add: same)
  show "ifc_of (te_write_flow pid f path s) =
      ifc_write (set (te_domains st pid)) pid f (domain_labels st pid) (ifc_of s) \<and>
    cap_maps.truncate (te_write_flow pid f path s) = cap_maps.truncate st \<and> label_room n (te_write_flow pid f path s)"
    using write_flow.refines [OF h room, of f path] write_flow.policy [of pid f path s]
      write_flow.loop_room [OF h(1,2) assms(5), of f path] assms(4)
    by (simp add: te_write_flow_def same)
  show "ifc_of (te_materialize_file_source pid (Some f) path s) =
      ifc_file_join (set (te_domains st pid)) f (file_sources st TOP_OPEN path) (ifc_of s) \<and>
    cap_maps.truncate (te_materialize_file_source pid (Some f) path s) = cap_maps.truncate st \<and>
    label_room n (te_materialize_file_source pid (Some f) path s)"
    using materialize_flow.refines [OF h room, of f path] materialize_flow.policy [of pid f path s]
      materialize_flow.loop_room [OF h(1,2) assms(5), of f path] assms(4)
    by (simp add: te_materialize_file_source_def same)
  show "ifc_of (te_copy_file_state pid f g True s) = ifc_rename (set (te_domains st pid)) f g (ifc_of s)"
    using rename_flow.refines [OF h room, of f g] by (simp add: te_copy_file_state_def same)
qed


lemma user_str_length: "user_str um a n = Some s \<Longrightarrow> length s \<le> n"
  by (induction um a n arbitrary: s rule: user_str.induct) (auto split: option.splits if_splits)

lemma user_path_stored:
  assumes "user_path um a = Some path"
  shows "te_copy_target PATH_BUF (Some path) = path"
proof -
  from assms obtain s where s: "user_str um a (MAX_FILENAME_LEN - 1) = Some s" "path = padded MAX_FILENAME_LEN s"
    by (auto simp: user_path_def)
  have "length s < MAX_FILENAME_LEN" using user_str_length [OF s(1)] by simp
  then have "length path = MAX_FILENAME_LEN" "last path = 0" by (simp_all add: s(2) padded_def)
  from stored_path [OF this] show ?thesis by (simp add: te_copy_target_def)
qed

lemma rename_side_path:
  assumes "user_path um a = Some path"
  shows "rename_side um a = Some (path, te_resolve_file_id (TE_REF_USER_PATH a) path)"
  using assms user_path_stored [OF assms] by (simp add: rename_side_def te_resolve_file_ref_def)

lemma renamepend_frame [simp]:
  fixes st :: "'a tables_scheme"
  shows "ifc_of (st\<lparr>ts_renamepend := x\<rparr>) = ifc_of st" "label_room n (st\<lparr>ts_renamepend := x\<rparr>) = label_room n st"
    "cap_maps.truncate (st\<lparr>ts_renamepend := x\<rparr>) = cap_maps.truncate st"
    "te_pid_active (st\<lparr>ts_renamepend := x\<rparr>) q = te_pid_active st q" "cur_pid (st\<lparr>ts_renamepend := x\<rparr>) = cur_pid st"
  by (simp_all add: ifc_of_def proc_labels_def file_labels_def endp_labels_def te_get_domain_def te_get_def fun_eq_iff
      label_room_def cap_maps.truncate_def te_pid_active_def cap_task_bound_def cur_pid_def)

text \<open>C18: a rename carries the labels with the object. After the entry and the successful exit of a rename whose two
  paths can be read and name different objects, the new object has, in every domain of the process, the labels the
  old one had, the labels of the sources that match the old path, and those of the renaming process and its
  domain; the labels the new object had before are gone with it, the old object is clean, and nothing else
  changes.\<close>

theorem rename_moves_labels:
  fixes st :: "'a tables_scheme"
  assumes "te_pid_active st (cur_pid st)" "wf_tables st" "distinct (te_domains st (cur_pid st))"
    and "label_room (4 * CAP_DOMAIN_DEPTH) st" "lru_fits (ts_renamepend st)"
    and "user_path (user_mem st) (args 0) = Some old" "user_path (user_mem st) (args 1) = Some new"
    and "\<not> te_file_id_equal (te_resolve_file_id (TE_REF_USER_PATH (args 0)) old)
              (te_resolve_file_id (TE_REF_USER_PATH (args 1)) new)"
  shows "ifc_of (trace_rename_exit_flow 0 (trace_rename args st)) =
    (ifc_of st)\<lparr>i_file := (\<lambda>h d.
       if d \<notin> set (te_domains st (cur_pid st)) then i_file (ifc_of st) h d
       else if h = te_resolve_file_id (TE_REF_USER_PATH (args 0)) old then {}
       else if h = te_resolve_file_id (TE_REF_USER_PATH (args 1)) new
       then i_file (ifc_of st) (te_resolve_file_id (TE_REF_USER_PATH (args 0)) old) d \<union> file_sources st TOP_OPEN old d \<union>
            i_proc (ifc_of st) (cur_pid st) d \<union> domain_labels st (cur_pid st) d
       else i_file (ifc_of st) h d)\<rparr>"
proof -
  let ?pid = "cur_pid st" and ?D = "set (te_domains st (cur_pid st))" and ?own = "domain_labels st (cur_pid st)"
  let ?f = "te_resolve_file_id (TE_REF_USER_PATH (args 0)) old" and ?g = "te_resolve_file_id (TE_REF_USER_PATH (args 1)) new"
  let ?p = "\<lparr>rn_old_path_ptr = args 0, rn_new_path_ptr = args 1, rn_flags = 0, rn_old = Some (old, ?f), rn_new = Some (new, ?g)\<rparr>"
  define s0 where "s0 = st\<lparr>ts_renamepend := lru_put (cur_pid_tgid st) ?p (ts_renamepend st)\<rparr>"
  have enter: "trace_rename args st = s0"
    using assms(1) by (simp add: trace_rename_def te_stash_rename_user_paths_def te_tracepoint_mode_def s0_def
        rename_side_path [OF assms(6)] rename_side_path [OF assms(7)] del: One_nat_def)
  have found: "lru_lookup (ts_renamepend s0) (cur_pid_tgid s0) = Some ?p"
    using lru.put_found [OF assms(5)] by (simp add: s0_def)
  have same: "ifc_of s0 = ifc_of st" "cap_maps.truncate s0 = cap_maps.truncate st" "cur_pid s0 = cur_pid st"
    "te_pid_active s0 (cur_pid st)" "label_room (24 + CAP_DOMAIN_DEPTH) s0"
    using assms(1,4) by (simp_all add: s0_def)
  define s1 where "s1 = te_materialize_file_source ?pid (Some ?f) old s0"
  define s2 where "s2 = te_write_flow ?pid ?f old s1"
  define s3 where "s3 = te_write_flow ?pid ?g new s2"
  have "trace_rename_exit_flow 0 s0 =
      (te_copy_file_state ?pid ?f ?g True s3)\<lparr>ts_renamepend :=
         lru_delete (cur_pid_tgid s0) (ts_renamepend (te_copy_file_state ?pid ?f ?g True s3))\<rparr>"
    using assms(8) same(3,4) found
    by (simp add: trace_rename_exit_flow_def te_handle_rename_flow_exit_def rename_again_def rename_move_def s1_def s2_def s3_def Let_def)
  then have fin: "ifc_of (trace_rename_exit_flow 0 s0) = ifc_of (te_copy_file_state ?pid ?f ?g True s3)" by simp
  note at = flow_at [OF assms(1-3)]
  have 1: "ifc_of s1 = ifc_file_join ?D ?f (file_sources st TOP_OPEN old) (ifc_of st)"
    "cap_maps.truncate s1 = cap_maps.truncate st" "label_room (16 + CAP_DOMAIN_DEPTH) s1"
    using at(2) [OF same(2,5), of ?f old] by (simp_all add: s1_def same(1))
  have 2: "ifc_of s2 = ifc_write ?D ?pid ?f ?own (ifc_of s1)" "cap_maps.truncate s2 = cap_maps.truncate st"
    "label_room (8 + CAP_DOMAIN_DEPTH) s2"
    using at(1) [OF 1(2,3), of ?f old] by (simp_all add: s2_def)
  have 3: "ifc_of s3 = ifc_write ?D ?pid ?g ?own (ifc_of s2)" "cap_maps.truncate s3 = cap_maps.truncate st"
    "label_room (0 + CAP_DOMAIN_DEPTH) s3"
    using at(1) [OF 2(2,3), of ?g new] by (simp_all add: s3_def)
  have "?f \<noteq> ?g" using assms(8) by (auto simp: te_file_id_equal_def)
  then show ?thesis
    unfolding enter fin at(3) [OF 3(2,3)] 3(1) 2(1) 1(1)
    by (intro ifc_eqI) (auto simp: ifc_defs fun_eq_iff)
qed


text \<open>A task that renames \<^verbatim>\<open>/a\<close> to \<^verbatim>\<open>/b\<close>; the two strings are at 4096 and 8192.\<close>

definition rename_tables :: tables where
  "rename_tables = guard_tables\<lparr>user_mem := [4096 \<mapsto> 0x2f, 4097 \<mapsto> 0x61, 4098 \<mapsto> 0, 8192 \<mapsto> 0x2f, 8193 \<mapsto> 0x62, 8194 \<mapsto> 0]\<rparr>"

theorem rename_moves_labels_witness:
  "i_file (ifc_of (trace_rename_exit_flow 0 (trace_rename (\<lambda>i. if i = 0 then 4096 else 8192) rename_tables)))
     (te_resolve_file_id (TE_REF_USER_PATH 4096) (padded MAX_FILENAME_LEN (str_bytes ''/a''))) 1 = {}"
proof -
  have eng: "engine.truncate rename_tables = engine.truncate guard_sensor" "cur_pid rename_tables = 100"
    using guard_tables_engine by (simp_all add: rename_tables_def engine.truncate_def cur_pid_def)
  have cap: "cap_maps.truncate rename_tables = cap_maps.truncate guard_sensor"
    using eng(1) by (simp add: engine.truncate_def cap_maps.truncate_def)
  have room: "label_room (4 * CAP_DOMAIN_DEPTH) rename_tables"
    using guard_room [of "4 * CAP_DOMAIN_DEPTH"] eng(1) by (simp add: label_room_def engine.truncate_def)
  have three: "126 = Suc (Suc (Suc (123 :: nat)))" by simp
  have "user_str (user_mem rename_tables) 4096 126 = Some [0x2f, 0x61]" "user_str (user_mem rename_tables) 8192 126 = Some [0x2f, 0x62]"
    unfolding three user_str.simps by (simp_all add: rename_tables_def)
  then have paths: "user_path (user_mem rename_tables) 4096 = Some (padded MAX_FILENAME_LEN (str_bytes ''/a''))"
    "user_path (user_mem rename_tables) 8192 = Some (padded MAX_FILENAME_LEN (str_bytes ''/b''))"
    by (simp_all add: user_path_def str_bytes_def)
  have neq: "te_fnv1a (padded MAX_FILENAME_LEN (str_bytes ''/a'')) \<noteq> te_fnv1a (padded MAX_FILENAME_LEN (str_bytes ''/b''))"
    by code_simp
  have "lru_fits (ts_renamepend rename_tables)"
    by (simp add: rename_tables_def guard_tables_defs lru_roomy_fits)
  from rename_moves_labels [of rename_tables "\<lambda>i. if i = 0 then 4096 else 8192", OF _ _ _ room this] paths neq
  show ?thesis
    by (simp add: eng(2) domain_cong [OF cap] guard_active guard_wf guard_domains te_file_id_equal_def te_resolve_file_id_def
        ref_inode_def)
qed


end
