(* ===== verification/Loader.thy ===== *)
theory Loader
  imports Hook_Properties
begin

text \<open>
  The loader (\<^verbatim>\<open>bpf/process.c\<close>): what it makes of a compiled policy. It validates the
  configuration, derives the feature bits that gate the programs, decides which programs to load, fills
  the policy maps, and prints reports as JSON. Opening, loading and attaching the BPF object, reading
  files and the environment are libbpf's and the C library's: they appear as parameters or not at all.
\<close>

section \<open>Configurations\<close>

record taint_config =
  cf_n_updates :: u32
  cf_n_rules :: u32
  cf_updates :: "taint_update list"
  cf_rules :: "taint_rule list"

text \<open>Both tables have their full size whatever the counts say; every scan stops at the count and at the
  size.\<close>

definition wf_config :: "taint_config \<Rightarrow> bool" where
  "wf_config cfg \<longleftrightarrow> length (cf_updates cfg) = MAX_TAINT_UPDATES \<and> length (cf_rules cfg) = MAX_TAINT_RULES"

definition cfg_updates :: "taint_config \<Rightarrow> taint_update list" where
  "cfg_updates cfg = map (\<lambda>i. cf_updates cfg ! i) (filter (\<lambda>i. i < unat (cf_n_updates cfg)) [0..<MAX_TAINT_UPDATES])"

definition cfg_rules :: "taint_config \<Rightarrow> taint_rule list" where
  "cfg_rules cfg = map (\<lambda>i. cf_rules cfg ! i) (filter (\<lambda>i. i < unat (cf_n_rules cfg)) [0..<MAX_TAINT_RULES])"

definition effect_name :: "u32 \<Rightarrow> string" where
  "effect_name eff =
     (if eff = ucast TEFFECT_NOTIFY then ''notify'' else if eff = ucast TEFFECT_KILL then ''kill''
      else if eff = ucast TEFFECT_BLOCK then ''block'' else ''unknown'')"

definition config_has_effect :: "taint_config \<Rightarrow> u8 \<Rightarrow> bool" where
  "config_has_effect cfg eff = list_ex (\<lambda>r. ru_effect r = eff) (cfg_rules cfg)"

definition config_has_block_op :: "taint_config \<Rightarrow> u8 \<Rightarrow> bool" where
  "config_has_block_op cfg op =
     list_ex (\<lambda>r. \<not> (ru_effect r \<noteq> TEFFECT_BLOCK \<or> ru_op r \<noteq> op) \<and> \<not> (op = TOP_EXEC \<and> rd (ru_arg r) 0 \<noteq> 0)) (cfg_rules cfg)"

definition config_has_argv_block_exec :: "taint_config \<Rightarrow> bool" where
  "config_has_argv_block_exec cfg =
     list_ex (\<lambda>r. ru_effect r = TEFFECT_BLOCK \<and> ru_op r = TOP_EXEC \<and> rd (ru_arg r) 0 \<noteq> 0) (cfg_rules cfg)"

definition config_has_op :: "taint_config \<Rightarrow> u8 \<Rightarrow> bool" where
  "config_has_op cfg op = (list_ex (\<lambda>u. up_op u = op) (cfg_updates cfg) \<or> list_ex (\<lambda>r. ru_op r = op) (cfg_rules cfg))"

definition config_has_file_write :: "taint_config \<Rightarrow> bool" where
  "config_has_file_write cfg =
     (list_ex (\<lambda>u. up_op u = TOP_WRITE) (cfg_updates cfg) \<or> list_ex (\<lambda>r. ru_op r = TOP_WRITE) (cfg_rules cfg))"

definition path_match_features :: "u8 \<Rightarrow> u32" where
  "path_match_features m =
     (if m = TAINT_MATCH_CONTAINS then TE_POLICY_PATH_CONTAINS
      else if m = TAINT_MATCH_SUFFIX then TE_POLICY_PATH_SUFFIX else 0)"

definition update_features :: "taint_update \<Rightarrow> u32" where
  "update_features u =
     (if up_op u = TOP_OPEN \<or> up_op u = TOP_WRITE then TE_POLICY_FILE_FLOW OR path_match_features (up_match u) else 0) OR
     (if up_op u = TOP_CONNECT then TE_POLICY_CONNECT else 0) OR
     (if up_op u = TOP_RECV then TE_POLICY_RECV else 0)"

definition rule_features :: "taint_rule \<Rightarrow> u32" where
  "rule_features r =
     (if ru_effect r = TEFFECT_BLOCK then
        (if ru_op r = TOP_EXEC \<and> rd (ru_arg r) 0 = 0 then TE_POLICY_BLOCK_EXEC else 0) OR
        (if ru_op r = TOP_OPEN \<or> ru_op r = TOP_WRITE then TE_POLICY_BLOCK_FILE else 0) OR
        (if ru_op r = TOP_CONNECT then TE_POLICY_BLOCK_CONNECT else 0)
      else 0) OR
     (if ru_op r = TOP_OPEN then
        TE_POLICY_OPEN_RULES OR path_match_features (ru_match r) OR
        (if ru_cond_kind r = TCOND_TARGET then path_match_features (ru_cond_match r) else 0)
      else 0) OR
     (if ru_op r = TOP_WRITE then
        TE_POLICY_FILE_FLOW OR TE_POLICY_WRITE_RULES OR path_match_features (ru_match r) OR
        (if ru_cond_kind r = TCOND_TARGET then path_match_features (ru_cond_match r) else 0)
      else 0) OR
     (if ru_op r = TOP_CONNECT then TE_POLICY_CONNECT else 0) OR
     (if ru_op r = TOP_RECV then TE_POLICY_RECV else 0)"

definition config_features :: "taint_config \<Rightarrow> u32" where
  "config_features cfg =
     fold (\<lambda>r f. f OR rule_features r) (cfg_rules cfg) (fold (\<lambda>u f. f OR update_features u) (cfg_updates cfg) 0)"

definition all_hook_features :: u32 where
  "all_hook_features = TE_POLICY_CONNECT OR TE_POLICY_RECV OR TE_POLICY_FILE_FLOW OR TE_POLICY_BLOCK_EXEC OR
     TE_POLICY_BLOCK_FILE OR TE_POLICY_BLOCK_CONNECT"

definition validate_config :: "taint_config \<Rightarrow> int" where
  "validate_config cfg =
     (if list_ex (\<lambda>u. up_op u = TOP_EXEC \<and> up_match u = TAINT_MATCH_SUFFIX) (cfg_updates cfg) then - 1
      else if list_ex (\<lambda>r. ru_op r = TOP_EXEC \<and> ru_match r = TAINT_MATCH_SUFFIX \<or>
                           ru_op r = TOP_EXEC \<and> ru_cond_kind r = TCOND_TARGET \<and> ru_cond_match r = TAINT_MATCH_SUFFIX)
                (cfg_rules cfg) then - 1
      else 0)"

section \<open>Which programs are loaded\<close>

definition name_in :: "string \<Rightarrow> string list \<Rightarrow> bool" where
  "name_in name items = list_ex (\<lambda>s. s = name) items"

definition env_flag :: "string option \<Rightarrow> bool" where
  "env_flag v = (case v of None \<Rightarrow> False | Some s \<Rightarrow> s \<noteq> [] \<and> s \<noteq> ''0'')"

text \<open>The result is 1 or 0 for a program the function knows, -1 for any other, which is then loaded as the object
  says.\<close>

definition tracepoint_autoload_needed :: "string \<Rightarrow> u32 \<Rightarrow> bool \<Rightarrow> bool \<Rightarrow> int" where
  "tracepoint_autoload_needed name features file_write advanced =
     (let file_flow = features AND TE_POLICY_FILE_FLOW \<noteq> 0; open_rules = features AND TE_POLICY_OPEN_RULES \<noteq> 0;
          write_rules = features AND TE_POLICY_WRITE_RULES \<noteq> 0; connect = features AND TE_POLICY_CONNECT \<noteq> 0;
          recv = features AND TE_POLICY_RECV \<noteq> 0
      in if name_in name [''handle_fork'', ''handle_exit'', ''cap_drain_tick''] then 1
         else if name = ''handle_exec'' then 0
         else if name = ''handle_exec_args'' then 1
         else if name_in name [''trace_openat'', ''trace_openat_exit'', ''trace_open'', ''trace_open_exit'',
                  ''trace_openat2'', ''trace_openat2_exit''] then of_bool (file_flow \<or> open_rules)
         else if name_in name [''trace_rename_exit'', ''trace_renameat_exit'', ''trace_renameat2_exit''] then of_bool write_rules
         else if name_in name [''trace_rename_exit_flow'', ''trace_renameat_exit_flow'', ''trace_renameat2_exit_flow'']
         then of_bool (file_flow \<and> \<not> write_rules)
         else if name_in name [''trace_creat'', ''trace_creat_exit'', ''trace_truncate'', ''trace_truncate_exit'',
                  ''trace_unlink'', ''trace_unlinkat'', ''trace_rename'', ''trace_rename_exit'', ''trace_renameat'',
                  ''trace_renameat_exit'', ''trace_renameat2'', ''trace_renameat2_exit''] then of_bool (file_write \<or> file_flow)
         else if name_in name [''trace_read'', ''trace_read_exit'', ''trace_write'', ''trace_write_exit'', ''trace_close'',
                  ''trace_dup'', ''trace_dup_exit'', ''trace_dup2'', ''trace_dup2_exit'', ''trace_dup3'', ''trace_dup3_exit'',
                  ''trace_fcntl'', ''trace_fcntl_exit''] then of_bool (file_flow \<or> connect \<or> recv)
         else if name_in name [''trace_connect'', ''trace_connect_exit''] then of_bool (connect \<or> recv \<or> file_flow \<and> advanced)
         else if name_in name [''trace_sendto'', ''trace_sendto_exit'', ''trace_sendmsg'', ''trace_sendmsg_exit'']
         then of_bool (connect \<or> file_flow \<and> advanced)
         else if name_in name [''trace_recvfrom'', ''trace_recvfrom_exit'', ''trace_recvmsg'', ''trace_recvmsg_exit'']
         then of_bool (recv \<or> file_flow \<and> advanced)
         else if name_in name [''trace_pipe'', ''trace_pipe_exit'', ''trace_pipe2'', ''trace_pipe2_exit'',
                  ''trace_socketpair'', ''trace_socketpair_exit'', ''trace_bind'', ''trace_bind_exit'', ''trace_accept'',
                  ''trace_accept_exit'', ''trace_accept4'', ''trace_accept4_exit'', ''trace_sendfile64'',
                  ''trace_sendfile64_exit'', ''trace_copy_file_range'', ''trace_copy_file_range_exit'', ''trace_splice'',
                  ''trace_splice_exit'', ''trace_mmap'', ''trace_mmap_exit'', ''trace_mprotect'', ''trace_mprotect_exit'',
                  ''trace_mremap'', ''trace_mremap_exit'', ''trace_munmap'', ''trace_munmap_exit''] then of_bool (file_flow \<and> advanced)
         else - 1)"

text \<open>What \<^verbatim>\<open>main\<close> derives from the configuration and the environment: \<open>full\<close> is the hook profile,
  \<open>reserve\<close> the flag that keeps file flow on for later deltas.\<close>

definition loader_features :: "taint_config \<Rightarrow> bool \<Rightarrow> bool \<Rightarrow> u32" where
  "loader_features cfg full reserve =
     (let features = (if full then config_features cfg OR all_hook_features else config_features cfg)
      in if reserve then features OR TE_POLICY_FILE_FLOW else features)"

definition loader_file_write :: "taint_config \<Rightarrow> bool \<Rightarrow> bool" where
  "loader_file_write cfg full = (if full then True else config_has_file_write cfg)"

definition tracepoint_loaded :: "taint_config \<Rightarrow> bool \<Rightarrow> bool \<Rightarrow> bool \<Rightarrow> string \<Rightarrow> bool" where
  "tracepoint_loaded cfg full reserve advanced name \<longleftrightarrow>
     tracepoint_autoload_needed name (loader_features cfg full reserve) (loader_file_write cfg full) (full \<or> advanced) \<noteq> 0"

text \<open>The LSM programs: each is loaded unless \<^verbatim>\<open>main\<close> turns it off.\<close>

definition lsm_loaded :: "taint_config \<Rightarrow> bool \<Rightarrow> bool \<Rightarrow> bool \<Rightarrow> string \<Rightarrow> bool" where
  "lsm_loaded cfg enforce full advanced name =
     (let block_exec = (full \<or> config_has_block_op cfg TOP_EXEC);
          block_file = (full \<or> config_has_block_op cfg TOP_OPEN \<or> config_has_block_op cfg TOP_WRITE);
          block_connect = (full \<or> config_has_block_op cfg TOP_CONNECT);
          recv_flow = (full \<or> config_has_op cfg TOP_RECV);
          advanced_hooks = (full \<or> advanced)
      in if name = ''enforce_bprm_check_security'' then enforce \<and> block_exec
         else if name = ''enforce_file_permission'' then enforce \<and> block_file
         else if name_in name [''enforce_mmap_file'', ''enforce_file_mprotect''] then enforce \<and> block_file \<and> advanced_hooks
         else if name_in name [''enforce_file_open'', ''enforce_file_truncate'', ''enforce_path_truncate'',
                  ''enforce_path_unlink'', ''enforce_path_rename''] then enforce \<and> block_file
         else if name = ''enforce_socket_connect'' then enforce \<and> block_connect
         else if name = ''enforce_socket_recvmsg'' then enforce \<and> recv_flow
         else if name_in name [''enforce_task_kill'', ''enforce_ptrace_access_check'', ''enforce_bpf_syscall''] then enforce
         else True)"

section \<open>Filling the maps\<close>

text \<open>A sequence of map updates that stops at the first failure.\<close>

fun run_steps :: "('s \<Rightarrow> int \<times> 's) list \<Rightarrow> 's \<Rightarrow> int \<times> 's" where
  "run_steps [] st = (0, st)"
| "run_steps (f # fs) st = (case f st of (rc, st') \<Rightarrow> if rc < 0 then (- 1, st') else run_steps fs st')"

definition set_update :: "taint_config \<Rightarrow> nat \<Rightarrow> 'a sensor_scheme \<Rightarrow> int \<times> 'a sensor_scheme" where
  "set_update cfg i st =
     (let (rc, a) = arr_update i (cf_updates cfg ! i) (ts_updates st) in (rc, st\<lparr>ts_updates := a\<rparr>))"

definition set_rule :: "taint_config \<Rightarrow> nat \<Rightarrow> 'a sensor_scheme \<Rightarrow> int \<times> 'a sensor_scheme" where
  "set_rule cfg i st =
     (let (rc, a) = arr_update i (cf_rules cfg ! i) (ts_rules st) in (rc, st\<lparr>ts_rules := a\<rparr>))"

definition set_policy_mask :: "taint_config \<Rightarrow> nat \<Rightarrow> 'a sensor_scheme \<Rightarrow> int \<times> 'a sensor_scheme" where
  "set_policy_mask cfg i st =
     (let domain_id = ru_domain_id (cf_rules cfg ! i);
          mask = (case map_lookup (cap_policy st) domain_id of None \<Rightarrow> \<lparr>pm_lo = 0, pm_hi = 0\<rparr> | Some m \<Rightarrow> m);
          mask = (if i < 64 then mask\<lparr>pm_lo := pm_lo mask OR bit64 i\<rparr>
                  else mask\<lparr>pm_hi := pm_hi mask OR bit64 (i - 64)\<rparr>);
          (rc, m) = map_update_elem BPF_ANY domain_id mask (cap_policy st)
      in (rc, st\<lparr>cap_policy := m\<rparr>))"

definition loop_counts :: "taint_config \<Rightarrow> u32 list" where
  "loop_counts cfg = [cf_n_rules cfg, cf_n_updates cfg, 0, 0, 0, of_nat MAX_TAINT_LABELS]"

definition set_count :: "taint_config \<Rightarrow> nat \<Rightarrow> 'a sensor_scheme \<Rightarrow> int \<times> 'a sensor_scheme" where
  "set_count cfg i st =
     (let (rc, a) = arr_update i (loop_counts cfg ! i) (ts_counts st) in (rc, st\<lparr>ts_counts := a\<rparr>))"

definition protect_loader_pid :: "pid_t \<Rightarrow> 'a sensor_scheme \<Rightarrow> int \<times> 'a sensor_scheme" where
  "protect_loader_pid pid st =
     (let (rc, m) = map_update_elem BPF_ANY pid 1 (te_protected_pids st) in (rc, st\<lparr>te_protected_pids := m\<rparr>))"

definition load_policy :: "taint_config \<Rightarrow> pid_t \<Rightarrow> 'a sensor_scheme \<Rightarrow> int \<times> 'a sensor_scheme" where
  "load_policy cfg pid =
     run_steps (map (set_update cfg) [0..<unat (cf_n_updates cfg)] @ map (set_rule cfg) [0..<unat (cf_n_rules cfg)] @
       map (set_policy_mask cfg) [0..<unat (cf_n_rules cfg)] @ map (set_count cfg) [0..<6] @ [protect_loader_pid pid])"

text \<open>\<^verbatim>\<open>--seed-pid\<close> and \<^verbatim>\<open>--seed-label\<close>: the process becomes the root of a session and of a domain of its
  own.\<close>

definition seed_initial_label :: "pid_t \<Rightarrow> u64 \<Rightarrow> 'a sensor_scheme \<Rightarrow> int \<times> 'a sensor_scheme" where
  "seed_initial_label pid label st =
     (if pid = 0 \<and> label = 0 then (0, st)
      else if sint pid \<le> 0 then (- 1, st)
      else run_steps
        [\<lambda>st. let (rc, m) = map_update_elem BPF_ANY pid \<lparr>ps_labels = label, ps_lin_gates = 0\<rparr> (ts_proc st)
              in (rc, st\<lparr>ts_proc := m\<rparr>),
         \<lambda>st. let (rc, m) = map_update_elem BPF_ANY pid pid (ts_root st) in (rc, st\<lparr>ts_root := m\<rparr>),
         \<lambda>st. let (rc, m) = map_update_elem BPF_ANY pid pid (cap_task st) in (rc, st\<lparr>cap_task := m\<rparr>),
         \<lambda>st. let (rc, m) = map_update_elem BPF_ANY pid
                    \<lparr>cs_parent = 0, cs_scope_id = 1, cs_labels = label,
                     cs_authority_mask = AUTH_BIND_RULE OR AUTH_NARROW_SCOPE,
                     cs_target_mask = AUTH_TARGET_SELF OR AUTH_TARGET_CHILD,
                     cs_restrict_mask = 0, cs_gate_mask = 0, cs_label_mask = 0\<rparr> (cap_states st)
              in (rc, st\<lparr>cap_states := m\<rparr>)] st)"

end
