(* ===== verification/Loader_Properties.thy ===== *)
theory Loader_Properties
  imports Loader
begin

text \<open>
  What the loader guarantees: the feature word it compiles into the programs covers every entry of the
  policy, the programs it loads fit together, and the maps it fills hold exactly the configuration.
\<close>

section \<open>Tables\<close>

lemma filter_upt_less: "filter (\<lambda>i. i < n) [0..<m] = [0..<min n m]"
  by (induction m) (auto simp: min_def not_less le_Suc_eq)

lemma cfg_updates_take: "wf_config cfg \<Longrightarrow> cfg_updates cfg = take (unat (cf_n_updates cfg)) (cf_updates cfg)"
  by (auto simp: cfg_updates_def wf_config_def filter_upt_less list_eq_iff_nth_eq)

lemma cfg_rules_take: "wf_config cfg \<Longrightarrow> cfg_rules cfg = take (unat (cf_n_rules cfg)) (cf_rules cfg)"
  by (auto simp: cfg_rules_def wf_config_def filter_upt_less list_eq_iff_nth_eq)

section \<open>Features\<close>

lemma fold_or_bits: "bits_of (fold (\<lambda>x f. f OR g x) xs a) = bits_of a \<union> (\<Union>x\<in>set xs. bits_of (g x))"
  by (induction xs arbitrary: a) auto

lemma bits_of_config_features:
  "bits_of (config_features cfg) =
     (\<Union>u\<in>set (cfg_updates cfg). bits_of (update_features u)) \<union> (\<Union>r\<in>set (cfg_rules cfg). bits_of (rule_features r))"
  by (simp add: config_features_def fold_or_bits)

lemma bits_of_exp: "n < LENGTH('a) \<Longrightarrow> bits_of (2 ^ n :: 'a::len word) = {n}"
  by (auto simp: bits_of_def bit_exp_iff)

lemma bits_of_features:
  "bits_of (1 :: u32) = {0}" "bits_of (2 :: u32) = {1}" "bits_of (4 :: u32) = {2}" "bits_of (8 :: u32) = {3}"
  "bits_of (16 :: u32) = {4}" "bits_of (32 :: u32) = {5}" "bits_of (64 :: u32) = {6}" "bits_of (128 :: u32) = {7}"
  "bits_of (256 :: u32) = {8}" "bits_of (512 :: u32) = {9}"
  using bits_of_exp [of 0, where 'a = 32] bits_of_exp [of 1, where 'a = 32] bits_of_exp [of 2, where 'a = 32]
    bits_of_exp [of 3, where 'a = 32] bits_of_exp [of 4, where 'a = 32] bits_of_exp [of 5, where 'a = 32]
    bits_of_exp [of 6, where 'a = 32] bits_of_exp [of 7, where 'a = 32] bits_of_exp [of 8, where 'a = 32]
    bits_of_exp [of 9, where 'a = 32]
  by (simp_all del: One_nat_def)

lemmas feature_bits = and_eq_0_iff bits_of_features

lemma path_match_features_bits:
  "bits_of (path_match_features m) \<subseteq> bits_of f \<longleftrightarrow> cap_path_match_supported f m"
  by (auto simp: path_match_features_def cap_path_match_supported_def feature_bits)

lemma update_features_bits: "bits_of (update_features u) \<subseteq> bits_of f \<longleftrightarrow> cap_update_supported f u"
  by (auto simp: update_features_def cap_update_supported_def feature_bits path_match_features_bits)

lemma rule_features_bits:
  "bits_of (rule_features r) \<subseteq> bits_of f \<longleftrightarrow>
     cap_rule_supported f r \<and> (ru_op r = TOP_WRITE \<longrightarrow> f AND TE_POLICY_FILE_FLOW \<noteq> 0)"
  by (simp add: rule_features_def cap_rule_supported_def feature_bits path_match_features_bits)

text \<open>The feature word compiled into the programs. A feature word lets the engine honour every update and every
  rule of the configuration (the test deltas have to pass too), and keeps file flow on where a rule watches
  writes, exactly when it contains the word the loader computes. So nothing in the policy file is silently
  unsupported, and the loader turns on no feature that no entry needs.\<close>

theorem config_features_least:
  "bits_of (config_features cfg) \<subseteq> bits_of f \<longleftrightarrow>
     (\<forall>u \<in> set (cfg_updates cfg). cap_update_supported f u) \<and>
     (\<forall>r \<in> set (cfg_rules cfg). cap_rule_supported f r \<and> (ru_op r = TOP_WRITE \<longrightarrow> f AND TE_POLICY_FILE_FLOW \<noteq> 0))"
  by (simp add: bits_of_config_features UN_subset_iff update_features_bits rule_features_bits)

section \<open>Running the steps\<close>

lemma run_steps_append:
  "run_steps (fs @ gs) st = (case run_steps fs st of (rc, st') \<Rightarrow> if rc < 0 then (rc, st') else run_steps gs st')"
proof (induction fs arbitrary: st)
  case Nil
  show ?case by simp
next
  case (Cons f fs)
  then show ?case by (simp split: prod.split)
qed

lemma run_steps_rc: "fst (run_steps fs st) = 0 \<or> fst (run_steps fs st) = - 1"
  by (induction fs arbitrary: st) (auto split: prod.split)

text \<open>Filling an array map from the front, seen through the field that holds it.\<close>

lemma run_steps_invariant:
  assumes "\<And>i st. i < n \<Longrightarrow> P i st \<Longrightarrow> fst (f i st) = 0 \<and> P (Suc i) (snd (f i st))" and "P 0 st"
  shows "fst (run_steps (map f [0..<n]) st) = 0 \<and> P n (snd (run_steps (map f [0..<n]) st))"
  using assms(1)
proof (induction n)
  case 0
  show ?case using assms(2) by simp
next
  case (Suc n)
  let ?r = "run_steps (map f [0..<n]) st"
  have "fst ?r = 0" "P n (snd ?r)" using Suc by auto
  moreover have "run_steps (map f [0..<Suc n]) st = run_steps [f n] (snd ?r)"
    using \<open>fst ?r = 0\<close> by (simp add: run_steps_append case_prod_beta)
  ultimately show ?case using Suc.prems [of n "snd ?r"] by (auto split: prod.split)
qed

text \<open>One failing step makes the whole load fail.\<close>

lemma run_steps_fails:
  assumes "\<And>st. P st \<Longrightarrow> fst (f st) < 0" and "\<And>g st. g \<in> set fs \<Longrightarrow> P st \<Longrightarrow> P (snd (g st))" and "f \<in> set fs" "P st"
  shows "fst (run_steps fs st) = - 1"
  using assms(2-)
proof (induction fs arbitrary: st)
  case (Cons g fs)
  show ?case
  proof (cases "fst (g st) < 0")
    case True
    then show ?thesis by (simp add: case_prod_beta)
  next
    case False
    then have "f \<noteq> g" using assms(1) Cons.prems by auto
    then have "fst (run_steps fs (snd (g st))) = - 1"
      using Cons.prems by (intro Cons.IH) auto
    then show ?thesis using False by (simp add: case_prod_beta)
  qed
qed simp

section \<open>The maps after loading\<close>

text \<open>An array map held in a field of the state, and filling it from the front.\<close>

locale array_field =
  fixes get :: "'s \<Rightarrow> 'v bpf_array" and put :: "'v bpf_array \<Rightarrow> 's \<Rightarrow> 's"
  assumes get_put: "get (put a s) = a" and put_put: "put b (put a s) = put b s" and put_get: "put (get s) s = s"
begin

lemma fill:
  assumes step: "\<And>i s. f i s = (fst (arr_update i (v i) (get s)), put (snd (arr_update i (v i) (get s))) s)"
    and n: "n \<le> a_max (get st)"
  shows "\<exists>a. run_steps (map f [0..<n]) st = (0, put a st) \<and> a_max a = a_max (get st) \<and> (\<forall>j<n. a_cell a j = v j)"
proof -
  let ?P = "\<lambda>i t. \<exists>a. t = put a st \<and> a_max a = a_max (get st) \<and> (\<forall>j<i. a_cell a j = v j)"
  have "fst (run_steps (map f [0..<n]) st) = 0 \<and> ?P n (snd (run_steps (map f [0..<n]) st))"
  proof (rule run_steps_invariant [where P = ?P])
    show "?P 0 st" by (intro exI [of _ "get st"]) (simp add: put_get)
    fix i t
    assume i: "i < n" and "?P i t"
    then obtain a where a: "t = put a st" "a_max a = a_max (get st)" "\<forall>j<i. a_cell a j = v j" by blast
    have "?P (Suc i) (put (a\<lparr>a_cell := (a_cell a)(i := v i)\<rparr>) st)"
      by (rule exI [of _ "a\<lparr>a_cell := (a_cell a)(i := v i)\<rparr>"]) (simp add: a less_Suc_eq)
    then show "fst (f i t) = 0 \<and> ?P (Suc i) (snd (f i t))"
      using i n a by (simp add: step arr_update_def get_put put_put)
  qed
  then show ?thesis by (auto simp: prod_eq_iff)
qed

text \<open>An index past the end fails.\<close>

lemma overfull:
  assumes "f s = (fst (arr_update i x (get s)), t)" "a_max (get s) \<le> i"
  shows "fst (f s) < 0"
  using assms by (simp add: arr_update_def)

end

interpretation updates_field: array_field ts_updates "\<lambda>a st. st\<lparr>ts_updates := a\<rparr>"
  by unfold_locales simp_all

interpretation rules_field: array_field ts_rules "\<lambda>a st. st\<lparr>ts_rules := a\<rparr>"
  by unfold_locales simp_all

interpretation counts_field: array_field ts_counts "\<lambda>a st. st\<lparr>ts_counts := a\<rparr>"
  by unfold_locales simp_all

lemma load_updates:
  "n \<le> a_max (ts_updates st) \<Longrightarrow>
     \<exists>a. run_steps (map (set_update cfg) [0..<n]) st = (0, st\<lparr>ts_updates := a\<rparr>) \<and> a_max a = a_max (ts_updates st) \<and>
         (\<forall>j<n. a_cell a j = cf_updates cfg ! j)"
  by (rule updates_field.fill) (simp_all add: set_update_def case_prod_beta Let_def)

lemma load_rules:
  "n \<le> a_max (ts_rules st) \<Longrightarrow>
     \<exists>a. run_steps (map (set_rule cfg) [0..<n]) st = (0, st\<lparr>ts_rules := a\<rparr>) \<and> a_max a = a_max (ts_rules st) \<and>
         (\<forall>j<n. a_cell a j = cf_rules cfg ! j)"
  by (rule rules_field.fill) (simp_all add: set_rule_def case_prod_beta Let_def)

lemma load_counts:
  "n \<le> a_max (ts_counts st) \<Longrightarrow>
     \<exists>a. run_steps (map (set_count cfg) [0..<n]) st = (0, st\<lparr>ts_counts := a\<rparr>) \<and> a_max a = a_max (ts_counts st) \<and>
         (\<forall>j<n. a_cell a j = loop_counts cfg ! j)"
  by (rule counts_field.fill) (simp_all add: set_count_def case_prod_beta Let_def)

text \<open>The mask a rule's bit goes into is the one the runtime append uses.\<close>

lemma set_policy_mask_bind:
  "i < MAX_TAINT_RULES \<Longrightarrow> set_policy_mask cfg i = cap_policy_bind_rule (ru_domain_id (cf_rules cfg ! i)) i"
  by (rule ext) (simp add: set_policy_mask_def cap_policy_bind_rule_def Let_def)

lemma has_slots_bind:
  "has_slots (Suc n) (cap_policy st) \<Longrightarrow> has_slots n (cap_policy (snd (cap_policy_bind_rule d i st)))"
  using has_slots_put [of n "cap_policy st" d] has_slots_mono [of "Suc n" "cap_policy st" n]
  by (simp add: cap_policy_bind_rule_def Let_def map_put_def case_prod_beta)

lemma load_masks:
  assumes "n \<le> MAX_TAINT_RULES" "has_slots n (cap_policy st)"
  shows "\<exists>m. run_steps (map (set_policy_mask cfg) [0..<n]) st = (0, st\<lparr>cap_policy := m\<rparr>) \<and>
           (\<forall>d j. cap_policy_rule_bound (st\<lparr>cap_policy := m\<rparr>) d j \<longleftrightarrow>
              j < n \<and> ru_domain_id (cf_rules cfg ! j) = d \<or> cap_policy_rule_bound st d j)"
proof -
  let ?P = "\<lambda>i t. (\<exists>m. t = st\<lparr>cap_policy := m\<rparr>) \<and> has_slots (n - i) (cap_policy t) \<and>
     (\<forall>d j. cap_policy_rule_bound t d j \<longleftrightarrow> j < i \<and> ru_domain_id (cf_rules cfg ! j) = d \<or> cap_policy_rule_bound st d j)"
  have "fst (run_steps (map (set_policy_mask cfg) [0..<n]) st) = 0 \<and>
      ?P n (snd (run_steps (map (set_policy_mask cfg) [0..<n]) st))"
  proof (rule run_steps_invariant [where P = ?P])
    show "?P 0 st" using assms(2) by (auto intro: exI [of _ "cap_policy st"])
    fix i t
    assume i: "i < n" and P: "?P i t"
    let ?d = "ru_domain_id (cf_rules cfg ! i)"
    have lim: "i < MAX_TAINT_RULES" and slots: "has_slots (Suc (n - Suc i)) (cap_policy t)"
      using i assms(1) P by (auto simp: Suc_diff_Suc)
    have room: "room (cap_policy t) ?d" by (rule room_slots [OF slots])
    have "snd (cap_policy_bind_rule ?d i t) = t\<lparr>cap_policy := cap_policy (snd (cap_policy_bind_rule ?d i t))\<rparr>"
      by (rule cap_policy_bind_rule_frame)
    then have 1: "\<exists>m. snd (cap_policy_bind_rule ?d i t) = st\<lparr>cap_policy := m\<rparr>" using P by auto
    have 2: "cap_policy_rule_bound (snd (cap_policy_bind_rule ?d i t)) d j \<longleftrightarrow>
        j < Suc i \<and> ru_domain_id (cf_rules cfg ! j) = d \<or> cap_policy_rule_bound st d j" for d j
      using P room by (simp only: cap_policy_bind_rule_bound [OF lim] less_Suc_eq) blast
    show "fst (set_policy_mask cfg i t) = 0 \<and> ?P (Suc i) (snd (set_policy_mask cfg i t))"
      unfolding set_policy_mask_bind [OF lim] cap_policy_bind_rule_rc
      using lim room 1 2 has_slots_bind [OF slots] by blast
  qed
  then show ?thesis by (auto simp: prod_eq_iff)
qed

text \<open>The maps as the kernel creates them for the loader: their declared sizes, the hash maps empty.\<close>

definition fresh_maps :: "'a sensor_scheme \<Rightarrow> bool" where
  "fresh_maps st \<longleftrightarrow>
     a_max (ts_updates st) = MAX_TAINT_UPDATES \<and> a_max (ts_rules st) = MAX_TAINT_RULES \<and>
     a_max (ts_counts st) = 6 \<and> a_max (cap_stats st) = 4 \<and>
     cap_policy st = hash_new 4096 \<and> te_protected_pids st = hash_new 64"

lemma load_policy_ok:
  assumes fresh: "fresh_maps st" and nu: "unat (cf_n_updates cfg) \<le> MAX_TAINT_UPDATES"
    and nr: "unat (cf_n_rules cfg) \<le> MAX_TAINT_RULES"
  shows "\<exists>u r m c. load_policy cfg pid st =
       (0, st\<lparr>ts_updates := u, ts_rules := r, cap_policy := m, ts_counts := c,
              te_protected_pids := map_put pid 1 (hash_new 64)\<rparr>) \<and>
     a_max u = MAX_TAINT_UPDATES \<and> a_max r = MAX_TAINT_RULES \<and> a_max c = 6 \<and>
     (\<forall>j < unat (cf_n_updates cfg). a_cell u j = cf_updates cfg ! j) \<and>
     (\<forall>j < unat (cf_n_rules cfg). a_cell r j = cf_rules cfg ! j) \<and> (\<forall>j<6. a_cell c j = loop_counts cfg ! j) \<and>
     (\<forall>d j. cap_policy_mask_has (map_lookup m d) j \<longleftrightarrow> j < unat (cf_n_rules cfg) \<and> ru_domain_id (cf_rules cfg ! j) = d)"
proof -
  obtain u where u: "run_steps (map (set_update cfg) [0..<unat (cf_n_updates cfg)]) st = (0, st\<lparr>ts_updates := u\<rparr>)"
    "a_max u = MAX_TAINT_UPDATES" "\<forall>j < unat (cf_n_updates cfg). a_cell u j = cf_updates cfg ! j"
    using load_updates [of "unat (cf_n_updates cfg)" st cfg] fresh nu by (auto simp: fresh_maps_def)
  let ?s1 = "st\<lparr>ts_updates := u\<rparr>"
  obtain r where r: "run_steps (map (set_rule cfg) [0..<unat (cf_n_rules cfg)]) ?s1 = (0, ?s1\<lparr>ts_rules := r\<rparr>)"
    "a_max r = MAX_TAINT_RULES" "\<forall>j < unat (cf_n_rules cfg). a_cell r j = cf_rules cfg ! j"
    using load_rules [of "unat (cf_n_rules cfg)" ?s1 cfg] fresh nr by (auto simp: fresh_maps_def)
  let ?s2 = "?s1\<lparr>ts_rules := r\<rparr>"
  have slots: "has_slots (unat (cf_n_rules cfg)) (cap_policy ?s2)"
    using fresh nr by (simp add: fresh_maps_def has_slots_def hash_new_def)
  have unbound: "\<not> cap_policy_rule_bound ?s2 d j" for d j
    using fresh by (simp add: fresh_maps_def cap_policy_rule_bound_def cap_policy_mask_has_def)
  obtain m where m: "run_steps (map (set_policy_mask cfg) [0..<unat (cf_n_rules cfg)]) ?s2 = (0, ?s2\<lparr>cap_policy := m\<rparr>)"
    "\<forall>d j. cap_policy_mask_has (map_lookup m d) j \<longleftrightarrow> j < unat (cf_n_rules cfg) \<and> ru_domain_id (cf_rules cfg ! j) = d"
    using load_masks [OF nr slots, of cfg] unbound by (auto simp: cap_policy_rule_bound_def)
  let ?s3 = "?s2\<lparr>cap_policy := m\<rparr>"
  obtain c where c: "run_steps (map (set_count cfg) [0..<6]) ?s3 = (0, ?s3\<lparr>ts_counts := c\<rparr>)"
    "a_max c = 6" "\<forall>j<6. a_cell c j = loop_counts cfg ! j"
    using load_counts [of 6 ?s3 cfg] fresh by (auto simp: fresh_maps_def)
  have "protect_loader_pid pid (?s3\<lparr>ts_counts := c\<rparr>) =
      (0, ?s3\<lparr>ts_counts := c, te_protected_pids := map_put pid 1 (hash_new 64)\<rparr>)"
    using fresh by (simp add: protect_loader_pid_def fresh_maps_def map_put_def map_update_elem_def hash_new_def)
  then have "load_policy cfg pid st =
      (0, st\<lparr>ts_updates := u, ts_rules := r, cap_policy := m, ts_counts := c,
             te_protected_pids := map_put pid 1 (hash_new 64)\<rparr>)"
    by (simp add: load_policy_def run_steps_append u(1) r(1) m(1) c(1) del: upt_rec_numeral)
  then show ?thesis using u r m c by blast
qed

lemma load_policy_too_many:
  assumes "fresh_maps st" and "MAX_TAINT_UPDATES < unat (cf_n_updates cfg) \<or> MAX_TAINT_RULES < unat (cf_n_rules cfg)"
  shows "fst (load_policy cfg pid st) = - 1"
proof -
  let ?P = "\<lambda>s. a_max (ts_updates s) = MAX_TAINT_UPDATES \<and> a_max (ts_rules s) = MAX_TAINT_RULES"
  let ?f = "if MAX_TAINT_UPDATES < unat (cf_n_updates cfg) then set_update cfg MAX_TAINT_UPDATES
    else set_rule cfg MAX_TAINT_RULES"
  note defs = set_update_def set_rule_def set_policy_mask_def set_count_def protect_loader_pid_def arr_update_def Let_def
    case_prod_beta
  show ?thesis
    unfolding load_policy_def
  proof (rule run_steps_fails [where P = ?P and f = ?f])
    show "fst (?f s) < 0" if "?P s" for s
      using that by (simp add: defs)
    show "?P (snd (g s))" if "g \<in> set (map (set_update cfg) [0..<unat (cf_n_updates cfg)] @
        map (set_rule cfg) [0..<unat (cf_n_rules cfg)] @ map (set_policy_mask cfg) [0..<unat (cf_n_rules cfg)] @
        map (set_count cfg) [0..<6] @ [protect_loader_pid pid])" and "?P s" for g s
      using that by (auto simp: defs)
    show "?f \<in> set (map (set_update cfg) [0..<unat (cf_n_updates cfg)] @
        map (set_rule cfg) [0..<unat (cf_n_rules cfg)] @ map (set_policy_mask cfg) [0..<unat (cf_n_rules cfg)] @
        map (set_count cfg) [0..<6] @ [protect_loader_pid pid])"
      using assms(2) by auto
    show "?P st" using assms(1) by (simp add: fresh_maps_def)
  qed
qed

text \<open>The maps hold a configuration, and the loader is protected.\<close>

definition policy_installed :: "taint_config \<Rightarrow> pid_t \<Rightarrow> 'a sensor_scheme \<Rightarrow> bool" where
  "policy_installed cfg pid st \<longleftrightarrow>
     wf_tables st \<and> active_updates st = cfg_updates cfg \<and> active_rules st = cfg_rules cfg \<and>
     (\<forall>d j. cap_policy_rule_bound st d j \<longleftrightarrow> j < length (cfg_rules cfg) \<and> ru_domain_id (cfg_rules cfg ! j) = d) \<and>
     te_pid_protected st pid"

lemma load_policy_maps:
  assumes "fresh_maps st" "wf_config cfg"
  shows "if unat (cf_n_updates cfg) \<le> MAX_TAINT_UPDATES \<and> unat (cf_n_rules cfg) \<le> MAX_TAINT_RULES
    then fst (load_policy cfg pid st) = 0 \<and> policy_installed cfg pid (snd (load_policy cfg pid st))
    else fst (load_policy cfg pid st) = - 1"
proof (cases "unat (cf_n_updates cfg) \<le> MAX_TAINT_UPDATES \<and> unat (cf_n_rules cfg) \<le> MAX_TAINT_RULES")
  case True
  then have nu: "unat (cf_n_updates cfg) \<le> MAX_TAINT_UPDATES" and nr: "unat (cf_n_rules cfg) \<le> MAX_TAINT_RULES" by auto
  obtain u r m c where l: "load_policy cfg pid st =
       (0, st\<lparr>ts_updates := u, ts_rules := r, cap_policy := m, ts_counts := c,
              te_protected_pids := map_put pid 1 (hash_new 64)\<rparr>)"
    and mx: "a_max u = MAX_TAINT_UPDATES" "a_max r = MAX_TAINT_RULES" "a_max c = 6"
    and u: "\<forall>j < unat (cf_n_updates cfg). a_cell u j = cf_updates cfg ! j"
    and r: "\<forall>j < unat (cf_n_rules cfg). a_cell r j = cf_rules cfg ! j"
    and c: "\<forall>j<6. a_cell c j = loop_counts cfg ! j"
    and m: "\<forall>d j. cap_policy_mask_has (map_lookup m d) j \<longleftrightarrow> j < unat (cf_n_rules cfg) \<and> ru_domain_id (cf_rules cfg ! j) = d"
    using load_policy_ok [OF assms(1) nu nr, of pid] by blast
  have counts: "a_cell c 0 = cf_n_rules cfg" "a_cell c (Suc 0) = cf_n_updates cfg" "a_cell c 5 = 64"
    using c by (auto simp: loop_counts_def)
  have lens: "length (cf_updates cfg) = MAX_TAINT_UPDATES" "length (cf_rules cfg) = MAX_TAINT_RULES"
    using assms(2) by (auto simp: wf_config_def)
  have "active_updates (snd (load_policy cfg pid st)) = cfg_updates cfg"
    using nu u lens by (simp add: l active_updates_def n_updates_def counts cfg_updates_take [OF assms(2)] list_eq_iff_nth_eq)
  moreover have "active_rules (snd (load_policy cfg pid st)) = cfg_rules cfg"
    using nr r lens by (simp add: l active_rules_def n_rules_def counts cfg_rules_take [OF assms(2)] list_eq_iff_nth_eq)
  moreover have "wf_tables (snd (load_policy cfg pid st))"
    using assms(1) nu nr mx by (simp add: l wf_tables_def counts fresh_maps_def)
  moreover have "cap_policy_rule_bound (snd (load_policy cfg pid st)) d j \<longleftrightarrow>
      j < length (cfg_rules cfg) \<and> ru_domain_id (cfg_rules cfg ! j) = d" for d j
    using m nr lens by (auto simp: l cap_policy_rule_bound_def cfg_rules_take [OF assms(2)])
  moreover have "te_pid_protected (snd (load_policy cfg pid st)) pid"
    by (simp add: l te_pid_protected_def lookup_put room_def hash_new_def)
  ultimately show ?thesis using True by (simp add: l policy_installed_def)
next
  case False
  then show ?thesis using load_policy_too_many [OF assms(1), of cfg pid] by auto
qed

text \<open>C13: loading. On fresh maps a configuration whose counts fit the tables is loaded without failure: the tables
  are well formed, the updates and rules the engine then scans are those of the configuration in their order, a rule is
  bound to the domain its entry names and to no other, and the loader's process is protected. A configuration with
  a count above its table is refused.\<close>

theorem load_policy_installs:
  assumes "fresh_maps st" "wf_config cfg"
  shows "if unat (cf_n_updates cfg) \<le> MAX_TAINT_UPDATES \<and> unat (cf_n_rules cfg) \<le> MAX_TAINT_RULES
    then fst (load_policy cfg pid st) = 0 \<and> wf_tables (snd (load_policy cfg pid st)) \<and>
      active_updates (snd (load_policy cfg pid st)) = cfg_updates cfg \<and>
      active_rules (snd (load_policy cfg pid st)) = cfg_rules cfg \<and>
      (\<forall>d j. cap_policy_rule_bound (snd (load_policy cfg pid st)) d j \<longleftrightarrow>
         j < length (cfg_rules cfg) \<and> ru_domain_id (cfg_rules cfg ! j) = d) \<and>
      te_pid_protected (snd (load_policy cfg pid st)) pid
    else fst (load_policy cfg pid st) = - 1"
  using load_policy_maps [OF assms, of pid] by (simp only: policy_installed_def)

section \<open>Programs that belong together\<close>

text \<open>The programs on the entry of a system call that leave a pending record, with those on its exit that consume
  it.\<close>

definition syscall_pairs :: "(string \<times> string list) list" where
  "syscall_pairs =
     [(''trace_openat'', [''trace_openat_exit'']), (''trace_open'', [''trace_open_exit'']),
      (''trace_openat2'', [''trace_openat2_exit'']), (''trace_creat'', [''trace_creat_exit'']),
      (''trace_truncate'', [''trace_truncate_exit'']), (''trace_rename'', [''trace_rename_exit'', ''trace_rename_exit_flow'']),
      (''trace_renameat'', [''trace_renameat_exit'', ''trace_renameat_exit_flow'']),
      (''trace_renameat2'', [''trace_renameat2_exit'', ''trace_renameat2_exit_flow'']),
      (''trace_read'', [''trace_read_exit'']), (''trace_write'', [''trace_write_exit'']),
      (''trace_dup'', [''trace_dup_exit'']), (''trace_dup2'', [''trace_dup2_exit'']), (''trace_dup3'', [''trace_dup3_exit'']),
      (''trace_fcntl'', [''trace_fcntl_exit'']), (''trace_connect'', [''trace_connect_exit'']),
      (''trace_sendto'', [''trace_sendto_exit'']), (''trace_sendmsg'', [''trace_sendmsg_exit'']),
      (''trace_recvfrom'', [''trace_recvfrom_exit'']), (''trace_recvmsg'', [''trace_recvmsg_exit'']),
      (''trace_pipe'', [''trace_pipe_exit'']), (''trace_pipe2'', [''trace_pipe2_exit'']),
      (''trace_socketpair'', [''trace_socketpair_exit'']), (''trace_bind'', [''trace_bind_exit'']),
      (''trace_accept'', [''trace_accept_exit'']), (''trace_accept4'', [''trace_accept4_exit'']),
      (''trace_sendfile64'', [''trace_sendfile64_exit'']), (''trace_copy_file_range'', [''trace_copy_file_range_exit'']),
      (''trace_splice'', [''trace_splice_exit'']), (''trace_mmap'', [''trace_mmap_exit'']),
      (''trace_mprotect'', [''trace_mprotect_exit'']), (''trace_mremap'', [''trace_mremap_exit'']),
      (''trace_munmap'', [''trace_munmap_exit''])]"

definition block_hooks :: "u8 \<Rightarrow> string list" where
  "block_hooks op =
     (if op = TOP_EXEC then [''enforce_bprm_check_security'']
      else if op = TOP_OPEN \<or> op = TOP_WRITE then
        [''enforce_file_open'', ''enforce_file_permission'', ''enforce_file_truncate'', ''enforce_path_truncate'',
         ''enforce_path_unlink'', ''enforce_path_rename'']
      else if op = TOP_CONNECT then [''enforce_socket_connect'']
      else if op = TOP_RECV then [''enforce_socket_recvmsg''] else [])"

lemma all_hook_features_bits: "bits_of all_hook_features = {4, 5, 6, 7, 8, 9}"
  unfolding all_hook_features_def bits_of_or bits_of_features by auto

lemma loader_features_bits:
  "bits_of (loader_features cfg full reserve) =
     bits_of (config_features cfg) \<union> (if full then {4, 5, 6, 7, 8, 9} else {}) \<union> (if reserve then {6} else {})"
  by (simp add: loader_features_def all_hook_features_bits bits_of_features Let_def)

text \<open>Whoever watches writes has file flow on.\<close>

lemma entry_features_sub:
  "u \<in> set (cfg_updates cfg) \<Longrightarrow> bits_of (update_features u) \<subseteq> bits_of (config_features cfg)"
  "r \<in> set (cfg_rules cfg) \<Longrightarrow> bits_of (rule_features r) \<subseteq> bits_of (config_features cfg)"
  by (auto simp: bits_of_config_features)

lemma entry_features:
  "u \<in> set (cfg_updates cfg) \<Longrightarrow> up_op u = TOP_WRITE \<Longrightarrow> 6 \<in> bits_of (config_features cfg)"
  "r \<in> set (cfg_rules cfg) \<Longrightarrow> ru_op r = TOP_WRITE \<Longrightarrow> 6 \<in> bits_of (config_features cfg)"
proof -
  show "6 \<in> bits_of (config_features cfg)" if "u \<in> set (cfg_updates cfg)" "up_op u = TOP_WRITE"
    using entry_features_sub(1) [OF that(1)] that(2)
    by (auto simp: update_features_bits cap_update_supported_def feature_bits split: if_splits)
  show "6 \<in> bits_of (config_features cfg)" if "r \<in> set (cfg_rules cfg)" "ru_op r = TOP_WRITE"
    using entry_features_sub(2) [OF that(1)] that(2) by (simp add: rule_features_bits feature_bits)
qed

lemma path_features_low: "3 \<notin> bits_of (path_match_features m)"
  by (simp add: path_match_features_def bits_of_features)

lemma update_features_low: "3 \<notin> bits_of (update_features u)"
  by (simp add: update_features_def bits_of_features path_features_low)

lemma rule_features_write: "ru_op r \<noteq> TOP_WRITE \<Longrightarrow> 3 \<notin> bits_of (rule_features r)"
  by (simp add: rule_features_def bits_of_features path_features_low cong: if_cong)

lemma write_rules_flow: "3 \<in> bits_of (config_features cfg) \<Longrightarrow> 6 \<in> bits_of (config_features cfg)"
proof -
  assume "3 \<in> bits_of (config_features cfg)"
  then obtain r where "r \<in> set (cfg_rules cfg)" "3 \<in> bits_of (rule_features r)"
    using update_features_low by (auto simp: bits_of_config_features)
  then show ?thesis using rule_features_write entry_features(2) by blast
qed

lemma file_write_flow: "config_has_file_write cfg \<Longrightarrow> 6 \<in> bits_of (config_features cfg)"
  using entry_features by (auto simp: config_has_file_write_def list_ex_iff)

text \<open>The decision for the programs of each group.\<close>

lemma list_all_needed:
  "list_all (\<lambda>n. tracepoint_autoload_needed n f w adv = of_bool (f AND TE_POLICY_FILE_FLOW \<noteq> 0 \<or> f AND TE_POLICY_OPEN_RULES \<noteq> 0))
     [''trace_openat'', ''trace_openat_exit'', ''trace_open'', ''trace_open_exit'', ''trace_openat2'', ''trace_openat2_exit'']"
  "list_all (\<lambda>n. tracepoint_autoload_needed n f w adv = of_bool (f AND TE_POLICY_WRITE_RULES \<noteq> 0))
     [''trace_rename_exit'', ''trace_renameat_exit'', ''trace_renameat2_exit'']"
  "list_all (\<lambda>n. tracepoint_autoload_needed n f w adv =
       of_bool (f AND TE_POLICY_FILE_FLOW \<noteq> 0 \<and> f AND TE_POLICY_WRITE_RULES = 0))
     [''trace_rename_exit_flow'', ''trace_renameat_exit_flow'', ''trace_renameat2_exit_flow'']"
  "list_all (\<lambda>n. tracepoint_autoload_needed n f w adv = of_bool (w \<or> f AND TE_POLICY_FILE_FLOW \<noteq> 0))
     [''trace_creat'', ''trace_creat_exit'', ''trace_truncate'', ''trace_truncate_exit'', ''trace_rename'', ''trace_renameat'',
      ''trace_renameat2'']"
  "list_all (\<lambda>n. tracepoint_autoload_needed n f w adv =
       of_bool (f AND TE_POLICY_FILE_FLOW \<noteq> 0 \<or> f AND TE_POLICY_CONNECT \<noteq> 0 \<or> f AND TE_POLICY_RECV \<noteq> 0))
     [''trace_read'', ''trace_read_exit'', ''trace_write'', ''trace_write_exit'', ''trace_dup'', ''trace_dup_exit'',
      ''trace_dup2'', ''trace_dup2_exit'', ''trace_dup3'', ''trace_dup3_exit'', ''trace_fcntl'', ''trace_fcntl_exit'']"
  "list_all (\<lambda>n. tracepoint_autoload_needed n f w adv =
       of_bool (f AND TE_POLICY_CONNECT \<noteq> 0 \<or> f AND TE_POLICY_RECV \<noteq> 0 \<or> f AND TE_POLICY_FILE_FLOW \<noteq> 0 \<and> adv))
     [''trace_connect'', ''trace_connect_exit'']"
  "list_all (\<lambda>n. tracepoint_autoload_needed n f w adv =
       of_bool (f AND TE_POLICY_CONNECT \<noteq> 0 \<or> f AND TE_POLICY_FILE_FLOW \<noteq> 0 \<and> adv))
     [''trace_sendto'', ''trace_sendto_exit'', ''trace_sendmsg'', ''trace_sendmsg_exit'']"
  "list_all (\<lambda>n. tracepoint_autoload_needed n f w adv =
       of_bool (f AND TE_POLICY_RECV \<noteq> 0 \<or> f AND TE_POLICY_FILE_FLOW \<noteq> 0 \<and> adv))
     [''trace_recvfrom'', ''trace_recvfrom_exit'', ''trace_recvmsg'', ''trace_recvmsg_exit'']"
  "list_all (\<lambda>n. tracepoint_autoload_needed n f w adv = of_bool (f AND TE_POLICY_FILE_FLOW \<noteq> 0 \<and> adv))
     [''trace_pipe'', ''trace_pipe_exit'', ''trace_pipe2'', ''trace_pipe2_exit'', ''trace_socketpair'',
      ''trace_socketpair_exit'', ''trace_bind'', ''trace_bind_exit'', ''trace_accept'', ''trace_accept_exit'',
      ''trace_accept4'', ''trace_accept4_exit'', ''trace_sendfile64'', ''trace_sendfile64_exit'',
      ''trace_copy_file_range'', ''trace_copy_file_range_exit'', ''trace_splice'', ''trace_splice_exit'', ''trace_mmap'',
      ''trace_mmap_exit'', ''trace_mprotect'', ''trace_mprotect_exit'', ''trace_mremap'', ''trace_mremap_exit'',
      ''trace_munmap'', ''trace_munmap_exit'']"
  by (simp_all add: tracepoint_autoload_needed_def name_in_def Let_def)

lemmas needed_simps = list_all_needed [unfolded list.pred_inject conj_assoc simp_thms]

lemma pair_needed:
  assumes "file_write \<longrightarrow> f AND TE_POLICY_FILE_FLOW \<noteq> 0" "f AND TE_POLICY_WRITE_RULES \<noteq> 0 \<longrightarrow> f AND TE_POLICY_FILE_FLOW \<noteq> 0"
  shows "\<forall>(enter, exits) \<in> set syscall_pairs.
    length (filter (\<lambda>n. tracepoint_autoload_needed n f file_write advanced \<noteq> 0) exits) =
    (if tracepoint_autoload_needed enter f file_write advanced \<noteq> 0 then 1 else 0)"
  using assms unfolding syscall_pairs_def
  by (simp add: needed_simps)

lemma has_block_op:
  assumes "r \<in> set (cfg_rules cfg)" "ru_effect r = TEFFECT_BLOCK" "ru_op r = TOP_EXEC \<Longrightarrow> rd (ru_arg r) 0 = 0"
  shows "config_has_block_op cfg (ru_op r)" "config_has_op cfg (ru_op r)"
  using assms by (auto simp: config_has_block_op_def config_has_op_def list_ex_iff)

lemma block_hooks_loaded:
  assumes "config_has_block_op cfg op" "config_has_op cfg op"
  shows "list_all (lsm_loaded cfg True full advanced) (block_hooks op)"
  using assms by (auto simp: block_hooks_def lsm_loaded_def name_in_def Let_def)

text \<open>C23: the programs the loader chooses fit together, whatever the policy and the environment. For every system
  call traced on entry and exit, the entry program is loaded exactly when one program on the exit is, and never two (a
  rename has two candidates); so no pending record is left without a consumer and none is consumed twice. With
  the BPF LSM active, every hook a block rule of the policy needs is loaded.\<close>

theorem loaded_programs_fit:
  "(\<forall>(enter, exits) \<in> set syscall_pairs.
      length (filter (tracepoint_loaded cfg full reserve advanced) exits) =
      (if tracepoint_loaded cfg full reserve advanced enter then 1 else 0)) \<and>
   (\<forall>r \<in> set (cfg_rules cfg).
      ru_effect r = TEFFECT_BLOCK \<and> (ru_op r = TOP_EXEC \<longrightarrow> rd (ru_arg r) 0 = 0) \<longrightarrow>
      list_all (lsm_loaded cfg True full advanced) (block_hooks (ru_op r)))"
proof
  let ?f = "loader_features cfg full reserve" and ?w = "loader_file_write cfg full"
  have "?w \<longrightarrow> ?f AND TE_POLICY_FILE_FLOW \<noteq> 0" "?f AND TE_POLICY_WRITE_RULES \<noteq> 0 \<longrightarrow> ?f AND TE_POLICY_FILE_FLOW \<noteq> 0"
    using file_write_flow [of cfg] write_rules_flow [of cfg]
    by (auto simp: loader_file_write_def feature_bits loader_features_bits split: if_splits)
  from pair_needed [OF this, of "full \<or> advanced"]
  show "\<forall>(enter, exits) \<in> set syscall_pairs.
      length (filter (tracepoint_loaded cfg full reserve advanced) exits) =
      (if tracepoint_loaded cfg full reserve advanced enter then 1 else 0)"
    by (simp only: tracepoint_loaded_def [abs_def])
  show "\<forall>r \<in> set (cfg_rules cfg).
      ru_effect r = TEFFECT_BLOCK \<and> (ru_op r = TOP_EXEC \<longrightarrow> rd (ru_arg r) 0 = 0) \<longrightarrow>
      list_all (lsm_loaded cfg True full advanced) (block_hooks (ru_op r))"
    using has_block_op block_hooks_loaded by blast
qed

section \<open>An example policy\<close>

text \<open>One source (everything read is labelled) and two rules: blocked opens in domain 0, killed connects in domain 5.\<close>

definition demo_config :: taint_config where
  "demo_config =
     \<lparr>cf_n_updates = 1, cf_n_rules = 2,
      cf_updates = no_update\<lparr>up_op := TOP_OPEN, up_match := TAINT_MATCH_ANY, up_add := 1\<rparr> # replicate 319 no_update,
      cf_rules = no_rule\<lparr>ru_op := TOP_OPEN, ru_match := TAINT_MATCH_CONTAINS, ru_effect := TEFFECT_BLOCK, ru_rule_id := 1\<rparr> #
        no_rule\<lparr>ru_op := TOP_CONNECT, ru_effect := TEFFECT_KILL, ru_rule_id := 2, ru_domain_id := 5\<rparr> # replicate 126 no_rule\<rparr>"

lemma demo_config_wf: "wf_config demo_config"
  by (simp add: wf_config_def demo_config_def)

lemma demo_config_entries:
  "cfg_updates demo_config = [no_update\<lparr>up_op := TOP_OPEN, up_match := TAINT_MATCH_ANY, up_add := 1\<rparr>]"
  "cfg_rules demo_config =
     [no_rule\<lparr>ru_op := TOP_OPEN, ru_match := TAINT_MATCH_CONTAINS, ru_effect := TEFFECT_BLOCK, ru_rule_id := 1\<rparr>,
      no_rule\<lparr>ru_op := TOP_CONNECT, ru_effect := TEFFECT_KILL, ru_rule_id := 2, ru_domain_id := 5\<rparr>]"
  unfolding cfg_updates_take [OF demo_config_wf] cfg_rules_take [OF demo_config_wf]
  by (simp_all add: demo_config_def)

definition fresh_sensor :: sensor where
  "fresh_sensor = guard_sensor\<lparr>cap_policy := hash_new 4096, te_protected_pids := hash_new 64\<rparr>"

lemma fresh_sensor_fresh: "fresh_maps fresh_sensor"
  by (simp add: fresh_maps_def fresh_sensor_def guard_defs example_simps)

theorem config_features_least_witness:
  "cap_rule_supported (config_features demo_config)
     (no_rule\<lparr>ru_op := TOP_OPEN, ru_match := TAINT_MATCH_CONTAINS, ru_effect := TEFFECT_BLOCK, ru_rule_id := 1\<rparr>) \<and>
   \<not> bits_of (config_features demo_config) \<subseteq> bits_of (TE_POLICY_CONNECT)"
  using config_features_least [of demo_config "config_features demo_config"]
    config_features_least [of demo_config TE_POLICY_CONNECT]
  by (simp add: demo_config_entries cap_update_supported_def)

theorem load_policy_installs_witness:
  "fst (load_policy demo_config 77 fresh_sensor) = 0 \<and>
   length (active_rules (snd (load_policy demo_config 77 fresh_sensor))) = 2 \<and>
   cap_policy_rule_bound (snd (load_policy demo_config 77 fresh_sensor)) 5 1 \<and>
   \<not> cap_policy_rule_bound (snd (load_policy demo_config 77 fresh_sensor)) 5 0 \<and>
   te_pid_protected (snd (load_policy demo_config 77 fresh_sensor)) 77"
proof -
  have "unat (cf_n_updates demo_config) \<le> MAX_TAINT_UPDATES \<and> unat (cf_n_rules demo_config) \<le> MAX_TAINT_RULES"
    by (simp add: demo_config_def)
  then show ?thesis
    using load_policy_installs [OF fresh_sensor_fresh demo_config_wf, of 77] by (simp add: demo_config_entries no_rule_def)
qed

theorem loaded_programs_fit_witness:
  "lsm_loaded demo_config True False False ''enforce_file_open'' \<and>
   length (filter (tracepoint_loaded demo_config False False False) [''trace_rename_exit'', ''trace_rename_exit_flow'']) =
     (if tracepoint_loaded demo_config False False False ''trace_rename'' then 1 else 0)"
  using loaded_programs_fit [of demo_config False False False]
  by (simp add: demo_config_entries block_hooks_def syscall_pairs_def no_rule_def)

section \<open>Seeding a process\<close>

lemma map_update_room:
  "room m k \<Longrightarrow> map_update_elem BPF_ANY k v m = (0, map_put k v m)"
  by (auto simp: map_put_def map_update_elem_def room_def split: option.splits)

text \<open>A seeded process is the root of its own session and domain, carries the label, and has authority over nothing but
  its own domain and that domain's children.\<close>

lemma seed_initial_label_binds:
  assumes "0 < sint pid" "room (ts_proc st) pid" "room (ts_root st) pid" "room (cap_task st) pid" "room (cap_states st) pid"
  shows "fst (seed_initial_label pid label st) = 0"
    "cap_domain_for_pid (snd (seed_initial_label pid label st)) pid = pid"
    "te_root (snd (seed_initial_label pid label st)) pid = pid"
    "te_pid_active (snd (seed_initial_label pid label st)) pid"
    "map_option ps_labels (map_lookup (ts_proc (snd (seed_initial_label pid label st))) pid) = Some label"
    "map_option cs_labels (map_lookup (cap_states (snd (seed_initial_label pid label st))) pid) = Some label"
proof -
  have "pid \<noteq> 0" using assms(1) by auto
  with assms show "fst (seed_initial_label pid label st) = 0"
    "cap_domain_for_pid (snd (seed_initial_label pid label st)) pid = pid"
    "te_root (snd (seed_initial_label pid label st)) pid = pid"
    "te_pid_active (snd (seed_initial_label pid label st)) pid"
    "map_option ps_labels (map_lookup (ts_proc (snd (seed_initial_label pid label st))) pid) = Some label"
    "map_option cs_labels (map_lookup (cap_states (snd (seed_initial_label pid label st))) pid) = Some label"
    by (simp_all add: seed_initial_label_def map_update_room Let_def lookup_put cap_domain_for_pid_def te_root_def
        te_pid_active_def cap_task_bound_def)
qed

end
