(* ===== verification/Reports.thy ===== *)
theory Reports
  imports Loader_Properties
begin

text \<open>
  Printing a report (\<^verbatim>\<open>json_escape\<close> and \<^verbatim>\<open>handle_event\<close> of \<^verbatim>\<open>bpf/process.c\<close>): one line of
  JSON for each violation the programs submit. Buffers keep the sizes of the source, so that truncation by
  \<^verbatim>\<open>snprintf\<close> and by the escaping is part of the model.
\<close>

section \<open>Formatting\<close>

abbreviation (input) EVENT_TYPE_TAINT_VIOLATION :: u32 where "EVENT_TYPE_TAINT_VIOLATION \<equiv> 3"
abbreviation (input) JSON_ESC_BUFSZ :: nat where "JSON_ESC_BUFSZ \<equiv> MAX_FILENAME_LEN * 6 + 3"

fun dec_nat :: "nat \<Rightarrow> bytes" where
  "dec_nat n = (if n < 10 then [of_nat (48 + n)] else dec_nat (n div 10) @ [of_nat (48 + n mod 10)])"

declare dec_nat.simps [simp del]

text \<open>\<^verbatim>\<open>%u\<close> and \<^verbatim>\<open>%llu\<close>, \<^verbatim>\<open>%d\<close>, and \<^verbatim>\<open>snprintf\<close> into a buffer of \<open>n\<close> bytes.\<close>

definition fmt_u :: "'a::len word \<Rightarrow> bytes" where
  "fmt_u w = dec_nat (unat w)"

definition fmt_d :: "s32 \<Rightarrow> bytes" where
  "fmt_d w = (if sint w < 0 then 45 # dec_nat (nat (- sint w)) else dec_nat (nat (sint w)))"

definition snprintf :: "nat \<Rightarrow> bytes \<Rightarrow> bytes" where
  "snprintf n s = take (n - 1) s"

definition hex_digit :: "nat \<Rightarrow> u8" where
  "hex_digit n = of_nat (if n < 10 then 48 + n else 87 + n)"

section \<open>Escaping\<close>

text \<open>\<^verbatim>\<open>"\u%04x"\<close> of a byte.\<close>

definition json_u :: "u8 \<Rightarrow> bytes" where
  "json_u c = [92, 117, 48, 48, hex_digit (unat c div 16), hex_digit (unat c mod 16)]"

fun json_escape_loop :: "nat \<Rightarrow> bytes \<Rightarrow> bytes \<Rightarrow> bytes" where
  "json_escape_loop out_sz [] out = out"
| "json_escape_loop out_sz (c # cs) out =
     (if c = 0 \<or> \<not> length out + 2 < out_sz then out
      else if c = 34 \<or> c = 92 then
        if length out + 2 \<ge> out_sz then out else json_escape_loop out_sz cs (out @ [92, c])
      else if c = 10 \<or> c = 13 \<or> c = 9 \<or> c = 8 \<or> c = 12 then
        if length out + 2 \<ge> out_sz then out
        else json_escape_loop out_sz cs
               (out @ [92, if c = 10 then 110 else if c = 13 then 114 else if c = 9 then 116 else if c = 8 then 98 else 102])
      else if c < 0x20 \<or> c \<ge> 0x80 then
        if length out + 6 \<ge> out_sz then out else json_escape_loop out_sz cs (out @ json_u c)
      else json_escape_loop out_sz cs (out @ [c]))"

text \<open>What is written from the front of the buffer, \<open>None\<close> for a write outside it: with a buffer of one byte the
  closing quote goes to \<^verbatim>\<open>out[-1]\<close>.\<close>

definition json_escape :: "nat \<Rightarrow> bytes \<Rightarrow> bytes option" where
  "json_escape out_sz inp =
     (if out_sz = 0 then Some []
      else
        let out = json_escape_loop out_sz inp [34];
            pos = length out
        in if pos + 1 \<ge> out_sz then if out_sz < 2 then None else Some (take (out_sz - 2) out @ [34, 0])
           else Some (out @ [34, 0]))"

section \<open>One line for each violation\<close>

definition report_target :: "event \<Rightarrow> bytes" where
  "report_target e =
     (if vi_conn_ip e \<noteq> 0 then
        snprintf MAX_FILENAME_LEN
          (fmt_u (vi_conn_ip e AND 0xff) @ [46] @ fmt_u (drop_bit 8 (vi_conn_ip e) AND 0xff) @ [46] @
           fmt_u (drop_bit 16 (vi_conn_ip e) AND 0xff) @ [46] @ fmt_u (drop_bit 24 (vi_conn_ip e) AND 0xff))
      else snprintf MAX_FILENAME_LEN (cstr (vi_filename e)))"

definition prov_text :: "event \<Rightarrow> bytes \<Rightarrow> bytes" where
  "prov_text e prov_target_json =
     (if vi_prov_label e \<noteq> 0 then
        str_bytes ''{\"label\":'' @ fmt_u (vi_prov_label e) @ str_bytes '',\"timestamp_ns\":'' @ fmt_u (vi_prov_timestamp_ns e) @
        str_bytes '',\"pid\":'' @ fmt_d (vi_prov_pid e) @ str_bytes '',\"op\":'' @ fmt_u (vi_prov_op e) @
        str_bytes '',\"ip\":'' @ fmt_u (vi_prov_ip e) @ str_bytes '',\"target\":'' @ prov_target_json @ str_bytes ''}''
      else str_bytes ''null'')"

definition report_text :: "event \<Rightarrow> bytes \<Rightarrow> bytes \<Rightarrow> bytes \<Rightarrow> bytes" where
  "report_text e comm_json target_json prov_json =
     str_bytes ''{\"timestamp\":'' @ fmt_u (vi_timestamp_ns e) @
     str_bytes '',\"event\":\"TAINT_VIOLATION\",\"effect\":\"'' @ str_bytes (effect_name (vi_effect e)) @
     str_bytes ''\",\"blocked\":'' @ str_bytes (if vi_blocked e then ''true'' else ''false'') @
     str_bytes '',\"killed\":'' @ str_bytes (if vi_killed e then ''true'' else ''false'') @
     str_bytes '',\"comm\":'' @ comm_json @ str_bytes '',\"pid\":'' @ fmt_d (vi_pid e) @
     str_bytes '',\"ppid\":'' @ fmt_d (vi_ppid e) @ str_bytes '',\"op\":'' @ fmt_u (vi_op e) @
     str_bytes '',\"domain_id\":'' @ fmt_u (vi_domain_id e) @ str_bytes '',\"session_root\":'' @ fmt_d (vi_session_root e) @
     str_bytes '',\"target\":'' @ target_json @ str_bytes '',\"rule_id\":'' @ fmt_u (vi_taint_rule_id e) @
     str_bytes '',\"taint_label\":'' @ fmt_u (vi_taint_label e) @ str_bytes '',\"matched_label\":'' @ fmt_u (vi_matched_label e) @
     str_bytes '',\"matched_labels\":'' @ fmt_u (vi_matched_labels e) @ str_bytes '',\"provenance\":'' @ prov_json @
     str_bytes ''}'' @ [10]"

text \<open>The line written to the standard output, or \<open>None\<close> where a buffer would be overrun.\<close>

definition handle_event :: "u32 \<Rightarrow> event \<Rightarrow> bytes option" where
  "handle_event ty e =
     (if ty \<noteq> EVENT_TYPE_TAINT_VIOLATION then Some []
      else
        case (json_escape JSON_ESC_BUFSZ (report_target e), json_escape JSON_ESC_BUFSZ (vi_prov_target e),
              json_escape (TASK_COMM_LEN * 6 + 3) (vi_comm e)) of
          (Some target_json, Some prov_target_json, Some comm_json) \<Rightarrow>
            let prov_json = snprintf (JSON_ESC_BUFSZ + 192) (prov_text e (cstr prov_target_json))
            in Some (report_text e (cstr comm_json) (cstr target_json) prov_json)
        | _ \<Rightarrow> None)"

section \<open>A reader for JSON strings\<close>

text \<open>The code points a JSON string literal stands for: the escapes of the grammar and plain ASCII characters.\<close>

definition hex_val :: "u8 \<Rightarrow> nat option" where
  "hex_val c =
     (if 48 \<le> c \<and> c \<le> 57 then Some (unat c - 48)
      else if 97 \<le> c \<and> c \<le> 102 then Some (unat c - 87)
      else if 65 \<le> c \<and> c \<le> 70 then Some (unat c - 55) else None)"

definition hex4 :: "u8 \<Rightarrow> u8 \<Rightarrow> u8 \<Rightarrow> u8 \<Rightarrow> nat option" where
  "hex4 a b c d =
     (case (hex_val a, hex_val b, hex_val c, hex_val d) of
        (Some w, Some x, Some y, Some z) \<Rightarrow> Some (((w * 16 + x) * 16 + y) * 16 + z) | _ \<Rightarrow> None)"

definition simple_escape :: "u8 \<Rightarrow> nat option" where
  "simple_escape c =
     (if c = 34 \<or> c = 92 \<or> c = 47 then Some (unat c)
      else if c = 98 then Some 8 else if c = 102 then Some 12 else if c = 110 then Some 10
      else if c = 114 then Some 13 else if c = 116 then Some 9 else None)"

fun json_chars :: "bytes \<Rightarrow> nat list option" where
  "json_chars [] = None"
| "json_chars (c # cs) =
     (if c = 34 then if cs = [] then Some [] else None
      else if c = 92 then
        (case cs of
           [] \<Rightarrow> None
         | e # ds \<Rightarrow>
             if e = 117 then
               (case ds of
                  h1 # h2 # h3 # h4 # rest \<Rightarrow>
                    (case hex4 h1 h2 h3 h4 of None \<Rightarrow> None | Some v \<Rightarrow> map_option ((#) v) (json_chars rest))
                | _ \<Rightarrow> None)
             else case simple_escape e of None \<Rightarrow> None | Some v \<Rightarrow> map_option ((#) v) (json_chars ds))
      else if c < 0x20 \<or> c \<ge> 0x80 then None
      else map_option ((#) (unat c)) (json_chars cs))"

definition json_string :: "bytes \<Rightarrow> nat list option" where
  "json_string b = (case b of [] \<Rightarrow> None | c # cs \<Rightarrow> if c = 34 then json_chars cs else None)"

section \<open>Escaping, without the buffer\<close>

definition json_esc :: "u8 \<Rightarrow> bytes" where
  "json_esc c =
     (if c = 34 \<or> c = 92 then [92, c]
      else if c = 10 then [92, 110] else if c = 13 then [92, 114] else if c = 9 then [92, 116]
      else if c = 8 then [92, 98] else if c = 12 then [92, 102]
      else if c < 0x20 \<or> c \<ge> 0x80 then json_u c else [c])"

definition json_quote :: "bytes \<Rightarrow> bytes" where
  "json_quote s = 34 # concat (map json_esc s) @ [34]"

lemma length_json_esc: "length (json_esc c) \<le> 6"
  by (simp add: json_esc_def json_u_def)

lemma length_json_quote: "length (json_quote s) \<le> 6 * length s + 2"
proof -
  have "length (concat (map json_esc s)) \<le> 6 * length s"
    by (induction s) (use length_json_esc in \<open>auto intro: add_mono\<close>)
  then show ?thesis by (simp add: json_quote_def)
qed

lemma escape_loop_step:
  "c \<noteq> 0 \<Longrightarrow> length out + 6 < sz \<Longrightarrow> json_escape_loop sz (c # cs) out = json_escape_loop sz cs (out @ json_esc c)"
  by (simp add: json_esc_def)

lemma escape_loop_fits:
  "length out + 6 * length s + 2 \<le> sz \<Longrightarrow> 0 \<notin> set s \<Longrightarrow>
     json_escape_loop sz (s @ 0 # rest) out = out @ concat (map json_esc s) \<and>
     json_escape_loop sz s out = out @ concat (map json_esc s)"
proof (induction s arbitrary: out)
  case (Cons c s)
  have "length (out @ json_esc c) + 6 * length s + 2 \<le> sz"
    using Cons.prems(1) length_json_esc [of c] by simp
  from Cons.IH [OF this] Cons.prems show ?case
    by (simp add: escape_loop_step del: json_escape_loop.simps(2))
qed simp

lemma hex_val_digit: "n < 16 \<Longrightarrow> hex_val (hex_digit n) = Some n"
proof -
  have "\<forall>n \<in> set [0..<16]. hex_val (hex_digit n) = Some n" by code_simp
  then show "n < 16 \<Longrightarrow> ?thesis" by simp
qed

lemma hex4_json_u: "hex4 48 48 (hex_digit (unat c div 16)) (hex_digit (unat c mod 16)) = Some (unat (c :: u8))"
proof -
  have "unat c div 16 < 16" using unsigned_less [of c, where 'a = nat] by simp
  then show ?thesis
    using hex_val_digit [of "unat c div 16"] hex_val_digit [of "unat c mod 16"] hex_val_digit [of 0]
    by (simp add: hex4_def) (simp add: hex_digit_def)
qed

lemma json_chars_esc: "json_chars (json_esc c @ rest) = map_option ((#) (unat c)) (json_chars rest)"
  by (simp add: json_esc_def json_u_def hex4_json_u simple_escape_def)

text \<open>Reading a quoted string gives its bytes back, each as the code point of that number.\<close>

lemma json_string_quote: "json_string (json_quote s) = Some (map unat s)"
proof -
  have "json_chars [34] = Some []" by simp
  then have "json_chars (concat (map json_esc s) @ [34]) = Some (map unat s)"
    by (induction s) (simp_all add: json_chars_esc del: json_chars.simps(2))
  then show ?thesis by (simp add: json_string_def json_quote_def)
qed

lemma json_quote_no_nul:
  assumes "0 \<notin> set s"
  shows "0 \<notin> set (json_quote s)"
proof -
  have "0 \<notin> set (json_esc c)" if "c \<noteq> 0" for c
  proof -
    have "hex_digit n \<noteq> 0" if "n < 16" for n
      using hex_val_digit [OF that] by (auto simp: hex_val_def split: if_splits)
    moreover have "unat c div 16 < 16" "unat c mod 16 < 16" using unsigned_less [of c, where 'a = nat] by simp_all
    ultimately show ?thesis using that by (auto simp: json_esc_def json_u_def)
  qed
  then have "\<forall>c \<in> set s. 0 \<notin> set (json_esc c)" using assms by metis
  then show ?thesis by (auto simp: json_quote_def)
qed

lemma cstr_whole: "0 \<notin> set s \<Longrightarrow> cstr (s @ 0 # rest) = s" "0 \<notin> set s \<Longrightarrow> cstr s = s"
  by (auto simp: cstr_def takeWhile_eq_all_conv) (subst takeWhile_append2, auto)

lemma json_escape_fits:
  assumes "6 * length (cstr b) + 3 \<le> sz"
  shows "json_escape sz b = Some (json_quote (cstr b) @ [0])"
proof -
  have nul: "0 \<notin> set (cstr b)" by (auto simp: cstr_def dest: set_takeWhileD)
  have "(\<exists>rest. b = cstr b @ 0 # rest) \<or> b = cstr b"
  proof (cases "dropWhile (\<lambda>c. c \<noteq> 0) b")
    case Nil
    then show ?thesis using takeWhile_dropWhile_id [of "\<lambda>c. c \<noteq> 0" b] by (metis append_Nil2 cstr_def)
  next
    case (Cons c cs)
    then have "b = cstr b @ 0 # cs"
      using takeWhile_dropWhile_id [of "\<lambda>c. c \<noteq> 0" b] hd_dropWhile [of "\<lambda>c. c \<noteq> 0" b] by (simp add: cstr_def)
    then show ?thesis by blast
  qed
  moreover have "json_escape_loop sz (cstr b @ 0 # rest) [34] = 34 # concat (map json_esc (cstr b))"
    "json_escape_loop sz (cstr b) [34] = 34 # concat (map json_esc (cstr b))" for rest
    using escape_loop_fits [of "[34]" "cstr b" sz] assms nul by simp_all
  ultimately have loop: "json_escape_loop sz b [34] = 34 # concat (map json_esc (cstr b))"
    by metis
  have "length (concat (map json_esc (cstr b))) \<le> 6 * length (cstr b)"
    using length_json_quote [of "cstr b"] by (simp add: json_quote_def)
  then show ?thesis using assms by (simp add: json_escape_def loop json_quote_def)
qed

text \<open>Any buffer of two bytes or more is enough to stay inside it, with the result quoted and terminated.\<close>

lemma json_escape_bounded:
  assumes "2 \<le> sz"
  shows "\<exists>out. json_escape sz b = Some (out @ [34, 0]) \<and> length out + 2 \<le> sz"
  using assms by (auto simp: json_escape_def Let_def)

section \<open>Numbers\<close>

lemma length_dec_nat: "n < 10 ^ Suc k \<Longrightarrow> length (dec_nat n) \<le> Suc k"
proof (induction k arbitrary: n)
  case 0
  then show ?case by (simp add: dec_nat.simps [of n])
next
  case (Suc k)
  have "n div 10 < 10 ^ Suc k" using Suc.prems by (simp add: less_mult_imp_div_less)
  from Suc.IH [OF this] show ?case by (simp add: dec_nat.simps [of n])
qed

lemma length_fmt_u64: "length (fmt_u (w :: u64)) \<le> 20"
proof -
  have "unat w < 10 ^ Suc 19" using unsigned_less [of w, where 'a = nat] by simp
  from length_dec_nat [OF this] show ?thesis by (simp add: fmt_u_def)
qed

lemma length_fmt_u32: "length (fmt_u (w :: u32)) \<le> 10"
proof -
  have "unat w < 10 ^ Suc 9" using unsigned_less [of w, where 'a = nat] by simp
  from length_dec_nat [OF this] show ?thesis by (simp add: fmt_u_def)
qed

lemma length_fmt_d: "length (fmt_d w) \<le> 11"
proof -
  have "- (2 ^ 31) \<le> sint w" "sint w < 2 ^ 31" using sint_range_size [of w] by (simp_all add: word_size)
  then have "nat (sint w) < 10 ^ Suc 9" "nat (- sint w) < 10 ^ Suc 9" by simp_all
  from this [THEN length_dec_nat] show ?thesis by (simp add: fmt_d_def)
qed

lemma length_fmt_byte: "length (fmt_u (w AND 0xff :: u32)) \<le> 3"
proof -
  have "w AND 0xff \<le> 0xff" by (rule word_and_le1)
  then have "unat (w AND 0xff) \<le> 255" by (simp add: word_le_nat_alt)
  then have "unat (w AND 0xff) < 10 ^ Suc 2" by simp
  from length_dec_nat [OF this] show ?thesis by (simp add: fmt_u_def)
qed

lemma digit_no_nul: "n < 10 \<Longrightarrow> (of_nat (48 + n) :: u8) \<noteq> 0"
proof -
  have "\<forall>n \<in> set [0..<10]. (of_nat (48 + n) :: u8) \<noteq> 0" by code_simp
  then show "n < 10 \<Longrightarrow> ?thesis" by simp
qed

lemma dec_nat_no_nul: "0 \<notin> set (dec_nat n)"
proof (induction n rule: dec_nat.induct)
  case (1 n)
  then show ?case
    using digit_no_nul [of n] digit_no_nul [of "n mod 10"] by (simp add: dec_nat.simps [of n] del: of_nat_add)
qed

section \<open>Reports\<close>

text \<open>The object a report names, with nothing cut.\<close>

definition dotted :: "u32 \<Rightarrow> bytes" where
  "dotted ip = fmt_u (ip AND 0xff) @ [46] @ fmt_u (drop_bit 8 ip AND 0xff) @ [46] @
     fmt_u (drop_bit 16 ip AND 0xff) @ [46] @ fmt_u (drop_bit 24 ip AND 0xff)"

definition shown_target :: "event \<Rightarrow> bytes" where
  "shown_target e = (if vi_conn_ip e \<noteq> 0 then dotted (vi_conn_ip e) else cstr (vi_filename e))"

lemma length_dotted: "length (dotted ip) \<le> 15"
  unfolding dotted_def
  using length_fmt_byte [of ip] length_fmt_byte [of "drop_bit 8 ip"] length_fmt_byte [of "drop_bit 16 ip"]
    length_fmt_byte [of "drop_bit 24 ip"] by simp

lemma dotted_no_nul: "0 \<notin> set (dotted ip)"
  by (simp add: dotted_def fmt_u_def dec_nat_no_nul)

lemma cstr_idem: "cstr (cstr b) = cstr b"
  by (simp add: cstr_def)

lemma report_target_whole:
  assumes "length (cstr (vi_filename e)) < MAX_FILENAME_LEN"
  shows "report_target e = shown_target e" "cstr (shown_target e) = shown_target e" "length (shown_target e) \<le> 126"
proof -
  have "report_target e =
      (if vi_conn_ip e \<noteq> 0 then snprintf MAX_FILENAME_LEN (dotted (vi_conn_ip e)) else snprintf MAX_FILENAME_LEN (cstr (vi_filename e)))"
    unfolding report_target_def dotted_def by (rule refl)
  then show "report_target e = shown_target e" "cstr (shown_target e) = shown_target e" "length (shown_target e) \<le> 126"
    using assms length_dotted [of "vi_conn_ip e"] cstr_whole(2) [OF dotted_no_nul [of "vi_conn_ip e"]]
    by (auto simp: shown_target_def snprintf_def cstr_idem)
qed

lemma length_prov_text: "length j \<le> 758 \<Longrightarrow> length (prov_text e j) \<le> JSON_ESC_BUFSZ + 191"
  using length_fmt_u64 [of "vi_prov_label e"] length_fmt_u64 [of "vi_prov_timestamp_ns e"] length_fmt_d [of "vi_prov_pid e"]
    length_fmt_u32 [of "vi_prov_op e"] length_fmt_u32 [of "vi_prov_ip e"]
  by (simp add: prov_text_def str_bytes_def)

lemma cstr_json: "cstr (json_quote (cstr b) @ [0]) = json_quote (cstr b)"
  by (rule cstr_whole(1), rule json_quote_no_nul) (auto simp: cstr_def dest: set_takeWhileD)

text \<open>C25: printing a report. For every violation the programs can submit (its strings terminated inside their
  fields) the loader prints a line, no buffer is overrun and nothing is cut: the command name, the target (the
  path, or the address in dotted form) and the source's target appear as JSON string literals that read back as
  exactly their bytes, each byte as the code point of its number.\<close>

theorem handle_event_prints:
  assumes "length (cstr (vi_comm e)) < TASK_COMM_LEN" "length (cstr (vi_filename e)) < MAX_FILENAME_LEN"
    and "length (cstr (vi_prov_target e)) < MAX_FILENAME_LEN"
  shows "\<exists>comm target prov.
    handle_event EVENT_TYPE_TAINT_VIOLATION e = Some (report_text e comm target (prov_text e prov)) \<and>
    json_string comm = Some (map unat (cstr (vi_comm e))) \<and>
    json_string target = Some (map unat (shown_target e)) \<and>
    json_string prov = Some (map unat (cstr (vi_prov_target e)))"
proof (intro exI conjI)
  note whole = report_target_whole [OF assms(2)]
  have "json_escape JSON_ESC_BUFSZ (report_target e) = Some (json_quote (shown_target e) @ [0])"
    using json_escape_fits [of "report_target e" JSON_ESC_BUFSZ] whole by simp
  moreover have "json_escape JSON_ESC_BUFSZ (vi_prov_target e) = Some (json_quote (cstr (vi_prov_target e)) @ [0])"
    using assms(3) by (intro json_escape_fits) simp
  moreover have "json_escape (TASK_COMM_LEN * 6 + 3) (vi_comm e) = Some (json_quote (cstr (vi_comm e)) @ [0])"
    using assms(1) by (intro json_escape_fits) simp
  moreover have "length (prov_text e (json_quote (cstr (vi_prov_target e)))) \<le> JSON_ESC_BUFSZ + 191"
    using length_json_quote [of "cstr (vi_prov_target e)"] assms(3) by (intro length_prov_text) simp
  ultimately show "handle_event EVENT_TYPE_TAINT_VIOLATION e =
      Some (report_text e (json_quote (cstr (vi_comm e))) (json_quote (shown_target e))
        (prov_text e (json_quote (cstr (vi_prov_target e)))))"
    using cstr_json [of "shown_target e"] by (simp add: handle_event_def snprintf_def Let_def cstr_json whole(2))
qed (rule json_string_quote)+

text \<open>A report on a blocked read of a file whose name has a quote, a tab and a byte outside ASCII.\<close>

definition demo_event :: event where
  "demo_event =
     \<lparr>vi_pid = 100, vi_ppid = 1, vi_blocked = True, vi_killed = False, vi_effect = 1, vi_op = 1, vi_domain_id = 0,
      vi_session_root = 100, vi_timestamp_ns = 5, vi_comm = [99, 97, 116, 0], vi_filename = [47, 34, 9, 233, 0, 7],
      vi_taint_rule_id = 3, vi_conn_ip = 0, vi_taint_label = 1, vi_matched_label = 1, vi_matched_labels = 1,
      vi_prov_label = 1, vi_prov_timestamp_ns = 4, vi_prov_pid = 100, vi_prov_op = 1, vi_prov_ip = 0, vi_prov_target = [47, 115, 0]\<rparr>"

theorem handle_event_prints_witness:
  "\<exists>comm target prov.
    handle_event EVENT_TYPE_TAINT_VIOLATION demo_event = Some (report_text demo_event comm target (prov_text demo_event prov)) \<and>
    json_string comm = Some [99, 97, 116] \<and> json_string target = Some [47, 34, 9, 233] \<and> json_string prov = Some [47, 115]"
proof -
  have "cstr (vi_comm demo_event) = [99, 97, 116]" "cstr (vi_filename demo_event) = [47, 34, 9, 233]"
    "cstr (vi_prov_target demo_event) = [47, 115]" "vi_conn_ip demo_event = 0"
    by (simp_all add: demo_event_def cstr_def)
  then show ?thesis using handle_event_prints [of demo_event] by (simp add: shown_target_def)
qed

end
