(* ===== verification/Config_Blob.thy ===== *)
theory Config_Blob
  imports Loader_Properties
begin

text \<open>
  The policy file (\<^verbatim>\<open>load_config\<close> of \<^verbatim>\<open>bpf/process.c\<close>). The file is the memory image of
  \<^verbatim>\<open>struct taint_config\<close> (\<^verbatim>\<open>bpf/taint.h\<close>) on a 64-bit little-endian target: fields in
  their order, each at the next multiple of its size, structures padded to eight bytes. The decoder reads the
  fields where the loader finds them after its \<^verbatim>\<open>fread\<close>; the encoder is that image.
\<close>

section \<open>Little-endian words\<close>

definition le_bytes :: "nat \<Rightarrow> 'a::len word \<Rightarrow> bytes" where
  "le_bytes n w = map (\<lambda>i. ucast (drop_bit (8 * i) w)) [0..<n]"

lemma length_le_bytes [simp]: "length (le_bytes n w) = n"
  by (simp add: le_bytes_def)

lemma bit_le: "bit (le bs :: 'a::len word) k \<longleftrightarrow> k < LENGTH('a) \<and> k div 8 < length bs \<and> bit (bs ! (k div 8)) (k mod 8)"
proof (induction bs arbitrary: k)
  case (Cons b bs)
  have small: "bit b k \<Longrightarrow> k < 8" for k using bit_imp_le_length [of b k] by simp
  show ?case
  proof (cases "k < 8")
    case False
    then obtain j where k: "k = 8 + j" using le_Suc_ex [of 8 k] by auto
    moreover have "(8 + j) div 8 = Suc (j div 8)" by simp
    ultimately show ?thesis
      using Cons [of j] small [of k] by (auto simp: le_def bit_or_iff bit_push_bit_iff bit_ucast_iff)
  qed (auto simp: le_def bit_or_iff bit_push_bit_iff bit_ucast_iff)
qed (simp add: le_def)

lemma le_le_bytes [simp]: "LENGTH('a) \<le> 8 * n \<Longrightarrow> le (le_bytes n (w :: 'a::len word)) = w"
proof (rule bit_word_eqI)
  fix k
  assume n: "LENGTH('a) \<le> 8 * n" and k: "k < LENGTH('a)"
  then have "k div 8 < n" by linarith
  then show "bit (le (le_bytes n w) :: 'a word) k = bit w k"
    using k by (simp add: bit_le le_bytes_def bit_ucast_iff bit_drop_bit_eq)
qed

section \<open>Entries\<close>

abbreviation (input) SIZEOF_UPDATE :: nat where "SIZEOF_UPDATE \<equiv> 144"
abbreviation (input) SIZEOF_RULE :: nat where "SIZEOF_RULE \<equiv> 224"

definition decode_update :: "bytes \<Rightarrow> taint_update" where
  "decode_update b =
     \<lparr>up_op = rd b 0, up_match = rd b 1, up_target = take 64 (drop 2 b), up_arg = take 24 (drop 66 b),
      up_add = le (take 8 (drop 96 b)), up_del = le (take 8 (drop 104 b)), up_gates = le (take 8 (drop 112 b)),
      up_invals = le (take 8 (drop 120 b)), up_ipv4 = le (take 4 (drop 128 b)), up_ipv4_mask = le (take 4 (drop 132 b)),
      up_gate_exit_code = le (take 4 (drop 136 b)), up_domain_id = le (take 4 (drop 140 b))\<rparr>"

definition encode_update :: "taint_update \<Rightarrow> bytes" where
  "encode_update u =
     [up_op u, up_match u] @ up_target u @ up_arg u @ replicate 6 0 @ le_bytes 8 (up_add u) @ le_bytes 8 (up_del u) @
     le_bytes 8 (up_gates u) @ le_bytes 8 (up_invals u) @ le_bytes 4 (up_ipv4 u) @ le_bytes 4 (up_ipv4_mask u) @
     le_bytes 4 (up_gate_exit_code u) @ le_bytes 4 (up_domain_id u)"

definition decode_rule :: "bytes \<Rightarrow> taint_rule" where
  "decode_rule b =
     \<lparr>ru_op = rd b 0, ru_match = rd b 1, ru_cond_kind = rd b 2, ru_cond_neg = rd b 3, ru_cond_match = rd b 4,
      ru_effect = rd b 5, ru_target = take 64 (drop 6 b), ru_arg = take 24 (drop 70 b), ru_cond_pat = take 64 (drop 94 b),
      ru_req = le (take 8 (drop 160 b)), ru_forbid = le (take 8 (drop 168 b)), ru_gate = le (take 8 (drop 176 b)),
      ru_rule_id = le (take 4 (drop 184 b)), ru_ipv4 = le (take 4 (drop 188 b)), ru_ipv4_mask = le (take 4 (drop 192 b)),
      ru_cond_ipv4 = le (take 4 (drop 196 b)), ru_cond_ipv4_mask = le (take 4 (drop 200 b)),
      ru_gate_idx = le (take 4 (drop 204 b)), ru_domain_id = le (take 4 (drop 208 b)), ru_since_mask = le (take 8 (drop 216 b))\<rparr>"

definition encode_rule :: "taint_rule \<Rightarrow> bytes" where
  "encode_rule r =
     [ru_op r, ru_match r, ru_cond_kind r, ru_cond_neg r, ru_cond_match r, ru_effect r] @ ru_target r @ ru_arg r @
     ru_cond_pat r @ replicate 2 0 @ le_bytes 8 (ru_req r) @ le_bytes 8 (ru_forbid r) @ le_bytes 8 (ru_gate r) @
     le_bytes 4 (ru_rule_id r) @ le_bytes 4 (ru_ipv4 r) @ le_bytes 4 (ru_ipv4_mask r) @ le_bytes 4 (ru_cond_ipv4 r) @
     le_bytes 4 (ru_cond_ipv4_mask r) @ le_bytes 4 (ru_gate_idx r) @ le_bytes 4 (ru_domain_id r) @ replicate 4 0 @
     le_bytes 8 (ru_since_mask r)"

text \<open>The strings of an entry fill their arrays.\<close>

definition wf_update :: "taint_update \<Rightarrow> bool" where
  "wf_update u \<longleftrightarrow> length (up_target u) = TAINT_PAT_LEN \<and> length (up_arg u) = TAINT_ARG_LEN"

definition wf_rule :: "taint_rule \<Rightarrow> bool" where
  "wf_rule r \<longleftrightarrow>
     length (ru_target r) = TAINT_PAT_LEN \<and> length (ru_arg r) = TAINT_ARG_LEN \<and> length (ru_cond_pat r) = TAINT_PAT_LEN"

lemma length_encode [simp]:
  "wf_update u \<Longrightarrow> length (encode_update u) = SIZEOF_UPDATE" "wf_rule r \<Longrightarrow> length (encode_rule r) = SIZEOF_RULE"
  by (simp_all add: encode_update_def encode_rule_def wf_update_def wf_rule_def)

lemma decode_encode_update: "wf_update u \<Longrightarrow> decode_update (encode_update u) = u"
  by (cases u) (simp add: decode_update_def encode_update_def wf_update_def)

lemma decode_encode_rule: "wf_rule r \<Longrightarrow> decode_rule (encode_rule r) = r"
  by (cases r) (simp add: decode_rule_def encode_rule_def wf_rule_def)


section \<open>The whole image\<close>

abbreviation (input) SIZEOF_CONFIG :: nat where "SIZEOF_CONFIG \<equiv> 74760"

definition decode_config :: "bytes \<Rightarrow> taint_config" where
  "decode_config b =
     \<lparr>cf_n_updates = le (take 4 b), cf_n_rules = le (take 4 (drop 4 b)),
      cf_updates = map (\<lambda>i. decode_update (take SIZEOF_UPDATE (drop (8 + i * SIZEOF_UPDATE) b))) [0..<MAX_TAINT_UPDATES],
      cf_rules = map (\<lambda>i. decode_rule (take SIZEOF_RULE (drop (8 + MAX_TAINT_UPDATES * SIZEOF_UPDATE + i * SIZEOF_RULE) b)))
        [0..<MAX_TAINT_RULES]\<rparr>"

definition encode_config :: "taint_config \<Rightarrow> bytes" where
  "encode_config cfg =
     le_bytes 4 (cf_n_updates cfg) @ le_bytes 4 (cf_n_rules cfg) @
     concat (map encode_update (cf_updates cfg)) @ concat (map encode_rule (cf_rules cfg))"

text \<open>\<^verbatim>\<open>load_config\<close>: the contents of the file, if it can be opened. \<^verbatim>\<open>fread\<close> stops at the size of the
  structure, so a longer file is cut there; a shorter one is refused.\<close>

definition load_config :: "bytes option \<Rightarrow> taint_config option" where
  "load_config file =
     (case file of
        None \<Rightarrow> None
      | Some bs \<Rightarrow>
          let cfg = take SIZEOF_CONFIG bs
          in if length cfg \<noteq> SIZEOF_CONFIG then None else Some (decode_config cfg))"

definition wf_blob :: "taint_config \<Rightarrow> bool" where
  "wf_blob cfg \<longleftrightarrow> wf_config cfg \<and> (\<forall>u \<in> set (cf_updates cfg). wf_update u) \<and> (\<forall>r \<in> set (cf_rules cfg). wf_rule r)"

lemma take_concat_nth:
  "\<forall>x \<in> set xs. length x = k \<Longrightarrow> i < length xs \<Longrightarrow> take k (drop (i * k) (concat xs @ zs)) = xs ! i"
  by (induction xs arbitrary: i) (auto simp: nth_Cons split: nat.split)

lemma length_concat_const: "\<forall>x \<in> set xs. length x = k \<Longrightarrow> length (concat xs) = length xs * k"
  by (induction xs) simp_all

lemma decode_table:
  assumes "\<forall>x \<in> set xs. length (enc x) = k \<and> dec (enc x) = x"
  shows "map (\<lambda>i. dec (take k (drop (i * k) (concat (map enc xs) @ zs)))) [0..<length xs] = xs"
proof (rule nth_equalityI)
  fix i
  assume "i < length (map (\<lambda>i. dec (take k (drop (i * k) (concat (map enc xs) @ zs)))) [0..<length xs])"
  then have i: "i < length xs" by simp
  with assms take_concat_nth [of "map enc xs" k i zs]
  show "map (\<lambda>i. dec (take k (drop (i * k) (concat (map enc xs) @ zs)))) [0..<length xs] ! i = xs ! i" by simp
qed simp

lemma length_encode_config: "wf_blob cfg \<Longrightarrow> length (encode_config cfg) = SIZEOF_CONFIG"
  using length_concat_const [of "map encode_update (cf_updates cfg)" SIZEOF_UPDATE]
    length_concat_const [of "map encode_rule (cf_rules cfg)" SIZEOF_RULE]
  by (simp add: encode_config_def wf_blob_def wf_config_def)

lemma decode_encode_config:
  assumes "wf_blob cfg"
  shows "decode_config (encode_config cfg) = cfg"
proof -
  let ?us = "concat (map encode_update (cf_updates cfg))" and ?rs = "concat (map encode_rule (cf_rules cfg))"
  have len: "length (cf_updates cfg) = MAX_TAINT_UPDATES" "length (cf_rules cfg) = MAX_TAINT_RULES"
    "length ?us = MAX_TAINT_UPDATES * SIZEOF_UPDATE"
    using assms length_concat_const [of "map encode_update (cf_updates cfg)" SIZEOF_UPDATE]
    by (simp_all add: wf_blob_def wf_config_def)
  have us: "map (\<lambda>i. decode_update (take SIZEOF_UPDATE (drop (8 + i * SIZEOF_UPDATE) (encode_config cfg)))) [0..<MAX_TAINT_UPDATES] =
      cf_updates cfg"
    using decode_table [of "cf_updates cfg" encode_update SIZEOF_UPDATE decode_update ?rs] assms
    by (simp add: len encode_config_def wf_blob_def decode_encode_update del: upt_rec_numeral)
  have "drop (8 + MAX_TAINT_UPDATES * SIZEOF_UPDATE + i * SIZEOF_RULE) (encode_config cfg) = drop (i * SIZEOF_RULE) ?rs" for i
    using len(3) by (simp add: encode_config_def)
  then have rs: "map (\<lambda>i. decode_rule (take SIZEOF_RULE (drop (8 + MAX_TAINT_UPDATES * SIZEOF_UPDATE + i * SIZEOF_RULE) (encode_config cfg))))
      [0..<MAX_TAINT_RULES] = cf_rules cfg"
    using decode_table [of "cf_rules cfg" encode_rule SIZEOF_RULE decode_rule "[]"] assms
    by (simp add: len wf_blob_def decode_encode_rule del: upt_rec_numeral)
  show ?thesis
    unfolding decode_config_def us rs by (cases cfg) (simp add: encode_config_def)
qed

section \<open>Properties\<close>

text \<open>C26: the policy file round-trips. A file that begins with the image of a configuration is read back as that
  configuration, whatever follows the image; a file that is missing or shorter than the structure is refused, and
  nothing else is. So the loader reads exactly what the compiler wrote, and cannot notice extra bytes at the end.\<close>

theorem load_config_roundtrip:
  assumes "wf_blob cfg"
  shows "load_config (Some (encode_config cfg @ rest)) = Some cfg \<and>
    (load_config file = None \<longleftrightarrow> (case file of None \<Rightarrow> True | Some bs \<Rightarrow> length bs < SIZEOF_CONFIG))"
  using length_encode_config [OF assms] decode_encode_config [OF assms]
  by (auto simp: load_config_def Let_def split: option.split)


definition blank_config :: taint_config where
  "blank_config =
     \<lparr>cf_n_updates = 0, cf_n_rules = 1,
      cf_updates = replicate MAX_TAINT_UPDATES (no_update\<lparr>up_target := replicate TAINT_PAT_LEN 0, up_arg := replicate TAINT_ARG_LEN 0\<rparr>),
      cf_rules = replicate MAX_TAINT_RULES (no_rule\<lparr>ru_target := replicate TAINT_PAT_LEN 0, ru_arg := replicate TAINT_ARG_LEN 0,
        ru_cond_pat := replicate TAINT_PAT_LEN 0\<rparr>)\<rparr>"

lemma blank_config_wf: "wf_blob blank_config"
  by (simp add: wf_blob_def wf_config_def blank_config_def wf_update_def wf_rule_def no_update_def no_rule_def)

theorem load_config_roundtrip_witness:
  "load_config (Some (encode_config blank_config @ [0])) = Some blank_config \<and> load_config (Some [1, 2, 3]) = None"
  using load_config_roundtrip [OF blank_config_wf, of "[0]" "Some [1, 2, 3]"] by simp

end
