(* ===== verification/Loader_Main.thy ===== *)
theory Loader_Main
  imports Reports Config_Blob
begin

text \<open>
  The loader's \<^verbatim>\<open>main\<close> (\<^verbatim>\<open>bpf/process.c\<close>), from its arguments to its exit status: argument
  parsing, reading and checking the policy, choosing and configuring the programs, filling the maps, seeding the first
  process, and the loop that polls for reports. What the C library, libbpf and the kernel answer is the record
  \<open>loader_world\<close>; the loop may run for ever and is a partial function.
\<close>

section \<open>Numbers on the command line\<close>

definition is_space :: "char \<Rightarrow> bool" where
  "is_space c \<longleftrightarrow> (let n = (of_char c :: nat) in n = 32 \<or> 9 \<le> n \<and> n \<le> 13)"

definition digit_val :: "char \<Rightarrow> nat" where
  "digit_val c =
     (let n = (of_char c :: nat)
      in if 48 \<le> n \<and> n \<le> 57 then n - 48 else if 97 \<le> n \<and> n \<le> 122 then n - 87 else if 65 \<le> n \<and> n \<le> 90 then n - 55
         else 255)"

definition digits_val :: "nat \<Rightarrow> string \<Rightarrow> nat" where
  "digits_val base s = fold (\<lambda>c n. n * base + digit_val c) (takeWhile (\<lambda>c. digit_val c < base) s) 0"

text \<open>Leading white space and an optional sign.\<close>

definition signed_text :: "string \<Rightarrow> bool \<times> string" where
  "signed_text s =
     (case dropWhile is_space s of
        [] \<Rightarrow> (False, [])
      | c # cs \<Rightarrow> if c = CHR ''-'' then (True, cs) else if c = CHR ''+'' then (False, cs) else (False, c # cs))"

text \<open>\<^verbatim>\<open>strtol (s, NULL, 10)\<close> for a 64-bit \<^verbatim>\<open>long\<close>, and \<^verbatim>\<open>strtoull (s, NULL, 0)\<close>.\<close>

definition strtol10 :: "string \<Rightarrow> int" where
  "strtol10 s =
     (let (neg, t) = signed_text s; n = int (digits_val 10 t)
      in if neg then max (- (2 ^ 63)) (- n) else min (2 ^ 63 - 1) n)"

definition strtoull0 :: "string \<Rightarrow> u64" where
  "strtoull0 s =
     (let (neg, t) = signed_text s;
          n = (if take 1 t = ''0'' \<and> (take 1 (drop 1 t) = ''x'' \<or> take 1 (drop 1 t) = ''X'') \<and> drop 2 t \<noteq> [] \<and> digit_val (t ! 2) < 16
               then digits_val 16 (drop 2 t)
               else if take 1 t = ''0'' then digits_val 8 t else digits_val 10 t)
      in if 2 ^ 64 \<le> n then - 1 else if neg then - of_nat n else of_nat n)"

section \<open>Arguments\<close>

record loader_env =
  en_verbose :: bool
  en_config :: "string option"
  en_seed_pid :: pid_t
  en_seed_label :: u64

datatype arg_result = Arg_Ok loader_env | Arg_Usage | Arg_Unknown

abbreviation (input) ARGP_KEY_ARG :: int where "ARGP_KEY_ARG \<equiv> 0"
abbreviation (input) EX_USAGE :: int where "EX_USAGE \<equiv> 64"

definition parse_arg :: "int \<Rightarrow> string \<Rightarrow> loader_env \<Rightarrow> arg_result" where
  "parse_arg key arg env =
     (if key = 118 then Arg_Ok (env\<lparr>en_verbose := True\<rparr>)
      else if key = 99 then Arg_Ok (env\<lparr>en_config := Some arg\<rparr>)
      else if key = 1000 then Arg_Ok (env\<lparr>en_seed_pid := word_of_int (strtol10 arg)\<rparr>)
      else if key = 1001 then Arg_Ok (env\<lparr>en_seed_label := strtoull0 arg\<rparr>)
      else if key = ARGP_KEY_ARG then Arg_Usage
      else Arg_Unknown)"

text \<open>What \<^verbatim>\<open>argp_parse\<close> does with the command line, in its order: it calls the parser for each option and
  operand and for keys of its own (where it ignores \<^verbatim>\<open>ARGP_ERR_UNKNOWN\<close>), serves its own options
  \<^verbatim>\<open>--help\<close>, \<^verbatim>\<open>--usage\<close> and \<^verbatim>\<open>--version\<close>, or refuses an option.\<close>

datatype argp_event = Parse int string | Show_help | Show_usage | Show_version | Bad_option

definition argp_program_version :: string where
  "argp_program_version = ''actplane-taint 2.0''"

text \<open>The own options print to the output and end the program with status 0; a refused option and
  \<^verbatim>\<open>argp_usage\<close> print to the error output and end it with \<^verbatim>\<open>EX_USAGE\<close>. The texts of the help and of the usage
  are formatted by \<^verbatim>\<open>argp\<close> and are parameters.\<close>

fun parse_args :: "bytes \<Rightarrow> bytes \<Rightarrow> argp_event list \<Rightarrow> loader_env \<Rightarrow> (int \<times> bytes) + loader_env" where
  "parse_args help usage [] env = Inr env"
| "parse_args help usage (Show_help # evs) env = Inl (0, help)"
| "parse_args help usage (Show_usage # evs) env = Inl (0, usage)"
| "parse_args help usage (Show_version # evs) env = Inl (0, str_bytes argp_program_version @ [10])"
| "parse_args help usage (Bad_option # evs) env = Inl (EX_USAGE, [])"
| "parse_args help usage (Parse key arg # evs) env =
     (case parse_arg key arg env of
        Arg_Ok env \<Rightarrow> parse_args help usage evs env
      | Arg_Usage \<Rightarrow> Inl (EX_USAGE, [])
      | Arg_Unknown \<Rightarrow> parse_args help usage evs env)"

section \<open>The environment\<close>

definition strcasecmp_eq :: "string \<Rightarrow> string \<Rightarrow> bool" where
  "strcasecmp_eq a b \<longleftrightarrow>
     map (\<lambda>c. let n = (of_char c :: nat) in if 65 \<le> n \<and> n \<le> 90 then n + 32 else n) a =
     map (\<lambda>c. let n = (of_char c :: nat) in if 65 \<le> n \<and> n \<le> 90 then n + 32 else n) b"

definition hook_profile_full :: "string option \<Rightarrow> bool" where
  "hook_profile_full v =
     (case v of None \<Rightarrow> False | Some v \<Rightarrow> strcasecmp_eq v ''full'' \<or> strcasecmp_eq v ''all'' \<or> strcasecmp_eq v ''wide'')"

text \<open>\<^verbatim>\<open>fgets\<close> of the first line into 512 bytes: at most 511 characters, up to and with the newline. Then
  \<^verbatim>\<open>strstr\<close> looks for \<^verbatim>\<open>bpf\<close> in the string read.\<close>

definition fgets_line :: "nat \<Rightarrow> bytes \<Rightarrow> bytes option" where
  "fgets_line n bs =
     (if bs = [] then None
      else let l = take (n - 1) bs; h = takeWhile (\<lambda>c. c \<noteq> 10) l in Some (take (Suc (length h)) l))"

fun strstr :: "bytes \<Rightarrow> bytes \<Rightarrow> bool" where
  "strstr [] pat = (pat = [])"
| "strstr (c # cs) pat = (take (length pat) (c # cs) = pat \<or> strstr cs pat)"

definition bpf_lsm_active :: "bytes option \<Rightarrow> bool" where
  "bpf_lsm_active file =
     (case file of
        None \<Rightarrow> False
      | Some bs \<Rightarrow> (case fgets_line 512 bs of None \<Rightarrow> False | Some l \<Rightarrow> strstr (cstr l) (str_bytes ''bpf'')))"

section \<open>Tail programs\<close>

definition exec_tail_entries :: "(nat \<times> string) list" where
  "exec_tail_entries =
     [(0, ''exec_tp_update_simple''), (1, ''exec_tp_update_prefix''), (2, ''exec_tp_rule_simple''), (3, ''exec_tp_rule_complex'')]"

text \<open>Whether the object attaches a program by itself; the tail programs are only called.\<close>

definition autoattached :: "string \<Rightarrow> bool" where
  "autoattached name \<longleftrightarrow>
     \<not> name_in name [''exec_tp_update_simple'', ''exec_tp_update_prefix'', ''exec_tp_rule_simple'', ''exec_tp_rule_complex'']"

text \<open>\<open>fd\<close> gives the descriptors of the loaded programs, \<open>put\<close> whether the kernel accepts a slot of
  \<^verbatim>\<open>exec_tail\<close>; the result is the return code and the slots filled.\<close>

definition install_exec_tail_programs :: "(string \<Rightarrow> int) \<Rightarrow> (nat \<Rightarrow> bool) \<Rightarrow> int \<times> (nat \<Rightarrow> bool)" where
  "install_exec_tail_programs fd put =
     run_steps (map (\<lambda>(idx, prog) tail. if fd prog < 0 \<or> \<not> put idx then (- 1, tail) else (0, tail(idx := True))) exec_tail_entries)
       (\<lambda>_. False)"


section \<open>The poll loop\<close>

abbreviation (input) EINTR :: int where "EINTR \<equiv> 4"

text \<open>The k-th poll returns a code and hands the reports it found to \<^const>\<open>handle_event\<close>, which prints them;
  \<open>stop k\<close> is the value of \<^verbatim>\<open>exiting\<close> the k-th time the loop tests it.\<close>

definition printed :: "(u32 \<times> event) list \<Rightarrow> bytes" where
  "printed evs = concat (map (\<lambda>(ty, e). case handle_event ty e of None \<Rightarrow> [] | Some out \<Rightarrow> out) evs)"

partial_function (option) poll_loop ::
  "(nat \<Rightarrow> bool) \<Rightarrow> (nat \<Rightarrow> int \<times> (u32 \<times> event) list) \<Rightarrow> nat \<Rightarrow> int \<Rightarrow> bytes \<Rightarrow> (int \<times> bytes) option" where
  "poll_loop stop poll k err out =
     (if stop k then Some (err, out)
      else
        let rc = fst (poll k); out = out @ printed (snd (poll k))
        in if rc = - EINTR then Some (0, out)
           else if rc < 0 then Some (rc, out)
           else poll_loop stop poll (Suc k) rc out)"

section \<open>Main\<close>

text \<open>What the program finds around it: what \<^verbatim>\<open>argp\<close> meets on the command line, the texts it prints
  and the code it returns, files, the environment, its process id, and what libbpf and the kernel answer to opening, loading, attaching and
  polling. \<open>w_window\<close> is what the attached programs do to the maps before the first process is seeded.\<close>

record 's loader_world =
  w_calls :: "argp_event list"
  w_help :: bytes
  w_usage :: bytes
  w_argp :: int
  w_file :: "string \<Rightarrow> bytes option"
  w_getenv :: "string \<Rightarrow> string option"
  w_getpid :: pid_t
  w_open :: bool
  w_load :: int
  w_prog_fd :: "string \<Rightarrow> int"
  w_tail_put :: "nat \<Rightarrow> bool"
  w_attach :: int
  w_window :: "'s \<Rightarrow> 's"
  w_rb_new :: bool
  w_stop :: "nat \<Rightarrow> bool"
  w_poll :: "nat \<Rightarrow> int \<times> (u32 \<times> event) list"

text \<open>What \<^verbatim>\<open>main\<close> decides before it touches the kernel.\<close>

record load_plan =
  pl_env :: loader_env
  pl_cfg :: taint_config
  pl_enforce :: bool
  pl_full :: bool
  pl_advanced :: bool
  pl_reserve :: bool

definition no_env :: loader_env where
  "no_env = \<lparr>en_verbose = False, en_config = None, en_seed_pid = 0, en_seed_label = 0\<rparr>"

text \<open>An early end is its exit status and what was printed.\<close>

definition prepare :: "'s loader_world \<Rightarrow> (int \<times> bytes) + load_plan" where
  "prepare w =
     (case parse_args (w_help w) (w_usage w) (w_calls w) no_env of
        Inl stop \<Rightarrow> Inl stop
      | Inr env \<Rightarrow>
          if w_argp w \<noteq> 0 then Inl (w_argp w, [])
          else case en_config env of
                 None \<Rightarrow> Inl (1, [])
               | Some path \<Rightarrow>
                   (case load_config (w_file w path) of
                      None \<Rightarrow> Inl (1, [])
                    | Some cfg \<Rightarrow>
                        if validate_config cfg \<noteq> 0 then Inl (1, [])
                        else
                          let enforce = bpf_lsm_active (w_file w ''/sys/kernel/security/lsm'')
                          in if \<not> w_open w then Inl (1, [])
                             else
                               let full = hook_profile_full (w_getenv w ''ACTPLANE_HOOK_PROFILE'')
                               in Inr \<lparr>pl_env = env, pl_cfg = cfg, pl_enforce = enforce, pl_full = full,
                                    pl_advanced = full \<or> env_flag (w_getenv w ''ACTPLANE_ENABLE_ADVANCED_HOOKS'') \<or>
                                      env_flag (w_getenv w ''ACTPLANE_ADVANCED_TRACEPOINTS''),
                                    pl_reserve = env_flag (w_getenv w ''ACTPLANE_RESERVE_FILE_FLOW'')\<rparr>))"

text \<open>Which programs of the object are loaded, and the constants compiled into them.\<close>

definition autoloaded :: "load_plan \<Rightarrow> string \<Rightarrow> bool" where
  "autoloaded p name \<longleftrightarrow>
     tracepoint_loaded (pl_cfg p) (pl_full p) (pl_reserve p) (pl_advanced p) name \<and>
     lsm_loaded (pl_cfg p) (pl_enforce p) (pl_full p) (pl_advanced p) name"

definition set_rodata :: "load_plan \<Rightarrow> 'a sensor_scheme \<Rightarrow> 'a sensor_scheme" where
  "set_rodata p st =
     st\<lparr>enforce_mode := (if pl_enforce p then 1 else 0), policy_features := loader_features (pl_cfg p) (pl_full p) (pl_reserve p)\<rparr>"

text \<open>From the load to the ring buffer: the first failure ends the sequence with its code.\<close>

definition bring_up :: "'a sensor_scheme loader_world \<Rightarrow> load_plan \<Rightarrow> 'a sensor_scheme \<Rightarrow> int \<times> 'a sensor_scheme" where
  "bring_up w p st =
     (let st = set_rodata p st
      in if w_load w \<noteq> 0 then (w_load w, st)
         else if fst (install_exec_tail_programs (w_prog_fd w) (w_tail_put w)) \<noteq> 0 then (- 1, st)
         else
           let (rc, st) = load_policy (pl_cfg p) (w_getpid w) st
           in if rc < 0 then (- 1, st)
              else if w_attach w \<noteq> 0 then (w_attach w, st)
              else
                let (rc, st) = seed_initial_label (en_seed_pid (pl_env p)) (en_seed_label (pl_env p)) (w_window w st)
                in if rc \<noteq> 0 then (- 1, st)
                   else if \<not> w_rb_new w then (- 1, st)
                   else (0, st))"

definition exit_code :: "int \<Rightarrow> int" where
  "exit_code err = (if err < 0 then - err else 0)"

text \<open>The exit status, what was printed, and the maps as the loader leaves them; \<^const>\<open>None\<close> when it never ends.\<close>

definition loader_main :: "'a sensor_scheme loader_world \<Rightarrow> 'a sensor_scheme \<Rightarrow> (int \<times> bytes \<times> 'a sensor_scheme) option" where
  "loader_main w st =
     (case prepare w of
        Inl (rc, text) \<Rightarrow> Some (rc, text, st)
      | Inr p \<Rightarrow>
          let (err, st) = bring_up w p st
          in if err \<noteq> 0 then Some (exit_code err, [], st)
             else map_option (\<lambda>(err, out). (exit_code err, out, st)) (poll_loop (w_stop w) (w_poll w) 0 0 []))"


text \<open>What libbpf prints: debugging messages only when asked for.\<close>

datatype libbpf_print_level = LIBBPF_WARN | LIBBPF_INFO | LIBBPF_DEBUG

definition libbpf_print_fn :: "loader_env \<Rightarrow> libbpf_print_level \<Rightarrow> string \<Rightarrow> string" where
  "libbpf_print_fn env level text = (if level = LIBBPF_DEBUG \<and> \<not> en_verbose env then [] else text)"

section \<open>How the loop ends\<close>

text \<open>The poll at which the loop ends: the flag is set before it, or it fails.\<close>

definition ends_at :: "(nat \<Rightarrow> bool) \<Rightarrow> (nat \<Rightarrow> int \<times> (u32 \<times> event) list) \<Rightarrow> nat \<Rightarrow> bool" where
  "ends_at stop poll k \<longleftrightarrow> stop k \<or> fst (poll k) < 0"

definition reports :: "(nat \<Rightarrow> int \<times> (u32 \<times> event) list) \<Rightarrow> nat \<Rightarrow> nat \<Rightarrow> bytes" where
  "reports poll k n = concat (map (\<lambda>i. printed (snd (poll i))) [k..<n])"

lemma poll_loop_run:
  assumes "ends_at stop poll n" "k \<le> n" "\<And>i. k \<le> i \<Longrightarrow> i < n \<Longrightarrow> \<not> ends_at stop poll i" "0 \<le> err"
  shows "\<exists>rc. poll_loop stop poll k err out = Some (rc, out @ reports poll k (if stop n then n else Suc n)) \<and>
    exit_code rc = (if stop n \<or> fst (poll n) = - EINTR then 0 else - fst (poll n))"
  using assms(2-)
proof (induction "n - k" arbitrary: k err out)
  case 0
  then have "k = n" by simp
  with assms(1) 0(4) show ?case
    by (subst poll_loop.simps) (auto simp: ends_at_def reports_def exit_code_def Let_def)
next
  case (Suc m)
  then have k: "k < n" "m = n - Suc k" by simp_all
  then have no: "\<not> stop k" "0 \<le> fst (poll k)" using Suc.prems(2) [of k] by (auto simp: ends_at_def)
  have up: "[k..<if stop n then n else Suc n] = k # [Suc k..<if stop n then n else Suc n]"
    using k(1) by (simp add: upt_conv_Cons)
  show ?case
    using Suc.hyps(1) [OF k(2), of "fst (poll k)" "out @ printed (snd (poll k))"] Suc.prems k no
    by (subst poll_loop.simps) (simp add: reports_def up Let_def)
qed

lemma poll_loop_returns_ends:
  assumes "poll_loop stop poll k err out = Some r"
  shows "\<exists>n \<ge> k. ends_at stop poll n"
  using assms
proof (rule poll_loop.raw_induct [where P = "\<lambda>stop poll k err out r. \<exists>n \<ge> k. ends_at stop poll n", rotated])
  fix self :: "(nat \<Rightarrow> bool) \<Rightarrow> (nat \<Rightarrow> int \<times> (u32 \<times> event) list) \<Rightarrow> nat \<Rightarrow> int \<Rightarrow> bytes \<Rightarrow> (int \<times> bytes) option"
  fix stop poll k err out r
  assume IH: "\<And>stop poll k err out r. self stop poll k err out = Some r \<Longrightarrow> \<exists>n \<ge> k. ends_at stop poll n"
    and step: "(if stop k then Some (err, out)
      else let rc = fst (poll k); out = out @ printed (snd (poll k))
           in if rc = - EINTR then Some (0, out) else if rc < 0 then Some (rc, out) else self stop poll (Suc k) rc out) = Some r"
  show "\<exists>n \<ge> k. ends_at stop poll n"
  proof (cases "ends_at stop poll k")
    case False
    then have "self stop poll (Suc k) (fst (poll k)) (out @ printed (snd (poll k))) = Some r"
      using step by (auto simp: ends_at_def Let_def)
    from IH [OF this] show ?thesis using Suc_leD by blast
  qed blast
qed


lemma first_end:
  assumes "ends_at stop poll k"
  obtains n where "ends_at stop poll n" "\<And>i. i < n \<Longrightarrow> \<not> ends_at stop poll i"
  using assms by (metis exists_least_iff)

lemma poll_loop_ends: "poll_loop stop poll 0 0 [] \<noteq> None \<longleftrightarrow> (\<exists>k. ends_at stop poll k)"
proof
  assume "\<exists>k. ends_at stop poll k"
  then obtain n where n: "ends_at stop poll n" "\<And>i. i < n \<Longrightarrow> \<not> ends_at stop poll i" using first_end by metis
  from poll_loop_run [OF n(1) le0, of 0 "[]"] n(2) show "poll_loop stop poll 0 0 [] \<noteq> None" by fastforce
qed (use poll_loop_returns_ends in blast)

section \<open>Bringing the sensor up\<close>

lemma decode_config_wf: "wf_config (decode_config b)"
  by (simp add: wf_config_def decode_config_def)

lemma prepare_wf: "prepare w = Inr p \<Longrightarrow> wf_config (pl_cfg p) \<and> validate_config (pl_cfg p) = 0"
  by (auto simp: prepare_def load_config_def decode_config_wf Let_def split: option.splits sum.splits if_splits)

text \<open>Steps that return no positive code: the sequence succeeds exactly when each of them does.\<close>

lemma run_steps_ok: "fst (run_steps (f # fs) st) = 0 \<longleftrightarrow> 0 \<le> fst (f st) \<and> fst (run_steps fs (snd (f st))) = 0"
  by (simp add: case_prod_beta)

lemma map_update_ok: "0 \<le> fst (map_update_elem BPF_ANY k v m) \<longleftrightarrow> room m k"
  by (auto simp: map_update_elem_def room_def split: option.splits)

lemma seed_ok_rooms:
  assumes "fst (seed_initial_label pid label st) = 0" "pid \<noteq> 0"
  shows "0 < sint pid" "room (ts_proc st) pid" "room (ts_root st) pid" "room (cap_task st) pid" "room (cap_states st) pid"
proof -
  show pos: "0 < sint pid" using assms by (auto simp: seed_initial_label_def split: if_splits)
  then have "\<not> sint pid \<le> 0" by simp
  with assms(2) show "room (ts_proc st) pid" "room (ts_root st) pid" "room (cap_task st) pid" "room (cap_states st) pid"
    using assms(1) by (simp_all add: seed_initial_label_def run_steps_ok case_prod_beta map_update_ok del: run_steps.simps(2))
qed

lemma seed_done:
  assumes "seed_initial_label pid label st = (0, t)" "pid \<noteq> 0"
  shows "te_pid_active t pid \<and> cap_domain_for_pid t pid = pid \<and> te_root t pid = pid \<and>
    map_option ps_labels (map_lookup (ts_proc t) pid) = Some label"
proof -
  have "fst (seed_initial_label pid label st) = 0" using assms(1) by simp
  note rooms = seed_ok_rooms [OF this assms(2)]
  show ?thesis using seed_initial_label_binds [OF rooms, of label] assms(1) by simp
qed

lemma install_tail_ok: "fst (install_exec_tail_programs fd put) = 0 \<Longrightarrow> \<forall>i < 4. snd (install_exec_tail_programs fd put) i"
  by (simp add: install_exec_tail_programs_def exec_tail_entries_def numeral_eq_Suc less_Suc_eq split: if_splits)


lemma bring_up_stages:
  assumes "bring_up w p st = (0, t)"
  shows "w_load w = 0" "fst (install_exec_tail_programs (w_prog_fd w) (w_tail_put w)) = 0"
    "0 \<le> fst (load_policy (pl_cfg p) (w_getpid w) (set_rodata p st))" "w_attach w = 0" "w_rb_new w"
    "seed_initial_label (en_seed_pid (pl_env p)) (en_seed_label (pl_env p))
       (w_window w (snd (load_policy (pl_cfg p) (w_getpid w) (set_rodata p st)))) = (0, t)"
  using assms by (auto simp: bring_up_def Let_def case_prod_beta prod_eq_iff split: if_splits)

lemma bring_up_negative:
  assumes "w_load w \<le> 0" "w_attach w \<le> 0" "fst (bring_up w p st) \<noteq> 0"
  shows "fst (bring_up w p st) < 0"
  using assms by (auto simp: bring_up_def Let_def case_prod_beta split: if_splits)

section \<open>Properties\<close>

text \<open>C27: the loader ends exactly when something ends it. It returns on every error before the loop; once the sensor is
  up it returns if and only if the flag that the signal handler sets is found set at some test, or some poll fails.
  Polls that succeed never end it.\<close>

theorem loader_returns:
  "loader_main w st \<noteq> None \<longleftrightarrow>
     (case prepare w of
        Inl _ \<Rightarrow> True
      | Inr p \<Rightarrow> fst (bring_up w p st) \<noteq> 0 \<or> (\<exists>k. w_stop w k \<or> fst (w_poll w k) < 0))"
  using poll_loop_ends [of "w_stop w" "w_poll w"]
  by (auto simp: loader_main_def Let_def case_prod_beta ends_at_def split: sum.split)

text \<open>The stages of the start in their order, each with the exit status its failure means.\<close>

definition first_failure :: "(bool \<times> int) list \<Rightarrow> int option" where
  "first_failure xs = map_option snd (List.find (\<lambda>(ok, _). \<not> ok) xs)"

lemma first_failure_simps [simp]:
  "first_failure [] = None"
  "first_failure ((ok, c) # xs) = (if ok then first_failure xs else Some c)"
  by (simp_all add: first_failure_def)

definition argument_stages :: "'s loader_world \<Rightarrow> loader_env \<Rightarrow> (bool \<times> int) list" where
  "argument_stages w env =
     (let cfg = load_config (Option.bind (en_config env) (w_file w))
      in [(w_argp w = 0, w_argp w), (en_config env \<noteq> None, 1), (cfg \<noteq> None, 1),
          (map_option validate_config cfg = Some 0, 1), (w_open w, 1)])"

definition kernel_stages :: "'a sensor_scheme loader_world \<Rightarrow> load_plan \<Rightarrow> 'a sensor_scheme \<Rightarrow> (bool \<times> int) list" where
  "kernel_stages w p st =
     (let filled = load_policy (pl_cfg p) (w_getpid w) (set_rodata p st)
      in [(w_load w = 0, - w_load w),
          (fst (install_exec_tail_programs (w_prog_fd w) (w_tail_put w)) = 0, 1),
          (0 \<le> fst filled, 1),
          (w_attach w = 0, - w_attach w),
          (fst (seed_initial_label (en_seed_pid (pl_env p)) (en_seed_label (pl_env p)) (w_window w (snd filled))) = 0, 1),
          (w_rb_new w, 1)])"

definition ends_first :: "(nat \<Rightarrow> bool) \<Rightarrow> (nat \<Rightarrow> int \<times> (u32 \<times> event) list) \<Rightarrow> nat \<Rightarrow> bool" where
  "ends_first stop poll n \<longleftrightarrow> ends_at stop poll n \<and> (\<forall>i < n. \<not> ends_at stop poll i)"

lemma ends_first_unique: "ends_first stop poll m \<Longrightarrow> ends_first stop poll n \<Longrightarrow> m = n"
  unfolding ends_first_def by (meson linorder_neqE_nat)

lemma parse_args_codes: "parse_args h u evs env = Inl (c, text) \<Longrightarrow> c = 0 \<or> c = EX_USAGE \<and> text = []"
  by (induction h u evs env rule: parse_args.induct) (auto split: arg_result.splits)

lemma prepare_stages:
  assumes "parse_args (w_help w) (w_usage w) (w_calls w) no_env = Inr env"
  shows "case first_failure (argument_stages w env) of
      Some c \<Rightarrow> prepare w = Inl (c, []) \<and> c \<noteq> 0
    | None \<Rightarrow> \<exists>p. prepare w = Inr p \<and> pl_env p = env"
  using assms
  by (auto simp: prepare_def argument_stages_def load_config_def Let_def split: option.split if_splits)

lemma bring_up_first:
  assumes "w_load w \<le> 0" "w_attach w \<le> 0"
  shows "case first_failure (kernel_stages w p st) of
      Some c \<Rightarrow> fst (bring_up w p st) \<noteq> 0 \<and> exit_code (fst (bring_up w p st)) = c \<and> 0 < c
    | None \<Rightarrow> fst (bring_up w p st) = 0"
  using assms by (auto simp: bring_up_def kernel_stages_def exit_code_def Let_def case_prod_beta)

lemma first_failure_none: "first_failure xs = None \<longleftrightarrow> list_all fst xs"
  by (induction xs) (auto split: prod.split if_splits)

text \<open>C28: the exit status. One of \<^verbatim>\<open>argp\<close>'s own options ends the loader with status 0, a misuse of the command line with
  \<^verbatim>\<open>EX_USAGE\<close>. Otherwise the loader ends with the status of the first stage of its start that fails: the code
  of \<^verbatim>\<open>argp_parse\<close>; 1 for a missing, unreadable or refused policy and an object that does not open; the negated code
  of libbpf for a failed load or attachment; 1 for the tail programs, the maps, the seeded process and the ring
  buffer (nothing has then been printed to the output). When every stage succeeds, the loop decides: status 0
  when the flag or an interrupted poll ended it, the negated code of the poll that failed otherwise, and every report of
  the polls until then has been printed in order. So the status is 0 exactly for the own options and for a sensor that was up and
  was ended by a signal. libbpf reports failures as negative codes.\<close>

theorem loader_exit_status:
  assumes "loader_main w st = Some (rc, out, t)" "w_load w \<le> 0" "w_attach w \<le> 0"
  shows "(case parse_args (w_help w) (w_usage w) (w_calls w) no_env of
      Inl (c, text) \<Rightarrow> rc = c \<and> out = text \<and> t = st \<and> (c = 0 \<or> c = EX_USAGE \<and> text = [])
    | Inr env \<Rightarrow>
        (case first_failure (argument_stages w env) of
           Some c \<Rightarrow> rc = c \<and> out = [] \<and> t = st
         | None \<Rightarrow> \<exists>p. prepare w = Inr p \<and> pl_env p = env \<and>
             (case first_failure (kernel_stages w p st) of
                Some c \<Rightarrow> rc = c \<and> out = []
              | None \<Rightarrow> bring_up w p st = (0, t) \<and>
                  (\<exists>n. ends_first (w_stop w) (w_poll w) n \<and>
                     rc = (if w_stop w n \<or> fst (w_poll w n) = - EINTR then 0 else - fst (w_poll w n)) \<and>
                     out = reports (w_poll w) 0 (if w_stop w n then n else Suc n))))) \<and>
    (rc = 0 \<longleftrightarrow>
      (\<exists>text. parse_args (w_help w) (w_usage w) (w_calls w) no_env = Inl (0, text)) \<or>
      (\<exists>p n. prepare w = Inr p \<and> list_all fst (kernel_stages w p st) \<and> ends_first (w_stop w) (w_poll w) n \<and>
         (w_stop w n \<or> fst (w_poll w n) = - EINTR)))"
proof (cases "parse_args (w_help w) (w_usage w) (w_calls w) no_env")
  case (Inl stop)
  obtain c msg where s: "stop = (c, msg)" by (cases stop)
  have "prepare w = Inl (c, msg)" using Inl s by (simp add: prepare_def)
  then show ?thesis using assms(1) Inl s parse_args_codes [of "w_help w" "w_usage w" "w_calls w" no_env c msg]
    by (auto simp: loader_main_def)
next
  case (Inr env)
  note args = prepare_stages [OF Inr]
  show ?thesis
  proof (cases "first_failure (argument_stages w env)")
    case (Some c)
    then show ?thesis using args assms(1) Inr by (auto simp: loader_main_def)
  next
    case None
    then obtain p where p: "prepare w = Inr p" "pl_env p = env" using args by auto
    note up = bring_up_first [OF assms(2,3), of p st]
    show ?thesis
    proof (cases "first_failure (kernel_stages w p st)")
      case (Some c)
      then show ?thesis using up assms(1) p Inr None first_failure_none [of "kernel_stages w p st"]
        by (auto simp: loader_main_def case_prod_beta)
    next
      case kernel: None
      then obtain e where loop: "poll_loop (w_stop w) (w_poll w) 0 0 [] = Some (e, out)" "rc = exit_code e"
        and t: "bring_up w p st = (0, t)"
        using up assms(1) by (auto simp: loader_main_def p case_prod_beta prod_eq_iff)
      obtain n where n: "ends_first (w_stop w) (w_poll w) n"
        using poll_loop_returns_ends [OF loop(1)] first_end unfolding ends_first_def by metis
      then have run: "out = reports (w_poll w) 0 (if w_stop w n then n else Suc n)"
        "rc = (if w_stop w n \<or> fst (w_poll w n) = - EINTR then 0 else - fst (w_poll w n))"
        using poll_loop_run [of "w_stop w" "w_poll w" n 0 0 "[]"] loop by (auto simp: ends_first_def)
      have zero: "rc = 0 \<longleftrightarrow> w_stop w n \<or> fst (w_poll w n) = - EINTR"
        using run(2) n by (auto simp: ends_first_def ends_at_def)
      have "rc = 0 \<longleftrightarrow> (\<exists>p n. prepare w = Inr p \<and> list_all fst (kernel_stages w p st) \<and>
          ends_first (w_stop w) (w_poll w) n \<and> (w_stop w n \<or> fst (w_poll w n) = - EINTR))"
      proof
        assume "rc = 0"
        with p(1) n kernel zero show "\<exists>p n. prepare w = Inr p \<and> list_all fst (kernel_stages w p st) \<and>
            ends_first (w_stop w) (w_poll w) n \<and> (w_stop w n \<or> fst (w_poll w n) = - EINTR)"
          unfolding first_failure_none by blast
      next
        assume "\<exists>p n. prepare w = Inr p \<and> list_all fst (kernel_stages w p st) \<and>
            ends_first (w_stop w) (w_poll w) n \<and> (w_stop w n \<or> fst (w_poll w n) = - EINTR)"
        then show "rc = 0" using zero ends_first_unique [OF _ n] by blast
      qed
      moreover have "\<exists>p. prepare w = Inr p \<and> pl_env p = env \<and>
          (case first_failure (kernel_stages w p st) of
             Some c \<Rightarrow> rc = c \<and> out = []
           | None \<Rightarrow> bring_up w p st = (0, t) \<and>
               (\<exists>n. ends_first (w_stop w) (w_poll w) n \<and>
                  rc = (if w_stop w n \<or> fst (w_poll w n) = - EINTR then 0 else - fst (w_poll w n)) \<and>
                  out = reports (w_poll w) 0 (if w_stop w n then n else Suc n)))"
        by (rule exI [of _ p]) (use p kernel t n run in \<open>simp, blast\<close>)
      ultimately show ?thesis by (simp only: Inr None sum.case option.case) simp
    qed
  qed
qed

text \<open>A run that reads a policy with one rule, seeds process 5 with label 1 and is stopped by a signal after two polls.\<close>

definition quiet_world :: "'s loader_world" where
  "quiet_world =
     \<lparr>w_calls = [Parse 99 ''policy.bin'', Parse 1000 ''5'', Parse 1001 ''0x1''], w_help = [], w_usage = [], w_argp = 0,
      w_file = [''policy.bin'' \<mapsto> encode_config blank_config, ''/sys/kernel/security/lsm'' \<mapsto> str_bytes ''capability,bpf''],
      w_getenv = Map.empty, w_getpid = 77, w_open = True, w_load = 0, w_prog_fd = (\<lambda>_. 9), w_tail_put = (\<lambda>_. True),
      w_attach = 0, w_window = (\<lambda>s. s), w_rb_new = True, w_stop = (\<lambda>k. k = 2), w_poll = (\<lambda>_. (0, []))\<rparr>"

definition quiet_plan :: load_plan where
  "quiet_plan =
     \<lparr>pl_env = \<lparr>en_verbose = False, en_config = Some ''policy.bin'', en_seed_pid = 5, en_seed_label = 1\<rparr>,
      pl_cfg = blank_config, pl_enforce = True, pl_full = False, pl_advanced = False, pl_reserve = False\<rparr>"

lemma quiet_numbers: "strtol10 ''5'' = 5" "strtoull0 ''0x1'' = 1" "bpf_lsm_active (Some (str_bytes ''capability,bpf''))"
  by (simp_all add: strtol10_def strtoull0_def signed_text_def is_space_def digits_val_def digit_val_def bpf_lsm_active_def
      fgets_line_def str_bytes_def cstr_def)

lemma quiet_fields:
  "w_load quiet_world = 0" "w_attach quiet_world = 0" "w_rb_new quiet_world" "w_getpid quiet_world = 77"
  "w_window quiet_world s = s" "pl_cfg quiet_plan = blank_config" "en_seed_pid (pl_env quiet_plan) = 5"
  "en_seed_label (pl_env quiet_plan) = 1" "fst (install_exec_tail_programs (w_prog_fd quiet_world) (w_tail_put quiet_world)) = 0"
  by (simp_all add: quiet_world_def quiet_plan_def install_exec_tail_programs_def exec_tail_entries_def)

lemma quiet_prepare: "prepare quiet_world = Inr quiet_plan"
proof -
  have "load_config (Some (encode_config blank_config)) = Some blank_config"
    using length_encode_config [OF blank_config_wf] decode_encode_config [OF blank_config_wf] by (simp add: load_config_def)
  moreover have "validate_config blank_config = 0"
    using blank_config_wf by (simp add: validate_config_def wf_blob_def cfg_updates_take cfg_rules_take)
      (simp add: blank_config_def no_rule_def)
  ultimately show ?thesis
    by (simp add: prepare_def quiet_world_def quiet_plan_def no_env_def parse_arg_def quiet_numbers hook_profile_full_def env_flag_def)
qed

lemma quiet_up:
  assumes "fresh_maps st" "room (ts_proc st) 5" "room (ts_root st) 5" "room (cap_task st) 5" "room (cap_states st) 5"
  shows "\<exists>t. bring_up quiet_world quiet_plan st = (0, t)"
proof -
  have fresh: "fresh_maps (set_rodata quiet_plan st)"
    using assms(1) by (simp add: fresh_maps_def set_rodata_def)
  have fits: "unat (cf_n_updates blank_config) \<le> MAX_TAINT_UPDATES" "unat (cf_n_rules blank_config) \<le> MAX_TAINT_RULES"
    by (simp_all add: blank_config_def)
  obtain u r m c where l: "load_policy blank_config 77 (set_rodata quiet_plan st) = (0,
      (set_rodata quiet_plan st)\<lparr>ts_updates := u, ts_rules := r, cap_policy := m, ts_counts := c,
        te_protected_pids := map_put 77 1 (hash_new 64)\<rparr>)" (is "_ = (0, ?s)")
    using load_policy_ok [OF fresh fits, of 77] by blast
  have "fst (seed_initial_label 5 1 ?s) = 0"
    by (rule seed_initial_label_binds) (use assms in \<open>simp_all add: set_rodata_def\<close>)
  then show ?thesis by (simp add: bring_up_def quiet_fields l Let_def case_prod_beta)
qed

lemma quiet_fresh: "\<exists>t. bring_up quiet_world quiet_plan fresh_sensor = (0, t)"
  by (rule quiet_up [OF fresh_sensor_fresh]) (simp_all add: fresh_sensor_def guard_defs example_simps)

text \<open>The stop by a signal ends the quiet run with status 0; a failed attachment ends it with the code of libbpf,
  and \<^verbatim>\<open>--version\<close> after another option prints the version.\<close>

theorem loader_exit_status_witness:
  "(\<exists>out t. loader_main quiet_world fresh_sensor = Some (0, out, t)) \<and>
   (\<exists>t. loader_main (quiet_world\<lparr>w_attach := - 13\<rparr>) fresh_sensor = Some (13, [], t)) \<and>
   loader_main (quiet_world\<lparr>w_calls := [Parse 118 [], Show_version]\<rparr>) fresh_sensor =
     Some (0, str_bytes argp_program_version @ [10], fresh_sensor)"
proof (intro conjI)
  let ?w = "quiet_world :: sensor loader_world"
  obtain t where t: "bring_up ?w quiet_plan fresh_sensor = (0, t)" using quiet_fresh by blast
  have e: "ends_at (w_stop ?w) (w_poll ?w) n \<longleftrightarrow> n = 2" for n
    by (simp add: ends_at_def quiet_world_def)
  then have "poll_loop (w_stop ?w) (w_poll ?w) 0 0 [] \<noteq> None"
    unfolding poll_loop_ends by blast
  then obtain rc out where m: "loader_main ?w fresh_sensor = Some (rc, out, t)"
    by (auto simp: loader_main_def quiet_prepare t)
  have stages: "list_all fst (kernel_stages ?w quiet_plan fresh_sensor)"
    using bring_up_first [of ?w quiet_plan fresh_sensor] t
    unfolding first_failure_none [symmetric] by (auto simp: quiet_fields split: option.splits)
  have "ends_first (w_stop ?w) (w_poll ?w) 2" "w_stop ?w 2" by (auto simp: ends_first_def e) (simp add: quiet_world_def)
  with loader_exit_status [OF m] quiet_prepare stages have "rc = 0" by (auto simp: quiet_fields)
  with m show "\<exists>out t. loader_main ?w fresh_sensor = Some (0, out, t)" by blast
next
  let ?w = "quiet_world\<lparr>w_attach := - 13\<rparr> :: sensor loader_world"
  have "prepare (w\<lparr>w_attach := a\<rparr>) = prepare w" for w :: "sensor loader_world" and a
    by (simp add: prepare_def Let_def cong: option.case_cong sum.case_cong if_cong)
  then have q: "prepare ?w = Inr quiet_plan" by (simp add: quiet_prepare)
  obtain t where t: "bring_up quiet_world quiet_plan fresh_sensor = (0, t)" using quiet_fresh by blast
  have "bring_up ?w quiet_plan fresh_sensor = (- 13, snd (load_policy blank_config 77 (set_rodata quiet_plan fresh_sensor)))"
    using bring_up_stages [OF t] by (auto simp: bring_up_def quiet_fields Let_def case_prod_beta)
  then show "\<exists>t. loader_main ?w fresh_sensor = Some (13, [], t)"
    by (simp add: loader_main_def q exit_code_def)
next
  show "loader_main (quiet_world\<lparr>w_calls := [Parse 118 [], Show_version]\<rparr>) fresh_sensor =
      Some (0, str_bytes argp_program_version @ [10], fresh_sensor)"
    by (simp add: loader_main_def prepare_def parse_arg_def)
qed

theorem loader_returns_witness:
  "loader_main (quiet_world :: sensor loader_world) fresh_sensor \<noteq> None"
proof -
  have "w_stop (quiet_world :: sensor loader_world) 2" by (simp add: quiet_world_def)
  then show ?thesis
    unfolding loader_returns quiet_prepare by auto
qed


end
