(* ===== verification/Label_Life.thy ===== *)
theory Label_Life
  imports Hook_Properties
begin

text \<open>
  What happens to the labels of a process while it lives. The relation \<open>life\<close> compares two states of the
  sensor during the life of one process: the process keeps its domain, the policy only grows, and of its labels
  only those go that some exec update removes. Every program of the sensor is a step of that relation as long as the
  process neither exits nor is created anew, by a third interpretation of \<open>program_contract\<close>. With the
  verdicts of the LSM hooks this gives the end-to-end guarantee: a process that has read labelled data cannot
  connect where a rule forbids that label, whatever it and the other processes do in between.
\<close>

section \<open>The life of a process\<close>

text \<open>Deltas apart, the tasks that are bound change when processes fork and exit; the process itself stays bound
  where it was.\<close>

definition policy_kept :: "pid_t \<Rightarrow> 'a cap_maps_scheme \<Rightarrow> 'a cap_maps_scheme \<Rightarrow> bool" where
  "policy_kept p s t \<longleftrightarrow>
     map_lookup (cap_task t) p = map_lookup (cap_task s) p \<and> policy_grows s (t\<lparr>cap_task := cap_task s\<rparr>)"

definition life :: "pid_t \<Rightarrow> 'a engine_scheme \<Rightarrow> 'a engine_scheme \<Rightarrow> bool" where
  "life p s t \<longleftrightarrow>
     policy_kept p s t \<and> (\<forall>d. exec_removes s d \<subseteq> exec_removes t d) \<and>
     (\<forall>d. proc_labels s p d - exec_removes t d \<subseteq> proc_labels t p d)"

lemma policy_grows_task: "policy_grows (s\<lparr>cap_task := x\<rparr>) (t\<lparr>cap_task := x\<rparr>) = policy_grows (s\<lparr>cap_task := y\<rparr>) (t\<lparr>cap_task := y\<rparr>)"
  by (simp add: policy_grows_def cap_policy_rule_bound_def n_rules_def n_updates_def)

lemma policy_kept_refl: "policy_kept p s s"
  by (simp add: policy_kept_def policy_grows_refl)

lemma policy_kept_trans:
  assumes "policy_kept p s t" "policy_kept p t u"
  shows "policy_kept p s u"
proof -
  have "policy_grows (t\<lparr>cap_task := cap_task s\<rparr>) (u\<lparr>cap_task := cap_task s\<rparr>)"
    using assms(2) policy_grows_task [of "cap_task s" t u "cap_task t"] by (simp add: policy_kept_def)
  then show ?thesis
    using assms policy_grows_trans [of s "t\<lparr>cap_task := cap_task s\<rparr>"] by (simp add: policy_kept_def)
qed

lemma policy_kept_cong:
  assumes "cap_maps.truncate t = cap_maps.truncate s"
  shows "policy_kept p s t"
  using policy_cong [OF assms] policy_grows_refl [of s]
  by (simp add: policy_kept_def policy_grows_def cap_policy_rule_bound_def n_rules_def n_updates_def)

interpretation life: growth engine_ok "life p" for p
proof
  show "life p s s" for s by (simp add: life_def policy_kept_refl)
  show "life p s u" if "life p s t" "life p t u" for s t u
    using that unfolding life_def by (blast intro: policy_kept_trans)
qed

section \<open>The flows\<close>

text \<open>A flow leaves the policy alone and takes from the process at most what an exec update removes.\<close>

definition flow_keeps :: "pid_t \<Rightarrow> 'a engine_scheme \<Rightarrow> 'a engine_scheme \<Rightarrow> bool" where
  "flow_keeps p s t \<longleftrightarrow>
     cap_maps.truncate t = cap_maps.truncate s \<and> (\<forall>d. proc_labels s p d - exec_removes s d \<subseteq> proc_labels t p d)"

lemma flow_keeps_life: "flow_keeps p s t \<Longrightarrow> life p s t"
  using exec_removes_truncate [of t s] by (simp add: flow_keeps_def life_def policy_kept_cong)

interpretation flow_steps: growth "\<lambda>_. True" "flow_keeps p" for p
proof
  show "flow_keeps p s s" for s by (simp add: flow_keeps_def)
  show "flow_keeps p s u" if "flow_keeps p s t" "flow_keeps p t u" for s t u
    using that exec_removes_truncate [of t s] unfolding flow_keeps_def by auto
qed

lemma flow_keeps_loop:
  assumes "\<And>d s. flow_keeps p s (body d s)"
  shows "flow_keeps p st (domain_loop pid body st)"
proof -
  have "True \<and> flow_keeps p st (domain_loop pid body st)"
    unfolding domain_loop_def by (rule flow_steps.loop_grows) (auto simp: Let_def assms flow_steps.grows_refl)
  then show ?thesis ..
qed

lemma flow_keepsI:
  "cap_maps.truncate t = cap_maps.truncate s \<Longrightarrow> (\<And>d. proc_labels s p d \<subseteq> proc_labels t p d) \<Longrightarrow> flow_keeps p s t"
  unfolding flow_keeps_def by blast

lemma proc_labels_add: "proc_labels st p d \<subseteq> proc_labels (te_add_labels_domain q e l st) p d"
proof (cases "\<not> te_pid_active st q \<or> l = 0 \<or> \<not> cap_domain_matches_pid st q e")
  case False
  then show ?thesis
    by (cases "te_get_domain st q e"; cases "e = 0"; cases "d = 0")
       (auto simp: te_add_labels_domain_def proc_labels_def te_get_domain_def te_get_def lookup_put lookup_modify Let_def
          split: option.split)
qed (auto simp: te_add_labels_domain_def)

lemma add_labels_flow: "flow_keeps p st (te_add_labels_domain q e l st)"
  by (rule flow_keepsI [OF add_labels_domain_frame(1) proc_labels_add])

text \<open>A flow that touches no process label, and the steps the others are made of.\<close>

lemma flow_keeps_frame:
  "cap_maps.truncate t = cap_maps.truncate s \<Longrightarrow> ts_proc t = ts_proc s \<Longrightarrow> ts_proc_domains t = ts_proc_domains s \<Longrightarrow>
    flow_keeps p s t"
  using labels_cong(1) [of t s] by (auto intro: flow_keepsI)

lemma flow_keeps_after:
  "flow_keeps p s t \<Longrightarrow> cap_maps.truncate u = cap_maps.truncate t \<Longrightarrow> ts_proc u = ts_proc t \<Longrightarrow>
    ts_proc_domains u = ts_proc_domains t \<Longrightarrow> flow_keeps p s u"
  by (rule flow_steps.grows_trans [OF _ flow_keeps_frame])

lemma read_flow_keeps: "flow_keeps p st (te_read q f path st)"
  unfolding te_read_def
proof (rule flow_keeps_loop)
  fix d and s :: "'a engine_scheme"
  show "flow_keeps p s (te_read_domain q f path d s)"
    unfolding te_read_domain_def
    by (simp add: flow_steps.grows_refl Let_def case_prod_beta)
      (intro impI conjI; rule flow_keeps_after [OF add_labels_flow]; simp)
qed


lemma recv_flow_keeps: "flow_keeps p st (te_recv_flow ip q st)"
  unfolding te_recv_flow_def
proof (rule flow_keeps_loop)
  fix d and s :: "'a engine_scheme"
  show "flow_keeps p s (te_recv_flow_domain ip q d s)"
    unfolding te_recv_flow_domain_def
    by (simp add: flow_steps.grows_refl Let_def case_prod_beta del: word_or_eq_0)
      (intro impI conjI; rule flow_keeps_after [OF add_labels_flow]; simp)
qed

lemma connect_flow_keeps: "flow_keeps p st (te_connect_flow ip q st)"
  unfolding te_connect_flow_def
proof (rule flow_keeps_loop)
  fix d and s :: "'a engine_scheme"
  show "flow_keeps p s (te_connect_flow_domain ip q d s)"
    unfolding te_connect_flow_domain_def
    by (simp add: flow_steps.grows_refl Let_def case_prod_beta)
      (intro impI conjI; rule flow_keeps_after [OF add_labels_flow]; simp)
qed

lemma write_flow_keeps: "flow_keeps p st (te_write_flow q f path st)"
  unfolding te_write_flow_def
  by (rule flow_keeps_loop)
     (simp add: te_write_flow_domain_def Let_def case_prod_beta flow_keeps_frame split: option.split)

lemma materialize_flow_keeps: "flow_keeps p st (te_materialize_file_source q fo path st)"
  by (cases fo)
     (simp_all add: te_materialize_file_source_def flow_steps.grows_refl flow_keeps_loop te_materialize_file_source_domain_def
       Let_def flow_keeps_frame split: option.split)

lemma copy_file_keeps: "flow_keeps p st (te_copy_file_state q f g del st)"
  unfolding te_copy_file_state_def
  by (rule flow_keeps_loop)
     (simp add: te_copy_file_state_domain_def Let_def flow_keeps_frame split: option.split)

lemma swap_file_keeps: "flow_keeps p st (te_swap_file_state q f g st)"
  unfolding te_swap_file_state_def Let_def
  by (intro flow_steps.grows_trans [OF _ copy_file_keeps] flow_keeps_frame) simp_all

text \<open>An exec takes away what its updates remove, and only in their domains.\<close>

lemma exec_apply_keeps:
  assumes "bits_of (uc_del u) \<subseteq> exec_removes st e"
  shows "flow_keeps p st (te_exec_apply q comm e u st)"
proof -
  have "proc_labels st p d - exec_removes st d \<subseteq> proc_labels (te_exec_apply q comm e u st) p d" for d
  proof -
    let ?ns = "case te_get_domain st q e of None \<Rightarrow> \<lparr>ps_labels = 0, ps_lin_gates = 0\<rparr> | Some p \<Rightarrow> p"
    let ?s = "te_store_proc_domain q e (?ns\<lparr>ps_labels := (ps_labels ?ns OR uc_add u) AND NOT (uc_del u),
        ps_lin_gates := ps_lin_gates ?ns OR uc_gates u\<rparr>) st"
    have "ts_proc (te_exec_apply q comm e u st) = ts_proc ?s" "ts_proc_domains (te_exec_apply q comm e u st) = ts_proc_domains ?s"
      by (simp_all add: te_exec_apply_def Let_def case_prod_beta)
    then have "proc_labels (te_exec_apply q comm e u st) = proc_labels ?s" by (rule labels_cong(1))
    then show ?thesis
      using assms
      by (cases "e = 0"; cases "d = 0"; cases "te_get_domain st q e")
         (auto simp: proc_labels_def te_store_proc_domain_def te_get_domain_def te_get_def lookup_put simp del: bits_of_and
           split: option.split)
  qed
  then show ?thesis by (simp add: flow_keeps_def exec_apply_policy)
qed

lemma exec_flow_keeps: "flow_keeps p st (te_exec_update_no_args q comm st)"
proof -
  have "flow_keeps p s (te_exec_update_domain_no_args q comm d s)" for d and s :: "'a engine_scheme"
    unfolding te_exec_update_domain_no_args_def by (simp add: flow_steps.grows_refl exec_apply_keeps exec_scan_dels(1))
  then show ?thesis by (simp add: te_exec_update_no_args_def flow_steps.grows_refl flow_keeps_loop)
qed


section \<open>Births, deaths and deltas\<close>

lemma life_task:
  "map_lookup x p = map_lookup (cap_task st) p \<Longrightarrow> life p st (st\<lparr>cap_task := x\<rparr>)"
  using exec_removes_cong [of "st\<lparr>cap_task := x\<rparr>" st] labels_cong(1) [of "st\<lparr>cap_task := x\<rparr>" st]
  by (simp add: life_def policy_kept_def policy_grows_refl)

lemma life_frame:
  "cap_maps.truncate t = cap_maps.truncate s \<Longrightarrow> ts_proc t = ts_proc s \<Longrightarrow> ts_proc_domains t = ts_proc_domains s \<Longrightarrow>
    life p s t"
  by (rule flow_keeps_life [OF flow_keeps_frame])

lemma fork_life:
  assumes "c \<noteq> p"
  shows "life p st (te_fork q c st)"
proof (cases "te_pid_active st q")
  case True
  have bind: "life p st (cap_fork q c st)"
    by (cases "map_lookup (cap_task st) q")
       (use assms in \<open>simp_all add: cap_fork_def life.grows_refl life_task lookup_put\<close>)
  have copy: "flow_keeps p s (te_copy_proc_domain_state q c d s)" for d and s :: "'a engine_scheme"
  proof -
    have "proc_labels (te_copy_proc_domain_state q c d s) p e = proc_labels s p e" for e
      using assms by (simp add: te_copy_proc_domain_state_def proc_labels_def te_get_domain_def te_get_def lookup_put Let_def
          split: option.split)
    then show ?thesis by (intro flow_keepsI) (simp_all add: fork_flow.body_policy)
  qed
  let ?l = "domain_loop q (te_copy_proc_domain_state q c) (cap_fork q c st)"
  have "life p (cap_fork q c st) ?l" by (rule flow_keeps_life [OF flow_keeps_loop [OF copy]])
  moreover have "life p ?l (?l\<lparr>ts_root := r\<rparr>)" for r by (rule life_frame) simp_all
  ultimately show ?thesis
    using True bind unfolding te_fork_def Let_def by (auto intro: life.grows_trans)
qed (simp add: te_fork_def life.grows_refl)

lemma exit_life:
  assumes "q \<noteq> p"
  shows "life p st (te_exit q status st)"
proof -
  have body: "flow_keeps p s (te_exit_domain q status d s)" for d and s :: "'a engine_scheme"
  proof -
    have "proc_labels (te_exit_domain q status d s) p e = proc_labels s p e" for e
      using assms by (simp add: exit_domain_labels)
    then show ?thesis by (intro flow_keepsI) (simp_all add: exit_domain_policy)
  qed
  let ?l = "domain_loop q (te_exit_domain q status) st"
  have "life p st ?l" by (rule flow_keeps_life [OF flow_keeps_loop [OF body]])
  moreover have "life p ?l (?l\<lparr>ts_root := r\<rparr>)" for r by (rule life_frame) simp_all
  moreover have "life p s (cap_exit q s)" for s :: "'a engine_scheme"
    unfolding cap_exit_def by (rule life_task) (use assms in \<open>simp add: lookup_delete\<close>)
  ultimately show ?thesis unfolding te_exit_def Let_def by (blast intro: life.grows_trans)
qed

lemma exec_removes_grow:
  assumes "wf_tables s" "wf_tables t" "policy_grows s t"
  shows "exec_removes s d \<subseteq> exec_removes t d"
proof -
  have n: "unat (te_count s 1) = n_updates s" "unat (te_count t 1) = n_updates t" "n_updates s \<le> n_updates t"
    using wf_te_count1 [OF assms(1)] wf_te_count1 [OF assms(2)] assms(3) by (auto simp: policy_grows_def)
  have "arr_lookup (ts_updates t) i = arr_lookup (ts_updates s) i" if "i < n_updates s" for i
    using assms that by (simp add: arr_lookup_def wf_tables_def policy_grows_def)
  then show ?thesis
    unfolding exec_removes_def n(1,2) using n(3) by (intro UN_mono subset_refl) (force intro: less_le_trans)
qed

lemma drain_life:
  assumes "engine_ok st"
  shows "life p st (cap_drain_current t ring st)"
proof -
  have wf: "wf_tables st" "wf_tables (cap_drain_current t ring st)" "policy_grows st (cap_drain_current t ring st)"
    using assms delta.keeps_ok [OF cap_drain_current_keeps, of st t ring]
      delta.keeps_grows [OF cap_drain_current_keeps, of st t ring]
    by (simp_all add: engine_ok_def)
  have "ts_proc (cap_drain_current t ring st) = ts_proc st" "ts_proc_domains (cap_drain_current t ring st) = ts_proc_domains st"
    using more_drain [of t ring st] by (cases "cap_drain_current t ring st"; cases st; simp)+
  then have "proc_labels (cap_drain_current t ring st) = proc_labels st" by (rule labels_cong(1))
  moreover have task: "cap_task (cap_drain_current t ring st) = cap_task st" using wf(3) by (simp add: policy_grows_def)
  moreover have same: "(cap_drain_current t ring st)\<lparr>cap_task := cap_task st\<rparr> = cap_drain_current t ring st"
    unfolding task [symmetric] by simp
  have "policy_kept p st (cap_drain_current t ring st)"
    unfolding policy_kept_def same task using wf(3) by blast
  ultimately show ?thesis
    using exec_removes_grow [OF wf] by (auto simp: life_def)
qed


section \<open>Every program of the sensor\<close>

text \<open>A state reached from \<open>st0\<close> during the life of \<open>p\<close>.\<close>

definition alive :: "pid_t \<Rightarrow> 'a engine_scheme \<Rightarrow> 'a engine_scheme \<Rightarrow> bool" where
  "alive p st0 st \<longleftrightarrow> engine_ok st \<and> life p st0 st"

lemma alive_step: "alive p st0 st \<Longrightarrow> (engine_ok st \<Longrightarrow> engine_ok t) \<Longrightarrow> (engine_ok st \<Longrightarrow> life p st t) \<Longrightarrow> alive p st0 t"
  unfolding alive_def by (blast intro: life.grows_trans)

lemma alive_flow: "alive p st0 st \<Longrightarrow> (engine_ok st \<Longrightarrow> engine_ok t) \<Longrightarrow> flow_keeps p st t \<Longrightarrow> alive p st0 t"
  by (rule alive_step [OF _ _ flow_keeps_life])

lemma same_engine_fields:
  assumes "same_engine s t"
  shows "cap_maps.truncate s = cap_maps.truncate t" "ts_proc s = ts_proc t" "ts_proc_domains s = ts_proc_domains t"
  using assms by (simp_all add: same_engine_def engine.truncate_def cap_maps.truncate_def)

lemma alive_same: "same_engine t st \<Longrightarrow> alive p st0 st \<Longrightarrow> alive p st0 t"
  using same_engine_fields [of t st] same_engine_keeps(1) [of t st] by (auto intro: alive_flow flow_keeps_frame)

lemma same_engine_more:
  fixes st :: "'a tables_scheme"
  shows "same_engine (st\<lparr>te_protected_pids := x\<rparr>) t = same_engine st t"
    "same_engine (st\<lparr>cur_pid_tgid := a, cur_ppid := b, cur_comm := c, cur_fdt := d, kernel_file := e, user_mem := f\<rparr>) t =
       same_engine st t"
  by (simp_all add: same_engine_def engine.truncate_def)

lemma alive_flows [simp]:
  "alive p st0 st \<Longrightarrow> alive p st0 (te_read q f path st)"
  "alive p st0 st \<Longrightarrow> alive p st0 (te_write_flow q f path st)"
  "alive p st0 st \<Longrightarrow> alive p st0 (te_connect_flow ip q st)"
  "alive p st0 st \<Longrightarrow> alive p st0 (te_recv_flow ip q st)"
  "alive p st0 st \<Longrightarrow> alive p st0 (te_materialize_file_source q fo path st)"
  "alive p st0 st \<Longrightarrow> alive p st0 (te_copy_file_state q f g del st)"
  "alive p st0 st \<Longrightarrow> alive p st0 (te_swap_file_state q f g st)"
  "alive p st0 st \<Longrightarrow> alive p st0 (te_exec_update_no_args q comm st)"
  by (erule alive_flow; simp add: read_flow_keeps write_flow_keeps connect_flow_keeps recv_flow_keeps
      materialize_flow_keeps copy_file_keeps swap_file_keeps exec_flow_keeps)+

lemma alive_exec_apply:
  "alive p st0 st \<Longrightarrow> bits_of (uc_del u) \<subseteq> exec_removes st d \<Longrightarrow> alive p st0 (te_exec_apply q comm d u st)"
  by (erule alive_flow) (simp_all add: exec_apply_keeps)

lemma alive_births [simp]:
  "alive p st0 st \<Longrightarrow> c \<noteq> p \<Longrightarrow> alive p st0 (te_fork q c st)"
  "alive p st0 st \<Longrightarrow> q \<noteq> p \<Longrightarrow> alive p st0 (te_exit q status st)"
  "alive p st0 st \<Longrightarrow> alive p st0 (cap_drain_current t ring st)"
  by (erule alive_step; simp add: fork_life exit_life drain_life engine_ok_ops engine_programs.do_drain)+


lemma alive_tables [simp]:
  fixes st :: "'a tables_scheme"
  shows "alive p st0 st \<Longrightarrow> alive p st0 (st\<lparr>ts_openpend := x1\<rparr>)" "alive p st0 st \<Longrightarrow> alive p st0 (st\<lparr>ts_renamepend := x2\<rparr>)"
    "alive p st0 st \<Longrightarrow> alive p st0 (st\<lparr>ts_fd := x3\<rparr>)" "alive p st0 st \<Longrightarrow> alive p st0 (st\<lparr>ts_fileptr := x4\<rparr>)"
    "alive p st0 st \<Longrightarrow> alive p st0 (st\<lparr>ts_sockfd := x5\<rparr>)" "alive p st0 st \<Longrightarrow> alive p st0 (st\<lparr>ts_connectpend := x6\<rparr>)"
    "alive p st0 st \<Longrightarrow> alive p st0 (st\<lparr>ts_unixsockpend := x7\<rparr>)" "alive p st0 st \<Longrightarrow> alive p st0 (st\<lparr>ts_acceptpend := x8\<rparr>)"
    "alive p st0 st \<Longrightarrow> alive p st0 (st\<lparr>ts_iopend := x9\<rparr>)" "alive p st0 st \<Longrightarrow> alive p st0 (st\<lparr>ts_mmappend := x10\<rparr>)"
    "alive p st0 st \<Longrightarrow> alive p st0 (st\<lparr>ts_mprotectpend := x11\<rparr>)" "alive p st0 st \<Longrightarrow> alive p st0 (st\<lparr>ts_mremappend := x12\<rparr>)"
    "alive p st0 st \<Longrightarrow> alive p st0 (st\<lparr>ts_mmap := x13\<rparr>)" "alive p st0 st \<Longrightarrow> alive p st0 (st\<lparr>ts_mmap_index := x14\<rparr>)"
    "alive p st0 st \<Longrightarrow> alive p st0 (st\<lparr>ts_duppend := x15\<rparr>)" "alive p st0 st \<Longrightarrow> alive p st0 (st\<lparr>ts_fdcopypend := x16\<rparr>)"
    "alive p st0 st \<Longrightarrow> alive p st0 (st\<lparr>ts_pipepend := x17\<rparr>)" "alive p st0 st \<Longrightarrow> alive p st0 (st\<lparr>ts_socketpairpend := x18\<rparr>)"
  by (erule alive_same [rotated], simp)+

lemma alive_mmap_index [simp]:
  "alive p st0 st \<Longrightarrow> alive p st0 (drop_mmap q s st)"
  "alive p st0 st \<Longrightarrow> alive p st0 (te_mmap_index_forget q s st)"
  "alive p st0 st \<Longrightarrow> alive p st0 (snd (te_mmap_index_remember q s st))"
  by (simp_all add: drop_mmap_def te_mmap_index_forget_def te_mmap_index_remember_def Let_def split: option.split)

lemma alive_mmap_ops [simp]:
  "alive p st0 st \<Longrightarrow> alive p st0 (te_apply_mmap_access q m prot st)"
  "alive p st0 st \<Longrightarrow> alive p st0 (te_store_mmap_ref q s mp fr st)"
  "alive p st0 st \<Longrightarrow> alive p st0 (te_delete_mmap_range q s l st)"
  by (simp_all add: te_apply_mmap_access_def te_store_mmap_ref_def te_delete_mmap_range_def Let_def case_prod_beta
      split: option.split)

lemma alive_mmap_ranges [simp]:
  "alive p st0 st \<Longrightarrow> alive p st0 (te_handle_mprotect_range q s l pr st)"
  "alive p st0 st \<Longrightarrow> alive p st0 (te_handle_mremap_range q s l s' l' st)"
  by (simp_all add: te_handle_mprotect_range_def te_handle_mremap_range_def Let_def case_prod_beta split: option.split)

lemma alive_reports [simp]:
  fixes st :: "'a tables_scheme"
  shows "alive p st0 st \<Longrightarrow> alive p st0 (emit_violation q r tg c k fo d m opc b kl eff st)"
    "alive p st0 st \<Longrightarrow> alive p st0 (bpf_send_signal sg st)"
    "alive p st0 st \<Longrightarrow> alive p st0 (st\<lparr>ts_argslots := slots\<rparr>)" "alive p st0 st \<Longrightarrow> alive p st0 (st\<lparr>ktick := n\<rparr>)"
proof -
  have "reports_only st t \<Longrightarrow> flow_keeps p st t" for t :: "'a tables_scheme"
    unfolding reports_only_def by (auto intro!: flow_keeps_frame)
  then show "alive p st0 st \<Longrightarrow> alive p st0 (emit_violation q r tg c k fo d m opc b kl eff st)"
    by (auto intro!: alive_flow [of p st0 st] emit_reports_only)
  show "alive p st0 st \<Longrightarrow> alive p st0 (bpf_send_signal sg st)" "alive p st0 st \<Longrightarrow> alive p st0 (st\<lparr>ts_argslots := slots\<rparr>)"
    "alive p st0 st \<Longrightarrow> alive p st0 (st\<lparr>ktick := n\<rparr>)"
    by (erule alive_flow; auto intro!: flow_keeps_frame simp: bpf_send_signal_def)+
qed

interpretation life_programs: program_contract "alive p st0" "\<lambda>q. q \<noteq> p" for p and st0 :: "'a tables_scheme"
proof unfold_locales
  fix st :: "'a tables_scheme" and q
  assume a: "alive p st0 st"
  then show "alive p st0 (te_delete_mmaps q st)" by (rule alive_same [OF delete_mmaps_frame(1)])
  from a show "alive p st0 (st\<lparr>te_protected_pids := map_delete q (te_protected_pids st)\<rparr>)"
    by (rule alive_same [rotated]) (simp add: same_engine_more)
  from a show "alive p st0 (st\<lparr>cur_pid_tgid := t, cur_ppid := pp, cur_comm := cm, cur_fdt := ft, kernel_file := kf, user_mem := um\<rparr>)"
    for t pp cm ft kf um
    by (rule alive_same [rotated]) (simp add: same_engine_more)
qed (simp_all add: alive_exec_apply)

lemma reach_life:
  assumes "sensor_reach_in (\<lambda>q. q \<noteq> p) st t" "engine_ok st"
  shows "engine_ok t \<and> life p st t"
  using life_programs.reach_keeps [OF assms(1), of st] assms(2) by (simp add: alive_def life.grows_refl)


section \<open>What the process meets later\<close>

lemma policy_kept_domain:
  assumes "policy_kept p s t"
  shows "te_pid_active t p = te_pid_active s p" "cap_domain_for_pid t p = cap_domain_for_pid s p"
    "cap_domain_matches_pid t p d = cap_domain_matches_pid s p d" "enforce_mode t = enforce_mode s"
proof -
  note g = assms [unfolded policy_kept_def policy_grows_def]
  show "te_pid_active t p = te_pid_active s p" and dom: "cap_domain_for_pid t p = cap_domain_for_pid s p"
    and "enforce_mode t = enforce_mode s"
    using g by (simp_all add: te_pid_active_def cap_task_bound_def cap_domain_for_pid_def)
  have "cap_parent_domain t e = cap_parent_domain s e" for e
  proof -
    have "rel_option cap_state_grows (map_lookup (cap_states s) e) (map_lookup (cap_states t) e)" using g by simp
    then show ?thesis
      unfolding cap_parent_domain_def by (cases rule: option.rel_cases) (auto simp: cap_state_grows_def)
  qed
  then have "cap_chain n t e = cap_chain n s e" for n e
    by (induction n arbitrary: e) simp_all
  then show "cap_domain_matches_pid t p d = cap_domain_matches_pid s p d"
    by (simp add: cap_domain_matches_pid_chain dom)
qed

lemma policy_kept_rule:
  assumes "policy_kept p s t" "i < n_rules s"
  shows "i < n_rules t" "rule_at t i = rule_at s i" "cap_policy_rule_bound s d i \<Longrightarrow> cap_policy_rule_bound t d i"
proof -
  note g = assms(1) [unfolded policy_kept_def policy_grows_def]
  from g assms(2) show "i < n_rules t" "rule_at t i = rule_at s i"
    by (auto simp: n_rules_def)
  from g show "cap_policy_rule_bound s d i \<Longrightarrow> cap_policy_rule_bound t d i"
    by (auto simp: cap_policy_rule_bound_def)
qed

lemma labels_for_domain_bits:
  "te_pid_active st p \<Longrightarrow> cap_domain_matches_pid st p d \<Longrightarrow> proc_labels st p d \<subseteq> bits_of (te_labels_for_domain st p d)"
  by (auto simp: te_labels_for_domain_def proc_labels_def split: option.splits)

text \<open>A rule that blocks connections of a label: no condition, no exempting label.\<close>

definition blocks_connect :: "taint_rule \<Rightarrow> bool" where
  "blocks_connect r \<longleftrightarrow>
     ru_op r = TOP_CONNECT \<and> ru_effect r = TEFFECT_BLOCK \<and> ru_cond_kind r = TCOND_NONE \<and> ru_forbid r = 0"

lemma blocks_connect_hit:
  assumes "te_pid_active st p" "cap_domain_matches_pid st p (ru_domain_id (rule_at st i))"
    and "i < n_rules st" "cap_policy_rule_bound st (ru_domain_id (rule_at st i)) i" "blocks_connect (rule_at st i)"
    and "bits_of (ru_req (rule_at st i)) \<subseteq> proc_labels st p (ru_domain_id (rule_at st i))"
    and "ip AND ru_ipv4_mask (rule_at st i) = ru_ipv4 (rule_at st i)"
  shows "i \<in> endp_hits st p TE_ACCESS_CONNECT TE_MODE_BLOCK ip"
proof -
  let ?r = "rule_at st i" and ?e = "(endp_eval st p TE_ACCESS_CONNECT TE_MODE_BLOCK ip)\<lparr>ev_op := TOP_CONNECT\<rparr>"
  have e: "ev_pid ?e = p" "ev_effect_mask ?e = te_supported_effects TE_MODE_BLOCK" "ev_ip ?e = ip"
    "ev_global_labels ?e = endp_seen st p TE_ACCESS_CONNECT ip 0" "ev_current_domain_id ?e = cap_domain_for_pid st p"
    "ev_current_labels ?e = endp_seen st p TE_ACCESS_CONNECT ip (cap_domain_for_pid st p)"
    by (simp_all add: endp_eval_def event_eval_def endp_event_def)
  have "bits_of (ru_req ?r) \<subseteq> bits_of (te_labels_for_domain st p (ru_domain_id ?r))"
    using assms(6) labels_for_domain_bits [OF assms(1,2)] by blast
  then have "bits_of (ru_req ?r) \<subseteq> bits_of (seen_labels st ?e ?r)"
    unfolding seen_labels_def rule_labels_def e by (auto simp: endp_seen_def)
  then have "taint_mask_ok (seen_labels st ?e ?r) (ru_req ?r) (ru_forbid ?r)"
    using assms(5) by (simp add: taint_mask_ok_def and_eq_self_iff blocks_connect_def)
  moreover have "effect_wanted ?e ?r" using assms(5) by (simp add: wanted_block [OF e(2)] blocks_connect_def)
  ultimately show ?thesis
    using assms by (simp add: endp_hits_def endp_op_def op_hit_def rule_hit_def rule_in_domain_def target_matches_def e(1,3)
        te_cond_satisfied_def blocks_connect_def)
qed

lemma connect_denied:
  assumes "wf_tables st" "rules_ok st" "enforce_mode st \<noteq> 0" "te_pid_active st (cur_pid st)"
    and "te_resolve_sockaddr (user_mem st) (TE_REF_SOCKADDR_KERN addr) = Some ip"
    and "i \<in> endp_hits st (cur_pid st) TE_ACCESS_CONNECT TE_MODE_BLOCK ip"
  shows "fst (enforce_socket_connect addr st) = - EPERM"
proof -
  let ?e = "endp_eval st (cur_pid st) TE_ACCESS_CONNECT TE_MODE_BLOCK ip"
  have m: "ev_effect_mask ?e = te_supported_effects TE_MODE_BLOCK"
    by (simp add: endp_eval_def event_eval_def endp_event_def)
  have "enforce_socket_connect addr st =
      te_handle_event (endp_event (cur_pid st) TE_ACCESS_CONNECT TE_MODE_BLOCK ip) None st"
    using assms(3-5) by (simp add: enforce_socket_connect_def te_handle_net_def net_event_def endp_event_def)
  moreover from endp_handler [OF assms(4,1,2), of TE_ACCESS_CONNECT TE_MODE_BLOCK ip]
  have "fst (te_handle_event (endp_event (cur_pid st) TE_ACCESS_CONNECT TE_MODE_BLOCK ip) None st) = - EPERM"
  proof (elim disjE bexE conjE)
    fix k
    assume k: "k \<in> endp_hits st (cur_pid st) TE_ACCESS_CONNECT TE_MODE_BLOCK ip"
      and step: "te_handle_event (endp_event (cur_pid st) TE_ACCESS_CONNECT TE_MODE_BLOCK ip) None st =
        (case act_on TE_MODE_BLOCK (ucast (ru_effect (rule_at st k))) (endp_report (cur_pid st) TE_ACCESS_CONNECT ip ?e k) st of
           (Some r, s) \<Rightarrow> (r, s) | (None, s) \<Rightarrow> (0, endp_flow (cur_pid st) TE_ACCESS_CONNECT ip s))"
    have eff: "ru_effect (rule_at st k) = TEFFECT_BLOCK"
      using k by (auto simp: endp_hits_def intro: hit_block [OF m])
    show ?thesis unfolding step eff act_on_block by simp
  qed (use assms(6) in blast)
  ultimately show ?thesis by simp
qed


section \<open>Properties\<close>

text \<open>C3: labels stay with a process. Whatever programs run in whatever tasks while a process neither exits nor is
  created anew, it stays bound to its domain, every rule that was active stays active, bound and unchanged, and in every
  domain the process keeps all its labels but those that some exec update of that domain removes. No read, write,
  connection, rename, mapping, fork, exit of another process or admitted delta takes a label away.\<close>

theorem process_keeps_labels:
  assumes "sensor_reach_in (\<lambda>q. q \<noteq> p) st t" "engine_ok st"
  shows "map_lookup (cap_task t) p = map_lookup (cap_task st) p \<and>
    (\<forall>d. proc_labels st p d - exec_removes t d \<subseteq> proc_labels t p d) \<and>
    (\<forall>i < n_rules st. i < n_rules t \<and> rule_at t i = rule_at st i \<and>
       (\<forall>d. cap_policy_rule_bound st d i \<longrightarrow> cap_policy_rule_bound t d i))"
proof -
  have l: "life p st t" using reach_life [OF assms] by blast
  then have k: "policy_kept p st t" by (simp add: life_def)
  from k have "map_lookup (cap_task t) p = map_lookup (cap_task st) p" by (simp add: policy_kept_def)
  with l policy_kept_rule [OF k] show ?thesis by (simp add: life_def)
qed

text \<open>C1: no exfiltration. A process under enforcement opens a file for reading and is let through; the file carries,
  by its own labels or by the sources that match its path, the labels a block rule of one of the process's
  domains forbids to connect with. Then, in every state the sensor can reach while the process lives, a connection of that
  process to an address the rule covers is denied, unless the policy has an exec update of that domain that removes one of
  those labels.\<close>

theorem read_then_connect_denied:
  fixes st t :: "'a tables_scheme"
  assumes "engine_ok st" "rules_ok st" "distinct (te_domains st (cur_pid st))" "label_room (2 * CAP_DOMAIN_DEPTH) st"
    and "lsm_object st (TE_REF_FILE f) = Some (path, fid)" "fst (enforce_file_open f st) = 0"
    and "te_access_from_open_flags (ff_flags f) AND TE_ACCESS_READ \<noteq> 0" "policy_features st AND TE_POLICY_FILE_FLOW \<noteq> 0"
    and "i < n_rules st" "blocks_connect (rule_at st i)" "ru_domain_id (rule_at st i) \<in> set (te_domains st (cur_pid st))"
    and "cap_policy_rule_bound st (ru_domain_id (rule_at st i)) i"
    and "bits_of (ru_req (rule_at st i)) \<subseteq>
      file_labels st fid (ru_domain_id (rule_at st i)) \<union> file_sources st TOP_OPEN path (ru_domain_id (rule_at st i))"
    and "sensor_reach_in (\<lambda>q. q \<noteq> cur_pid st) (snd (enforce_file_open f st)) t" "cur_pid t = cur_pid st" "rules_ok t"
    and "bits_of (ru_req (rule_at st i)) \<inter> exec_removes t (ru_domain_id (rule_at st i)) = {}"
    and "te_resolve_sockaddr (user_mem t) (TE_REF_SOCKADDR_KERN addr) = Some ip"
    and "ip AND ru_ipv4_mask (rule_at st i) = ru_ipv4 (rule_at st i)"
  shows "fst (enforce_socket_connect addr t) = - EPERM"
proof -
  let ?p = "cur_pid st" and ?r = "rule_at st i" and ?acc = "te_access_from_open_flags (ff_flags f)"
  define u where "u = snd (enforce_file_open f st)"
  have wf: "wf_tables st" using assms(1) by (simp add: engine_ok_def)
  have on: "te_pid_active st ?p" "enforce_mode st \<noteq> 0"
    using assms(5) by (simp_all add: lsm_object_def split: if_splits)
  have "enforce_file_open f st = (0, file_flow ?p fid path ?acc st)"
    using handle_file_lsm [OF wf assms(2) open_access_nonzero assms(5), of "ff_flags f"] assms(6)
    by (auto simp: enforce_file_open_def split: if_splits)
  then have u: "u = file_flow ?p fid path ?acc st" by (simp add: u_def)
  have trunc: "cap_maps.truncate u = cap_maps.truncate st"
    unfolding u file_flow_def Let_def te_read_def te_write_flow_def by (simp add: read_flow.policy write_flow.policy)
  have got: "bits_of (ru_req ?r) \<subseteq> proc_labels u ?p (ru_domain_id ?r)"
    unfolding ifc_of_sel(1) [symmetric] u file_flow_refines [OF on(1) wf assms(3,4)]
    using assms(7,8,11,13) by (auto simp: ifc_file_event_def ifc_read_def ifc_proc_join_def ifc_write_def Let_def)
  have ok: "engine_ok u"
    using engine_programs.hook_keeps [OF lsm_hook.intros(2) assms(1), of f] by (simp add: u_def)
  have t: "engine_ok t" "life ?p u t" using reach_life [OF assms(14) [folded u_def] ok] by simp_all
  then have k: "policy_kept ?p st t"
    using policy_kept_trans [OF policy_kept_cong [OF trunc]] by (simp add: life_def)
  note rule = policy_kept_rule [OF k assms(9)] and dom = policy_kept_domain [OF k]
  have "bits_of (ru_req ?r) \<subseteq> proc_labels t ?p (ru_domain_id ?r)"
    using got t(2) assms(17) by (fastforce simp: life_def)
  then have hit: "i \<in> endp_hits t ?p TE_ACCESS_CONNECT TE_MODE_BLOCK ip"
    using on(1) assms(10-12,19) te_domains_match rule by (intro blocks_connect_hit) (simp_all add: dom)
  show ?thesis
    using connect_denied [OF _ assms(16) _ _ assms(18)] t(1) on hit dom assms(15) by (simp add: engine_ok_def)
qed


text \<open>One rule: in domain 1, label 0 must not reach the network. The file \<^verbatim>\<open>/etc/shadow\<close> carries that label.\<close>

definition leak_tables :: tables where
  "leak_tables = guard_tables\<lparr>
     ts_rules := \<lparr>a_max = MAX_TAINT_RULES, a_cell = (\<lambda>_. no_rule\<lparr>ru_op := TOP_CONNECT, ru_effect := TEFFECT_BLOCK,
        ru_domain_id := 1, ru_req := 1, ru_rule_id := 7\<rparr>)\<rparr>,
     ts_counts := \<lparr>a_max = 6, a_cell = (\<lambda>i. if i = 5 then 4 else if i = 0 then 1 else 0)\<rparr>,
     cap_policy := map_put 1 \<lparr>pm_lo = 1, pm_hi = 0\<rparr> (hash_new 4096),
     ts_file := map_put (te_file_domain_key_for 1 (fr_fid shadow_ref)) \<lparr>fs_labels = 1, fs_last_write_epoch = 0\<rparr> (hash_new 16384)\<rparr>"

text \<open>The kernel switches to another task and back.\<close>

definition switch_to :: "u64 \<Rightarrow> 'a tables_scheme \<Rightarrow> 'a tables_scheme" where
  "switch_to tgid st = st\<lparr>cur_pid_tgid := tgid, cur_ppid := 1, cur_comm := [], cur_fdt := None,
     kernel_file := kernel_file st, user_mem := Map.empty\<rparr>"

lemma switch_step: "sensor_step_in m st (switch_to tgid st)"
  unfolding switch_to_def by (rule on_switch)

lemma switch_facts:
  "cap_maps.truncate (switch_to tgid st) = cap_maps.truncate st" "cur_pid_tgid (switch_to tgid st) = tgid"
  "user_mem (switch_to tgid st) = Map.empty"
  by (simp_all add: switch_to_def cap_maps.truncate_def)

lemma leak_facts:
  "cur_pid leak_tables = 100" "enforce_mode leak_tables = 1" "n_rules leak_tables = 1" "rules_ok leak_tables"
  "cap_policy_rule_bound leak_tables 1 0" "policy_features leak_tables = 0xFFFFFFFF" "te_count leak_tables 1 = 0"
  "file_labels leak_tables (fr_fid shadow_ref) 1 = {0}"
  by (simp_all add: leak_tables_def guard_tables_engine guard_tables_defs guard_defs example_maps_def n_rules_def rules_ok_def
      active_rules_def no_rule_def cap_policy_rule_bound_def cap_policy_mask_has_def lookup_put room_def hash_new_def bit64_def
      cur_pid_def te_count_def arr_lookup_def file_labels_def)


lemma leak_rule:
  "rule_at leak_tables i = no_rule\<lparr>ru_op := TOP_CONNECT, ru_effect := TEFFECT_BLOCK, ru_domain_id := 1, ru_req := 1, ru_rule_id := 7\<rparr>"
  "blocks_connect (rule_at leak_tables i)"
  by (simp_all add: leak_tables_def blocks_connect_def no_rule_def)

lemma leak_domains: "te_domains leak_tables 100 = [0, 1]" "te_pid_active leak_tables 100"
proof -
  have "map_lookup (cap_task leak_tables) 100 = Some 1" "cap_parent_domain leak_tables 1 = 0"
    by (simp_all add: leak_tables_def guard_tables_defs guard_defs example_simps cap_parent_domain_def)
  then show "te_domains leak_tables 100 = [0, 1]" "te_pid_active leak_tables 100"
    by (simp_all add: te_domains_def cap_domain_for_pid_def te_pid_active_def cap_task_bound_def numeral_eq_Suc)
qed

lemma leak_ok: "engine_ok leak_tables" "label_room (2 * CAP_DOMAIN_DEPTH) leak_tables"
  using guard_tables_ok
  by (simp_all add: engine_ok_def wf_tables_def prov_ok_def leak_tables_def label_room_def has_slots_def hash_new_def map_put_def2
      room_def guard_tables_defs guard_defs)

lemma leak_object: "lsm_object leak_tables (TE_REF_FILE shadow_file) = Some (fr_path shadow_ref, fr_fid shadow_ref)"
  using shadow_object leak_domains(2) leak_facts(1,2) guard_tables_active(1) guard_tables_engine(2)
  by (simp add: lsm_object_def leak_tables_def split: if_splits)

lemma leak_access: "te_access_from_open_flags (ff_flags shadow_file) = TE_ACCESS_READ"
  by (simp add: shadow_file_def te_access_from_open_flags_def)

lemma leak_open:
  "enforce_file_open shadow_file leak_tables = (0, file_flow 100 (fr_fid shadow_ref) (fr_path shadow_ref) TE_ACCESS_READ leak_tables)"
proof -
  have none: "file_hits leak_tables 100 (fr_path shadow_ref) (fr_fid shadow_ref) TE_ACCESS_READ TE_MODE_BLOCK = {}"
    by (auto simp: file_hits_def file_ops_def op_hit_def rule_hit_def leak_rule no_rule_def)
  show ?thesis
    using handle_file_lsm [OF _ leak_facts(4) _ leak_object, of TE_ACCESS_READ] leak_ok(1) none
    by (simp add: enforce_file_open_def leak_access leak_facts(1) engine_ok_def)
qed

theorem read_then_connect_denied_witness:
  "fst (enforce_socket_connect (Some [2, 0, 0, 80, 1, 2, 3, 4])
     (switch_to 0x6400000064 (switch_to 0xC8000000C8 (snd (enforce_file_open shadow_file leak_tables))))) = - EPERM"
proof -
  let ?u = "snd (enforce_file_open shadow_file leak_tables)"
  let ?t = "switch_to 0x6400000064 (switch_to 0xC8000000C8 ?u)"
  have "cap_maps.truncate ?u = cap_maps.truncate leak_tables"
    unfolding leak_open file_flow_def Let_def te_read_def te_write_flow_def by (simp add: read_flow.policy write_flow.policy)
  then have same: "cap_maps.truncate ?t = cap_maps.truncate leak_tables" by (simp add: switch_facts(1))
  have reach: "sensor_reach_in (\<lambda>q. q \<noteq> cur_pid leak_tables) ?u ?t"
    by (intro sensor_reach_in.step [OF _ switch_step] sensor_reach_in.start)
  have clean: "exec_removes ?t d = {}" for d
    unfolding exec_removes_truncate [OF same] by (simp add: exec_removes_def leak_facts(7) [simplified])
  have req: "bits_of (ru_req (rule_at leak_tables 0)) = {0}" "ru_domain_id (rule_at leak_tables 0) = 1"
    by (simp_all add: leak_rule)
  show ?thesis
  proof (rule read_then_connect_denied [OF leak_ok(1) leak_facts(4) _ leak_ok(2) leak_object _ _ _ _ leak_rule(2) _ _ _ reach])
    show "rules_ok ?t" using leak_facts(4) by (simp only: rules_ok_cong(1) [OF same])
    show "cur_pid ?t = cur_pid leak_tables" by (simp add: cur_pid_def switch_facts leak_facts(1) [unfolded cur_pid_def])
    show "te_resolve_sockaddr (user_mem ?t) (TE_REF_SOCKADDR_KERN (Some [2, 0, 0, 80, 1, 2, 3, 4])) = Some 0x04030201"
      by (simp add: te_resolve_sockaddr_def le_def)
  qed (use leak_facts leak_domains req clean in \<open>simp_all add: leak_open leak_rule(1) no_rule_def leak_access\<close>)
qed

theorem process_keeps_labels_witness:
  "proc_labels (file_flow 100 (fr_fid shadow_ref) (fr_path shadow_ref) TE_ACCESS_READ leak_tables) 100 1 -
     exec_removes (switch_to 0xC8000000C8 (file_flow 100 (fr_fid shadow_ref) (fr_path shadow_ref) TE_ACCESS_READ leak_tables)) 1
   \<subseteq> proc_labels (switch_to 0xC8000000C8 (file_flow 100 (fr_fid shadow_ref) (fr_path shadow_ref) TE_ACCESS_READ leak_tables)) 100 1"
proof -
  let ?u = "file_flow 100 (fr_fid shadow_ref) (fr_path shadow_ref) TE_ACCESS_READ leak_tables"
  have "engine_ok ?u"
    using engine_programs.hook_keeps [OF lsm_hook.intros(2) leak_ok(1), of shadow_file] by (simp add: leak_open)
  moreover have "sensor_reach_in (\<lambda>q. q \<noteq> 100) ?u (switch_to 0xC8000000C8 ?u)"
    by (rule sensor_reach_in.step [OF sensor_reach_in.start switch_step])
  ultimately show ?thesis using process_keeps_labels by blast
qed

end
