(* ===== verification/Deployment.thy ===== *)
theory Deployment
  imports Loader_Main Label_Life
begin

text \<open>
  The loader and the sensor together: what of a loaded policy stays in the maps while the programs run. A step of
  the sensor, the seeding of a process and the draining of deltas may add to the tables of updates and rules
  and bind more rules, but they never take away, change or unbind an entry.
\<close>

definition policy_stands :: "'a cap_maps_scheme \<Rightarrow> 'b cap_maps_scheme \<Rightarrow> bool" where
  "policy_stands s t \<longleftrightarrow>
     enforce_mode t = enforce_mode s \<and> policy_features t = policy_features s \<and>
     prefix (active_rules s) (active_rules t) \<and> prefix (active_updates s) (active_updates t) \<and>
     (\<forall>d i. cap_policy_rule_bound s d i \<longrightarrow> cap_policy_rule_bound t d i)"

lemma policy_stands_refl: "policy_stands s s"
  by (simp add: policy_stands_def)

lemma policy_stands_trans: "policy_stands s t \<Longrightarrow> policy_stands t u \<Longrightarrow> policy_stands s u"
  unfolding policy_stands_def by (metis prefix_order.trans)

lemma cells_prefix:
  assumes "m \<le> n" "\<And>i. i < m \<Longrightarrow> g i = f i"
  shows "prefix (map f [0..<m]) (map g [0..<n])"
proof -
  obtain k where "n = m + k" using assms(1) by (metis le_iff_add)
  then have "map g [0..<n] = map f [0..<m] @ map g [m..<n]"
    using assms(2) by (auto simp: upt_add_eq_append [of 0 m k])
  then show ?thesis by simp
qed

lemma policy_kept_stands: "policy_kept p s t \<Longrightarrow> policy_stands s t"
  unfolding policy_kept_def policy_grows_def policy_stands_def active_rules_def active_updates_def
  by (auto intro!: cells_prefix simp: n_rules_def n_updates_def cap_policy_rule_bound_def)

text \<open>A single step creates or ends at most one process, so it is a step in the life of some other.\<close>

lemma step_in_some_life:
  assumes "sensor_step s t"
  shows "\<exists>p. sensor_step_in (\<lambda>q. q \<noteq> p) s t"
proof -
  have other: "\<exists>p. q \<noteq> p" for q :: pid_t
    using exI [of "\<lambda>p. q \<noteq> p" "q + 1"] by simp
  from assms show ?thesis
  proof cases
    case (on_fork child)
    with other [of child] show ?thesis by (blast intro: sensor_step_in.on_fork)
  next
    case (on_process_exit code)
    with other [of "cur_pid s"] show ?thesis by (blast intro: sensor_step_in.on_process_exit)
  qed (blast intro: sensor_step_in.intros)+
qed

text \<open>What every process's life shows of a step is true of a whole run.\<close>

lemma reach_lives:
  fixes R :: "'a tables_scheme \<Rightarrow> 'a tables_scheme \<Rightarrow> bool"
  assumes "sensor_reach s t" "engine_ok s"
    and "\<And>s. R s s" "\<And>s t u. R s t \<Longrightarrow> R t u \<Longrightarrow> R s u" "\<And>p s t. life p s t \<Longrightarrow> R s t"
  shows "engine_ok t \<and> R s t"
  using assms(1)
proof induction
  case start
  then show ?case using assms(2,3) by simp
next
  case (step t u)
  then obtain p where "sensor_step_in (\<lambda>q. q \<noteq> p) t u" using step_in_some_life by blast
  then have "engine_ok u \<and> life p t u"
    using step.IH reach_life [OF sensor_reach_in.step [OF sensor_reach_in.start]] by blast
  then have "engine_ok u" "R t u" using assms(5) by auto
  with step.IH assms(4) show ?case by blast
qed

lemma reach_stands: "sensor_reach s t \<Longrightarrow> engine_ok s \<Longrightarrow> engine_ok t \<and> policy_stands s t"
  by (rule reach_lives; (assumption | rule policy_stands_refl)?)
     (auto simp: life_def intro: policy_kept_stands policy_stands_trans)

text \<open>No domain appears or disappears, and none gains authority.\<close>

definition authority :: "'a cap_maps_scheme \<Rightarrow> u32 \<Rightarrow> u64 option" where
  "authority st d = map_option cs_authority_mask (map_lookup (cap_states st) d)"

lemma policy_kept_authority: "policy_kept p s t \<Longrightarrow> authority t = authority s"
proof
  fix d
  assume "policy_kept p s t"
  then have "rel_option cap_state_grows (map_lookup (cap_states s) d) (map_lookup (cap_states t) d)"
    by (simp add: policy_kept_def policy_grows_def)
  then show "authority t d = authority s d"
    by (cases rule: option.rel_cases) (simp_all add: authority_def cap_state_grows_def)
qed

lemma reach_authority:
  assumes "sensor_reach s t" "engine_ok s"
  shows "authority t = authority s"
proof -
  have "engine_ok t \<and> authority t = authority s"
    by (rule reach_lives [OF assms]) (auto simp: life_def dest: policy_kept_authority)
  then show ?thesis ..
qed

lemma reach_in_reach: "sensor_reach_in m s t \<Longrightarrow> sensor_reach s t"
proof (induction rule: sensor_reach_in.induct)
  case (step t u)
  from step(2) have "sensor_step t u" by cases (auto intro: sensor_step_in.intros)
  with step show ?case by (blast intro: sensor_reach_in.step)
qed (rule sensor_reach_in.start)

lemma run_steps_keeps:
  "(\<And>f x. f \<in> set fs \<Longrightarrow> Q x \<Longrightarrow> Q (snd (f x))) \<Longrightarrow> Q st \<Longrightarrow> Q (snd (run_steps fs st))"
  by (induction fs arbitrary: st) (auto simp: case_prod_beta)

lemma seed_stands:
  assumes "engine_ok s"
  shows "engine_ok (snd (seed_initial_label pid label s)) \<and> policy_stands s (snd (seed_initial_label pid label s))"
proof -
  have keeps: "engine_ok (x\<lparr>ts_proc := a\<rparr>) \<and> policy_stands s (x\<lparr>ts_proc := a\<rparr>)"
    "engine_ok (x\<lparr>ts_root := b\<rparr>) \<and> policy_stands s (x\<lparr>ts_root := b\<rparr>)"
    "engine_ok (x\<lparr>cap_task := c\<rparr>) \<and> policy_stands s (x\<lparr>cap_task := c\<rparr>)"
    "engine_ok (x\<lparr>cap_states := d\<rparr>) \<and> policy_stands s (x\<lparr>cap_states := d\<rparr>)"
    if "engine_ok x \<and> policy_stands s x" for x :: "'a sensor_scheme" and a b c d
    using that by (simp_all add: engine_ok_def prov_ok_def wf_tables_def policy_stands_def active_rules_def active_updates_def
        n_rules_def n_updates_def cap_policy_rule_bound_def)
  show ?thesis
    unfolding seed_initial_label_def using assms policy_stands_refl [of s]
    by (auto simp: Let_def case_prod_beta keeps simp del: run_steps.simps
        intro!: run_steps_keeps [where Q = "\<lambda>x. engine_ok x \<and> policy_stands s x"])
qed

text \<open>What the loader has put in place when it attaches the programs.\<close>

lemma bring_up_policy:
  assumes "fresh_maps st" "prov_ok st" "prepare w = Inr p" "bring_up w p st = (0, t)"
  obtains s where "engine_ok s" "policy_installed (pl_cfg p) (w_getpid w) s"
    "enforce_mode s = (if pl_enforce p then 1 else 0)" "policy_features s = loader_features (pl_cfg p) (pl_full p) (pl_reserve p)"
    "te_protected_pids s = map_put (w_getpid w) 1 (hash_new 64)" "cap_states s = cap_states st"
    "seed_initial_label (en_seed_pid (pl_env p)) (en_seed_label (pl_env p)) (w_window w s) = (0, t)"
proof -
  let ?l = "load_policy (pl_cfg p) (w_getpid w) (set_rodata p st)"
  note up = bring_up_stages [OF assms(4)] and wf = prepare_wf [OF assms(3)]
  have fresh: "fresh_maps (set_rodata p st)" using assms(1) by (simp add: fresh_maps_def set_rodata_def)
  note maps = load_policy_maps [OF fresh, of "pl_cfg p" "w_getpid w"]
  have fits: "unat (cf_n_updates (pl_cfg p)) \<le> MAX_TAINT_UPDATES" "unat (cf_n_rules (pl_cfg p)) \<le> MAX_TAINT_RULES"
    using maps wf up(3) by (auto split: if_splits)
  then have installed: "policy_installed (pl_cfg p) (w_getpid w) (snd ?l)" using maps wf by simp
  obtain u r m c where l: "snd ?l = (set_rodata p st)\<lparr>ts_updates := u, ts_rules := r, cap_policy := m, ts_counts := c,
      te_protected_pids := map_put (w_getpid w) 1 (hash_new 64)\<rparr>"
    using load_policy_ok [OF fresh fits, of "w_getpid w"] by (metis snd_conv)
  show thesis
  proof (rule that [OF _ installed])
    have "prov_ok (snd ?l)" unfolding l using assms(2) by (simp add: set_rodata_def prov_ok_def)
    then show "engine_ok (snd ?l)" using installed by (simp add: engine_ok_def policy_installed_def)
    show "enforce_mode (snd ?l) = (if pl_enforce p then 1 else 0)"
      "policy_features (snd ?l) = loader_features (pl_cfg p) (pl_full p) (pl_reserve p)"
      "te_protected_pids (snd ?l) = map_put (w_getpid w) 1 (hash_new 64)" "cap_states (snd ?l) = cap_states st"
      unfolding l by (simp_all add: set_rodata_def)
    show "seed_initial_label (en_seed_pid (pl_env p)) (en_seed_label (pl_env p)) (w_window w (snd ?l)) = (0, t)"
      by (rule up(6))
  qed
qed

lemma bring_up_reach:
  fixes st t u :: "'a tables_scheme"
  assumes "fresh_maps st" "prov_ok st" "prepare w = Inr p" "bring_up w p st = (0, t)"
    and "\<And>s. sensor_reach s (w_window w s)" "sensor_reach t u"
  obtains s :: "'a tables_scheme" where "policy_installed (pl_cfg p) (w_getpid w) s"
    "enforce_mode s = (if pl_enforce p then 1 else 0)" "policy_features s = loader_features (pl_cfg p) (pl_full p) (pl_reserve p)"
    "engine_ok u" "policy_stands s u"
proof -
  obtain s :: "'a tables_scheme" where s: "engine_ok s" "policy_installed (pl_cfg p) (w_getpid w) s"
    "enforce_mode s = (if pl_enforce p then 1 else 0)" "policy_features s = loader_features (pl_cfg p) (pl_full p) (pl_reserve p)"
    "seed_initial_label (en_seed_pid (pl_env p)) (en_seed_label (pl_env p)) (w_window w s) = (0, t)"
    by (rule bring_up_policy [OF assms(1-4)])
  note r = reach_stands [OF assms(5) [of s] s(1)]
  have seeded: "engine_ok t \<and> policy_stands (w_window w s) t"
    using seed_stands [of "w_window w s" "en_seed_pid (pl_env p)" "en_seed_label (pl_env p)"] r by (simp add: s(5))
  note v = reach_stands [OF assms(6)]
  have "policy_stands s u" using r seeded v policy_stands_trans by blast
  with s(2-4) seeded v show thesis by (intro that [of s]) auto
qed

text \<open>Fresh maps to load a policy into.\<close>

definition fresh_tables :: tables where
  "fresh_tables = guard_tables\<lparr>cap_policy := hash_new 4096, te_protected_pids := hash_new 64\<rparr>"

lemma fresh_tables_fresh: "fresh_maps fresh_tables" "prov_ok fresh_tables"
  using guard_tables_ok by (simp_all add: fresh_tables_def fresh_maps_def engine_ok_def prov_ok_def wf_tables_def)

end
