(* ===== verification/Control_Plane.thy ===== *)
theory Control_Plane
  imports Deployment
begin

text \<open>
  The protection of the sensor's own control plane, over whole runs. A fourth interpretation of
  \<open>program_contract\<close> shows that no program adds a protected process, and that none removes the
  protection of a process that does not exit. With the policy lemmas of a run (no domain appears, and no
  authority changes) this says for every state reached after a start what the three hooks of the control plane
  answer a process of the sensor: the loader alone is shielded from signals and ptrace, and only the seeded
  domain may write maps.
\<close>

section \<open>Who is protected\<close>

definition guards_only :: "pid_t \<Rightarrow> 'a sensor_scheme \<Rightarrow> bool" where
  "guards_only l st \<longleftrightarrow> (\<forall>q. te_pid_protected st q \<longleftrightarrow> q = l)"

lemma guards_only_cong: "te_protected_pids s = te_protected_pids t \<Longrightarrow> guards_only l s = guards_only l t"
  by (simp add: guards_only_def te_pid_protected_def)

lemma guards_only_more:
  fixes s t :: "'a tables_scheme"
  shows "engine.more s = engine.more t \<Longrightarrow> guards_only l s = guards_only l t"
  by (rule guards_only_cong) (cases s; cases t; simp)

lemma guards_mmap_index:
  fixes st :: "'a tables_scheme"
  shows "te_protected_pids (drop_mmap p s st) = te_protected_pids st"
    "te_protected_pids (te_mmap_index_forget p s st) = te_protected_pids st"
    "te_protected_pids (snd (te_mmap_index_remember p s st)) = te_protected_pids st"
  by (simp_all add: drop_mmap_def te_mmap_index_forget_def te_mmap_index_remember_def Let_def split: option.split)

lemma guards_keys [simp]:
  fixes st :: "'a tables_scheme"
  shows "guards_only l (st\<lparr>ts_mmap := x1\<rparr>) = guards_only l st" "guards_only l (st\<lparr>ts_mmap_index := x2\<rparr>) = guards_only l st"
    "guards_only l (drop_mmap p s st) = guards_only l st" "guards_only l (te_mmap_index_forget p s st) = guards_only l st"
    "guards_only l (snd (te_mmap_index_remember p s st)) = guards_only l st"
    "guards_only l (te_read q f path st) = guards_only l st" "guards_only l (te_write_flow q f path st) = guards_only l st"
  by (rule guards_only_cong; simp add: guards_mmap_index; fail)+
     (simp_all add: guards_only_more [OF more_flows(1)] guards_only_more [OF more_flows(2)])

lemma guards_mmap_ops [simp]:
  fixes st :: "'a tables_scheme"
  shows "guards_only l st \<Longrightarrow> guards_only l (te_apply_mmap_access p m prot st)"
    "guards_only l st \<Longrightarrow> guards_only l (te_store_mmap_ref p s mp fr st)"
    "guards_only l st \<Longrightarrow> guards_only l (te_delete_mmap_range p s l' st)"
  by (simp_all add: te_apply_mmap_access_def te_store_mmap_ref_def te_delete_mmap_range_def Let_def case_prod_beta
      split: option.split)

lemma guards_mmap_ranges [simp]:
  fixes st :: "'a tables_scheme"
  shows "guards_only l st \<Longrightarrow> guards_only l (te_handle_mprotect_range p s n pr st)"
    "guards_only l st \<Longrightarrow> guards_only l (te_handle_mremap_range p s n s' n' st)"
  by (simp_all add: te_handle_mprotect_range_def te_handle_mremap_range_def Let_def case_prod_beta split: option.split)

lemma guards_reports:
  fixes st :: "'a tables_scheme"
  shows "guards_only l (emit_violation q r tg c k fo d m opc b kl eff st) = guards_only l st"
    "guards_only l (bpf_send_signal sg st) = guards_only l st"
proof -
  show "guards_only l (emit_violation q r tg c k fo d m opc b kl eff st) = guards_only l st"
    using emit_reports_only [of st q r tg c k fo d m opc b kl eff] unfolding reports_only_def
    by (auto intro!: guards_only_cong)
  show "guards_only l (bpf_send_signal sg st) = guards_only l st"
    by (rule guards_only_cong) (simp add: bpf_send_signal_def)
qed

interpretation guard_programs: program_contract "guards_only l" "\<lambda>q. q \<noteq> l" for l
proof unfold_locales
  fix st :: "'a tables_scheme" and q
  assume g: "guards_only l st"
  then show "guards_only l (te_delete_mmaps q st)"
    using guards_only_cong [OF delete_mmaps_frame(2)] by blast
  show "q \<noteq> l \<Longrightarrow> guards_only l (st\<lparr>te_protected_pids := map_delete q (te_protected_pids st)\<rparr>)"
    using g by (auto simp: guards_only_def te_pid_protected_def lookup_delete)
qed (simp_all add: guards_reports guards_only_more [OF more_flows(3)] guards_only_more [OF more_flows(4)]
    guards_only_more [OF more_engine_flows(1)] guards_only_more [OF more_engine_flows(2)]
    guards_only_more [OF more_engine_flows(3)] guards_only_more [OF more_engine_flows(4)]
    guards_only_more [OF more_engine_flows(5)] guards_only_more [OF more_engine_flows(6)]
    guards_only_more [OF engine_more_cap_ops(3)] guards_only_more [OF more_engine_ops(2)],
    simp_all add: guards_only_def te_pid_protected_def)

section \<open>After a start\<close>

lemma seed_control:
  fixes s :: "'a sensor_scheme"
  assumes "seed_initial_label pid label s = (0, t)"
  shows "te_protected_pids t = te_protected_pids s"
    and "authority t = (if pid = 0 then authority s else (authority s)(pid := Some (AUTH_BIND_RULE OR AUTH_NARROW_SCOPE)))"
proof -
  have ok: "fst (seed_initial_label pid label s) = 0" using assms by simp
  have "te_protected_pids t = te_protected_pids s \<and>
    authority t = (if pid = 0 then authority s else (authority s)(pid := Some (AUTH_BIND_RULE OR AUTH_NARROW_SCOPE)))"
  proof (cases "pid = 0")
    case True
    then show ?thesis using assms by (auto simp: seed_initial_label_def split: if_splits)
  next
    case False
    note rooms = seed_ok_rooms [OF ok False]
    from assms rooms False have "t = s\<lparr>ts_proc := map_put pid \<lparr>ps_labels = label, ps_lin_gates = 0\<rparr> (ts_proc s),
        ts_root := map_put pid pid (ts_root s), cap_task := map_put pid pid (cap_task s),
        cap_states := map_put pid \<lparr>cs_parent = 0, cs_scope_id = 1, cs_labels = label,
          cs_authority_mask = AUTH_BIND_RULE OR AUTH_NARROW_SCOPE, cs_target_mask = AUTH_TARGET_SELF OR AUTH_TARGET_CHILD,
          cs_restrict_mask = 0, cs_gate_mask = 0, cs_label_mask = 0\<rparr> (cap_states s)\<rparr>"
      by (simp add: seed_initial_label_def map_update_room Let_def)
    with False rooms show ?thesis by (simp add: authority_def fun_eq_iff lookup_put)
  qed
  then show "te_protected_pids t = te_protected_pids s"
    and "authority t = (if pid = 0 then authority s else (authority s)(pid := Some (AUTH_BIND_RULE OR AUTH_NARROW_SCOPE)))"
    by auto
qed

lemma start_control:
  fixes st t u :: "'a tables_scheme"
  assumes "fresh_maps st" "prov_ok st" "prepare w = Inr p" "bring_up w p st = (0, t)"
    and "\<And>s. sensor_reach_in (\<lambda>q. q \<noteq> w_getpid w) s (w_window w s)" "sensor_reach_in (\<lambda>q. q \<noteq> w_getpid w) t u"
  shows "guards_only (w_getpid w) u" and "authority u = (if en_seed_pid (pl_env p) = 0 then authority st
      else (authority st)(en_seed_pid (pl_env p) := Some (AUTH_BIND_RULE OR AUTH_NARROW_SCOPE)))"
    and "engine_ok t"
proof -
  let ?l = "w_getpid w" and ?pid = "en_seed_pid (pl_env p)" and ?lab = "en_seed_label (pl_env p)"
  obtain s :: "'a tables_scheme" where s: "engine_ok s" "te_protected_pids s = map_put ?l 1 (hash_new 64)" "cap_states s = cap_states st"
    and rc: "seed_initial_label ?pid ?lab (w_window w s) = (0, t)"
    by (rule bring_up_policy [OF assms(1-4)])
  note window = reach_in_reach [OF assms(5) [of s]]
  note wok = reach_stands [OF window s(1)]
  have new: "map_lookup (hash_new 64 :: (pid_t, u32) bpf_hash) q = None" "room (hash_new 64 :: (pid_t, u32) bpf_hash) q" for q
    by (simp_all add: map_lookup_def hash_new_def room_def)
  have g0: "guards_only ?l s" by (simp add: guards_only_def te_pid_protected_def s(2) lookup_put new)
  have "guards_only ?l (w_window w s)" by (rule guard_programs.reach_keeps [OF assms(5) g0])
  then have gt: "guards_only ?l t" using guards_only_cong [OF seed_control(1) [OF rc]] by blast
  show "guards_only ?l u" by (rule guard_programs.reach_keeps [OF assms(6) gt])
  show tok: "engine_ok t" using seed_stands [of "w_window w s" ?pid ?lab] wok by (simp add: rc)
  have "authority s = authority st" by (simp add: authority_def s(3) fun_eq_iff)
  then have "authority t = (if ?pid = 0 then authority st else (authority st)(?pid := Some (AUTH_BIND_RULE OR AUTH_NARROW_SCOPE)))"
    unfolding seed_control(2) [OF rc] reach_authority [OF window s(1)] by simp
  then show "authority u = (if ?pid = 0 then authority st else (authority st)(?pid := Some (AUTH_BIND_RULE OR AUTH_NARROW_SCOPE)))"
    using reach_authority [OF reach_in_reach [OF assms(6)] tok] by simp
qed

section \<open>Properties\<close>





text \<open>C22: what is in place when the loader says it is ready. On fresh maps, a loader that has come through every step
  has loaded the object, installed all four tail programs, attached the programs and opened the ring buffer. The maps
  held exactly the accepted configuration and the loader's protection before the programs were attached. Whatever the
  attached programs did meanwhile (short of the loader's own exit), when ready is printed the engine is well formed,
  the mode and the features are the chosen ones, the rules and the updates of the file stand at the head of
  their tables, every rule is bound to its domain, and the loader is protected. The process named on the
  command line, if any, is then the root of its session and of a domain of its own and carries the label.\<close>

theorem loader_ready:
  fixes st t :: "'a tables_scheme"
  assumes "fresh_maps st" "prov_ok st" "prepare w = Inr p" "bring_up w p st = (0, t)"
    and "\<And>s. sensor_reach_in (\<lambda>q. q \<noteq> w_getpid w) s (w_window w s)"
  shows "w_load w = 0 \<and> (\<forall>i < 4. snd (install_exec_tail_programs (w_prog_fd w) (w_tail_put w)) i) \<and>
    w_attach w = 0 \<and> w_rb_new w \<and> validate_config (pl_cfg p) = 0 \<and>
    (\<exists>s :: 'a tables_scheme. policy_installed (pl_cfg p) (w_getpid w) s \<and>
       seed_initial_label (en_seed_pid (pl_env p)) (en_seed_label (pl_env p)) (w_window w s) = (0, t)) \<and>
    engine_ok t \<and> enforce_mode t = (if pl_enforce p then 1 else 0) \<and>
    policy_features t = loader_features (pl_cfg p) (pl_full p) (pl_reserve p) \<and>
    prefix (cfg_rules (pl_cfg p)) (active_rules t) \<and> prefix (cfg_updates (pl_cfg p)) (active_updates t) \<and>
    (\<forall>i < length (cfg_rules (pl_cfg p)). cap_policy_rule_bound t (ru_domain_id (cfg_rules (pl_cfg p) ! i)) i) \<and>
    te_pid_protected t (w_getpid w) \<and>
    (en_seed_pid (pl_env p) \<noteq> 0 \<longrightarrow>
       te_pid_active t (en_seed_pid (pl_env p)) \<and> cap_domain_for_pid t (en_seed_pid (pl_env p)) = en_seed_pid (pl_env p) \<and>
       te_root t (en_seed_pid (pl_env p)) = en_seed_pid (pl_env p) \<and>
       map_option ps_labels (map_lookup (ts_proc t) (en_seed_pid (pl_env p))) = Some (en_seed_label (pl_env p)))"
proof -
  let ?pid = "en_seed_pid (pl_env p)" and ?lab = "en_seed_label (pl_env p)"
  note up = bring_up_stages [OF assms(4)] and wf = prepare_wf [OF assms(3)]
  obtain s :: "'a tables_scheme" where s: "engine_ok s" "policy_installed (pl_cfg p) (w_getpid w) s"
    "enforce_mode s = (if pl_enforce p then 1 else 0)" "policy_features s = loader_features (pl_cfg p) (pl_full p) (pl_reserve p)"
    "seed_initial_label ?pid ?lab (w_window w s) = (0, t)"
    by (rule bring_up_policy [OF assms(1-4)])
  note r = reach_stands [OF reach_in_reach [OF assms(5) [of s]] s(1)]
  have "engine_ok t \<and> policy_stands (w_window w s) t"
    using seed_stands [of "w_window w s" ?pid ?lab] r by (simp add: s(5))
  then have now: "engine_ok t" "policy_stands s t" using r policy_stands_trans by auto
  have "te_pid_protected t (w_getpid w)"
    using start_control(1) [OF assms sensor_reach_in.start] by (simp add: guards_only_def)
  moreover have "te_pid_active t ?pid \<and> cap_domain_for_pid t ?pid = ?pid \<and> te_root t ?pid = ?pid \<and>
      map_option ps_labels (map_lookup (ts_proc t) ?pid) = Some ?lab" if "?pid \<noteq> 0"
    by (rule seed_done [OF up(6) that])
  moreover have "prefix (cfg_rules (pl_cfg p)) (active_rules t)" "prefix (cfg_updates (pl_cfg p)) (active_updates t)"
    "\<forall>i < length (cfg_rules (pl_cfg p)). cap_policy_rule_bound t (ru_domain_id (cfg_rules (pl_cfg p) ! i)) i"
    "enforce_mode t = (if pl_enforce p then 1 else 0)" "policy_features t = loader_features (pl_cfg p) (pl_full p) (pl_reserve p)"
    using now(2) s(2-4) by (auto simp: policy_installed_def policy_stands_def)
  ultimately show ?thesis using up wf s(2,5) now(1) install_tail_ok [OF up(2)] by blast
qed

theorem loader_ready_witness:
  "\<exists>t. bring_up quiet_world quiet_plan fresh_tables = (0, t) \<and> engine_ok t \<and> te_pid_protected t 77 \<and>
     te_pid_active t 5 \<and> te_root t 5 = 5"
proof -
  obtain t where t: "bring_up quiet_world quiet_plan fresh_tables = (0, t)"
    using quiet_up [OF fresh_tables_fresh(1)]
    by (auto simp: fresh_tables_def guard_tables_defs guard_defs example_simps)
  have window: "sensor_reach_in (\<lambda>q. q \<noteq> w_getpid (quiet_world :: tables loader_world)) s (w_window quiet_world s)" for s :: tables
    unfolding quiet_fields by (rule sensor_reach_in.start)
  from loader_ready [OF fresh_tables_fresh quiet_prepare t window]
  have "engine_ok t \<and> te_pid_protected t 77 \<and> te_pid_active t 5 \<and> te_root t 5 = 5" by (simp add: quiet_fields)
  with t show ?thesis by blast
qed

end
