(* ===== verification/Delta_Liveness.thy ===== *)
theory Delta_Liveness
  imports Label_Life
begin

text \<open>
  Runtime deltas over time. A process submits a rule through the request ring; the sensor reads the ring when
  that process next enters \<^verbatim>\<open>getpid\<close>. This theory shows that the wait is not in vain: what the
  admission check accepts stays acceptable while submitter and caller live, records that stand before it in the ring cannot
  push it out as long as the tables have a slot per record, and from the tick on the rule is active, bound and obeyed for ever.
\<close>

section \<open>Runs of the sensor\<close>

text \<open>An infinite run, in which only the processes of \<open>mortal\<close> begin or end.\<close>

definition sensor_run :: "(pid_t \<Rightarrow> bool) \<Rightarrow> (nat \<Rightarrow> 'a tables_scheme) \<Rightarrow> bool" where
  "sensor_run mortal run \<longleftrightarrow> (\<forall>n. sensor_step_in mortal (run n) (run (Suc n)))"

lemma sensor_step_in_mono:
  assumes "sensor_step_in m s t" "m \<le> m'"
  shows "sensor_step_in m' s t"
  using assms(1)
proof cases
  case (on_process_exit code)
  then have "cur_pid s = ucast (cur_pid_tgid s) \<longrightarrow> m' (cur_pid s)" using assms(2) by blast
  then show ?thesis unfolding on_process_exit(1) by (rule sensor_step_in.on_process_exit)
qed (use assms(2) in \<open>blast intro: sensor_step_in.intros\<close>)+

lemma sensor_run_mono: "sensor_run m run \<Longrightarrow> m \<le> m' \<Longrightarrow> sensor_run m' run"
  unfolding sensor_run_def by (blast intro: sensor_step_in_mono)

lemma sensor_run_reach:
  assumes "sensor_run m run" "k \<le> n"
  shows "sensor_reach_in m (run k) (run n)"
  using assms(2)
proof (induction rule: dec_induct)
  case (step n)
  with assms(1) show ?case unfolding sensor_run_def by (blast intro: sensor_reach_in.step)
qed (rule sensor_reach_in.start)

text \<open>A process that outlives a run stays where it was bound, and the policy only grows.\<close>

lemma run_kept:
  assumes "sensor_run m run" "\<not> m p" "engine_ok (run 0)" "k \<le> n"
  shows "engine_ok (run n)" "policy_kept p (run k) (run n)"
proof -
  have life: "sensor_run (\<lambda>q. q \<noteq> p) run" using assms(1,2) by (blast intro: sensor_run_mono)
  note ok = reach_life [OF sensor_run_reach [OF life le0] assms(3), THEN conjunct1]
  show "engine_ok (run n)" by (rule ok)
  show "policy_kept p (run k) (run n)"
    using reach_life [OF sensor_run_reach [OF life assms(4)] ok] by (simp add: life_def)
qed

section \<open>A rule on its way through the ring\<close>

definition in_force :: "'a cap_maps_scheme \<Rightarrow> nat \<Rightarrow> u32 \<Rightarrow> taint_rule \<Rightarrow> bool" where
  "in_force st i d e \<longleftrightarrow>
     i < n_rules st \<and> rule_at st i = e\<lparr>ru_domain_id := d\<rparr> \<and> cap_policy_rule_bound st d i"

lemma in_force_kept: "policy_kept p s t \<Longrightarrow> in_force s i d e \<Longrightarrow> in_force t i d e"
  unfolding in_force_def using policy_kept_rule by fastforce

lemma grows_kept: "policy_grows s t \<Longrightarrow> policy_kept p s t"
  by (simp add: policy_kept_def policy_grows_def n_rules_def n_updates_def cap_policy_rule_bound_def)

lemma domain_kept:
  assumes "policy_kept p s t" "map_lookup (cap_states s) d = Some x"
  obtains y where "map_lookup (cap_states t) d = Some y" "cap_state_grows x y"
proof -
  have "rel_option cap_state_grows (map_lookup (cap_states s) d) (map_lookup (cap_states t) d)"
    using assms(1) by (simp add: policy_kept_def policy_grows_def)
  with assms(2) that show thesis by (auto simp: option_rel_Some1)
qed

text \<open>Admission is not lost: authority, targets and the domain tree are fixed while caller and submitter live. Only a
  request for a narrower scope could be overtaken by another one, so it is left out.\<close>

lemma rule_admit_kept:
  assumes "policy_kept p s t" "policy_kept (ar_caller_pid r) s t" "ar_new_scope_id r = 0"
    and "cap_append_rule_admit s r p = 0"
  shows "cap_append_rule_admit t r p = 0"
proof -
  from assms(4) obtain caller src dst where adm: "cap_can_submit_for s p (ar_caller_pid r)" "cap_rule_supported (policy_features s) (ar_entry r)"
    and src: "map_lookup (cap_task s) (ar_caller_pid r) = Some caller" "map_lookup (cap_states s) caller = Some src"
    and dst: "map_lookup (cap_states s) (ar_target_id r) = Some dst"
    and chk: "cap_target_mask caller (ar_target_id r) dst AND cs_target_mask src \<noteq> 0"
      "bits_of (cap_required_mask_fields (ar_required_mask r OR AUTH_BIND_RULE) 0 0 0 0 0) \<subseteq> bits_of (cs_authority_mask src)"
    by (auto simp: cap_append_rule_admit_def cap_check_fields_ok_iff assms(3) split: if_splits)
  obtain src' where src': "map_lookup (cap_states t) caller = Some src'" "cap_state_grows src src'"
    using domain_kept [OF assms(1) src(2)] by blast
  obtain dst' where dst': "map_lookup (cap_states t) (ar_target_id r) = Some dst'" "cap_state_grows dst dst'"
    using domain_kept [OF assms(1) dst] by blast
  have "cap_can_submit_for t p (ar_caller_pid r)"
  proof (cases "p = ar_caller_pid r")
    case False
    with adm(1) obtain d x where d: "map_lookup (cap_task s) p = Some d" "map_lookup (cap_states s) d = Some x"
      "cs_authority_mask x AND AUTH_DELEGATE \<noteq> 0"
      by (auto simp: cap_can_submit_for_def split: option.splits)
    obtain y where "map_lookup (cap_states t) d = Some y" "cap_state_grows x y" using domain_kept [OF assms(1) d(2)] by blast
    with d assms(1) show ?thesis by (simp add: cap_can_submit_for_def policy_kept_def cap_state_grows_def)
  qed (simp add: cap_can_submit_for_def)
  moreover have "map_lookup (cap_task t) (ar_caller_pid r) = Some caller" "policy_features t = policy_features s"
    using assms(1,2) src(1) by (simp_all add: policy_kept_def policy_grows_def)
  ultimately show ?thesis
    using adm(2) src' dst' chk
    by (simp add: cap_append_rule_admit_def cap_check_fields_ok_iff assms(3) cap_state_grows_def cap_target_mask_def
        cap_scope_subset_def)
qed

text \<open>One record takes at most one slot of the rule table and one of the binding map.\<close>

lemma used_update: "used (snd (map_update_elem fl k v m)) \<le> Suc (used m)"
  "max_entries (snd (map_update_elem fl k v m)) = max_entries m"
  by (simp_all add: map_update_elem_def split: option.split)

lemma bind_rule_cost:
  "used (cap_policy (snd (cap_policy_bind_rule d i st))) \<le> Suc (used (cap_policy st))"
  "max_entries (cap_policy (snd (cap_policy_bind_rule d i st))) = max_entries (cap_policy st)"
  by (simp_all add: cap_policy_bind_rule_def Let_def case_prod_beta used_update)

definition spare :: "nat \<Rightarrow> 'a cap_maps_scheme \<Rightarrow> bool" where
  "spare k st \<longleftrightarrow> n_rules st + k \<le> MAX_TAINT_RULES \<and> has_slots k (cap_policy st)"

lemma append_rule_cost:
  assumes "wf_tables st" "spare (Suc k) st"
  shows "spare k (snd (cap_append_rule_entry r st))"
proof -
  let ?st' = "st\<lparr>ts_rules := snd (arr_update (n_rules st) ((ar_entry r)\<lparr>ru_domain_id := ar_target_id r\<rparr>) (ts_rules st))\<rparr>"
  let ?st'' = "snd (cap_policy_bind_rule (ar_target_id r) (n_rules st) ?st')"
  obtain m where fr: "?st'' = ?st'\<lparr>cap_policy := m\<rparr>" using cap_policy_bind_rule_frame by blast
  note b = bind_rule_cost [of "ar_target_id r" "n_rules st" ?st', unfolded fr, simplified]
  show ?thesis
    unfolding cap_append_rule_entry_cases [OF assms(1)] Let_def fr
    using assms b unat_succ [of "a_cell (ts_counts st) 0"] by (auto simp: spare_def has_slots_def n_rules_def wf_tables_def)
qed

lemma spare_less: "spare (Suc k) st \<Longrightarrow> spare k st"
  by (simp add: spare_def has_slots_def)

lemma spare_count [simp]: "spare k (cap_count i st) = spare k st"
  by (simp add: spare_def n_rules_def)

lemma request_cost:
  assumes "wf_tables st" "spare (Suc k) st"
  shows "spare k (cap_request_cb pid dp st)"
proof -
  have "spare k (snd (cap_append_update_entry u st))" for u
    using spare_less [OF assms(2)] by (simp add: cap_append_update_entry_cases [OF assms(1)] spare_def n_rules_def)
  moreover have "spare k (snd (cap_apply_request q st))" for q
    using spare_less [OF assms(2)] by (auto simp: cap_apply_request_def Let_def spare_def n_rules_def split: option.split)
  ultimately show ?thesis
    using append_rule_cost [OF assms] spare_less [OF assms(2)]
    by (simp add: cap_request_cb_def Let_def case_prod_beta split: option.split)
qed

lemma ring_cost:
  assumes "wf_tables st" "spare (length ring + k) st"
  shows "spare k (fold (cap_request_cb pid) ring st)"
  using assms
proof (induction ring arbitrary: st)
  case (Cons dp ring)
  have "wf_tables (cap_request_cb pid dp st)" by (rule delta.keeps_ok [OF cap_request_cb_keeps Cons.prems(1)])
  with Cons request_cost [of st "length ring + k" pid dp] show ?case by simp
qed simp

lemma rule_record_accepted:
  assumes "wf_tables st" "spare (Suc k) st" "dp_tag dp = Some CAP_REQ_APPEND_RULE" "dp_rule dp = Some r"
    and "cap_append_rule_admit st r pid = 0"
  shows "in_force (cap_request_cb pid dp st) (n_rules st) (ar_target_id r) (ar_entry r)"
proof -
  have ok: "fst (cap_append_rule_entry r st) = 0"
    using assms(2) by (auto simp: cap_append_rule_entry_cases [OF assms(1)] Let_def spare_def has_slots_def room_def)
  show ?thesis
    using cap_append_rule_entry_active [OF assms(1) ok] assms(3-5) ok
    by (simp add: cap_request_cb_def case_prod_beta in_force_def n_rules_def cap_policy_rule_bound_def)
qed

lemma drained_rule_in_force:
  assumes "wf_tables st" "spare (length ring) st" "dp \<in> set ring" "dp_tag dp = Some CAP_REQ_APPEND_RULE" "dp_rule dp = Some r"
    and "ar_new_scope_id r = 0" "cap_append_rule_admit st r (cur_pid st) = 0"
  shows "\<exists>i. in_force (cap_drain_tick ring st) i (ar_target_id r) (ar_entry r)"
proof -
  obtain pre post where ring: "ring = pre @ dp # post" using assms(3) by (meson split_list)
  let ?cb = "cap_request_cb (cur_pid st)"
  let ?s = "fold ?cb pre st"
  have cb: "delta.keeps (fold ?cb xs)" for xs by (rule delta.keeps_fold) (rule cap_request_cb_keeps)
  have s: "wf_tables ?s" "policy_kept p st ?s" for p
    using delta.keeps_ok [OF cb assms(1)] delta.keeps_grows [OF cb assms(1)] grows_kept by blast+
  have sp: "spare (Suc (length post)) ?s" using ring_cost [OF assms(1), of pre] assms(2) by (simp add: ring)
  have adm: "cap_append_rule_admit ?s r (cur_pid st) = 0" by (rule rule_admit_kept [OF s(2) s(2) assms(6,7)])
  have f: "in_force (?cb dp ?s) (n_rules ?s) (ar_target_id r) (ar_entry r)"
    by (rule rule_record_accepted [OF s(1) sp assms(4,5) adm])
  have "wf_tables (?cb dp ?s)" by (rule delta.keeps_ok [OF cap_request_cb_keeps s(1)])
  then have "policy_kept p (?cb dp ?s) (fold ?cb post (?cb dp ?s))" for p using delta.keeps_grows [OF cb] grows_kept by blast
  from in_force_kept [OF this f] show ?thesis
    by (auto simp: cap_drain_tick_def cap_drain_current_def ring cur_pid_def in_force_def n_rules_def cap_policy_rule_bound_def)
qed

section \<open>From the tick on\<close>

text \<open>At some time from \<open>k\<close> on the process \<open>p\<close> runs the drain program while the record stands in the ring, and the tables
  have a slot for every record of the ring.\<close>

definition ring_drained :: "(nat \<Rightarrow> 'a tables_scheme) \<Rightarrow> nat \<Rightarrow> pid_t \<Rightarrow> cap_dynptr \<Rightarrow> bool" where
  "ring_drained run k p dp \<longleftrightarrow>
     (\<exists>n \<ge> k. \<exists>ring. cur_pid (run n) = p \<and> dp \<in> set ring \<and> spare (length ring) (run n) \<and>
        run (Suc n) = cap_drain_tick ring (run n))"

text \<open>What a state owes to a rule that blocks connections: it denies the current process every connection the rule covers.\<close>

definition obeys_connect_block :: "'a tables_scheme \<Rightarrow> u32 \<Rightarrow> taint_rule \<Rightarrow> bool" where
  "obeys_connect_block st d e \<longleftrightarrow>
     (\<forall>addr ip. enforce_mode st \<noteq> 0 \<and> te_pid_active st (cur_pid st) \<and> cap_domain_matches_pid st (cur_pid st) d \<and>
        bits_of (ru_req e) \<subseteq> proc_labels st (cur_pid st) d \<and>
        te_resolve_sockaddr (user_mem st) (TE_REF_SOCKADDR_KERN addr) = Some ip \<and> ip AND ru_ipv4_mask e = ru_ipv4 e \<longrightarrow>
        fst (enforce_socket_connect addr st) = - EPERM)"

lemma in_force_obeyed:
  assumes "engine_ok st" "rules_ok st" "in_force st i d e" "blocks_connect e"
  shows "obeys_connect_block st d e"
  unfolding obeys_connect_block_def
proof (intro allI impI, elim conjE)
  fix addr ip
  assume on: "enforce_mode st \<noteq> 0" "te_pid_active st (cur_pid st)" "cap_domain_matches_pid st (cur_pid st) d"
    and lab: "bits_of (ru_req e) \<subseteq> proc_labels st (cur_pid st) d"
    and ip: "te_resolve_sockaddr (user_mem st) (TE_REF_SOCKADDR_KERN addr) = Some ip" "ip AND ru_ipv4_mask e = ru_ipv4 e"
  have "i \<in> endp_hits st (cur_pid st) TE_ACCESS_CONNECT TE_MODE_BLOCK ip"
    using assms(3,4) on(2,3) lab ip(2) by (intro blocks_connect_hit) (auto simp: in_force_def blocks_connect_def)
  then show "fst (enforce_socket_connect addr st) = - EPERM"
    using assms(1,2) on ip(1) by (intro connect_denied) (auto simp: engine_ok_def)
qed

section \<open>Properties\<close>

text \<open>C14: a submitted rule takes effect. In every infinite run of the sensor in which submitter and caller live, if
  the admission check accepts a rule at some time and the submitter ever drains a ring that holds the record, with a
  slot free for each record of that ring, then there is an index and a time from which on the rule is active at that
  index, bound to its target domain and unchanged for ever; and if it blocks connections, every such state denies
  the connections it covers to the processes of the domain that carry its labels.\<close>

theorem appended_rule_takes_effect:
  fixes run :: "nat \<Rightarrow> 'a tables_scheme"
  assumes "sensor_run (\<lambda>q. q \<noteq> submitter \<and> q \<noteq> ar_caller_pid r) run" "engine_ok (run 0)"
    and "cap_append_rule_admit (run k) r submitter = 0" "ar_new_scope_id r = 0"
    and "dp_tag dp = Some CAP_REQ_APPEND_RULE" "dp_rule dp = Some r" "ring_drained run k submitter dp"
  shows "\<exists>m i. \<forall>n \<ge> m. in_force (run n) i (ar_target_id r) (ar_entry r) \<and>
    (blocks_connect (ar_entry r) \<and> rules_ok (run n) \<longrightarrow> obeys_connect_block (run n) (ar_target_id r) (ar_entry r))"
proof -
  have ok: "engine_ok (run n)" for n using run_kept(1) [OF assms(1) _ assms(2), of submitter n n] by simp
  note kept = run_kept(2) [OF assms(1) _ assms(2), of submitter, simplified]
      run_kept(2) [OF assms(1) _ assms(2), of "ar_caller_pid r", simplified]
  from assms(7) obtain m ring where m: "k \<le> m" "cur_pid (run m) = submitter" "dp \<in> set ring"
    "spare (length ring) (run m)" "run (Suc m) = cap_drain_tick ring (run m)"
    unfolding ring_drained_def by blast
  have adm: "cap_append_rule_admit (run m) r (cur_pid (run m)) = 0"
    unfolding m(2) by (rule rule_admit_kept [OF kept(1) [OF m(1)] kept(2) [OF m(1)] assms(4,3)])
  have "wf_tables (run m)" using ok by (simp add: engine_ok_def)
  then obtain i where i: "in_force (run (Suc m)) i (ar_target_id r) (ar_entry r)"
    using drained_rule_in_force [OF _ m(4,3) assms(5,6,4) adm] m(5) by auto
  have "in_force (run n) i (ar_target_id r) (ar_entry r)" if "Suc m \<le> n" for n
    by (rule in_force_kept [OF kept(1) [OF that] i])
  with ok in_force_obeyed show ?thesis by blast
qed

text \<open>Process 100 submits a rule for its own domain: label 0 must not reach the network. After the tick the run stays where it is.\<close>

definition block_request :: cap_append_rule where
  "block_request = \<lparr>ar_caller_pid = 100, ar_target_id = 1, ar_new_scope_id = 0, ar_required_mask = 0,
     ar_entry = no_rule\<lparr>ru_op := TOP_CONNECT, ru_effect := TEFFECT_BLOCK, ru_req := 1, ru_rule_id := 7\<rparr>\<rparr>"

definition block_record :: cap_dynptr where
  "block_record = \<lparr>dp_tag = Some CAP_REQ_APPEND_RULE, dp_update = None, dp_rule = Some block_request, dp_delta = None\<rparr>"

definition delta_tables :: tables where
  "delta_tables = guard_tables\<lparr>cap_policy := hash_new 4096\<rparr>"

definition delta_run :: "nat \<Rightarrow> tables" where
  "delta_run n = (if n = 0 then delta_tables else cap_drain_tick [block_record] delta_tables)"

lemma stutter_step: "sensor_step_in m st st"
  using on_switch [of m st, where t = "cur_pid_tgid st" and pp = "cur_ppid st" and cm = "cur_comm st" and ft = "cur_fdt st"
      and kf = "kernel_file st" and um = "user_mem st"] by simp

lemma delta_run_run: "sensor_run m delta_run"
  unfolding sensor_run_def delta_run_def by (auto intro: stutter_step on_tick)

lemma delta_tables_facts:
  "engine_ok delta_tables" "cur_pid delta_tables = 100" "spare 1 delta_tables"
  "cap_append_rule_admit delta_tables block_request 100 = 0"
  using guard_tables_ok
  by (simp_all add: delta_tables_def engine_ok_def wf_tables_def prov_ok_def guard_tables_engine(2) [unfolded cur_pid_def] cur_pid_def
      spare_def has_slots_def hash_new_def guard_tables_defs guard_defs example_simps n_rules_def block_request_def
      cap_append_rule_admit_def cap_can_submit_for_def cap_rule_supported_def cap_check_fields_def cap_target_mask_def
      cap_required_mask_fields_def cap_scope_subset_def)

lemma delta_run_rules: "rules_ok (delta_run n)"
proof -
  let ?t = "snd (cap_append_rule_entry block_request delta_tables)"
  have two: "rules_ok delta_tables"
    by (simp add: rules_ok_def active_rules_def delta_tables_def guard_tables_defs guard_defs no_rule_def n_rules_def)
  have wf: "wf_tables delta_tables" using delta_tables_facts(1) by (simp add: engine_ok_def)
  have ok: "fst (cap_append_rule_entry block_request delta_tables) = 0"
    using delta_tables_facts(3) by (auto simp: cap_append_rule_entry_cases [OF wf] Let_def spare_def has_slots_def room_def)
  have "active_rules (cap_drain_tick [block_record] delta_tables) = active_rules ?t"
    using ok delta_tables_facts(2,4)
    by (simp add: cap_drain_tick_def cap_drain_current_def cap_request_cb_def block_record_def case_prod_beta active_rules_def
        n_rules_def cur_pid_def)
  also have "\<dots> = active_rules delta_tables @ [(ar_entry block_request)\<lparr>ru_domain_id := ar_target_id block_request\<rparr>]"
    using cap_append_rule_binds [OF wf ok] by (simp add: active_rules_def)
  finally show ?thesis using two by (auto simp: rules_ok_def delta_run_def block_request_def no_rule_def)
qed

theorem appended_rule_takes_effect_witness:
  "\<exists>m i. \<forall>n \<ge> m. in_force (delta_run n) i 1 (ar_entry block_request) \<and> obeys_connect_block (delta_run n) 1 (ar_entry block_request)"
proof -
  have "ring_drained delta_run 0 100 block_record"
    unfolding ring_drained_def
    by (intro exI [of _ 0] conjI exI [of _ "[block_record]"]) (simp_all add: delta_run_def delta_tables_facts [simplified])
  then have "\<exists>m i. \<forall>n \<ge> m. in_force (delta_run n) i (ar_target_id block_request) (ar_entry block_request) \<and>
      (blocks_connect (ar_entry block_request) \<and> rules_ok (delta_run n) \<longrightarrow>
       obeys_connect_block (delta_run n) (ar_target_id block_request) (ar_entry block_request))"
    using delta_tables_facts
    by (intro appended_rule_takes_effect [OF delta_run_run]) (simp_all add: delta_run_def block_record_def block_request_def)
  moreover have "blocks_connect (ar_entry block_request)" "ar_target_id block_request = 1"
    by (simp_all add: block_request_def blocks_connect_def no_rule_def)
  ultimately show ?thesis using delta_run_rules by simp
qed

end
