(* ===== verification/Unit_Tests.thy ===== *)
theory Unit_Tests
  imports Policy_Tables
begin

text \<open>
  The unit tests of the matchers (\<^verbatim>\<open>bpf/test_taint.c\<close>), run on the model. The tests compile the plain-C
  bodies of the predicates; the theorem is that every check of the test program holds, so the program exits with
  status 0. It ties the definitions to inputs and outputs the repository itself writes down.
\<close>

section \<open>The predicates as the tests compile them\<close>

definition taint_match_c :: "u8 \<Rightarrow> bytes \<Rightarrow> bytes \<Rightarrow> bool" where
  "taint_match_c kind text pat =
     (if kind = TAINT_MATCH_PREFIX then taint_prefix_c text pat
      else if kind = TAINT_MATCH_SUFFIX then taint_suffix text pat
      else if kind = TAINT_MATCH_ANY then True
      else if kind = TAINT_MATCH_CONTAINS then taint_contains_c text pat
      else taint_streq_c text pat)"

definition taint_exec_match_c :: "u8 \<Rightarrow> bytes \<Rightarrow> bytes \<Rightarrow> bool" where
  "taint_exec_match_c kind text pat =
     (if kind = TAINT_MATCH_PREFIX then taint_prefix_c text pat
      else if kind = TAINT_MATCH_ANY then True
      else taint_streq_c text pat)"

text \<open>\<^verbatim>\<open>strncpy\<close> into a zeroed buffer of which the last byte is left alone.\<close>

definition pad :: "nat \<Rightarrow> string \<Rightarrow> bytes" where
  "pad n s = padded n (take (n - 1) (str_bytes s))"

definition pad2 :: "string \<Rightarrow> string \<Rightarrow> bytes \<times> bytes" where
  "pad2 a b = (pad TAINT_PAT_LEN a, pad TAINT_PAT_LEN b)"

definition p_streq :: "string \<Rightarrow> string \<Rightarrow> bool" where
  "p_streq a b = (case pad2 a b of (pa, pb) \<Rightarrow> taint_streq_c pa pb)"

definition p_prefix :: "string \<Rightarrow> string \<Rightarrow> bool" where
  "p_prefix t p = (case pad2 t p of (pa, pb) \<Rightarrow> taint_prefix_c pa pb)"

definition p_match :: "u8 \<Rightarrow> string \<Rightarrow> string \<Rightarrow> bool" where
  "p_match k t p = (case pad2 t p of (pa, pb) \<Rightarrow> taint_match_c k pa pb)"

definition p_exec_match :: "u8 \<Rightarrow> string \<Rightarrow> string \<Rightarrow> bool" where
  "p_exec_match k t p = (case pad2 t p of (pa, pb) \<Rightarrow> taint_exec_match_c k pa pb)"

definition arg_m :: "bytes \<Rightarrow> string \<Rightarrow> bool" where
  "arg_m slots tok = taint_arg_match_c slots (pad TAINT_ARG_LEN tok)"

section \<open>The checks\<close>

definition test_streq :: "bool list" where
  "test_streq = [p_streq ''git'' ''git'', \<not> p_streq ''git'' ''ssh'', \<not> p_streq ''git'' ''gitk'', p_streq '''' '''']"

definition test_prefix :: "bool list" where
  "test_prefix =
     [p_prefix ''/etc/secrets/key'' ''/etc/secrets'', \<not> p_prefix ''/etc/passwd'' ''/etc/secrets'',
      \<not> p_prefix ''/etc'' ''/etc/secrets'', p_prefix ''10.0.0.5'' ''10.0.0.'', \<not> p_prefix ''8.8.8.8'' ''10.0.0.'',
      \<not> p_prefix ''/x'' '''']"

definition test_match :: "bool list" where
  "test_match =
     [p_match TAINT_MATCH_EXACT ''git'' ''git'', \<not> p_match TAINT_MATCH_EXACT ''gitk'' ''git'',
      p_match TAINT_MATCH_PREFIX ''/a/b'' ''/a'', p_match TAINT_MATCH_SUFFIX ''/home/u/.env'' ''.env'',
      \<not> p_match TAINT_MATCH_SUFFIX ''/home/u/app.py'' ''.env'', p_match TAINT_MATCH_SUFFIX ''api.internal'' ''.internal'',
      p_match TAINT_MATCH_ANY ''literally anything'' '''',
      p_match TAINT_MATCH_CONTAINS ''/home/u/server/app/f'' ''/server/'',
      \<not> p_match TAINT_MATCH_CONTAINS ''/home/u/client/app/f'' ''/server/'',
      p_match TAINT_MATCH_CONTAINS ''/server/start'' ''/server/'', p_match TAINT_MATCH_CONTAINS ''/x/server/'' ''/server/'',
      \<not> p_match TAINT_MATCH_CONTAINS ''server'' ''/server/'',
      p_exec_match TAINT_MATCH_EXACT ''git'' ''git'', p_exec_match TAINT_MATCH_EXACT ''redact'' ''redact'',
      \<not> p_exec_match TAINT_MATCH_EXACT ''/tmp/ape/git'' ''git'']"

definition test_mask :: "bool list" where
  "test_mask =
     [taint_mask_ok 3 3 4, \<not> taint_mask_ok 1 3 4, \<not> taint_mask_ok 7 3 4, taint_mask_ok 3 0 0,
      taint_mask_ok 1 1 2, \<not> taint_mask_ok 3 1 2]"

text \<open>Tokens separated by NUL bytes, in a zeroed blob.\<close>

definition arg_blob :: "string list \<Rightarrow> bytes" where
  "arg_blob toks = padded TAINT_ARGV_CAP (tl (concat (map (\<lambda>t. 0 # str_bytes t) toks)))"

definition zero_slots :: bytes where
  "zero_slots = replicate TAINT_ARG_SLOTS_BUF 0"

definition test_arg :: "bool list" where
  "test_arg =
     (let slots = te_tokenize_args (arg_blob [''git'', ''push'', ''--force'']) 16 zero_slots;
          slots2 = te_tokenize_args (arg_blob [''git'', ''commit'']) 10 zero_slots
      in [arg_m slots ''push'', arg_m slots ''--force'', \<not> arg_m slots ''commit'', \<not> arg_m slots ''pus'', arg_m slots '''',
          arg_m slots2 ''commit'', \<not> arg_m slots2 ''push''])"

definition test_main :: "nat \<times> nat \<times> int" where
  "test_main =
     (let checks = test_streq @ test_prefix @ test_match @ test_mask @ test_arg;
          passed = length (filter (\<lambda>c. c) checks); failed = length (filter (\<lambda>c. \<not> c) checks)
      in (passed, failed, if failed = 0 then 0 else 1))"


section \<open>Properties\<close>

text \<open>A string literal of a test fits its buffer and has no NUL.\<close>

definition fits :: "nat \<Rightarrow> string \<Rightarrow> bool" where
  "fits n s \<longleftrightarrow> length s < n \<and> list_all (\<lambda>b. b \<noteq> 0) (str_bytes s)"

lemma pad_pattern: "fits TAINT_PAT_LEN s \<Longrightarrow> pat_str (pad TAINT_PAT_LEN s) = str_bytes s \<and> wf_pat (pad TAINT_PAT_LEN s)"
  using nul_padded_padded [of "str_bytes s" TAINT_PAT_LEN] cstr_padded [of "str_bytes s" TAINT_PAT_LEN]
  by (auto simp: fits_def pat_str_def wf_pat_def pad_def list_all_iff str_bytes_def)

lemma predicates_on_strings:
  assumes "fits TAINT_PAT_LEN t" "fits TAINT_PAT_LEN p"
  shows "p_streq t p \<longleftrightarrow> str_bytes t = str_bytes p"
    "p_prefix t p \<longleftrightarrow> str_bytes p \<noteq> [] \<and> prefix (str_bytes p) (str_bytes t)"
    "p_match k t p \<longleftrightarrow>
       (if k = TAINT_MATCH_PREFIX then str_bytes p \<noteq> [] \<and> prefix (str_bytes p) (str_bytes t)
        else if k = TAINT_MATCH_SUFFIX
        then str_bytes p \<noteq> [] \<and> length (str_bytes p) \<le> TAINT_SUF_MAX \<and> suffix (str_bytes p) (str_bytes t)
        else if k = TAINT_MATCH_ANY then True
        else if k = TAINT_MATCH_CONTAINS then str_bytes p \<noteq> [] \<and> sublist (str_bytes p) (str_bytes t)
        else str_bytes t = str_bytes p)"
    "p_exec_match k t p \<longleftrightarrow>
       (if k = TAINT_MATCH_PREFIX then str_bytes p \<noteq> [] \<and> prefix (str_bytes p) (str_bytes t)
        else if k = TAINT_MATCH_ANY then True else str_bytes t = str_bytes p)"
  using pad_pattern [OF assms(1)] pad_pattern [OF assms(2)]
  by (simp_all add: p_streq_def p_prefix_def p_match_def p_exec_match_def pad2_def taint_match_c_def taint_exec_match_c_def
      taint_streq_c_eq taint_prefix_c_eq taint_streq_strings taint_prefix_strings taint_suffix_strings taint_contains_c_strings)

lemmas literal_simps = fits_def str_bytes_def sublist_code suffix_def

lemma test_checks: "test_streq = [True, True, True, True]" "test_prefix = [True, True, True, True, True, True]" "test_match = [True, True, True, True, True, True, True, True, True, True, True, True, True, True, True]"
  "test_mask = [True, True, True, True, True, True]"
  by (simp_all add: test_streq_def test_prefix_def test_match_def test_mask_def taint_mask_ok_def
      predicates_on_strings literal_simps)

lemma arg_m_tokens:
  assumes "fits TAINT_ARG_LEN t" "t \<noteq> []"
  shows "arg_m (te_tokenize_args blob len zero_slots) t \<longleftrightarrow> str_bytes t \<in> set (argv_tokens blob len)"
proof -
  have t: "take 23 (str_bytes t) = str_bytes t" "str_bytes t \<noteq> []" "length (str_bytes t) \<le> 23" "0 \<notin> set (str_bytes t)"
    using assms by (auto simp: fits_def list_all_iff str_bytes_def)
  have z: "length zero_slots = TAINT_ARG_SLOTS_BUF" "\<forall>c \<in> set zero_slots. c = 0"
    by (simp_all add: zero_slots_def)
  show ?thesis
    using arg_match_in_tokens [of "\<lparr>as_blob = blob, as_slots = zero_slots\<rparr>" "pad TAINT_ARG_LEN t" "str_bytes t" len] t z
    by (simp add: arg_m_def te_tokenize_args_eq taint_arg_match_c_eq pad_def)
qed

lemma test_arg_checks: "test_arg = [True, True, True, True, True, True, True]"
proof -
  have toks: "argv_tokens (arg_blob [''git'', ''push'', ''--force'']) 16 = map str_bytes [''git'', ''push'', ''--force'']"
    "argv_tokens (arg_blob [''git'', ''commit'']) 10 = map str_bytes [''git'', ''commit'']"
    by code_simp+
  have "arg_m slots ''''" for slots
    by (simp add: arg_m_def taint_arg_match_c_eq taint_arg_match_iff pad_def padded_def str_bytes_def)
  then show ?thesis
    unfolding test_arg_def Let_def by (simp add: arg_m_tokens toks literal_simps)
qed

text \<open>The repository's unit tests hold of the model. Each of the 38 checks of the test program, on the plain-C
  bodies of the matchers and on the concrete strings, masks and argument vectors it uses, succeeds, and the program
  returns 0.\<close>

theorem unit_tests_pass: "test_main = (38, 0, 0)"
  by (simp add: test_main_def test_checks test_arg_checks)

end
