(* ===== verification/Legacy_Match.thy ===== *)
theory Legacy_Match
  imports Policy_Tables
begin

text \<open>
  The matchers of the build for Linux 5.10 (the \<^verbatim>\<open>ACTPLANE_LEGACY_KERNEL\<close> branches of
  \<^verbatim>\<open>bpf/taint_engine.bpf.h\<close>): \<^verbatim>\<open>bpf_loop\<close> as a macro that caps its count, the path matcher
  that copies both strings into per-CPU scratch and compares them eight bytes at a time under a mask, and the
  16-byte matcher of command names. They are shown to decide what the matchers of the regular build decide,
  on the strings both can hold.
\<close>

section \<open>The loop macro\<close>

definition bpf_loop_legacy :: "u32 \<Rightarrow> (nat \<Rightarrow> 'c \<Rightarrow> bool \<times> 'c) \<Rightarrow> 'c \<Rightarrow> 'c" where
  "bpf_loop_legacy nr cb c =
     (let nr = (if unat nr > MAX_TAINT_UPDATES then MAX_TAINT_UPDATES else unat nr) in loop_on [0..<nr] cb c)"

section \<open>Paths\<close>

record te_path_cmp_scratch =
  pc_text :: bytes
  pc_pat :: bytes
  pc_tail :: bytes

definition wf_scratch :: "te_path_cmp_scratch \<Rightarrow> bool" where
  "wf_scratch s \<longleftrightarrow> length (pc_text s) = TAINT_PAT_LEN \<and> length (pc_pat s) = TAINT_PAT_LEN"

text \<open>\<^verbatim>\<open>bpf_probe_read_kernel_str\<close>: at most \<open>n - 1\<close> bytes of the string and a NUL, the rest of the
  destination as it was; it returns the length with the NUL.\<close>

definition probe_read_str :: "bytes \<Rightarrow> bytes \<Rightarrow> int \<times> bytes" where
  "probe_read_str dst src =
     (let s = cstr (take (length dst - 1) src)
      in (int (length s) + 1, s @ [0] @ drop (Suc (length s)) dst))"

text \<open>The \<open>i\<close>-th \<^verbatim>\<open>__u64\<close> of a buffer on a little-endian machine.\<close>

definition word_at :: "bytes \<Rightarrow> nat \<Rightarrow> u64" where
  "word_at b i = fold (\<lambda>j w. w OR push_bit (8 * j) (ucast (rd b (8 * i + j)))) [0..<8] 0"

definition te_path_mask :: "int \<Rightarrow> u64" where
  "te_path_mask n = (if n \<le> 0 then 0 else if n \<ge> 8 then NOT 0 else push_bit (nat (n * 8)) 1 - 1)"

definition words_diff :: "nat \<Rightarrow> bytes \<Rightarrow> bytes \<Rightarrow> int \<Rightarrow> u64" where
  "words_diff k a b n =
     fold (\<lambda>i diff. diff OR ((word_at a i XOR word_at b i) AND te_path_mask (n - int i * 8))) [0..<k] 0"

definition te_path_match_legacy ::
  "u32 \<Rightarrow> u8 \<Rightarrow> bytes \<Rightarrow> bytes \<Rightarrow> te_path_cmp_scratch \<Rightarrow> bool \<times> te_path_cmp_scratch" where
  "te_path_match_legacy features kind text pat s =
     (if kind = TAINT_MATCH_ANY \<or> kind = TAINT_MATCH_CONTAINS then (kind = TAINT_MATCH_ANY, s)
      else
        let (tn, t) = probe_read_str (pc_text s) text;
            (pn, p) = probe_read_str (pc_pat s) pat;
            s = s\<lparr>pc_text := t, pc_pat := p\<rparr>
        in if tn \<le> 0 \<or> pn \<le> 1 \<or> tn > int TAINT_PAT_LEN \<or> pn > int TAINT_PAT_LEN then (False, s)
           else if kind = TAINT_MATCH_SUFFIX then
             (let tn = tn - 1; pn = pn - 1
              in if features AND TE_POLICY_PATH_SUFFIX = 0 \<or> pn > int TAINT_SUF_MAX \<or> pn > tn then (False, s)
                 else
                   let off = tn - pn
                   in if off \<ge> int TAINT_PAT_LEN then (False, s)
                      else
                        let s = s\<lparr>pc_tail := te_copy TAINT_SUF_MAX text (nat off)\<rparr>
                        in (words_diff (TAINT_SUF_MAX div 8) (pc_tail s) (pc_pat s) pn = 0, s))
           else if kind = TAINT_MATCH_EXACT \<and> tn \<noteq> pn then (False, s)
           else (words_diff (TAINT_PAT_LEN div 8) (pc_text s) (pc_pat s) (pn - 1) = 0, s))"

section \<open>Command names\<close>

abbreviation (input) TAINT_COMM_LEN :: nat where "TAINT_COMM_LEN \<equiv> 16"

definition te_exec_simple_match_legacy :: "u8 \<Rightarrow> bytes \<Rightarrow> bytes \<Rightarrow> bool" where
  "te_exec_simple_match_legacy kind text pat =
     (if kind = TAINT_MATCH_ANY then True
      else if kind \<noteq> TAINT_MATCH_EXACT \<and> kind \<noteq> TAINT_MATCH_PREFIX then False
      else
        loop_on [0..<TAINT_COMM_LEN]
          (\<lambda>i diff. if kind = TAINT_MATCH_PREFIX \<and> rd pat i = 0 then (True, diff)
                    else (False, diff OR ucast (rd text i XOR rd pat i))) (0 :: u64) = 0)"

section \<open>Words under masks\<close>

lemma bit_fold_or:
  fixes g :: "'b \<Rightarrow> u64"
  shows "bit (fold (\<lambda>j w. w OR g j) js w) n \<longleftrightarrow> bit w n \<or> (\<exists>j \<in> set js. bit (g j) n)"
  by (induction js arbitrary: w) (auto simp: bit_or_iff)

lemma bit_word_at:
  "bit (word_at b i) n \<longleftrightarrow> n < 64 \<and> bit (rd b (8 * i + n div 8)) (n mod 8)"
proof -
  have u: "bit (ucast (w :: u8) :: u64) k \<longleftrightarrow> k < 8 \<and> bit w k" for w k
    using bit_imp_le_length [of w k] by (auto simp: bit_unsigned_iff)
  have p: "bit (push_bit m (w :: u64)) n \<longleftrightarrow> m \<le> n \<and> n < 64 \<and> bit w (n - m)" for m w
    unfolding bit_push_bit_iff by simp
  have g: "bit (push_bit (8 * j) (ucast (rd b (8 * i + j))) :: u64) n \<longleftrightarrow>
      n < 64 \<and> (8 * j \<le> n \<and> n - 8 * j < 8) \<and> bit (rd b (8 * i + j)) (n - 8 * j)" for j
    unfolding p u by blast
  have m: "n - 8 * (n div 8) = n mod 8" by (simp add: minus_mult_div_eq_mod)
  have j: "8 * j \<le> n \<and> n - 8 * j < 8 \<longleftrightarrow> j = n div 8" for j
    using m by (auto intro!: div_nat_eqI [symmetric])
  have "n < 64 \<Longrightarrow> n div 8 < 8" by simp
  then show ?thesis
    unfolding word_at_def bit_fold_or g j by (auto simp: m)
qed

lemma bit_path_mask: "bit (te_path_mask n) k \<longleftrightarrow> k < 64 \<and> int k < 8 * n"
proof -
  have "push_bit m 1 - 1 = (mask m :: u64)" for m
    by (simp add: mask_eq_exp_minus_1 push_bit_eq_mult)
  then show ?thesis
    by (auto simp: te_path_mask_def bit_mask_iff bit_not_iff)
qed

lemma masked_word:
  "(word_at a i XOR word_at b i) AND te_path_mask n = 0 \<longleftrightarrow>
     (\<forall>j < 8. int j < n \<longrightarrow> rd a (8 * i + j) = rd b (8 * i + j))" (is "?l \<longleftrightarrow> ?r")
proof
  assume l: ?l
  show ?r
  proof (intro allI impI)
    fix j
    assume j: "j < (8 :: nat)" "int j < n"
    show "rd a (8 * i + j) = rd b (8 * i + j)"
    proof (rule bit_word_eqI)
      fix m
      assume m: "m < LENGTH(8)"
      from l have "\<not> bit ((word_at a i XOR word_at b i) AND te_path_mask n) (8 * j + m)" by simp
      with j m show "bit (rd a (8 * i + j)) m = bit (rd b (8 * i + j)) m"
        by (auto simp: bit_and_iff bit_xor_iff bit_path_mask bit_word_at)
    qed
  qed
next
  assume r: ?r
  show ?l
  proof (rule bit_word_eqI)
    fix k
    assume "k < LENGTH(64)"
    then have "k div 8 < 8" "int k < 8 * n \<Longrightarrow> int (k div 8) < n" by simp_all
    with r show "bit ((word_at a i XOR word_at b i) AND te_path_mask n) k = bit 0 k"
      by (auto simp: bit_and_iff bit_xor_iff bit_path_mask bit_word_at)
  qed
qed

lemma words_diff_iff:
  "words_diff k a b n = 0 \<longleftrightarrow> (\<forall>j < 8 * k. int j < n \<longrightarrow> rd a j = rd b j)" (is "?l \<longleftrightarrow> ?r")
proof -
  have "?l \<longleftrightarrow> (\<forall>i < k. \<forall>j < 8. int (8 * i + j) < n \<longrightarrow> rd a (8 * i + j) = rd b (8 * i + j))"
    by (auto simp: words_diff_def fold_or_eq_0 masked_word algebra_simps)
  also have "\<dots> \<longleftrightarrow> ?r"
  proof
    assume h: "\<forall>i < k. \<forall>j < 8. int (8 * i + j) < n \<longrightarrow> rd a (8 * i + j) = rd b (8 * i + j)"
    show ?r
    proof (intro allI impI)
      fix j
      assume "j < 8 * k" "int j < n"
      then show "rd a j = rd b j" using h [rule_format, of "j div 8" "j mod 8"] by simp
    qed
  qed simp
  finally show ?thesis .
qed

section \<open>What the path matcher decides\<close>

text \<open>The string it sees: at most 63 bytes.\<close>

definition short_str :: "bytes \<Rightarrow> bytes" where
  "short_str b = cstr (take (TAINT_PAT_LEN - 1) b)"

lemma length_short_str: "length (short_str b) \<le> 63"
  using length_cstr_le [of "take 63 b"] by (simp add: short_str_def)

lemma rd_short_str: "i < length (short_str b) \<Longrightarrow> rd b i = short_str b ! i"
  using rd_cstr [of i "take 63 b"] length_short_str [of b] by (simp add: short_str_def rd_take)

lemma short_str_nonzero: "i < length (short_str b) \<Longrightarrow> short_str b ! i \<noteq> 0"
  using cstr_no_nul [of "short_str b ! i" "take 63 b"] by (simp add: short_str_def)

lemma takeWhile_take: "takeWhile P (take n xs) = take n (takeWhile P xs)"
  by (induction xs arbitrary: n) (auto simp: take_Cons split: nat.split)

lemma short_str_take: "short_str b = take 63 (pat_str b)"
proof -
  have "take 63 b = take 63 (take 64 b)" by simp
  then show ?thesis unfolding short_str_def pat_str_def cstr_def by (simp flip: takeWhile_take)
qed

lemma short_str_eq: "length (pat_str b) < TAINT_PAT_LEN \<Longrightarrow> short_str b = pat_str b"
  by (simp add: short_str_take)

lemma probe_read_str_eq:
  assumes "length dst = TAINT_PAT_LEN"
  shows "fst (probe_read_str dst src) = int (length (short_str src)) + 1"
    and "length (snd (probe_read_str dst src)) = TAINT_PAT_LEN"
    and "i < length (short_str src) \<Longrightarrow> rd (snd (probe_read_str dst src)) i = short_str src ! i"
    and "rd (snd (probe_read_str dst src)) (length (short_str src)) = 0"
  using assms length_short_str [of src]
  by (auto simp: probe_read_str_def Let_def short_str_def nth_append rd_def)

definition legacy_path_spec :: "u32 \<Rightarrow> u8 \<Rightarrow> bytes \<Rightarrow> bytes \<Rightarrow> bool" where
  "legacy_path_spec features kind t p \<longleftrightarrow>
     kind = TAINT_MATCH_ANY \<or>
     kind \<noteq> TAINT_MATCH_CONTAINS \<and> p \<noteq> [] \<and>
     (if kind = TAINT_MATCH_SUFFIX
      then features AND TE_POLICY_PATH_SUFFIX \<noteq> 0 \<and> length p \<le> TAINT_SUF_MAX \<and> suffix p t
      else if kind = TAINT_MATCH_EXACT then t = p else prefix p t)"

lemma read_prefix:
  assumes "length dst = TAINT_PAT_LEN" and "length dst' = TAINT_PAT_LEN"
  shows "words_diff 8 (snd (probe_read_str dst text)) (snd (probe_read_str dst' pat))
      (int (length (short_str pat))) = 0 \<longleftrightarrow> prefix (short_str pat) (short_str text)"
proof -
  let ?t = "short_str text" and ?p = "short_str pat"
  let ?rt = "rd (snd (probe_read_str dst text))"
  note rt = probe_read_str_eq [OF assms(1), where src = "text"]
    and rp = probe_read_str_eq [OF assms(2), where src = pat]
  have l: "length ?p \<le> 63" "length ?t \<le> 63" by (rule length_short_str)+
  have "words_diff 8 (snd (probe_read_str dst text)) (snd (probe_read_str dst' pat)) (int (length ?p)) = 0 \<longleftrightarrow>
      (\<forall>j < length ?p. ?rt j = ?p ! j)"
    using l rp(3) by (auto simp: words_diff_iff)
  also have "\<dots> \<longleftrightarrow> length ?p \<le> length ?t \<and> (\<forall>j < length ?p. ?t ! j = ?p ! j)"
  proof
    assume h: "\<forall>j < length ?p. ?rt j = ?p ! j"
    have "length ?p \<le> length ?t"
    proof (rule ccontr)
      assume "\<not> ?thesis"
      then have "?p ! length ?t = 0" using h rt(4) by (metis not_le)
      with \<open>\<not> ?thesis\<close> show False using short_str_nonzero [of "length ?t" pat] by simp
    qed
    with h rt(3) show "length ?p \<le> length ?t \<and> (\<forall>j < length ?p. ?t ! j = ?p ! j)" by auto
  qed (use rt(3) in auto)
  also have "\<dots> \<longleftrightarrow> prefix ?p ?t" by (simp add: prefix_occurs occurs_at_def)
  finally show ?thesis .
qed

lemma read_suffix:
  assumes "length dst = TAINT_PAT_LEN" and "length (short_str pat) \<le> TAINT_SUF_MAX"
    and "length (short_str pat) \<le> length (short_str text)"
  shows "words_diff 2 (te_copy TAINT_SUF_MAX text (length (short_str text) - length (short_str pat)))
      (snd (probe_read_str dst pat)) (int (length (short_str pat))) = 0 \<longleftrightarrow>
    suffix (short_str pat) (short_str text)"
  using assms probe_read_str_eq(3) [OF assms(1), where src = pat]
  by (auto simp: words_diff_iff rd_te_copy rd_short_str suffix_occurs occurs_at_def)

lemma te_path_match_legacy_spec:
  assumes "wf_scratch s"
  shows "fst (te_path_match_legacy features kind text pat s) =
      legacy_path_spec features kind (short_str text) (short_str pat)"
    and "wf_scratch (snd (te_path_match_legacy features kind text pat s))"
proof -
  let ?t = "short_str text" and ?p = "short_str pat"
  have len: "length (pc_text s) = 64" "length (pc_pat s) = 64" using assms by (simp_all add: wf_scratch_def)
  note rt = probe_read_str_eq(1,2) [OF len(1), of "text"] and rp = probe_read_str_eq(1,2) [OF len(2), of pat]
  have l: "length ?p \<le> 63" "length ?t \<le> 63" by (rule length_short_str)+
  have off: "nat (int (length ?t) - int (length ?p)) = length ?t - length ?p" by linarith
  show "fst (te_path_match_legacy features kind text pat s) = legacy_path_spec features kind ?t ?p"
  proof -
    consider "kind = TAINT_MATCH_ANY \<or> kind = TAINT_MATCH_CONTAINS \<or> ?p = []"
      | "kind = TAINT_MATCH_SUFFIX" "?p \<noteq> []"
      | "kind = TAINT_MATCH_EXACT" "?p \<noteq> []"
      | "kind \<notin> {TAINT_MATCH_ANY, TAINT_MATCH_CONTAINS, TAINT_MATCH_SUFFIX, TAINT_MATCH_EXACT}" "?p \<noteq> []"
      by blast
    then show ?thesis
    proof cases
      case 2
      then show ?thesis
        using l read_suffix [OF len(2), of pat "text"] suffix_length_le [of ?p ?t]
        by (simp add: te_path_match_legacy_def legacy_path_spec_def case_prod_beta Let_def rt rp off) linarith
    next
      case 3
      have "?t = ?p \<longleftrightarrow> length ?t = length ?p \<and> prefix ?p ?t" by (auto simp: prefix_def)
      with 3 show ?thesis
        using l read_prefix [OF len, of "text" pat]
        by (auto simp: te_path_match_legacy_def legacy_path_spec_def case_prod_beta Let_def rt rp)
    next
      case 4
      then show ?thesis
        using l read_prefix [OF len, of "text" pat]
        by (auto simp: te_path_match_legacy_def legacy_path_spec_def case_prod_beta Let_def rt rp)
    qed (auto simp: te_path_match_legacy_def legacy_path_spec_def case_prod_beta Let_def rt rp)
  qed
  show "wf_scratch (snd (te_path_match_legacy features kind text pat s))"
    using assms by (simp add: te_path_match_legacy_def wf_scratch_def case_prod_beta Let_def rt rp)
qed

section \<open>Agreement with the matchers of the regular build\<close>

text \<open>A pattern the build for old kernels accepts: a nonempty, NUL-padded string of at most 63 bytes (unless
  it matches everything), of a kind other than substring.\<close>

definition legacy_pattern :: "u8 \<Rightarrow> bytes \<Rightarrow> bool" where
  "legacy_pattern kind pat \<longleftrightarrow>
     kind = TAINT_MATCH_ANY \<or>
     kind \<in> {TAINT_MATCH_EXACT, TAINT_MATCH_PREFIX, TAINT_MATCH_SUFFIX} \<and> wf_pat pat \<and> pat_str pat \<noteq> [] \<and>
     length (pat_str pat) < TAINT_PAT_LEN"

text \<open>A text of at most \<open>n\<close> bytes, NUL-padded as far as the matchers look.\<close>

definition legacy_text :: "nat \<Rightarrow> bytes \<Rightarrow> bool" where
  "legacy_text n t \<longleftrightarrow> length (pat_str t) \<le> n \<and> (\<forall>i < TAINT_PAT_LEN. length (pat_str t) \<le> i \<longrightarrow> rd t i = 0)"

lemma streq_text:
  assumes "wf_pat pat" and "legacy_text n t"
  shows "taint_streq t pat \<longleftrightarrow> pat_str t = pat_str pat"
proof -
  let ?t = "pat_str t" and ?p = "pat_str pat"
  have rt: "rd t i = (if i < length ?t then ?t ! i else 0)" if "i < 64" for i
    using that assms(2) by (auto simp: legacy_text_def rd_pat_str)
  have nz: "i < length ?t \<Longrightarrow> ?t ! i \<noteq> 0" "i < length ?p \<Longrightarrow> ?p ! i \<noteq> 0" for i
    using pat_str_nonzero rd_pat_str by metis+
  have l: "length ?t \<le> 64" "length ?p \<le> 64" by (rule length_pat_str_le)+
  show ?thesis
  proof
    assume "taint_streq t pat"
    then have eq: "(if i < length ?t then ?t ! i else 0) = (if i < length ?p then ?p ! i else 0)" if "i < 64" for i
      using that rt [OF that] rd_wf_pat [OF assms(1) that] by (simp add: taint_streq_iff)
    have "\<not> length ?t < length ?p" using eq [of "length ?t"] nz(2) [of "length ?t"] l by auto
    moreover have "\<not> length ?p < length ?t" using eq [of "length ?p"] nz(1) [of "length ?p"] l by auto
    ultimately have len: "length ?t = length ?p" by simp
    moreover have "?t ! i = ?p ! i" if "i < length ?t" for i
      using eq [of i] that l len by simp
    ultimately show "?t = ?p" by (simp add: list_eq_iff_nth_eq)
  qed (simp add: taint_streq_iff rt rd_wf_pat [OF assms(1)])
qed

lemma legacy_path_equiv:
  assumes "wf_scratch s" and "legacy_pattern kind pat" and "legacy_text 63 text"
  shows "fst (te_path_match_legacy features kind text pat s) = te_path_match features kind text pat"
proof (cases "kind = TAINT_MATCH_ANY")
  case True
  then show ?thesis by (simp add: te_path_match_legacy_spec(1) [OF assms(1)] legacy_path_spec_def te_path_match_def)
next
  case False
  then have pat: "kind \<in> {TAINT_MATCH_EXACT, TAINT_MATCH_PREFIX, TAINT_MATCH_SUFFIX}" "wf_pat pat" "pat_str pat \<noteq> []"
    "length (pat_str pat) < TAINT_PAT_LEN"
    using assms(2) by (simp_all add: legacy_pattern_def)
  have tl: "length (pat_str text) < TAINT_PAT_LEN" using assms(3) by (simp add: legacy_text_def)
  from pat(1) consider "kind = TAINT_MATCH_EXACT" | "kind = TAINT_MATCH_PREFIX" | "kind = TAINT_MATCH_SUFFIX" by blast
  then show ?thesis
  proof cases
    case 1
    then show ?thesis
      unfolding te_path_match_legacy_spec(1) [OF assms(1)] legacy_path_spec_def te_path_match_def
        short_str_eq [OF tl] short_str_eq [OF pat(4)]
      using pat(3) streq_text [OF pat(2) assms(3)] by simp
  next
    case 2
    then show ?thesis
      unfolding te_path_match_legacy_spec(1) [OF assms(1)] legacy_path_spec_def te_path_match_def
        short_str_eq [OF tl] short_str_eq [OF pat(4)]
      using pat(3) taint_prefix_strings [OF pat(2)] by simp
  next
    case 3
    then show ?thesis
      unfolding te_path_match_legacy_spec(1) [OF assms(1)] legacy_path_spec_def te_path_match_def
        short_str_eq [OF tl] short_str_eq [OF pat(4)] taint_suffix_strings
      using pat(3) by simp
  qed
qed

section \<open>Command names: correctness\<close>

text \<open>The 16-byte loop: \<open>n\<close> is where the comparison ends.\<close>

lemma comm_loop:
  "loop_on [0..<TAINT_COMM_LEN] (\<lambda>i diff. if n \<le> i then (True, diff) else (False, diff OR ucast (rd a i XOR rd b i)))
     (0 :: u64) = 0 \<longleftrightarrow> (\<forall>i < min n TAINT_COMM_LEN. rd a i = rd b i)"
proof -
  have "loop_on [0..<m] (\<lambda>i diff. (False, diff OR ucast (rd a i XOR rd b i))) (0 :: u64) = 0 \<longleftrightarrow>
      (\<forall>i < m. rd a i = rd b i)" for m
    by (subst loop_on_fold [where f = "\<lambda>i diff. diff OR ucast (rd a i XOR rd b i)"]) (auto simp: byte_mask_simps)
  note all = this
  show ?thesis
  proof (cases "n \<le> TAINT_COMM_LEN")
    case True
    then show ?thesis
      using all [of n] loop_on_until [OF True, of 0 "\<lambda>i diff. (False, diff OR ucast (rd a i XOR rd b i))" "0 :: u64"] by simp
  next
    case False
    have "loop_on [0..<TAINT_COMM_LEN] (\<lambda>i diff. if n \<le> i then (True, diff) else (False, diff OR ucast (rd a i XOR rd b i))) (0 :: u64) =
        loop_on [0..<TAINT_COMM_LEN] (\<lambda>i diff. (False, diff OR ucast (rd a i XOR rd b i))) 0"
      using False by (intro loop_on_cong) auto
    with False all [of TAINT_COMM_LEN] show ?thesis by (simp add: min_def)
  qed
qed

lemma legacy_exec_equiv:
  assumes "legacy_pattern kind pat" and "kind \<noteq> TAINT_MATCH_SUFFIX" and "legacy_text 15 text"
  shows "te_exec_simple_match_legacy kind text pat = taint_exec_match kind text pat"
proof (cases "kind = TAINT_MATCH_ANY")
  case False
  then have k: "kind = TAINT_MATCH_EXACT \<or> kind = TAINT_MATCH_PREFIX" and pat: "wf_pat pat" "pat_str pat \<noteq> []"
    using assms(1,2) by (auto simp: legacy_pattern_def)
  let ?t = "pat_str text" and ?p = "pat_str pat"
  have l: "length ?t \<le> 15" using assms(3) by (simp add: legacy_text_def)
  have rt: "rd text i = (if i < length ?t then ?t ! i else 0)" if "i < 64" for i
    using that assms(3) by (auto simp: legacy_text_def rd_pat_str)
  have nz: "rd pat i = 0 \<longleftrightarrow> length ?p \<le> i" if "i < 64" for i
    using rd_wf_pat [OF pat(1) that] pat_str_nonzero [of i pat] by auto
  have short: "length ?p \<le> 15" if "\<forall>i < min (length ?p) 16. rd text i = rd pat i"
  proof (rule ccontr)
    assume "\<not> ?thesis"
    then have "rd text 15 = rd pat 15" "rd pat 15 \<noteq> 0" using that nz [of 15] by auto
    then show False using rt [of 15] l by simp
  qed
  from k show ?thesis
  proof
    assume e: "kind = TAINT_MATCH_EXACT"
    have "te_exec_simple_match_legacy kind text pat \<longleftrightarrow> (\<forall>i < 16. rd text i = rd pat i)"
      using e by (simp add: te_exec_simple_match_legacy_def loop_on_fold byte_mask_simps atLeast0LessThan Ball_def)
    also have "\<dots> \<longleftrightarrow> taint_streq text pat"
    proof
      assume h: "\<forall>i < 16. rd text i = rd pat i"
      then have p: "length ?p \<le> 15" by (intro short) simp
      have "rd text i = rd pat i" if "i < 64" for i
        using h rt [OF that] rd_wf_pat [OF pat(1) that] l p by (cases "i < 16") auto
      then show "taint_streq text pat" by (simp add: taint_streq_iff)
    qed (simp add: taint_streq_iff)
    finally show ?thesis using e by (simp add: taint_exec_match_def)
  next
    assume e: "kind = TAINT_MATCH_PREFIX"
    have "te_exec_simple_match_legacy kind text pat \<longleftrightarrow> (\<forall>i < min (length ?p) 16. rd text i = rd pat i)"
      unfolding comm_loop [symmetric] using e nz by (auto simp: te_exec_simple_match_legacy_def intro!: arg_cong [where f = "\<lambda>x. x = 0"] loop_on_cong)
    also have "\<dots> \<longleftrightarrow> taint_prefix text pat"
      using short nz pat(2) by (auto simp: taint_prefix_iff intro!: exI [of _ 0])
    finally show ?thesis using e by (simp add: taint_exec_match_def)
  qed
qed (simp add: te_exec_simple_match_legacy_def taint_exec_match_def)

text \<open>The path matcher of the build for Linux 5.10, which copies the strings and compares them a word at a
  time under a mask, decides exactly what the regular matcher decides, whatever bytes earlier comparisons
  left in the scratch buffers, for exact, prefix, suffix and any patterns of at most 63 bytes on paths of
  at most 63 bytes.\<close>

theorem te_path_match_legacy_equiv:
  assumes "wf_scratch s" and "legacy_pattern kind pat" and "legacy_text 63 text"
  shows "fst (te_path_match_legacy features kind text pat s) = te_path_match features kind text pat"
  using assms by (rule legacy_path_equiv)

theorem te_path_match_legacy_equiv_witness:
  "fst (te_path_match_legacy TE_POLICY_PATH_SUFFIX TAINT_MATCH_SUFFIX (str_bytes ''/srv/app/.env'') (padded 64 (str_bytes ''.env''))
      \<lparr>pc_text = replicate 64 7, pc_pat = replicate 64 9, pc_tail = []\<rparr>) \<and>
   te_path_match TE_POLICY_PATH_SUFFIX TAINT_MATCH_SUFFIX (str_bytes ''/srv/app/.env'') (padded 64 (str_bytes ''.env''))"
proof -
  let ?s = "\<lparr>pc_text = replicate 64 7, pc_pat = replicate 64 9, pc_tail = []\<rparr>"
  have "legacy_pattern TAINT_MATCH_SUFFIX (padded 64 (str_bytes ''.env''))"
    by (simp add: legacy_pattern_def wf_pat_padded str_bytes_def pat_str_def cstr_padded padded_def cstr_def wf_pat_def nul_padded_def)
  moreover have "legacy_text 63 (str_bytes ''/srv/app/.env'')"
    by (auto simp: legacy_text_def str_bytes_def pat_str_def cstr_def rd_def)
  moreover have "wf_scratch ?s" by (simp add: wf_scratch_def)
  moreover have "te_path_match TE_POLICY_PATH_SUFFIX TAINT_MATCH_SUFFIX (str_bytes ''/srv/app/.env'') (padded 64 (str_bytes ''.env''))"
    by (simp add: te_path_match_def taint_suffix_strings str_bytes_def pat_str_def cstr_def padded_def suffix_def)
  ultimately show ?thesis
    using te_path_match_legacy_equiv [of ?s TAINT_MATCH_SUFFIX "padded 64 (str_bytes ''.env'')" "str_bytes ''/srv/app/.env''" TE_POLICY_PATH_SUFFIX]
    by blast
qed

text \<open>Where the two differ: an exact pattern of 63 bytes also matches, on an old kernel, every longer path that
  starts with it, since the copy of the path is cut to the same length.\<close>

lemma legacy_exact_cut:
  assumes "wf_scratch s" and "wf_pat pat" and "length (pat_str pat) = 63" and "prefix (pat_str pat) (pat_str text)"
    and "pat_str text \<noteq> pat_str pat"
  shows "fst (te_path_match_legacy features TAINT_MATCH_EXACT text pat s)"
    and "\<not> te_path_match features TAINT_MATCH_EXACT text pat"
proof -
  have "length (pat_str text) \<noteq> 63"
    using assms(3-5) by (auto simp: prefix_def)
  then have l: "length (pat_str text) = 64"
    using prefix_length_le [OF assms(4)] assms(3) length_pat_str_le [of "text"] by simp
  have "take 63 (pat_str text) = pat_str pat" using assms(3,4) by (auto simp: prefix_def)
  then show "fst (te_path_match_legacy features TAINT_MATCH_EXACT text pat s)"
    using assms(3) by (auto simp: te_path_match_legacy_spec(1) [OF assms(1)] legacy_path_spec_def short_str_take)
  have "rd text 63 \<noteq> 0" using l by (intro pat_str_nonzero) simp
  moreover have "rd pat 63 = 0" using rd_wf_pat [OF assms(2), of 63] assms(3) by simp
  ultimately show "\<not> te_path_match features TAINT_MATCH_EXACT text pat"
    by (auto simp: te_path_match_def taint_streq_iff intro!: exI [of _ 63])
qed

end
