(* ===== verification/Legacy_Scan.thy ===== *)
theory Legacy_Scan
  imports Legacy_Match Rules
begin

text \<open>
  The table scans of the build for Linux 5.10 (the \<^verbatim>\<open>ACTPLANE_LEGACY_KERNEL\<close> branches of
  \<^verbatim>\<open>bpf/taint_engine.bpf.h\<close>, \<^verbatim>\<open>bpf/capability.bpf.h\<close> and \<^verbatim>\<open>bpf/process.bpf.c\<close>). The counts are
  constants of the loaded object, the tables are grouped by operation (files, network, exec) and a scan runs
  over one group only; there is one capability domain, there are no argument constraints, and exec rules
  need one pass instead of two. On a policy within those limits the scans return what the regular ones return.
\<close>

section \<open>The constants of the object\<close>

record legacy_consts =
  legacy_n_rules :: u32
  legacy_n_updates :: u32
  legacy_n_file_rules :: u32
  legacy_n_file_updates :: u32
  legacy_n_net_rules :: u32
  legacy_n_net_updates :: u32

definition te_count_legacy :: "legacy_consts \<Rightarrow> nat \<Rightarrow> u32" where
  "te_count_legacy L slot =
     (if slot = 0 then legacy_n_rules L else if slot = 1 then legacy_n_updates L
      else if slot = 5 then of_nat MAX_TAINT_LABELS else 0)"

definition te_group_start :: "u8 \<Rightarrow> u32 \<Rightarrow> u32 \<Rightarrow> u32" where
  "te_group_start op file net =
     (if op = TOP_CONNECT \<or> op = TOP_RECV then file else if op = TOP_EXEC then file + net else 0)"

definition te_group_count :: "u8 \<Rightarrow> u32 \<Rightarrow> u32 \<Rightarrow> u32 \<Rightarrow> u32" where
  "te_group_count op n file net =
     (if op = TOP_OPEN \<or> op = TOP_WRITE then file
      else if op = TOP_CONNECT \<or> op = TOP_RECV then net
      else n - te_group_start op file net)"

definition te_update_start :: "legacy_consts \<Rightarrow> u8 \<Rightarrow> u32" where
  "te_update_start L op = te_group_start op (legacy_n_file_updates L) (legacy_n_net_updates L)"

definition te_update_count :: "legacy_consts \<Rightarrow> u8 \<Rightarrow> u32" where
  "te_update_count L op =
     te_group_count op (legacy_n_updates L) (legacy_n_file_updates L) (legacy_n_net_updates L)"

definition te_rule_start :: "legacy_consts \<Rightarrow> u8 \<Rightarrow> u32" where
  "te_rule_start L op = te_group_start op (legacy_n_file_rules L) (legacy_n_net_rules L)"

definition te_rule_count :: "legacy_consts \<Rightarrow> u8 \<Rightarrow> u32" where
  "te_rule_count L op = te_group_count op (legacy_n_rules L) (legacy_n_file_rules L) (legacy_n_net_rules L)"

section \<open>One domain\<close>

abbreviation (input) CAP_DOMAIN_DEPTH_legacy :: nat where "CAP_DOMAIN_DEPTH_legacy \<equiv> 1"

definition cap_domain_matches_pid_legacy :: "'a cap_maps_scheme \<Rightarrow> pid_t \<Rightarrow> u32 \<Rightarrow> bool" where
  "cap_domain_matches_pid_legacy st pid domain_id =
     (if domain_id = 0 then True
      else case map_lookup (cap_task st) pid of
             None \<Rightarrow> False
           | Some target \<Rightarrow>
               if target = 0 then False
               else cap_match_loop CAP_DOMAIN_DEPTH_legacy st target domain_id)"

definition cap_labels_for_pid_domain_legacy :: "'a cap_maps_scheme \<Rightarrow> pid_t \<Rightarrow> u32 \<Rightarrow> u64" where
  "cap_labels_for_pid_domain_legacy st pid domain_id =
     (if domain_id = 0 then 0
      else if \<not> cap_domain_matches_pid_legacy st pid domain_id then 0
      else case map_lookup (cap_states st) domain_id of
             None \<Rightarrow> 0
           | Some p \<Rightarrow> cs_labels p OR cs_restrict_mask p)"

definition te_labels_for_domain_legacy :: "'a engine_scheme \<Rightarrow> pid_t \<Rightarrow> u32 \<Rightarrow> u64" where
  "te_labels_for_domain_legacy st pid domain_id =
     (if \<not> te_pid_active st pid then 0
      else if \<not> cap_domain_matches_pid_legacy st pid domain_id then 0
      else
        let labels = (case te_get_domain st pid domain_id of None \<Rightarrow> 0 | Some p \<Rightarrow> ps_labels p)
        in labels OR cap_labels_for_pid_domain_legacy st pid domain_id)"

definition te_file_stored_labels_domain_legacy :: "'a engine_scheme \<Rightarrow> file_id \<Rightarrow> pid_t \<Rightarrow> u32 \<Rightarrow> u64" where
  "te_file_stored_labels_domain_legacy st fid pid domain_id =
     (if \<not> cap_domain_matches_pid_legacy st pid domain_id then 0
      else case map_lookup (ts_file st) (te_file_domain_key_for domain_id fid) of
             None \<Rightarrow> 0 | Some fs \<Rightarrow> fs_labels fs)"

section \<open>One rule\<close>

text \<open>The dispatch on the operation that the rule's target and its \<^verbatim>\<open>unless target\<close> condition share.\<close>

definition event_match_legacy ::
  "u32 \<Rightarrow> te_rule_eval \<Rightarrow> u32 \<Rightarrow> u32 \<Rightarrow> u8 \<Rightarrow> bytes \<Rightarrow> te_path_cmp_scratch \<Rightarrow> bool \<times> te_path_cmp_scratch" where
  "event_match_legacy features e ipv4 ipv4_mask kind pat s =
     (if ev_op e = TOP_CONNECT \<or> ev_op e = TOP_RECV then (ev_ip e AND ipv4_mask = ipv4, s)
      else if ev_op e = TOP_EXEC then (te_exec_simple_match_legacy kind (ev_target e) pat, s)
      else te_path_match_legacy features kind (ev_target e) pat s)"

definition te_cond_satisfied_legacy ::
  "'a engine_scheme \<Rightarrow> taint_rule \<Rightarrow> te_rule_eval \<Rightarrow> te_path_cmp_scratch \<Rightarrow> bool \<times> te_path_cmp_scratch" where
  "te_cond_satisfied_legacy st r e s =
     (if ru_cond_kind r = TCOND_NONE then (False, s)
      else if ru_cond_kind r = TCOND_LINEAGE then
        ((case te_get_domain st (ev_pid e) (ru_domain_id r) of
            None \<Rightarrow> False | Some p \<Rightarrow> ps_lin_gates p AND ru_gate r \<noteq> 0), s)
      else if ru_cond_kind r = TCOND_AFTER then (te_after_satisfied st r (ev_pid e), s)
      else
        let (m, s) = event_match_legacy (policy_features st) e (ru_cond_ipv4 r) (ru_cond_ipv4_mask r)
                       (ru_cond_match r) (ru_cond_pat r) s
        in (if ru_cond_neg r \<noteq> 0 then \<not> m else m, s))"

definition rule_in_domain_legacy :: "'a engine_scheme \<Rightarrow> te_rule_eval \<Rightarrow> taint_rule \<Rightarrow> bool" where
  "rule_in_domain_legacy st e r =
     (\<not> (ru_domain_id r \<noteq> 0 \<and> ru_domain_id r \<noteq> ev_current_domain_id e \<and>
         \<not> cap_domain_matches_pid_legacy st (ev_pid e) (ru_domain_id r)))"

definition rule_labels_legacy :: "'a engine_scheme \<Rightarrow> te_rule_eval \<Rightarrow> taint_rule \<Rightarrow> u64" where
  "rule_labels_legacy st e r =
     (if ru_domain_id r = 0 then ev_global_labels e
      else if ru_domain_id r = ev_current_domain_id e then ev_current_labels e
      else te_labels_for_domain_legacy st (ev_pid e) (ru_domain_id r))"

definition rule_object_labels_legacy :: "'a engine_scheme \<Rightarrow> te_rule_eval \<Rightarrow> taint_rule \<Rightarrow> u64" where
  "rule_object_labels_legacy st e r =
     (if ev_include_file_labels e \<and> ev_has_fid e
      then te_file_stored_labels_domain_legacy st (ev_fid e) (ev_pid e) (ru_domain_id r) else 0)"

definition te_rule_effect_legacy ::
  "'a engine_scheme \<Rightarrow> nat \<Rightarrow> te_rule_eval \<times> te_path_cmp_scratch \<Rightarrow> u8 option \<times> te_rule_eval \<times> te_path_cmp_scratch" where
  "te_rule_effect_legacy st idx c =
     (let (e, s) = c
      in if MAX_TAINT_RULES \<le> idx then (None, e, s)
         else case arr_lookup (ts_rules st) idx of
                None \<Rightarrow> (None, e, s)
              | Some r \<Rightarrow>
                  if \<not> cap_policy_rule_bound st (ru_domain_id r) idx then (None, e, s)
                  else if ru_op r \<noteq> ev_op e then (None, e, s)
                  else if \<not> rule_in_domain_legacy st e r then (None, e, s)
                  else if \<not> effect_wanted e r then (None, e, s)
                  else
                    let labels = rule_labels_legacy st e r OR rule_object_labels_legacy st e r
                    in if \<not> taint_mask_ok labels (ru_req r) (ru_forbid r) then (None, e, s)
                       else
                         let (m, s) = event_match_legacy (policy_features st) e (ru_ipv4 r) (ru_ipv4_mask r)
                                        (ru_match r) (ru_target r) s
                         in if \<not> m then (None, e, s)
                            else
                              let (sat, s) = te_cond_satisfied_legacy st r e s
                              in if sat then (None, e, s)
                                 else (Some (ru_effect r), record_match idx r labels e, s))"

definition te_rule_effect_exec_simple_legacy ::
  "'a engine_scheme \<Rightarrow> nat \<Rightarrow> te_rule_eval \<times> te_path_cmp_scratch \<Rightarrow> u8 option \<times> te_rule_eval \<times> te_path_cmp_scratch" where
  "te_rule_effect_exec_simple_legacy st idx c =
     (let (e, s) = c
      in if MAX_TAINT_RULES \<le> idx then (None, e, s)
         else case arr_lookup (ts_rules st) idx of
                None \<Rightarrow> (None, e, s)
              | Some r \<Rightarrow>
                  if \<not> cap_policy_rule_bound st (ru_domain_id r) idx then (None, e, s)
                  else if ru_op r \<noteq> TOP_EXEC then (None, e, s)
                  else if \<not> rule_in_domain_legacy st e r then (None, e, s)
                  else if \<not> effect_wanted e r then (None, e, s)
                  else if \<not> taint_mask_ok (rule_labels_legacy st e r) (ru_req r) (ru_forbid r) then (None, e, s)
                  else if \<not> te_exec_simple_match_legacy (ru_match r) (ev_target e) (ru_target r) then (None, e, s)
                  else
                    let (sat, s) = te_cond_satisfied_legacy st r e s
                    in if sat then (None, e, s)
                       else (Some (ru_effect r), record_match idx r (rule_labels_legacy st e r) e, s))"

section \<open>The rule scans\<close>

text \<open>The callbacks add the start of the group to the index, as 32-bit numbers.\<close>

definition scan_index :: "u32 \<Rightarrow> nat \<Rightarrow> nat" where
  "scan_index start i = unat (of_nat i + start)"

definition te_rule_cb_legacy ::
  "'a engine_scheme \<Rightarrow> u32 \<Rightarrow> nat \<Rightarrow> te_rule_eval \<times> te_path_cmp_scratch \<Rightarrow> bool \<times> te_rule_eval \<times> te_path_cmp_scratch" where
  "te_rule_cb_legacy st rule_start i c =
     (let (eff, e, s) = te_rule_effect_legacy st (scan_index rule_start i) c;
          (stop, e) = te_record_best e eff
      in (stop, e, s))"

definition te_rule_exec_simple_cb_legacy ::
  "'a engine_scheme \<Rightarrow> u32 \<Rightarrow> nat \<Rightarrow> te_rule_eval \<times> te_path_cmp_scratch \<Rightarrow> bool \<times> te_rule_eval \<times> te_path_cmp_scratch" where
  "te_rule_exec_simple_cb_legacy st rule_start i c =
     (let (eff, e, s) = te_rule_effect_exec_simple_legacy st (scan_index rule_start i) c;
          (stop, e) = te_record_best e eff
      in (stop, e, s))"

definition te_check_labels_range_legacy ::
  "'a engine_scheme \<Rightarrow> te_path_cmp_scratch \<Rightarrow> te_rule_eval \<Rightarrow> u32 \<Rightarrow> u32 \<Rightarrow> s32 \<times> te_rule_eval \<times> te_path_cmp_scratch" where
  "te_check_labels_range_legacy st s e start count =
     (let (e, s) = bpf_loop_legacy count (te_rule_cb_legacy st start) (best_reset e, s);
          e = best_commit e
      in (ev_best_rule e, e, s))"

definition te_check_labels_legacy ::
  "legacy_consts \<Rightarrow> 'a engine_scheme \<Rightarrow> te_path_cmp_scratch \<Rightarrow> te_rule_eval \<Rightarrow> s32 \<times> te_rule_eval \<times> te_path_cmp_scratch" where
  "te_check_labels_legacy L st s e =
     te_check_labels_range_legacy st s e (te_rule_start L (ev_op e)) (te_rule_count L (ev_op e))"

definition te_check_file_labels_legacy ::
  "legacy_consts \<Rightarrow> 'a engine_scheme \<Rightarrow> te_path_cmp_scratch \<Rightarrow> te_rule_eval \<Rightarrow> s32 \<times> te_rule_eval \<times> te_path_cmp_scratch" where
  "te_check_file_labels_legacy L st s e = te_check_labels_range_legacy st s e 0 (legacy_n_file_rules L)"

definition te_check_net_labels_legacy ::
  "legacy_consts \<Rightarrow> 'a engine_scheme \<Rightarrow> te_path_cmp_scratch \<Rightarrow> te_rule_eval \<Rightarrow> s32 \<times> te_rule_eval \<times> te_path_cmp_scratch" where
  "te_check_net_labels_legacy L st s e =
     te_check_labels_range_legacy st s e (legacy_n_file_rules L) (legacy_n_net_rules L)"

definition te_check_exec_simple_legacy ::
  "legacy_consts \<Rightarrow> 'a engine_scheme \<Rightarrow> te_path_cmp_scratch \<Rightarrow> te_rule_eval \<Rightarrow> s32 \<times> te_rule_eval \<times> te_path_cmp_scratch" where
  "te_check_exec_simple_legacy L st s e =
     (let (e, s) = bpf_loop_legacy (te_rule_count L (ev_op e)) (te_rule_exec_simple_cb_legacy st (te_rule_start L (ev_op e)))
                     (best_reset e, s);
          e = best_commit e
      in (ev_best_rule e, e, s))"

section \<open>The update scans\<close>

text \<open>The bodies of the callbacks at a table index; the callbacks themselves move the index into the group. On old
  kernels the exec pass reads no arguments and covers exact and prefix patterns at once.\<close>

definition exec_update_at :: "'a engine_scheme \<Rightarrow> nat \<Rightarrow> te_update_ctx \<Rightarrow> bool \<times> te_update_ctx" where
  "exec_update_at st i c =
     (if MAX_TAINT_UPDATES \<le> i then (True, c)
      else case arr_lookup (ts_updates st) i of
             None \<Rightarrow> (True, c)
           | Some u \<Rightarrow>
               if up_op u \<noteq> TOP_EXEC then (False, c)
               else if up_domain_id u \<noteq> uc_domain_id c then (False, c)
               else if \<not> te_exec_simple_match_legacy (up_match u) (uc_target c) (up_target u) then (False, c)
               else (False, te_update_accum u c))"

definition te_exec_update_simple_cb_legacy ::
  "legacy_consts \<Rightarrow> 'a engine_scheme \<Rightarrow> nat \<Rightarrow> te_update_ctx \<Rightarrow> bool \<times> te_update_ctx" where
  "te_exec_update_simple_cb_legacy L st i c = exec_update_at st (scan_index (te_update_start L TOP_EXEC) i) c"

definition te_collect_exec_updates_legacy :: "legacy_consts \<Rightarrow> 'a engine_scheme \<Rightarrow> te_update_ctx \<Rightarrow> te_update_ctx" where
  "te_collect_exec_updates_legacy L st c =
     bpf_loop_legacy (te_update_count L TOP_EXEC) (te_exec_update_simple_cb_legacy L st) c"

definition file_update_at ::
  "'a engine_scheme \<Rightarrow> nat \<Rightarrow> te_update_ctx \<times> te_path_cmp_scratch \<Rightarrow> bool \<times> te_update_ctx \<times> te_path_cmp_scratch" where
  "file_update_at st i x =
     (let (c, s) = x
      in if MAX_TAINT_UPDATES \<le> i then (True, c, s)
         else case arr_lookup (ts_updates st) i of
                None \<Rightarrow> (True, c, s)
              | Some u \<Rightarrow>
                  if up_op u \<noteq> uc_op c then (False, c, s)
                  else if up_domain_id u \<noteq> uc_domain_id c then (False, c, s)
                  else
                    let (m, s) = te_path_match_legacy (policy_features st) (up_match u) (uc_target c) (up_target u) s
                    in if \<not> m then (False, c, s) else (False, te_update_accum u c, s))"

definition te_file_update_cb_legacy ::
  "legacy_consts \<Rightarrow> 'a engine_scheme \<Rightarrow> nat \<Rightarrow> te_update_ctx \<times> te_path_cmp_scratch \<Rightarrow>
   bool \<times> te_update_ctx \<times> te_path_cmp_scratch" where
  "te_file_update_cb_legacy L st i x = file_update_at st (scan_index (te_update_start L (uc_op (fst x))) i) x"

definition te_collect_file_updates_legacy ::
  "legacy_consts \<Rightarrow> 'a engine_scheme \<Rightarrow> te_path_cmp_scratch \<Rightarrow> te_update_ctx \<Rightarrow> te_update_ctx \<times> te_path_cmp_scratch" where
  "te_collect_file_updates_legacy L st s c =
     bpf_loop_legacy (te_update_count L (uc_op c)) (te_file_update_cb_legacy L st) (c, s)"

text \<open>The endpoint callback is the regular one at the moved index.\<close>

definition te_endpoint_update_cb_legacy ::
  "legacy_consts \<Rightarrow> 'a engine_scheme \<Rightarrow> nat \<Rightarrow> te_update_ctx \<Rightarrow> bool \<times> te_update_ctx" where
  "te_endpoint_update_cb_legacy L st i c = te_endpoint_update_cb st (scan_index (te_update_start L (uc_op c)) i) c"

definition te_collect_endpoint_updates_legacy ::
  "legacy_consts \<Rightarrow> 'a engine_scheme \<Rightarrow> te_update_ctx \<Rightarrow> te_update_ctx" where
  "te_collect_endpoint_updates_legacy L st c =
     bpf_loop_legacy (te_update_count L (uc_op c)) (te_endpoint_update_cb_legacy L st) c"

section \<open>Policies within the limits\<close>

definition op_class :: "u8 \<Rightarrow> nat" where
  "op_class op = (if op = TOP_OPEN \<or> op = TOP_WRITE then 0 else if op = TOP_CONNECT \<or> op = TOP_RECV then 1 else 2)"

text \<open>A table of \<open>n\<close> entries in three groups: the file entries, the network entries and the exec entries.\<close>

definition grouped :: "(nat \<Rightarrow> u8) \<Rightarrow> nat \<Rightarrow> nat \<Rightarrow> nat \<Rightarrow> bool" where
  "grouped op n file net \<longleftrightarrow>
     file + net \<le> n \<and>
     (\<forall>i < n. op i \<le> TOP_RECV \<and> op_class (op i) = (if i < file then 0 else if i < file + net then 1 else 2))"

definition legacy_operand :: "u8 \<Rightarrow> u8 \<Rightarrow> bytes \<Rightarrow> bool" where
  "legacy_operand op kind pat \<longleftrightarrow>
     op_class op = 1 \<or> legacy_pattern kind pat \<and> (op = TOP_EXEC \<longrightarrow> kind \<noteq> TAINT_MATCH_SUFFIX)"

definition legacy_rule :: "taint_rule \<Rightarrow> bool" where
  "legacy_rule r \<longleftrightarrow>
     ru_domain_id r = 0 \<and> rd (ru_arg r) 0 = 0 \<and> legacy_operand (ru_op r) (ru_match r) (ru_target r) \<and>
     (ru_cond_kind r \<notin> {TCOND_NONE, TCOND_LINEAGE, TCOND_AFTER} \<longrightarrow>
      legacy_operand (ru_op r) (ru_cond_match r) (ru_cond_pat r))"

definition legacy_update :: "taint_update \<Rightarrow> bool" where
  "legacy_update u \<longleftrightarrow>
     up_domain_id u = 0 \<and> rd (up_arg u) 0 = 0 \<and> legacy_operand (up_op u) (up_match u) (up_target u)"

definition legacy_policy :: "legacy_consts \<Rightarrow> 'a engine_scheme \<Rightarrow> bool" where
  "legacy_policy L st \<longleftrightarrow>
     unat (legacy_n_rules L) = n_rules st \<and> unat (legacy_n_updates L) = n_updates st \<and>
     grouped (\<lambda>i. ru_op (a_cell (ts_rules st) i)) (n_rules st)
       (unat (legacy_n_file_rules L)) (unat (legacy_n_net_rules L)) \<and>
     grouped (\<lambda>i. up_op (a_cell (ts_updates st) i)) (n_updates st)
       (unat (legacy_n_file_updates L)) (unat (legacy_n_net_updates L)) \<and>
     (\<forall>r \<in> set (active_rules st). legacy_rule r) \<and> (\<forall>u \<in> set (active_updates st). legacy_update u)"

text \<open>Targets the build for old kernels compares in full: paths of 63 bytes, command names of 15.\<close>

definition legacy_target :: "u8 \<Rightarrow> bytes \<Rightarrow> bool" where
  "legacy_target op t \<longleftrightarrow> op \<le> TOP_RECV \<and> (op_class op = 1 \<or> legacy_text (if op = TOP_EXEC then 15 else 63) t)"

section \<open>A scan of one group is a scan of the table\<close>

lemma loop_on_filter:
  assumes "Inv c"
    and "\<And>i c. i \<in> set is \<Longrightarrow> Inv c \<Longrightarrow> P i \<Longrightarrow> Inv (snd (cb i c)) \<and> cb' i (h c) = map_prod id h (cb i c)"
    and "\<And>i c. i \<in> set is \<Longrightarrow> Inv c \<Longrightarrow> \<not> P i \<Longrightarrow> cb' i (h c) = (False, h c)"
  shows "loop_on is cb' (h c) = h (loop_on (filter P is) cb c)"
  using assms
proof (induction "is" arbitrary: c)
  case (Cons i "is")
  show ?case
  proof (cases "P i")
    case True
    then have s: "Inv (snd (cb i c))" "cb' i (h c) = map_prod id h (cb i c)"
      using Cons.prems(1,2) by (meson list.set_intros(1))+
    with True show ?thesis
      using Cons.IH [OF s(1)] Cons.prems(2,3) by (auto simp: map_prod_def split: prod.splits)
  next
    case False
    then show ?thesis using Cons by auto
  qed
qed simp

lemma filter_range: "a + k \<le> n \<Longrightarrow> filter (\<lambda>i. a \<le> i \<and> i < a + k) [0..<n] = [a..<a + k]"
proof -
  assume "a + k \<le> n"
  then obtain m where n: "n = a + k + m" by (metis le_iff_add)
  have "[0..<n] = [0..<a] @ [a..<a + k] @ [a + k..<n]"
    unfolding n using upt_add_eq_append [of 0 a "k + m"] upt_add_eq_append [of a "a + k" m] by (simp add: add.assoc)
  moreover have "filter P [0..<a] = []" if "\<And>i. i < a \<Longrightarrow> \<not> P i" for P using that by (simp add: filter_empty_conv)
  moreover have "filter P [a + k..<n] = []" if "\<And>i. a + k \<le> i \<Longrightarrow> \<not> P i" for P using that by (simp add: filter_empty_conv)
  moreover have "filter P [a..<a + k] = [a..<a + k]" if "\<And>i. a \<le> i \<Longrightarrow> i < a + k \<Longrightarrow> P i" for P using that by (simp add: filter_id_conv)
  ultimately show ?thesis by simp
qed

lemma loop_on_map: "loop_on (map f is) cb c = loop_on is (\<lambda>i. cb (f i)) c"
  by (induction "is" arbitrary: c) (auto split: prod.splits)

lemma scan_index_eq: "i + unat start < 2 ^ 32 \<Longrightarrow> scan_index start i = unat start + i"
  unfolding scan_index_def by (simp add: unat_word_ariths unat_of_nat)

lemma op_cases:
  assumes "(op :: u8) \<le> TOP_RECV"
  obtains "op = TOP_EXEC" | "op = TOP_OPEN" | "op = TOP_WRITE" | "op = TOP_CONNECT" | "op = TOP_RECV"
proof -
  have "unat op \<le> 4" using assms by (simp add: word_le_nat_alt)
  then have "unat op = 0 \<or> unat op = 1 \<or> unat op = 2 \<or> unat op = 3 \<or> unat op = 4" by linarith
  then have "op = 0 \<or> op = 1 \<or> op = 2 \<or> op = 3 \<or> op = 4" by (auto simp: word_unat_eq_iff)
  then show ?thesis using that by blast
qed

lemma op_class_simps [simp]:
  "op_class TOP_EXEC = 2" "op_class TOP_OPEN = 0" "op_class TOP_WRITE = 0" "op_class TOP_CONNECT = 1" "op_class TOP_RECV = 1"
  by (simp_all add: op_class_def)

lemma group_range:
  assumes "grouped op (unat n) (unat file) (unat net)" and "p \<le> TOP_RECV"
  shows "unat (te_group_start p file net) + unat (te_group_count p n file net) \<le> unat n"
    and "i < unat n \<Longrightarrow> (unat (te_group_start p file net) \<le> i \<and>
      i < unat (te_group_start p file net) + unat (te_group_count p n file net)) = (op_class (op i) = op_class p)"
proof -
  have le: "unat file + unat net \<le> unat n" using assms(1) by (simp add: grouped_def)
  then have "unat file + unat net < 2 ^ LENGTH(32)" using unsigned_less [of n, where ?'a = nat] by simp
  then have s: "unat (file + net) = unat file + unat net" by (rule unat_add_lem [THEN iffD1])
  then have d: "unat (n - (file + net)) = unat n - (unat file + unat net)"
    using le by (subst unat_sub) (simp_all add: word_le_nat_alt)
  have g: "op_class (op i) = (if i < unat file then 0 else if i < unat file + unat net then 1 else 2)" if "i < unat n"
    using assms(1) that by (simp add: grouped_def)
  from assms(2) show "unat (te_group_start p file net) + unat (te_group_count p n file net) \<le> unat n"
    by (cases rule: op_cases) (use le s d in \<open>auto simp: te_group_start_def te_group_count_def\<close>)
  from assms(2) show "(unat (te_group_start p file net) \<le> i \<and>
      i < unat (te_group_start p file net) + unat (te_group_count p n file net)) = (op_class (op i) = op_class p)"
    if "i < unat n"
    by (cases rule: op_cases)
      (use le s d g [OF that] that in \<open>auto simp: te_group_start_def te_group_count_def split: if_splits\<close>)
qed

text \<open>The step that all the scans share: the callback of the regular build skips the other groups and does in this
  group what the callback \<open>cb\<close> does, up to the scratch that \<open>h\<close> forgets.\<close>

lemma group_scan:
  assumes g: "grouped op (unat n) (unat file) (unat net)" and p: "p \<le> TOP_RECV" and n: "unat n \<le> MAX_TAINT_UPDATES"
    and inv: "Inv c"
    and inside: "\<And>i c. i < unat n \<Longrightarrow> Inv c \<Longrightarrow> Inv (snd (cb i c)) \<and> cb' i (h c) = map_prod id h (cb i c)"
    and outside: "\<And>i c. i < unat n \<Longrightarrow> Inv c \<Longrightarrow> op_class (op i) \<noteq> op_class p \<Longrightarrow> cb' i (h c) = (False, h c)"
  shows "h (bpf_loop_legacy (te_group_count p n file net) (\<lambda>i. cb (scan_index (te_group_start p file net) i)) c) =
    bpf_loop n cb' (h c)"
proof -
  let ?a = "unat (te_group_start p file net)" and ?k = "unat (te_group_count p n file net)"
  note r = group_range [OF g p]
  have "bpf_loop n cb' (h c) = loop_on [0..<unat n] cb' (h c)" using n by (simp add: bpf_loop_def)
  also have "\<dots> = h (loop_on (filter (\<lambda>i. ?a \<le> i \<and> i < ?a + ?k) [0..<unat n]) cb c)"
    by (rule loop_on_filter [where Inv = Inv]) (use inv inside outside r(2) in auto)
  also have "\<dots> = h (loop_on (map (\<lambda>i. i + ?a) [0..<?k]) cb c)"
    unfolding filter_range [OF r(1)] map_add_upt by (simp add: add.commute)
  also have "loop_on (map (\<lambda>i. i + ?a) [0..<?k]) cb c = loop_on [0..<?k] (\<lambda>i. cb (scan_index (te_group_start p file net) i)) c"
    unfolding loop_on_map by (rule loop_on_cong) (use r(1) n in \<open>simp add: scan_index_eq add.commute\<close>)
  also have "\<dots> = bpf_loop_legacy (te_group_count p n file net) (\<lambda>i. cb (scan_index (te_group_start p file net) i)) c"
    using r(1) n by (simp add: bpf_loop_legacy_def)
  finally show ?thesis by simp
qed

section \<open>Rules\<close>

definition event_match :: "u32 \<Rightarrow> te_rule_eval \<Rightarrow> u32 \<Rightarrow> u32 \<Rightarrow> u8 \<Rightarrow> bytes \<Rightarrow> bool" where
  "event_match features e ipv4 ipv4_mask kind pat =
     (if ev_op e = TOP_CONNECT \<or> ev_op e = TOP_RECV then ev_ip e AND ipv4_mask = ipv4
      else if ev_op e = TOP_EXEC then taint_exec_match kind (ev_target e) pat
      else te_path_match features kind (ev_target e) pat)"

lemma event_match_legacy:
  assumes "legacy_operand (ev_op e) kind pat" and "legacy_target (ev_op e) (ev_target e)" and "wf_scratch s"
  shows "fst (event_match_legacy features e ipv4 ipv4_mask kind pat s) = event_match features e ipv4 ipv4_mask kind pat"
    and "wf_scratch (snd (event_match_legacy features e ipv4 ipv4_mask kind pat s))"
proof -
  from assms(2) have "ev_op e \<le> TOP_RECV" by (simp add: legacy_target_def)
  then show "fst (event_match_legacy features e ipv4 ipv4_mask kind pat s) = event_match features e ipv4 ipv4_mask kind pat"
    by (cases rule: op_cases)
      (use assms in \<open>simp_all add: event_match_legacy_def event_match_def legacy_operand_def legacy_target_def op_class_def
        legacy_exec_equiv legacy_path_equiv\<close>)
  show "wf_scratch (snd (event_match_legacy features e ipv4 ipv4_mask kind pat s))"
    using assms(3) te_path_match_legacy_spec(2) [OF assms(3)] by (simp add: event_match_legacy_def)
qed

lemma cond_legacy:
  assumes "legacy_rule r" and "ru_op r = ev_op e" and "legacy_target (ev_op e) (ev_target e)" and "wf_scratch s"
  shows "fst (te_cond_satisfied_legacy st r e s) = te_cond_satisfied st r e"
    and "wf_scratch (snd (te_cond_satisfied_legacy st r e s))"
proof -
  have m: "fst (event_match_legacy (policy_features st) e (ru_cond_ipv4 r) (ru_cond_ipv4_mask r) (ru_cond_match r) (ru_cond_pat r) s) =
      event_match (policy_features st) e (ru_cond_ipv4 r) (ru_cond_ipv4_mask r) (ru_cond_match r) (ru_cond_pat r)"
    "wf_scratch (snd (event_match_legacy (policy_features st) e (ru_cond_ipv4 r) (ru_cond_ipv4_mask r) (ru_cond_match r) (ru_cond_pat r) s))"
    if "ru_cond_kind r \<notin> {TCOND_NONE, TCOND_LINEAGE, TCOND_AFTER}"
    using event_match_legacy [OF _ assms(3,4)] that assms(1,2) by (simp_all add: legacy_rule_def)
  show "fst (te_cond_satisfied_legacy st r e s) = te_cond_satisfied st r e"
    "wf_scratch (snd (te_cond_satisfied_legacy st r e s))"
    using m assms(4) by (auto simp: te_cond_satisfied_legacy_def te_cond_satisfied_def event_match_def case_prod_beta Let_def)
qed

lemma domain_zero:
  assumes "ru_domain_id r = 0"
  shows "rule_in_domain_legacy st e r = rule_in_domain st e r" "rule_labels_legacy st e r = rule_labels st e r"
    "rule_object_labels_legacy st e r = rule_object_labels st e r"
  using assms by (simp_all add: rule_in_domain_legacy_def rule_in_domain_def rule_labels_legacy_def rule_labels_def
      rule_object_labels_legacy_def rule_object_labels_def te_file_stored_labels_domain_legacy_def
      te_file_stored_labels_domain_def cap_domain_matches_pid_legacy_def cap_domain_matches_pid_def)

text \<open>What stays the same along a scan.\<close>

definition scan_inv :: "te_rule_eval \<Rightarrow> te_rule_eval \<times> te_path_cmp_scratch \<Rightarrow> bool" where
  "scan_inv e0 c \<longleftrightarrow> eval_inputs (fst c) = eval_inputs e0 \<and> wf_scratch (snd c)"

lemma scan_inv_fields:
  assumes "scan_inv e0 (e, s)"
  shows "ev_op e = ev_op e0" "ev_target e = ev_target e0" "ev_include_file_labels e = ev_include_file_labels e0" "wf_scratch s"
  using assms by (auto simp: scan_inv_def eval_inputs_def)

lemma record_best_inputs: "eval_inputs (snd (te_record_best e eff)) = eval_inputs e"
  by (simp add: te_record_best_def eval_inputs_def Let_def split: option.split)

lemma record_match_inputs: "eval_inputs (record_match i r l e) = eval_inputs e"
  by (simp add: record_match_def eval_inputs_def)

lemma rule_effect_legacy:
  assumes "scan_inv e0 (e, s)" and "legacy_target (ev_op e0) (ev_target e0)"
    and "\<And>r. arr_lookup (ts_rules st) i = Some r \<Longrightarrow> legacy_rule r"
  shows "fst (te_rule_effect_legacy st i (e, s)) = fst (te_rule_effect st e i) \<and>
    fst (snd (te_rule_effect_legacy st i (e, s))) = snd (te_rule_effect st e i) \<and>
    scan_inv e0 (snd (te_rule_effect_legacy st i (e, s)))"
proof (cases "arr_lookup (ts_rules st) i")
  case (Some r)
  show ?thesis
  proof (cases "ru_op r = ev_op e")
    case True
    note f = scan_inv_fields [OF assms(1)]
    have tgt: "legacy_target (ev_op e) (ev_target e)" using assms(2) f by simp
    have lr: "legacy_rule r" using assms(3) Some by simp
    have d0: "ru_domain_id r = 0" "rd (ru_arg r) 0 = 0" "legacy_operand (ev_op e) (ru_match r) (ru_target r)"
      using lr True by (simp_all add: legacy_rule_def)
    note m = event_match_legacy [OF d0(3) tgt f(4)]
    note c = cond_legacy [OF lr True tgt m(2)]
    show ?thesis
      using assms(1) True
      by (simp add: te_rule_effect_legacy_def te_rule_effect_def Some domain_zero [OF d0(1)] m c case_prod_beta Let_def
          event_match_def rule_arg_ok_def d0(2) scan_inv_def record_match_inputs)
  next
    case False
    then show ?thesis
      using assms(1) by (simp add: te_rule_effect_legacy_def te_rule_effect_def Some)
  qed
qed (use assms(1) in \<open>simp add: te_rule_effect_legacy_def te_rule_effect_def\<close>)

lemma exec_simple_legacy:
  assumes "scan_inv e0 c" and "ev_op e0 = TOP_EXEC \<and> \<not> ev_include_file_labels e0"
  shows "te_rule_effect_exec_simple_legacy st i c = te_rule_effect_legacy st i c"
  using scan_inv_fields [of e0 "fst c" "snd c"] assms
  by (cases c) (simp add: te_rule_effect_exec_simple_legacy_def te_rule_effect_legacy_def event_match_legacy_def
      rule_object_labels_legacy_def Let_def split: option.split)

text \<open>The callbacks, with the index already moved into the group.\<close>

definition rule_step ::
  "(nat \<Rightarrow> te_rule_eval \<times> te_path_cmp_scratch \<Rightarrow> u8 option \<times> te_rule_eval \<times> te_path_cmp_scratch) \<Rightarrow> nat \<Rightarrow>
   te_rule_eval \<times> te_path_cmp_scratch \<Rightarrow> bool \<times> te_rule_eval \<times> te_path_cmp_scratch" where
  "rule_step eff i c = (let (eff, e, s) = eff i c; (stop, e) = te_record_best e eff in (stop, e, s))"

lemma rule_cb_step:
  "te_rule_cb_legacy st start = (\<lambda>i. rule_step (te_rule_effect_legacy st) (scan_index start i))"
  "te_rule_exec_simple_cb_legacy st start = (\<lambda>i. rule_step (te_rule_effect_exec_simple_legacy st) (scan_index start i))"
  by (simp_all add: fun_eq_iff te_rule_cb_legacy_def te_rule_exec_simple_cb_legacy_def rule_step_def)

lemma rule_step_sim:
  assumes "fst (eff i c) = fst (te_rule_effect st (fst c) i) \<and> fst (snd (eff i c)) = snd (te_rule_effect st (fst c) i) \<and>
      scan_inv e0 (snd (eff i c))"
  shows "scan_inv e0 (snd (rule_step eff i c)) \<and> te_rule_cb st i (fst c) = map_prod id fst (rule_step eff i c)"
  using assms by (auto simp: rule_step_def te_rule_cb_def case_prod_beta Let_def scan_inv_def record_best_inputs)

lemma rule_group_scan:
  assumes wf: "wf_tables st" and pol: "legacy_policy L st" and tgt: "legacy_target (ev_op e) (ev_target e)"
    and s: "wf_scratch s"
    and eff: "\<And>i c. i < n_rules st \<Longrightarrow> scan_inv e c \<Longrightarrow> eff i c = te_rule_effect_legacy st i c"
  shows "fst (bpf_loop_legacy (te_rule_count L (ev_op e)) (\<lambda>i. rule_step eff (scan_index (te_rule_start L (ev_op e)) i))
      (best_reset e, s)) = bpf_loop (te_count st 0) (te_rule_cb st) (best_reset e)"
proof -
  have n: "te_count st 0 = legacy_n_rules L"
    using wf_te_count0 [OF wf] pol by (simp add: legacy_policy_def word_unat_eq_iff)
  have nr: "unat (legacy_n_rules L) = n_rules st" "n_rules st \<le> MAX_TAINT_RULES"
    using wf_te_count0 [OF wf] pol by (simp_all add: legacy_policy_def)
  have g: "grouped (\<lambda>i. ru_op (a_cell (ts_rules st) i)) (unat (legacy_n_rules L)) (unat (legacy_n_file_rules L)) (unat (legacy_n_net_rules L))"
    using pol nr by (simp add: legacy_policy_def)
  have cell: "arr_lookup (ts_rules st) i = Some (a_cell (ts_rules st) i)" if "i < n_rules st" for i
    using wf that nr by (simp add: arr_lookup_def wf_tables_def)
  have legal: "legacy_rule r" if "arr_lookup (ts_rules st) i = Some r" "i < n_rules st" for i r
    using pol cell that by (auto simp: legacy_policy_def active_rules_def)
  have "fst (bpf_loop_legacy (te_group_count (ev_op e) (legacy_n_rules L) (legacy_n_file_rules L) (legacy_n_net_rules L))
      (\<lambda>i. rule_step eff (scan_index (te_group_start (ev_op e) (legacy_n_file_rules L) (legacy_n_net_rules L)) i)) (best_reset e, s)) =
    bpf_loop (legacy_n_rules L) (te_rule_cb st) (fst (best_reset e, s))"
  proof (rule group_scan [where h = fst and Inv = "scan_inv e", OF g])
    show "ev_op e \<le> TOP_RECV" using tgt by (simp add: legacy_target_def)
    show "unat (legacy_n_rules L) \<le> MAX_TAINT_UPDATES" using nr by simp
    show "scan_inv e (best_reset e, s)" using s by (simp add: scan_inv_def best_reset_def eval_inputs_def)
  next
    fix i and c :: "te_rule_eval \<times> te_path_cmp_scratch"
    assume i: "i < unat (legacy_n_rules L)" and inv: "scan_inv e c"
    obtain e' s' where c: "c = (e', s')" by (cases c)
    have l: "arr_lookup (ts_rules st) i = Some r \<Longrightarrow> legacy_rule r" for r using legal i nr(1) by simp
    show "scan_inv e (snd (rule_step eff i c)) \<and> te_rule_cb st i (fst c) = map_prod id fst (rule_step eff i c)"
      using rule_effect_legacy [OF inv [unfolded c] tgt l] i nr(1) eff [OF _ inv]
      by (intro rule_step_sim) (simp add: c)
    assume "op_class (ru_op (a_cell (ts_rules st) i)) \<noteq> op_class (ev_op e)"
    then have "ru_op (a_cell (ts_rules st) i) \<noteq> ev_op e'" using scan_inv_fields(1) [OF inv [unfolded c]] by auto
    then show "te_rule_cb st i (fst c) = (False, fst c)"
      using cell [of i] i nr(1) by (simp add: te_rule_cb_def te_rule_effect_def te_record_best_def c)
  qed
  then show ?thesis by (simp add: n te_rule_count_def te_rule_start_def)
qed

text \<open>The single exec pass stands for the regular scan.\<close>

lemma legacy_exec_scan:
  assumes "wf_tables st" and "legacy_policy L st" and "legacy_target (ev_op e) (ev_target e)" and "wf_scratch s"
    and "ev_op e = TOP_EXEC \<and> \<not> ev_include_file_labels e"
  shows "(let (rid, e', _) = te_check_exec_simple_legacy L st s e in (rid, e')) = te_check_labels st e"
  using rule_group_scan [OF assms(1-4), of "te_rule_effect_exec_simple_legacy st", OF exec_simple_legacy [OF _ assms(5)]]
  by (simp add: te_check_exec_simple_legacy_def te_check_labels_def te_check_labels_range_def
      rule_cb_step case_prod_beta Let_def)

text \<open>The scan of an event's group, also by the names the file and the network handlers use.\<close>

lemma legacy_scan:
  assumes "wf_tables st" and "legacy_policy L st" and "legacy_target (ev_op e) (ev_target e)" and "wf_scratch s"
  shows "(let (rid, e', _) = te_check_labels_legacy L st s e in (rid, e')) = te_check_labels st e"
  using rule_group_scan [OF assms, of "te_rule_effect_legacy st"]
  by (simp add: te_check_labels_legacy_def te_check_labels_range_legacy_def te_check_labels_def te_check_labels_range_def
      rule_cb_step case_prod_beta Let_def)

lemma legacy_group_scans:
  "op = TOP_OPEN \<or> op = TOP_WRITE \<Longrightarrow> ev_op e = op \<Longrightarrow> te_check_file_labels_legacy L st s e = te_check_labels_legacy L st s e"
  "op = TOP_CONNECT \<or> op = TOP_RECV \<Longrightarrow> ev_op e = op \<Longrightarrow> te_check_net_labels_legacy L st s e = te_check_labels_legacy L st s e"
  by (auto simp: te_check_file_labels_legacy_def te_check_net_labels_legacy_def te_check_labels_legacy_def te_rule_start_def
      te_rule_count_def te_group_start_def te_group_count_def)

text \<open>C29: on a policy within the limits of old kernels (one domain, no argument constraints, supported patterns, a
  table grouped by operation) and for a target this build compares in full (a path that ends within 63 bytes, a
  command name within 15; any endpoint), the scans of the Linux 5.10 build reach the verdict of the regular
  scan of the whole table and leave the same evaluation record: the scan of the event's group, the file and the network
  scans for events of those groups, and the single exec pass that replaces the simple and the complex one. For
  longer paths the verdicts can differ: this build cuts the path at 63 bytes before it compares
  (\<open>legacy_exact_cut\<close>).\<close>

theorem legacy_scan_equiv:
  assumes "wf_tables st" and "legacy_policy L st" and "legacy_target (ev_op e) (ev_target e)" and "wf_scratch s"
  shows "(let (rid, e', _) = te_check_labels_legacy L st s e in (rid, e')) = te_check_labels st e \<and>
    (op_class (ev_op e) = 0 \<longrightarrow> te_check_file_labels_legacy L st s e = te_check_labels_legacy L st s e) \<and>
    (op_class (ev_op e) = 1 \<longrightarrow> te_check_net_labels_legacy L st s e = te_check_labels_legacy L st s e) \<and>
    (ev_op e = TOP_EXEC \<and> \<not> ev_include_file_labels e \<longrightarrow>
      (let (rid, e', _) = te_check_exec_simple_legacy L st s e in (rid, e')) = te_check_labels st e)"
  using legacy_scan [OF assms] legacy_exec_scan [OF assms] legacy_group_scans(1) [of "ev_op e" e L st s]
    legacy_group_scans(2) [of "ev_op e" e L st s]
  by (auto simp: op_class_def split: if_splits)

section \<open>Updates\<close>

lemma update_cells:
  assumes "wf_tables st" and "legacy_policy L st"
  shows "te_count st 1 = legacy_n_updates L" and "unat (legacy_n_updates L) \<le> MAX_TAINT_UPDATES"
    and "grouped (\<lambda>i. up_op (a_cell (ts_updates st) i)) (unat (legacy_n_updates L)) (unat (legacy_n_file_updates L))
      (unat (legacy_n_net_updates L))"
    and "i < unat (legacy_n_updates L) \<Longrightarrow> arr_lookup (ts_updates st) i = Some (a_cell (ts_updates st) i) \<and>
      legacy_update (a_cell (ts_updates st) i) \<and> i < MAX_TAINT_UPDATES"
  using assms wf_te_count1 [OF assms(1)]
  by (auto simp: legacy_policy_def word_unat_eq_iff arr_lookup_def wf_tables_def active_updates_def)

text \<open>The fields of the context that no update changes.\<close>

definition ctx_inv :: "te_update_ctx \<Rightarrow> te_update_ctx \<Rightarrow> bool" where
  "ctx_inv c0 c \<longleftrightarrow> uc_op c = uc_op c0 \<and> uc_target c = uc_target c0 \<and> uc_domain_id c = uc_domain_id c0 \<and> uc_ip c = uc_ip c0"

lemma bpf_loop_legacy_cong:
  assumes "Inv c" and "\<And>i c. Inv c \<Longrightarrow> Inv (snd (cb i c)) \<and> cb' i c = cb i c"
  shows "bpf_loop_legacy n cb' c = bpf_loop_legacy n cb c"
proof -
  have "loop_on xs cb' c = loop_on xs cb c" for xs
    using loop_on_filter [of Inv c xs "\<lambda>_. True" cb cb' id] assms by (simp add: map_prod.id)
  then show ?thesis by (simp add: bpf_loop_legacy_def)
qed

lemma update_group_scan:
  assumes "wf_tables st" and "legacy_policy L st" and "p \<le> TOP_RECV" and "Inv c"
    and "\<And>i d. i < unat (legacy_n_updates L) \<Longrightarrow> Inv d \<Longrightarrow> Inv (snd (cb i d)) \<and> cb' i (h d) = map_prod id h (cb i d)"
    and "\<And>i d. i < unat (legacy_n_updates L) \<Longrightarrow> Inv d \<Longrightarrow> op_class (up_op (a_cell (ts_updates st) i)) \<noteq> op_class p \<Longrightarrow>
      cb' i (h d) = (False, h d)"
  shows "h (bpf_loop_legacy (te_update_count L p) (\<lambda>i. cb (scan_index (te_update_start L p) i)) c) =
    bpf_loop (te_count st 1) cb' (h c)"
  unfolding te_update_count_def te_update_start_def update_cells(1) [OF assms(1,2)]
  by (rule group_scan [where Inv = Inv, OF update_cells(3) [OF assms(1,2)] assms(3) update_cells(2) [OF assms(1,2)] assms(4-6)])

lemma legacy_exec_updates:
  assumes "wf_tables st" and "legacy_policy L st" and "uc_op c = TOP_EXEC" and "legacy_text 15 (uc_target c)"
  shows "te_collect_exec_updates_legacy L st c = te_collect_updates st c"
proof -
  note u = update_cells [OF assms(1,2)]
  have "id (bpf_loop_legacy (te_update_count L TOP_EXEC) (\<lambda>i. exec_update_at st (scan_index (te_update_start L TOP_EXEC) i)) c) =
    bpf_loop (te_count st 1) (te_update_cb st) (id c)"
  proof (rule update_group_scan [where Inv = "ctx_inv c", OF assms(1,2)])
    fix i and d :: te_update_ctx
    assume i: "i < unat (legacy_n_updates L)" and d: "ctx_inv c d"
    let ?u = "a_cell (ts_updates st) i"
    have m: "te_exec_simple_match_legacy (up_match ?u) (uc_target d) (up_target ?u) = taint_exec_match (up_match ?u) (uc_target d) (up_target ?u)"
      if "up_op ?u = TOP_EXEC"
      using u(4) [OF i] that assms(4) d
      by (intro legacy_exec_equiv) (simp_all add: legacy_update_def legacy_operand_def ctx_inv_def)
    show "ctx_inv c (snd (exec_update_at st i d)) \<and> te_update_cb st i (id d) = map_prod id id (exec_update_at st i d)"
      using u(4) [OF i] d m assms(3)
      by (simp add: exec_update_at_def te_update_cb_def ctx_inv_def legacy_update_def)
    show "te_update_cb st i (id d) = (False, id d)" if "op_class (up_op ?u) \<noteq> op_class TOP_EXEC"
      using u(4) [OF i] d that assms(3) by (auto simp: te_update_cb_def ctx_inv_def)
  qed (simp_all add: ctx_inv_def)
  moreover have "te_exec_update_simple_cb_legacy L st = (\<lambda>i. exec_update_at st (scan_index (te_update_start L TOP_EXEC) i))"
    by (simp add: fun_eq_iff te_exec_update_simple_cb_legacy_def)
  ultimately show ?thesis by (simp add: te_collect_exec_updates_legacy_def te_collect_updates_def)
qed

lemma legacy_file_updates:
  assumes "wf_tables st" and "legacy_policy L st" and "op_class (uc_op c) = 0" and "uc_op c \<le> TOP_RECV"
    and "legacy_text 63 (uc_target c)" and "wf_scratch s"
  shows "fst (te_collect_file_updates_legacy L st s c) = te_collect_file_updates st c"
proof -
  note u = update_cells [OF assms(1,2)]
  let ?Inv = "\<lambda>x. ctx_inv c (fst x) \<and> wf_scratch (snd x)"
  have step: "?Inv (snd (file_update_at st i d)) \<and> te_file_update_cb st i (fst d) = map_prod id fst (file_update_at st i d)"
    if i: "i < unat (legacy_n_updates L)" and d: "?Inv d" for i d
  proof -
    obtain c' s' where d': "d = (c', s')" by (cases d)
    let ?u = "a_cell (ts_updates st) i"
    have m: "fst (te_path_match_legacy (policy_features st) (up_match ?u) (uc_target c') (up_target ?u) s') =
        te_path_match (policy_features st) (up_match ?u) (uc_target c') (up_target ?u)" if "up_op ?u = uc_op c'"
      using u(4) [OF i] that assms(3,5) d
      by (intro legacy_path_equiv) (simp_all add: legacy_update_def legacy_operand_def ctx_inv_def d')
    have w: "wf_scratch (snd (te_path_match_legacy f k t p s'))" for f k t p
      using d by (simp add: te_path_match_legacy_spec(2) d')
    show ?thesis
      using u(4) [OF i] d m w
      by (simp add: file_update_at_def te_file_update_cb_def ctx_inv_def case_prod_beta Let_def d')
  qed
  have "fst (bpf_loop_legacy (te_update_count L (uc_op c)) (\<lambda>i. file_update_at st (scan_index (te_update_start L (uc_op c)) i)) (c, s)) =
    bpf_loop (te_count st 1) (te_file_update_cb st) (fst (c, s))"
  proof (rule update_group_scan [where Inv = ?Inv and h = fst and cb = "file_update_at st", OF assms(1,2,4) _ step])
    fix i and d :: "te_update_ctx \<times> te_path_cmp_scratch"
    assume i: "i < unat (legacy_n_updates L)" and d: "?Inv d" "op_class (up_op (a_cell (ts_updates st) i)) \<noteq> op_class (uc_op c)"
    then show "te_file_update_cb st i (fst d) = (False, fst d)"
      using u(4) [OF i] by (auto simp: te_file_update_cb_def ctx_inv_def)
  qed (use assms(6) in \<open>simp_all add: ctx_inv_def\<close>)
  moreover have "bpf_loop_legacy (te_update_count L (uc_op c)) (te_file_update_cb_legacy L st) (c, s) =
      bpf_loop_legacy (te_update_count L (uc_op c)) (\<lambda>i. file_update_at st (scan_index (te_update_start L (uc_op c)) i)) (c, s)"
    by (rule bpf_loop_legacy_cong [where Inv = "\<lambda>x. uc_op (fst x) = uc_op c"])
      (auto simp: te_file_update_cb_legacy_def file_update_at_def case_prod_beta Let_def split: option.split)
  ultimately show ?thesis by (simp add: te_collect_file_updates_legacy_def te_collect_file_updates_def)
qed

lemma legacy_endpoint_updates:
  assumes "wf_tables st" and "legacy_policy L st" and "uc_op c \<le> TOP_RECV"
  shows "te_collect_endpoint_updates_legacy L st c = te_collect_endpoint_updates st c"
proof -
  note u = update_cells [OF assms(1,2)]
  have "id (bpf_loop_legacy (te_update_count L (uc_op c)) (\<lambda>i. te_endpoint_update_cb st (scan_index (te_update_start L (uc_op c)) i)) c) =
    bpf_loop (te_count st 1) (te_endpoint_update_cb st) (id c)"
  proof (rule update_group_scan [where Inv = "ctx_inv c", OF assms])
    fix i and d :: te_update_ctx
    assume i: "i < unat (legacy_n_updates L)" and d: "ctx_inv c d"
    show "ctx_inv c (snd (te_endpoint_update_cb st i d)) \<and>
        te_endpoint_update_cb st i (id d) = map_prod id id (te_endpoint_update_cb st i d)"
      using u(4) [OF i] d by (simp add: te_endpoint_update_cb_def ctx_inv_def map_prod.id)
    show "te_endpoint_update_cb st i (id d) = (False, id d)"
      if "op_class (up_op (a_cell (ts_updates st) i)) \<noteq> op_class (uc_op c)"
      using u(4) [OF i] d that by (auto simp: te_endpoint_update_cb_def ctx_inv_def)
  qed (simp add: ctx_inv_def)
  moreover have "bpf_loop_legacy (te_update_count L (uc_op c)) (te_endpoint_update_cb_legacy L st) c =
      bpf_loop_legacy (te_update_count L (uc_op c)) (\<lambda>i. te_endpoint_update_cb st (scan_index (te_update_start L (uc_op c)) i)) c"
    by (rule bpf_loop_legacy_cong [where Inv = "\<lambda>x. uc_op x = uc_op c"])
      (auto simp: te_endpoint_update_cb_legacy_def te_endpoint_update_cb_def split: option.split)
  ultimately show ?thesis by (simp add: te_collect_endpoint_updates_legacy_def te_collect_endpoint_updates_def)
qed

section \<open>An example\<close>

text \<open>A policy in the order the loader of old kernels gives it: a rule on opening files, one on connecting and one on
  running a command.\<close>

definition old_consts :: legacy_consts where
  "old_consts = \<lparr>legacy_n_rules = 3, legacy_n_updates = 0, legacy_n_file_rules = 1, legacy_n_file_updates = 0,
     legacy_n_net_rules = 1, legacy_n_net_updates = 0\<rparr>"

definition old_engine :: engine where
  "old_engine = demo_engine
     \<lparr>ts_rules := \<lparr>a_max = MAX_TAINT_RULES, a_cell = (\<lambda>i.
        if i = 0 then no_rule\<lparr>ru_op := TOP_OPEN, ru_match := TAINT_MATCH_ANY, ru_rule_id := 1\<rparr>
        else if i = 1 then no_rule\<lparr>ru_op := TOP_CONNECT, ru_effect := TEFFECT_KILL, ru_rule_id := 2\<rparr>
        else no_rule\<lparr>ru_op := TOP_EXEC, ru_match := TAINT_MATCH_PREFIX, ru_target := padded 64 (str_bytes ''curl''), ru_effect := TEFFECT_BLOCK, ru_rule_id := 3\<rparr>)\<rparr>,
      ts_counts := \<lparr>a_max = 6, a_cell = (\<lambda>i. if i = 5 then 4 else if i = 0 then 3 else 0)\<rparr>,
      cap_policy := map_put 0 \<lparr>pm_lo = 7, pm_hi = 0\<rparr> (hash_new 4096)\<rparr>"

definition old_event :: te_rule_eval where
  "old_event = rule_event\<lparr>ev_op := TOP_EXEC, ev_target := padded 128 (str_bytes ''curl''), ev_include_file_labels := False\<rparr>"

definition old_scratch :: te_path_cmp_scratch where
  "old_scratch = \<lparr>pc_text = replicate 64 0, pc_pat = replicate 64 0, pc_tail = replicate 16 0\<rparr>"

lemma old_policy: "wf_tables old_engine" "legacy_policy old_consts old_engine"
proof -
  have p: "legacy_pattern TAINT_MATCH_PREFIX (padded 64 (str_bytes ''curl''))"
    by (simp add: legacy_pattern_def wf_pat_padded str_bytes_def pat_str_def cstr_def padded_def wf_pat_def nul_padded_def)
  have three: "i < 3 \<longleftrightarrow> i = 0 \<or> i = 1 \<or> i = (2 :: nat)" for i by auto
  have n: "n_rules old_engine = 3" "n_updates old_engine = 0" by (simp_all add: old_engine_def n_rules_def n_updates_def)
  show "wf_tables old_engine"
    using wf_demo_engine by (simp add: wf_tables_def old_engine_def)
  show "legacy_policy old_consts old_engine"
    unfolding legacy_policy_def active_rules_def active_updates_def n
    using p by (auto simp: old_consts_def grouped_def three legacy_rule_def legacy_operand_def
        old_engine_def no_rule_def legacy_pattern_def [of 3] rd_def)
qed

theorem legacy_scan_equiv_witness:
  "fst (te_check_exec_simple_legacy old_consts old_engine old_scratch old_event) = 3 \<and>
   fst (te_check_labels old_engine old_event) = 3"
proof -
  have cell: "arr_lookup (ts_rules old_engine) 2 = Some (no_rule\<lparr>ru_op := TOP_EXEC, ru_match := TAINT_MATCH_PREFIX,
      ru_target := padded 64 (str_bytes ''curl''), ru_effect := TEFFECT_BLOCK, ru_rule_id := 3\<rparr>)"
    by (simp add: old_engine_def arr_lookup_def)
  have bound: "cap_policy_rule_bound old_engine 0 2"
    by (simp add: cap_policy_rule_bound_def old_engine_def cap_policy_mask_has_def bit64_def lookup_put room_def hash_new_def)
  have m: "te_exec_simple_match_legacy TAINT_MATCH_PREFIX (padded 128 (str_bytes ''curl'')) (padded 64 (str_bytes ''curl''))"
    by (simp add: te_exec_simple_match_legacy_def padded_def str_bytes_def upt_rec rd_def)
  have "legacy_target (ev_op old_event) (ev_target old_event)"
    by (auto simp: old_event_def legacy_target_def legacy_text_def pat_str_def padded_def str_bytes_def cstr_def rd_def nth_append)
  moreover have "wf_scratch old_scratch" by (simp add: wf_scratch_def old_scratch_def)
  moreover have "ev_op old_event = TOP_EXEC \<and> \<not> ev_include_file_labels old_event" by (simp add: old_event_def)
  ultimately have "(let (rid, e', _) = te_check_exec_simple_legacy old_consts old_engine old_scratch old_event in (rid, e')) =
      te_check_labels old_engine old_event"
    using legacy_scan_equiv [OF old_policy, of old_event old_scratch] by blast
  moreover have "fst (te_check_exec_simple_legacy old_consts old_engine old_scratch old_event) = 3"
    by (simp add: te_check_exec_simple_legacy_def te_rule_count_def te_rule_start_def te_group_count_def te_group_start_def
        old_consts_def old_event_def bpf_loop_legacy_def te_rule_exec_simple_cb_legacy_def scan_index_def
        te_rule_effect_exec_simple_legacy_def cell bound m Let_def no_rule_def rule_in_domain_legacy_def effect_wanted_def
        taint_mask_ok_def te_cond_satisfied_legacy_def te_record_best_def record_match_def best_reset_def best_commit_def rule_event_def)
  ultimately show ?thesis by (auto simp: Let_def case_prod_beta dest: arg_cong [where f = fst])
qed

end
