(* ===== verification/Legacy_Exec.thy ===== *)
theory Legacy_Exec
  imports Legacy_Scan Exec_Pipe
begin

text \<open>
  The exec programs and the end of a process in the build for Linux 5.10 (the \<^verbatim>\<open>ACTPLANE_LEGACY_KERNEL\<close> branches of
  \<^verbatim>\<open>bpf/process.bpf.c\<close> and \<^verbatim>\<open>bpf/taint_engine.bpf.h\<close>). The pipeline of tail calls is the same, but there is one
  domain, one update pass and one rule pass, no argument vector and no provenance. The theorem is that nothing else gets
  lost: up to provenance, a process ends up with the labels and gates of the regular build, and the same rule is reported.
\<close>

section \<open>Reports\<close>

definition fill_violation_provenance_legacy :: "event \<Rightarrow> event" where
  "fill_violation_provenance_legacy v =
     v\<lparr>vi_matched_label := 0, vi_prov_label := 0, vi_prov_timestamp_ns := 0, vi_prov_pid := 0,
       vi_prov_op := 0, vi_prov_ip := 0, vi_prov_target := []\<rparr>"

definition emit_violation_legacy ::
  "pid_t \<Rightarrow> s32 \<Rightarrow> bytes option \<Rightarrow> u32 \<Rightarrow> u32 \<Rightarrow> u64 \<Rightarrow> u8 \<Rightarrow> bool \<Rightarrow> bool \<Rightarrow> u32 \<Rightarrow>
   'a sensor_scheme \<Rightarrow> 'a sensor_scheme" where
  "emit_violation_legacy pid rule_id target conn_ip domain_id matched_labels op blocked killed effect st =
     (let reserved = rb_reserve st (rb_tries st);
          st = st\<lparr>rb_tries := Suc (rb_tries st)\<rparr>
      in if \<not> reserved then st
         else
           let v = \<lparr>vi_pid = pid, vi_ppid = cur_ppid st, vi_blocked = blocked, vi_killed = killed, vi_effect = effect,
                    vi_op = op, vi_domain_id = domain_id, vi_session_root = te_root st pid,
                    vi_timestamp_ns = ktime st (ktick st), vi_comm = cur_comm st,
                    vi_filename = (case target of None \<Rightarrow> [] | Some t \<Rightarrow> take (MAX_FILENAME_LEN - 1) (cstr t)),
                    vi_taint_rule_id = rule_id, vi_conn_ip = conn_ip,
                    vi_taint_label = te_labels_for_domain_legacy st pid domain_id,
                    vi_matched_label = 0, vi_matched_labels = matched_labels, vi_prov_label = 0,
                    vi_prov_timestamp_ns = 0, vi_prov_pid = 0, vi_prov_op = 0, vi_prov_ip = 0, vi_prov_target = []\<rparr>;
               st = st\<lparr>ktick := Suc (ktick st)\<rparr>
           in st\<lparr>rb := rb st @ [fill_violation_provenance_legacy v]\<rparr>)"

section \<open>Stages of the pipeline\<close>

definition exec_pipe_init_legacy :: "'a engine_scheme \<Rightarrow> pid_t \<Rightarrow> u32 \<Rightarrow> exec_pipe_state" where
  "exec_pipe_init_legacy st pid mode =
     loop_on [0..<CAP_DOMAIN_DEPTH_legacy]
       (\<lambda>i s. let d = te_domain_for_depth st pid i
              in if 0 < i \<and> d = 0 then (True, s)
                 else (False, s\<lparr>xp_domain_ids := (xp_domain_ids s)(i := d), xp_n_domains := Suc i\<rparr>))
       \<lparr>xp_pid = pid, xp_mode = mode, xp_n_domains = 0, xp_domain_ids = (\<lambda>_. 0), xp_add = (\<lambda>_. 0), xp_del = (\<lambda>_. 0),
        xp_gates = (\<lambda>_. 0), xp_exit_gates = (\<lambda>_. 0), xp_invals = (\<lambda>_. 0), xp_best_rule = - 1, xp_best_index = - 1,
        xp_best_effect = ucast TEFFECT_NOTIFY, xp_best_domain_id = 0, xp_best_req = 0, xp_best_labels = 0\<rparr>"

definition exec_pipe_collect_updates_legacy ::
  "legacy_consts \<Rightarrow> 'a engine_scheme \<Rightarrow> exec_scratch \<Rightarrow> exec_pipe_state \<Rightarrow> exec_pipe_state" where
  "exec_pipe_collect_updates_legacy L st x s =
     loop_on [0..<CAP_DOMAIN_DEPTH_legacy]
       (\<lambda>i s. if xp_n_domains s \<le> i then (True, s)
              else
                let d = xp_domain_ids s i
                in if \<not> cap_domain_matches_pid_legacy st (xp_pid s) d then (False, s)
                   else
                     let c = te_collect_exec_updates_legacy L st (update_ctx (xp_pid s) d TOP_EXEC (xs_mem x) 0)
                     in (False, s\<lparr>xp_add := (xp_add s)(i := xp_add s i OR uc_add c),
                                  xp_del := (xp_del s)(i := xp_del s i OR uc_del c),
                                  xp_gates := (xp_gates s)(i := xp_gates s i OR uc_gates c),
                                  xp_exit_gates := (xp_exit_gates s)(i := xp_exit_gates s i OR uc_exit_gates c),
                                  xp_invals := (xp_invals s)(i := xp_invals s i OR uc_invals c)\<rparr>)) s"

text \<open>The updates are applied without a provenance record.\<close>

definition te_exec_apply_legacy :: "pid_t \<Rightarrow> u32 \<Rightarrow> te_update_ctx \<Rightarrow> 'a engine_scheme \<Rightarrow> 'a engine_scheme" where
  "te_exec_apply_legacy pid domain_id c st =
     (let ns = (case te_get_domain st pid domain_id of None \<Rightarrow> \<lparr>ps_labels = 0, ps_lin_gates = 0\<rparr> | Some p \<Rightarrow> p);
          ns = ns\<lparr>ps_labels := (ps_labels ns OR uc_add c) AND NOT (uc_del c),
                  ps_lin_gates := ps_lin_gates ns OR uc_gates c\<rparr>;
          st = te_store_proc_domain pid domain_id ns st;
          key = te_pid_domain_key pid domain_id
      in if uc_gates c \<noteq> 0 \<or> uc_exit_gates c \<noteq> 0 \<or> uc_invals c \<noteq> 0 then
           let r = te_root st pid;
               (ep, st) = te_tick r domain_id st;
               st = (if uc_gates c \<noteq> 0 \<or> uc_invals c \<noteq> 0
                     then te_stamp r domain_id ep (uc_gates c) (uc_invals c) st else st)
           in if uc_exit_gates c \<noteq> 0
              then st\<lparr>ts_exit_gates := map_put key \<lparr>eg_gates = uc_exit_gates c, eg_epoch = ep\<rparr> (ts_exit_gates st)\<rparr>
              else st\<lparr>ts_exit_gates := map_delete key (ts_exit_gates st)\<rparr>
         else st\<lparr>ts_exit_gates := map_delete key (ts_exit_gates st)\<rparr>)"

definition exec_pipe_apply_updates_legacy ::
  "exec_scratch \<Rightarrow> exec_pipe_state \<Rightarrow> 'a engine_scheme \<Rightarrow> 'a engine_scheme" where
  "exec_pipe_apply_updates_legacy x s st =
     loop_on [0..<CAP_DOMAIN_DEPTH_legacy]
       (\<lambda>i st. if xp_n_domains s \<le> i then (True, st)
               else
                 let d = xp_domain_ids s i
                 in if \<not> te_pid_active st (xp_pid s) \<or> \<not> cap_domain_matches_pid_legacy st (xp_pid s) d then (False, st)
                    else (False, te_exec_apply_legacy (xp_pid s) d (pipe_ctx x s i) st)) st"

text \<open>The evaluation record: the current domain is the global one.\<close>

definition exec_eval_legacy :: "'a engine_scheme \<Rightarrow> pid_t \<Rightarrow> bytes \<Rightarrow> u32 \<Rightarrow> te_rule_eval" where
  "exec_eval_legacy st pid target mode =
     eval_zero\<lparr>ev_pid := pid, ev_global_labels := te_labels_for_domain_legacy st pid 0,
       ev_current_labels := te_labels_for_domain_legacy st pid 0,
       ev_current_domain_id := 0, ev_effect := ucast TEFFECT_BLOCK,
       ev_effect_mask := te_supported_effects mode, ev_op := TOP_EXEC,
       ev_target := te_copy_target (ev_target eval_zero) (Some target)\<rparr>"

definition exec_pipe_scan_rules_legacy ::
  "legacy_consts \<Rightarrow> te_path_cmp_scratch \<Rightarrow> 'a engine_scheme \<Rightarrow> exec_scratch \<Rightarrow> exec_pipe_state \<Rightarrow> exec_pipe_state" where
  "exec_pipe_scan_rules_legacy L cmp st x s =
     (if xp_best_effect s = ucast TEFFECT_KILL then s
      else
        let (rid, e, _) = te_check_exec_simple_legacy L st cmp (exec_eval_legacy st (xp_pid s) (xs_mem x) (xp_mode s))
        in exec_pipe_merge_rule e rid s)"

definition exec_pipe_finish_legacy :: "exec_scratch \<Rightarrow> exec_pipe_state \<Rightarrow> 'a sensor_scheme \<Rightarrow> 'a sensor_scheme" where
  "exec_pipe_finish_legacy x s st =
     (if sint (xp_best_rule s) < 0 then st
      else
        let action = te_effect_mode (xp_mode s) (xp_best_effect s);
            st = (if action \<noteq> TE_MODE_UNSUPPORTED
                  then emit_violation_legacy (xp_pid s) (xp_best_rule s) (Some (xs_display x)) 0
                         (xp_best_domain_id s) (xp_best_labels s) TOP_EXEC
                         (action = TE_MODE_BLOCK \<or> action = TE_MODE_KILL \<and> xp_mode s = TE_MODE_BLOCK)
                         (action = TE_MODE_KILL) (xp_best_effect s) st
                  else st)
        in if action = TE_MODE_KILL then bpf_send_signal SIGKILL st else st)"

section \<open>Programs\<close>

definition exec_tp_rule_complex_legacy :: "exec_scratch \<Rightarrow> exec_pipe_state \<Rightarrow> 'a sensor_scheme \<Rightarrow> 'a sensor_scheme" where
  "exec_tp_rule_complex_legacy x s st = exec_pipe_finish_legacy x s st"

definition exec_tp_rule_simple_legacy ::
  "legacy_consts \<Rightarrow> te_path_cmp_scratch \<Rightarrow> (nat \<Rightarrow> bool) \<Rightarrow> exec_scratch \<Rightarrow> exec_pipe_state \<Rightarrow>
   'a sensor_scheme \<Rightarrow> 'a sensor_scheme" where
  "exec_tp_rule_simple_legacy L cmp tail x s st =
     (let s = exec_pipe_scan_rules_legacy L cmp st x s
      in if tail EXEC_TAIL_RULE_COMPLEX then exec_tp_rule_complex_legacy x s st else st)"

definition exec_tp_update_prefix_legacy ::
  "legacy_consts \<Rightarrow> te_path_cmp_scratch \<Rightarrow> (nat \<Rightarrow> bool) \<Rightarrow> exec_scratch \<Rightarrow> exec_pipe_state \<Rightarrow>
   'a sensor_scheme \<Rightarrow> 'a sensor_scheme" where
  "exec_tp_update_prefix_legacy L cmp tail x s st =
     (let st = exec_pipe_apply_updates_legacy x s st
      in if tail EXEC_TAIL_RULE_SIMPLE then exec_tp_rule_simple_legacy L cmp tail x s st else st)"

definition exec_tp_update_simple_legacy ::
  "legacy_consts \<Rightarrow> te_path_cmp_scratch \<Rightarrow> (nat \<Rightarrow> bool) \<Rightarrow> exec_scratch \<Rightarrow> exec_pipe_state \<Rightarrow>
   'a sensor_scheme \<Rightarrow> 'a sensor_scheme" where
  "exec_tp_update_simple_legacy L cmp tail x s st =
     (let s = exec_pipe_collect_updates_legacy L st x s
      in if tail EXEC_TAIL_UPDATE_PREFIX then exec_tp_update_prefix_legacy L cmp tail x s st else st)"

definition handle_exec_args_legacy ::
  "legacy_consts \<Rightarrow> te_path_cmp_scratch \<Rightarrow> (nat \<Rightarrow> bool) \<Rightarrow> exec_env \<Rightarrow> 'a sensor_scheme \<Rightarrow> 'a sensor_scheme" where
  "handle_exec_args_legacy L cmp tail env st =
     (let pid = cur_pid st
      in if \<not> te_pid_active st pid then st
         else
           let x = exec_scratch_of env (cur_comm st)
           in if tail EXEC_TAIL_UPDATE_SIMPLE
              then exec_tp_update_simple_legacy L cmp tail x (exec_pipe_init_legacy st pid te_tracepoint_mode) st else st)"

section \<open>Exit\<close>

text \<open>The walks over the domains of a task stop after the global one.\<close>

definition domain_loop_legacy ::
  "pid_t \<Rightarrow> (u32 \<Rightarrow> 'a cap_maps_scheme \<Rightarrow> 'a cap_maps_scheme) \<Rightarrow> 'a cap_maps_scheme \<Rightarrow> 'a cap_maps_scheme" where
  "domain_loop_legacy pid body st =
     loop_on [0..<CAP_DOMAIN_DEPTH_legacy]
       (\<lambda>i st. let d = te_domain_for_depth st pid i
               in if 0 < i \<and> d = 0 then (True, st) else (False, body d st)) st"

definition te_exit_gate_hits_legacy :: "legacy_consts \<Rightarrow> 'a engine_scheme \<Rightarrow> u32 \<Rightarrow> u64 \<Rightarrow> s32 \<Rightarrow> u64" where
  "te_exit_gate_hits_legacy L st domain_id pending raw_status =
     bpf_loop_legacy (te_update_count L TOP_EXEC)
       (\<lambda>i. te_exit_gate_cb st domain_id pending raw_status (scan_index (te_update_start L TOP_EXEC) i)) 0"

definition te_exit_domain_legacy :: "legacy_consts \<Rightarrow> pid_t \<Rightarrow> s32 \<Rightarrow> u32 \<Rightarrow> 'a engine_scheme \<Rightarrow> 'a engine_scheme" where
  "te_exit_domain_legacy L pid raw_status domain_id st =
     (let key = te_pid_domain_key pid domain_id;
          st = (case map_lookup (ts_exit_gates st) key of
                  None \<Rightarrow> st
                | Some pending \<Rightarrow>
                    if eg_gates pending \<noteq> 0 then
                      let gates = te_exit_gate_hits_legacy L st domain_id (eg_gates pending) raw_status
                      in if gates \<noteq> 0 then te_stamp (te_root st pid) domain_id (eg_epoch pending) gates 0 st
                         else st
                    else st);
          st = st\<lparr>ts_exit_gates := map_delete key (ts_exit_gates st)\<rparr>
      in te_delete_proc_domain pid domain_id st)"

definition te_exit_legacy :: "legacy_consts \<Rightarrow> pid_t \<Rightarrow> s32 \<Rightarrow> 'a engine_scheme \<Rightarrow> 'a engine_scheme" where
  "te_exit_legacy L pid raw_status st =
     (let st = domain_loop_legacy pid (te_exit_domain_legacy L pid raw_status) st;
          st = st\<lparr>ts_root := map_delete pid (ts_root st)\<rparr>
      in cap_exit pid st)"

section \<open>One domain\<close>

lemma depth_zero [simp]: "te_domain_for_depth st pid 0 = 0"
  by (simp add: te_domain_for_depth_ancestor)

lemma domain_loop_legacy_body: "domain_loop_legacy pid body st = body 0 st"
  by (simp add: domain_loop_legacy_def)

lemma matches_zero [simp]: "cap_domain_matches_pid_legacy st pid 0" "cap_domain_matches_pid st pid 0"
  by (simp_all add: cap_domain_matches_pid_legacy_def cap_domain_matches_pid_def)

lemma global_labels_legacy: "te_labels_for_domain_legacy st pid 0 = te_labels_for_domain st pid 0"
  by (simp add: te_labels_for_domain_legacy_def te_labels_for_domain_def cap_labels_for_pid_domain_legacy_def
      cap_labels_for_pid_domain_def)

section \<open>What provenance leaves alone\<close>

definition with_prov :: "(pid_label_id, te_prov) bpf_hash \<Rightarrow> nat \<Rightarrow> 'a engine_scheme \<Rightarrow> 'a engine_scheme" where
  "with_prov m t st = st\<lparr>ts_proc_prov := m, ktick := t\<rparr>"

definition forget_prov :: "'a engine_scheme \<Rightarrow> 'a engine_scheme" where
  "forget_prov st = with_prov (hash_new 0) 0 st"

lemma with_prov_over [simp]: "with_prov m t (with_prov m' t' st) = with_prov m t st"
  by (simp add: with_prov_def)

lemma record_prov_shape: "\<exists>m t. te_record_proc_prov_mask pid d labels op target ip st = with_prov m t st"
  unfolding te_record_proc_prov_mask_def with_prov_def case_prod_beta Let_def
  by (intro exI) (rule engine.equality, simp_all)

lemma session_prov:
  "te_tick r d (with_prov m t st) = map_prod id (with_prov m t) (te_tick r d st)"
  "te_stamp r d ep g i (with_prov m t st) = with_prov m t (te_stamp r d ep g i st)"
  "te_root (with_prov m t st) pid = te_root st pid"
  "(with_prov m t st)\<lparr>ts_exit_gates := x\<rparr> = with_prov m t (st\<lparr>ts_exit_gates := x\<rparr>)"
  "ts_exit_gates (with_prov m t st) = ts_exit_gates st"
  by (simp_all add: with_prov_def te_tick_def te_sess_init_def te_sess_get_def te_stamp_def te_root_def Let_def split: option.split)

lemma exec_apply_prov: "\<exists>m t. te_exec_apply pid comm d c st = with_prov m t (te_exec_apply_legacy pid d c st)"
proof -
  let ?ns = "case te_get_domain st pid d of None \<Rightarrow> \<lparr>ps_labels = 0, ps_lin_gates = 0\<rparr> | Some p \<Rightarrow> p"
  let ?s = "te_store_proc_domain pid d (?ns\<lparr>ps_labels := (ps_labels ?ns OR uc_add c) AND NOT (uc_del c),
    ps_lin_gates := ps_lin_gates ?ns OR uc_gates c\<rparr>) st"
  have same: "with_prov (ts_proc_prov ?s) (ktick ?s) ?s = ?s" by (simp add: with_prov_def)
  obtain m t where mt: "(if uc_add c \<noteq> 0 then te_record_proc_prov_mask pid d (uc_add c) (ucast TOP_EXEC) (Some comm) 0 ?s else ?s) =
      with_prov m t ?s"
    using same record_prov_shape by metis
  have "te_exec_apply pid comm d c st = with_prov m t (te_exec_apply_legacy pid d c st)"
    unfolding te_exec_apply_def te_exec_apply_legacy_def Let_def mt by (simp add: session_prov case_prod_beta)
  then show ?thesis by blast
qed

lemma exec_apply_forget: "forget_prov (te_exec_apply_legacy pid d c st) = forget_prov (te_exec_apply pid comm d c st)"
  using exec_apply_prov [of pid comm d c st] by (auto simp: forget_prov_def)

section \<open>The updates of the pipeline\<close>

lemma init_legacy:
  "exec_pipe_init_legacy st pid mode =
     \<lparr>xp_pid = pid, xp_mode = mode, xp_n_domains = 1, xp_domain_ids = (\<lambda>_. 0), xp_add = (\<lambda>_. 0), xp_del = (\<lambda>_. 0),
      xp_gates = (\<lambda>_. 0), xp_exit_gates = (\<lambda>_. 0), xp_invals = (\<lambda>_. 0), xp_best_rule = - 1, xp_best_index = - 1,
      xp_best_effect = 0, xp_best_domain_id = 0, xp_best_req = 0, xp_best_labels = 0\<rparr>"
  by (auto simp: exec_pipe_init_legacy_def fun_eq_iff)

lemma collect_legacy:
  fixes st :: "'a engine_scheme" and pid mode
  assumes "wf_tables st" "legacy_policy L st" "legacy_text 15 (xs_mem x)"
  defines "s \<equiv> exec_pipe_collect_updates_legacy L st x (exec_pipe_init_legacy st pid mode)"
  shows "pipe_ctx x s 0 = te_collect_updates st (update_ctx pid 0 TOP_EXEC (xs_mem x) 0)"
    and "xp_pid s = pid" "xp_mode s = mode" "xp_n_domains s = 1" "xp_domain_ids s = (\<lambda>_. 0)" "xp_best_rule s = - 1" "xp_best_effect s = 0"
proof -
  let ?c = "update_ctx pid 0 TOP_EXEC (xs_mem x) 0"
  have c: "te_collect_exec_updates_legacy L st ?c = te_collect_updates st ?c"
    using assms(3) by (intro legacy_exec_updates [OF assms(1,2)]) (simp_all add: update_ctx_def)
  show "pipe_ctx x s 0 = te_collect_updates st ?c"
    unfolding collect_halves [OF assms(1) refl]
    by (simp add: s_def exec_pipe_collect_updates_legacy_def init_legacy c Let_def pipe_ctx_def collect_halves [OF assms(1) refl] ctx_or_def)
  show "xp_pid s = pid" "xp_mode s = mode" "xp_n_domains s = 1" "xp_domain_ids s = (\<lambda>_. 0)" "xp_best_rule s = - 1" "xp_best_effect s = 0"
    by (simp_all add: s_def exec_pipe_collect_updates_legacy_def init_legacy Let_def)
qed

text \<open>What the updates leave: the global domain as \<^verbatim>\<open>te_exec_update_domain\<close> leaves it, provenance apart.\<close>

definition te_exec_update_legacy :: "pid_t \<Rightarrow> bytes \<Rightarrow> 'a engine_scheme \<Rightarrow> 'a engine_scheme" where
  "te_exec_update_legacy pid comm st = te_exec_apply_legacy pid 0 (te_collect_updates st (update_ctx pid 0 TOP_EXEC comm 0)) st"

lemma update_legacy_forget:
  "te_pid_active st pid \<Longrightarrow> forget_prov (te_exec_update_legacy pid comm st) = forget_prov (te_exec_update_domain pid comm 0 st)"
  by (simp add: te_exec_update_legacy_def te_exec_update_domain_def exec_apply_forget [of pid _ _ _ comm])

lemma update_legacy_policy: "cap_maps.truncate (te_exec_update_legacy pid comm st) = cap_maps.truncate st"
proof -
  let ?c = "te_collect_updates st (update_ctx pid 0 TOP_EXEC comm 0)"
  obtain m t where "te_exec_apply pid comm 0 ?c st = with_prov m t (te_exec_update_legacy pid comm st)"
    using exec_apply_prov unfolding te_exec_update_legacy_def by blast
  from arg_cong [OF this, of cap_maps.truncate] show ?thesis
    by (simp add: exec_apply_policy) (simp add: with_prov_def cap_maps.truncate_def)
qed

section \<open>The verdict of the pipeline\<close>

definition forget_reports :: "'a sensor_scheme \<Rightarrow> 'a sensor_scheme" where
  "forget_reports st = st\<lparr>rb := map fill_violation_provenance_legacy (rb st)\<rparr>"

lemma fill_base:
  "fill_violation_provenance_legacy (fill_violation_provenance st pid d labels k fid ip v) = fill_violation_provenance_legacy v"
proof -
  let ?f = fill_violation_provenance_legacy
  have "?f (snd (provenance_cb st pid d labels k fid ip i w)) = ?f w" for i w
    by (simp add: provenance_cb_def copy_violation_provenance_def fill_violation_provenance_legacy_def Let_def
        split: option.split)
  then have "?f (loop_on is (provenance_cb st pid d labels k fid ip) w) = ?f w" for "is" w
    by (intro loop_on_inv [where P = "\<lambda>w'. ?f w' = ?f w"]) simp_all
  then show ?thesis
    by (simp add: fill_violation_provenance_def Let_def) (simp add: fill_violation_provenance_legacy_def)
qed

lemma fill_idem: "fill_violation_provenance_legacy (fill_violation_provenance_legacy v) = fill_violation_provenance_legacy v"
  by (simp add: fill_violation_provenance_legacy_def)

lemma emit_forget:
  "forget_reports (emit_violation_legacy pid rid target ip 0 labels op b k eff st) =
   forget_reports (emit_violation pid rid target ip kind fid 0 labels op b k eff st)"
  by (simp add: emit_violation_legacy_def emit_violation_def forget_reports_def Let_def fill_base fill_idem global_labels_legacy)

lemma signal_forget: "forget_reports (bpf_send_signal sig st) = bpf_send_signal sig (forget_reports st)"
  by (simp add: bpf_send_signal_def forget_reports_def cur_pid_def)

lemma finish_forget:
  "xp_best_domain_id s = 0 \<Longrightarrow> forget_reports (exec_pipe_finish_legacy x s st) = forget_reports (exec_pipe_finish x s st)"
  by (simp add: exec_pipe_finish_legacy_def exec_pipe_finish_def Let_def signal_forget
      emit_forget [where kind = TE_OBJ_EXEC and fid = None])

text \<open>The command name is short and NUL-padded, and stays so when it is copied into the evaluation record.\<close>

lemma comm_text:
  assumes "0 \<notin> set comm"
  shows "legacy_text 15 (xs_mem (exec_scratch_of env comm))" and "TAINT_PAT_LEN \<le> length (xs_mem (exec_scratch_of env comm))"
proof -
  let ?n = "take 15 comm" and ?t = "xs_mem (exec_scratch_of env comm)"
  obtain rest where t: "?t = ?n @ replicate (80 - length ?n) 0 @ rest"
    by (auto simp: xs_mem_def exec_scratch_of_def Let_def padded_def replicate_add [symmetric])
  have nz: "0 \<notin> set ?n" using assms by (meson in_set_takeD)
  have zeros: "takeWhile (\<lambda>c. c \<noteq> 0) (replicate k (0 :: u8)) = []" for k by (cases k) simp_all
  have "take 64 ?t = ?n @ replicate (64 - length ?n) 0" by (simp add: t)
  moreover have "takeWhile (\<lambda>c. c \<noteq> 0) (?n @ replicate k 0) = ?n" for k
    using nz by (subst takeWhile_append) (auto simp: zeros)
  ultimately have p: "pat_str ?t = ?n" by (simp only: pat_str_def cstr_def)
  have "rd ?t i = 0" if "i < 64" "length ?n \<le> i" for i
    unfolding t using that by (auto simp: rd_def nth_append)
  then show "legacy_text 15 ?t" by (simp add: legacy_text_def p)
  show "TAINT_PAT_LEN \<le> length ?t" unfolding t by simp
qed

lemma copied_text:
  assumes "legacy_text n t" "TAINT_PAT_LEN \<le> length t"
  shows "legacy_text n (te_copy_target d (Some t))"
proof -
  have r: "rd (te_copy_target d (Some t)) i = rd t i" if "i < 64" for i
    using that by (simp add: te_copy_target_def rd_def nth_append)
  have "take 64 (te_copy_target d (Some t)) = take 64 t"
    using assms(2) by (intro nth_equalityI) (auto simp: te_copy_target_def nth_append rd_def)
  then have "pat_str (te_copy_target d (Some t)) = pat_str t" by (simp add: pat_str_def)
  then show ?thesis using assms(1) r by (simp add: legacy_text_def)
qed

lemma eval_legacy_fields:
  "ev_op (exec_eval_legacy st pid t mode) = TOP_EXEC" "\<not> ev_include_file_labels (exec_eval_legacy st pid t mode)"
  "ev_target (exec_eval_legacy st pid t mode) = te_copy_target (ev_target eval_zero) (Some t)"
  by (simp_all add: exec_eval_legacy_def eval_zero_def)

text \<open>In the global domain the two evaluation records select the same rules and see the same labels.\<close>

lemma eval_legacy_hit:
  assumes "ru_domain_id r = 0"
  shows "exec_hit st (exec_eval_legacy st pid t mode) i r = exec_hit st (exec_eval st pid t mode) i r"
    and "rule_labels st (exec_eval_legacy st pid t mode) r = rule_labels st (exec_eval st pid t mode) r"
  using assms
  by (simp_all add: exec_hit_def rule_in_domain_def rule_labels_def effect_wanted_def te_cond_satisfied_def
      exec_eval_legacy_def exec_eval_def eval_zero_def global_labels_legacy)

lemma scan_result_unique:
  assumes "scan_result st e h r v" "scan_result st e' h' r' v'" "\<And>i. i < n_rules st \<Longrightarrow> h i = h' i"
  shows "v' = v"
proof -
  have "strongest_first f h (n_rules st) = strongest_first f h' (n_rules st)" for f
    using assms(3) by (auto simp: strongest_first_def fun_eq_iff)
  with assms strongest_first_unique show ?thesis
    by (cases v; cases v') (fastforce simp: scan_result_def strongest_first_def)+
qed

text \<open>From the collected updates on: the rule pass and the report.\<close>

lemma rules_legacy:
  fixes st :: "'a sensor_scheme"
  assumes wf: "wf_tables st" "rules_ok st" and pol: "legacy_policy L st" "legacy_text 15 (xs_mem x)" "TAINT_PAT_LEN \<le> length (xs_mem x)"
    and cmp: "wf_scratch cmp" and s: "xp_best_rule s = - 1" "xp_best_effect s = 0" "xp_mode s = te_tracepoint_mode"
  shows "forget_reports (exec_pipe_finish_legacy x (exec_pipe_scan_rules_legacy L cmp st x s) st) =
    forget_reports (snd (exec_verdict (xp_pid s) (xs_mem x) (Some (xs_display x)) te_tracepoint_mode
      (te_check_labels st (exec_eval st (xp_pid s) (xs_mem x) te_tracepoint_mode)) st))"
proof -
  let ?e = "exec_eval_legacy st (xp_pid s) (xs_mem x) te_tracepoint_mode" and ?m = "exec_eval st (xp_pid s) (xs_mem x) te_tracepoint_mode"
  let ?r = "te_check_labels st ?e" and ?q = "te_check_labels st ?m"
  let ?s = "exec_pipe_merge_rule (snd ?r) (fst ?r) s"
  have t: "legacy_target (ev_op ?e) (ev_target ?e)"
    using copied_text [OF pol(2,3)] by (simp add: legacy_target_def eval_legacy_fields)
  have scan: "exec_pipe_scan_rules_legacy L cmp st x s = ?s"
    using legacy_exec_scan [OF wf(1) pol(1) t cmp] s
    by (simp add: exec_pipe_scan_rules_legacy_def eval_legacy_fields case_prod_beta Let_def prod_eq_iff)
  have dom: "ru_domain_id (rule_at st i) = 0" if "i < n_rules st" for i
    using pol(1) that by (auto simp: legacy_policy_def legacy_rule_def active_rules_def)
  obtain v where v: "scan_result st ?e (\<lambda>i. exec_hit st ?e i (rule_at st i)) ?r v"
    using exec_scans(3) [OF wf, of ?e] by (auto simp: eval_legacy_fields)
  obtain w where "scan_result st ?m (\<lambda>i. exec_hit st ?m i (rule_at st i)) ?q w"
    using exec_scans(3) [OF wf, of ?m] by (auto simp: exec_eval_def eval_zero_def)
  with scan_result_unique [OF v this] dom eval_legacy_hit(1) have w: "scan_result st ?m (\<lambda>i. exec_hit st ?m i (rule_at st i)) ?q v" by metis
  show ?thesis
  proof (cases v)
    case None
    then have "?s = s" using merge_none v by blast
    then show ?thesis using s exec_verdict_none [OF w [unfolded None]] by (simp add: scan exec_pipe_finish_legacy_def)
  next
    case (Some j)
    then have j: "j < n_rules st" "exec_hit st ?m j (rule_at st j)" using w by (simp_all add: scan_result_def strongest_first_def)
    have p: "pipe_holds st ?e ?s j" using merge_first v Some s(1) by blast
    then have "xp_best_domain_id ?s = 0" using dom [OF j(1)] by (simp add: pipe_holds_def Let_def)
    then have "forget_reports (exec_pipe_finish_legacy x ?s st) = forget_reports (exec_report (xp_pid s) x ?e st j)"
      using pipe_finish [OF p, of x] s(3) by (simp add: finish_forget exec_report_def)
    moreover have "exec_report (xp_pid s) x ?e st j = exec_report (xp_pid s) x ?m st j"
      using eval_legacy_hit(2) [OF dom [OF j(1)], of st] by (simp add: exec_report_def)
    ultimately show ?thesis using verdict_report [OF w [unfolded Some] j(2)] by (simp add: scan)
  qed
qed

lemma legacy_policy_cong:
  assumes "cap_maps.truncate s = cap_maps.truncate t"
  shows "legacy_policy L s = legacy_policy L t"
  by (simp add: legacy_policy_def n_rules_def n_updates_def active_rules_def active_updates_def policy_cong [OF assms])

section \<open>Properties\<close>

text \<open>C30: exec on old kernels. When a process under a policy within the limits of the Linux 5.10 build executes a
  program, the shorter pipeline leaves the engine, provenance and its clock apart, as the regular build leaves the
  global domain, and then reports and signals exactly what one scan of the rule table decides on that state, the
  provenance fields of the report apart.\<close>

theorem legacy_exec_pipeline_equiv:
  assumes "wf_tables st" "rules_ok st" "legacy_policy L st" "wf_scratch cmp"
    and "te_pid_active st (cur_pid st)" "0 \<notin> set (cur_comm st)"
  shows "let x = exec_scratch_of env (cur_comm st);
      st1 = te_exec_update_legacy (cur_pid st) (xs_mem x) st
    in forget_prov st1 = forget_prov (te_exec_update_domain (cur_pid st) (xs_mem x) 0 st) \<and>
       forget_reports (handle_exec_args_legacy L cmp (\<lambda>_. True) env st) =
       forget_reports (snd (te_handle_exec_event_with_args (cur_pid st) (Some (xs_mem x)) (Some (xs_display x)) te_tracepoint_mode st1))"
proof -
  let ?p = "cur_pid st" and ?x = "exec_scratch_of env (cur_comm st)" and ?m = te_tracepoint_mode
  let ?s = "exec_pipe_collect_updates_legacy L st ?x (exec_pipe_init_legacy st ?p ?m)"
  define st1 where "st1 = te_exec_update_legacy ?p (xs_mem ?x) st"
  note tx = comm_text [OF assms(6), of env]
  note c = collect_legacy [OF assms(1,3) tx(1), of ?p ?m]
  have pol: "cap_maps.truncate st1 = cap_maps.truncate st" unfolding st1_def by (rule update_legacy_policy)
  have ok: "te_pid_active st1 ?p" "wf_tables st1" "rules_ok st1" "legacy_policy L st1"
    using assms by (simp_all add: domain_cong [OF pol] rules_ok_cong [OF pol] legacy_policy_cong [OF pol])
  have "exec_pipe_apply_updates_legacy ?x ?s st = st1"
    using assms(5) by (simp add: exec_pipe_apply_updates_legacy_def c st1_def te_exec_update_legacy_def)
  then have "handle_exec_args_legacy L cmp (\<lambda>_. True) env st =
      exec_pipe_finish_legacy ?x (exec_pipe_scan_rules_legacy L cmp st1 ?x ?s) st1"
    using assms(5) by (simp add: handle_exec_args_legacy_def exec_tp_update_simple_legacy_def exec_tp_update_prefix_legacy_def
        exec_tp_rule_simple_legacy_def exec_tp_rule_complex_legacy_def Let_def)
  then have "forget_reports (handle_exec_args_legacy L cmp (\<lambda>_. True) env st) =
      forget_reports (snd (te_handle_exec_event_with_args ?p (Some (xs_mem ?x)) (Some (xs_display ?x)) ?m st1))"
    using rules_legacy [OF ok(2-4) tx assms(4) c(6,7,3), unfolded c(2)] ok(1)
    by (simp add: te_handle_exec_event_with_args_def te_tracepoint_mode_def)
  with update_legacy_forget [OF assms(5)] show ?thesis by (simp add: Let_def st1_def)
qed

text \<open>A process of the policy of theory Legacy_Scan runs \<^verbatim>\<open>curl\<close>.\<close>

definition old_sensor :: sensor where
  "old_sensor = engine.extend old_engine
     (sensor.fields [] (\<lambda>_. True) 0 0x6400000064 1 (str_bytes ''curl'') [] (hash_new 64))"

lemma old_sensor_ok:
  "wf_tables old_sensor" "rules_ok old_sensor" "legacy_policy old_consts old_sensor" "te_pid_active old_sensor (cur_pid old_sensor)"
proof -
  have ext: "ts_rules old_sensor = ts_rules old_engine" "ts_updates old_sensor = ts_updates old_engine"
    "ts_counts old_sensor = ts_counts old_engine" "cap_stats old_sensor = cap_stats old_engine" "cap_task old_sensor = cap_task old_engine"
    by (simp_all add: old_sensor_def engine.extend_def)
  show "wf_tables old_sensor" using old_policy(1) by (simp add: wf_tables_def ext)
  show "legacy_policy old_consts old_sensor"
    using old_policy(2) by (simp add: legacy_policy_def active_rules_def active_updates_def n_rules_def n_updates_def ext)
  show "rules_ok old_sensor"
    by (auto simp: rules_ok_def active_rules_def n_rules_def ext old_engine_def no_rule_def)
  have "cur_pid old_sensor = 100" by (simp add: cur_pid_def old_sensor_def engine.extend_def sensor.fields_def)
  then show "te_pid_active old_sensor (cur_pid old_sensor)"
    by (simp add: te_pid_active_def cap_task_bound_def ext) (simp add: old_engine_def demo_engine_def engine_example_defs example_simps)
qed

theorem legacy_exec_pipeline_equiv_witness:
  "let env = \<lparr>xe_filename = str_bytes ''/usr/bin/curl'', xe_args = None, xe_user = (\<lambda>_ _. None)\<rparr>;
       x = exec_scratch_of env (str_bytes ''curl''); st1 = te_exec_update_legacy 100 (xs_mem x) old_sensor
   in forget_reports (handle_exec_args_legacy old_consts old_scratch (\<lambda>_. True) env old_sensor) =
      forget_reports (snd (te_handle_exec_event_with_args 100 (Some (xs_mem x)) (Some (xs_display x)) te_tracepoint_mode st1))"
proof -
  have "wf_scratch old_scratch" by (simp add: wf_scratch_def old_scratch_def)
  moreover have cur: "cur_pid old_sensor = 100" "cur_comm old_sensor = str_bytes ''curl''"
    by (simp_all add: cur_pid_def old_sensor_def engine.extend_def sensor.fields_def)
  moreover have "0 \<notin> set (cur_comm old_sensor)" by (simp add: cur str_bytes_def)
  ultimately show ?thesis
    using legacy_exec_pipeline_equiv [OF old_sensor_ok(1-3) _ old_sensor_ok(4)] by (simp add: Let_def)
qed

section \<open>Exit\<close>

text \<open>A process that has state in the global domain only.\<close>

definition global_only :: "'a engine_scheme \<Rightarrow> pid_t \<Rightarrow> bool" where
  "global_only st pid \<longleftrightarrow>
     (\<forall>d. d \<noteq> 0 \<longrightarrow> map_lookup (ts_proc_domains st) (te_pid_domain_key pid d) = None \<and>
        map_lookup (ts_exit_gates st) (te_pid_domain_key pid d) = None \<and>
        (\<forall>l. map_lookup (ts_proc_prov st) \<lparr>pl_pid = pid, pl_domain_id = d, pl_label = l\<rparr> = None))"

lemma domain_loop_global:
  assumes "\<And>d. d \<noteq> 0 \<Longrightarrow> body d (body 0 st) = body 0 st"
  shows "domain_loop pid body st = domain_loop_legacy pid body st"
proof -
  let ?cb = "\<lambda>i st. let d = te_domain_for_depth st pid i in if 0 < i \<and> d = 0 then (True, st) else (False, body d st)"
  have rest: "loop_on is ?cb (body 0 st) = body 0 st" if "0 \<notin> set is" for "is"
    using that assms by (induction "is") (auto simp: Let_def)
  have "[0..<CAP_DOMAIN_DEPTH] = 0 # [1..<CAP_DOMAIN_DEPTH]" by (simp add: upt_rec)
  then show ?thesis using rest [of "[1..<CAP_DOMAIN_DEPTH]"] by (simp add: domain_loop_def domain_loop_legacy_body)
qed

lemma map_delete_absent: "map_lookup m k = None \<Longrightarrow> map_delete k m = m"
  by (simp add: map_delete_def map_lookup_def)

lemma legacy_exit_gates:
  assumes "wf_tables st" "legacy_policy L st"
    and "\<And>u. u \<in> set (active_updates st) \<Longrightarrow> op_class (up_op u) \<noteq> 2 \<Longrightarrow> up_gate_exit_code u = TAINT_GATE_IMMEDIATE"
  shows "te_exit_gate_hits_legacy L st d pending status = te_exit_gate_hits st d pending status"
proof -
  note u = update_cells [OF assms(1,2)]
  have "id (bpf_loop_legacy (te_update_count L TOP_EXEC)
      (\<lambda>i. te_exit_gate_cb st d pending status (scan_index (te_update_start L TOP_EXEC) i)) 0) =
    bpf_loop (te_count st 1) (te_exit_gate_cb st d pending status) (id 0)"
  proof (rule update_group_scan [where Inv = "\<lambda>_. True" and h = id, OF assms(1,2)])
    fix i and g :: u64
    assume i: "i < unat (legacy_n_updates L)"
    let ?u = "a_cell (ts_updates st) i"
    assume "op_class (up_op ?u) \<noteq> op_class TOP_EXEC"
    moreover have "?u \<in> set (active_updates st)"
      using i assms(2) by (auto simp: active_updates_def legacy_policy_def)
    ultimately have "up_gate_exit_code ?u = TAINT_GATE_IMMEDIATE" using assms(3) by (simp add: op_class_def)
    then show "te_exit_gate_cb st d pending status i (id g) = (False, id g)"
      using u(4) [OF i] by (simp add: te_exit_gate_cb_def Let_def)
  qed (simp_all add: map_prod.id)
  then show ?thesis by (simp add: te_exit_gate_hits_legacy_def te_exit_gate_hits_def)
qed

lemma stamp_frame:
  "ts_exit_gates (te_stamp r d ep g i st) = ts_exit_gates st" "ts_proc_prov (te_stamp r d ep g i st) = ts_proc_prov st"
  "ts_proc_domains (te_stamp r d ep g i st) = ts_proc_domains st"
  by (simp_all add: te_stamp_def Let_def split: option.split)

lemma fold_delete_absent:
  "(\<And>i. i \<in> set is \<Longrightarrow> map_lookup m (key i) = None) \<Longrightarrow> fold (\<lambda>i. map_delete (key i)) is m = m"
  by (induction "is") (simp_all add: map_delete_absent)

lemma fold_delete_none:
  "map_lookup m k = None \<Longrightarrow> map_lookup (fold (\<lambda>i. map_delete (key i)) is m) k = None"
  by (induction "is" arbitrary: m) (simp_all add: lookup_delete)

lemma exit_zero_global:
  assumes "global_only st pid"
  shows "global_only (te_exit_domain pid status 0 st) pid"
  using assms
  by (auto simp: global_only_def te_exit_domain_def te_delete_proc_domain_def Let_def stamp_frame lookup_delete fold_delete_none
      split: option.split)

lemma exit_other_global:
  assumes "global_only st pid" "d \<noteq> 0"
  shows "te_exit_domain pid status d st = st"
proof -
  have "map_lookup (ts_exit_gates st) (te_pid_domain_key pid d) = None" "map_lookup (ts_proc_domains st) (te_pid_domain_key pid d) = None"
    "map_lookup (ts_proc_prov st) \<lparr>pl_pid = pid, pl_domain_id = d, pl_label = bit64 i\<rparr> = None" for i
    using assms by (simp_all add: global_only_def)
  then show ?thesis
    using assms(2) by (simp add: te_exit_domain_def te_delete_proc_domain_def Let_def map_delete_absent
        fold_delete_absent [where key = "\<lambda>i. \<lparr>pl_pid = pid, pl_domain_id = d, pl_label = bit64 i\<rparr>"])
qed

text \<open>Under a policy of old kernels, in which only exec updates wait for an exit code, a process with state in the
  global domain only leaves the same engine behind.\<close>

lemma legacy_exit:
  assumes "wf_tables st" "legacy_policy L st" "global_only st pid"
    and "\<And>u. u \<in> set (active_updates st) \<Longrightarrow> op_class (up_op u) \<noteq> 2 \<Longrightarrow> up_gate_exit_code u = TAINT_GATE_IMMEDIATE"
  shows "te_exit_legacy L pid status st = te_exit pid status st"
proof -
  have "te_exit_gate_hits_legacy L st d g status = te_exit_gate_hits st d g status" for d g
    using assms(4) by (intro legacy_exit_gates [OF assms(1,2)])
  then have "te_exit_domain_legacy L pid status 0 st = te_exit_domain pid status 0 st"
    by (cases "map_lookup (ts_exit_gates st) (te_pid_domain_key pid 0)")
      (simp_all add: te_exit_domain_legacy_def te_exit_domain_def Let_def)
  moreover have "domain_loop pid (te_exit_domain pid status) st = domain_loop_legacy pid (te_exit_domain pid status) st"
    by (rule domain_loop_global) (rule exit_other_global [OF exit_zero_global [OF assms(3)]])
  ultimately show ?thesis by (simp add: te_exit_legacy_def te_exit_def domain_loop_legacy_body)
qed

end
