(* ===== verification/Legacy_Flows.thy ===== *)
theory Legacy_Flows
  imports Legacy_Exec
begin

text \<open>
  The flows of the engine in the build for Linux 5.10: the functions of \<^verbatim>\<open>bpf/taint_engine.bpf.h\<close> as the macros of
  \<^verbatim>\<open>ACTPLANE_LEGACY_KERNEL\<close> leave them. A walk over the domains stops after the global one, an update scan covers
  the group of its operation, and the loops over the labels always run over all of them. Each flow is then
  the body that the regular flow runs for the global domain.
\<close>

section \<open>Provenance\<close>

definition te_record_proc_prov_mask_legacy ::
  "legacy_consts \<Rightarrow> pid_t \<Rightarrow> u32 \<Rightarrow> u64 \<Rightarrow> u32 \<Rightarrow> bytes option \<Rightarrow> u32 \<Rightarrow>
   'a engine_scheme \<Rightarrow> 'a engine_scheme" where
  "te_record_proc_prov_mask_legacy L pid domain_id labels op target ip st =
     (let (t, m) = bpf_loop_legacy (te_count_legacy L 5)
                     (te_record_proc_prov_cb (ktime st) pid domain_id labels op target ip)
                     (ktick st, ts_proc_prov st)
      in st\<lparr>ktick := t, ts_proc_prov := m\<rparr>)"

definition te_record_file_prov_mask_legacy ::
  "legacy_consts \<Rightarrow> file_domain_id \<Rightarrow> u64 \<Rightarrow> pid_t \<Rightarrow> u32 \<Rightarrow> bytes option \<Rightarrow>
   'a engine_scheme \<Rightarrow> 'a engine_scheme" where
  "te_record_file_prov_mask_legacy L fdom labels pid op target st =
     (let (t, m) = bpf_loop_legacy (te_count_legacy L 5) (te_record_file_prov_cb (ktime st) fdom labels pid op target)
                     (ktick st, ts_file_prov st)
      in st\<lparr>ktick := t, ts_file_prov := m\<rparr>)"

definition te_copy_proc_prov_legacy ::
  "legacy_consts \<Rightarrow> pid_t \<Rightarrow> pid_t \<Rightarrow> u32 \<Rightarrow> u64 \<Rightarrow>
   'a engine_scheme \<Rightarrow> 'a engine_scheme" where
  "te_copy_proc_prov_legacy L from to domain_id labels st =
     st\<lparr>ts_proc_prov := bpf_loop_legacy (te_count_legacy L 5) (te_copy_proc_prov_cb from to domain_id labels)
                          (ts_proc_prov st)\<rparr>"

definition te_copy_file_prov_to_file_legacy ::
  "legacy_consts \<Rightarrow> file_domain_id \<Rightarrow> file_domain_id \<Rightarrow> u64 \<Rightarrow>
   'a engine_scheme \<Rightarrow> 'a engine_scheme" where
  "te_copy_file_prov_to_file_legacy L from to labels st =
     st\<lparr>ts_file_prov := bpf_loop_legacy (te_count_legacy L 5) (te_copy_file_prov_to_file_cb from to labels)
                          (ts_file_prov st)\<rparr>"

definition te_delete_file_prov_mask_legacy ::
  "legacy_consts \<Rightarrow> file_domain_id \<Rightarrow> u64 \<Rightarrow>
   'a engine_scheme \<Rightarrow> 'a engine_scheme" where
  "te_delete_file_prov_mask_legacy L fdom labels st =
     st\<lparr>ts_file_prov := bpf_loop_legacy (te_count_legacy L 5) (te_delete_file_prov_cb fdom labels) (ts_file_prov st)\<rparr>"

definition te_copy_file_prov_to_proc_legacy ::
  "legacy_consts \<Rightarrow> pid_t \<Rightarrow> file_domain_id \<Rightarrow> u64 \<Rightarrow>
   'a engine_scheme \<Rightarrow> 'a engine_scheme" where
  "te_copy_file_prov_to_proc_legacy L pid fdom labels st =
     st\<lparr>ts_proc_prov := bpf_loop_legacy (te_count_legacy L 5)
          (te_copy_file_prov_to_proc_cb (ts_file_prov st) pid fdom labels) (ts_proc_prov st)\<rparr>"

definition te_copy_proc_prov_to_file_legacy ::
  "legacy_consts \<Rightarrow> pid_t \<Rightarrow> file_domain_id \<Rightarrow> u64 \<Rightarrow>
   'a engine_scheme \<Rightarrow> 'a engine_scheme" where
  "te_copy_proc_prov_to_file_legacy L pid fdom labels st =
     st\<lparr>ts_file_prov := bpf_loop_legacy (te_count_legacy L 5)
          (te_copy_proc_prov_to_file_cb (ts_proc_prov st) pid fdom labels) (ts_file_prov st)\<rparr>"

definition te_copy_endp_prov_to_proc_legacy ::
  "legacy_consts \<Rightarrow> pid_t \<Rightarrow> endp_domain_id \<Rightarrow> u64 \<Rightarrow>
   'a engine_scheme \<Rightarrow> 'a engine_scheme" where
  "te_copy_endp_prov_to_proc_legacy L pid edom labels st =
     st\<lparr>ts_proc_prov := bpf_loop_legacy (te_count_legacy L 5)
          (te_copy_endp_prov_to_proc_cb (ts_endp_prov st) pid edom labels) (ts_proc_prov st)\<rparr>"

definition te_copy_proc_prov_to_endp_legacy ::
  "legacy_consts \<Rightarrow> pid_t \<Rightarrow> endp_domain_id \<Rightarrow> u64 \<Rightarrow>
   'a engine_scheme \<Rightarrow> 'a engine_scheme" where
  "te_copy_proc_prov_to_endp_legacy L pid edom labels st =
     st\<lparr>ts_endp_prov := bpf_loop_legacy (te_count_legacy L 5)
          (te_copy_proc_prov_to_endp_cb (ts_proc_prov st) pid edom labels) (ts_endp_prov st)\<rparr>"

section \<open>Labels an event brings\<close>

definition te_add_labels_domain_legacy ::
  "pid_t \<Rightarrow> u32 \<Rightarrow> u64 \<Rightarrow> 'a engine_scheme \<Rightarrow> 'a engine_scheme" where
  "te_add_labels_domain_legacy pid domain_id add st =
     (if \<not> te_pid_active st pid \<or> add = 0 then st
      else if \<not> cap_domain_matches_pid_legacy st pid domain_id then st
      else case te_get_domain st pid domain_id of
             Some p \<Rightarrow>
               (if domain_id = 0
                then st\<lparr>ts_proc := map_modify pid (\<lambda>p. p\<lparr>ps_labels := ps_labels p OR add\<rparr>) (ts_proc st)\<rparr>
                else st\<lparr>ts_proc_domains :=
                       map_modify (te_pid_domain_key pid domain_id)
                         (\<lambda>p. p\<lparr>ps_labels := ps_labels p OR add\<rparr>) (ts_proc_domains st)\<rparr>)
           | None \<Rightarrow>
               let ns = \<lparr>ps_labels = add, ps_lin_gates = 0\<rparr>
               in if domain_id = 0 then st\<lparr>ts_proc := map_put pid ns (ts_proc st)\<rparr>
                  else st\<lparr>ts_proc_domains :=
                         map_put (te_pid_domain_key pid domain_id) ns (ts_proc_domains st)\<rparr>)"

definition te_update_add_file_domain_legacy ::
  "legacy_consts \<Rightarrow> te_path_cmp_scratch \<Rightarrow> 'a engine_scheme \<Rightarrow> u8 \<Rightarrow> bytes \<Rightarrow> pid_t \<Rightarrow>
   u32 \<Rightarrow> u64" where
  "te_update_add_file_domain_legacy L cmp st op target pid domain_id =
     (if \<not> te_pid_active st pid \<or> \<not> cap_domain_matches_pid_legacy st pid domain_id then 0
      else uc_add (fst (te_collect_file_updates_legacy L st cmp (update_ctx pid domain_id op target 0))))"

definition te_update_add_endpoint_domain_legacy ::
  "legacy_consts \<Rightarrow> 'a engine_scheme \<Rightarrow> u8 \<Rightarrow> u32 \<Rightarrow> pid_t \<Rightarrow>
   u32 \<Rightarrow> u64" where
  "te_update_add_endpoint_domain_legacy L st op ip pid domain_id =
     (if \<not> te_pid_active st pid \<or> \<not> cap_domain_matches_pid_legacy st pid domain_id then 0
      else uc_add (te_collect_endpoint_updates_legacy L st (update_ctx pid domain_id op [] ip)))"

section \<open>Fork\<close>

definition te_copy_proc_domain_state_legacy ::
  "legacy_consts \<Rightarrow> pid_t \<Rightarrow> pid_t \<Rightarrow> u32 \<Rightarrow>
   'a engine_scheme \<Rightarrow> 'a engine_scheme" where
  "te_copy_proc_domain_state_legacy L from to domain_id st =
     (case te_get_domain st from domain_id of
        None \<Rightarrow> st
      | Some ns \<Rightarrow>
          let st = (if domain_id = 0 then st\<lparr>ts_proc := map_put to ns (ts_proc st)\<rparr>
                    else st\<lparr>ts_proc_domains := map_put (te_pid_domain_key to domain_id) ns (ts_proc_domains st)\<rparr>)
          in if ps_labels ns \<noteq> 0 then te_copy_proc_prov_legacy L from to domain_id (ps_labels ns) st else st)"

definition te_fork_legacy ::
  "legacy_consts \<Rightarrow> pid_t \<Rightarrow> pid_t \<Rightarrow>
   'a engine_scheme \<Rightarrow> 'a engine_scheme" where
  "te_fork_legacy L ppid cpid st =
     (if \<not> te_pid_active st ppid then st
      else
        let st = cap_fork ppid cpid st;
            st = domain_loop_legacy ppid (te_copy_proc_domain_state_legacy L ppid cpid) st
        in st\<lparr>ts_root := map_put cpid (te_root st ppid) (ts_root st)\<rparr>)"

section \<open>Files\<close>

text \<open>The comparison scratch is per-CPU memory: what one scan leaves there the next overwrites, so a flow takes it as an
  argument and forgets it.\<close>

definition te_read_domain_legacy ::
  "legacy_consts \<Rightarrow> te_path_cmp_scratch \<Rightarrow> pid_t \<Rightarrow> file_id \<Rightarrow> bytes \<Rightarrow> u32 \<Rightarrow>
   'a engine_scheme \<Rightarrow> 'a engine_scheme" where
  "te_read_domain_legacy L cmp pid fid path domain_id st =
     (if \<not> te_pid_active st pid \<or> \<not> cap_domain_matches_pid_legacy st pid domain_id then st
      else
        let fdom = te_file_domain_key_for domain_id fid;
            file_labels = (case map_lookup (ts_file st) fdom of None \<Rightarrow> 0 | Some fs \<Rightarrow> fs_labels fs);
            u = fst (te_collect_file_updates_legacy L st cmp (update_ctx pid domain_id TOP_OPEN path 0));
            src_labels = uc_add u;
            st = te_add_labels_domain_legacy pid domain_id (file_labels OR src_labels) st;
            st = (if file_labels \<noteq> 0 then te_copy_file_prov_to_proc_legacy L pid fdom file_labels st else st);
            st = (if src_labels \<noteq> 0
                  then te_record_proc_prov_mask_legacy L pid domain_id src_labels (ucast TOP_OPEN) (Some path) 0 st else st)
        in if uc_gates u \<noteq> 0 \<or> uc_invals u \<noteq> 0 then
             let r = te_root st pid; (ep, st) = te_tick r domain_id st
             in te_stamp r domain_id ep (uc_gates u) (uc_invals u) st
           else st)"

definition te_read_legacy ::
  "legacy_consts \<Rightarrow> te_path_cmp_scratch \<Rightarrow> pid_t \<Rightarrow> file_id \<Rightarrow> bytes \<Rightarrow>
   'a engine_scheme \<Rightarrow> 'a engine_scheme" where
  "te_read_legacy L cmp pid fid path st = domain_loop_legacy pid (te_read_domain_legacy L cmp pid fid path) st"

definition te_write_flow_domain_legacy ::
  "legacy_consts \<Rightarrow> te_path_cmp_scratch \<Rightarrow> pid_t \<Rightarrow> file_id \<Rightarrow> bytes \<Rightarrow> u32 \<Rightarrow>
   'a engine_scheme \<Rightarrow> 'a engine_scheme" where
  "te_write_flow_domain_legacy L cmp pid fid path domain_id st =
     (if \<not> te_pid_active st pid \<or> \<not> cap_domain_matches_pid_legacy st pid domain_id then st
      else
        let u = fst (te_collect_file_updates_legacy L st cmp (update_ctx pid domain_id TOP_WRITE path 0));
            pl = te_labels_for_domain_legacy st pid domain_id
        in if uc_gates u = 0 \<and> uc_invals u = 0 \<and> pl = 0 then st
           else
             let r = te_root st pid;
                 (ep, st) = te_tick r domain_id st;
                 st = (if uc_gates u \<noteq> 0 \<or> uc_invals u \<noteq> 0
                       then te_stamp r domain_id ep (uc_gates u) (uc_invals u) st else st)
             in if pl \<noteq> 0 then
                  let fdom = te_file_domain_key_for domain_id fid;
                      st = (case map_lookup (ts_file st) fdom of
                              Some _ \<Rightarrow>
                                st\<lparr>ts_file := map_modify fdom
                                     (\<lambda>fs. fs\<lparr>fs_labels := fs_labels fs OR pl, fs_last_write_epoch := ep\<rparr>) (ts_file st)\<rparr>
                            | None \<Rightarrow>
                                st\<lparr>ts_file := map_put fdom \<lparr>fs_labels = pl, fs_last_write_epoch = ep\<rparr> (ts_file st)\<rparr>)
                  in te_copy_proc_prov_to_file_legacy L pid fdom pl st
                else st)"

definition te_write_flow_legacy ::
  "legacy_consts \<Rightarrow> te_path_cmp_scratch \<Rightarrow> pid_t \<Rightarrow> file_id \<Rightarrow> bytes \<Rightarrow>
   'a engine_scheme \<Rightarrow> 'a engine_scheme" where
  "te_write_flow_legacy L cmp pid fid path st = domain_loop_legacy pid (te_write_flow_domain_legacy L cmp pid fid path) st"

definition te_materialize_file_source_domain_legacy ::
  "legacy_consts \<Rightarrow> te_path_cmp_scratch \<Rightarrow> pid_t \<Rightarrow> file_id \<Rightarrow> bytes \<Rightarrow> u32 \<Rightarrow>
   'a engine_scheme \<Rightarrow> 'a engine_scheme" where
  "te_materialize_file_source_domain_legacy L cmp pid fid path domain_id st =
     (let src_labels = te_update_add_file_domain_legacy L cmp st TOP_OPEN path pid domain_id
      in if src_labels = 0 then st
         else
           let fdom = te_file_domain_key_for domain_id fid;
               st = (case map_lookup (ts_file st) fdom of
                       Some _ \<Rightarrow>
                         st\<lparr>ts_file := map_modify fdom (\<lambda>fs. fs\<lparr>fs_labels := fs_labels fs OR src_labels\<rparr>) (ts_file st)\<rparr>
                     | None \<Rightarrow>
                         st\<lparr>ts_file := map_put fdom \<lparr>fs_labels = src_labels, fs_last_write_epoch = 0\<rparr> (ts_file st)\<rparr>)
           in te_record_file_prov_mask_legacy L fdom src_labels pid (ucast TOP_OPEN) (Some path) st)"

definition te_materialize_file_source_legacy ::
  "legacy_consts \<Rightarrow> te_path_cmp_scratch \<Rightarrow> pid_t \<Rightarrow> file_id option \<Rightarrow> bytes \<Rightarrow>
   'a engine_scheme \<Rightarrow> 'a engine_scheme" where
  "te_materialize_file_source_legacy L cmp pid fid path st =
     (case fid of
        None \<Rightarrow> st
      | Some fid \<Rightarrow> domain_loop_legacy pid (te_materialize_file_source_domain_legacy L cmp pid fid path) st)"

definition te_copy_file_state_domain_legacy ::
  "legacy_consts \<Rightarrow> pid_t \<Rightarrow> file_id \<Rightarrow> file_id \<Rightarrow> bool \<Rightarrow> u32 \<Rightarrow>
   'a engine_scheme \<Rightarrow> 'a engine_scheme" where
  "te_copy_file_state_domain_legacy L pid from_fid to_fid delete_from domain_id st =
     (if \<not> te_pid_active st pid \<or> \<not> cap_domain_matches_pid_legacy st pid domain_id then st
      else
        let from = te_file_domain_key_for domain_id from_fid;
            to = te_file_domain_key_for domain_id to_fid;
            fs = map_lookup (ts_file st) from;
            have_src = (fs \<noteq> None);
            labels = (case fs of None \<Rightarrow> 0 | Some fs \<Rightarrow> fs_labels fs);
            last_write_epoch = (case fs of None \<Rightarrow> 0 | Some fs \<Rightarrow> fs_last_write_epoch fs);
            dst = map_lookup (ts_file st) to
        in if delete_from then
             let dst_labels = (case dst of None \<Rightarrow> 0 | Some d \<Rightarrow> fs_labels d);
                 st = (if dst_labels \<noteq> 0 then te_delete_file_prov_mask_legacy L to dst_labels st else st);
                 st = (if labels \<noteq> 0 then
                         te_copy_file_prov_to_file_legacy L from to labels
                           (st\<lparr>ts_file := map_put to \<lparr>fs_labels = labels, fs_last_write_epoch = last_write_epoch\<rparr>
                                 (ts_file st)\<rparr>)
                       else st\<lparr>ts_file := map_delete to (ts_file st)\<rparr>);
                 st = (if have_src then st\<lparr>ts_file := map_delete from (ts_file st)\<rparr> else st)
             in if labels \<noteq> 0 then te_delete_file_prov_mask_legacy L from labels st else st
           else if labels = 0 then st
           else
             let st = (case dst of
                         Some _ \<Rightarrow>
                           st\<lparr>ts_file := map_modify to
                                (\<lambda>d. let d = d\<lparr>fs_labels := fs_labels d OR labels\<rparr>
                                     in if last_write_epoch > fs_last_write_epoch d
                                        then d\<lparr>fs_last_write_epoch := last_write_epoch\<rparr> else d) (ts_file st)\<rparr>
                       | None \<Rightarrow>
                           st\<lparr>ts_file := map_put to \<lparr>fs_labels = labels, fs_last_write_epoch = last_write_epoch\<rparr>
                                (ts_file st)\<rparr>)
             in te_copy_file_prov_to_file_legacy L from to labels st)"

definition te_copy_file_state_legacy ::
  "legacy_consts \<Rightarrow> pid_t \<Rightarrow> file_id \<Rightarrow> file_id \<Rightarrow> bool \<Rightarrow>
   'a engine_scheme \<Rightarrow> 'a engine_scheme" where
  "te_copy_file_state_legacy L pid from_fid to_fid delete_from st =
     domain_loop_legacy pid (te_copy_file_state_domain_legacy L pid from_fid to_fid delete_from) st"

definition te_swap_file_state_legacy ::
  "legacy_consts \<Rightarrow> pid_t \<Rightarrow> file_id \<Rightarrow> file_id \<Rightarrow>
   'a engine_scheme \<Rightarrow> 'a engine_scheme" where
  "te_swap_file_state_legacy L pid a_fid b_fid st =
     (let tmp = swap_tmp_fid (ktime st (ktick st)) a_fid b_fid;
          st = st\<lparr>ktick := Suc (ktick st)\<rparr>;
          st = te_copy_file_state_legacy L pid b_fid tmp True st;
          st = te_copy_file_state_legacy L pid a_fid b_fid True st
      in te_copy_file_state_legacy L pid tmp a_fid True st)"

section \<open>Endpoints\<close>

definition te_connect_flow_domain_legacy ::
  "legacy_consts \<Rightarrow> u32 \<Rightarrow> pid_t \<Rightarrow> u32 \<Rightarrow>
   'a engine_scheme \<Rightarrow> 'a engine_scheme" where
  "te_connect_flow_domain_legacy L ip pid domain_id st =
     (if \<not> te_pid_active st pid \<or> \<not> cap_domain_matches_pid_legacy st pid domain_id then st
      else
        let src_labels = te_update_add_endpoint_domain_legacy L st TOP_CONNECT ip pid domain_id;
            st = te_add_labels_domain_legacy pid domain_id src_labels st;
            st = (if src_labels \<noteq> 0
                  then te_record_proc_prov_mask_legacy L pid domain_id src_labels (ucast TOP_CONNECT) None ip st else st);
            pl = te_labels_for_domain_legacy st pid domain_id
        in if pl = 0 then st
           else
             let edom = te_endp_domain_key_for domain_id ip;
                 nv = (case map_lookup (ts_endp st) edom of None \<Rightarrow> 0 | Some el \<Rightarrow> el) OR pl
             in te_copy_proc_prov_to_endp_legacy L pid edom pl (st\<lparr>ts_endp := map_put edom nv (ts_endp st)\<rparr>))"

definition te_connect_flow_legacy ::
  "legacy_consts \<Rightarrow> u32 \<Rightarrow> pid_t \<Rightarrow>
   'a engine_scheme \<Rightarrow> 'a engine_scheme" where
  "te_connect_flow_legacy L ip pid st = domain_loop_legacy pid (te_connect_flow_domain_legacy L ip pid) st"

definition te_recv_flow_domain_legacy ::
  "legacy_consts \<Rightarrow> u32 \<Rightarrow> pid_t \<Rightarrow> u32 \<Rightarrow>
   'a engine_scheme \<Rightarrow> 'a engine_scheme" where
  "te_recv_flow_domain_legacy L ip pid domain_id st =
     (if \<not> te_pid_active st pid \<or> \<not> cap_domain_matches_pid_legacy st pid domain_id then st
      else
        let edom = te_endp_domain_key_for domain_id ip;
            endp_labels = (case map_lookup (ts_endp st) edom of None \<Rightarrow> 0 | Some el \<Rightarrow> el);
            src_labels = te_update_add_endpoint_domain_legacy L st TOP_RECV ip pid domain_id;
            add = endp_labels OR src_labels
        in if add = 0 then st
           else
             let st = te_add_labels_domain_legacy pid domain_id add st;
                 st = (if endp_labels \<noteq> 0 then te_copy_endp_prov_to_proc_legacy L pid edom endp_labels st else st)
             in if src_labels \<noteq> 0
                then te_record_proc_prov_mask_legacy L pid domain_id src_labels (ucast TOP_RECV) None ip st else st)"

definition te_recv_flow_legacy ::
  "legacy_consts \<Rightarrow> u32 \<Rightarrow> pid_t \<Rightarrow>
   'a engine_scheme \<Rightarrow> 'a engine_scheme" where
  "te_recv_flow_legacy L ip pid st = domain_loop_legacy pid (te_recv_flow_domain_legacy L ip pid) st"

section \<open>The loops over the labels\<close>

definition all_labels :: "'a cap_maps_scheme \<Rightarrow> bool" where
  "all_labels st \<longleftrightarrow> te_count st 5 = of_nat MAX_TAINT_LABELS"

lemma label_loop: "all_labels st \<Longrightarrow> bpf_loop_legacy (te_count_legacy L 5) cb c = bpf_loop (te_count st 5) cb c"
  by (simp add: all_labels_def te_count_legacy_def bpf_loop_legacy_def bpf_loop_def)

lemma prov_legacy:
  assumes "all_labels st"
  shows "te_record_proc_prov_mask_legacy L pid d labels op target ip st = te_record_proc_prov_mask pid d labels op target ip st"
    "te_record_file_prov_mask_legacy L fdom labels pid op target st = te_record_file_prov_mask fdom labels pid op target st"
    "te_copy_proc_prov_legacy L p q d labels st = te_copy_proc_prov p q d labels st"
    "te_copy_file_prov_to_file_legacy L fdom fdom' labels st = te_copy_file_prov_to_file fdom fdom' labels st"
    "te_delete_file_prov_mask_legacy L fdom labels st = te_delete_file_prov_mask fdom labels st"
    "te_copy_file_prov_to_proc_legacy L pid fdom labels st = te_copy_file_prov_to_proc pid fdom labels st"
    "te_copy_proc_prov_to_file_legacy L pid fdom labels st = te_copy_proc_prov_to_file pid fdom labels st"
    "te_copy_endp_prov_to_proc_legacy L pid edom labels st = te_copy_endp_prov_to_proc pid edom labels st"
    "te_copy_proc_prov_to_endp_legacy L pid edom labels st = te_copy_proc_prov_to_endp pid edom labels st"
  unfolding te_record_proc_prov_mask_legacy_def te_record_file_prov_mask_legacy_def te_copy_proc_prov_legacy_def
    te_copy_file_prov_to_file_legacy_def te_delete_file_prov_mask_legacy_def te_copy_file_prov_to_proc_legacy_def
    te_copy_proc_prov_to_file_legacy_def te_copy_endp_prov_to_proc_legacy_def te_copy_proc_prov_to_endp_legacy_def
    te_record_proc_prov_mask_def te_record_file_prov_mask_def te_copy_proc_prov_def te_copy_file_prov_to_file_def
    te_delete_file_prov_mask_def te_copy_file_prov_to_proc_def te_copy_proc_prov_to_file_def te_copy_endp_prov_to_proc_def
    te_copy_proc_prov_to_endp_def
  by (simp_all only: label_loop [OF assms])

lemma add_labels_legacy: "te_add_labels_domain_legacy pid 0 add st = te_add_labels_domain pid 0 add st"
  by (simp add: te_add_labels_domain_legacy_def te_add_labels_domain_def)

lemma all_labels_cong: "ts_counts s = ts_counts t \<Longrightarrow> all_labels s = all_labels t"
  by (simp add: all_labels_def te_count_def)

lemma counts_frame:
  "ts_counts (te_add_labels_domain pid d add st) = ts_counts st"
  "ts_counts (te_record_proc_prov_mask pid d labels op target ip st) = ts_counts st"
  "ts_counts (te_copy_file_prov_to_proc pid fdom labels st) = ts_counts st"
  "ts_counts (te_copy_endp_prov_to_proc pid edom labels st) = ts_counts st"
  "ts_counts (te_copy_file_prov_to_file fdom fdom' labels st) = ts_counts st"
  "ts_counts (te_delete_file_prov_mask fdom labels st) = ts_counts st"
  "ts_counts (snd (te_tick r d st)) = ts_counts st" "ts_counts (te_stamp r d ep g i st) = ts_counts st"
  by (simp_all add: te_add_labels_domain_def te_record_proc_prov_mask_def te_copy_file_prov_to_proc_def te_copy_endp_prov_to_proc_def
      te_copy_file_prov_to_file_def te_delete_file_prov_mask_def te_tick_def te_sess_init_def te_stamp_def Let_def case_prod_beta
      split: option.split)

lemma all_labels_frame:
  "all_labels (te_add_labels_domain pid d add st) = all_labels st"
  "all_labels (te_record_proc_prov_mask pid d labels op target ip st) = all_labels st"
  "all_labels (te_copy_file_prov_to_proc pid fdom labels st) = all_labels st"
  "all_labels (te_copy_endp_prov_to_proc pid edom labels st) = all_labels st"
  "all_labels (te_copy_file_prov_to_file fdom fdom' labels st) = all_labels st"
  "all_labels (te_delete_file_prov_mask fdom labels st) = all_labels st"
  "all_labels (snd (te_tick r d st)) = all_labels st" "all_labels (te_stamp r d ep g i st) = all_labels st"
  "all_labels (st\<lparr>ts_file := f\<rparr>) = all_labels st" "all_labels (st\<lparr>ts_proc := p\<rparr>) = all_labels st"
  "all_labels (st\<lparr>ts_endp := e\<rparr>) = all_labels st" "all_labels (st\<lparr>ktick := k\<rparr>) = all_labels st"
  by (rule all_labels_cong, simp add: counts_frame)+

section \<open>Each flow is the body of the global domain\<close>

lemma collect_file_legacy:
  assumes "wf_tables st" "legacy_policy L st" "wf_scratch cmp" "legacy_text 63 path" "op = TOP_OPEN \<or> op = TOP_WRITE"
  shows "fst (te_collect_file_updates_legacy L st cmp (update_ctx pid d op path 0)) =
    te_collect_file_updates st (update_ctx pid d op path 0)"
  using assms(3-5) by (intro legacy_file_updates [OF assms(1,2)]) (auto simp: update_ctx_def op_class_def)

lemma collect_endpoint_legacy:
  assumes "wf_tables st" "legacy_policy L st" "op = TOP_CONNECT \<or> op = TOP_RECV"
  shows "te_collect_endpoint_updates_legacy L st (update_ctx pid d op [] ip) = te_collect_endpoint_updates st (update_ctx pid d op [] ip)"
  using assms(3) by (intro legacy_endpoint_updates [OF assms(1,2)]) (auto simp: update_ctx_def)

lemma legacy_read:
  assumes "wf_tables st" "legacy_policy L st" "wf_scratch cmp" "legacy_text 63 path" "all_labels st"
  shows "te_read_legacy L cmp pid fid path st = te_read_domain pid fid path 0 st"
  unfolding te_read_legacy_def domain_loop_legacy_body te_read_domain_legacy_def te_read_domain_def
  using assms by (simp add: collect_file_legacy add_labels_legacy prov_legacy all_labels_frame Let_def case_prod_beta cong: if_cong)

lemma legacy_write:
  assumes "wf_tables st" "legacy_policy L st" "wf_scratch cmp" "legacy_text 63 path" "all_labels st"
  shows "te_write_flow_legacy L cmp pid fid path st = te_write_flow_domain pid fid path 0 st"
  unfolding te_write_flow_legacy_def domain_loop_legacy_body te_write_flow_domain_legacy_def te_write_flow_domain_def
  using assms by (simp add: collect_file_legacy global_labels_legacy prov_legacy all_labels_frame Let_def case_prod_beta
      split: option.split)

lemma legacy_materialize:
  assumes "wf_tables st" "legacy_policy L st" "wf_scratch cmp" "legacy_text 63 path" "all_labels st"
  shows "te_materialize_file_source_legacy L cmp pid (Some fid) path st = te_materialize_file_source_domain pid fid path 0 st"
proof -
  have "te_update_add_file_domain_legacy L cmp st TOP_OPEN path pid 0 = te_update_add_file_domain st TOP_OPEN path pid 0"
    using assms by (simp add: te_update_add_file_domain_legacy_def te_update_add_file_domain_def collect_file_legacy)
  then show ?thesis
    using assms(5) by (simp add: te_materialize_file_source_legacy_def domain_loop_legacy_body te_materialize_file_source_domain_legacy_def
        te_materialize_file_source_domain_def prov_legacy all_labels_frame Let_def split: option.split)
qed

lemma legacy_copy:
  assumes "all_labels st"
  shows "te_copy_file_state_legacy L pid a b delete st = te_copy_file_state_domain pid a b delete 0 st"
  unfolding te_copy_file_state_legacy_def domain_loop_legacy_body te_copy_file_state_domain_legacy_def te_copy_file_state_domain_def
  using assms by (simp add: prov_legacy all_labels_frame Let_def split: option.split)

lemma endpoint_labels_legacy:
  assumes "wf_tables st" "legacy_policy L st" "op = TOP_CONNECT \<or> op = TOP_RECV"
  shows "te_update_add_endpoint_domain_legacy L st op ip pid 0 = te_update_add_endpoint_domain st op ip pid 0"
  using assms by (simp add: te_update_add_endpoint_domain_legacy_def te_update_add_endpoint_domain_def collect_endpoint_legacy)

lemma legacy_connect:
  assumes "wf_tables st" "legacy_policy L st" "all_labels st"
  shows "te_connect_flow_legacy L ip pid st = te_connect_flow_domain ip pid 0 st"
  unfolding te_connect_flow_legacy_def domain_loop_legacy_body te_connect_flow_domain_legacy_def te_connect_flow_domain_def
  using assms by (simp add: endpoint_labels_legacy te_update_add_connect_domain_def add_labels_legacy global_labels_legacy
      prov_legacy all_labels_frame Let_def)

lemma legacy_recv:
  assumes "wf_tables st" "legacy_policy L st" "all_labels st"
  shows "te_recv_flow_legacy L ip pid st = te_recv_flow_domain ip pid 0 st"
  unfolding te_recv_flow_legacy_def domain_loop_legacy_body te_recv_flow_domain_legacy_def te_recv_flow_domain_def
  using assms by (simp add: endpoint_labels_legacy te_update_add_recv_domain_def add_labels_legacy prov_legacy all_labels_frame Let_def)

lemma legacy_fork:
  assumes "global_only st ppid" "all_labels st"
  shows "te_fork_legacy L ppid cpid st = te_fork ppid cpid st"
proof -
  let ?s = "cap_fork ppid cpid st"
  have "ts_counts ?s = ts_counts st" by (simp add: cap_fork_def split: option.split)
  then have "all_labels ?s" using assms(2) all_labels_cong by blast
  then have body: "te_copy_proc_domain_state_legacy L ppid cpid 0 ?s = te_copy_proc_domain_state ppid cpid 0 ?s"
    by (simp add: te_copy_proc_domain_state_legacy_def te_copy_proc_domain_state_def prov_legacy all_labels_frame Let_def
        split: option.split)
  have "domain_loop ppid (te_copy_proc_domain_state ppid cpid) ?s = domain_loop_legacy ppid (te_copy_proc_domain_state ppid cpid) ?s"
  proof (rule domain_loop_global)
    fix d :: u32 assume "d \<noteq> 0"
    then show "te_copy_proc_domain_state ppid cpid d (te_copy_proc_domain_state ppid cpid 0 ?s) = te_copy_proc_domain_state ppid cpid 0 ?s"
      using assms(1) by (simp add: global_only_def te_copy_proc_domain_state_def [of _ _ d] te_get_domain_def)
        (simp add: te_copy_proc_domain_state_def te_copy_proc_prov_def cap_fork_def Let_def split: option.split)
  qed
  then show ?thesis by (simp add: te_fork_legacy_def te_fork_def Let_def domain_loop_legacy_body body)
qed

end
