(* ===== verification/Legacy_Events.thy ===== *)
theory Legacy_Events
  imports Legacy_Flows
begin

text \<open>
  The event handlers of \<^verbatim>\<open>bpf/process.bpf.c\<close> in the build for Linux 5.10: \<^verbatim>\<open>te_handle_file_event\<close> and
  \<^verbatim>\<open>te_handle_event\<close> with the scans, labels and flows of \<^verbatim>\<open>ACTPLANE_LEGACY_KERNEL\<close>. Under a policy within the limits of
  that build they deny, kill, report and move labels as the regular handlers do for a process of the global domain; only
  the provenance fields of the report stay empty. As in theory Legacy_Flows each scan is given the comparison
  scratch, which it overwrites before it reads it.
\<close>

section \<open>Labels of the object\<close>

definition te_file_labels_domain_legacy ::
  "legacy_consts \<Rightarrow> te_path_cmp_scratch \<Rightarrow> 'a engine_scheme \<Rightarrow> file_id \<Rightarrow> bytes \<Rightarrow> pid_t \<Rightarrow> u32 \<Rightarrow> u64" where
  "te_file_labels_domain_legacy L cmp st fid path pid domain_id =
     (if \<not> cap_domain_matches_pid_legacy st pid domain_id then 0
      else (case map_lookup (ts_file st) (te_file_domain_key_for domain_id fid) of None \<Rightarrow> 0 | Some fs \<Rightarrow> fs_labels fs) OR
           te_update_add_file_domain_legacy L cmp st TOP_OPEN path pid domain_id)"

definition te_endpoint_stored_labels_domain_legacy :: "'a engine_scheme \<Rightarrow> u32 \<Rightarrow> pid_t \<Rightarrow> u32 \<Rightarrow> u64" where
  "te_endpoint_stored_labels_domain_legacy st ip pid domain_id =
     (if \<not> te_pid_active st pid \<or> \<not> cap_domain_matches_pid_legacy st pid domain_id then 0
      else case map_lookup (ts_endp st) (te_endp_domain_key_for domain_id ip) of None \<Rightarrow> 0 | Some el \<Rightarrow> el)"

section \<open>Handlers\<close>

definition file_candidate_legacy ::
  "u8 \<Rightarrow> legacy_consts \<Rightarrow> te_path_cmp_scratch \<Rightarrow> 'a engine_scheme \<Rightarrow> te_rule_eval \<Rightarrow> te_rule_eval" where
  "file_candidate_legacy op L cmp st e =
     (let (candidate, e, _) = te_check_file_labels_legacy L st cmp (e\<lparr>ev_effect := ucast TEFFECT_BLOCK, ev_op := op\<rparr>)
      in if te_better_match candidate (ev_effect e) (ev_event_rule e) (ev_event_effect e)
         then e\<lparr>ev_event_rule := candidate, ev_event_effect := ev_effect e, ev_event_labels := ev_matched_labels e,
                ev_event_domain_id := ev_matched_domain_id e, ev_event_op := ev_op e\<rparr>
         else e)"

definition file_eval_legacy ::
  "legacy_consts \<Rightarrow> te_path_cmp_scratch \<Rightarrow> 'a engine_scheme \<Rightarrow> pid_t \<Rightarrow> bytes \<Rightarrow> file_id \<Rightarrow> u32 \<Rightarrow> u32 \<Rightarrow> te_rule_eval" where
  "file_eval_legacy L cmp st pid target fid access mode =
     (let current_domain_id = cap_domain_for_pid st pid;
          global_labels = te_labels_for_domain_legacy st pid 0;
          current_labels = te_labels_for_domain_legacy st pid current_domain_id;
          flow_read = policy_features st AND TE_POLICY_FILE_FLOW \<noteq> 0 \<and> access AND TE_ACCESS_READ \<noteq> 0;
          global_labels = (if flow_read then global_labels OR te_file_labels_domain_legacy L cmp st fid target pid 0 else global_labels);
          current_labels = (if flow_read then current_labels OR te_file_labels_domain_legacy L cmp st fid target pid current_domain_id
                            else current_labels)
      in eval_zero\<lparr>ev_pid := pid, ev_global_labels := global_labels, ev_current_labels := current_labels,
           ev_current_domain_id := current_domain_id, ev_effect := ucast TEFFECT_BLOCK,
           ev_effect_mask := te_supported_effects mode, ev_event_effect := ucast TEFFECT_NOTIFY,
           ev_event_rule := - 1, ev_target := te_copy_target (ev_target eval_zero) (Some target),
           ev_fid := fid, ev_has_fid := True, ev_include_file_labels := (access AND TE_ACCESS_READ \<noteq> 0)\<rparr>)"

definition te_handle_file_event_legacy ::
  "legacy_consts \<Rightarrow> te_path_cmp_scratch \<Rightarrow> pid_t \<Rightarrow> bytes \<Rightarrow> file_id \<Rightarrow> u32 \<Rightarrow> u32 \<Rightarrow> 'a sensor_scheme \<Rightarrow> int \<times> 'a sensor_scheme" where
  "te_handle_file_event_legacy L cmp pid target fid access mode st =
     (if \<not> te_pid_active st pid then (0, st)
      else
        let e = file_eval_legacy L cmp st pid target fid access mode;
            e = (if access AND TE_ACCESS_READ \<noteq> 0 \<and> policy_features st AND TE_POLICY_OPEN_RULES \<noteq> 0
                 then file_candidate_legacy TOP_OPEN L cmp st e else e);
            e = (if access AND TE_ACCESS_WRITE \<noteq> 0 \<and> policy_features st AND TE_POLICY_WRITE_RULES \<noteq> 0
                 then file_candidate_legacy TOP_WRITE L cmp st e else e);
            (rc, st) = (if 0 \<le> sint (ev_event_rule e)
                        then act_on mode (ev_event_effect e)
                               (\<lambda>blocked killed. emit_violation_legacy pid (ev_event_rule e) (Some target) 0
                                  (ev_event_domain_id e) (ev_event_labels e) (ev_event_op e) blocked killed (ev_event_effect e)) st
                        else (None, st))
        in case rc of
             Some r \<Rightarrow> (r, st)
           | None \<Rightarrow>
               let st = (if policy_features st AND TE_POLICY_FILE_FLOW \<noteq> 0 \<and> access AND TE_ACCESS_READ \<noteq> 0
                         then te_read_legacy L cmp pid fid target st else st);
                   st = (if policy_features st AND TE_POLICY_FILE_FLOW \<noteq> 0 \<and> access AND TE_ACCESS_WRITE \<noteq> 0
                         then te_write_flow_legacy L cmp pid fid target st else st)
               in (0, st))"

definition te_handle_event_legacy ::
  "legacy_consts \<Rightarrow> te_path_cmp_scratch \<Rightarrow> te_event \<Rightarrow> file_id option \<Rightarrow> 'a sensor_scheme \<Rightarrow> int \<times> 'a sensor_scheme" where
  "te_handle_event_legacy L cmp ev fid st =
     (if \<not> te_pid_active st (te_pid ev) then (0, st)
      else
        let pid = te_pid ev; ip = te_ip ev;
            f = (case fid of None \<Rightarrow> no_fid | Some f \<Rightarrow> f);
            is_file = te_obj_kind ev = TE_OBJ_FILE; is_endp = te_obj_kind ev = TE_OBJ_ENDPOINT;
            rd_acc = te_access ev AND TE_ACCESS_READ \<noteq> 0; wr_acc = te_access ev AND TE_ACCESS_WRITE \<noteq> 0;
            cn_acc = te_access ev AND TE_ACCESS_CONNECT \<noteq> 0; rv_acc = te_access ev AND TE_ACCESS_RECV \<noteq> 0;
            display = (case te_display ev of Some d \<Rightarrow> d | None \<Rightarrow> te_target ev);
            d = cap_domain_for_pid st pid;
            gl = te_labels_for_domain_legacy st pid 0;
            cl = te_labels_for_domain_legacy st pid d;
            file_read = is_file \<and> policy_features st AND TE_POLICY_FILE_FLOW \<noteq> 0 \<and> rd_acc;
            gl = (if file_read then gl OR te_file_stored_labels_domain_legacy st f pid 0 else gl);
            cl = (if file_read then cl OR te_file_stored_labels_domain_legacy st f pid d else cl);
            gl = (if is_endp \<and> cn_acc then gl OR te_update_add_endpoint_domain_legacy L st TOP_CONNECT ip pid 0 else gl);
            cl = (if is_endp \<and> cn_acc then cl OR te_update_add_endpoint_domain_legacy L st TOP_CONNECT ip pid d else cl);
            gl = (if is_endp \<and> rv_acc
                  then gl OR (te_endpoint_stored_labels_domain_legacy st ip pid 0 OR
                              te_update_add_endpoint_domain_legacy L st TOP_RECV ip pid 0) else gl);
            cl = (if is_endp \<and> rv_acc
                  then cl OR (te_endpoint_stored_labels_domain_legacy st ip pid d OR
                              te_update_add_endpoint_domain_legacy L st TOP_RECV ip pid d) else cl);
            e0 = event_eval ev gl cl d;
            e = (if te_obj_kind ev = TE_OBJ_EXEC then
                   let (rid, e, _) = te_check_labels_legacy L st cmp
                     (e0\<lparr>ev_op := TOP_EXEC, ev_target := te_copy_target (ev_target e0) (Some (te_target ev))\<rparr>)
                   in take_verdict (rid, e)
                 else if is_file then
                   let e = e0\<lparr>ev_event_effect := ucast TEFFECT_NOTIFY, ev_event_rule := - 1,
                              ev_target := te_copy_target (ev_target e0) (Some (te_target ev)),
                              ev_include_file_labels := rd_acc\<rparr>;
                       e = (case fid of None \<Rightarrow> e | Some f \<Rightarrow> e\<lparr>ev_fid := f, ev_has_fid := True\<rparr>);
                       e = (if rd_acc \<and> policy_features st AND TE_POLICY_OPEN_RULES \<noteq> 0
                            then file_candidate_legacy TOP_OPEN L cmp st e else e)
                   in (if wr_acc \<and> policy_features st AND TE_POLICY_WRITE_RULES \<noteq> 0
                       then file_candidate_legacy TOP_WRITE L cmp st e else e)
                 else if is_endp then
                   let (rid, e, _) = te_check_net_labels_legacy L st cmp
                     (e0\<lparr>ev_ip := ip, ev_op := (if rv_acc then TOP_RECV else TOP_CONNECT)\<rparr>)
                   in take_verdict (rid, e)
                 else e0\<lparr>ev_event_rule := - 1\<rparr>);
            (rc, st) = (if 0 \<le> sint (ev_event_rule e)
                        then act_on (te_mode ev) (ev_event_effect e)
                               (\<lambda>blocked killed. emit_violation_legacy pid (ev_event_rule e) (Some display) (if is_endp then ip else 0)
                                  (ev_event_domain_id e) (ev_event_labels e) (ev_event_op e) blocked killed (ev_event_effect e)) st
                        else (None, st))
        in case rc of
             Some r \<Rightarrow> (r, st)
           | None \<Rightarrow>
               if is_file \<and> policy_features st AND TE_POLICY_FILE_FLOW \<noteq> 0 then
                 let st = (if rd_acc then te_read_legacy L cmp pid f (te_target ev) st else st)
                 in (0, if wr_acc then te_write_flow_legacy L cmp pid f (te_target ev) st else st)
               else if is_endp then
                 let st = (if cn_acc then te_connect_flow_legacy L ip pid st else st)
                 in (0, if rv_acc then te_recv_flow_legacy L ip pid st else st)
               else (0, st))"

section \<open>The domain of the process\<close>

text \<open>A walk of one step still finds the domain a process is bound to.\<close>

lemma matches_current:
  "cap_domain_matches_pid_legacy st pid (cap_domain_for_pid st pid) = cap_domain_matches_pid st pid (cap_domain_for_pid st pid)"
  by (auto simp: cap_domain_matches_pid_legacy_def cap_domain_matches_pid_def cap_domain_for_pid_def eval_nat_numeral split: option.split)

lemma current_labels_legacy:
  "te_labels_for_domain_legacy st pid (cap_domain_for_pid st pid) = te_labels_for_domain st pid (cap_domain_for_pid st pid)"
  by (simp add: te_labels_for_domain_legacy_def te_labels_for_domain_def cap_labels_for_pid_domain_legacy_def
      cap_labels_for_pid_domain_def matches_current)

section \<open>The flows do not look at the reports\<close>

abbreviation (input) map_rb :: "(event list \<Rightarrow> event list) \<Rightarrow> 'a sensor_scheme \<Rightarrow> 'a sensor_scheme" where
  "map_rb g \<equiv> sensor.rb_update g"

lemma upd_rb:
  "ts_file_update f (map_rb g st) = map_rb g (ts_file_update f st)" "ts_endp_update e (map_rb g st) = map_rb g (ts_endp_update e st)"
  "ts_proc_update p (map_rb g st) = map_rb g (ts_proc_update p st)" "ktick_update t (map_rb g st) = map_rb g (ktick_update t st)"
  "ts_proc_domains_update q (map_rb g st) = map_rb g (ts_proc_domains_update q st)"
  "ts_proc_prov_update r (map_rb g st) = map_rb g (ts_proc_prov_update r st)"
  "ts_file_prov_update u (map_rb g st) = map_rb g (ts_file_prov_update u st)"
  "ts_endp_prov_update v (map_rb g st) = map_rb g (ts_endp_prov_update v st)"
  "ts_sess_update w (map_rb g st) = map_rb g (ts_sess_update w st)"
  by simp_all

lemma parts_rb:
  "te_pid_active (map_rb g st) = te_pid_active st" "cap_domain_matches_pid (map_rb g st) = cap_domain_matches_pid st"
  "te_root (map_rb g st) = te_root st" "te_labels_for_domain (map_rb g st) = te_labels_for_domain st"
  "te_collect_file_updates (map_rb g st) = te_collect_file_updates st"
  "te_update_add_endpoint_domain (map_rb g st) = te_update_add_endpoint_domain st" "te_get_domain (map_rb g st) = te_get_domain st"
  "te_count (map_rb g st) = te_count st"
proof -
  have p: "cap_maps.truncate (map_rb g st) = cap_maps.truncate st" by (simp add: cap_maps.truncate_def)
  note c = domain_cong [OF p] policy_cong [OF p]
  show "te_count (map_rb g st) = te_count st" "te_pid_active (map_rb g st) = te_pid_active st" "cap_domain_matches_pid (map_rb g st) = cap_domain_matches_pid st"
    by (simp_all add: c)
  show get: "te_get_domain (map_rb g st) = te_get_domain st" by (simp add: te_get_domain_def te_get_def fun_eq_iff)
  show "te_root (map_rb g st) = te_root st" by (simp add: te_root_def fun_eq_iff)
  show "te_labels_for_domain (map_rb g st) = te_labels_for_domain st"
    by (simp add: te_labels_for_domain_def fun_eq_iff c get)
  have "te_file_update_cb (map_rb g st) = te_file_update_cb st" by (simp add: te_file_update_cb_def fun_eq_iff split: option.split)
  then show "te_collect_file_updates (map_rb g st) = te_collect_file_updates st"
    by (intro ext) (simp add: te_collect_file_updates_def c)
  have "te_endpoint_update_cb (map_rb g st) = te_endpoint_update_cb st" by (simp add: te_endpoint_update_cb_def fun_eq_iff split: option.split)
  then show "te_update_add_endpoint_domain (map_rb g st) = te_update_add_endpoint_domain st"
    by (intro ext) (simp add: te_update_add_endpoint_domain_def te_collect_endpoint_updates_def c)
qed

lemma ops_rb:
  "te_tick r d (map_rb g st) = map_prod id (map_rb g) (te_tick r d st)"
  "te_stamp r d ep gs is (map_rb g st) = map_rb g (te_stamp r d ep gs is st)"
  "te_add_labels_domain pid d add (map_rb g st) = map_rb g (te_add_labels_domain pid d add st)"
  "te_record_proc_prov_mask pid d labels op target ip (map_rb g st) = map_rb g (te_record_proc_prov_mask pid d labels op target ip st)"
  "te_copy_file_prov_to_proc pid fdom labels (map_rb g st) = map_rb g (te_copy_file_prov_to_proc pid fdom labels st)"
  "te_copy_proc_prov_to_file pid fdom labels (map_rb g st) = map_rb g (te_copy_proc_prov_to_file pid fdom labels st)"
  "te_copy_endp_prov_to_proc pid edom labels (map_rb g st) = map_rb g (te_copy_endp_prov_to_proc pid edom labels st)"
  "te_copy_proc_prov_to_endp pid edom labels (map_rb g st) = map_rb g (te_copy_proc_prov_to_endp pid edom labels st)"
  by (simp_all add: te_tick_def te_sess_init_def te_sess_get_def te_stamp_def te_add_labels_domain_def te_record_proc_prov_mask_def
      te_copy_file_prov_to_proc_def te_copy_proc_prov_to_file_def te_copy_endp_prov_to_proc_def te_copy_proc_prov_to_endp_def
      parts_rb upd_rb Let_def case_prod_beta split: option.split)

lemma flows_rb:
  "te_read_domain pid fid path d (map_rb g st) = map_rb g (te_read_domain pid fid path d st)"
  "te_write_flow_domain pid fid path d (map_rb g st) = map_rb g (te_write_flow_domain pid fid path d st)"
  "te_connect_flow_domain ip pid d (map_rb g st) = map_rb g (te_connect_flow_domain ip pid d st)"
  "te_recv_flow_domain ip pid d (map_rb g st) = map_rb g (te_recv_flow_domain ip pid d st)"
  by (simp_all add: te_read_domain_def te_write_flow_domain_def te_connect_flow_domain_def te_recv_flow_domain_def
      te_update_add_connect_domain_def te_update_add_recv_domain_def parts_rb ops_rb upd_rb Let_def case_prod_beta split: option.split)

lemma forget_map_rb: "forget_reports = map_rb (map fill_violation_provenance_legacy)"
  by (simp add: forget_reports_def fun_eq_iff)

lemma forget_policy: "cap_maps.truncate (forget_reports st) = cap_maps.truncate st"
  by (simp add: forget_reports_def cap_maps.truncate_def)

section \<open>The state a handler of the old build runs in\<close>

definition old_kernel :: "legacy_consts \<Rightarrow> 'a engine_scheme \<Rightarrow> bool" where
  "old_kernel L st \<longleftrightarrow> wf_tables st \<and> legacy_policy L st \<and> all_labels st"

lemma old_kernel_cong:
  assumes "cap_maps.truncate s = cap_maps.truncate t"
  shows "old_kernel L s = old_kernel L t"
  by (simp add: old_kernel_def domain_cong [OF assms] legacy_policy_cong [OF assms] all_labels_cong [OF policy_cong(6) [OF assms]])

lemma old_kernel_flows:
  "old_kernel L (te_read_domain pid fid path d st) = old_kernel L st"
  "old_kernel L (te_connect_flow_domain ip pid d st) = old_kernel L st"
  by (intro old_kernel_cong read_domain_policy connect_domain_policy)+

lemma flows_legacy:
  assumes "old_kernel L st"
  shows "wf_scratch cmp \<Longrightarrow> legacy_text 63 path \<Longrightarrow> te_read_legacy L cmp pid fid path st = te_read_domain pid fid path 0 st"
    "wf_scratch cmp \<Longrightarrow> legacy_text 63 path \<Longrightarrow> te_write_flow_legacy L cmp pid fid path st = te_write_flow_domain pid fid path 0 st"
    "te_connect_flow_legacy L ip pid st = te_connect_flow_domain ip pid 0 st"
    "te_recv_flow_legacy L ip pid st = te_recv_flow_domain ip pid 0 st"
  using assms by (simp_all add: old_kernel_def legacy_read legacy_write legacy_connect legacy_recv)

lemma flows_forget:
  assumes "forget_reports s = forget_reports t"
  shows "forget_reports (te_read_domain pid fid path d s) = forget_reports (te_read_domain pid fid path d t)"
    "forget_reports (te_write_flow_domain pid fid path d s) = forget_reports (te_write_flow_domain pid fid path d t)"
    "forget_reports (te_connect_flow_domain ip pid d s) = forget_reports (te_connect_flow_domain ip pid d t)"
    "forget_reports (te_recv_flow_domain ip pid d s) = forget_reports (te_recv_flow_domain ip pid d t)"
  using assms unfolding forget_map_rb by (simp_all only: flows_rb [symmetric])

section \<open>The same verdict\<close>

text \<open>Every rule is one of the global domain, so a verdict never names another.\<close>

definition zero_verdict :: "te_rule_eval \<Rightarrow> bool" where
  "zero_verdict e \<longleftrightarrow> ev_matched_domain_id e = 0 \<and> ev_best_domain_id e = 0 \<and> ev_event_domain_id e = 0"

lemma check_zero:
  assumes "wf_tables st" "legacy_policy L st" "zero_verdict e"
  shows "zero_verdict (snd (te_check_labels st e))" "ev_target (snd (te_check_labels st e)) = ev_target e"
proof -
  let ?P = "\<lambda>e'. zero_verdict e' \<and> ev_target e' = ev_target e"
  have step: "?P (snd (te_rule_cb st i e'))" if i: "i < n_rules st" and P: "?P e'" for i e'
  proof -
    have "arr_lookup (ts_rules st) i = Some r \<Longrightarrow> ru_domain_id r = 0" for r
      using i assms(1,2) by (auto simp: arr_lookup_def wf_tables_def legacy_policy_def legacy_rule_def active_rules_def split: if_splits)
    then have "?P (snd (te_rule_effect st e' i))"
      using P by (auto simp: te_rule_effect_def record_match_def zero_verdict_def Let_def split: option.split)
    then show ?thesis
      by (auto simp: te_rule_cb_def te_record_best_def zero_verdict_def case_prod_beta Let_def split: option.split)
  qed
  have "bpf_loop (te_count st 0) (te_rule_cb st) (best_reset e) = loop_on [0..<n_rules st] (te_rule_cb st) (best_reset e)"
    using wf_te_count0 [OF assms(1)] by (simp add: bpf_loop_def)
  moreover have "?P (loop_on [0..<n_rules st] (te_rule_cb st) (best_reset e))"
    by (rule loop_on_inv [where P = ?P]) (use assms(3) step in \<open>auto simp: best_reset_def zero_verdict_def\<close>)
  ultimately have "?P (bpf_loop (te_count st 0) (te_rule_cb st) (best_reset e))" by simp
  then have "?P (snd (te_check_labels st e))"
    by (simp add: te_check_labels_def te_check_labels_range_def best_commit_def zero_verdict_def Let_def)
  then show "zero_verdict (snd (te_check_labels st e))" "ev_target (snd (te_check_labels st e)) = ev_target e" by auto
qed

lemma candidate_legacy:
  assumes "wf_tables st" "legacy_policy L st" "wf_scratch cmp" "op = TOP_OPEN \<or> op = TOP_WRITE" "legacy_text 63 (ev_target e)"
  shows "file_candidate_legacy op L cmp st e = file_candidate op st e"
proof -
  let ?e = "e\<lparr>ev_effect := ucast TEFFECT_BLOCK, ev_op := op\<rparr>"
  have "legacy_target (ev_op ?e) (ev_target ?e)" using assms(4,5) by (auto simp: legacy_target_def)
  note scan = legacy_scan [OF assms(1,2) this assms(3)]
  obtain r e' s where x: "te_check_labels_legacy L st cmp ?e = (r, e', s)" by (metis prod_cases3)
  then have "te_check_labels st ?e = (r, e')" using scan by simp
  moreover have "te_check_file_labels_legacy L st cmp ?e = (r, e', s)"
    using legacy_group_scans(1) [OF assms(4), of ?e L st cmp] x by simp
  ultimately show ?thesis by (simp add: file_candidate_legacy_def file_candidate_def)
qed

lemma candidate_zero:
  assumes "wf_tables st" "legacy_policy L st" "zero_verdict e"
  shows "zero_verdict (file_candidate op st e)" "ev_target (file_candidate op st e) = ev_target e"
  using check_zero [OF assms(1,2), of "e\<lparr>ev_effect := ucast TEFFECT_BLOCK, ev_op := op\<rparr>"] assms(3)
  by (auto simp: file_candidate_def Let_def case_prod_beta zero_verdict_def)

text \<open>What is done with a verdict.\<close>

lemma act_legacy:
  fixes st :: "'a sensor_scheme" and hit mode eff pid rid target ip kind fid labels op
  assumes "d = 0"
  defines "old \<equiv> (if hit then act_on mode eff (\<lambda>b k. emit_violation_legacy pid rid target ip d labels op b k eff) st else (None, st))"
    and "new \<equiv> (if hit then act_on mode eff (\<lambda>b k. emit_violation pid rid target ip kind fid d labels op b k eff) st else (None, st))"
  shows "fst old = fst new" "forget_reports (snd old) = forget_reports (snd new)" "cap_maps.truncate (snd new) = cap_maps.truncate st"
proof -
  show "fst old = fst new" by (simp add: old_def new_def act_on_def Let_def)
  show "forget_reports (snd old) = forget_reports (snd new)"
    unfolding old_def new_def assms(1)
    by (simp add: act_on_def Let_def signal_forget emit_forget [where kind = kind and fid = fid])
  show "cap_maps.truncate (snd new) = cap_maps.truncate st"
    by (simp add: new_def act_on_def emit_violation_def bpf_send_signal_def Let_def cap_maps.truncate_def)
qed

lemma object_labels_legacy:
  fixes pid
  assumes "old_kernel L st"
  defines "d \<equiv> cap_domain_for_pid st pid"
  shows "wf_scratch cmp \<Longrightarrow> legacy_text 63 path \<Longrightarrow>
      te_file_labels_domain_legacy L cmp st fid path pid 0 = te_file_labels_domain st fid path pid 0"
    "wf_scratch cmp \<Longrightarrow> legacy_text 63 path \<Longrightarrow>
      te_file_labels_domain_legacy L cmp st fid path pid d = te_file_labels_domain st fid path pid d"
    "te_endpoint_stored_labels_domain_legacy st ip pid 0 = te_endpoint_stored_labels_domain st ip pid 0"
    "te_endpoint_stored_labels_domain_legacy st ip pid d = te_endpoint_stored_labels_domain st ip pid d"
    "te_update_add_endpoint_domain_legacy L st TOP_CONNECT ip pid 0 = te_update_add_connect_domain st ip pid 0"
    "te_update_add_endpoint_domain_legacy L st TOP_CONNECT ip pid d = te_update_add_connect_domain st ip pid d"
    "te_update_add_endpoint_domain_legacy L st TOP_RECV ip pid 0 = te_update_add_recv_domain st ip pid 0"
    "te_update_add_endpoint_domain_legacy L st TOP_RECV ip pid d = te_update_add_recv_domain st ip pid d"
  using assms(1) unfolding d_def
  by (simp_all add: old_kernel_def te_file_labels_domain_legacy_def te_file_labels_domain_def te_update_add_file_domain_legacy_def
      te_update_add_file_domain_def collect_file_legacy te_endpoint_stored_labels_domain_legacy_def
      te_endpoint_stored_labels_domain_def te_update_add_endpoint_domain_legacy_def te_update_add_endpoint_domain_def
      te_update_add_connect_domain_def te_update_add_recv_domain_def collect_endpoint_legacy matches_current)

text \<open>The two candidates of a file event.\<close>

lemma candidates_legacy:
  fixes r w e
  assumes "old_kernel L st" "wf_scratch cmp" "zero_verdict e" "legacy_text 63 (ev_target e)"
  defines "new \<equiv> (\<lambda>e. if w then file_candidate TOP_WRITE st e else e) (if r then file_candidate TOP_OPEN st e else e)"
  shows "(\<lambda>e. if w then file_candidate_legacy TOP_WRITE L cmp st e else e) (if r then file_candidate_legacy TOP_OPEN L cmp st e else e) = new"
    and "zero_verdict new"
  using assms(1-4) unfolding new_def old_kernel_def
  by (simp_all add: candidate_legacy candidate_zero [of st L])

lemma file_eval_legacy:
  assumes "old_kernel L st" "wf_scratch cmp" "legacy_text 63 target" "TAINT_PAT_LEN \<le> length target"
  shows "file_eval_legacy L cmp st pid target fid access mode = file_eval st pid target fid access mode"
    "zero_verdict (file_eval st pid target fid access mode)" "legacy_text 63 (ev_target (file_eval st pid target fid access mode))"
proof -
  note o = object_labels_legacy(1,2) [OF assms(1-3)]
  show "file_eval_legacy L cmp st pid target fid access mode = file_eval st pid target fid access mode"
    by (simp add: file_eval_legacy_def file_eval_def o global_labels_legacy current_labels_legacy cong: if_cong)
  show "zero_verdict (file_eval st pid target fid access mode)" by (simp add: file_eval_def zero_verdict_def eval_zero_def Let_def)
  show "legacy_text 63 (ev_target (file_eval st pid target fid access mode))"
    by (simp add: file_eval_def Let_def copied_text [OF assms(3,4)])
qed

lemma forget_features: "forget_reports s = forget_reports t \<Longrightarrow> policy_features s = policy_features t"
  by (metis forget_policy policy_cong(3))

definition file_flow :: "bool \<Rightarrow> bool \<Rightarrow> ('a sensor_scheme \<Rightarrow> 'a sensor_scheme) \<Rightarrow> ('a sensor_scheme \<Rightarrow> 'a sensor_scheme) \<Rightarrow>
    'a sensor_scheme \<Rightarrow> 'a sensor_scheme" where
  "file_flow r w rd_flow wr_flow st =
     (let st = (if policy_features st AND TE_POLICY_FILE_FLOW \<noteq> 0 \<and> r then rd_flow st else st)
      in if policy_features st AND TE_POLICY_FILE_FLOW \<noteq> 0 \<and> w then wr_flow st else st)"

lemma file_flow_legacy:
  assumes "wf_scratch cmp" "legacy_text 63 path" and "forget_reports s = forget_reports t" "old_kernel L s" "old_kernel L t"
  shows "forget_reports (file_flow r w (te_read_legacy L cmp pid fid path) (te_write_flow_legacy L cmp pid fid path) s) =
    forget_reports (file_flow r w (te_read_domain pid fid path 0) (te_write_flow_domain pid fid path 0) t)"
proof -
  let ?b = "policy_features s AND TE_POLICY_FILE_FLOW \<noteq> 0 \<and> r"
  define s1 t1 where "s1 = (if ?b then te_read_legacy L cmp pid fid path s else s)"
    and "t1 = (if ?b then te_read_domain pid fid path 0 t else t)"
  have k: "old_kernel L s1"
    using assms(4) by (simp add: s1_def flows_legacy(1) [OF assms(4,1,2)] old_kernel_flows(1))
  have f: "forget_reports s1 = forget_reports t1"
    using assms(3) flows_forget(1) [OF assms(3)] by (simp add: s1_def t1_def flows_legacy(1) [OF assms(4,1,2)])
  have old: "file_flow r w (te_read_legacy L cmp pid fid path) (te_write_flow_legacy L cmp pid fid path) s =
      (if policy_features s1 AND TE_POLICY_FILE_FLOW \<noteq> 0 \<and> w then te_write_flow_legacy L cmp pid fid path s1 else s1)"
    by (simp add: file_flow_def s1_def Let_def)
  have new: "file_flow r w (te_read_domain pid fid path 0) (te_write_flow_domain pid fid path 0) t =
      (if policy_features t1 AND TE_POLICY_FILE_FLOW \<noteq> 0 \<and> w then te_write_flow_domain pid fid path 0 t1 else t1)"
    by (simp add: file_flow_def t1_def Let_def forget_features [OF assms(3)])
  from flows_forget(2) [OF f] f show ?thesis
    unfolding old new by (simp add: flows_legacy(2) [OF k assms(1,2)] forget_features [OF f])
qed

section \<open>File events\<close>

text \<open>The regular file handler up to the point where labels move: the verdict, its report and its signal.\<close>

definition file_verdict ::
  "pid_t \<Rightarrow> bytes \<Rightarrow> file_id \<Rightarrow> u32 \<Rightarrow> u32 \<Rightarrow> 'a sensor_scheme \<Rightarrow> int option \<times> 'a sensor_scheme" where
  "file_verdict pid target fid access mode st =
     (let e = file_eval st pid target fid access mode;
          e = (if access AND TE_ACCESS_READ \<noteq> 0 \<and> policy_features st AND TE_POLICY_OPEN_RULES \<noteq> 0
               then file_candidate TOP_OPEN st e else e);
          e = (if access AND TE_ACCESS_WRITE \<noteq> 0 \<and> policy_features st AND TE_POLICY_WRITE_RULES \<noteq> 0
               then file_candidate TOP_WRITE st e else e)
      in if 0 \<le> sint (ev_event_rule e)
         then act_on mode (ev_event_effect e)
                (\<lambda>blocked killed. emit_violation pid (ev_event_rule e) (Some target) 0 TE_OBJ_FILE (Some fid)
                   (ev_event_domain_id e) (ev_event_labels e) (ev_event_op e) blocked killed (ev_event_effect e)) st
         else (None, st))"

text \<open>A handler that flows as \<open>f\<close> says unless the verdict ends it.\<close>

definition unless_denied :: "(('a sensor_scheme) \<Rightarrow> 'a sensor_scheme) \<Rightarrow> int option \<times> 'a sensor_scheme \<Rightarrow> int \<times> 'a sensor_scheme" where
  "unless_denied f v = (case v of (rc, s) \<Rightarrow> case rc of Some r \<Rightarrow> (r, s) | None \<Rightarrow> (0, f s))"

lemma flow_after_verdict:
  assumes "old_kernel L st" "fst old = fst new" "forget_reports (snd old) = forget_reports (snd new)"
    "cap_maps.truncate (snd new) = cap_maps.truncate st"
    and flow: "\<And>s t. forget_reports s = forget_reports t \<Longrightarrow> old_kernel L s \<Longrightarrow> old_kernel L t \<Longrightarrow>
      forget_reports (f s) = forget_reports (g t)"
  shows "map_prod id forget_reports (unless_denied f old) = map_prod id forget_reports (unless_denied g new)"
proof -
  have "cap_maps.truncate (snd old) = cap_maps.truncate (snd new)" using assms(3) forget_policy by metis
  then have "old_kernel L (snd old)" "old_kernel L (snd new)"
    using assms(1,4) old_kernel_cong by metis+
  from flow [OF assms(3) this] assms(2,3) show ?thesis
    by (simp add: unless_denied_def case_prod_beta split: option.split)
qed

text \<open>C31: file events on old kernels. Under a policy within the limits of the Linux 5.10 build, and for a path it compares
  in full, the file handler of that build returns what the regular handler returns, sends the same signal and reports the
  same rule, the provenance fields of the report apart. When the access is not denied, the regular handler
  then moves labels in every domain of the process, and the handler of that build exactly as the global domain prescribes.\<close>

theorem legacy_file_event_equiv:
  fixes st :: "'a sensor_scheme"
  assumes "old_kernel L st" "wf_scratch cmp" "legacy_text 63 target" "TAINT_PAT_LEN \<le> length target" "te_pid_active st pid"
  shows "let v = file_verdict pid target fid access mode st;
      flow = file_flow (access AND TE_ACCESS_READ \<noteq> 0) (access AND TE_ACCESS_WRITE \<noteq> 0)
    in te_handle_file_event pid target fid access mode st = unless_denied (flow (te_read pid fid target) (te_write_flow pid fid target)) v \<and>
       map_prod id forget_reports (te_handle_file_event_legacy L cmp pid target fid access mode st) =
       map_prod id forget_reports (unless_denied (flow (te_read_domain pid fid target 0) (te_write_flow_domain pid fid target 0)) v)"
proof -
  let ?rd = "access AND TE_ACCESS_READ \<noteq> 0" and ?wr = "access AND TE_ACCESS_WRITE \<noteq> 0"
  note ev = file_eval_legacy [OF assms(1-4), of pid fid access mode]
  define e where "e = (\<lambda>e. if ?wr \<and> policy_features st AND TE_POLICY_WRITE_RULES \<noteq> 0 then file_candidate TOP_WRITE st e else e)
    (if ?rd \<and> policy_features st AND TE_POLICY_OPEN_RULES \<noteq> 0 then file_candidate TOP_OPEN st (file_eval st pid target fid access mode)
     else file_eval st pid target fid access mode)"
  note c = candidates_legacy [OF assms(1,2) ev(2,3), of "?wr \<and> policy_features st AND TE_POLICY_WRITE_RULES \<noteq> 0"
      "?rd \<and> policy_features st AND TE_POLICY_OPEN_RULES \<noteq> 0", folded e_def]
  define old where "old = (if 0 \<le> sint (ev_event_rule e)
    then act_on mode (ev_event_effect e) (\<lambda>b k. emit_violation_legacy pid (ev_event_rule e) (Some target) 0
      (ev_event_domain_id e) (ev_event_labels e) (ev_event_op e) b k (ev_event_effect e)) st else (None, st))"
  have new: "file_verdict pid target fid access mode st = (if 0 \<le> sint (ev_event_rule e)
    then act_on mode (ev_event_effect e) (\<lambda>b k. emit_violation pid (ev_event_rule e) (Some target) 0 TE_OBJ_FILE (Some fid)
      (ev_event_domain_id e) (ev_event_labels e) (ev_event_op e) b k (ev_event_effect e)) st else (None, st))"
    unfolding file_verdict_def Let_def e_def [symmetric] ..
  have "ev_event_domain_id e = 0" using c(2) by (simp add: zero_verdict_def)
  note a = act_legacy [OF this, where hit = "0 \<le> sint (ev_event_rule e)" and mode = mode and eff = "ev_event_effect e"
      and pid = pid and rid = "ev_event_rule e" and target = "Some target" and ip = 0 and kind = TE_OBJ_FILE and fid = "Some fid"
      and labels = "ev_event_labels e" and op = "ev_event_op e" and st = st, folded old_def new]
  note r = flow_after_verdict [OF assms(1) a file_flow_legacy [OF assms(2,3), where r = ?rd and w = ?wr and fid = fid and pid = pid and L = L]]
  have "te_handle_file_event_legacy L cmp pid target fid access mode st =
      unless_denied (file_flow ?rd ?wr (te_read_legacy L cmp pid fid target) (te_write_flow_legacy L cmp pid fid target)) old"
    unfolding te_handle_file_event_legacy_def Let_def ev(1) c(1) old_def file_flow_def unless_denied_def using assms(5) by simp
  moreover have "te_handle_file_event pid target fid access mode st =
      unless_denied (file_flow ?rd ?wr (te_read pid fid target) (te_write_flow pid fid target)) (file_verdict pid target fid access mode st)"
    unfolding te_handle_file_event_def Let_def e_def [symmetric] new file_flow_def unless_denied_def using assms(5) by simp
  ultimately show ?thesis using r by (simp add: Let_def)
qed

text \<open>A process of the policy of theory Legacy_Scan reads a file.\<close>

definition old_reader :: sensor where
  "old_reader = old_sensor\<lparr>ts_counts := \<lparr>a_max = 6, a_cell = (\<lambda>i. if i = 5 then 64 else if i = 0 then 3 else 0)\<rparr>\<rparr>"

lemma old_reader_ok: "old_kernel old_consts old_reader" "te_pid_active old_reader 100"
proof -
  have "wf_tables old_reader"
    using old_sensor_ok(1) by (simp add: wf_tables_def old_reader_def old_sensor_def engine.extend_def old_engine_def)
  moreover have "legacy_policy old_consts old_reader"
    using old_sensor_ok(3) by (simp add: legacy_policy_def active_rules_def active_updates_def n_rules_def n_updates_def old_reader_def
        old_sensor_def engine.extend_def old_engine_def)
  ultimately show "old_kernel old_consts old_reader"
    by (simp add: old_kernel_def all_labels_def old_reader_def te_count_def arr_lookup_def)
  have "cur_pid old_sensor = 100" by (simp add: cur_pid_def old_sensor_def engine.extend_def sensor.fields_def)
  then show "te_pid_active old_reader 100"
    using old_sensor_ok(4) by (simp add: te_pid_active_def cap_task_bound_def old_reader_def)
qed

theorem legacy_file_event_equiv_witness:
  "let path = padded 128 (str_bytes ''/etc/passwd''); fid = \<lparr>fi_ino = 7, fi_dev = 1, fi_pad = 0\<rparr>
   in map_prod id forget_reports
        (te_handle_file_event_legacy old_consts old_scratch 100 path fid TE_ACCESS_READ TE_MODE_BLOCK old_reader) =
      map_prod id forget_reports
        (unless_denied (file_flow True False (te_read_domain 100 fid path 0) (te_write_flow_domain 100 fid path 0))
          (file_verdict 100 path fid TE_ACCESS_READ TE_MODE_BLOCK old_reader))"
proof -
  have "wf_scratch old_scratch" by (simp add: wf_scratch_def old_scratch_def)
  moreover have "legacy_text 63 (padded 128 (str_bytes ''/etc/passwd''))"
    by (auto simp: legacy_text_def pat_str_def padded_def str_bytes_def cstr_def rd_def nth_append)
  moreover have "TAINT_PAT_LEN \<le> length (padded 128 (str_bytes ''/etc/passwd''))" by (simp add: padded_def str_bytes_def)
  ultimately show ?thesis
    using legacy_file_event_equiv [OF old_reader_ok(1) _ _ _ old_reader_ok(2), of old_scratch "padded 128 (str_bytes ''/etc/passwd'')"
        "\<lparr>fi_ino = 7, fi_dev = 1, fi_pad = 0\<rparr>" TE_ACCESS_READ TE_MODE_BLOCK]
    by (simp add: Let_def)
qed

section \<open>Network events\<close>

text \<open>The handlers of connect and receive hooks call \<^verbatim>\<open>te_handle_event\<close> with endpoints only.\<close>

definition endp_flow_legacy :: "legacy_consts \<Rightarrow> pid_t \<Rightarrow> u32 \<Rightarrow> u32 \<Rightarrow> 'a engine_scheme \<Rightarrow> 'a engine_scheme" where
  "endp_flow_legacy L pid access ip st =
     (let st = (if access AND TE_ACCESS_CONNECT \<noteq> 0 then te_connect_flow_legacy L ip pid st else st)
      in if access AND TE_ACCESS_RECV \<noteq> 0 then te_recv_flow_legacy L ip pid st else st)"

definition endp_flow_global :: "pid_t \<Rightarrow> u32 \<Rightarrow> u32 \<Rightarrow> 'a engine_scheme \<Rightarrow> 'a engine_scheme" where
  "endp_flow_global pid access ip st =
     (let st = (if access AND TE_ACCESS_CONNECT \<noteq> 0 then te_connect_flow_domain ip pid 0 st else st)
      in if access AND TE_ACCESS_RECV \<noteq> 0 then te_recv_flow_domain ip pid 0 st else st)"

lemma endp_flow_forget:
  assumes "forget_reports s = forget_reports t" "old_kernel L s" "old_kernel L t"
  shows "forget_reports (endp_flow_legacy L pid access ip s) = forget_reports (endp_flow_global pid access ip t)"
proof -
  have "endp_flow_legacy L pid access ip s = endp_flow_global pid access ip s"
    using assms(2) by (simp add: endp_flow_legacy_def endp_flow_global_def Let_def flows_legacy(3,4) old_kernel_flows(2))
  then show ?thesis
    using assms(1) by (auto simp: endp_flow_global_def Let_def intro!: flows_forget)
qed

lemma endp_verdict_legacy:
  fixes st :: "'a engine_scheme" and pid access mode ip
  assumes "old_kernel L st" "wf_scratch cmp"
  defines "x \<equiv> endp_eval st pid access mode ip\<lparr>ev_op := endp_op access\<rparr>"
  shows "(let (rid, e, _) = te_check_net_labels_legacy L st cmp x in take_verdict (rid, e)) = take_verdict (te_check_labels st x)"
    and "zero_verdict (take_verdict (te_check_labels st x))"
proof -
  have w: "wf_tables st" "legacy_policy L st" using assms(1) by (simp_all add: old_kernel_def)
  have "endp_op access = TOP_CONNECT \<or> endp_op access = TOP_RECV" by (simp add: endp_op_def)
  then have op: "ev_op x = TOP_CONNECT \<or> ev_op x = TOP_RECV" by (simp add: x_def)
  then have "legacy_target (ev_op x) (ev_target x)" by (auto simp: legacy_target_def op_class_def)
  note scan = legacy_scan [OF w this assms(2)]
  obtain r e s where sc: "te_check_labels_legacy L st cmp x = (r, e, s)" by (metis prod_cases3)
  then show "(let (rid, e, _) = te_check_net_labels_legacy L st cmp x in take_verdict (rid, e)) = take_verdict (te_check_labels st x)"
    using scan legacy_group_scans(2) [OF op refl, of L st cmp] by simp
  have "zero_verdict x" by (simp add: x_def zero_verdict_def endp_eval_def event_eval_def eval_zero_def)
  from check_zero(1) [OF w this] show "zero_verdict (take_verdict (te_check_labels st x))"
    by (simp add: take_verdict_def zero_verdict_def case_prod_beta Let_def)
qed

lemma endp_step_legacy:
  fixes st :: "'a sensor_scheme" and pid access mode ip
  assumes "te_pid_active st pid" "old_kernel L st" "wf_scratch cmp"
  defines "e \<equiv> take_verdict (te_check_labels st (endp_eval st pid access mode ip\<lparr>ev_op := endp_op access\<rparr>))"
  shows "te_handle_event_legacy L cmp (endp_event pid access mode ip) None st =
      unless_denied (endp_flow_legacy L pid access ip)
        (if 0 \<le> sint (ev_event_rule e)
         then act_on mode (ev_event_effect e)
           (\<lambda>blocked killed. emit_violation_legacy pid (ev_event_rule e) (Some (replicate TAINT_PAT_LEN 0)) ip
              (ev_event_domain_id e) (ev_event_labels e) (ev_event_op e) blocked killed (ev_event_effect e)) st
         else (None, st))"
proof -
  note o = object_labels_legacy(3-8) [OF assms(2)]
  note v = endp_verdict_legacy(1) [OF assms(2,3), where pid = pid and access = access and mode = mode and ip = ip, folded e_def]
  show ?thesis
    unfolding v [symmetric] unless_denied_def
    using assms(1) by (cases "access AND 8 = 0"; cases "access AND 16 = 0")
      (simp_all add: te_handle_event_legacy_def endp_event_def Let_def endp_eval_def endp_seen_def endp_op_def event_eval_def
        endp_flow_legacy_def o global_labels_legacy current_labels_legacy or.assoc case_prod_beta cong: option.case_cong)
qed

text \<open>So the connect and receive hooks of that build give the verdicts of the regular build, and move the labels of the
  global domain.\<close>

lemma legacy_endpoint_event_equiv:
  fixes st :: "'a sensor_scheme"
  assumes "old_kernel L st" "wf_scratch cmp" "te_pid_active st pid"
  obtains v where "te_handle_event (endp_event pid access mode ip) None st = unless_denied (endp_flow pid access ip) v"
    and "map_prod id forget_reports (te_handle_event_legacy L cmp (endp_event pid access mode ip) None st) =
      map_prod id forget_reports (unless_denied (endp_flow_global pid access ip) v)"
proof -
  define e where "e = take_verdict (te_check_labels st (endp_eval st pid access mode ip\<lparr>ev_op := endp_op access\<rparr>))"
  have "ev_event_domain_id e = 0"
    using endp_verdict_legacy(2) [OF assms(1,2), where pid = pid and access = access and mode = mode and ip = ip] by (simp add: e_def zero_verdict_def)
  note a = act_legacy [OF this, where hit = "0 \<le> sint (ev_event_rule e)" and mode = mode and eff = "ev_event_effect e"
      and pid = pid and rid = "ev_event_rule e" and target = "Some (replicate TAINT_PAT_LEN 0)" and ip = ip and kind = TE_OBJ_ENDPOINT
      and fid = None and labels = "ev_event_labels e" and op = "ev_event_op e" and st = st]
  note r = flow_after_verdict [where f = "endp_flow_legacy L pid access ip" and g = "endp_flow_global pid access ip",
      OF assms(1) a endp_flow_forget]
  have "te_handle_event (endp_event pid access mode ip) None st = unless_denied (endp_flow pid access ip)
      (if 0 \<le> sint (ev_event_rule e)
       then act_on mode (ev_event_effect e)
         (\<lambda>blocked killed. emit_violation pid (ev_event_rule e) (Some (replicate TAINT_PAT_LEN 0)) ip TE_OBJ_ENDPOINT None
            (ev_event_domain_id e) (ev_event_labels e) (ev_event_op e) blocked killed (ev_event_effect e)) st
       else (None, st))"
    using endp_step [OF assms(3), of access mode ip, folded e_def]
    by (simp add: unless_denied_def case_prod_beta split: option.split)
  from that [OF this] r show thesis
    unfolding endp_step_legacy [OF assms(3,1,2), of access mode ip, folded e_def] by blast
qed

end
