(* ===== verification/Microbench.thy ===== *)
theory Microbench
  imports AP_Prelude Complex_Main "HOL-Library.Multiset"
begin

text \<open>
  The system call benchmark (\<^verbatim>\<open>docs/design/rq2-performance/syscall_microbench.c\<close>) that measures what the sensor costs:
  options, the five timed operations, warm-up and measured rounds, and the order statistics it prints. The answers of the
  C library and the kernel are functions of a world \<open>'w\<close>; \<open>fl\<close> is the rounding of \<^verbatim>\<open>long double\<close> arithmetic.
  A computation may leave through \<^verbatim>\<open>exit\<close> (\<^const>\<open>Inl\<close>) or, in the wait loop, never return (\<^const>\<open>None\<close>).
\<close>

section \<open>Order statistics\<close>

record stats =
  st_min :: u64
  st_max :: u64
  st_p50 :: u64
  st_p90 :: u64
  st_p95 :: u64
  st_p99 :: u64
  st_p999 :: u64
  st_mean :: real

text \<open>The conversion of a \<^verbatim>\<open>long double\<close> to \<^verbatim>\<open>long\<close> truncates.\<close>

definition trunc :: "real \<Rightarrow> int" where
  "trunc x = (if 0 \<le> x then \<lfloor>x\<rfloor> else \<lceil>x\<rceil>)"

definition percentile :: "(real \<Rightarrow> real) \<Rightarrow> u64 list \<Rightarrow> real \<Rightarrow> u64" where
  "percentile fl xs pct =
     (let n = int (length xs)
      in if n \<le> 0 then 0
         else
           let pos = fl (fl (pct / 100) * fl (of_int (n - 1)));
               idx = trunc (fl (pos + 1 / 2));
               idx = (if idx < 0 then 0 else idx);
               idx = (if idx \<ge> n then n - 1 else idx)
           in xs ! nat idx)"

text \<open>The order \<^verbatim>\<open>qsort\<close> is given; the only arrangement of the samples in that order is \<^const>\<open>sort\<close>'s.\<close>

definition cmp_u64 :: "u64 \<Rightarrow> u64 \<Rightarrow> int" where
  "cmp_u64 x y = of_bool (x > y) - of_bool (x < y)"

lemma cmp_u64_order: "cmp_u64 x y \<le> 0 \<longleftrightarrow> x \<le> y" "cmp_u64 x y = 0 \<longleftrightarrow> x = y"
  by (auto simp: cmp_u64_def)

lemma qsort_unique: "mset s = mset xs \<Longrightarrow> sorted_wrt (\<lambda>x y. cmp_u64 x y \<le> 0) s \<Longrightarrow> s = sort xs"
  by (simp add: cmp_u64_order properties_for_sort)

definition compute_stats :: "(real \<Rightarrow> real) \<Rightarrow> u64 list \<Rightarrow> stats" where
  "compute_stats fl samples =
     (let s = sort samples; n = length samples
      in \<lparr>st_min = s ! 0, st_max = s ! (n - 1), st_p50 = percentile fl s 50, st_p90 = percentile fl s 90,
          st_p95 = percentile fl s 95, st_p99 = percentile fl s 99, st_p999 = percentile fl s (fl (999 / 10)),
          st_mean = fl (fold (\<lambda>x sum. fl (sum + fl (of_int (uint x)))) s 0 / fl (of_nat n))\<rparr>)"

section \<open>Options\<close>

record bench_options =
  bo_op :: string
  bo_iterations :: int
  bo_warmup :: int
  bo_tmpdir :: "string option"
  bo_raw_path :: "string option"
  bo_cpu :: int
  bo_payload_bytes :: int

definition default_options :: bench_options where
  "default_options = \<lparr>bo_op = ''all'', bo_iterations = 100000, bo_warmup = 1000, bo_tmpdir = None, bo_raw_path = None,
     bo_cpu = - 1, bo_payload_bytes = 4096\<rparr>"

text \<open>\<^verbatim>\<open>atol\<close> and \<^verbatim>\<open>atoi\<close>: leading white space, a sign, digits; \<^verbatim>\<open>long\<close> saturates, \<^verbatim>\<open>int\<close> keeps the low 32 bits.\<close>

definition digits_value :: "string \<Rightarrow> int" where
  "digits_value s = fold (\<lambda>c v. 10 * v + (of_char c - 48)) (takeWhile (\<lambda>c. c \<in> set ''0123456789'') s) 0"

definition c_atol :: "string \<Rightarrow> int" where
  "c_atol s =
     (let s = dropWhile (\<lambda>c. c = CHR '' '' \<or> 9 \<le> (of_char c :: nat) \<and> (of_char c :: nat) \<le> 13) s;
          v = (if s \<noteq> [] \<and> hd s = CHR ''-'' then - digits_value (tl s)
               else if s \<noteq> [] \<and> hd s = CHR ''+'' then digits_value (tl s) else digits_value s)
      in max (- (2 ^ 63)) (min (2 ^ 63 - 1) v))"

definition c_atoi :: "string \<Rightarrow> int" where
  "c_atoi s = sint (of_int (c_atol s) :: s32)"

text \<open>An option that takes a value needs one more argument; anything else is answered by \<^verbatim>\<open>usage\<close>, which exits.\<close>

fun parse_options :: "bench_options \<Rightarrow> string list \<Rightarrow> bench_options option" where
  "parse_options opts [] = Some opts"
| "parse_options opts [a] = (if a = ''--json'' then Some opts else None)"
| "parse_options opts (a # v # rest) =
     (if a = ''--op'' then parse_options (opts\<lparr>bo_op := v\<rparr>) rest
      else if a = ''--iterations'' then parse_options (opts\<lparr>bo_iterations := c_atol v\<rparr>) rest
      else if a = ''--warmup'' then parse_options (opts\<lparr>bo_warmup := c_atol v\<rparr>) rest
      else if a = ''--tmpdir'' then parse_options (opts\<lparr>bo_tmpdir := Some v\<rparr>) rest
      else if a = ''--raw'' then parse_options (opts\<lparr>bo_raw_path := Some v\<rparr>) rest
      else if a = ''--cpu'' then parse_options (opts\<lparr>bo_cpu := c_atoi v\<rparr>) rest
      else if a = ''--payload-bytes'' then parse_options (opts\<lparr>bo_payload_bytes := c_atoi v\<rparr>) rest
      else if a = ''--json'' then parse_options opts (v # rest)
      else None)"

section \<open>The world\<close>

datatype child = Child_exit int | Child_execve string

record sockaddr_in =
  sin_family :: "16 word"
  sin_port :: "16 word"
  sin_addr :: u32

datatype open_mode = Open_rdonly | Open_create_write | Open_create_rdwr

record bench_report =
  br_op :: string
  br_iterations :: int
  br_warmup :: int
  br_stats :: stats

record 'w bench_world =
  bw_clock :: "'w \<Rightarrow> (u64 \<times> u64) option \<times> 'w"
  bw_errno :: "'w \<Rightarrow> int"
  bw_open :: "string \<Rightarrow> open_mode \<Rightarrow> 'w \<Rightarrow> int \<times> 'w"
  bw_close :: "int \<Rightarrow> 'w \<Rightarrow> 'w"
  bw_lseek :: "int \<Rightarrow> 'w \<Rightarrow> int \<times> 'w"
  bw_write :: "int \<Rightarrow> bytes \<Rightarrow> 'w \<Rightarrow> int \<times> 'w"
  bw_socket :: "'w \<Rightarrow> int \<times> 'w"
  bw_connect :: "int \<Rightarrow> sockaddr_in \<Rightarrow> 'w \<Rightarrow> int \<times> 'w"
  bw_fork :: "child \<Rightarrow> 'w \<Rightarrow> int \<times> 'w"
  bw_waitpid :: "int \<Rightarrow> 'w \<Rightarrow> (int \<times> u32) \<times> 'w"
  bw_alloc :: "int \<Rightarrow> 'w \<Rightarrow> bool \<times> 'w"
  bw_fopen :: "string \<Rightarrow> 'w \<Rightarrow> bool \<times> 'w"
  bw_raw_lines :: "(string \<times> nat \<times> u64) list \<Rightarrow> 'w \<Rightarrow> 'w"
  bw_print :: "bench_report \<Rightarrow> 'w \<Rightarrow> 'w"
  bw_mkdir :: "string \<Rightarrow> 'w \<Rightarrow> int \<times> 'w"
  bw_mkdtemp :: "'w \<Rightarrow> string option \<times> 'w"
  bw_setaffinity :: "int \<Rightarrow> 'w \<Rightarrow> int \<times> 'w"

abbreviation (input) BENCH_EINTR :: int where "BENCH_EINTR \<equiv> 4"
abbreviation (input) BENCH_EIO :: int where "BENCH_EIO \<equiv> 5"
abbreviation (input) BENCH_ECHILD :: int where "BENCH_ECHILD \<equiv> 10"
abbreviation (input) BENCH_ENOMEM :: int where "BENCH_ENOMEM \<equiv> 12"
abbreviation (input) BENCH_EEXIST :: int where "BENCH_EEXIST \<equiv> 17"
abbreviation (input) BENCH_EINVAL :: int where "BENCH_EINVAL \<equiv> 22"

text \<open>Sequencing: the rest of a computation runs when the first part neither exits nor hangs.\<close>

definition and_then :: "((int + 'a) \<times> 'w) option \<Rightarrow> ('a \<Rightarrow> 'w \<Rightarrow> ((int + 'b) \<times> 'w) option) \<Rightarrow> ((int + 'b) \<times> 'w) option" where
  "and_then m f =
     (case m of
        None \<Rightarrow> None
      | Some (Inl code, w) \<Rightarrow> Some (Inl code, w)
      | Some (Inr a, w) \<Rightarrow> f a w)"

definition ret :: "'a \<Rightarrow> 'w \<Rightarrow> ((int + 'a) \<times> 'w) option" where
  "ret a w = Some (Inr a, w)"

definition now_ns :: "'w bench_world \<Rightarrow> 'w \<Rightarrow> ((int + u64) \<times> 'w) option" where
  "now_ns k w =
     (case bw_clock k w of
        (None, w) \<Rightarrow> Some (Inl 1, w)
      | (Some (sec, nsec), w) \<Rightarrow> ret (sec * 1000000000 + nsec) w)"

section \<open>The timed operations\<close>

record bench_ctx =
  bc_open_path :: string
  bc_write_path :: string
  bc_write_fd :: int
  bc_payload :: bytes
  bc_payload_bytes :: int
  bc_connect_addr :: sockaddr_in

text \<open>A sample is its return code and, when it succeeds, the latency it stores.\<close>

type_synonym sample = "int \<times> u64 option"

definition sample_open :: "'w bench_world \<Rightarrow> bench_ctx \<Rightarrow> 'w \<Rightarrow> ((int + sample) \<times> 'w) option" where
  "sample_open k ctx w =
     and_then (now_ns k w) (\<lambda>start w.
       let (fd, w) = bw_open k (bc_open_path ctx) Open_rdonly w
       in and_then (now_ns k w) (\<lambda>end' w.
            if fd < 0 then ret (- bw_errno k w, None) w
            else ret (0, Some (end' - start)) (bw_close k fd w)))"

definition sample_write :: "'w bench_world \<Rightarrow> bench_ctx \<Rightarrow> 'w \<Rightarrow> ((int + sample) \<times> 'w) option" where
  "sample_write k ctx w =
     (let (off, w) = bw_lseek k (bc_write_fd ctx) w
      in if off < 0 then ret (- bw_errno k w, None) w
         else
           and_then (now_ns k w) (\<lambda>start w.
             let (n, w) = bw_write k (bc_write_fd ctx) (take (nat (bc_payload_bytes ctx)) (bc_payload ctx)) w
             in and_then (now_ns k w) (\<lambda>end' w.
                  if n \<noteq> bc_payload_bytes ctx then ret (if n < 0 then - bw_errno k w else - BENCH_EIO, None) w
                  else ret (0, Some (end' - start)) w)))"

definition sample_connect :: "'w bench_world \<Rightarrow> bench_ctx \<Rightarrow> 'w \<Rightarrow> ((int + sample) \<times> 'w) option" where
  "sample_connect k ctx w =
     (let (fd, w) = bw_socket k w
      in if fd < 0 then ret (- bw_errno k w, None) w
         else
           and_then (now_ns k w) (\<lambda>start w.
             let (rc, w) = bw_connect k fd (bc_connect_addr ctx) w
             in and_then (now_ns k w) (\<lambda>end' w.
                  let saved = bw_errno k w; w = bw_close k fd w
                  in if rc \<noteq> 0 then ret (- saved, None) w else ret (0, Some (end' - start)) w)))"

partial_function (option) wait_loop :: "'w bench_world \<Rightarrow> int \<Rightarrow> 'w \<Rightarrow> ((int + u32) \<times> 'w) option" where
  "wait_loop k pid w =
     (let ((r, status), w) = bw_waitpid k pid w
      in if 0 \<le> r then Some (Inr status, w)
         else if bw_errno k w \<noteq> BENCH_EINTR then Some (Inl (- bw_errno k w), w)
         else wait_loop k pid w)"

text \<open>\<^verbatim>\<open>WIFEXITED(status) && WEXITSTATUS(status) == 0\<close>.\<close>

definition exited_zero :: "u32 \<Rightarrow> bool" where
  "exited_zero status \<longleftrightarrow> status AND 0x7f = 0 \<and> drop_bit 8 status AND 0xff = 0"

definition wait_child :: "'w bench_world \<Rightarrow> int \<Rightarrow> 'w \<Rightarrow> ((int + int) \<times> 'w) option" where
  "wait_child k pid w =
     (case wait_loop k pid w of
        None \<Rightarrow> None
      | Some (Inl rc, w) \<Rightarrow> ret rc w
      | Some (Inr status, w) \<Rightarrow> if \<not> exited_zero status then ret (- BENCH_ECHILD) w else ret 0 w)"

text \<open>\<^verbatim>\<open>fork\<close> as the parent sees it; what the child does is an argument of the world's answer.\<close>

definition sample_child :: "'w bench_world \<Rightarrow> child \<Rightarrow> 'w \<Rightarrow> ((int + sample) \<times> 'w) option" where
  "sample_child k c w =
     and_then (now_ns k w) (\<lambda>start w.
       let (pid, w) = bw_fork k c w
       in if pid < 0 then ret (- bw_errno k w, None) w
          else
            and_then (wait_child k pid w) (\<lambda>rc w.
              and_then (now_ns k w) (\<lambda>end' w.
                if rc \<noteq> 0 then ret (rc, None) w else ret (0, Some (end' - start)) w)))"

definition sample_fork :: "'w bench_world \<Rightarrow> bench_ctx \<Rightarrow> 'w \<Rightarrow> ((int + sample) \<times> 'w) option" where
  "sample_fork k ctx w = sample_child k (Child_exit 0) w"

definition sample_exec :: "'w bench_world \<Rightarrow> bench_ctx \<Rightarrow> 'w \<Rightarrow> ((int + sample) \<times> 'w) option" where
  "sample_exec k ctx w = sample_child k (Child_execve ''/bin/true'') w"

definition fn_for_op ::
  "string \<Rightarrow> ('w bench_world \<Rightarrow> bench_ctx \<Rightarrow> 'w \<Rightarrow> ((int + sample) \<times> 'w) option) option" where
  "fn_for_op op =
     (if op = ''open'' then Some sample_open else if op = ''write'' then Some sample_write
      else if op = ''connect'' then Some sample_connect else if op = ''fork'' then Some sample_fork
      else if op = ''exec'' then Some sample_exec else None)"

section \<open>Rounds\<close>

text \<open>Warm-up: the latencies are thrown away, the first failure ends it.\<close>

fun warm_up :: "nat \<Rightarrow> ('w \<Rightarrow> ((int + sample) \<times> 'w) option) \<Rightarrow> 'w \<Rightarrow> ((int + int) \<times> 'w) option" where
  "warm_up 0 fn w = ret 0 w"
| "warm_up (Suc n) fn w = and_then (fn w) (\<lambda>(rc, _) w. if rc \<noteq> 0 then ret rc w else warm_up n fn w)"

text \<open>The measured rounds: a failure gives its code, success the latencies in order. A cell that a successful sample did
  not write would keep the zero of \<^verbatim>\<open>calloc\<close>.\<close>

fun measure_rounds :: "nat \<Rightarrow> ('w \<Rightarrow> ((int + sample) \<times> 'w) option) \<Rightarrow> 'w \<Rightarrow> ((int + (int \<times> u64 list)) \<times> 'w) option" where
  "measure_rounds 0 fn w = ret (0, []) w"
| "measure_rounds (Suc n) fn w =
     and_then (fn w) (\<lambda>(rc, latency) w.
       if rc \<noteq> 0 then ret (rc, []) w
       else
         and_then (measure_rounds n fn w) (\<lambda>(rc, rest) w.
           ret (rc, (case latency of None \<Rightarrow> 0 | Some l \<Rightarrow> l) # rest) w))"

definition write_raw :: "'w bench_world \<Rightarrow> string option \<Rightarrow> string \<Rightarrow> u64 list \<Rightarrow> 'w \<Rightarrow> int \<times> 'w" where
  "write_raw k path op samples w =
     (case path of
        None \<Rightarrow> (0, w)
      | Some path \<Rightarrow>
          let (opened, w) = bw_fopen k path w
          in if \<not> opened then (- bw_errno k w, w)
             else (0, bw_raw_lines k (map (\<lambda>i. (op, i, samples ! i)) [0..<length samples]) w))"

definition run_one ::
  "'w bench_world \<Rightarrow> (real \<Rightarrow> real) \<Rightarrow> bench_ctx \<Rightarrow> string \<Rightarrow> int \<Rightarrow> int \<Rightarrow> string option \<Rightarrow> 'w \<Rightarrow> ((int + int) \<times> 'w) option" where
  "run_one k fl ctx op iterations warmup raw_path w =
     (case fn_for_op op of
        None \<Rightarrow> ret (- BENCH_EINVAL) w
      | Some fn \<Rightarrow>
          and_then (warm_up (nat warmup) (fn k ctx) w) (\<lambda>rc w.
            if rc \<noteq> 0 then ret rc w
            else
              let (samples, w) = bw_alloc k (8 * iterations) w;
                  (copy, w) = bw_alloc k (8 * iterations) w
              in if \<not> samples \<or> \<not> copy then ret (- BENCH_ENOMEM) w
                 else
                   and_then (measure_rounds (nat iterations) (fn k ctx) w) (\<lambda>(rc, samples) w.
                     if rc \<noteq> 0 then ret rc w
                     else
                       let (raw_rc, w) = write_raw k raw_path op samples w
                       in ret raw_rc (bw_print k \<lparr>br_op = op, br_iterations = iterations, br_warmup = warmup,
                            br_stats = compute_stats fl samples\<rparr> w))))"

section \<open>Setting up\<close>

definition ensure_dir :: "'w bench_world \<Rightarrow> string \<Rightarrow> 'w \<Rightarrow> int \<times> 'w" where
  "ensure_dir k path w =
     (let (rc, w) = bw_mkdir k path w
      in if rc = 0 \<or> bw_errno k w = BENCH_EEXIST then (0, w) else (- bw_errno k w, w))"

definition set_cpu :: "'w bench_world \<Rightarrow> int \<Rightarrow> 'w \<Rightarrow> int \<times> 'w" where
  "set_cpu k cpu w =
     (if cpu < 0 then (0, w)
      else let (rc, w) = bw_setaffinity k cpu w in if rc \<noteq> 0 then (- bw_errno k w, w) else (0, w))"

text \<open>\<^verbatim>\<open>htons(9)\<close> and \<^verbatim>\<open>htonl(0x7f000001)\<close> on a little-endian machine.\<close>

definition loopback :: sockaddr_in where
  "loopback = \<lparr>sin_family = 2, sin_port = 0x0900, sin_addr = 0x0100007F\<rparr>"

definition zero_ctx :: "string \<Rightarrow> bench_ctx" where
  "zero_ctx tmpdir = \<lparr>bc_open_path = take 4095 (tmpdir @ ''/open_target''), bc_write_path = take 4095 (tmpdir @ ''/write_target''),
     bc_write_fd = 0, bc_payload = [], bc_payload_bytes = 0, bc_connect_addr = \<lparr>sin_family = 0, sin_port = 0, sin_addr = 0\<rparr>\<rparr>"

definition init_ctx :: "'w bench_world \<Rightarrow> string \<Rightarrow> int \<Rightarrow> 'w \<Rightarrow> (int \<times> bench_ctx) \<times> 'w" where
  "init_ctx k tmpdir payload_bytes w =
     (let ctx = zero_ctx tmpdir;
          (fd, w) = bw_open k (bc_open_path ctx) Open_create_write w
      in if fd < 0 then ((- bw_errno k w, ctx), w)
         else
           let (n, w) = bw_write k fd [120] w
           in if n \<noteq> 1 then let saved = bw_errno k w in ((- saved, ctx), bw_close k fd w)
              else
                let w = bw_close k fd w;
                    ctx = ctx\<lparr>bc_payload_bytes := payload_bytes\<rparr>;
                    (ok, w) = bw_alloc k payload_bytes w
                in if \<not> ok then ((- BENCH_ENOMEM, ctx), w)
                   else
                     let ctx = ctx\<lparr>bc_payload := replicate (nat payload_bytes) 65\<rparr>;
                         (fd, w) = bw_open k (bc_write_path ctx) Open_create_rdwr w;
                         ctx = ctx\<lparr>bc_write_fd := fd\<rparr>
                     in if fd < 0 then ((- bw_errno k w, ctx), w)
                        else ((0, ctx\<lparr>bc_connect_addr := loopback\<rparr>), w))"

definition free_ctx :: "'w bench_world \<Rightarrow> bench_ctx \<Rightarrow> 'w \<Rightarrow> 'w" where
  "free_ctx k ctx w = (if bc_write_fd ctx > 0 then bw_close k (bc_write_fd ctx) w else w)"

section \<open>The program\<close>

fun run_all ::
  "'w bench_world \<Rightarrow> (real \<Rightarrow> real) \<Rightarrow> bench_ctx \<Rightarrow> bench_options \<Rightarrow> string list \<Rightarrow> 'w \<Rightarrow> ((int + int) \<times> 'w) option" where
  "run_all k fl ctx opts [] w = ret 0 w"
| "run_all k fl ctx opts (op # ops) w =
     and_then (run_one k fl ctx op (bo_iterations opts) (bo_warmup opts) (bo_raw_path opts) w) (\<lambda>rc w.
       if rc \<noteq> 0 then ret rc w else run_all k fl ctx opts ops w)"

definition bench_main :: "'w bench_world \<Rightarrow> (real \<Rightarrow> real) \<Rightarrow> string list \<Rightarrow> 'w \<Rightarrow> ((int + int) \<times> 'w) option" where
  "bench_main k fl args w =
     (case parse_options default_options args of
        None \<Rightarrow> Some (Inl 2, w)
      | Some opts \<Rightarrow>
          if bo_iterations opts \<le> 0 \<or> bo_warmup opts < 0 \<or> bo_payload_bytes opts \<le> 0 then Some (Inl 2, w)
          else
            let (tmpdir, w) = (case bo_tmpdir opts of
                    None \<Rightarrow> bw_mkdtemp k w
                  | Some dir \<Rightarrow> let (rc, w) = ensure_dir k dir w in (if rc \<noteq> 0 then None else Some dir, w))
            in case tmpdir of
                 None \<Rightarrow> ret 1 w
               | Some tmpdir \<Rightarrow>
                   let (rc, w) = set_cpu k (bo_cpu opts) w
                   in if rc \<noteq> 0 then ret 1 w
                      else
                        let ((rc, ctx), w) = init_ctx k tmpdir (bo_payload_bytes opts) w
                        in if rc \<noteq> 0 then ret 1 w
                           else
                             and_then
                               (run_all k fl ctx opts
                                 (if bo_op opts = ''all'' then [''open'', ''write'', ''connect'', ''fork'', ''exec''] else [bo_op opts]) w)
                               (\<lambda>rc w. let w = free_ctx k ctx w in if rc \<noteq> 0 then ret 1 w else ret 0 w))"

section \<open>The statistics are order statistics\<close>

text \<open>What the statistics rely on of \<^verbatim>\<open>long double\<close>: rounding is monotone and exact on small whole numbers.\<close>

definition sound_rounding :: "(real \<Rightarrow> real) \<Rightarrow> bool" where
  "sound_rounding fl \<longleftrightarrow> mono fl \<and> fl 0 = 0 \<and> fl 99 = 99"

lemma trunc_mono: "x \<le> y \<Longrightarrow> trunc x \<le> trunc y"
  unfolding trunc_def by (auto intro: floor_mono ceiling_mono order_trans [of _ 0])

definition percentile_index :: "(real \<Rightarrow> real) \<Rightarrow> nat \<Rightarrow> real \<Rightarrow> nat" where
  "percentile_index fl n pct = nat (min (int n - 1) (max 0 (trunc (fl (fl (fl (pct / 100) * fl (of_int (int n - 1))) + 1 / 2)))))"

lemma percentile_nth: "xs \<noteq> [] \<Longrightarrow> percentile fl xs pct = xs ! percentile_index fl (length xs) pct"
  by (auto simp: percentile_def percentile_index_def Let_def)

lemma percentile_index_less: "0 < n \<Longrightarrow> percentile_index fl n pct < n"
  by (auto simp: percentile_index_def)

lemma percentile_index_mono:
  assumes "sound_rounding fl" "p \<le> q"
  shows "percentile_index fl n p \<le> percentile_index fl n q"
proof (cases n)
  case (Suc m)
  have fl: "x \<le> y \<Longrightarrow> fl x \<le> fl y" for x y using assms(1) by (simp add: sound_rounding_def mono_def)
  have "0 \<le> fl (of_int (int n - 1))" using fl [of 0 "of_int (int n - 1)"] assms(1) Suc by (simp add: sound_rounding_def)
  then have "fl (p / 100) * fl (of_int (int n - 1)) \<le> fl (q / 100) * fl (of_int (int n - 1))"
    using fl assms(2) by (intro mult_right_mono) simp_all
  then have "fl (fl (fl (p / 100) * fl (of_int (int n - 1))) + 1 / 2) \<le> fl (fl (fl (q / 100) * fl (of_int (int n - 1))) + 1 / 2)"
    by (intro fl add_right_mono)
  from trunc_mono [OF this] show ?thesis unfolding percentile_index_def by (intro nat_mono) linarith
qed (simp add: percentile_index_def)

lemma percentile_mono:
  assumes "sound_rounding fl" "p \<le> q" "sorted xs" "xs \<noteq> []"
  shows "percentile fl xs p \<le> percentile fl xs q"
  using assms percentile_index_mono [OF assms(1,2)] percentile_index_less [of "length xs"]
  by (simp add: percentile_nth sorted_nth_mono)

lemma percentile_bounds:
  assumes "xs \<noteq> []"
  shows "percentile fl (sort xs) p \<in> set xs" "sort xs ! 0 \<le> percentile fl (sort xs) p"
    "percentile fl (sort xs) p \<le> sort xs ! (length xs - 1)"
proof -
  have ne: "sort xs \<noteq> []" using assms by (metis set_empty set_sort)
  let ?i = "percentile_index fl (length xs) p"
  have i: "percentile fl (sort xs) p = sort xs ! ?i" "?i < length xs"
    using percentile_nth [OF ne] percentile_index_less [of "length xs"] assms by simp_all
  then show "percentile fl (sort xs) p \<in> set xs" by (metis length_sort nth_mem set_sort)
  show "sort xs ! 0 \<le> percentile fl (sort xs) p" "percentile fl (sort xs) p \<le> sort xs ! (length xs - 1)"
    unfolding i(1) using i(2) by (simp_all add: sorted_nth_mono)
qed

text \<open>The numbers printed for a run are samples of it, in ascending order, from the least to the greatest.\<close>

lemma stats_ordered:
  assumes "sound_rounding fl" "samples \<noteq> []"
  shows "let s = compute_stats fl samples
    in sorted [st_min s, st_p50 s, st_p90 s, st_p95 s, st_p99 s, st_p999 s, st_max s] \<and>
       set [st_min s, st_p50 s, st_p90 s, st_p95 s, st_p99 s, st_p999 s, st_max s] \<subseteq> set samples \<and>
       st_min s = Min (set samples) \<and> st_max s = Max (set samples)"
proof -
  let ?s = "sort samples" and ?n = "length samples"
  note b = percentile_bounds [OF assms(2)]
  have ne: "?s \<noteq> []" using assms(2) by (metis set_empty set_sort)
  have m: "p \<le> q \<Longrightarrow> percentile fl ?s p \<le> percentile fl ?s q" for p q
    by (rule percentile_mono [OF assms(1) _ sorted_sort ne])
  have "99 \<le> fl (999 / 10)" using assms(1) monoD [of fl 99 "999 / 10"] by (simp add: sound_rounding_def)
  note chain = m [of 50 90] m [of 90 95] m [of 95 99] m [OF this] b(2) [of fl 50] b(3) [of fl "fl (999 / 10)"]
  have ends: "?s ! 0 \<in> set samples" "?s ! (?n - 1) \<in> set samples"
    using nth_mem [of 0 ?s] nth_mem [of "?n - 1" ?s] assms(2) by simp_all
  have "x \<in> set samples \<Longrightarrow> ?s ! 0 \<le> x \<and> x \<le> ?s ! (?n - 1)" for x
  proof -
    assume "x \<in> set samples"
    then obtain i where "i < ?n" "x = ?s ! i" by (metis in_set_conv_nth length_sort set_sort)
    then show "?s ! 0 \<le> x \<and> x \<le> ?s ! (?n - 1)" by (simp add: sorted_nth_mono)
  qed
  then have "?s ! 0 = Min (set samples)" "?s ! (?n - 1) = Max (set samples)"
    using ends by (auto intro!: Min_eqI [symmetric] Max_eqI [symmetric])
  with chain ends b(1) show ?thesis by (simp add: compute_stats_def Let_def sorted1 sorted2 del: sorted_wrt.simps(2))
qed

section \<open>Rounds and exit status\<close>

lemma measure_rounds_length: "measure_rounds n fn w = Some (Inr (0, samples), w') \<Longrightarrow> length samples = n"
  by (induction n arbitrary: w samples)
    (auto simp: ret_def and_then_def split: option.splits sum.splits if_splits prod.splits)

text \<open>The program exits with 2 when it does not understand its arguments, with 1 when the clock or a step fails, and
  with 0 otherwise.\<close>

definition quits_with :: "int set \<Rightarrow> ((int + 'a) \<times> 'w) option \<Rightarrow> bool" where
  "quits_with C m \<longleftrightarrow> (\<forall>c w. m = Some (Inl c, w) \<longrightarrow> c \<in> C)"

lemma quits_and_then: "quits_with C m \<Longrightarrow> (\<And>a w. quits_with C (f a w)) \<Longrightarrow> quits_with C (and_then m f)"
  by (auto simp: quits_with_def and_then_def split: option.splits sum.splits prod.splits)

lemma quits_ret [simp]: "quits_with C (ret a w)"
  by (simp add: quits_with_def ret_def)

lemma quits_now: "quits_with {1} (now_ns k w)"
  by (simp add: quits_with_def now_ns_def ret_def split: prod.split option.split)

lemma quits_wait: "quits_with {1} (wait_child k pid w)"
  by (auto simp: quits_with_def wait_child_def ret_def split: option.splits sum.splits prod.splits if_splits)

lemma quits_sample: "fn_for_op op = Some fn \<Longrightarrow> quits_with {1} (fn k ctx w)"
  by (auto simp: fn_for_op_def sample_open_def sample_write_def sample_connect_def sample_fork_def sample_exec_def sample_child_def
      Let_def intro!: quits_and_then quits_now quits_wait split: if_splits prod.split)

lemma quits_rounds:
  assumes "\<And>w. quits_with {1} (fn w)"
  shows "quits_with {1} (warm_up n fn w)" "quits_with {1} (measure_rounds n fn w)"
  using assms by (induction n arbitrary: w) (auto intro!: quits_and_then)

lemma quits_run_one: "quits_with {1} (run_one k fl ctx op iterations warmup raw w)"
  by (auto simp: run_one_def Let_def intro!: quits_and_then quits_rounds quits_sample split: option.split prod.split)

lemma quits_run_all: "quits_with {1} (run_all k fl ctx opts ops w)"
  by (induction ops arbitrary: w) (auto intro!: quits_and_then quits_run_one)

definition ends_with :: "(int + 'a) set \<Rightarrow> ((int + 'a) \<times> 'w) option \<Rightarrow> bool" where
  "ends_with R m \<longleftrightarrow> (\<forall>r w. m = Some (r, w) \<longrightarrow> r \<in> R)"

lemma ends_const [simp]:
  "ends_with R (ret a w) \<longleftrightarrow> Inr a \<in> R" "ends_with R (Some (r, w)) \<longleftrightarrow> r \<in> R"
  by (simp_all add: ends_with_def ret_def)

lemma ends_and_then:
  "quits_with C m \<Longrightarrow> Inl ` C \<subseteq> R \<Longrightarrow> (\<And>a w. ends_with R (f a w)) \<Longrightarrow> ends_with R (and_then m f)"
  by (auto simp: ends_with_def quits_with_def and_then_def split: option.splits sum.splits prod.splits)

lemma bench_status: "ends_with {Inl 1, Inl 2, Inr 0, Inr 1} (bench_main k fl args w)"
  unfolding bench_main_def Let_def case_prod_beta
  by (auto simp del: run_all.simps intro!: ends_and_then [OF quits_run_all] split: option.split)

text \<open>A write that stores nothing and sets no error is taken for success: the benchmark then goes on without a payload and
  with descriptor 0 as its file.\<close>

lemma init_ctx_short_write:
  assumes "bw_open k (take 4095 (dir @ ''/open_target'')) Open_create_write w = (fd, w1)" "0 \<le> fd"
    and "bw_write k fd [120] w1 = (0, w2)" "bw_errno k w2 = 0"
  shows "fst (init_ctx k dir n w) = (0, zero_ctx dir)"
  using assms by (simp add: init_ctx_def zero_ctx_def Let_def)

text \<open>Five samples, in exact arithmetic.\<close>

lemma stats_example:
  "sound_rounding id" "st_p50 (compute_stats id [40, 10, 30, 50, 20]) = 30" "st_p90 (compute_stats id [40, 10, 30, 50, 20]) = 50"
  "st_mean (compute_stats id [40, 10, 30, 50, 20]) = 30"
  by (simp_all add: sound_rounding_def mono_def compute_stats_def percentile_def trunc_def Let_def)

end
