(* ===== verification/Spec2Isabelle.thy ===== *)
theory Spec2Isabelle
  imports Control_Plane Delta_Liveness Unit_Tests Legacy_Events Microbench
begin

text \<open>
  ActPlane: in-kernel information flow control for processes.

  \<^bold>\<open>The program.\<close> A policy compiler (Rust, not part of this development) lowers policies to a table of
  \<^emph>\<open>updates\<close> (an exec, open, write, connect or receive that matches a pattern adds or removes labels, fires gates
  and invalidations) and a table of \<^emph>\<open>rules\<close> (an operation that matches a pattern by a process with given labels
  is reported, blocked or killed). A C loader (\<^verbatim>\<open>bpf/process.c\<close>) puts the tables into BPF maps. BPF programs
  (\<^verbatim>\<open>bpf/process.bpf.c\<close>) on LSM hooks, scheduler tracepoints and system call tracepoints turn kernel events
  into calls of the taint engine (\<^verbatim>\<open>bpf/taint_engine.bpf.h\<close>), which moves labels between processes, files and
  network endpoints in every domain of the process, evaluates the rules and writes reports to a ring buffer that
  the loader prints. Runtime domains (\<^verbatim>\<open>bpf/capability.bpf.h\<close>) form a tree; a process may append updates and
  rules to its domain through a request ring, within the authority its domain holds.

  \<^bold>\<open>The theories\<close>, in the order of the code's layers; each imports the ones before it that it needs.

  \<^item> \<^verbatim>\<open>AP_Prelude\<close>: machine integers, C strings in buffers, bounded loops with early exit
    (\<^verbatim>\<open>bpf_loop\<close>, \<^verbatim>\<open>for\<close> with \<^verbatim>\<open>break\<close>), masks read as sets of bits.
  \<^item> \<^verbatim>\<open>Bpf_Map\<close>, \<^verbatim>\<open>Lru_Map\<close>: the kernel's hash, array and LRU maps. A hash map refuses a new key when
    full; an LRU map may drop any entry, which one being an oracle in the map. The locales \<open>kv_map\<close> and
    \<open>cache_map\<close> are the contracts the clients rely on, interpreted on these maps.
  \<^item> \<^verbatim>\<open>Taint_Match\<close>, \<^verbatim>\<open>Taint_Args\<close> (\<^verbatim>\<open>taint.h\<close> and the head of the engine): the branchless pattern
    matchers in both builds, the tokeniser of argv, the label predicate. The lemmas relate them to equality,
    prefix, suffix and substring of strings, and to the list of argv tokens.
  \<^item> \<^verbatim>\<open>Policy_Tables\<close>, \<^verbatim>\<open>Capability\<close>: the entries of the tables; domains, authority, admission and
    application of deltas (\<^verbatim>\<open>capability.bpf.h\<close>). The lemmas state who is admitted, that draining
    only narrows, that each record is accounted for, and that a rejected delta changes nothing.
  \<^item> \<^verbatim>\<open>Engine_State\<close>, \<^verbatim>\<open>Provenance\<close>, \<^verbatim>\<open>Sessions\<close>, \<^verbatim>\<open>Updates\<close>, \<^verbatim>\<open>Flows\<close>: the engine's maps,
    provenance records, gates with epochs, the collection of updates, and the flows (fork, exec, read, write,
    connect, receive, rename, exit).
  \<^item> \<^verbatim>\<open>Label_Semantics\<close>, \<^verbatim>\<open>Flow_Properties\<close>: the abstract semantics, a record \<open>ifc\<close> of label sets for
    processes, files and endpoints per domain, with one join per operation, and the refinement of it by every flow.
  \<^item> \<^verbatim>\<open>Engine_Machine\<close>: any interleaving of engine operations keeps the engine's invariant; exit gates; and what each
    operation does to a session is at most one event of the histories that \<^verbatim>\<open>Sessions\<close> describes (a tick with its
    stamps, or the late stamp of an exit gate).
  \<^item> \<^verbatim>\<open>Rules\<close>: evaluation of the rule table, which returns the first of the strongest matching rules.
  \<^item> \<^verbatim>\<open>Sensor\<close>, \<^verbatim>\<open>Enforcement\<close>: event handling in \<^verbatim>\<open>process.bpf.c\<close>; what is denied, killed and reported.
  \<^item> \<^verbatim>\<open>Exec_Pipe\<close>: the exec programs chained by tail calls, against one scan of each table.
  \<^item> \<^verbatim>\<open>Resolve\<close>: paths, file identities and socket addresses from kernel objects and user memory.
  \<^item> \<^verbatim>\<open>Fd_Tables\<close>, \<^verbatim>\<open>Fd_Properties\<close>: what descriptors, file pointers and memory mappings stand for, with the
    pending records between the entry and the exit of a system call.
  \<^item> \<^verbatim>\<open>Hooks\<close>, \<^verbatim>\<open>Syscalls\<close>: every LSM program, scheduler program and system call program, under its own
    name.
  \<^item> \<^verbatim>\<open>Sensor_Machine\<close>: the step relation over all programs in arbitrary task contexts, its invariants by the
    locale \<open>program_contract\<close> (interpreted for the engine and for the mapping table), and what an exit removes.
    The relation is parametrised by the processes that may be created or end during a run.
  \<^item> \<^verbatim>\<open>Hook_Properties\<close>: the open hook, the conditions of the control plane's hooks, renames.
  \<^item> \<^verbatim>\<open>Label_Life\<close>: what happens to the labels of one process while it lives, by a third interpretation of
    \<open>program_contract\<close>: the policy only grows and labels go only by an exec update. With the verdicts of the hooks this
    gives the guarantee the system is built for: a process that has read labelled data is denied the connections
    a rule forbids, whatever runs in between.
  \<^item> \<^verbatim>\<open>Delta_Liveness\<close>: infinite runs of the sensor; a rule that is admitted while it waits in the request ring is in force
    for ever from the drain that reads it on.
  \<^item> \<^verbatim>\<open>Loader\<close>, \<^verbatim>\<open>Loader_Properties\<close>, \<^verbatim>\<open>Reports\<close>: the loader: features, choice of programs, filling the
    maps, seeding a process, and the JSON line printed for a report with a reader for JSON strings.
  \<^item> \<^verbatim>\<open>Config_Blob\<close>, \<^verbatim>\<open>Loader_Main\<close>: the policy file, byte by byte in the layout of \<^verbatim>\<open>struct taint_config\<close>, and
    the loader's \<^verbatim>\<open>main\<close> from its arguments to its exit status, with the answers of the C library, libbpf and the kernel
    in the record \<open>loader_world\<close>. What \<^verbatim>\<open>argp\<close> meets on the command line is a list of events: calls of the parser, its
    own options (which end the program with status 0), refused options. The poll loop may run for ever: it is a partial function, and when it returns is
    a theorem.
  \<^item> \<^verbatim>\<open>Deployment\<close>: the loader and the sensor together: what stays of a loaded policy in every run; below is the
    property that spans them.
  \<^item> \<^verbatim>\<open>Control_Plane\<close>: what is in place when the loader reports ready, and the protection of the control plane in every
    state reached from there, by a fourth interpretation of \<open>program_contract\<close> (who is protected).
  \<^item> \<^verbatim>\<open>Unit_Tests\<close>: the test program of the matchers (\<^verbatim>\<open>test_taint.c\<close>), evaluated on the model.
  \<^item> \<^verbatim>\<open>Legacy_Match\<close>, \<^verbatim>\<open>Legacy_Scan\<close>: the build for Linux 5.10 (\<^verbatim>\<open>ACTPLANE_LEGACY_KERNEL\<close>): the word-wise path
    matcher, the 16-byte matcher of command names, the tables grouped by operation and the scans of one group,
    each shown to agree with the regular build on policies within the limits of that build.
  \<^item> \<^verbatim>\<open>Legacy_Exec\<close>, \<^verbatim>\<open>Legacy_Flows\<close>: the exec programs and the flows of that build, with one domain, one pass over
    each group and no argument vector; up to the provenance that exec does not record there, each does what the regular
    build does in the global domain.
  \<^item> \<^verbatim>\<open>Legacy_Events\<close>: the file and network handlers of that build: the same verdicts, signals and reports, and the flows of
    the global domain.
  \<^item> \<^verbatim>\<open>Microbench\<close>: the benchmark that measures the sensor's cost (\<^verbatim>\<open>syscall_microbench.c\<close>): options, timed
    operations, rounds and statistics; its wait loop is a partial function. The lemmas state that the printed numbers
    are the order statistics of the samples and which exit statuses there are.

  \<^bold>\<open>State.\<close> The records extend each other as the layers do: \<open>cap_maps\<close> (domains, tables and the two read-only
  globals), \<open>engine\<close> (label, session and provenance maps), \<open>sensor\<close> (ring buffer, current task, signals sent),
  \<open>tables\<close> (descriptors, mappings, pending records, user memory and kernel objects). A program is a function from
  a state to a state, with the return code where the program has one. What the programs ask the kernel is
  part of the state or an argument: the current pid and name, the clock (\<open>ktime\<close>, with a counter for successive
  calls), whether a ring buffer reservation or a tail call succeeds, what a user pointer reads.

  \<^bold>\<open>Bounds.\<close> Loops have the bounds of the source (64 labels, 128 rules, 320 updates, 8 domains, 8 mapping
  slots, 64 inherited descriptors); no definition uses fuel, and all are total but the loader's poll loop and the
  wait loop of the benchmark, for which \<^const>\<open>None\<close> stands for running for ever. Integers keep their width; epochs and offsets wrap as in C. Theorems that need a free slot in a hash map say so (\<open>room\<close>,
  \<open>label_room\<close>, \<open>lru_roomy\<close>), since a full map drops the update.

  \<^bold>\<open>Not modelled.\<close> Races between CPUs inside one program (a step is one whole program); a second copy of the hooks and
  system call programs for the build under \<^verbatim>\<open>ACTPLANE_LEGACY_KERNEL\<close>, whose text is that of the regular build around the
  handlers, scans and flows modelled for it (it has no request ring and no separate rename programs); the messages the
  loader writes to the error output and the layout of the help texts \<^verbatim>\<open>argp\<close> formats; what a process writes into the maps
  through the bpf system call once the hook has let it; what libbpf does to open, load and attach the programs; the Rust policy compiler and runtime; generated kernel headers.
\<close>

section \<open>From the policy file to the running sensor\<close>

text \<open>C4: a loaded policy stays in force. When the loader has read a policy file, filled fresh maps, attached the
  programs and seeded its process, then in every state the sensor reaches (the programs may already run between
  the attachment and the seeding) the engine is well formed, the enforcement mode and the features are those the
  loader chose, the rules and updates of the file stand at the head of the tables in their order, and every rule
  is still bound to its domain.\<close>

theorem loaded_policy_in_force:
  fixes st t u :: "'a tables_scheme"
  assumes "fresh_maps st" "prov_ok st" "prepare w = Inr p" "bring_up w p st = (0, t)"
    and "\<And>s. sensor_reach s (w_window w s)" "sensor_reach t u"
  shows "engine_ok u \<and> enforce_mode u = (if pl_enforce p then 1 else 0) \<and>
    policy_features u = loader_features (pl_cfg p) (pl_full p) (pl_reserve p) \<and>
    prefix (cfg_rules (pl_cfg p)) (active_rules u) \<and> prefix (cfg_updates (pl_cfg p)) (active_updates u) \<and>
    (\<forall>i < length (cfg_rules (pl_cfg p)). cap_policy_rule_bound u (ru_domain_id (cfg_rules (pl_cfg p) ! i)) i)"
proof -
  obtain s :: "'a tables_scheme" where "policy_installed (pl_cfg p) (w_getpid w) s"
    "enforce_mode s = (if pl_enforce p then 1 else 0)" "policy_features s = loader_features (pl_cfg p) (pl_full p) (pl_reserve p)"
    "engine_ok u" "policy_stands s u"
    using bring_up_reach [OF assms] by metis
  then show ?thesis by (auto simp: policy_installed_def policy_stands_def)
qed

theorem loaded_policy_in_force_witness:
  "\<exists>t. bring_up quiet_world quiet_plan fresh_tables = (0, t) \<and> enforce_mode (handle_fork 6 t) = 1 \<and>
     prefix (cfg_rules blank_config) (active_rules (handle_fork 6 t))"
proof -
  obtain t where t: "bring_up quiet_world quiet_plan fresh_tables = (0, t)"
    using quiet_up [OF fresh_tables_fresh(1)]
    by (auto simp: fresh_tables_def guard_tables_defs guard_defs example_simps)
  have "sensor_reach t (handle_fork 6 t)"
    by (intro sensor_reach_in.step [OF sensor_reach_in.start] on_fork TrueI)
  moreover have "sensor_reach s (w_window quiet_world s)" for s :: tables
    unfolding quiet_fields(5) by (rule sensor_reach_in.start)
  ultimately show ?thesis
    using loaded_policy_in_force [OF fresh_tables_fresh quiet_prepare t] t by (auto simp: quiet_plan_def)
qed

end
